(* ===== verification/Prelude.thy ===== *)
theory Prelude
  imports Main "HOL-Library.Word" "HOL-Library.Monad_Syntax"
begin

text \<open>
  Types, automation collections and generic lemmas shared by every component: machine
  integers as words, bytes of a word in network order, and the partial update of a memory
  block (\<open>overwrite\<close>), which is how a write through a C pointer changes a buffer.
\<close>

unbundle bit_operations_syntax

type_synonym u8 = "8 word"
type_synonym u16 = "16 word"
type_synonym u24 = "24 word"
type_synonym u32 = "32 word"
type_synonym u64 = "64 word"

text \<open>A block of memory that a pointer designates, from the pointer to the end of the object.\<close>

type_synonym mem = "u8 list"

text \<open>
  \<open>emit_intros\<close> collects the rules that say which bytes an encoder command emits,
  \<open>wire_simps\<close> the defining equations of wire formats and of the bytes of a word, and
  \<open>c_defs\<close> the definitions that unfold a translated C function.
\<close>

named_theorems emit_intros "bytes emitted by encoder commands"
named_theorems wire_simps "wire formats and the bytes of a word"
named_theorems c_defs "definitions of translated C functions"

subsection \<open>Words\<close>

lemma unat_u32_of_nat: "n < 4294967296 \<Longrightarrow> unat (of_nat n :: u32) = n"
  by (simp add: unat_of_nat take_bit_nat_eq_self)

lemma unat_u8_less: "unat (x :: u8) < 256"
  using unsigned_less [of x, where 'a = nat] by simp

lemma unat_u16_less: "unat (x :: u16) < 65536"
  using unsigned_less [of x, where 'a = nat] by simp

lemma unat_u32_less: "unat (x :: u32) < 4294967296"
  using unsigned_less [of x, where 'a = nat] by simp

lemma unat_ucast_u8_u32 [simp]: "unat (ucast (x :: u8) :: u32) = unat x"
  using unat_u8_less [of x] by (simp add: unsigned_ucast_eq take_bit_nat_eq_self)

lemma unat_ucast_u8_u16 [simp]: "unat (ucast (x :: u8) :: u16) = unat x"
  using unat_u8_less [of x] by (simp add: unsigned_ucast_eq take_bit_nat_eq_self)

lemma unat_ucast_u16_u32 [simp]: "unat (ucast (x :: u16) :: u32) = unat x"
  using unat_u16_less [of x] by (simp add: unsigned_ucast_eq take_bit_nat_eq_self)

text \<open>The unsigned difference \<open>len - decoded\<close>, when it does not wrap.\<close>

lemma unat_u32_minus_of_nat:
  assumes "n \<le> unat (len :: u32)"
  shows "unat (len - of_nat n) = unat len - n"
proof -
  have "unat (of_nat n :: u32) = n"
    using assms unat_u32_less [of len] by (simp add: unat_u32_of_nat)
  with assms show ?thesis
    by (simp add: unat_sub word_le_nat_alt)
qed

text \<open>A 32-bit value below \<open>2^31\<close> read as a signed integer.\<close>

lemma sint_small: "unat (len :: u32) < 2147483648 \<Longrightarrow> sint len = int (unat len)"
proof -
  assume "unat len < 2147483648"
  then have "int (unat len) < int 2147483648" by (simp only: of_nat_less_iff)
  then have "signed_take_bit 31 (uint len) = uint len"
    by (intro signed_take_bit_int_eq_self) (simp_all add: order.trans [OF _ uint_ge_0])
  then show ?thesis by (simp add: sint_uint)
qed

lemma le_uint: "n \<le> unat (w :: 'a :: len word) \<Longrightarrow> int n \<le> uint w"
  using of_nat_mono [of n "unat w", where 'a = int] by simp

lemma ucast_of_nat_u16 [simp]: "ucast (of_nat n :: u32) = (of_nat n :: u16)"
  by (simp add: unsigned_of_nat of_nat_take_bit take_bit_word_eq_self)

text \<open>The two bytes of a 16-bit value in network order, and the value read back.\<close>

definition hi8 :: "u16 \<Rightarrow> u8" where [wire_simps]: "hi8 v = ucast (drop_bit 8 v)"
definition lo8 :: "u16 \<Rightarrow> u8" where [wire_simps]: "lo8 v = ucast v"

definition be16 :: "u8 \<Rightarrow> u8 \<Rightarrow> u16" where
  "be16 h l = push_bit 8 (ucast h) OR ucast l"

lemma be16_hi_lo [simp]: "be16 (hi8 v) (lo8 v) = v"
  unfolding be16_def hi8_def lo8_def
  by (rule bit_word_eqI) (auto simp: bit_simps)

lemma hi8_be16 [simp]: "hi8 (be16 h l) = h"
  unfolding be16_def hi8_def
  by (rule bit_word_eqI) (auto simp: bit_simps not_less dest: bit_imp_le_length)

lemma lo8_be16 [simp]: "lo8 (be16 h l) = l"
  unfolding be16_def lo8_def
  by (rule bit_word_eqI) (auto simp: bit_simps dest: bit_imp_le_length)

lemma plus_disjoint: "a AND b = 0 \<Longrightarrow> a + b = a OR (b :: 'a :: len word)"
  using word_plus_and_or [of a b] by simp

text \<open>A sum of two octets, one shifted, cut back to an octet: the shifted one is lost.\<close>

lemma ucast_shift_plus [simp]: "ucast (push_bit 8 (ucast (h :: u8)) + ucast (l :: u8) :: u32) = l"
proof -
  have "push_bit 8 (ucast h) AND (ucast l :: u32) = 0"
    by (rule bit_word_eqI) (auto simp: bit_simps dest: bit_imp_le_length)
  then show ?thesis
    by (simp add: plus_disjoint) (rule bit_word_eqI, auto simp: bit_simps)
qed

text \<open>The two octets of a length, computed with \<open>/ 256\<close> and \<open>% 256\<close>.\<close>

definition len16 :: "u32 \<Rightarrow> u8 list" where
  "len16 n = [ucast (n div 256), ucast (n mod 256)]"

lemma length_len16 [simp]: "length (len16 n) = 2"
  by (simp add: len16_def)

lemma unat_mod256: "unat (ucast (n mod 256 :: u32) :: u8) = unat n mod 256"
  by (simp add: unsigned_ucast_eq take_bit_eq_mod unat_mod)

subsection \<open>Fields packed into an octet\<close>

text \<open>The masks the code uses, as masks of the library, so that \<open>bit_simps\<close> applies.\<close>

lemma octet_masks:
  "(0xF0 :: u8) = push_bit 4 (mask 4)" "(7 :: u8) = mask 3" "(0x0F :: u8) = mask 4"
  "(1 :: u8) = mask 1" "(0xE0 :: u8) = push_bit 5 (mask 3)" "(0x1F :: u8) = mask 5"
  "(0x3F :: u8) = mask 6" "(3 :: u8) = mask 2"
  by (simp_all add: mask_eq_exp_minus_1)

text \<open>A half-octet identifier and a value of at most four bits below it.\<close>

lemma half_octet_iei [simp]:
  "((iei AND 0xF0) OR (v AND 7)) AND 0xF0 = (iei AND 0xF0 :: u8)"
  "((iei AND 0xF0) OR (v AND 0x0F)) AND 0xF0 = (iei AND 0xF0 :: u8)"
  unfolding octet_masks by (rule bit_word_eqI; auto simp: bit_simps)+

lemma half_octet_value [simp]:
  "((iei AND 0xF0) OR (v AND 7)) AND 7 = (v AND 7 :: u8)"
  "((iei AND 0xF0) OR (v AND 0x0F)) AND 0x0F = (v AND 0x0F :: u8)"
  unfolding octet_masks by (rule bit_word_eqI; auto simp: bit_simps)+

lemma low_and_high [simp]: "(v AND 7) AND 0xF0 = (0 :: u8)"
  by (simp add: and.assoc)

lemma ucast_3_and_7 [simp]: "ucast (ucast (v :: 3 word) AND 7 :: u8) = v"
  unfolding octet_masks by (rule bit_word_eqI) (auto simp: bit_simps)

text \<open>An identifier that occupies the upper half of an octet only.\<close>

definition type1 :: "u8 \<Rightarrow> bool" where
  "type1 iei \<longleftrightarrow> iei AND 0xF0 = iei"

lemma type1_eq [simp]: "type1 iei \<Longrightarrow> (iei = iei AND 0xF0) = True"
  by (simp add: type1_def)

lemma and_F0_idem [simp]: "(x AND 0xF0) AND 0xF0 = (x AND 0xF0 :: u8)"
  by (simp add: and.assoc)

lemma or_10_and_F0: "(iei OR 0x10) AND 0xF0 = ((iei AND 0xF0) OR 0x10 :: u8)"
  by (simp add: bit.conj_disj_distrib2)

lemma ucast3_ucast8 [simp]: "ucast (ucast (v :: 3 word) :: u8) = v"
  by (rule bit_word_eqI) (auto simp: bit_simps)

text \<open>Three bits over five, as in the GPRS timers.\<close>

lemma three_over_five [simp]:
  "ucast (drop_bit 5 ((push_bit 5 (ucast (u :: 3 word)) OR ucast (t :: 5 word)) AND 0xE0 :: u8)) = u"
  "ucast ((push_bit 5 (ucast (u :: 3 word)) OR ucast (t :: 5 word)) AND 0x1F :: u8) = t"
  unfolding octet_masks by (rule bit_word_eqI; auto simp: bit_simps dest: bit_imp_le_length)+

lemma unat_less: "unat (x :: 'a::len word) < 2 ^ LENGTH('a)"
  by (rule unsigned_less)

lemma unat_plus_one: "unat (x + 1 :: 'a::len word) = (if x + 1 = 0 then 0 else unat x + 1)"
  by (cases "x + 1 = 0") (simp_all add: unatSuc add.commute)

lemma plus_one_zero: "(x + 1 = 0) = (unat (x :: 'a::len word) = 2 ^ LENGTH('a) - 1)"
proof
  assume "x + 1 = 0"
  then have "x = - 1" by (simp add: eq_neg_iff_add_eq_0)
  then show "unat x = 2 ^ LENGTH('a) - 1" by (simp add: unsigned_minus_1_eq_mask mask_eq_exp_minus_1)
next
  assume "unat x = 2 ^ LENGTH('a) - 1"
  then have "unat x = unat (- 1 :: 'a word)" by (simp add: unsigned_minus_1_eq_mask mask_eq_exp_minus_1)
  then have "x = - 1" by (rule unsigned_word_eqI)
  then show "x + 1 = 0" by simp
qed

end
