(* ===== verification/Codec.thy ===== *)
theory Codec
  imports Prelude
begin

text \<open>
  The TLV layer under every NAS codec: the error codes and the \<open>ENCODE_U8\<close> \<dots>
  \<open>DECODE_U16\<close> macros of \<open>common/common_defs.h\<close>, the checking macros of
  \<open>TLVEncoder.h\<close> and \<open>TLVDecoder.h\<close>, \<open>encode_bstring\<close> and \<open>decode_bstring\<close>.

  A buffer pointer is the list of the bytes from the pointer to the end of the object it points
  into (\<open>None\<close> is \<open>NULL\<close>); an access outside that list is undefined behaviour and makes
  the whole result \<open>None\<close>. An encoder is a list of commands run from the cursor
  \<open>encoded\<close>; each command continues, returns early with a code, or is undefined. The write-only
  globals \<open>errorCodeEncoder\<close> and \<open>errorCodeDecoder\<close> are not part of the state.
\<close>

subsection \<open>Error codes\<close>

datatype error_code_e =
    TLV_MAC_MISMATCH | TLV_BUFFER_NULL | TLV_BUFFER_TOO_SHORT | TLV_PROTOCOL_NOT_SUPPORTED
  | TLV_WRONG_MESSAGE_TYPE | TLV_OCTET_STRING_TOO_LONG_FOR_IEI | TLV_VALUE_DOESNT_MATCH
  | TLV_MANDATORY_FIELD_NOT_PRESENT | TLV_UNEXPECTED_IEI | TLV_ERROR_OK

fun err :: "error_code_e \<Rightarrow> int" where
  "err TLV_MAC_MISMATCH = -14"
| "err TLV_BUFFER_NULL = -13"
| "err TLV_BUFFER_TOO_SHORT = -12"
| "err TLV_PROTOCOL_NOT_SUPPORTED = -11"
| "err TLV_WRONG_MESSAGE_TYPE = -10"
| "err TLV_OCTET_STRING_TOO_LONG_FOR_IEI = -9"
| "err TLV_VALUE_DOESNT_MATCH = -4"
| "err TLV_MANDATORY_FIELD_NOT_PRESENT = -3"
| "err TLV_UNEXPECTED_IEI = -2"
| "err TLV_ERROR_OK = 0"

subsection \<open>Encoder commands\<close>

text \<open>A write of \<open>bs\<close> through a pointer to offset \<open>e\<close> of the block \<open>b\<close>.\<close>

definition overwrite :: "mem \<Rightarrow> nat \<Rightarrow> u8 list \<Rightarrow> mem" where
  "overwrite b e bs = take e b @ bs @ drop (e + length bs) b"

datatype ectl = EUndef | EReturn int mem | ENext mem nat

type_synonym ecmd = "u32 \<Rightarrow> mem \<Rightarrow> nat \<Rightarrow> ectl"
type_synonym encoder = "u32 \<Rightarrow> mem option \<Rightarrow> (int \<times> mem) option"

primrec exec :: "ecmd list \<Rightarrow> ecmd" where
  "exec [] len b e = ENext b e"
| "exec (c # cs) len b e =
     (case c len b e of
        EUndef \<Rightarrow> EUndef
      | EReturn r b' \<Rightarrow> EReturn r b'
      | ENext b' e' \<Rightarrow> exec cs len b' e')"

definition store :: "u8 list \<Rightarrow> ecmd" where
  "store bs len b e =
     (if e + length bs \<le> length b then ENext (overwrite b e bs) (e + length bs) else EUndef)"

definition ENCODE_U8 :: "u8 \<Rightarrow> ecmd" where
  "ENCODE_U8 v = store [v]"

definition ENCODE_U16 :: "u16 \<Rightarrow> ecmd" where
  "ENCODE_U16 v = store [hi8 v, lo8 v]"

text \<open>\<open>if (iei > 0) { *buffer = iei; encoded++; }\<close>\<close>

definition put_iei :: "u8 \<Rightarrow> ecmd" where
  "put_iei iei = (if iei > 0 then store [iei] else (\<lambda>len b e. ENext b e))"

text \<open>
  A length field filled in later: \<open>lenPtr = buffer + encoded; encoded += k\<close>, then the
  commands \<open>cs\<close>, then \<open>*lenPtr = val\<close>, where \<open>val\<close> is computed from the
  position of the field and the final \<open>encoded\<close>.
\<close>

definition with_lenptr :: "nat \<Rightarrow> (nat \<Rightarrow> nat \<Rightarrow> u8 list) \<Rightarrow> ecmd list \<Rightarrow> ecmd" where
  "with_lenptr k val cs len b e =
     (case exec cs len b (e + k) of
        EUndef \<Rightarrow> EUndef
      | EReturn r b' \<Rightarrow> EReturn r b'
      | ENext b' e' \<Rightarrow>
          (if e + length (val e e') \<le> length b' then ENext (overwrite b' e (val e e')) e' else EUndef))"

text \<open>
  \<open>if ((encode_result = enc(\<dots>, buffer + encoded, len - encoded)) < 0) return encode_result;
  else encoded += encode_result;\<close>
\<close>

definition call :: "encoder \<Rightarrow> ecmd" where
  "call enc len b e =
     (case enc (len - of_nat e) (Some (drop e b)) of
        None \<Rightarrow> EUndef
      | Some (r, b') \<Rightarrow>
          (if r < 0 then EReturn r (take e b @ b') else ENext (take e b @ b') (e + nat r)))"

text \<open>\<open>if ((presence & FLAG) == FLAG) \<dots>\<close>\<close>

definition opt :: "bool \<Rightarrow> encoder \<Rightarrow> ecmd" where
  "opt present enc = (if present then call enc else (\<lambda>len b e. ENext b e))"

text \<open>
  The body of an encoder: \<open>CHECK_PDU_POINTER_AND_LENGTH_ENCODER(buffer, m, len)\<close> with
  \<open>encoded = 0\<close>, the commands, \<open>return encoded\<close>.
\<close>

definition finish :: "ectl \<Rightarrow> (int \<times> mem) option" where
  "finish r = (case r of EUndef \<Rightarrow> None | EReturn r b' \<Rightarrow> Some (r, b') | ENext b' e' \<Rightarrow> Some (int e', b'))"

definition encoder_body :: "nat \<Rightarrow> ecmd list \<Rightarrow> encoder" where
  "encoder_body m cs len p =
     (case p of
        None \<Rightarrow> Some (err TLV_BUFFER_NULL, [])
      | Some b \<Rightarrow>
          (if unat len < m then Some (err TLV_BUFFER_TOO_SHORT, b) else finish (exec cs len b 0)))"

text \<open>A \<open>bstring\<close> is its bytes, or \<open>NULL\<close>; \<open>slen\<close> is the length of the list.\<close>

type_synonym bstring = "u8 list option"

definition blength :: "bstring \<Rightarrow> nat" where
  "blength s = (case s of None \<Rightarrow> 0 | Some d \<Rightarrow> length d)"

definition encode_bstring :: "bstring \<Rightarrow> encoder" where
  "encode_bstring str buflen p =
     (case str of
        None \<Rightarrow> Some (0, case p of None \<Rightarrow> [] | Some b \<Rightarrow> b)
      | Some d \<Rightarrow>
          (if blength str > 0 then encoder_body (blength str) [store d] buflen p
           else Some (0, case p of None \<Rightarrow> [] | Some b \<Rightarrow> b)))"

subsection \<open>What commands emit\<close>

lemma length_overwrite [simp]: "e + length bs \<le> length b \<Longrightarrow> length (overwrite b e bs) = length b"
  by (simp add: overwrite_def)

lemma overwrite_Nil [simp]: "overwrite b e [] = b"
  by (simp add: overwrite_def)

lemma overwrite_zero: "overwrite b 0 bs = bs @ drop (length bs) b"
  by (simp add: overwrite_def)

lemma overwrite_overwrite [simp]:
  "e + length bs \<le> length b \<Longrightarrow>
   overwrite (overwrite b e bs) (e + length bs) bs' = overwrite b e (bs @ bs')"
  by (simp add: overwrite_def add.assoc add.commute [of "length bs'"])

lemma overwrite_before:
  "e + length l + length bs \<le> length b \<Longrightarrow>
   overwrite (overwrite b (e + length l) bs) e l = overwrite b e (l @ bs)"
  by (simp add: overwrite_def take_add [symmetric] add.assoc)

lemma overwrite_drop:
  "e \<le> length b \<Longrightarrow> take e b @ overwrite (drop e b) 0 bs = overwrite b e bs"
  by (simp add: overwrite_def add.commute)

definition emits :: "nat \<Rightarrow> ecmd list \<Rightarrow> u8 list \<Rightarrow> bool" where
  "emits e cs bs \<longleftrightarrow>
     (\<forall>len b. e + length bs \<le> unat len \<longrightarrow> unat len \<le> length b \<longrightarrow>
        exec cs len b e = ENext (overwrite b e bs) (e + length bs))"

definition encodes :: "encoder \<Rightarrow> u8 list \<Rightarrow> bool" where
  "encodes enc bs \<longleftrightarrow>
     (\<forall>len b. length bs \<le> unat len \<longrightarrow> unat len \<le> length b \<longrightarrow>
        enc len (Some b) = Some (int (length bs), overwrite b 0 bs))"

lemma emitsD:
  "emits e cs bs \<Longrightarrow> e + length bs \<le> unat len \<Longrightarrow> unat len \<le> length b \<Longrightarrow>
   exec cs len b e = ENext (overwrite b e bs) (e + length bs)"
  by (simp add: emits_def)

lemma encodesD:
  "encodes enc bs \<Longrightarrow> length bs \<le> unat len \<Longrightarrow> unat len \<le> length b \<Longrightarrow>
   enc len (Some b) = Some (int (length bs), overwrite b 0 bs)"
  by (simp add: encodes_def)

lemma emits_Nil [emit_intros]: "emits e [] []"
  by (simp add: emits_def)

definition emits1 :: "nat \<Rightarrow> ecmd \<Rightarrow> u8 list \<Rightarrow> bool" where
  "emits1 e c bs = emits e [c] bs"

lemma emits_Cons [emit_intros]:
  assumes "emits1 e c bs" and "emits (e + length bs) cs bs'"
  shows "emits e (c # cs) (bs @ bs')"
proof -
  define out where "out = bs @ bs'"
  note first = assms(1) [unfolded emits1_def]
  have "exec (c # cs) len b e = ENext (overwrite b e out) (e + length out)"
    if "e + length out \<le> unat len" and "unat len \<le> length b" for len b
  proof -
    from emitsD [OF first, of len b] that out_def
    have "c len b e = ENext (overwrite b e bs) (e + length bs)"
      by (auto split: ectl.splits)
    moreover from that out_def
    have "exec cs len (overwrite b e bs) (e + length bs)
            = ENext (overwrite (overwrite b e bs) (e + length bs) bs') (e + length bs + length bs')"
      by (intro emitsD [OF assms(2)]) auto
    ultimately show ?thesis using that out_def by (simp add: add.assoc)
  qed
  then show ?thesis by (simp add: emits_def out_def)
qed

lemma exec_append:
  "exec (cs @ ds) len b e =
     (case exec cs len b e of
        EUndef \<Rightarrow> EUndef
      | EReturn r b' \<Rightarrow> EReturn r b'
      | ENext b' e' \<Rightarrow> exec ds len b' e')"
  by (induction cs arbitrary: b e) (auto split: ectl.splits)

lemma emits_append [emit_intros]:
  assumes "emits e cs bs" and "emits (e + length bs) ds bs'"
  shows "emits e (cs @ ds) (bs @ bs')"
proof -
  define out where "out = bs @ bs'"
  have "exec (cs @ ds) len b e = ENext (overwrite b e out) (e + length out)"
    if "e + length out \<le> unat len" and "unat len \<le> length b" for len b
  proof -
    from that out_def have "exec cs len b e = ENext (overwrite b e bs) (e + length bs)"
      by (intro emitsD [OF assms(1)]) auto
    moreover from that out_def
    have "exec ds len (overwrite b e bs) (e + length bs)
            = ENext (overwrite (overwrite b e bs) (e + length bs) bs') (e + length bs + length bs')"
      by (intro emitsD [OF assms(2)]) auto
    ultimately show ?thesis using that out_def by (simp add: exec_append add.assoc)
  qed
  then show ?thesis by (simp add: emits_def out_def)
qed

lemma emits_if [emit_intros]:
  "(P \<Longrightarrow> emits e cs bs) \<Longrightarrow> emits e (if P then cs else []) (if P then bs else [])"
  by (simp add: emits_Nil)

lemma emits_single: "emits1 e c bs \<Longrightarrow> emits e [c] bs"
  by (simp add: emits1_def)

lemma emits_store [emit_intros]: "emits1 e (store bs) bs"
  by (simp add: emits1_def emits_def store_def)

lemma emits_U8 [emit_intros]: "emits1 e (ENCODE_U8 v) [v]"
  unfolding ENCODE_U8_def by (rule emits_store)

lemma emits_U16 [emit_intros]: "emits1 e (ENCODE_U16 v) [hi8 v, lo8 v]"
  unfolding ENCODE_U16_def by (rule emits_store)

definition iei_wire :: "u8 \<Rightarrow> u8 list" where
  "iei_wire iei = (if iei > 0 then [iei] else [])"

lemma length_iei_wire: "length (iei_wire iei) = (if iei > 0 then 1 else 0)"
  by (simp add: iei_wire_def)

lemma emits_put_iei [emit_intros]: "emits1 e (put_iei iei) (iei_wire iei)"
  using emits_store [of e "[iei]"] emits_Nil [of e]
  by (auto simp: put_iei_def iei_wire_def emits1_def emits_def)

lemma emits_with_lenptr [emit_intros]:
  assumes "emits (e + k) cs bs" and "length (val e (e + k + length bs)) = k"
  shows "emits1 e (with_lenptr k val cs) (val e (e + k + length bs) @ bs)"
proof -
  define l where "l = val e (e + k + length bs)"
  define out where "out = l @ bs"
  have "exec [with_lenptr k val cs] len b e = ENext (overwrite b e out) (e + length out)"
    if "e + length out \<le> unat len" and "unat len \<le> length b" for len b
  proof -
    from that assms out_def l_def have "exec cs len b (e + k) = ENext (overwrite b (e + k) bs) (e + k + length bs)"
      by (intro emitsD) auto
    with that assms show ?thesis
      using overwrite_before [of e l bs b] by (simp add: with_lenptr_def add.assoc l_def out_def)
  qed
  then show ?thesis by (simp add: emits1_def emits_def l_def out_def)
qed

lemma emits_call [emit_intros]:
  assumes "encodes enc bs"
  shows "emits1 e (call enc) bs"
proof -
  have "exec [call enc] len b e = ENext (overwrite b e bs) (e + length bs)"
    if "e + length bs \<le> unat len" and "unat len \<le> length b" for len b
  proof -
    from that have "unat (len - of_nat e) = unat len - e"
      by (simp add: unat_u32_minus_of_nat)
    with that have "enc (len - of_nat e) (Some (drop e b)) = Some (int (length bs), overwrite (drop e b) 0 bs)"
      by (intro encodesD [OF assms]) auto
    with that show ?thesis by (simp add: call_def overwrite_drop)
  qed
  then show ?thesis by (simp add: emits1_def emits_def)
qed

lemma emits_opt [emit_intros]:
  "(present \<Longrightarrow> encodes enc bs) \<Longrightarrow> emits1 e (opt present enc) (if present then bs else [])"
  by (auto simp: opt_def emits_call) (simp add: emits1_def emits_def)

lemma emits_eq: "emits e cs bs \<Longrightarrow> bs = out \<Longrightarrow> emits e cs out"
  by simp

lemma encodes_body:
  "emits 0 cs bs \<Longrightarrow> bs = out \<Longrightarrow> m \<le> length out \<Longrightarrow> encodes (encoder_body m cs) out"
  by (auto simp: encodes_def encoder_body_def finish_def emits_def)

definition bstr :: "bstring \<Rightarrow> u8 list" where
  "bstr s = (case s of None \<Rightarrow> [] | Some d \<Rightarrow> d)"

lemma bstr_simps [simp]: "bstr None = []" "bstr (Some d) = d"
  by (simp_all add: bstr_def)

lemma blength_bstr [simp]: "blength s = length (bstr s)"
  by (simp add: blength_def bstr_def split: option.splits)

lemma encodes_bstring [emit_intros]: "encodes (encode_bstring s) (bstr s)"
proof (cases "bstr s = []")
  case True
  then show ?thesis by (auto simp: encodes_def encode_bstring_def split: option.splits)
next
  case False
  then obtain d where s: "s = Some d" "d \<noteq> []" by (cases s) auto
  have "encodes (encoder_body (length d) [store d]) d"
    by (rule encodes_body [OF emits_single [OF emits_store]]) simp_all
  then show ?thesis using s by (simp add: encodes_def encode_bstring_def)
qed

subsection \<open>Memory safety of encoders\<close>

text \<open>
  An encoder is safe when, given a block of at least \<open>len\<close> bytes, it never leaves the block:
  it returns, the block keeps its length and the count it returns is at most \<open>len\<close>.
\<close>

definition safe :: "ecmd list \<Rightarrow> bool" where
  "safe cs \<longleftrightarrow>
     (\<forall>len b e. e \<le> unat len \<longrightarrow> unat len \<le> length b \<longrightarrow>
        (case exec cs len b e of
           EUndef \<Rightarrow> False
         | EReturn r b' \<Rightarrow> r < 0 \<and> length b' = length b
         | ENext b' e' \<Rightarrow> e \<le> e' \<and> e' \<le> unat len \<and> length b' = length b))"

definition safe_encoder :: "encoder \<Rightarrow> bool" where
  "safe_encoder enc \<longleftrightarrow>
     (\<forall>len b. unat len \<le> length b \<longrightarrow>
        (\<exists>r b'. enc len (Some b) = Some (r, b') \<and> length b' = length b \<and> nat r \<le> unat len))"

lemma safe_encoderD:
  assumes "safe_encoder enc" and "unat len \<le> length b"
  obtains r b' where "enc len (Some b) = Some (r, b')" "length b' = length b" "nat r \<le> unat len"
  using assms unfolding safe_encoder_def by blast

lemma safe_Nil [simp]: "safe []"
  by (simp add: safe_def)

lemma safe_Cons:
  assumes "safe [c]" and "safe cs"
  shows "safe (c # cs)"
  unfolding safe_def
proof (intro allI impI)
  fix len :: u32 and b :: mem and e assume e: "e \<le> unat len" and b: "unat len \<le> length b"
  from assms(1) e b have c: "case exec [c] len b e of EUndef \<Rightarrow> False
      | EReturn r b' \<Rightarrow> r < 0 \<and> length b' = length b
      | ENext b' e' \<Rightarrow> e \<le> e' \<and> e' \<le> unat len \<and> length b' = length b"
    unfolding safe_def by blast
  show "case exec (c # cs) len b e of EUndef \<Rightarrow> False
      | EReturn r b' \<Rightarrow> r < 0 \<and> length b' = length b
      | ENext b' e' \<Rightarrow> e \<le> e' \<and> e' \<le> unat len \<and> length b' = length b"
  proof (cases "c len b e")
    case (ENext b' e')
    with c b have "e \<le> e'" "e' \<le> unat len" "unat len \<le> length b'" "length b' = length b" by auto
    with assms(2) have "case exec cs len b' e' of EUndef \<Rightarrow> False
      | EReturn r b'' \<Rightarrow> r < 0 \<and> length b'' = length b'
      | ENext b'' e'' \<Rightarrow> e' \<le> e'' \<and> e'' \<le> unat len \<and> length b'' = length b'"
      unfolding safe_def by blast
    with ENext \<open>e \<le> e'\<close> \<open>length b' = length b\<close> show ?thesis by (auto split: ectl.splits)
  qed (use c in auto)
qed

lemma safe_call:
  assumes "safe_encoder enc"
  shows "safe [call enc]"
  unfolding safe_def
proof (intro allI impI)
  fix len :: u32 and b :: mem and e assume e: "e \<le> unat len" and b: "unat len \<le> length b"
  then have l: "unat (len - of_nat e) = unat len - e" by (simp add: unat_u32_minus_of_nat)
  with b have "unat (len - of_nat e) \<le> length (drop e b)" by simp
  then obtain r b' where "enc (len - of_nat e) (Some (drop e b)) = Some (r, b')"
    "length b' = length (drop e b)" "nat r \<le> unat len - e"
    using safe_encoderD [OF assms] l by metis
  with e b show "case exec [call enc] len b e of EUndef \<Rightarrow> False
      | EReturn r b' \<Rightarrow> r < 0 \<and> length b' = length b
      | ENext b' e' \<Rightarrow> e \<le> e' \<and> e' \<le> unat len \<and> length b' = length b"
    by (auto simp: call_def)
qed

lemma safe_opt: "(present \<Longrightarrow> safe_encoder enc) \<Longrightarrow> safe [opt present enc]"
  by (auto simp: opt_def safe_call) (simp add: safe_def)

lemma safe_encoder_body:
  assumes "safe cs" shows "safe_encoder (encoder_body m cs)"
  unfolding safe_encoder_def
proof (intro allI impI)
  fix len :: u32 and b :: mem assume b: "unat len \<le> length b"
  then have "case exec cs len b 0 of EUndef \<Rightarrow> False
      | EReturn r b' \<Rightarrow> r < 0 \<and> length b' = length b
      | ENext b' e' \<Rightarrow> 0 \<le> e' \<and> e' \<le> unat len \<and> length b' = length b"
    using assms unfolding safe_def by blast
  then show "\<exists>r b'. encoder_body m cs len (Some b) = Some (r, b') \<and> length b' = length b \<and> nat r \<le> unat len"
    by (auto simp: encoder_body_def finish_def split: ectl.splits)
qed

text \<open>
  An encoder that emits a fixed prefix covered by its minimum length and goes on safely is safe;
  the prefix may be the whole encoder.
\<close>

lemma safe_encoder_prefix:
  assumes "emits 0 cs bs" and "length bs \<le> m" and "safe cs'"
  shows "safe_encoder (encoder_body m (cs @ cs'))"
proof -
  have "\<exists>r b'. encoder_body m (cs @ cs') len (Some b) = Some (r, b') \<and> length b' = length b
          \<and> nat r \<le> unat len" if b: "unat len \<le> length b" for len b
  proof (cases "unat len < m")
    case True
    then show ?thesis by (simp add: encoder_body_def)
  next
    case False
    with assms b have "exec cs len b 0 = ENext (overwrite b 0 bs) (length bs)"
      using emitsD [OF assms(1), of len b] by simp
    moreover have "case exec cs' len (overwrite b 0 bs) (length bs) of EUndef \<Rightarrow> False
      | EReturn r b' \<Rightarrow> r < 0 \<and> length b' = length (overwrite b 0 bs)
      | ENext b' e' \<Rightarrow> length bs \<le> e' \<and> e' \<le> unat len \<and> length b' = length (overwrite b 0 bs)"
      using assms(2,3) b False unfolding safe_def
      by (intro mp [OF mp [OF spec [OF spec [OF spec [OF assms(3) [unfolded safe_def]]]]]]) auto
    ultimately show ?thesis using False b assms(2)
      by (auto simp: encoder_body_def finish_def exec_append split: ectl.splits)
  qed
  then show ?thesis by (simp add: safe_encoder_def)
qed

lemma safe_encoder_fixed:
  "emits 0 cs bs \<Longrightarrow> length bs \<le> m \<Longrightarrow> safe_encoder (encoder_body m cs)"
  using safe_encoder_prefix [of cs bs m "[]"] by simp

text \<open>For an encoder of fixed size, whose minimum length is that size.\<close>

lemma fixed_encoder:
  assumes "emits 0 cs bs" and "bs = out" and "length out = m"
  shows "encodes (encoder_body m cs) out \<and> safe_encoder (encoder_body m cs)"
  using assms by (auto intro: encodes_body safe_encoder_fixed)

text \<open>
  A length field of \<open>k\<close> bytes after a fixed prefix, then a fixed part, both covered by the
  minimum length, and a safe part.
\<close>

lemma safe_encoder_lenptr:
  assumes "emits 0 cs bs" and "emits (length bs + k) ds bs'" and "length bs + k + length bs' \<le> m"
    and "safe cs'" and "\<And>p q. length (val p q) \<le> k"
  shows "safe_encoder (encoder_body m (cs @ [with_lenptr k val (ds @ cs')]))"
proof -
  have "\<exists>r b'. encoder_body m (cs @ [with_lenptr k val (ds @ cs')]) len (Some b) = Some (r, b')
          \<and> length b' = length b \<and> nat r \<le> unat len" if b: "unat len \<le> length b" for len b
  proof (cases "unat len < m")
    case True
    then show ?thesis by (simp add: encoder_body_def)
  next
    case False
    with assms b have pre: "exec cs len b 0 = ENext (overwrite b 0 bs) (length bs)"
      using emitsD [OF assms(1), of len b] by simp
    define b1 where "b1 = overwrite (overwrite b 0 bs) (length bs + k) bs'"
    have mid: "exec ds len (overwrite b 0 bs) (length bs + k) = ENext b1 (length bs + k + length bs')"
      unfolding b1_def using assms(3) b False by (intro emitsD [OF assms(2)]) auto
    have l: "length b1 = length b" unfolding b1_def using assms(3) b False by simp
    have "case exec cs' len b1 (length bs + k + length bs') of EUndef \<Rightarrow> False
      | EReturn r b' \<Rightarrow> r < 0 \<and> length b' = length b1
      | ENext b' e' \<Rightarrow> length bs + k + length bs' \<le> e' \<and> e' \<le> unat len \<and> length b' = length b1"
      using assms(3) b False l
      by (intro mp [OF mp [OF spec [OF spec [OF spec [OF assms(4) [unfolded safe_def]]]]]]) auto
    moreover have "length bs + length (val (length bs) q) \<le> length b" for q
      using assms(3) b False assms(5) [of "length bs" q] by linarith
    ultimately show ?thesis using False b assms(3) pre mid l
      by (auto simp: encoder_body_def finish_def exec_append with_lenptr_def split: ectl.splits)
  qed
  then show ?thesis by (simp add: safe_encoder_def)
qed

lemma safe_encode_bstring: "safe_encoder (encode_bstring s)"
proof (cases "bstr s = []")
  case True
  then show ?thesis by (auto simp: safe_encoder_def encode_bstring_def split: option.splits)
next
  case False
  then obtain d where s: "s = Some d" "d \<noteq> []" by (cases s) auto
  have "safe_encoder (encoder_body (length d) [store d])"
    by (rule safe_encoder_fixed [OF emits_single [OF emits_store]]) simp
  then show ?thesis using s by (simp add: safe_encoder_def encode_bstring_def)
qed

end
