(* ===== verification/Decoder.thy ===== *)
theory Decoder
  imports Codec
begin

text \<open>
  The reading side of the TLV layer: the \<open>DECODE_U8\<close>/\<open>DECODE_U16\<close> and checking macros,
  \<open>decode_bstring\<close>, and the shape every message decoder has: mandatory elements in order, then
  \<open>while (len - decoded > 0)\<close> over the optional ones. A decoder of an information element gets
  the structure it writes into and returns the code with the updated structure; \<open>None\<close> is a read
  outside the block. The loop of a message decoder need not end, so it is a partial function:
  \<open>None\<close> means that it does not return.
\<close>

subsection \<open>Reading macros\<close>

definition DECODE_U8 :: "mem \<Rightarrow> nat \<Rightarrow> u8 option" where
  "DECODE_U8 b d = (if d < length b then Some (b ! d) else None)"

definition DECODE_U16 :: "mem \<Rightarrow> nat \<Rightarrow> u16 option" where
  "DECODE_U16 b d = (if Suc d < length b then Some (be16 (b ! d) (b ! Suc d)) else None)"

text \<open>Four octets: what \<open>ENCODE_U32\<close> writes and \<open>DECODE_U32\<close> reads.\<close>

definition be32 :: "u32 \<Rightarrow> u8 list" where
  "be32 v = [ucast (drop_bit 24 v), ucast (drop_bit 16 v), ucast (drop_bit 8 v), ucast v]"

definition read_be32 :: "mem \<Rightarrow> nat \<Rightarrow> u32 option" where
  "read_be32 b d = do {
     hi \<leftarrow> DECODE_U16 b d;
     lo \<leftarrow> DECODE_U16 b (d + 2);
     Some (push_bit 16 (ucast hi) OR ucast lo) }"

lemma be32_read:
  "push_bit 16 (ucast (be16 (ucast (drop_bit 24 v)) (ucast (drop_bit 16 v)))) OR
   ucast (be16 (ucast (drop_bit 8 v)) (ucast v)) = (v :: u32)"
  apply (rule bit_word_eqI)
  apply (auto simp: be16_def bit_simps)
  subgoal for n by (cases "16 \<le> n") auto
  done

text \<open>\<open>if (iei > 0) { CHECK_IEI_DECODER(iei, *buffer); decoded++; }\<close>, then the rest \<open>k\<close>.\<close>

definition check_iei :: "u8 \<Rightarrow> mem \<Rightarrow> 'a \<Rightarrow> (nat \<Rightarrow> (int \<times> 'a) option) \<Rightarrow> (int \<times> 'a) option" where
  "check_iei iei b x k =
     (if iei > 0 then
        (case DECODE_U8 b 0 of
           None \<Rightarrow> None
         | Some v \<Rightarrow> (if iei \<noteq> v then Some (err TLV_UNEXPECTED_IEI, x) else k 1))
      else k 0)"

text \<open>\<open>CHECK_LENGTH_DECODER(buflen, l)\<close>, both 32-bit unsigned, then the rest \<open>k\<close>.\<close>

definition check_length :: "u32 \<Rightarrow> u32 \<Rightarrow> 'a \<Rightarrow> (int \<times> 'a) option \<Rightarrow> (int \<times> 'a) option" where
  "check_length buflen l x k = (if buflen < l then Some (err TLV_BUFFER_TOO_SHORT, x) else k)"

definition decode_bstring :: "bstring \<Rightarrow> u16 \<Rightarrow> mem option \<Rightarrow> u32 \<Rightarrow> (int \<times> bstring) option" where
  "decode_bstring s pdulen p buflen =
     (if buflen < ucast pdulen then Some (err TLV_BUFFER_TOO_SHORT, s)
      else
        (case p of
           None \<Rightarrow> Some (err TLV_BUFFER_TOO_SHORT, None)
         | Some b \<Rightarrow>
             (if length b < unat pdulen then None
              else Some (int (unat pdulen), Some (take (unat pdulen) b)))))"

subsection \<open>Message decoders\<close>

datatype 'm dctl = DUndef | DReturn int 'm | DNext 'm nat

datatype 'm run = Undefined | Returned int 'm

type_synonym 'm dcmd = "mem \<Rightarrow> u32 \<Rightarrow> 'm \<Rightarrow> nat \<Rightarrow> 'm dctl"

text \<open>
  \<open>if ((r = dec(&msg->field, \<dots>, buffer + decoded, len - decoded)) < 0) return r;
  else { decoded += r; \<dots> }\<close>: \<open>get\<close> and \<open>put\<close> access the field, \<open>mark\<close> is what the else
  branch does to the message (setting its presence bit).
\<close>

definition dcall :: "('f \<Rightarrow> mem \<Rightarrow> u32 \<Rightarrow> (int \<times> 'f) option) \<Rightarrow> ('m \<Rightarrow> 'f) \<Rightarrow> ('f \<Rightarrow> 'm \<Rightarrow> 'm)
    \<Rightarrow> ('m \<Rightarrow> 'm) \<Rightarrow> 'm dcmd" where
  "dcall dec get put mark b len m d =
     (case dec (get m) (drop d b) (len - of_nat d) of
        None \<Rightarrow> DUndef
      | Some (r, f) \<Rightarrow>
          (if r < 0 then DReturn r (put f m) else DNext (mark (put f m)) (d + nat r)))"

primrec dseq :: "'m dcmd list \<Rightarrow> 'm dcmd" where
  "dseq [] b len m d = DNext m d"
| "dseq (c # cs) b len m d =
     (case c b len m d of
        DUndef \<Rightarrow> DUndef
      | DReturn r m' \<Rightarrow> DReturn r m'
      | DNext m' d' \<Rightarrow> dseq cs b len m' d')"

text \<open>A \<open>switch\<close> whose cases are constants and end in \<open>break\<close>, without default.\<close>

primrec switch :: "(u8 \<times> 'm dcmd) list \<Rightarrow> u8 \<Rightarrow> 'm dcmd" where
  "switch [] v = dseq []"
| "switch (kc # t) v = (if v = fst kc then snd kc else switch t v)"

text \<open>
  The loop over the optional elements: \<open>half\<close> holds the cases of
  \<open>switch (ieiDecoded & 0xf0)\<close> and \<open>full\<close> those of the following \<open>switch (ieiDecoded)\<close>.
\<close>

definition ie_step :: "(u8 \<times> 'm dcmd) list \<Rightarrow> (u8 \<times> 'm dcmd) list \<Rightarrow> u8 \<Rightarrow> 'm dcmd" where
  "ie_step half full iei = dseq [switch half (iei AND 0xF0), switch full iei]"

text \<open>
  \<open>while (len - decoded > 0) { uint8_t ieiDecoded = *(buffer + decoded); if (stop) break; \<dots> }\<close>; in all but
  two messages of mobility management the loop stops at an octet 0.
\<close>

partial_function (option) ie_loop_until ::
  "(u8 \<Rightarrow> bool) \<Rightarrow> (u8 \<Rightarrow> 'm dcmd) \<Rightarrow> mem \<Rightarrow> u32 \<Rightarrow> 'm \<Rightarrow> nat \<Rightarrow> 'm run option" where
  "ie_loop_until stop step b len m d =
     (if len - of_nat d = 0 then Some (Returned (int d) m)
      else if length b \<le> d then Some Undefined
      else if stop (b ! d) then Some (Returned (int d) m)
      else
        (case step (b ! d) b len m d of
           DUndef \<Rightarrow> Some Undefined
         | DReturn r m' \<Rightarrow> Some (Returned r m')
         | DNext m' d' \<Rightarrow> ie_loop_until stop step b len m' d'))"

abbreviation ie_loop :: "(u8 \<Rightarrow> 'm dcmd) \<Rightarrow> mem \<Rightarrow> u32 \<Rightarrow> 'm \<Rightarrow> nat \<Rightarrow> 'm run option" where
  "ie_loop \<equiv> ie_loop_until (\<lambda>iei. iei = 0)"

type_synonym 'm msg_decoder = "'m \<Rightarrow> mem option \<Rightarrow> u32 \<Rightarrow> 'm run option"

text \<open>
  \<open>CHECK_PDU_POINTER_AND_LENGTH_DECODER(buffer, m, len)\<close>, the mandatory elements, the loop,
  \<open>return decoded\<close>.
\<close>

definition msg_decoder_until ::
  "(u8 \<Rightarrow> bool) \<Rightarrow> nat \<Rightarrow> 'm dcmd list \<Rightarrow> (u8 \<Rightarrow> 'm dcmd) \<Rightarrow> 'm msg_decoder" where
  "msg_decoder_until stop minlen mand step m p len =
     (case p of
        None \<Rightarrow> Some (Returned (err TLV_BUFFER_NULL) m)
      | Some b \<Rightarrow>
          (if unat len < minlen then Some (Returned (err TLV_BUFFER_TOO_SHORT) m)
           else
             (case dseq mand b len m 0 of
                DUndef \<Rightarrow> Some Undefined
              | DReturn r m' \<Rightarrow> Some (Returned r m')
              | DNext m' d \<Rightarrow> ie_loop_until stop step b len m' d)))"

definition msg_decoder :: "nat \<Rightarrow> 'm dcmd list \<Rightarrow> (u8 \<Rightarrow> 'm dcmd) \<Rightarrow> 'm msg_decoder" where
  "msg_decoder = msg_decoder_until (\<lambda>iei. iei = 0)"

subsection \<open>What decoders read\<close>

lemma DECODE_U8_hd [simp]: "DECODE_U8 (x # xs) 0 = Some x"
  by (simp add: DECODE_U8_def)

lemma DECODE_U8_Suc [simp]: "DECODE_U8 (x # xs) (Suc d) = DECODE_U8 xs d"
  by (simp add: DECODE_U8_def)

lemma DECODE_U8_Nil [simp]: "DECODE_U8 [] d = None"
  by (simp add: DECODE_U8_def)

lemma DECODE_U8_numeral [simp]: "DECODE_U8 (x # xs) (numeral k) = DECODE_U8 xs (pred_numeral k)"
  by (simp add: numeral_eq_Suc)

lemma DECODE_U16_hd [simp]: "DECODE_U16 (x # y # xs) 0 = Some (be16 x y)"
  by (simp add: DECODE_U16_def)

lemma DECODE_U16_Suc [simp]: "DECODE_U16 (x # xs) (Suc d) = DECODE_U16 xs d"
  by (simp add: DECODE_U16_def)

lemma DECODE_U16_numeral [simp]: "DECODE_U16 (x # xs) (numeral k) = DECODE_U16 xs (pred_numeral k)"
  by (simp add: numeral_eq_Suc)

lemma check_iei_wire [simp]:
  "check_iei iei (iei_wire iei @ b) x k = k (length (iei_wire iei))"
  by (simp add: check_iei_def iei_wire_def)

lemma DECODE_U8_append [simp]: "DECODE_U8 (pre @ b) (length pre + d) = DECODE_U8 b d"
  by (simp add: DECODE_U8_def nth_append)

lemma DECODE_U8_append0 [simp]: "DECODE_U8 (pre @ b) (length pre) = DECODE_U8 b 0"
  using DECODE_U8_append [of pre b 0] by simp

lemma DECODE_U16_append [simp]: "DECODE_U16 (pre @ b) (length pre + d) = DECODE_U16 b d"
  by (simp add: DECODE_U16_def nth_append)

lemma DECODE_U16_append0 [simp]: "DECODE_U16 (pre @ b) (length pre) = DECODE_U16 b 0"
  using DECODE_U16_append [of pre b 0] by simp

lemma DECODE_U8_shift:
  "DECODE_U8 (pre @ b) (Suc (length pre)) = DECODE_U8 b 1"
  "DECODE_U8 (pre @ b) (Suc (Suc (length pre))) = DECODE_U8 b 2"
  "DECODE_U8 (pre @ b) (Suc (Suc (Suc (length pre)))) = DECODE_U8 b 3"
  "DECODE_U8 (pre @ b) (Suc (Suc (Suc (Suc (length pre))))) = DECODE_U8 b 4"
  "DECODE_U8 (pre @ b) (length pre + numeral n) = DECODE_U8 b (numeral n)"
  using DECODE_U8_append [of pre b 1] DECODE_U8_append [of pre b 2] DECODE_U8_append [of pre b 3]
    DECODE_U8_append [of pre b 4] by (simp_all add: eval_nat_numeral)

definition decodes :: "(mem \<Rightarrow> u32 \<Rightarrow> (int \<times> 'f) option) \<Rightarrow> u8 list \<Rightarrow> 'f \<Rightarrow> bool" where
  "decodes dec bs f \<longleftrightarrow>
     (\<forall>len rest. length bs \<le> unat len \<longrightarrow> dec (bs @ rest) len = Some (int (length bs), f))"

lemma decodesD:
  "decodes dec bs f \<Longrightarrow> length bs \<le> unat len \<Longrightarrow> dec (bs @ rest) len = Some (int (length bs), f)"
  by (simp add: decodes_def)

text \<open>The check \<open>len - decoded < ielen\<close> passes when the element fits.\<close>

lemma check_length_ok:
  "d + unat l \<le> unat len \<Longrightarrow> check_length (len - of_nat d) l x k = k"
  by (auto simp: check_length_def word_less_nat_alt unat_u32_minus_of_nat)

lemma check_length_fits [simp]:
  "unat l \<le> unat len \<Longrightarrow> check_length len l x k = k"
  "Suc (unat l) \<le> unat len \<Longrightarrow> check_length (len - 1) l x k = k"
  "numeral w + unat l \<le> unat len \<Longrightarrow> check_length (len - numeral w) l x k = k"
  using check_length_ok [of 0 l len x k] check_length_ok [of 1 l len x k]
    check_length_ok [of "numeral w" l len x k] by simp_all

lemma decode_bstring_exact:
  "length s = unat pdulen \<Longrightarrow> unat pdulen \<le> unat buflen \<Longrightarrow>
   decode_bstring s0 pdulen (Some (s @ rest)) buflen = Some (int (unat pdulen), Some s)"
  by (simp add: decode_bstring_def word_less_nat_alt)

definition consumes :: "(u8 \<Rightarrow> 'm dcmd) \<Rightarrow> u8 list \<Rightarrow> 'm \<Rightarrow> 'm \<Rightarrow> bool" where
  "consumes step bs m m' \<longleftrightarrow>
     bs \<noteq> [] \<and> hd bs \<noteq> 0 \<and>
     (\<forall>pre rest len. length pre + length bs \<le> unat len \<longrightarrow>
        step (hd bs) (pre @ bs @ rest) len m (length pre) = DNext m' (length pre + length bs))"

text \<open>The loop over a sequence of elements, each consumed by one round.\<close>

inductive reads :: "(u8 \<Rightarrow> 'm dcmd) \<Rightarrow> u8 list \<Rightarrow> 'm \<Rightarrow> 'm \<Rightarrow> bool" for step where
  reads_Nil: "reads step [] m m"
| reads_Cons: "consumes step bs m m' \<Longrightarrow> reads step bs' m' m'' \<Longrightarrow> reads step (bs @ bs') m m''"

inductive_cases reads_NilE: "reads step [] m m'"
inductive_simps reads_Nil_iff: "reads step [] m m'"

lemma reads_opt:
  assumes "present \<Longrightarrow> consumes step bs m m1" and "\<not> present \<Longrightarrow> m1 = m"
    and "reads step bs' m1 m'"
  shows "reads step ((if present then bs else []) @ bs') m m'"
  using assms by (auto intro: reads_Cons)

lemma ie_loop_step:
  assumes "consumes step bs m m'" and "length pre + length bs \<le> unat len" and "\<not> stop (hd bs)"
  shows "ie_loop_until stop step (pre @ bs @ rest) len m (length pre)
       = ie_loop_until stop step (pre @ bs @ rest) len m' (length pre + length bs)"
proof -
  from assms have bs: "bs \<noteq> []" "(pre @ bs @ rest) ! length pre = hd bs"
    by (auto simp: consumes_def hd_append hd_conv_nth nth_append)
  have "unat (len - of_nat (length pre)) = unat len - length pre"
    using assms(2) by (intro unat_u32_minus_of_nat) simp
  with bs(1) assms(2) have "len - of_nat (length pre) \<noteq> 0"
    by (cases bs) auto
  with bs assms show ?thesis
    by (subst ie_loop_until.simps) (simp add: consumes_def)
qed

text \<open>The loop over elements none of which starts with an octet that stops it.\<close>

inductive reads_until :: "(u8 \<Rightarrow> bool) \<Rightarrow> (u8 \<Rightarrow> 'm dcmd) \<Rightarrow> u8 list \<Rightarrow> 'm \<Rightarrow> 'm \<Rightarrow> bool" for stop step where
  until_Nil: "reads_until stop step [] m m"
| until_Cons: "consumes step bs m m' \<Longrightarrow> \<not> stop (hd bs) \<Longrightarrow> reads_until stop step bs' m' m'' \<Longrightarrow>
    reads_until stop step (bs @ bs') m m''"

lemma reads_until_zero: "reads step bs m m' \<Longrightarrow> reads_until (\<lambda>iei. iei = 0) step bs m m'"
  by (induction rule: reads.induct) (auto intro: reads_until.intros simp: consumes_def)

lemma ie_loop_until_reads:
  assumes "reads_until stop step bs m m'" and "length pre + length bs \<le> unat len"
  shows "ie_loop_until stop step (pre @ bs @ rest) len m (length pre)
       = ie_loop_until stop step (pre @ bs @ rest) len m' (length pre + length bs)"
  using assms
proof (induction arbitrary: pre rule: reads_until.induct)
  case (until_Nil m)
  then show ?case by simp
next
  case (until_Cons bs m m' bs' m'')
  have "ie_loop_until stop step (pre @ bs @ bs' @ rest) len m (length pre)
      = ie_loop_until stop step (pre @ bs @ bs' @ rest) len m' (length pre + length bs)"
    using until_Cons by (intro ie_loop_step) auto
  also have "\<dots> = ie_loop_until stop step ((pre @ bs) @ bs' @ rest) len m' (length (pre @ bs))"
    by simp
  also have "\<dots> = ie_loop_until stop step ((pre @ bs) @ bs' @ rest) len m'' (length (pre @ bs) + length bs')"
    using until_Cons.prems by (intro until_Cons.IH) auto
  finally show ?case by (simp add: add.assoc)
qed

lemmas ie_loop_reads = ie_loop_until_reads [OF reads_until_zero]

lemma ie_loop_end: "d = unat len \<Longrightarrow> ie_loop_until stop step b len m d = Some (Returned (int d) m)"
  by (subst ie_loop_until.simps) simp

lemma ie_loop_until_all:
  assumes "reads_until stop step bs m m'" and "unat len = length pre + length bs"
  shows "ie_loop_until stop step (pre @ bs @ rest) len m (length pre)
       = Some (Returned (int (length pre + length bs)) m')"
  using ie_loop_until_reads [OF assms(1), of pre len rest] assms(2) ie_loop_end [of _ len]
  by simp

lemmas ie_loop_all = ie_loop_until_all [OF reads_until_zero]

text \<open>
  A round that leaves the message and \<open>decoded\<close> as they are repeats for ever. By induction over
  the partial function: no result can have been computed from such a state.
\<close>

lemma ie_loop_stuck:
  assumes ne: "len - of_nat d \<noteq> 0" and "d < length b" and "\<not> stop (b ! d)"
    and "step (b ! d) b len m d = DNext m d"
  shows "ie_loop_until stop step b len m d = None"
proof (rule ccontr)
  assume "ie_loop_until stop step b len m d \<noteq> None"
  then obtain r where r: "ie_loop_until stop step b len m d = Some r" by blast
  have "\<not> (stop = stop \<and> step = step \<and> b = b \<and> len = len \<and> m = m \<and> d = d)"
  proof (rule ie_loop_until.raw_induct
      [where P = "\<lambda>p s b' l m' d' r. \<not> (p = stop \<and> s = step \<and> b' = b \<and> l = len \<and> m' = m \<and> d' = d)", OF _ r])
    fix f p s b' l m' d' r'
    assume IH: "\<And>p s b' l m' d' r. f p s b' l m' d' = Some r \<Longrightarrow>
                 \<not> (p = stop \<and> s = step \<and> b' = b \<and> l = len \<and> m' = m \<and> d' = d)"
      and eq: "(if l - of_nat d' = 0 then Some (Returned (int d') m')
        else if length b' \<le> d' then Some Undefined
        else if p (b' ! d') then Some (Returned (int d') m')
        else case s (b' ! d') b' l m' d' of DUndef \<Rightarrow> Some Undefined
           | DReturn r m' \<Rightarrow> Some (Returned r m') | DNext m' d' \<Rightarrow> f p s b' l m' d') = Some r'"
    show "\<not> (p = stop \<and> s = step \<and> b' = b \<and> l = len \<and> m' = m \<and> d' = d)"
    proof
      assume "p = stop \<and> s = step \<and> b' = b \<and> l = len \<and> m' = m \<and> d' = d"
      with eq assms ne have "f stop step b len m d = Some r'" by simp
      with IH show False by blast
    qed
  qed
  then show False by simp
qed

text \<open>The element reader inside a round: \<open>dcall\<close> on a decoder that reads \<open>bs\<close>.\<close>

lemma dcall_decodes:
  assumes "decodes (dec (get m)) bs f" and "length pre + length bs \<le> unat len"
  shows "dcall dec get put mark (pre @ bs @ rest) len m (length pre)
       = DNext (mark (put f m)) (length pre + length bs)"
proof -
  have "unat (len - of_nat (length pre)) = unat len - length pre"
    using assms(2) by (intro unat_u32_minus_of_nat) simp
  with assms have "dec (get m) (bs @ rest) (len - of_nat (length pre)) = Some (int (length bs), f)"
    by (intro decodesD) auto
  then show ?thesis by (simp add: dcall_def)
qed

lemma switch_miss: "v \<notin> set (map fst t) \<Longrightarrow> switch t v = dseq []"
  by (induction t) auto

lemma switch_here: "switch ((k, c) # t) k = c"
  by simp

lemma switch_there: "v \<noteq> k \<Longrightarrow> switch t v = c \<Longrightarrow> switch ((k, c') # t) v = c"
  by simp

lemma dseq_nil_fun: "dseq [] = (\<lambda>b len m d. DNext m d)"
  by (intro ext) simp

text \<open>An element whose identifier occurs in neither switch leaves the loop where it is.\<close>

lemma ie_step_unknown:
  assumes "iei AND 0xF0 \<notin> set (map fst half)" and "iei \<notin> set (map fst full)"
  shows "ie_step half full iei b len m d = DNext m d"
  using assms by (simp add: ie_step_def switch_miss)

lemma minus_of_nat_pos: "d < unat (len :: u32) \<Longrightarrow> len - of_nat d \<noteq> 0"
  using unat_u32_minus_of_nat [of d len] by force

lemma ie_loop_unknown:
  assumes "reads (ie_step half full) bs m m'"
    and "iei \<noteq> 0" and "iei AND 0xF0 \<notin> set (map fst half)" and "iei \<notin> set (map fst full)"
    and "length pre + length bs < unat len"
  shows "ie_loop (ie_step half full) (pre @ bs @ iei # rest) len m (length pre) = None"
proof -
  have "ie_loop (ie_step half full) (pre @ bs @ iei # rest) len m (length pre)
      = ie_loop (ie_step half full) (pre @ bs @ iei # rest) len m' (length pre + length bs)"
    using assms by (intro ie_loop_reads) auto
  also have "\<dots> = None"
    using assms by (intro ie_loop_stuck minus_of_nat_pos) (auto simp: nth_append ie_step_unknown)
  finally show ?thesis .
qed

subsection \<open>Whole messages\<close>

text \<open>The mandatory elements in order.\<close>

definition mreads :: "'m dcmd list \<Rightarrow> u8 list \<Rightarrow> 'm \<Rightarrow> 'm \<Rightarrow> bool" where
  "mreads cs bs m m' \<longleftrightarrow>
     (\<forall>pre rest len. length pre + length bs \<le> unat len \<longrightarrow>
        dseq cs (pre @ bs @ rest) len m (length pre) = DNext m' (length pre + length bs))"

lemma mreadsD:
  "mreads cs bs m m' \<Longrightarrow> length pre + length bs \<le> unat len \<Longrightarrow>
   dseq cs (pre @ bs @ rest) len m (length pre) = DNext m' (length pre + length bs)"
  by (simp add: mreads_def)

lemma mreads_Nil: "mreads [] [] m m"
  by (simp add: mreads_def)

lemma mreads_Cons:
  assumes "mreads [c] bs m m1" and "mreads cs bs' m1 m2"
  shows "mreads (c # cs) (bs @ bs') m m2"
  unfolding mreads_def
proof (intro allI impI)
  fix pre rest :: mem and len :: u32
  assume len: "length pre + length (bs @ bs') \<le> unat len"
  have "dseq [c] (pre @ bs @ bs' @ rest) len m (length pre) = DNext m1 (length pre + length bs)"
    using len by (intro mreadsD [OF assms(1)]) simp
  moreover have "dseq cs ((pre @ bs) @ bs' @ rest) len m1 (length (pre @ bs))
      = DNext m2 (length (pre @ bs) + length bs')"
    using len by (intro mreadsD [OF assms(2)]) simp
  ultimately show "dseq (c # cs) (pre @ (bs @ bs') @ rest) len m (length pre)
      = DNext m2 (length pre + length (bs @ bs'))"
    by (auto simp: add.assoc split: dctl.splits)
qed

lemma mreads_dcall: "decodes (dec (get m)) bs f \<Longrightarrow> mreads [dcall dec get put mark] bs m (mark (put f m))"
  by (simp add: mreads_def dcall_decodes)

text \<open>A message of mandatory and optional elements, in a block of exactly its length.\<close>

lemma msg_decoder_until_reads:
  assumes "mreads mand bs m m1" and "reads_until stop step bs' m1 m2"
    and "minlen \<le> length bs + length bs'" and "unat len = length bs + length bs'"
  shows "msg_decoder_until stop minlen mand step m (Some (bs @ bs' @ rest)) len
       = Some (Returned (int (unat len)) m2)"
proof -
  have "dseq mand ([] @ bs @ bs' @ rest) len m (length ([] :: mem)) = DNext m1 (length ([] :: mem) + length bs)"
    using assms(4) by (intro mreadsD [OF assms(1)]) simp
  moreover have "ie_loop_until stop step (bs @ bs' @ rest) len m1 (length bs)
      = Some (Returned (int (length bs + length bs')) m2)"
    using assms(2,4) by (intro ie_loop_until_all) auto
  ultimately show ?thesis using assms(3,4) by (simp add: msg_decoder_until_def)
qed

lemmas msg_decoder_reads = msg_decoder_until_reads [OF _ reads_until_zero, folded msg_decoder_def]

text \<open>An element after them that no case handles: the decoder does not return.\<close>

lemma msg_decoder_unknown:
  assumes "mreads mand bs m m1" and "reads (ie_step half full) bs' m1 m2"
    and "iei \<noteq> 0" and "iei AND 0xF0 \<notin> set (map fst half)" and "iei \<notin> set (map fst full)"
    and "minlen \<le> unat len" and "length bs + length bs' < unat len"
  shows "msg_decoder minlen mand (ie_step half full) m (Some (bs @ bs' @ iei # rest)) len = None"
proof -
  have "dseq mand ([] @ bs @ bs' @ iei # rest) len m (length ([] :: mem)) = DNext m1 (length ([] :: mem) + length bs)"
    using assms(7) by (intro mreadsD [OF assms(1)]) simp
  moreover have "ie_loop (ie_step half full) (bs @ bs' @ iei # rest) len m1 (length bs) = None"
    using assms by (intro ie_loop_unknown) auto
  ultimately show ?thesis using assms(6) by (simp add: msg_decoder_def msg_decoder_until_def)
qed

text \<open>A decoder without optional elements.\<close>

definition plain_decoder :: "nat \<Rightarrow> 'm dcmd list \<Rightarrow> 'm msg_decoder" where
  "plain_decoder minlen mand m p len =
     (case p of
        None \<Rightarrow> Some (Returned (err TLV_BUFFER_NULL) m)
      | Some b \<Rightarrow>
          (if unat len < minlen then Some (Returned (err TLV_BUFFER_TOO_SHORT) m)
           else
             (case dseq mand b len m 0 of
                DUndef \<Rightarrow> Some Undefined
              | DReturn r m' \<Rightarrow> Some (Returned r m')
              | DNext m' d \<Rightarrow> Some (Returned (int d) m'))))"

end
