(* ===== verification/Ie_Interface.thy ===== *)
theory Ie_Interface
  imports Decoder
begin

text \<open>
  The contract between the codecs of information elements and the messages that use them.
  \<open>ie_encoder\<close>: on a valid value and a buffer that is large enough, the encoder writes exactly
  the bytes of the wire format at the start of the buffer and nothing else, and returns their
  number. \<open>safe_ie_encoder\<close>: whatever the value and the length, it stays inside the buffer.
  \<open>ie_decoder\<close>: the decoder reads the bytes of the wire format back and leaves \<open>seen x0 x\<close> in the
  structure that held \<open>x0\<close>. \<open>ie_codec\<close> puts both together. The lemmas proved here once are what the message theories use.
\<close>

definition when_present :: "bool \<Rightarrow> ('m \<Rightarrow> 'm) \<Rightarrow> 'm \<Rightarrow> 'm" where
  "when_present present f m = (if present then f m else m)"

text \<open>The updates of the optional elements, in the order of the message.\<close>

primrec updates :: "('m \<Rightarrow> 'm) list \<Rightarrow> 'm \<Rightarrow> 'm" where
  "updates [] m = m"
| "updates (f # fs) m = updates fs (f m)"

locale ie_encoder =
  fixes enc :: "'a \<Rightarrow> u8 \<Rightarrow> encoder"
    and wire :: "'a \<Rightarrow> u8 \<Rightarrow> u8 list"
    and valid :: "'a \<Rightarrow> u8 \<Rightarrow> bool"
  assumes enc_encodes: "valid x iei \<Longrightarrow> encodes (enc x iei) (wire x iei)"
begin

lemma encode_result:
  assumes "valid x iei" and "length (wire x iei) \<le> unat len" and "unat len \<le> length b"
  shows "enc x iei len (Some b)
       = Some (int (length (wire x iei)), wire x iei @ drop (length (wire x iei)) b)"
  using encodesD [OF enc_encodes [OF assms(1)] assms(2,3)] by (simp add: overwrite_zero)

lemma emits_ie: "valid x iei \<Longrightarrow> emits1 e (call (enc x iei)) (wire x iei)"
  by (rule emits_call [OF enc_encodes])

lemma emits_opt_ie:
  "(present \<Longrightarrow> valid x iei) \<Longrightarrow>
   emits1 e (opt present (enc x iei)) (if present then wire x iei else [])"
  by (rule emits_opt [OF enc_encodes])

end

locale safe_ie_encoder = ie_encoder enc wire valid
  for enc :: "'a \<Rightarrow> u8 \<Rightarrow> encoder" and wire and valid +
  assumes enc_safe: "safe_encoder (enc x iei)"
begin

lemma safe_call_ie: "safe [call (enc x iei)]"
  by (rule safe_call [OF enc_safe])

lemma safe_opt_ie: "safe [opt present (enc x iei)]"
  by (rule safe_opt [OF enc_safe])

text \<open>Whatever the length, the encoder returns, keeps the block's size and counts at most \<open>len\<close>.\<close>

lemma encode_stays_inside:
  assumes "unat len \<le> length b"
  shows "\<exists>r b'. enc x iei len (Some b) = Some (r, b') \<and> length b' = length b \<and> nat r \<le> unat len"
  using safe_encoderD [OF enc_safe assms] by blast

end

locale ie_decoder =
  fixes wire :: "'a \<Rightarrow> u8 \<Rightarrow> u8 list"
    and valid :: "'a \<Rightarrow> u8 \<Rightarrow> bool"
    and dec :: "'a \<Rightarrow> u8 \<Rightarrow> mem \<Rightarrow> u32 \<Rightarrow> (int \<times> 'a) option"
    and seen :: "'a \<Rightarrow> 'a \<Rightarrow> 'a"
  assumes dec_decodes: "valid x iei \<Longrightarrow> decodes (\<lambda>b len. dec x0 iei b len) (wire x iei) (seen x0 x)"
begin

lemma dcall_ie:
  assumes "valid x iei" and "length pre + length (wire x iei) \<le> unat len"
  shows "dcall (\<lambda>f. dec f iei) get put mark (pre @ wire x iei @ rest) len m (length pre)
       = DNext (mark (put (seen (get m) x) m)) (length pre + length (wire x iei))"
  using dcall_decodes [of "\<lambda>f. dec f iei" get m, OF dec_decodes [OF assms(1)] assms(2)] .

lemma mreads_ie:
  "valid x iei \<Longrightarrow>
   mreads [dcall (\<lambda>f. dec f iei) get put mark] (wire x iei) m (mark (put (seen (get m) x) m))"
  using mreads_dcall [of "\<lambda>f. dec f iei" get m, OF dec_decodes] .

text \<open>
  One round of the loop reads an element whose identifier is a full octet, when it is present, and
  one whose identifier is the upper half of the octet; the rest of the elements follows.
\<close>

lemma consumes_full:
  assumes "valid x iei" and "wire x iei = iei # w" and "iei \<noteq> 0"
    and "switch full iei = dcall (\<lambda>f. dec f iei) get put mark"
    and "iei AND 0xF0 \<notin> set (map fst half)"
  shows "consumes (ie_step half full) (wire x iei) m (mark (put (seen (get m) x) m))"
  unfolding consumes_def ie_step_def
  using assms(2-5) by (simp add: switch_miss dcall_ie [OF assms(1), simplified assms(2), simplified])

lemma consumes_half:
  assumes "valid x iei" and "wire x iei = [v]" and "v \<noteq> 0" and "v AND 0xF0 = iei"
    and "switch half iei = dcall (\<lambda>f. dec f iei) get put mark"
    and "\<forall>k \<in> set (map fst full). k AND 0xF0 \<noteq> iei"
  shows "consumes (ie_step half full) (wire x iei) m (mark (put (seen (get m) x) m))"
proof -
  have "v \<notin> set (map fst full)" using assms(4,6) by blast
  then show ?thesis
    unfolding consumes_def ie_step_def
    using assms(2-5) by (simp add: switch_miss dcall_ie [OF assms(1), simplified assms(2), simplified])
qed

lemma reads_full:
  assumes sw: "switch full iei = dcall (\<lambda>f. dec f iei) get put mark"
    and half: "iei AND 0xF0 \<notin> set (map fst half)" and "iei \<noteq> 0"
    and v: "present \<Longrightarrow> valid x iei" and w: "wire x iei = iei # tl (wire x iei)"
    and rest: "reads (ie_step half full) bs (when_present present (\<lambda>m. mark (put (seen (get m) x) m)) m) m'"
  shows "reads (ie_step half full) ((if present then wire x iei else []) @ bs) m m'"
proof (rule reads_opt [OF _ _ rest])
  show "present \<Longrightarrow> consumes (ie_step half full) (wire x iei) m
      (when_present present (\<lambda>m. mark (put (seen (get m) x) m)) m)"
    using consumes_full [OF v w assms(3) sw half, of m] by (simp add: when_present_def)
qed (simp add: when_present_def)

lemma reads_half:
  assumes sw: "switch half iei = dcall (\<lambda>f. dec f iei) get put mark"
    and full: "\<forall>k \<in> set (map fst full). k AND 0xF0 \<noteq> iei" and "iei \<noteq> 0"
    and v: "present \<Longrightarrow> valid x iei"
    and w: "wire x iei = [hd (wire x iei)]" and h: "hd (wire x iei) AND 0xF0 = iei"
    and rest: "reads (ie_step half full) bs (when_present present (\<lambda>m. mark (put (seen (get m) x) m)) m) m'"
  shows "reads (ie_step half full) ((if present then wire x iei else []) @ bs) m m'"
proof (rule reads_opt [OF _ _ rest])
  have "hd (wire x iei) \<noteq> 0" using h assms(3) by auto
  then show "present \<Longrightarrow> consumes (ie_step half full) (wire x iei) m
      (when_present present (\<lambda>m. mark (put (seen (get m) x) m)) m)"
    using consumes_half [OF v w _ h sw full, of m] by (simp add: when_present_def)
qed (simp add: when_present_def)

end

locale ie_codec = ie_encoder enc wire valid + ie_decoder wire valid dec seen
  for enc :: "'a \<Rightarrow> u8 \<Rightarrow> encoder" and wire and valid and dec and seen
begin

lemma roundtrip:
  assumes "valid x iei" and "length (wire x iei) \<le> unat len" and "unat len \<le> length b"
  shows "\<exists>n b'. enc x iei len (Some b) = Some (n, b') \<and> dec x0 iei b' len = Some (n, seen x0 x)"
  using encode_result [OF assms] decodesD [OF dec_decodes [OF assms(1)] assms(2)] by auto

end

locale safe_ie_codec = safe_ie_encoder enc wire valid + ie_codec enc wire valid dec seen
  for enc :: "'a \<Rightarrow> u8 \<Rightarrow> encoder" and wire and valid and dec and seen
begin

text \<open>
  The whole contract in one place: on any value the encoder stays inside the buffer, and on a
  valid one what it wrote reads back.
\<close>

lemma encode_inside_and_reads_back:
  assumes "valid x iei" and "length (wire x iei) \<le> unat len" and "unat len \<le> length b"
  shows "\<exists>n b'. enc x iei len (Some b) = Some (n, b') \<and> length b' = length b \<and>
           n = int (length (wire x iei)) \<and> dec x0 iei b' len = Some (n, seen x0 x)"
  using roundtrip [OF assms, of x0] encode_result [OF assms] encode_stays_inside [OF assms(3), of x iei]
  by auto

end

end
