(* ===== verification/IE_Fixed.thy ===== *)
theory IE_Fixed
  imports Ie_Interface
begin

text \<open>
  The information elements of fixed size under \<open>nas/ies\<close>: causes, identities, half-octet
  elements (type 1), timers, capabilities, session AMBR. For each element: its structure,
  the C encoder and decoder, its wire format, and the interpretation of the interface.
\<close>

subsection \<open>5GSM cause\<close>

definition encode__5gsm_cause :: "u8 \<Rightarrow> u8 \<Rightarrow> encoder" where
  "encode__5gsm_cause cause iei =
     encoder_body (if iei > 0 then 2 else 1) [put_iei iei, ENCODE_U8 cause]"

definition decode__5gsm_cause :: "u8 \<Rightarrow> u8 \<Rightarrow> mem \<Rightarrow> u32 \<Rightarrow> (int \<times> u8) option" where
  "decode__5gsm_cause x iei buffer len =
     check_iei iei buffer x (\<lambda>decoded. do {
       v \<leftarrow> DECODE_U8 buffer decoded;
       Some (int (decoded + 1), v) })"

definition cause_wire :: "u8 \<Rightarrow> u8 \<Rightarrow> u8 list" where
  [wire_simps]: "cause_wire c iei = iei_wire iei @ [c]"

lemma encode__5gsm_cause_ok:
  "encodes (encode__5gsm_cause c iei) (cause_wire c iei) \<and> safe_encoder (encode__5gsm_cause c iei)"
  unfolding encode__5gsm_cause_def
  by (rule fixed_encoder, (rule emit_intros)+, simp_all add: wire_simps length_iei_wire)

interpretation cause: safe_ie_codec encode__5gsm_cause cause_wire "\<lambda>_ _. True"
  decode__5gsm_cause "\<lambda>_ x. x"
  by unfold_locales
    (simp_all add: encode__5gsm_cause_ok, simp add: decodes_def decode__5gsm_cause_def cause_wire_def)

subsection \<open>Identities in the message header\<close>

text \<open>
  \<open>encode_message_type\<close>, \<open>encode_extended_protocol_discriminator\<close> and their decoders do nothing:
  the octets are written and read with the header.
\<close>

definition encode_message_type :: "u8 \<Rightarrow> u8 \<Rightarrow> encoder" where
  "encode_message_type messagetype iei len p = Some (0, case p of None \<Rightarrow> [] | Some b \<Rightarrow> b)"

definition decode_message_type :: "u8 \<Rightarrow> u8 \<Rightarrow> mem \<Rightarrow> u32 \<Rightarrow> (int \<times> u8) option" where
  "decode_message_type x iei buffer len = Some (0, x)"

definition encode_extended_protocol_discriminator :: "u8 \<Rightarrow> u8 \<Rightarrow> encoder" where
  "encode_extended_protocol_discriminator epd iei len p = Some (0, case p of None \<Rightarrow> [] | Some b \<Rightarrow> b)"

definition decode_extended_protocol_discriminator :: "u8 \<Rightarrow> u8 \<Rightarrow> mem \<Rightarrow> u32 \<Rightarrow> (int \<times> u8) option" where
  "decode_extended_protocol_discriminator x iei buffer len = Some (0, x)"

definition encode_procedure_transaction_identity :: "u8 \<Rightarrow> u8 \<Rightarrow> encoder" where
  "encode_procedure_transaction_identity pti iei = encoder_body 1 [ENCODE_U8 pti]"

definition decode_procedure_transaction_identity :: "u8 \<Rightarrow> u8 \<Rightarrow> mem \<Rightarrow> u32 \<Rightarrow> (int \<times> u8) option" where
  "decode_procedure_transaction_identity x iei buffer len = do {
     pti \<leftarrow> DECODE_U8 buffer 0;
     Some (1, pti) }"

lemma encode_procedure_transaction_identity_ok:
  "encodes (encode_procedure_transaction_identity c iei) [c] \<and>
   safe_encoder (encode_procedure_transaction_identity c iei)"
  unfolding encode_procedure_transaction_identity_def
  by (rule fixed_encoder, (rule emit_intros)+, simp_all)

interpretation pti: safe_ie_codec encode_procedure_transaction_identity "\<lambda>x _. [x]" "\<lambda>_ _. True"
  decode_procedure_transaction_identity "\<lambda>_ x. x"
  by unfold_locales
    (simp_all add: encode_procedure_transaction_identity_ok decodes_def
      decode_procedure_transaction_identity_def)

definition encode_pdu_session_identity :: "u8 \<Rightarrow> u8 \<Rightarrow> encoder" where
  "encode_pdu_session_identity pdusessionidentity iei =
     (let bitStream = 0;
          bitStream = (if iei > 0 then 0 OR (iei AND 0xF0) OR (pdusessionidentity AND 0x0F) else bitStream)
      in encoder_body 1 [ENCODE_U8 bitStream])"

definition decode_pdu_session_identity :: "u8 \<Rightarrow> u8 \<Rightarrow> mem \<Rightarrow> u32 \<Rightarrow> (int \<times> u8) option" where
  "decode_pdu_session_identity x iei buffer len = do {
     bitStream \<leftarrow> DECODE_U8 buffer 0;
     if iei \<noteq> bitStream AND 0xF0 then Some (-1, x)
     else Some (1, bitStream AND 0x0F) }"

definition pdu_session_identity_wire :: "u8 \<Rightarrow> u8 \<Rightarrow> u8 list" where
  [wire_simps]: "pdu_session_identity_wire x iei =
     [if iei > 0 then (iei AND 0xF0) OR (x AND 0x0F) else 0]"

lemma encode_pdu_session_identity_ok:
  "encodes (encode_pdu_session_identity c iei) (pdu_session_identity_wire c iei) \<and>
   safe_encoder (encode_pdu_session_identity c iei)"
  unfolding encode_pdu_session_identity_def Let_def
  by (rule fixed_encoder, (rule emit_intros)+, simp_all add: wire_simps)

interpretation pdu_session_identity: safe_ie_codec encode_pdu_session_identity
  pdu_session_identity_wire "\<lambda>_ iei. iei > 0 \<and> type1 iei"
  decode_pdu_session_identity "\<lambda>_ x. x AND 0x0F"
  by unfold_locales
    (simp_all add: encode_pdu_session_identity_ok,
      simp add: decodes_def decode_pdu_session_identity_def pdu_session_identity_wire_def)

subsection \<open>Half-octet elements: session type, SSC mode, always-on, allowed SSC modes\<close>

record PDUSessionTypeIE =
  pdu_session_type_value :: "3 word"

definition encode__pdu_session_type :: "PDUSessionTypeIE \<Rightarrow> u8 \<Rightarrow> encoder" where
  "encode__pdu_session_type t iei =
     (let bitStream = 0;
          bitStream = (if iei > 0 then bitStream OR (iei AND 0xF0) else bitStream);
          bitStream = bitStream OR ((ucast (pdu_session_type_value t) AND 0x07) OR 0x10)
      in encoder_body 1 [ENCODE_U8 bitStream])"

definition decode__pdu_session_type ::
  "PDUSessionTypeIE \<Rightarrow> u8 \<Rightarrow> mem \<Rightarrow> u32 \<Rightarrow> (int \<times> PDUSessionTypeIE) option" where
  "decode__pdu_session_type x iei buffer len = do {
     bitStream \<leftarrow> DECODE_U8 buffer 0;
     if iei \<noteq> bitStream AND 0xF0 then Some (-1, x)
     else
       (let bitStream = (if iei > 0 then bitStream AND 0x07 else bitStream)
        in Some (1, x\<lparr>pdu_session_type_value := ucast bitStream\<rparr>)) }"

record SSCMode =
  ssc_mode_value :: "3 word"

definition encode_ssc_mode :: "SSCMode \<Rightarrow> u8 \<Rightarrow> encoder" where
  "encode_ssc_mode sscmode iei =
     (let bitStream = 0;
          bitStream = (if iei > 0 then bitStream OR (iei AND 0xF0) else bitStream);
          bitStream = bitStream OR (ucast (ssc_mode_value sscmode) AND 0x07)
      in encoder_body 1 [ENCODE_U8 bitStream])"

definition decode_ssc_mode :: "SSCMode \<Rightarrow> u8 \<Rightarrow> mem \<Rightarrow> u32 \<Rightarrow> (int \<times> SSCMode) option" where
  "decode_ssc_mode x iei buffer len = do {
     bitStream \<leftarrow> DECODE_U8 buffer 0;
     if iei \<noteq> bitStream AND 0xF0 then Some (-1, x)
     else
       (let bitStream = (if iei > 0 then bitStream AND 0x07 else bitStream)
        in Some (1, x\<lparr>ssc_mode_value := ucast bitStream\<rparr>)) }"

record AlwaysonPDUSessionRequested =
  apsr_requested :: bool

definition encode_alwayson_pdu_session_requested :: "AlwaysonPDUSessionRequested \<Rightarrow> u8 \<Rightarrow> encoder" where
  "encode_alwayson_pdu_session_requested a iei =
     (let bitStream = 0;
          bitStream = (if iei > 0 then bitStream OR (iei AND 0xF0) else bitStream);
          bitStream = (if apsr_requested a then bitStream OR 0x01 else bitStream)
      in encoder_body 1 [ENCODE_U8 bitStream])"

definition decode_alwayson_pdu_session_requested ::
  "AlwaysonPDUSessionRequested \<Rightarrow> u8 \<Rightarrow> mem \<Rightarrow> u32 \<Rightarrow> (int \<times> AlwaysonPDUSessionRequested) option" where
  "decode_alwayson_pdu_session_requested x iei buffer len = do {
     bitStream \<leftarrow> DECODE_U8 buffer 0;
     if iei \<noteq> bitStream AND 0xF0 then Some (-1, x)
     else
       (let bitStream = (if iei > 0 then bitStream AND 0x01 else bitStream)
        in Some (1, x\<lparr>apsr_requested := bitStream \<noteq> 0\<rparr>)) }"

record AlwaysonPDUSessionIndication =
  apsi_indication :: bool

definition encode_alwayson_pdu_session_indication :: "AlwaysonPDUSessionIndication \<Rightarrow> u8 \<Rightarrow> encoder" where
  "encode_alwayson_pdu_session_indication a iei =
     (let bitStream = 0;
          bitStream = (if iei > 0 then iei AND 0xF0 else bitStream);
          bitStream = (if apsi_indication a then bitStream OR 0x01 else bitStream)
      in encoder_body 1 [ENCODE_U8 bitStream])"

definition decode_alwayson_pdu_session_indication ::
  "AlwaysonPDUSessionIndication \<Rightarrow> u8 \<Rightarrow> mem \<Rightarrow> u32 \<Rightarrow> (int \<times> AlwaysonPDUSessionIndication) option" where
  "decode_alwayson_pdu_session_indication x iei buffer len = do {
     bitStream \<leftarrow> DECODE_U8 buffer 0;
     if iei \<noteq> bitStream AND 0xF0 then Some (-1, x)
     else
       (let bitStream = (if iei > 0 then bitStream AND 0x01 else bitStream)
        in Some (1, x\<lparr>apsi_indication := bitStream \<noteq> 0\<rparr>)) }"

record AllowedSSCMode =
  is_ssc1_allowed :: bool
  is_ssc2_allowed :: bool
  is_ssc3_allowed :: bool

definition encode_allowed_ssc_mode :: "AllowedSSCMode \<Rightarrow> u8 \<Rightarrow> encoder" where
  "encode_allowed_ssc_mode a iei =
     (let bitStream = 0;
          bitStream = (if iei > 0 then bitStream OR (iei AND 0xF0) else bitStream);
          bitStream = (if is_ssc3_allowed a then bitStream OR 0x04 else bitStream);
          bitStream = (if is_ssc2_allowed a then bitStream OR 0x02 else bitStream);
          bitStream = (if is_ssc1_allowed a then bitStream OR 0x01 else bitStream)
      in encoder_body 1 [ENCODE_U8 bitStream])"

definition decode_allowed_ssc_mode ::
  "AllowedSSCMode \<Rightarrow> u8 \<Rightarrow> mem \<Rightarrow> u32 \<Rightarrow> (int \<times> AllowedSSCMode) option" where
  "decode_allowed_ssc_mode x iei buffer len = do {
     bitStream \<leftarrow> DECODE_U8 buffer 0;
     if iei \<noteq> bitStream AND 0xF0 then Some (-1, x)
     else
       (let bitStream = (if iei > 0 then bitStream AND 0x07 else bitStream);
            x = x\<lparr>is_ssc1_allowed := bitStream AND 0x01 \<noteq> 0\<rparr>;
            x = x\<lparr>is_ssc2_allowed := bitStream AND 0x02 \<noteq> 0\<rparr>;
            x = x\<lparr>is_ssc3_allowed := bitStream AND 0x04 \<noteq> 0\<rparr>
        in Some (1, x)) }"

text \<open>On the wire: the identifier in the upper half, the value in the lower one.\<close>

definition half_wire :: "u8 \<Rightarrow> u8 \<Rightarrow> u8 list" where
  [wire_simps]: "half_wire v iei = [(iei AND 0xF0) OR (v AND 0x07)]"

definition pdu_session_type_wire :: "PDUSessionTypeIE \<Rightarrow> u8 \<Rightarrow> u8 list" where
  [wire_simps]: "pdu_session_type_wire t iei = half_wire (ucast (pdu_session_type_value t)) (iei OR 0x10)"

definition ssc_mode_wire :: "SSCMode \<Rightarrow> u8 \<Rightarrow> u8 list" where
  [wire_simps]: "ssc_mode_wire s iei = half_wire (ucast (ssc_mode_value s)) iei"

definition apsr_wire :: "AlwaysonPDUSessionRequested \<Rightarrow> u8 \<Rightarrow> u8 list" where
  [wire_simps]: "apsr_wire a iei = half_wire (if apsr_requested a then 1 else 0) iei"

definition apsi_wire :: "AlwaysonPDUSessionIndication \<Rightarrow> u8 \<Rightarrow> u8 list" where
  [wire_simps]: "apsi_wire a iei = half_wire (if apsi_indication a then 1 else 0) iei"

definition allowed_ssc_bits :: "AllowedSSCMode \<Rightarrow> u8" where
  "allowed_ssc_bits a = (if is_ssc1_allowed a then 1 else 0) OR (if is_ssc2_allowed a then 2 else 0)
     OR (if is_ssc3_allowed a then 4 else 0)"

definition allowed_ssc_wire :: "AllowedSSCMode \<Rightarrow> u8 \<Rightarrow> u8 list" where
  [wire_simps]: "allowed_ssc_wire a iei = half_wire (allowed_ssc_bits a) iei"

lemma encode__pdu_session_type_ok:
  "encodes (encode__pdu_session_type t iei) (pdu_session_type_wire t iei) \<and>
   safe_encoder (encode__pdu_session_type t iei)"
  unfolding encode__pdu_session_type_def Let_def
  by (rule fixed_encoder, (rule emit_intros)+, cases "iei = 0")
    (simp_all add: wire_simps or_10_and_F0 word_neq_0_conv ac_simps)

lemma encode_ssc_mode_ok:
  "encodes (encode_ssc_mode s iei) (ssc_mode_wire s iei) \<and> safe_encoder (encode_ssc_mode s iei)"
  unfolding encode_ssc_mode_def Let_def
  by (rule fixed_encoder, (rule emit_intros)+, cases "iei = 0")
    (simp_all add: wire_simps word_neq_0_conv)

lemma encode_alwayson_pdu_session_requested_ok:
  "encodes (encode_alwayson_pdu_session_requested a iei) (apsr_wire a iei) \<and>
   safe_encoder (encode_alwayson_pdu_session_requested a iei)"
  unfolding encode_alwayson_pdu_session_requested_def Let_def
  by (rule fixed_encoder, (rule emit_intros)+, cases "iei = 0")
    (simp_all add: wire_simps word_neq_0_conv)

lemma encode_alwayson_pdu_session_indication_ok:
  "encodes (encode_alwayson_pdu_session_indication a iei) (apsi_wire a iei) \<and>
   safe_encoder (encode_alwayson_pdu_session_indication a iei)"
  unfolding encode_alwayson_pdu_session_indication_def Let_def
  by (rule fixed_encoder, (rule emit_intros)+, cases "iei = 0")
    (simp_all add: wire_simps word_neq_0_conv)

lemma encode_allowed_ssc_mode_ok:
  "encodes (encode_allowed_ssc_mode a iei) (allowed_ssc_wire a iei) \<and>
   safe_encoder (encode_allowed_ssc_mode a iei)"
  unfolding encode_allowed_ssc_mode_def Let_def
  by (rule fixed_encoder, (rule emit_intros)+, cases "iei = 0")
    (simp_all add: wire_simps allowed_ssc_bits_def word_neq_0_conv or.assoc)

text \<open>
  A half-octet element is read back under its own identifier. The session type is the exception:
  the encoder always sets bit 5 (the place of the SSC mode in the accept message), so its octet
  carries an identifier with that bit set, and only such an identifier reads back.
\<close>

lemma half_bits: "(iei AND 0xF0 OR (v AND 7)) AND w = (v AND 7 AND w :: u8)" if "w AND 7 = w"
proof -
  have "(iei AND 0xF0 OR (v AND 7)) AND w = ((iei AND 0xF0 OR (v AND 7)) AND 7) AND w"
    by (simp only: and.assoc and.commute [of 7] that)
  then show ?thesis by (simp add: and.assoc)
qed

lemma decode_ssc_mode_ok:
  "type1 iei \<Longrightarrow> decodes (\<lambda>b len. decode_ssc_mode x0 iei b len) (ssc_mode_wire x iei) x"
  by (cases x0; cases x; cases "iei = 0")
    (simp_all add: decodes_def decode_ssc_mode_def wire_simps half_bits word_neq_0_conv)

lemma decode_alwayson_pdu_session_requested_ok:
  "type1 iei \<Longrightarrow> decodes (\<lambda>b len. decode_alwayson_pdu_session_requested x0 iei b len) (apsr_wire x iei) x"
  by (cases x0; cases x; cases "iei = 0")
    (simp_all add: decodes_def decode_alwayson_pdu_session_requested_def wire_simps half_bits word_neq_0_conv)

lemma decode_alwayson_pdu_session_indication_ok:
  "type1 iei \<Longrightarrow> decodes (\<lambda>b len. decode_alwayson_pdu_session_indication x0 iei b len) (apsi_wire x iei) x"
  by (cases x0; cases x; cases "iei = 0")
    (simp_all add: decodes_def decode_alwayson_pdu_session_indication_def wire_simps half_bits word_neq_0_conv)

lemma decode_allowed_ssc_mode_ok:
  "type1 iei \<Longrightarrow> decodes (\<lambda>b len. decode_allowed_ssc_mode x0 iei b len) (allowed_ssc_wire x iei) x"
  by (cases x0; cases x; cases "iei = 0")
    (simp_all add: decodes_def decode_allowed_ssc_mode_def wire_simps half_bits word_neq_0_conv allowed_ssc_bits_def)

interpretation pdu_session_type: safe_ie_codec encode__pdu_session_type pdu_session_type_wire
  "\<lambda>_ iei. type1 iei \<and> iei > 0 \<and> iei OR 0x10 = iei" decode__pdu_session_type "\<lambda>_ x. x"
  by unfold_locales
    (simp_all add: encode__pdu_session_type_ok, simp add: decodes_def decode__pdu_session_type_def wire_simps)

interpretation ssc_mode: safe_ie_codec encode_ssc_mode ssc_mode_wire
  "\<lambda>_ iei. type1 iei" decode_ssc_mode "\<lambda>_ x. x"
  by unfold_locales (simp_all add: encode_ssc_mode_ok decode_ssc_mode_ok)

interpretation apsr: safe_ie_codec encode_alwayson_pdu_session_requested apsr_wire
  "\<lambda>_ iei. type1 iei" decode_alwayson_pdu_session_requested "\<lambda>_ x. x"
  by unfold_locales
    (simp_all add: encode_alwayson_pdu_session_requested_ok decode_alwayson_pdu_session_requested_ok)

interpretation apsi: safe_ie_codec encode_alwayson_pdu_session_indication apsi_wire
  "\<lambda>_ iei. type1 iei" decode_alwayson_pdu_session_indication "\<lambda>_ x. x"
  by unfold_locales
    (simp_all add: encode_alwayson_pdu_session_indication_ok decode_alwayson_pdu_session_indication_ok)

interpretation allowed_ssc: safe_ie_codec encode_allowed_ssc_mode allowed_ssc_wire
  "\<lambda>_ iei. type1 iei" decode_allowed_ssc_mode "\<lambda>_ x. x"
  by unfold_locales (simp_all add: encode_allowed_ssc_mode_ok decode_allowed_ssc_mode_ok)

subsection \<open>Maximum number of supported packet filters\<close>

definition encode_maximum_number_of_supported_packet_filters :: "u16 \<Rightarrow> u8 \<Rightarrow> encoder" where
  "encode_maximum_number_of_supported_packet_filters n iei =
     encoder_body (if iei > 0 then 3 else 2)
       [put_iei iei,
        ENCODE_U8 (ucast (n AND 0x00FF)),
        ENCODE_U8 (ucast (drop_bit 3 (n AND 0x700)))]"

definition decode_maximum_number_of_supported_packet_filters ::
  "u16 \<Rightarrow> u8 \<Rightarrow> mem \<Rightarrow> u32 \<Rightarrow> (int \<times> u16) option" where
  "decode_maximum_number_of_supported_packet_filters x iei buffer len =
     check_iei iei buffer x (\<lambda>decoded. do {
       bit8Stream \<leftarrow> DECODE_U8 buffer decoded;
       let bit16Stream = 0 OR (ucast bit8Stream :: u16);
       bit8Stream \<leftarrow> DECODE_U8 buffer (decoded + 1);
       let bit16Stream = bit16Stream OR push_bit 3 (ucast bit8Stream);
       Some (int (decoded + 2), bit16Stream) })"

text \<open>Eleven bits: the low octet, then the three high bits at the top of the second octet.\<close>

definition max_pf_wire :: "u16 \<Rightarrow> u8 \<Rightarrow> u8 list" where
  [wire_simps]: "max_pf_wire n iei =
     iei_wire iei @ [lo8 n, push_bit 5 (ucast (drop_bit 8 n))]"

subsection \<open>Timers\<close>

record GPRSTimer =
  timer_unit :: "3 word"
  timeValue :: "5 word"

definition timer_octet :: "GPRSTimer \<Rightarrow> u8" where
  [wire_simps]: "timer_octet t = push_bit 5 (ucast (timer_unit t)) OR ucast (timeValue t)"

definition encode_gprs_timer :: "GPRSTimer \<Rightarrow> u8 \<Rightarrow> encoder" where
  "encode_gprs_timer t iei =
     encoder_body (if iei > 0 then 2 else 1)
       [put_iei iei,
        ENCODE_U8 (push_bit 5 (ucast (timer_unit t)) OR ucast (timeValue t))]"

definition decode_gprs_timer :: "GPRSTimer \<Rightarrow> u8 \<Rightarrow> mem \<Rightarrow> u32 \<Rightarrow> (int \<times> GPRSTimer) option" where
  "decode_gprs_timer x iei buffer len =
     check_iei iei buffer x (\<lambda>decoded. do {
       v \<leftarrow> DECODE_U8 buffer decoded;
       Some (int (decoded + 1),
             x\<lparr>timer_unit := ucast (drop_bit 5 (v AND 0xE0)), timeValue := ucast (v AND 0x1F)\<rparr>) })"

definition gprs_timer_wire :: "GPRSTimer \<Rightarrow> u8 \<Rightarrow> u8 list" where
  [wire_simps]: "gprs_timer_wire t iei = iei_wire iei @ [timer_octet t]"

text \<open>\<open>GPRSTimer3\<close> has the same two fields, and a length octet on the wire.\<close>

definition encode_gprs_timer3 :: "GPRSTimer \<Rightarrow> u8 \<Rightarrow> encoder" where
  "encode_gprs_timer3 t iei =
     encoder_body (if iei > 0 then 3 else 2)
       [put_iei iei,
        with_lenptr 1 (\<lambda>lenPtr encoded. [of_nat encoded - 1 - (if iei > 0 then 1 else 0)])
          [ENCODE_U8 (push_bit 5 (ucast (timer_unit t)) OR ucast (timeValue t))]]"

definition decode_gprs_timer3 :: "GPRSTimer \<Rightarrow> u8 \<Rightarrow> mem \<Rightarrow> u32 \<Rightarrow> (int \<times> GPRSTimer) option" where
  "decode_gprs_timer3 x iei buffer len =
     check_iei iei buffer x (\<lambda>decoded. do {
       ielen \<leftarrow> DECODE_U8 buffer decoded;
       let decoded = decoded + 1;
       check_length (len - of_nat decoded) (ucast ielen) x (do {
         v \<leftarrow> DECODE_U8 buffer decoded;
         Some (int (decoded + 1),
               x\<lparr>timer_unit := ucast (drop_bit 5 (v AND 0xE0)), timeValue := ucast (v AND 0x1F)\<rparr>) }) })"

definition gprs_timer3_wire :: "GPRSTimer \<Rightarrow> u8 \<Rightarrow> u8 list" where
  [wire_simps]: "gprs_timer3_wire t iei = iei_wire iei @ [1, timer_octet t]"

subsection \<open>Congestion re-attempt indicator\<close>

record CongestionReattemptIndicator =
  abo :: "1 word"

definition encode__5gsm_congestion_reattempt_indicator :: "CongestionReattemptIndicator \<Rightarrow> u8 \<Rightarrow> encoder" where
  "encode__5gsm_congestion_reattempt_indicator c iei =
     encoder_body (if iei > 0 then 3 else 2)
       [put_iei iei,
        with_lenptr 1 (\<lambda>lenPtr encoded. [of_nat encoded - 1 - (if iei > 0 then 1 else 0)])
          [ENCODE_U8 (0 OR ucast (abo c))]]"

definition decode__5gsm_congestion_reattempt_indicator ::
  "CongestionReattemptIndicator \<Rightarrow> u8 \<Rightarrow> mem \<Rightarrow> u32 \<Rightarrow> (int \<times> CongestionReattemptIndicator) option" where
  "decode__5gsm_congestion_reattempt_indicator x iei buffer len =
     check_iei iei buffer x (\<lambda>decoded. do {
       ielen \<leftarrow> DECODE_U8 buffer decoded;
       let decoded = decoded + 1;
       check_length (len - of_nat decoded) (ucast ielen) x (do {
         bits \<leftarrow> DECODE_U8 buffer decoded;
         Some (int (decoded + 1), x\<lparr>abo := ucast (bits AND 0x01)\<rparr>) }) })"

definition congestion_wire :: "CongestionReattemptIndicator \<Rightarrow> u8 \<Rightarrow> u8 list" where
  [wire_simps]: "congestion_wire c iei = iei_wire iei @ [1, ucast (abo c)]"

subsection \<open>5GSM capability\<close>

record FiveGSMCapability =
  is_Rqos_supported :: bool
  is_MH6PDU_supported :: bool
  is_EPTS1_supported :: bool
  is_ATSLL_supported :: bool
  is_MPTCP_supported :: bool

definition capability_bits :: "FiveGSMCapability \<Rightarrow> u8" where
  "capability_bits c =
     (let bits = 0;
          bits = (if is_MPTCP_supported c then bits OR 0x10 else bits);
          bits = (if is_ATSLL_supported c then bits OR 0x08 else bits);
          bits = (if is_EPTS1_supported c then bits OR 0x04 else bits);
          bits = (if is_MH6PDU_supported c then bits OR 0x02 else bits);
          bits = (if is_Rqos_supported c then bits OR 0x01 else bits)
      in bits)"

definition encode__5gsm_capability :: "FiveGSMCapability \<Rightarrow> u8 \<Rightarrow> encoder" where
  "encode__5gsm_capability c iei =
     encoder_body (if iei > 0 then 3 else 2)
       [put_iei iei,
        with_lenptr 1 (\<lambda>lenPtr encoded. [of_nat encoded - 1 - (if iei > 0 then 1 else 0)])
          [ENCODE_U8 (capability_bits c)]]"

definition decode__5gsm_capability ::
  "FiveGSMCapability \<Rightarrow> u8 \<Rightarrow> mem \<Rightarrow> u32 \<Rightarrow> (int \<times> FiveGSMCapability) option" where
  "decode__5gsm_capability x iei buffer len =
     check_iei iei buffer x (\<lambda>decoded. do {
       ielen \<leftarrow> DECODE_U8 buffer decoded;
       let decoded = decoded + 1;
       check_length (len - of_nat decoded) (ucast ielen) x (do {
         bits \<leftarrow> DECODE_U8 buffer decoded;
         let x = x\<lparr>is_MPTCP_supported := bits AND 0x10 \<noteq> 0\<rparr>;
         let x = x\<lparr>is_ATSLL_supported := bits AND 0x08 \<noteq> 0\<rparr>;
         let x = x\<lparr>is_EPTS1_supported := bits AND 0x04 \<noteq> 0\<rparr>;
         let x = x\<lparr>is_MH6PDU_supported := bits AND 0x02 \<noteq> 0\<rparr>;
         let x = x\<lparr>is_Rqos_supported := bits AND 0x01 \<noteq> 0\<rparr>;
         Some (int (decoded + 1), x) }) })"

definition capability_wire :: "FiveGSMCapability \<Rightarrow> u8 \<Rightarrow> u8 list" where
  [wire_simps]: "capability_wire c iei = iei_wire iei @ [1, capability_bits c]"

subsection \<open>These encoders and decoders meet the contract\<close>

lemma max_pf_high:
  "ucast (drop_bit 3 n AND 0xE0 :: u16) = (push_bit 5 (ucast (drop_bit 8 n)) :: u8)"
proof -
  have m: "(0xE0 :: u16) = push_bit 5 (mask 3)" by (simp add: mask_eq_exp_minus_1)
  show ?thesis
    unfolding m by (rule bit_word_eqI) (auto simp: bit_simps)
qed

lemma max_pf_low: "ucast (n AND 0xFF :: u16) = (ucast n :: u8)"
proof -
  have m: "(0xFF :: u16) = mask 8" by (simp add: mask_eq_exp_minus_1)
  show ?thesis
    unfolding m by (rule bit_word_eqI) (auto simp: bit_simps)
qed

lemma encode_maximum_number_of_supported_packet_filters_ok:
  "encodes (encode_maximum_number_of_supported_packet_filters n iei) (max_pf_wire n iei) \<and>
   safe_encoder (encode_maximum_number_of_supported_packet_filters n iei)"
  unfolding encode_maximum_number_of_supported_packet_filters_def
  by (rule fixed_encoder, (rule emit_intros | simp only: list.size)+)
    (simp_all add: wire_simps length_iei_wire max_pf_high max_pf_low)

lemma encode_gprs_timer_ok:
  "encodes (encode_gprs_timer t iei) (gprs_timer_wire t iei) \<and>
   safe_encoder (encode_gprs_timer t iei)"
  unfolding encode_gprs_timer_def
  by (rule fixed_encoder, (rule emit_intros | simp only: list.size)+)
    (simp_all add: wire_simps length_iei_wire)

lemma encode_gprs_timer3_ok:
  "encodes (encode_gprs_timer3 t iei) (gprs_timer3_wire t iei) \<and>
   safe_encoder (encode_gprs_timer3 t iei)"
  unfolding encode_gprs_timer3_def
  by (rule fixed_encoder, (rule emit_intros | simp only: list.size)+)
    (simp_all add: wire_simps length_iei_wire)

lemma encode__5gsm_congestion_reattempt_indicator_ok:
  "encodes (encode__5gsm_congestion_reattempt_indicator c iei) (congestion_wire c iei) \<and>
   safe_encoder (encode__5gsm_congestion_reattempt_indicator c iei)"
  unfolding encode__5gsm_congestion_reattempt_indicator_def
  by (rule fixed_encoder, (rule emit_intros | simp only: list.size)+)
    (simp_all add: wire_simps length_iei_wire)

lemma encode__5gsm_capability_ok:
  "encodes (encode__5gsm_capability c iei) (capability_wire c iei) \<and>
   safe_encoder (encode__5gsm_capability c iei)"
  unfolding encode__5gsm_capability_def
  by (rule fixed_encoder, (rule emit_intros | simp only: list.size)+)
    (simp_all add: wire_simps length_iei_wire)

text \<open>
  The number of packet filters has eleven bits on the wire; the decoder recovers a number
  below 2048, and any five low bits of the second octet would leak into it.
\<close>

lemma max_pf_read:
  assumes "n < 2048"
  shows "ucast (ucast n :: u8) OR push_bit 3 (ucast (push_bit 5 (ucast (drop_bit 8 n)) :: u8)) = (n :: u16)"
proof -
  have "unat n < 2 ^ 11" using assms by (simp add: word_less_nat_alt)
  then have n: "take_bit 11 n = n"
    by (metis take_bit_word_eq_self unsigned_take_bit_eq word_unat_eq_iff take_bit_nat_eq_self)
  have "ucast (ucast n :: u8) OR push_bit 3 (ucast (push_bit 5 (ucast (drop_bit 8 n)) :: u8)) = take_bit 11 n"
    by (rule bit_word_eqI) (auto simp: bit_simps)
  with n show ?thesis by simp
qed

lemma timer_read:
  "ucast ((drop_bit 5 (push_bit 5 (ucast (u :: 3 word))) OR drop_bit 5 (ucast (t :: 5 word))) AND 7 :: u8) = u"
  unfolding octet_masks by (rule bit_word_eqI) (auto simp: bit_simps dest: bit_imp_le_length)

interpretation max_pf: safe_ie_codec encode_maximum_number_of_supported_packet_filters max_pf_wire
  "\<lambda>n _. n < 2048" decode_maximum_number_of_supported_packet_filters "\<lambda>_ x. x"
  by unfold_locales
    (simp_all add: encode_maximum_number_of_supported_packet_filters_ok,
     simp add: decodes_def decode_maximum_number_of_supported_packet_filters_def max_pf_wire_def
       iei_wire_def check_iei_def lo8_def max_pf_read)

interpretation gprs_timer: safe_ie_codec encode_gprs_timer gprs_timer_wire "\<lambda>_ _. True"
  decode_gprs_timer "\<lambda>_ x. x"
proof (unfold_locales, goal_cases)
  case (3 x iei x0)
  then show ?case
    by (cases x0; cases x) (simp add: decodes_def decode_gprs_timer_def wire_simps timer_read)
qed (simp_all add: encode_gprs_timer_ok)

interpretation gprs_timer3: safe_ie_codec encode_gprs_timer3 gprs_timer3_wire "\<lambda>_ _. True"
  decode_gprs_timer3 "\<lambda>_ x. x"
proof (unfold_locales, goal_cases)
  case (3 x iei x0)
  then show ?case
    by (cases x0; cases x)
      (simp add: decodes_def decode_gprs_timer3_def wire_simps iei_wire_def check_iei_def timer_read)
qed (simp_all add: encode_gprs_timer3_ok)

lemma abo_read [simp]: "ucast (ucast (a :: 1 word) AND 1 :: u8) = a"
  unfolding octet_masks by (rule bit_word_eqI) (auto simp: bit_simps)

interpretation congestion: safe_ie_codec encode__5gsm_congestion_reattempt_indicator congestion_wire
  "\<lambda>_ _. True" decode__5gsm_congestion_reattempt_indicator "\<lambda>_ x. x"
proof (unfold_locales, goal_cases)
  case (3 x iei x0)
  then show ?case
    by (cases x0; cases x)
      (simp add: decodes_def decode__5gsm_congestion_reattempt_indicator_def wire_simps iei_wire_def
        check_iei_def)
qed (simp_all add: encode__5gsm_congestion_reattempt_indicator_ok)

lemma capability_read:
  "(capability_bits x AND 0x10 \<noteq> 0) = is_MPTCP_supported x"
  "(capability_bits x AND 0x08 \<noteq> 0) = is_ATSLL_supported x"
  "(capability_bits x AND 0x04 \<noteq> 0) = is_EPTS1_supported x"
  "(capability_bits x AND 0x02 \<noteq> 0) = is_MH6PDU_supported x"
  "(capability_bits x AND 0x01 \<noteq> 0) = is_Rqos_supported x"
  by (simp_all add: capability_bits_def bit.conj_disj_distrib2)

interpretation capability: safe_ie_codec encode__5gsm_capability capability_wire
  "\<lambda>_ _. True" decode__5gsm_capability "\<lambda>_ x. x"
proof (unfold_locales, goal_cases)
  case (3 x iei x0)
  have "decode__5gsm_capability x0 iei (capability_wire x iei @ rest) len = Some (int (length (capability_wire x iei)), x)"
    if "length (capability_wire x iei) \<le> unat len" for rest len
    using that
    by (cases x0; cases "0 < iei")
      (simp_all add: decode__5gsm_capability_def capability_wire_def iei_wire_def check_iei_def capability_read)
  then show ?case by (simp add: decodes_def)
qed (simp_all add: encode__5gsm_capability_ok)

subsection \<open>Properties\<close>

text \<open>The 5GSM capability survives the codec for every combination of its five features.\<close>

theorem capability_roundtrip:
  assumes "3 \<le> unat len" and "unat len \<le> length b"
  shows "\<exists>n b'. encode__5gsm_capability c iei len (Some b) = Some (n, b') \<and> length b' = length b \<and>
     decode__5gsm_capability c0 iei b' len = Some (n, c)"
proof -
  have "length (capability_wire c iei) \<le> unat len"
    using assms(1) by (simp add: capability_wire_def length_iei_wire)
  from capability.encode_inside_and_reads_back [OF TrueI this assms(2), of c0] show ?thesis by auto
qed

theorem capability_roundtrip_witness:
  "let c = \<lparr>is_Rqos_supported = True, is_MH6PDU_supported = False, is_EPTS1_supported = False,
         is_ATSLL_supported = False, is_MPTCP_supported = True\<rparr>
   in \<exists>n b'. encode__5gsm_capability c 0x28 8 (Some (replicate 8 0)) = Some (n, b') \<and>
     length b' = length (replicate 8 (0 :: u8)) \<and> decode__5gsm_capability c 0x28 b' 8 = Some (n, c)"
  unfolding Let_def by (rule capability_roundtrip) simp_all

end
