(* ===== verification/IE_Network.thy ===== *)
theory IE_Network
  imports IE_Fixed
begin

text \<open>
  The elements that carry a session's network parameters: \<open>SessionAMBR.c\<close> (aggregate bit rates)
  and \<open>SNSSAI.c\<close> (the slice), with their wire formats and the interpretations of the interface.
\<close>

subsection \<open>Session AMBR\<close>

record SessionAMBR =
  sessionambr_length :: u8
  uint_for_session_ambr_for_downlink :: u8
  session_ambr_for_downlink :: u16
  uint_for_session_ambr_for_uplink :: u8
  session_ambr_for_uplink :: u16

definition encode_session_ambr :: "SessionAMBR \<Rightarrow> u8 \<Rightarrow> encoder" where
  "encode_session_ambr sessionambr iei =
     encoder_body (if iei > 0 then 8 else 7)
       [put_iei iei,
        with_lenptr 1 (\<lambda>lenPtr encoded. [of_nat encoded - of_nat (lenPtr + 1)])
          [ENCODE_U8 (uint_for_session_ambr_for_downlink sessionambr),
           ENCODE_U16 (session_ambr_for_downlink sessionambr),
           ENCODE_U8 (uint_for_session_ambr_for_uplink sessionambr),
           ENCODE_U16 (session_ambr_for_uplink sessionambr)]]"

definition decode_session_ambr :: "SessionAMBR \<Rightarrow> u8 \<Rightarrow> mem \<Rightarrow> u32 \<Rightarrow> (int \<times> SessionAMBR) option" where
  "decode_session_ambr x iei buffer len =
     check_iei iei buffer x (\<lambda>decoded. do {
       ielen \<leftarrow> DECODE_U8 buffer decoded;
       let decoded = decoded + 1;
       check_length (len - of_nat decoded) (ucast ielen) x (do {
         bit8Stream \<leftarrow> DECODE_U8 buffer decoded;
         let x = x\<lparr>uint_for_session_ambr_for_downlink := bit8Stream\<rparr>;
         hi \<leftarrow> DECODE_U8 buffer (decoded + 1);
         lo \<leftarrow> DECODE_U8 buffer (decoded + 2);
         let x = x\<lparr>session_ambr_for_downlink := push_bit 8 (ucast hi) + ucast lo\<rparr>;
         bit8Stream \<leftarrow> DECODE_U8 buffer (decoded + 3);
         let x = x\<lparr>uint_for_session_ambr_for_uplink := bit8Stream\<rparr>;
         hi \<leftarrow> DECODE_U8 buffer (decoded + 4);
         lo \<leftarrow> DECODE_U8 buffer (decoded + 5);
         let x = x\<lparr>session_ambr_for_uplink := push_bit 8 (ucast hi) + ucast lo\<rparr>;
         Some (int (decoded + 6), x) }) })"

definition session_ambr_wire :: "SessionAMBR \<Rightarrow> u8 \<Rightarrow> u8 list" where
  [wire_simps]: "session_ambr_wire a iei = iei_wire iei @
     [6, uint_for_session_ambr_for_downlink a,
      hi8 (session_ambr_for_downlink a), lo8 (session_ambr_for_downlink a),
      uint_for_session_ambr_for_uplink a,
      hi8 (session_ambr_for_uplink a), lo8 (session_ambr_for_uplink a)]"

lemma encode_session_ambr_ok:
  "encodes (encode_session_ambr a iei) (session_ambr_wire a iei) \<and>
   safe_encoder (encode_session_ambr a iei)"
  unfolding encode_session_ambr_def
  by (rule fixed_encoder, (rule emit_intros | simp only: list.size)+)
    (simp_all add: session_ambr_wire_def length_iei_wire)

lemma be16_plus: "push_bit 8 (ucast (hi8 v)) + ucast (lo8 v) = v"
proof -
  have "push_bit 8 (ucast (hi8 v)) AND (ucast (lo8 v) :: u16) = 0"
    unfolding lo8_def by (rule bit_word_eqI) (auto simp: bit_simps)
  then show ?thesis
    using be16_hi_lo [of v] by (simp add: plus_disjoint be16_def)
qed

interpretation session_ambr: safe_ie_codec encode_session_ambr session_ambr_wire "\<lambda>_ _. True"
  decode_session_ambr "\<lambda>x0 x. x\<lparr>sessionambr_length := sessionambr_length x0\<rparr>"
proof (unfold_locales, goal_cases)
  case (3 x iei x0)
  then show ?case
    by (cases x0; cases x; cases "0 < iei")
      (simp_all add: decodes_def decode_session_ambr_def session_ambr_wire_def iei_wire_def check_iei_def
        be16_plus)
qed (simp_all add: encode_session_ambr_ok)

subsection \<open>S-NSSAI\<close>

record SNSSAI =
  snssai_len :: u32
  sst :: u8
  sd :: u24
  mappedhplmnsst :: u8
  mappedhplmnsd :: u32

text \<open>The constants of \<open>length_of_snssai_contents\<close>, as conditions on the length octet.\<close>

definition has_sd :: "u8 \<Rightarrow> bool" where
  "has_sd ielen \<longleftrightarrow> ielen = 4 \<or> ielen = 5 \<or> ielen = 8"

definition has_mapped_sst :: "u8 \<Rightarrow> bool" where
  "has_mapped_sst ielen \<longleftrightarrow> ielen = 2 \<or> ielen = 5 \<or> ielen = 8"

definition has_mapped_sd :: "u8 \<Rightarrow> bool" where
  "has_mapped_sd ielen \<longleftrightarrow> ielen = 8"

definition snssai_ielen :: "SNSSAI \<Rightarrow> u8" where
  "snssai_ielen s = (if sd s = 0xffffff then 1 else ucast (snssai_len s))"

definition encode_snssai :: "SNSSAI \<Rightarrow> u8 \<Rightarrow> encoder" where
  "encode_snssai snssai iei =
     (let ielen = snssai_ielen snssai;
          bit32Stream = (ucast (sd snssai) :: u32);
          mapped = mappedhplmnsd snssai
      in encoder_body (if iei > 0 then 3 else 2)
       ([put_iei iei, store [ielen], ENCODE_U8 (sst snssai)]
        @ (if has_sd ielen then
             [ENCODE_U8 (ucast (drop_bit 16 bit32Stream)), ENCODE_U8 (ucast (drop_bit 8 bit32Stream)),
              ENCODE_U8 (ucast bit32Stream)]
           else [])
        @ (if has_mapped_sst ielen then [ENCODE_U8 (mappedhplmnsst snssai)] else [])
        @ (if has_mapped_sd ielen then
             [ENCODE_U8 (ucast mapped), ENCODE_U8 (ucast (drop_bit 8 mapped)),
              ENCODE_U8 (ucast (drop_bit 16 mapped))]
           else [])))"

text \<open>Three octets read with the first one as the low byte.\<close>

definition le24 :: "u8 \<Rightarrow> u8 \<Rightarrow> u8 \<Rightarrow> u32" where
  "le24 a b c = (ucast a AND 0xff) OR (push_bit 8 (ucast b) AND 0xff00) OR (push_bit 16 (ucast c) AND 0xff0000)"

definition decode_snssai :: "SNSSAI \<Rightarrow> u8 \<Rightarrow> mem \<Rightarrow> u32 \<Rightarrow> (int \<times> SNSSAI) option" where
  "decode_snssai x iei buffer len =
     check_iei iei buffer x (\<lambda>decoded. do {
       ielen \<leftarrow> DECODE_U8 buffer decoded;
       let decoded = decoded + 1;
       check_length (len - of_nat decoded) (ucast ielen) x (do {
         let x = x\<lparr>snssai_len := ucast ielen\<rparr>;
         bitStream \<leftarrow> DECODE_U8 buffer decoded;
         let x = x\<lparr>sst := bitStream\<rparr>;
         let decoded = decoded + 1;
         (x, decoded) \<leftarrow> (if has_sd ielen then do {
             b0 \<leftarrow> DECODE_U8 buffer decoded;
             b1 \<leftarrow> DECODE_U8 buffer (decoded + 1);
             b2 \<leftarrow> DECODE_U8 buffer (decoded + 2);
             Some (x\<lparr>sd := ucast (le24 b0 b1 b2)\<rparr>, decoded + 3) }
           else Some (x, decoded));
         (x, decoded) \<leftarrow> (if has_mapped_sst ielen then do {
             bitStream \<leftarrow> DECODE_U8 buffer decoded;
             Some (x\<lparr>mappedhplmnsst := bitStream\<rparr>, decoded + 1) }
           else Some (x, decoded));
         (x, decoded) \<leftarrow> (if has_mapped_sd ielen then do {
             b0 \<leftarrow> DECODE_U8 buffer decoded;
             b1 \<leftarrow> DECODE_U8 buffer (decoded + 1);
             b2 \<leftarrow> DECODE_U8 buffer (decoded + 2);
             Some (x\<lparr>mappedhplmnsd := le24 b0 b1 b2\<rparr>, decoded + 3) }
           else Some (x, decoded));
         Some (int decoded, x) }) })"

definition sd_bytes :: "u24 \<Rightarrow> u8 list" where
  "sd_bytes v = [ucast (drop_bit 16 v), ucast (drop_bit 8 v), ucast v]"

definition snssai_wire :: "SNSSAI \<Rightarrow> u8 \<Rightarrow> u8 list" where
  "snssai_wire s iei = iei_wire iei @ [snssai_ielen s, sst s]
     @ (if has_sd (snssai_ielen s) then sd_bytes (sd s) else [])
     @ (if has_mapped_sst (snssai_ielen s) then [mappedhplmnsst s] else [])
     @ (if has_mapped_sd (snssai_ielen s) then rev (sd_bytes (ucast (mappedhplmnsd s))) else [])"

text \<open>What the decoder leaves: the slice differentiator with its octets in the opposite order.\<close>

definition swap24 :: "u24 \<Rightarrow> u24" where
  "swap24 v = ucast (le24 (ucast (drop_bit 16 v)) (ucast (drop_bit 8 v)) (ucast v))"

definition snssai_seen :: "SNSSAI \<Rightarrow> SNSSAI \<Rightarrow> SNSSAI" where
  "snssai_seen x0 x =
     (let ielen = snssai_ielen x
      in \<lparr>snssai_len = ucast ielen, sst = sst x,
          sd = (if has_sd ielen then swap24 (sd x) else sd x0),
          mappedhplmnsst = (if has_mapped_sst ielen then mappedhplmnsst x else mappedhplmnsst x0),
          mappedhplmnsd = (if has_mapped_sd ielen then mappedhplmnsd x AND 0xffffff else mappedhplmnsd x0)\<rparr>)"

definition snssai_valid :: "SNSSAI \<Rightarrow> bool" where
  "snssai_valid s \<longleftrightarrow> snssai_ielen s \<in> {1, 2, 4, 5, 8}"

lemma u24_bytes [simp]:
  "ucast (ucast (m :: u32) :: u24) = (ucast m :: u8)"
  "ucast (drop_bit 8 (ucast (m :: u32) :: u24)) = (ucast (drop_bit 8 m) :: u8)"
  "ucast (drop_bit 16 (ucast (m :: u32) :: u24)) = (ucast (drop_bit 16 m) :: u8)"
  "ucast (ucast (v :: u24) :: u32) = (ucast v :: u8)"
  "ucast (drop_bit 8 (ucast (v :: u24) :: u32)) = (ucast (drop_bit 8 v) :: u8)"
  "ucast (drop_bit 16 (ucast (v :: u24) :: u32)) = (ucast (drop_bit 16 v) :: u8)"
  by (rule bit_word_eqI; auto simp: bit_simps)+

lemma encode_snssai_ok: "encodes (encode_snssai s iei) (snssai_wire s iei)"
  unfolding encode_snssai_def Let_def
  by (rule encodes_body, (rule emit_intros | simp only: list.size)+)
    (simp_all add: snssai_wire_def length_iei_wire sd_bytes_def)

lemma le24_mapped: "le24 (ucast m) (ucast (drop_bit 8 m)) (ucast (drop_bit 16 m)) = m AND 0xffffff"
proof -
  have masks: "(0xff :: u32) = mask 8" "(0xff00 :: u32) = push_bit 8 (mask 8)"
    "(0xff0000 :: u32) = push_bit 16 (mask 8)" "(0xffffff :: u32) = mask 24"
    by (simp_all add: mask_eq_exp_minus_1)
  show ?thesis
    unfolding le24_def masks
  proof (rule bit_word_eqI, goal_cases)
    case (1 n)
    then show ?case by (cases "n < 16") (auto simp: bit_simps)
  qed
qed

interpretation snssai: ie_codec encode_snssai snssai_wire "\<lambda>s _. snssai_valid s"
  decode_snssai snssai_seen
proof (unfold_locales, goal_cases)
  case (2 x iei x0)
  have "decode_snssai x0 iei (snssai_wire x iei @ rest) len
      = Some (int (length (snssai_wire x iei)), snssai_seen x0 x)"
    if "length (snssai_wire x iei) \<le> unat len" for rest len
    using that 2 le24_mapped [of "mappedhplmnsd x"]
    by (cases x0; cases x; cases "0 < iei")
      (auto simp: decode_snssai_def snssai_wire_def iei_wire_def check_iei_def snssai_seen_def snssai_valid_def
        has_sd_def has_mapped_sst_def has_mapped_sd_def sd_bytes_def swap24_def)
  then show ?case by (simp add: decodes_def)
qed (simp add: encode_snssai_ok)

lemma swap24_swap24 [simp]: "swap24 (swap24 v) = v"
proof -
  have masks: "(0xff :: u32) = mask 8" "(0xff00 :: u32) = push_bit 8 (mask 8)"
    "(0xff0000 :: u32) = push_bit 16 (mask 8)"
    by (simp_all add: mask_eq_exp_minus_1)
  have b: "bit (swap24 w) n = (n < 24 \<and> bit w (if n < 8 then 16 + n else if n < 16 then n else n - 16))" for w n
    unfolding swap24_def le24_def masks
    by (auto simp: bit_simps add.commute)
  show ?thesis
    by (rule bit_word_eqI) (auto simp: b)
qed

subsection \<open>Properties\<close>

text \<open>Session AMBR survives the codec for every value: both rates and units are read back, whatever is in the
  buffer, and only the unused length field differs.\<close>

theorem session_ambr_roundtrip:
  assumes "8 \<le> unat len" and "unat len \<le> length b"
  shows "\<exists>n b' y. encode_session_ambr x iei len (Some b) = Some (n, b') \<and> length b' = length b \<and>
     decode_session_ambr x0 iei b' len = Some (n, y) \<and> y\<lparr>sessionambr_length := sessionambr_length x\<rparr> = x"
proof -
  have "length (session_ambr_wire x iei) \<le> unat len"
    using assms(1) by (simp add: session_ambr_wire_def length_iei_wire)
  from session_ambr.encode_inside_and_reads_back [OF TrueI this assms(2), of x0] show ?thesis by auto
qed

theorem session_ambr_roundtrip_witness:
  "let x = \<lparr>sessionambr_length = 0, uint_for_session_ambr_for_downlink = 6, session_ambr_for_downlink = 1000,
         uint_for_session_ambr_for_uplink = 6, session_ambr_for_uplink = 500\<rparr>
   in \<exists>n b' y. encode_session_ambr x 0x2A 16 (Some (replicate 16 0)) = Some (n, b') \<and>
     length b' = length (replicate 16 (0 :: u8)) \<and>
     decode_session_ambr x 0x2A b' 16 = Some (n, y) \<and> y\<lparr>sessionambr_length := sessionambr_length x\<rparr> = x"
  unfolding Let_def by (rule session_ambr_roundtrip) simp_all

text \<open>The slice differentiator of an S-NSSAI comes back with its octets in the opposite order, because it is
  encoded high octet first and decoded low octet first; decoding restores it only when done twice.\<close>

theorem snssai_roundtrip_swaps:
  assumes "snssai_len s \<in> {4, 5, 8}" and "sd s \<noteq> 0xffffff" and "10 \<le> unat len" and "unat len \<le> length b"
  shows "\<exists>n b' s'. encode_snssai s iei len (Some b) = Some (n, b') \<and> decode_snssai s0 iei b' len = Some (n, s') \<and>
     snssai_len s' = snssai_len s \<and> sst s' = sst s \<and> sd s' = swap24 (sd s) \<and> swap24 (sd s') = sd s"
proof -
  have i: "snssai_ielen s \<in> {4, 5, 8}" "has_sd (snssai_ielen s)" "ucast (snssai_ielen s) = snssai_len s"
    using assms(1,2) by (auto simp: snssai_ielen_def has_sd_def)
  then have v: "snssai_valid s" by (auto simp: snssai_valid_def)
  have l: "length (snssai_wire s iei) \<le> unat len"
    using assms(3) i by (auto simp: snssai_wire_def length_iei_wire sd_bytes_def)
  show ?thesis
    using snssai.roundtrip [OF v l assms(4), of s0] i by (auto simp: snssai_seen_def Let_def)
qed

theorem snssai_roundtrip_swaps_witness:
  "let s = \<lparr>snssai_len = 4, sst = 1, sd = 0x010203, mappedhplmnsst = 0, mappedhplmnsd = 0\<rparr>
   in \<exists>n b' s'. encode_snssai s 0x22 16 (Some (replicate 16 0)) = Some (n, b') \<and>
     decode_snssai s 0x22 b' 16 = Some (n, s') \<and>
     snssai_len s' = snssai_len s \<and> sst s' = sst s \<and> sd s' = swap24 (sd s) \<and> swap24 (sd s') = sd s"
  unfolding Let_def by (rule snssai_roundtrip_swaps) simp_all

text \<open>The S-NSSAI encoder checks for three octets and writes up to ten: with less room than the contents need it
  writes outside the buffer.\<close>

theorem snssai_overrun:
  assumes "snssai_len s = 8" and "sd s \<noteq> 0xffffff" and "0 < iei" and "3 \<le> unat len" and "unat len < 10"
    and "length b = unat len"
  shows "encode_snssai s iei len (Some b) = None"
proof -
  have i: "snssai_ielen s = 8" using assms(1,2) by (simp add: snssai_ielen_def)
  show ?thesis using assms(3-)
    by (simp add: encode_snssai_def Let_def i encoder_body_def has_sd_def has_mapped_sst_def has_mapped_sd_def
      put_iei_def ENCODE_U8_def store_def finish_def word_le_nat_alt not_less)
qed

theorem snssai_overrun_witness:
  "encode_snssai \<lparr>snssai_len = 8, sst = 1, sd = 0x010203, mappedhplmnsst = 1, mappedhplmnsd = 5\<rparr> 0x22 4
     (Some [0, 0, 0, 0]) = None"
  by (rule snssai_overrun) simp_all

end
