(* ===== verification/IE_Var.thy ===== *)
theory IE_Var
  imports IE_Network
begin

text \<open>
  The information elements of variable length: octet strings under a one or two octet length
  (\<open>DNN.c\<close>, \<open>SMPDUDNRequestContainer.c\<close>, \<open>EAPMessage.c\<close>, \<open>MappedEPSBearerContexts.c\<close>,
  \<open>PDUAddress.c\<close>, \<open>IntergrityProtectionMaximumDataRate.c\<close>).
\<close>

subsection \<open>Integrity protection maximum data rate\<close>

definition encode_intergrity_protection_maximum_data_rate :: "bstring \<Rightarrow> u8 \<Rightarrow> encoder" where
  "encode_intergrity_protection_maximum_data_rate s iei =
     encoder_body (if iei > 0 then 3 else 2) [put_iei iei, call (encode_bstring s)]"

definition decode_intergrity_protection_maximum_data_rate ::
  "bstring \<Rightarrow> u8 \<Rightarrow> mem \<Rightarrow> u32 \<Rightarrow> (int \<times> bstring) option" where
  "decode_intergrity_protection_maximum_data_rate x iei buffer len =
     check_iei iei buffer x (\<lambda>decoded. do {
       let ielen = (2 :: u8);
       (decode_result, x) \<leftarrow> decode_bstring x (ucast ielen) (Some (drop decoded buffer)) (len - of_nat decoded);
       if decode_result < 0 then Some (decode_result, x)
       else Some (int decoded + decode_result, x) })"

definition integrity_rate_wire :: "bstring \<Rightarrow> u8 \<Rightarrow> u8 list" where
  [wire_simps]: "integrity_rate_wire s iei = iei_wire iei @ bstr s"

lemma encode_intergrity_protection_maximum_data_rate_ok:
  "length (bstr s) = 2 \<Longrightarrow>
   encodes (encode_intergrity_protection_maximum_data_rate s iei) (integrity_rate_wire s iei)"
  unfolding encode_intergrity_protection_maximum_data_rate_def
  by (rule encodes_body, (rule emit_intros)+, simp_all add: wire_simps length_iei_wire)

lemma encode_intergrity_protection_maximum_data_rate_safe:
  "safe_encoder (encode_intergrity_protection_maximum_data_rate s iei)"
  unfolding encode_intergrity_protection_maximum_data_rate_def
  using safe_encoder_prefix [of "[put_iei iei]" "iei_wire iei" "if iei > 0 then 3 else 2",
      OF emits_single [OF emits_put_iei] _ safe_call [OF safe_encode_bstring]]
  by (simp add: length_iei_wire)

text \<open>An octet string that was read, in the block after its header.\<close>

lemma bstring_read:
  "length s = unat pdulen \<Longrightarrow> d + unat pdulen \<le> unat len \<Longrightarrow>
   decode_bstring s0 pdulen (Some (s @ rest)) (len - of_nat d) = Some (int (length s), Some s)"
  by (rule trans [OF decode_bstring_exact]) (simp_all add: unat_u32_minus_of_nat)

interpretation integrity_rate: safe_ie_codec encode_intergrity_protection_maximum_data_rate
  integrity_rate_wire "\<lambda>s _. length (bstr s) = 2"
  decode_intergrity_protection_maximum_data_rate "\<lambda>_ s. Some (bstr s)"
proof (unfold_locales, goal_cases)
  case (3 x iei x0)
  then show ?case
    using bstring_read [of "bstr x" 2 "length (iei_wire iei)" _ x0]
    by (auto simp: decodes_def decode_intergrity_protection_maximum_data_rate_def wire_simps)
qed (simp_all add: encode_intergrity_protection_maximum_data_rate_ok
       encode_intergrity_protection_maximum_data_rate_safe)

subsection \<open>Octet strings under a length octet: DNN, SM PDU DN request container\<close>

definition encode_dnn :: "bstring \<Rightarrow> u8 \<Rightarrow> encoder" where
  "encode_dnn dnn iei =
     encoder_body (if iei > 0 then 3 else 2)
       [put_iei iei,
        with_lenptr 1 (\<lambda>lenPtr encoded. [of_nat encoded - of_nat (lenPtr + 1)])
          [call (encode_bstring dnn)]]"

definition decode_dnn :: "bstring \<Rightarrow> u8 \<Rightarrow> mem \<Rightarrow> u32 \<Rightarrow> (int \<times> bstring) option" where
  "decode_dnn x iei buffer len =
     check_iei iei buffer x (\<lambda>decoded. do {
       ielen \<leftarrow> DECODE_U8 buffer decoded;
       let decoded = decoded + 1;
       check_length (len - of_nat decoded) (ucast ielen) x (do {
         (decode_result, x) \<leftarrow>
           decode_bstring x (ucast ielen) (Some (drop decoded buffer)) (len - of_nat decoded);
         if decode_result < 0 then Some (decode_result, x)
         else Some (int decoded + decode_result, x) }) })"

definition encode_smpdudn_request_container :: "bstring \<Rightarrow> u8 \<Rightarrow> encoder" where
  "encode_smpdudn_request_container s iei =
     encoder_body (if iei > 0 then 3 else 2)
       [put_iei iei,
        with_lenptr 1 (\<lambda>lenPtr encoded. [of_nat encoded - 1 - (if iei > 0 then 1 else 0)])
          [call (encode_bstring s)]]"

definition decode_smpdudn_request_container :: "bstring \<Rightarrow> u8 \<Rightarrow> mem \<Rightarrow> u32 \<Rightarrow> (int \<times> bstring) option" where
  "decode_smpdudn_request_container x iei buffer len =
     check_iei iei buffer x (\<lambda>decoded. do {
       ielen \<leftarrow> DECODE_U8 buffer decoded;
       let decoded = decoded + 1;
       check_length (len - of_nat decoded) (ucast ielen) x (do {
         (decode_result, x) \<leftarrow>
           decode_bstring x (ucast ielen) (Some (drop decoded buffer)) (len - of_nat decoded);
         if decode_result < 0 then Some (decode_result, x)
         else Some (int decoded + decode_result, x) }) })"

definition lv_wire :: "bstring \<Rightarrow> u8 \<Rightarrow> u8 list" where
  [wire_simps]: "lv_wire s iei = iei_wire iei @ of_nat (length (bstr s)) # bstr s"

definition lv_valid :: "bstring \<Rightarrow> bool" where
  "lv_valid s \<longleftrightarrow> 1 \<le> length (bstr s) \<and> length (bstr s) < 256"

lemma encode_dnn_ok: "lv_valid s \<Longrightarrow> encodes (encode_dnn s iei) (lv_wire s iei)"
  unfolding encode_dnn_def
  by (rule encodes_body, (rule emit_intros | simp only: list.size)+)
    (simp_all add: wire_simps length_iei_wire lv_valid_def)

lemma encode_smpdudn_request_container_ok:
  "lv_valid s \<Longrightarrow> encodes (encode_smpdudn_request_container s iei) (lv_wire s iei)"
  unfolding encode_smpdudn_request_container_def
  by (rule encodes_body, (rule emit_intros | simp only: list.size)+)
    (simp_all add: wire_simps length_iei_wire lv_valid_def)

lemma safe_lv:
  "(\<And>p q. length (val p q) \<le> 1) \<Longrightarrow>
   safe_encoder (encoder_body (if iei > 0 then 3 else 2)
     [put_iei iei, with_lenptr 1 val [call (encode_bstring s)]])"
  using safe_encoder_lenptr [of "[put_iei iei]" "iei_wire iei" 1 "[]" "[]"
      "if iei > 0 then 3 else 2" "[call (encode_bstring s)]" val,
      OF emits_single [OF emits_put_iei] emits_Nil _ safe_call [OF safe_encode_bstring]]
  by (simp add: length_iei_wire)

lemma encode_dnn_safe: "safe_encoder (encode_dnn s iei)"
  unfolding encode_dnn_def by (rule safe_lv) simp

lemma encode_smpdudn_request_container_safe: "safe_encoder (encode_smpdudn_request_container s iei)"
  unfolding encode_smpdudn_request_container_def by (rule safe_lv) simp

lemma unat_len_u8: "n < 256 \<Longrightarrow> unat (of_nat n :: u8) = n"
  by (simp add: unat_of_nat take_bit_nat_eq_self)

lemma decode_dnn_ok: "lv_valid x \<Longrightarrow> decodes (\<lambda>b len. decode_dnn x0 iei b len) (lv_wire x iei) (Some (bstr x))"
  using bstring_read [of "bstr x" "ucast (of_nat (length (bstr x)) :: u8)" "if 0 < iei then 2 else 1" _ x0]
  by (auto simp: decodes_def decode_dnn_def wire_simps iei_wire_def check_iei_def lv_valid_def unat_len_u8)

lemma decode_smpdudn_request_container_ok:
  "lv_valid x \<Longrightarrow>
   decodes (\<lambda>b len. decode_smpdudn_request_container x0 iei b len) (lv_wire x iei) (Some (bstr x))"
  using decode_dnn_ok unfolding decode_dnn_def decode_smpdudn_request_container_def .

interpretation dnn: safe_ie_codec encode_dnn lv_wire "\<lambda>s _. lv_valid s" decode_dnn "\<lambda>_ s. Some (bstr s)"
  by unfold_locales (simp_all add: encode_dnn_ok encode_dnn_safe decode_dnn_ok)

interpretation smpdudn: safe_ie_codec encode_smpdudn_request_container lv_wire "\<lambda>s _. lv_valid s"
  decode_smpdudn_request_container "\<lambda>_ s. Some (bstr s)"
  by unfold_locales
    (simp_all add: encode_smpdudn_request_container_ok encode_smpdudn_request_container_safe
      decode_smpdudn_request_container_ok)

subsection \<open>Octet strings under a two-octet length: EAP message, mapped EPS bearer contexts\<close>

definition encode_eap_message :: "bstring \<Rightarrow> u8 \<Rightarrow> encoder" where
  "encode_eap_message eapmessage iei =
     encoder_body (if iei > 0 then 7 else 6)
       [put_iei iei,
        with_lenptr 2 (\<lambda>lenPtr encoded. len16 (of_nat encoded - 2 - (if iei > 0 then 1 else 0)))
          [call (encode_bstring eapmessage)]]"

text \<open>\<open>ielen\<close> is an octet: the sum \<open>(ielen << 8) + *(buffer + decoded)\<close> is cut to its low octet.\<close>

definition decode_eap_message :: "bstring \<Rightarrow> u8 \<Rightarrow> mem \<Rightarrow> u32 \<Rightarrow> (int \<times> bstring) option" where
  "decode_eap_message x iei buffer len =
     check_iei iei buffer x (\<lambda>decoded. do {
       hi \<leftarrow> DECODE_U8 buffer decoded;
       lo \<leftarrow> DECODE_U8 buffer (decoded + 1);
       let decoded = decoded + 2;
       let ielen = (ucast (push_bit 8 (ucast hi) + ucast lo :: u32) :: u8);
       check_length (len - of_nat decoded) (ucast ielen) x (do {
         (decode_result, x) \<leftarrow>
           decode_bstring x (ucast ielen) (Some (drop decoded buffer)) (len - of_nat decoded);
         if decode_result < 0 then Some (decode_result, x)
         else Some (int decoded + decode_result, x) }) })"

definition encode_mapped_eps_bearer_contexts :: "bstring \<Rightarrow> u8 \<Rightarrow> encoder" where
  "encode_mapped_eps_bearer_contexts s iei =
     encoder_body 7
       [put_iei iei,
        with_lenptr 2 (\<lambda>lenPtr encoded. len16 (of_nat encoded - 1 - (if iei > 0 then 1 else 0)))
          [call (encode_bstring s)]]"

definition decode_mapped_eps_bearer_contexts :: "bstring \<Rightarrow> u8 \<Rightarrow> mem \<Rightarrow> u32 \<Rightarrow> (int \<times> bstring) option" where
  "decode_mapped_eps_bearer_contexts x iei buffer len =
     check_iei iei buffer x (\<lambda>decoded. do {
       hi \<leftarrow> DECODE_U8 buffer decoded;
       lo \<leftarrow> DECODE_U8 buffer (decoded + 1);
       let decoded = decoded + 2;
       let ielen = (ucast (push_bit 8 (ucast hi) + ucast lo :: u32) :: u8);
       check_length (len - of_nat decoded) (ucast ielen) x (do {
         (decode_result, x) \<leftarrow>
           decode_bstring x (ucast ielen) (Some (drop decoded buffer)) (len - of_nat decoded);
         if decode_result < 0 then Some (decode_result, x)
         else Some (int decoded + decode_result, x) }) })"

definition eap_wire :: "bstring \<Rightarrow> u8 \<Rightarrow> u8 list" where
  "eap_wire s iei = iei_wire iei @ len16 (of_nat (length (bstr s))) @ bstr s"

definition mapped_eps_wire :: "bstring \<Rightarrow> u8 \<Rightarrow> u8 list" where
  "mapped_eps_wire s iei = iei_wire iei @ len16 (of_nat (length (bstr s)) + 1) @ bstr s"

lemma encode_eap_message_ok:
  "4 \<le> length (bstr s) \<Longrightarrow> encodes (encode_eap_message s iei) (eap_wire s iei)"
  unfolding encode_eap_message_def
  by (rule encodes_body, (rule emit_intros | simp only: length_len16)+)
    (simp_all add: eap_wire_def length_iei_wire)

lemma encode_mapped_eps_bearer_contexts_ok:
  "5 \<le> length (bstr s) \<Longrightarrow> encodes (encode_mapped_eps_bearer_contexts s iei) (mapped_eps_wire s iei)"
  unfolding encode_mapped_eps_bearer_contexts_def
  by (rule encodes_body, (rule emit_intros | simp only: length_len16)+)
    (simp_all add: mapped_eps_wire_def length_iei_wire add.commute)

lemma safe_lve:
  "(\<And>p q. length (val p q) \<le> 2) \<Longrightarrow> 3 \<le> m \<Longrightarrow>
   safe_encoder (encoder_body m [put_iei iei, with_lenptr 2 val [call (encode_bstring s)]])"
  using safe_encoder_lenptr [of "[put_iei iei]" "iei_wire iei" 2 "[]" "[]"
      m "[call (encode_bstring s)]" val,
      OF emits_single [OF emits_put_iei] emits_Nil _ safe_call [OF safe_encode_bstring]]
  by (simp add: length_iei_wire)

lemma encode_eap_message_safe: "safe_encoder (encode_eap_message s iei)"
  unfolding encode_eap_message_def by (rule safe_lve) simp_all

lemma encode_mapped_eps_bearer_contexts_safe: "safe_encoder (encode_mapped_eps_bearer_contexts s iei)"
  unfolding encode_mapped_eps_bearer_contexts_def by (rule safe_lve) simp_all

text \<open>
  What the EAP decoder does on an encoded message of any length: it reads \<open>length mod 256\<close>
  octets.
\<close>

lemma decode_eap_message_reads:
  assumes "length s < 65536"
    and "length (eap_wire (Some s) iei) \<le> unat len"
  shows "decode_eap_message x0 iei (eap_wire (Some s) iei @ rest) len
       = Some (int (length (iei_wire iei) + 2 + length s mod 256), Some (take (length s mod 256) s))"
proof -
  define n where "n = length s mod 256"
  define lo where "lo = (ucast ((of_nat (length s) :: u32) mod 256) :: u8)"
  have lo: "unat lo = n"
    using assms(1) by (simp add: lo_def n_def unat_mod256 unat_u32_of_nat)
  have n: "n \<le> length s" unfolding n_def by (rule mod_less_eq_dividend)
  have split: "s @ rest = take n s @ drop n s @ rest" by simp
  have rd: "d + length s \<le> unat len \<Longrightarrow>
      decode_bstring x0 (ucast lo) (Some (s @ rest)) (len - of_nat d) = Some (int n, Some (take n s))" for d
    using bstring_read [of "take n s" "ucast lo" d len x0 "drop n s @ rest"] lo n
    by (simp flip: split)
  show ?thesis
    using assms(2) rd [of 3] rd [of 2] lo n
    by (cases "0 < iei")
      (simp_all add: decode_eap_message_def eap_wire_def len16_def iei_wire_def check_iei_def
        n_def [symmetric] lo_def [symmetric])
qed

definition eap_valid :: "bstring \<Rightarrow> bool" where
  "eap_valid s \<longleftrightarrow> 4 \<le> length (bstr s) \<and> length (bstr s) < 256"

interpretation eap: safe_ie_codec encode_eap_message eap_wire "\<lambda>s _. eap_valid s" decode_eap_message "\<lambda>_ s. Some (bstr s)"
proof (unfold_locales, goal_cases)
  case (3 x iei x0)
  moreover have "eap_wire x iei = eap_wire (Some (bstr x)) iei" by (simp add: eap_wire_def)
  ultimately show ?case
    using decode_eap_message_reads [of "bstr x" iei _ x0]
    by (auto simp: decodes_def eap_valid_def) (simp add: eap_wire_def)
qed (simp_all add: encode_eap_message_ok encode_eap_message_safe eap_valid_def)

interpretation mapped_eps: safe_ie_encoder encode_mapped_eps_bearer_contexts mapped_eps_wire
  "\<lambda>s _. 5 \<le> length (bstr s)"
  by unfold_locales
    (simp_all add: encode_mapped_eps_bearer_contexts_ok encode_mapped_eps_bearer_contexts_safe)

subsection \<open>PDU address\<close>

record PDUAddress =
  pduaddress_length :: u8
  pduaddress_spare :: "5 word"
  pa_session_type_value :: "3 word"
  pdu_address_information :: bstring

definition encode_pdu_address :: "PDUAddress \<Rightarrow> u8 \<Rightarrow> encoder" where
  "encode_pdu_address pduaddress iei =
     encoder_body (if iei > 0 then 7 else 6)
       [put_iei iei,
        with_lenptr 1 (\<lambda>lenPtr encoded. [of_nat encoded - of_nat (lenPtr + 1)])
          [ENCODE_U8 (ucast (pa_session_type_value pduaddress) AND 0x07),
           call (encode_bstring (pdu_address_information pduaddress))]]"

text \<open>\<open>ielen - 1\<close> is an \<open>int\<close>, passed as the 16-bit \<open>pdulen\<close>.\<close>

definition decode_pdu_address :: "PDUAddress \<Rightarrow> u8 \<Rightarrow> mem \<Rightarrow> u32 \<Rightarrow> (int \<times> PDUAddress) option" where
  "decode_pdu_address x iei buffer len =
     check_iei iei buffer x (\<lambda>decoded. do {
       ielen \<leftarrow> DECODE_U8 buffer decoded;
       let decoded = decoded + 1;
       check_length (len - of_nat decoded) (ucast ielen) x (do {
         bitStream \<leftarrow> DECODE_U8 buffer decoded;
         let decoded = decoded + 1;
         let x = x\<lparr>pa_session_type_value := ucast (bitStream AND 0x07)\<rparr>;
         (decode_result, s) \<leftarrow>
           decode_bstring (pdu_address_information x) (ucast ielen - 1) (Some (drop decoded buffer))
             (len - of_nat decoded);
         let x = x\<lparr>pdu_address_information := s\<rparr>;
         if decode_result < 0 then Some (decode_result, x)
         else Some (int decoded + decode_result, x) }) })"

definition pdu_address_wire :: "PDUAddress \<Rightarrow> u8 \<Rightarrow> u8 list" where
  "pdu_address_wire a iei =
     (let s = bstr (pdu_address_information a)
      in iei_wire iei @ of_nat (Suc (length s)) # (ucast (pa_session_type_value a) AND 7) # s)"

definition pdu_address_valid :: "PDUAddress \<Rightarrow> bool" where
  "pdu_address_valid a \<longleftrightarrow>
     4 \<le> length (bstr (pdu_address_information a)) \<and> length (bstr (pdu_address_information a)) < 255"

lemma encode_pdu_address_ok:
  "pdu_address_valid a \<Longrightarrow> encodes (encode_pdu_address a iei) (pdu_address_wire a iei)"
  unfolding encode_pdu_address_def
  by (rule encodes_body, (rule emit_intros | simp only: list.size)+)
    (simp_all add: pdu_address_wire_def length_iei_wire pdu_address_valid_def Let_def)

lemma encode_pdu_address_safe: "safe_encoder (encode_pdu_address a iei)"
  unfolding encode_pdu_address_def
  using safe_encoder_lenptr [of "[put_iei iei]" "iei_wire iei" 1
      "[ENCODE_U8 (ucast (pa_session_type_value a) AND 0x07)]" "[ucast (pa_session_type_value a) AND 0x07]"
      "if iei > 0 then 7 else 6" "[call (encode_bstring (pdu_address_information a))]"
      "\<lambda>lenPtr encoded. [of_nat encoded - of_nat (lenPtr + 1)]",
      OF emits_single [OF emits_put_iei] emits_single [OF emits_U8] _ safe_call [OF safe_encode_bstring]]
  by (simp add: length_iei_wire)

definition pdu_address_seen :: "PDUAddress \<Rightarrow> PDUAddress \<Rightarrow> PDUAddress" where
  "pdu_address_seen x0 x =
     x0\<lparr>pa_session_type_value := pa_session_type_value x,
        pdu_address_information := Some (bstr (pdu_address_information x))\<rparr>"

lemma decode_pdu_address_ok:
  assumes "pdu_address_valid x"
  shows "decodes (\<lambda>b len. decode_pdu_address x0 iei b len) (pdu_address_wire x iei) (pdu_address_seen x0 x)"
proof -
  define s where "s = bstr (pdu_address_information x)"
  define ielen where "ielen = (of_nat (Suc (length s)) :: u8)"
  from assms have s: "Suc (length s) < 256" by (simp add: pdu_address_valid_def s_def)
  then have l: "unat ielen = Suc (length s)" unfolding ielen_def by (rule unat_len_u8)
  have p: "length s = unat (ucast ielen - 1 :: u16)"
    using l by (simp add: unat_sub word_le_nat_alt)
  have wire: "pdu_address_wire x iei = iei_wire iei @ ielen # (ucast (pa_session_type_value x) AND 7) # s"
    by (simp add: pdu_address_wire_def Let_def s_def ielen_def)
  show ?thesis
    unfolding decodes_def wire
    using bstring_read [OF p, of 3] bstring_read [OF p, of 2] l p [symmetric]
    by (auto simp: decode_pdu_address_def iei_wire_def check_iei_def pdu_address_seen_def s_def [symmetric]
      and.assoc)
qed

interpretation pdu_address: safe_ie_codec encode_pdu_address pdu_address_wire
  "\<lambda>a _. pdu_address_valid a" decode_pdu_address pdu_address_seen
  by unfold_locales (simp_all add: encode_pdu_address_ok encode_pdu_address_safe decode_pdu_address_ok)

subsection \<open>Properties\<close>

text \<open>A data network name of 1 to 255 octets survives the codec, and encoding keeps the size of the buffer.\<close>

theorem dnn_roundtrip:
  assumes "1 \<le> length s" and "length s < 256" and "length s + 2 \<le> unat len" and "unat len \<le> length b"
  shows "\<exists>n b'. encode_dnn (Some s) iei len (Some b) = Some (n, b') \<and> length b' = length b \<and>
     decode_dnn s0 iei b' len = Some (n, Some s)"
proof -
  have "lv_valid (Some s)" "length (lv_wire (Some s) iei) \<le> unat len"
    using assms(1-3) by (simp_all add: lv_wire_def lv_valid_def length_iei_wire)
  from dnn.encode_inside_and_reads_back [OF this assms(4), of s0] show ?thesis by auto
qed

theorem dnn_roundtrip_witness:
  "\<exists>n b'. encode_dnn (Some [7, 100, 101, 102, 97, 117, 108, 116]) 0x25 16 (Some (replicate 16 0)) = Some (n, b') \<and>
     length b' = length (replicate 16 (0 :: u8)) \<and>
     decode_dnn None 0x25 b' 16 = Some (n, Some [7, 100, 101, 102, 97, 117, 108, 116])"
  by (rule dnn_roundtrip) simp_all

text \<open>A PDU address of the right size survives the codec: session type and address information are read back.\<close>

theorem pdu_address_roundtrip:
  assumes "pdu_address_valid a" and "length (bstr (pdu_address_information a)) + 3 \<le> unat len" and "unat len \<le> length b"
  shows "\<exists>n b' a'. encode_pdu_address a iei len (Some b) = Some (n, b') \<and> length b' = length b \<and>
     decode_pdu_address a0 iei b' len = Some (n, a') \<and> pa_session_type_value a' = pa_session_type_value a \<and>
     pdu_address_information a' = Some (bstr (pdu_address_information a))"
proof -
  have "length (pdu_address_wire a iei) \<le> unat len"
    using assms(2) by (simp add: pdu_address_wire_def length_iei_wire Let_def)
  from pdu_address.encode_inside_and_reads_back [OF assms(1) this assms(3), of a0] show ?thesis
    by (auto simp: pdu_address_seen_def)
qed

theorem pdu_address_roundtrip_witness:
  "let a = \<lparr>pduaddress_length = 0, pduaddress_spare = 0, pa_session_type_value = 1,
         pdu_address_information = Some [12, 1, 1, 2]\<rparr>
   in \<exists>n b' a'. encode_pdu_address a 0x29 16 (Some (replicate 16 0)) = Some (n, b') \<and>
     length b' = length (replicate 16 (0 :: u8)) \<and>
     decode_pdu_address a 0x29 b' 16 = Some (n, a') \<and> pa_session_type_value a' = pa_session_type_value a \<and>
     pdu_address_information a' = Some (bstr (pdu_address_information a))"
  unfolding Let_def by (rule pdu_address_roundtrip) (simp_all add: pdu_address_valid_def)

text \<open>An EAP message of 256 octets or more is encoded in full and decoded as its length modulo 256 octets: the
  decoder drops the high octet of the length field.\<close>

theorem eap_long_truncated:
  assumes "256 \<le> length s" and "length s < 65536" and "length s + 3 \<le> unat len" and "unat len \<le> length b"
  shows "\<exists>n b' n' s'. encode_eap_message (Some s) iei len (Some b) = Some (n, b') \<and>
     decode_eap_message s0 iei b' len = Some (n', Some s') \<and> length s' = length s mod 256 \<and> n' < n"
proof -
  have l: "length (eap_wire (Some s) iei) \<le> unat len" using assms(3) by (simp add: eap_wire_def length_iei_wire)
  have "encode_eap_message (Some s) iei len (Some b) = Some (int (length (eap_wire (Some s) iei)),
     overwrite b 0 (eap_wire (Some s) iei))"
    using assms l by (intro encodesD [OF encode_eap_message_ok]) auto
  moreover have "length s mod 256 < length s" "length s mod 256 < 256" using assms(1) by (simp_all add: le_less_trans less_le_trans)
  ultimately show ?thesis
    using decode_eap_message_reads [OF assms(2) l] by (simp add: overwrite_zero eap_wire_def)
qed

theorem eap_long_truncated_witness:
  "\<exists>n b' n' s'. encode_eap_message (Some (replicate 300 1)) 0x78 400 (Some (replicate 400 0)) = Some (n, b') \<and>
     decode_eap_message None 0x78 b' 400 = Some (n', Some s') \<and>
     length s' = length (replicate 300 (1 :: u8)) mod 256 \<and> n' < n"
  by (rule eap_long_truncated) simp_all

text \<open>The mapped EPS bearer contexts of an encoded message cannot be read back from exactly the octets the encoder
  wrote: its length field is one too large, and the decoder asks for a longer buffer.\<close>

theorem mapped_eps_not_readable:
  assumes "5 \<le> length s" and "length s < 255" and "unat len = length (mapped_eps_wire (Some s) iei)" and "length b = unat len"
  shows "\<exists>b'. encode_mapped_eps_bearer_contexts (Some s) iei len (Some b) = Some (int (unat len), b') \<and>
     decode_mapped_eps_bearer_contexts s0 iei b' len = Some (err TLV_BUFFER_TOO_SHORT, s0)"
proof -
  define n where "n = length s"
  define v where "v = (of_nat n + 1 :: u32)"
  have v: "unat v = n + 1" using assms(2) unat_u32_of_nat [of "n + 1"] by (simp add: v_def n_def add.commute)
  then have lo: "unat (ucast (v mod 256) :: u8) = n + 1" using assms(2) by (simp add: unat_mod256 n_def)
  have wire: "mapped_eps_wire (Some s) iei = iei_wire iei @ [ucast (v div 256), ucast (v mod 256)] @ s"
    by (simp add: mapped_eps_wire_def len16_def v_def n_def)
  have e: "encode_mapped_eps_bearer_contexts (Some s) iei len (Some b)
      = Some (int (unat len), mapped_eps_wire (Some s) iei)"
    using mapped_eps.encode_result [of "Some s" iei len b] assms by simp
  have short: "check_length (len - of_nat d) (ucast (ucast (v mod 256) :: u8)) x k = Some (err TLV_BUFFER_TOO_SHORT, x)"
    if "unat len = d + n" for d and x :: bstring and k
    using that lo unat_u32_minus_of_nat [of d len] by (simp add: check_length_def word_less_nat_alt)
  have "decode_mapped_eps_bearer_contexts s0 iei (mapped_eps_wire (Some s) iei) len = Some (err TLV_BUFFER_TOO_SHORT, s0)"
    unfolding wire using assms(3) wire short [of "length (iei_wire iei) + 2"]
    by (cases "0 < iei") (simp_all add: decode_mapped_eps_bearer_contexts_def check_iei_def iei_wire_def n_def)
  with e show ?thesis by blast
qed

theorem mapped_eps_not_readable_witness:
  "\<exists>b'. encode_mapped_eps_bearer_contexts (Some [1, 2, 3, 4, 5]) 0x75 8 (Some (replicate 8 0)) = Some (int (unat (8 :: u32)), b') \<and>
     decode_mapped_eps_bearer_contexts None 0x75 b' 8 = Some (err TLV_BUFFER_TOO_SHORT, None)"
  by (rule mapped_eps_not_readable) (simp_all add: mapped_eps_wire_def iei_wire_def)

end
