(* ===== verification/IE_Pco.thy ===== *)
theory IE_Pco
  imports IE_Var
begin

text \<open>
  Extended protocol configuration options, \<open>ExtendedProtocolConfigurationOptions.c\<close> with the
  structure of \<open>common/nas/nas_lib.h\<close>: an octet for the configuration protocol, then containers
  (identifier, length octet, contents). The array of thirty containers is a function of the index;
  the code does not bound the index, so an access from 30 on is undefined behaviour here.
\<close>

subsection \<open>Structure\<close>

record pco_container =
  pco_id :: u16
  pco_length :: u8
  pco_contents :: bstring

record pco =
  configuration_protocol :: "3 word"
  num_protocol_or_container_id :: u8
  protocol_or_container_ids :: "nat \<Rightarrow> pco_container"

definition PCO_MAX :: nat where
  "PCO_MAX = 30"

subsection \<open>Encoder\<close>

text \<open>\<open>encode_bstring\<close> called with a length of its own, not with what is left of the buffer.\<close>

definition call_len :: "u32 \<Rightarrow> encoder \<Rightarrow> ecmd" where
  "call_len l enc len b e =
     (case enc l (Some (drop e b)) of
        None \<Rightarrow> EUndef
      | Some (r, b') \<Rightarrow>
          (if r < 0 then EReturn r (take e b @ b') else ENext (take e b @ b') (e + nat r)))"

definition pco_container_cmds :: "pco \<Rightarrow> nat \<Rightarrow> ecmd list" where
  "pco_container_cmds x i =
     (if i < PCO_MAX then
        (let c = protocol_or_container_ids x i
         in [ENCODE_U16 (pco_id c), store [pco_length c]]
            @ (if pco_length c > 0 then [call_len (ucast (pco_length c)) (encode_bstring (pco_contents c))] else []))
      else [\<lambda>len b e. EUndef])"

definition encode_protocol_configuration_options :: "pco \<Rightarrow> encoder" where
  "encode_protocol_configuration_options x len p =
     (case p of
        None \<Rightarrow> None
      | Some b \<Rightarrow>
          finish (exec
            ([store [0x80 OR (ucast (configuration_protocol x) AND 0x7)]]
             @ concat (map (pco_container_cmds x) [0..<unat (num_protocol_or_container_id x)])) len b 0))"

text \<open>\<open>encoded += enc(\<dots>, buffer + encoded, len - encoded)\<close> in 32 bits, with no check of the result.\<close>

definition add_call :: "encoder \<Rightarrow> ecmd" where
  "add_call enc len b e =
     (case enc (len - of_nat e) (Some (drop e b)) of
        None \<Rightarrow> EUndef
      | Some (r, b') \<Rightarrow> ENext (take e b @ b') (nat ((int e + r) mod 4294967296)))"

text \<open>The \<open>uint32_t\<close> count returned as an \<open>int\<close>.\<close>

definition as_int :: "int \<Rightarrow> int" where
  "as_int r = (if r \<ge> 2147483648 then r - 4294967296 else r)"

definition encode_extended_protocol_configuration_options :: "pco \<Rightarrow> u8 \<Rightarrow> encoder" where
  "encode_extended_protocol_configuration_options x iei len p =
     map_option (map_prod as_int id)
       (encoder_body (if iei > 0 then 4 else 3)
          [put_iei iei,
           with_lenptr 2
             (\<lambda>lenPtr encoded.
                let len_ie = (ucast (of_nat encoded - 2 - (if iei > 0 then 1 else 0) :: u32) :: u16)
                in [hi8 len_ie, lo8 len_ie])
             [add_call (encode_protocol_configuration_options x)]] len p)"

subsection \<open>Decoder\<close>

text \<open>
  \<open>while (3 <= ((int32_t) len - (int32_t) decoded))\<close>: every round reads at least three bytes,
  so the loop ends.
\<close>

function pco_decode_loop :: "mem \<Rightarrow> u32 \<Rightarrow> pco \<Rightarrow> nat \<Rightarrow> (int \<times> pco) option" where
  "pco_decode_loop buffer len x decoded =
     (if 3 \<le> sint len - int decoded then
        (let i = unat (num_protocol_or_container_id x)
         in if PCO_MAX \<le> i then None
            else do {
              ident \<leftarrow> DECODE_U16 buffer decoded;
              l \<leftarrow> DECODE_U8 buffer (decoded + 2);
              let decoded = decoded + 3;
              let c = (protocol_or_container_ids x i)\<lparr>pco_id := ident, pco_length := l\<rparr>;
              if 0 < l then do {
                (decode_result, s) \<leftarrow>
                  decode_bstring (pco_contents c) (ucast l) (Some (drop decoded buffer)) (len - of_nat decoded);
                let x = x\<lparr>protocol_or_container_ids := (protocol_or_container_ids x)(i := c\<lparr>pco_contents := s\<rparr>)\<rparr>;
                if decode_result < 0 then Some (decode_result, x)
                else pco_decode_loop buffer len (x\<lparr>num_protocol_or_container_id := num_protocol_or_container_id x + 1\<rparr>)
                       (decoded + nat decode_result) }
              else
                (let x = x\<lparr>protocol_or_container_ids := (protocol_or_container_ids x)(i := c\<lparr>pco_contents := None\<rparr>)\<rparr>
                 in pco_decode_loop buffer len (x\<lparr>num_protocol_or_container_id := num_protocol_or_container_id x + 1\<rparr>)
                      decoded) })
      else Some (int decoded, x))"
  by pat_completeness auto

termination
  by (relation "measure (\<lambda>(b, len, x, d). nat (sint len - int d))") auto

declare pco_decode_loop.simps [simp del]

definition decode_protocol_configuration_options :: "pco \<Rightarrow> mem \<Rightarrow> u32 \<Rightarrow> (int \<times> pco) option" where
  "decode_protocol_configuration_options x buffer len =
     pco_decode_loop buffer len (x\<lparr>num_protocol_or_container_id := 0\<rparr>) 0"

definition decode_extended_protocol_configuration_options ::
  "pco \<Rightarrow> u8 \<Rightarrow> mem \<Rightarrow> u32 \<Rightarrow> (int \<times> pco) option" where
  "decode_extended_protocol_configuration_options x iei buffer len =
     check_iei iei buffer x (\<lambda>decoded. do {
       ielen \<leftarrow> DECODE_U16 buffer decoded;
       let decoded = decoded + 2;
       v \<leftarrow> DECODE_U8 buffer decoded;
       if drop_bit 7 v AND 0x1 \<noteq> 1 then Some (err TLV_VALUE_DOESNT_MATCH, x)
       else if drop_bit 3 (v AND 0x78) \<noteq> 0 then Some (err TLV_VALUE_DOESNT_MATCH, x)
       else do {
         let x = x\<lparr>configuration_protocol := ucast (drop_bit 1 v AND 0x7)\<rparr>;
         let decoded = decoded + 1;
         (decode_result, x) \<leftarrow>
           decode_protocol_configuration_options x (drop decoded buffer) (ucast ielen);
         if decode_result < 0 then Some (decode_result, x)
         else Some (int decoded + decode_result, x) } })"

subsection \<open>What the encoder writes\<close>

definition pco_container_wire :: "pco_container \<Rightarrow> u8 list" where
  "pco_container_wire c = [hi8 (pco_id c), lo8 (pco_id c), pco_length c]
     @ (if pco_length c > 0 then bstr (pco_contents c) else [])"

definition pco_wire :: "pco \<Rightarrow> u8 list" where
  "pco_wire x = (0x80 OR (ucast (configuration_protocol x) AND 7))
     # concat (map (\<lambda>i. pco_container_wire (protocol_or_container_ids x i))
         [0..<unat (num_protocol_or_container_id x)])"

definition epco_wire :: "pco \<Rightarrow> u8 \<Rightarrow> u8 list" where
  "epco_wire x iei = iei_wire iei
     @ [hi8 (of_nat (length (pco_wire x))), lo8 (of_nat (length (pco_wire x)))] @ pco_wire x"

definition pco_valid :: "pco \<Rightarrow> bool" where
  "pco_valid x \<longleftrightarrow>
     unat (num_protocol_or_container_id x) \<le> PCO_MAX \<and>
     list_all (\<lambda>i. let c = protocol_or_container_ids x i
                   in pco_length c > 0 \<longrightarrow> unat (pco_length c) = length (bstr (pco_contents c)))
       [0..<unat (num_protocol_or_container_id x)]"

lemma emits_call_len:
  assumes "encodes enc bs" and "unat l = length bs"
  shows "emits1 e (call_len l enc) bs"
proof -
  have "exec [call_len l enc] len b e = ENext (overwrite b e bs) (e + length bs)"
    if "e + length bs \<le> unat len" and "unat len \<le> length b" for len b
  proof -
    from that assms(2) have "enc l (Some (drop e b)) = Some (int (length bs), overwrite (drop e b) 0 bs)"
      by (intro encodesD [OF assms(1)]) auto
    with that show ?thesis by (simp add: call_len_def overwrite_drop)
  qed
  then show ?thesis by (simp add: emits1_def emits_def)
qed

lemma emits_add_call:
  assumes "encodes enc bs"
  shows "emits1 e (add_call enc) bs"
proof -
  have "exec [add_call enc] len b e = ENext (overwrite b e bs) (e + length bs)"
    if le: "e + length bs \<le> unat len" and "unat len \<le> length b" for len b
  proof -
    from that have "unat (len - of_nat e) = unat len - e"
      by (simp add: unat_u32_minus_of_nat)
    with that have "enc (len - of_nat e) (Some (drop e b)) = Some (int (length bs), overwrite (drop e b) 0 bs)"
      by (intro encodesD [OF assms]) auto
    moreover have "(int e + int (length bs)) mod 4294967296 = int (e + length bs)"
      using le unat_u32_less [of len] by simp
    ultimately show ?thesis using that by (simp add: add_call_def overwrite_drop nat_int_add)
  qed
  then show ?thesis by (simp add: emits1_def emits_def)
qed

lemma emits_concat:
  "(\<And>e i. i \<in> set xs \<Longrightarrow> emits e (f i) (w i)) \<Longrightarrow> emits e (concat (map f xs)) (concat (map w xs))"
  by (induction xs arbitrary: e) (auto intro: emits_Nil emits_append)

lemma pco_container_emits:
  assumes "i < PCO_MAX"
    and "pco_length (protocol_or_container_ids x i) > 0 \<Longrightarrow>
      unat (pco_length (protocol_or_container_ids x i))
        = length (bstr (pco_contents (protocol_or_container_ids x i)))"
  shows "emits e (pco_container_cmds x i) (pco_container_wire (protocol_or_container_ids x i))"
proof -
  define c where "c = protocol_or_container_ids x i"
  have "emits e ([ENCODE_U16 (pco_id c), store [pco_length c]]
      @ (if pco_length c > 0 then [call_len (ucast (pco_length c)) (encode_bstring (pco_contents c))] else []))
      (([hi8 (pco_id c), lo8 (pco_id c)] @ [pco_length c] @ [])
       @ (if pco_length c > 0 then bstr (pco_contents c) @ [] else []))"
    using assms(2) unfolding c_def
    by (intro emits_append emits_if emits_Cons emits_U16 emits_store emits_Nil emits_call_len encodes_bstring)
      simp_all
  with assms(1) show ?thesis
    by (simp add: pco_container_cmds_def pco_container_wire_def c_def Let_def cong: if_cong)
qed

lemma encodes_pco: "pco_valid x \<Longrightarrow> encodes (encode_protocol_configuration_options x) (pco_wire x)"
proof -
  assume v: "pco_valid x"
  let ?n = "unat (num_protocol_or_container_id x)"
  let ?o = "0x80 OR (ucast (configuration_protocol x) AND 7) :: u8"
  from v have "emits 0 ([store [?o]] @ concat (map (pco_container_cmds x) [0..<?n]))
      (([?o] @ []) @ concat (map (\<lambda>i. pco_container_wire (protocol_or_container_ids x i)) [0..<?n]))"
    by (intro emits_append emits_Cons emits_store emits_Nil emits_concat pco_container_emits)
      (auto simp: pco_valid_def list_all_iff Let_def)
  then have "emits 0 ([store [?o]] @ concat (map (pco_container_cmds x) [0..<?n])) (pco_wire x)"
    by (simp add: pco_wire_def)
  then show ?thesis
    by (auto simp: encodes_def encode_protocol_configuration_options_def finish_def emits_def)
qed

text \<open>The options are short: at most thirty containers of at most 258 octets.\<close>

lemma length_pco_wire:
  assumes "pco_valid x" shows "length (pco_wire x) \<le> 7741"
proof -
  have len: "length (pco_container_wire (protocol_or_container_ids x i)) \<le> 258"
    if "i < unat (num_protocol_or_container_id x)" for i
    using that assms unat_u8_less [of "pco_length (protocol_or_container_ids x i)"]
    by (auto simp: pco_valid_def pco_container_wire_def list_all_iff Let_def)
  have "length (concat (map (\<lambda>i. pco_container_wire (protocol_or_container_ids x i)) [0..<k])) \<le> k * 258"
    if "k \<le> unat (num_protocol_or_container_id x)" for k
    using that
  proof (induction k)
    case (Suc k)
    then show ?case using len [of k] by simp
  qed simp
  from this [of "unat (num_protocol_or_container_id x)"] assms show ?thesis
    by (simp add: pco_wire_def pco_valid_def PCO_MAX_def)
qed

lemma pco_wire_ne: "Suc 0 \<le> length (pco_wire x)"
  by (simp add: pco_wire_def)

lemma encode_epco_ok:
  assumes "pco_valid x"
  shows "encodes (encode_extended_protocol_configuration_options x iei) (epco_wire x iei)"
proof -
  let ?body = "encoder_body (if iei > 0 then 4 else 3)
          [put_iei iei,
           with_lenptr 2
             (\<lambda>lenPtr encoded.
                let len_ie = (ucast (of_nat encoded - 2 - (if iei > 0 then 1 else 0) :: u32) :: u16)
                in [hi8 len_ie, lo8 len_ie])
             [add_call (encode_protocol_configuration_options x)]]"
  have "encodes ?body (epco_wire x iei)"
    by (rule encodes_body, rule emits_Cons, rule emits_put_iei, rule emits_Cons, rule emits_with_lenptr,
        rule emits_Cons, rule emits_add_call, rule encodes_pco [OF assms], rule emits_Nil, simp add: Let_def,
        rule emits_Nil)
      (simp_all add: epco_wire_def length_iei_wire Let_def pco_wire_ne)
  moreover have "as_int (int (length (epco_wire x iei))) = int (length (epco_wire x iei))"
    using length_pco_wire [OF assms] by (simp add: as_int_def epco_wire_def length_iei_wire)
  ultimately show ?thesis
    by (simp add: encodes_def encode_extended_protocol_configuration_options_def)
qed

subsection \<open>What the decoder reads back\<close>

text \<open>The container as the decoder leaves it, and the options read over \<open>x0\<close>.\<close>

definition pco_canon :: "pco_container \<Rightarrow> pco_container" where
  "pco_canon c = c\<lparr>pco_contents := (if pco_length c > 0 then Some (bstr (pco_contents c)) else None)\<rparr>"

definition pco_fill :: "pco \<Rightarrow> pco \<Rightarrow> nat \<Rightarrow> pco" where
  "pco_fill x0 x k =
     x0\<lparr>num_protocol_or_container_id := of_nat k,
        protocol_or_container_ids :=
          (\<lambda>i. if i < k then pco_canon (protocol_or_container_ids x i) else protocol_or_container_ids x0 i)\<rparr>"

lemma pco_fill_simps [simp]:
  "num_protocol_or_container_id (pco_fill x0 x k) = of_nat k"
  "protocol_or_container_ids (pco_fill x0 x k) k = protocol_or_container_ids x0 k"
  by (simp_all add: pco_fill_def)

lemma pco_fill_Suc:
  assumes "c = pco_canon (protocol_or_container_ids x k)"
  shows "(pco_fill x0 x k)
     \<lparr>protocol_or_container_ids := (protocol_or_container_ids (pco_fill x0 x k))(k := c),
      num_protocol_or_container_id := of_nat k + 1\<rparr> = pco_fill x0 x (Suc k)"
proof -
  have "(\<lambda>i. if i < k then pco_canon (protocol_or_container_ids x i) else protocol_or_container_ids x0 i)
          (k := pco_canon (protocol_or_container_ids x k))
      = (\<lambda>i. if i < Suc k then pco_canon (protocol_or_container_ids x i) else protocol_or_container_ids x0 i)"
    by (auto simp: less_Suc_eq)
  then show ?thesis by (simp add: pco_fill_def assms add.commute)
qed

lemma pco_decode_step:
  assumes k: "k < PCO_MAX"
    and l: "pco_length c > 0 \<Longrightarrow> unat (pco_length c) = length (bstr (pco_contents c))"
    and c: "c = protocol_or_container_ids x k"
    and len: "length pre + length (pco_container_wire c) \<le> unat len" "unat len < 2147483648"
  shows "pco_decode_loop (pre @ pco_container_wire c @ rest) len (pco_fill x0 x k) (length pre)
       = pco_decode_loop (pre @ pco_container_wire c @ rest) len (pco_fill x0 x (Suc k))
           (length pre + length (pco_container_wire c))"
proof -
  define B where "B = pre @ pco_container_wire c @ rest"
  define s where "s = (if pco_length c > 0 then bstr (pco_contents c) else [])"
  have more: "3 \<le> sint len - int (length pre)"
    using le_uint [OF len(1)] sint_small [OF len(2)] by (simp add: pco_container_wire_def)
  have num: "unat (of_nat k :: u8) = k" using k by (simp add: unat_len_u8 PCO_MAX_def)
  have read: "DECODE_U16 B (length pre) = Some (pco_id c)"
    "DECODE_U8 B (length pre + 2) = Some (pco_length c)" "drop (length pre + 3) B = s @ rest"
    "length (pco_container_wire c) = 3 + length s"
    using DECODE_U8_append [of pre "pco_container_wire c @ rest" 2]
    by (simp_all add: B_def pco_container_wire_def s_def)
  have str: "decode_bstring s0 (ucast (pco_length c)) (Some (s @ rest)) (len - of_nat (length pre + 3))
      = Some (int (length s), Some s)" if "0 < pco_length c" for s0
    using bstring_read [of s "ucast (pco_length c)" "length pre + 3" len s0 rest] that l len read
    by (simp add: s_def)
  have c': "(protocol_or_container_ids x0 k)\<lparr>pco_id := pco_id c, pco_length := pco_length c,
      pco_contents := (if 0 < pco_length c then Some s else None)\<rparr> = pco_canon (protocol_or_container_ids x k)"
    by (simp add: pco_canon_def c s_def)
  note next_state = pco_fill_Suc [OF c', of x0]
  have "pco_decode_loop B len (pco_fill x0 x k) (length pre)
      = pco_decode_loop B len (pco_fill x0 x (Suc k)) (length pre + (3 + length s))"
  proof (cases "0 < pco_length c")
    case True
    with more num k read str next_state show ?thesis
      by (subst pco_decode_loop.simps) (simp add: Let_def add.assoc)
  next
    case False
    with more num k read next_state show ?thesis
      by (subst pco_decode_loop.simps) (simp add: Let_def s_def)
  qed
  then show ?thesis by (simp add: B_def read)
qed

lemma pco_decode_reads:
  assumes "k \<le> n" and "n = unat (num_protocol_or_container_id x)" and "pco_valid x"
    and "unat len < 2147483648"
    and "length pre + length (concat (map (\<lambda>i. pco_container_wire (protocol_or_container_ids x i)) [k..<n]))
         \<le> unat len"
  shows "pco_decode_loop
      (pre @ concat (map (\<lambda>i. pco_container_wire (protocol_or_container_ids x i)) [k..<n]) @ rest)
      len (pco_fill x0 x k) (length pre)
    = pco_decode_loop
      (pre @ concat (map (\<lambda>i. pco_container_wire (protocol_or_container_ids x i)) [k..<n]) @ rest)
      len (pco_fill x0 x n)
      (length pre + length (concat (map (\<lambda>i. pco_container_wire (protocol_or_container_ids x i)) [k..<n])))"
  using assms
proof (induction "n - k" arbitrary: k pre)
  case 0
  then show ?case by simp
next
  case (Suc d)
  define w where "w = pco_container_wire (protocol_or_container_ids x k)"
  define ws where "ws = concat (map (\<lambda>i. pco_container_wire (protocol_or_container_ids x i)) [Suc k..<n])"
  have kn: "k < n" using Suc.hyps(2) by simp
  then have all: "concat (map (\<lambda>i. pco_container_wire (protocol_or_container_ids x i)) [k..<n]) = w @ ws"
    by (simp add: upt_conv_Cons w_def ws_def)
  have bnd: "length pre + (length w + length ws) \<le> unat len"
    using Suc.prems(5) unfolding all by simp
  have "pco_decode_loop (pre @ w @ ws @ rest) len (pco_fill x0 x k) (length pre)
      = pco_decode_loop (pre @ w @ ws @ rest) len (pco_fill x0 x (Suc k)) (length pre + length w)"
    unfolding w_def using kn Suc.prems bnd
    by (intro pco_decode_step) (auto simp: pco_valid_def list_all_iff Let_def w_def)
  also have "\<dots> = pco_decode_loop ((pre @ w) @ ws @ rest) len (pco_fill x0 x (Suc k)) (length (pre @ w))"
    by simp
  also have "\<dots> = pco_decode_loop ((pre @ w) @ ws @ rest) len (pco_fill x0 x n) (length (pre @ w) + length ws)"
    unfolding ws_def using Suc.prems Suc.hyps(2) kn bnd
    by (intro Suc.hyps(1)) (auto simp: ws_def)
  finally show ?case by (simp add: all add.assoc)
qed

lemma decode_pco_wire:
  assumes "pco_valid x" and w: "ws = concat (map (\<lambda>i. pco_container_wire (protocol_or_container_ids x i))
      [0..<unat (num_protocol_or_container_id x)])"
    and len: "unat len = length ws + t" "t < 3" "unat len < 2147483648"
  shows "decode_protocol_configuration_options x0 (ws @ rest) len
       = Some (int (length ws), pco_fill x0 x (unat (num_protocol_or_container_id x)))"
proof -
  let ?n = "unat (num_protocol_or_container_id x)"
  have "decode_protocol_configuration_options x0 (ws @ rest) len
      = pco_decode_loop ([] @ ws @ rest) len (pco_fill x0 x 0) (length ([] :: mem))"
    by (simp add: decode_protocol_configuration_options_def pco_fill_def)
  also have "\<dots> = pco_decode_loop ([] @ ws @ rest) len (pco_fill x0 x ?n) (length ([] :: mem) + length ws)"
    using assms unfolding w by (intro pco_decode_reads) auto
  also have "\<not> 3 \<le> sint len - int (length ws)"
    using sint_small [OF len(3)] len(1,2) by simp
  then have "pco_decode_loop ([] @ ws @ rest) len (pco_fill x0 x ?n) (length ([] :: mem) + length ws)
      = Some (int (length ws), pco_fill x0 x ?n)"
    by (subst pco_decode_loop.simps) simp
  finally show ?thesis .
qed

text \<open>
  The configuration protocol is encoded in the low three bits of its octet and decoded from the
  three bits above the lowest: it comes back shifted.
\<close>

definition pco_seen :: "pco \<Rightarrow> pco \<Rightarrow> pco" where
  "pco_seen x0 x = pco_fill (x0\<lparr>configuration_protocol := drop_bit 1 (configuration_protocol x)\<rparr>) x
     (unat (num_protocol_or_container_id x))"

lemma pco_octet:
  "drop_bit 7 (0x80 OR (ucast (c :: 3 word) AND 7) :: u8) AND 1 = 1"
  "drop_bit 3 ((0x80 OR (ucast (c :: 3 word) AND 7) :: u8) AND 0x78) = 0"
  "ucast (drop_bit 1 (0x80 OR (ucast (c :: 3 word) AND 7) :: u8) AND 7) = drop_bit 1 c"
proof -
  have m: "(0x80 :: u8) = push_bit 7 (mask 1)" "(0x78 :: u8) = push_bit 3 (mask 4)" "(7 :: u8) = mask 3"
    "(1 :: u8) = mask 1"
    by (simp_all add: mask_eq_exp_minus_1)
  show "drop_bit 7 (0x80 OR (ucast (c :: 3 word) AND 7) :: u8) AND 1 = 1"
    unfolding m by (rule bit_word_eqI) (auto simp: bit_simps)
  show "drop_bit 3 ((0x80 OR (ucast (c :: 3 word) AND 7) :: u8) AND 0x78) = 0"
    by (simp add: bit.conj_disj_distrib2 and.assoc)
  show "ucast (drop_bit 1 (0x80 OR (ucast (c :: 3 word) AND 7) :: u8) AND 7) = drop_bit 1 c"
  proof (rule bit_word_eqI, goal_cases)
    case (1 n)
    then consider "n = 0" | "n = 1" | "n = 2" by fastforce
    then show ?case
      unfolding m by cases (auto simp: bit_simps dest: bit_imp_le_length)
  qed
qed

lemma unat_len_u16: "n < 65536 \<Longrightarrow> unat (of_nat n :: u16) = n"
  by (simp add: unat_of_nat take_bit_nat_eq_self)

lemma decode_epco_ok:
  assumes v: "pco_valid x"
  shows "decodes (\<lambda>b len. decode_extended_protocol_configuration_options x0 iei b len)
           (epco_wire x iei) (pco_seen x0 x)"
proof -
  define ws where "ws = concat (map (\<lambda>i. pco_container_wire (protocol_or_container_ids x i))
      [0..<unat (num_protocol_or_container_id x)])"
  define l where "l = (of_nat (length (pco_wire x)) :: u16)"
  define o1 where "o1 = (0x80 OR (ucast (configuration_protocol x) AND 7) :: u8)"
  have wire: "pco_wire x = o1 # ws" by (simp add: pco_wire_def ws_def o1_def)
  have l: "unat (ucast l :: u32) = length ws + 1"
    using length_pco_wire [OF v] unat_len_u16 [of "length (pco_wire x)"] by (simp add: l_def wire)
  note o1 = pco_octet [of "configuration_protocol x", folded o1_def]
  define x1 where "x1 = x0\<lparr>configuration_protocol := drop_bit 1 (configuration_protocol x)\<rparr>"
  have inner: "decode_protocol_configuration_options x1 (ws @ rest) (ucast l)
      = Some (int (length ws), pco_seen x0 x)" for rest
    using decode_pco_wire [OF v ws_def l, of x1 rest] length_pco_wire [OF v] l wire
    by (simp add: pco_seen_def x1_def)
  show ?thesis
    unfolding decodes_def epco_wire_def l_def [symmetric]
    unfolding wire
    using o1 inner [unfolded x1_def]
    by (auto simp: decode_extended_protocol_configuration_options_def check_iei_def iei_wire_def)
qed

interpretation epco: ie_codec encode_extended_protocol_configuration_options epco_wire
  "\<lambda>x _. pco_valid x" decode_extended_protocol_configuration_options pco_seen
  by unfold_locales (simp_all add: encode_epco_ok decode_epco_ok)

lemma pco_loop_overflow:
  assumes ids: "30 < length ids" and len: "unat len = 3 * length ids" "unat len < 2147483648"
  shows "unat (num_protocol_or_container_id x) = k \<Longrightarrow> k \<le> 30 \<Longrightarrow>
    pco_decode_loop (concat (map (\<lambda>i. [hi8 i, lo8 i, 0]) ids)) len x (3 * k) = None"
proof (induction "30 - k" arbitrary: k x)
  case 0
  then have "3 \<le> sint len - int (3 * k)" using sint_small [OF len(2)] ids len(1) by simp
  with 0 show ?case by (subst pco_decode_loop.simps) (simp add: PCO_MAX_def)
next
  case (Suc d)
  then have k: "k < 30" by simp
  then have more: "3 \<le> sint len - int (3 * k)" using sint_small [OF len(2)] ids len(1) by simp
  define f where "f = (\<lambda>i :: u16. [hi8 i, lo8 i, 0 :: u8])"
  have l: "length (concat (map f is)) = 3 * length is" for "is" by (induction "is") (simp_all add: f_def)
  have "ids = take k ids @ ids ! k # drop (Suc k) ids" using k ids by (simp add: id_take_nth_drop)
  then have "concat (map f ids) = concat (map f (take k ids)) @ f (ids ! k) @ concat (map f (drop (Suc k) ids))"
    by (metis concat.simps(2) concat_append list.simps(9) map_append)
  moreover have "length (concat (map f (take k ids))) = 3 * k" using l k ids by simp
  ultimately have rd: "DECODE_U16 (concat (map f ids)) (3 * k) = Some (ids ! k)"
    "DECODE_U8 (concat (map f ids)) (3 * k + 2) = Some 0"
    by (metis DECODE_U16_append0 DECODE_U16_hd append.simps(2) be16_hi_lo f_def)
      (metis (no_types, lifting) DECODE_U8_append DECODE_U8_hd DECODE_U8_Suc append.simps(2) f_def numeral_2_eq_2
        \<open>concat (map f ids) = concat (map f (take k ids)) @ f (ids ! k) @ concat (map f (drop (Suc k) ids))\<close>
        \<open>length (concat (map f (take k ids))) = 3 * k\<close>)
  have num: "unat (num_protocol_or_container_id x + 1) = Suc k"
    using Suc.prems k by (simp add: unat_plus_one plus_one_zero)
  have "pco_decode_loop (concat (map f ids)) len x' (3 * Suc k) = None" if "unat (num_protocol_or_container_id x') = Suc k" for x'
    using Suc.hyps(1) [of "Suc k" x'] Suc.hyps(2) that k by (simp add: f_def)
  with Suc.prems k more rd num show ?case
    unfolding f_def [symmetric]
    by (subst pco_decode_loop.simps) (simp add: Let_def PCO_MAX_def add.commute)
qed

subsection \<open>Properties\<close>

text \<open>Extended protocol configuration options survive the codec container by container; the configuration
  protocol comes back shifted right by one bit.\<close>

theorem epco_roundtrip:
  assumes "pco_valid x" and "length (epco_wire x iei) \<le> unat len" and "unat len \<le> length b"
  shows "\<exists>n b' y. encode_extended_protocol_configuration_options x iei len (Some b) = Some (n, b') \<and>
     drop (nat n) b' = drop (nat n) b \<and> decode_extended_protocol_configuration_options x0 iei b' len = Some (n, y) \<and>
     num_protocol_or_container_id y = num_protocol_or_container_id x \<and>
     configuration_protocol y = drop_bit 1 (configuration_protocol x) \<and>
     (\<forall>i. i < unat (num_protocol_or_container_id x) \<longrightarrow>
        pco_id (protocol_or_container_ids y i) = pco_id (protocol_or_container_ids x i) \<and>
        pco_contents (protocol_or_container_ids y i) =
          (if pco_length (protocol_or_container_ids x i) > 0
           then Some (bstr (pco_contents (protocol_or_container_ids x i))) else None))"
  using epco.roundtrip [OF assms, of x0] epco.encode_result [OF assms]
  by (auto simp: pco_seen_def pco_fill_def pco_canon_def)

theorem epco_roundtrip_witness:
  "let x = \<lparr>configuration_protocol = 0, num_protocol_or_container_id = 2, protocol_or_container_ids =
         (\<lambda>i. if i = 0 then \<lparr>pco_id = 0x000D, pco_length = 4, pco_contents = Some [8, 8, 8, 8]\<rparr>
              else \<lparr>pco_id = 0x0010, pco_length = 2, pco_contents = Some [5, 0x78]\<rparr>)\<rparr>
   in \<exists>n b' y. encode_extended_protocol_configuration_options x 0x7B 32 (Some (replicate 32 0)) = Some (n, b') \<and>
     drop (nat n) b' = drop (nat n) (replicate 32 0) \<and>
     decode_extended_protocol_configuration_options x 0x7B b' 32 = Some (n, y) \<and>
     num_protocol_or_container_id y = num_protocol_or_container_id x \<and>
     configuration_protocol y = drop_bit 1 (configuration_protocol x) \<and>
     (\<forall>i. i < unat (num_protocol_or_container_id x) \<longrightarrow>
        pco_id (protocol_or_container_ids y i) = pco_id (protocol_or_container_ids x i) \<and>
        pco_contents (protocol_or_container_ids y i) =
          (if pco_length (protocol_or_container_ids x i) > 0
           then Some (bstr (pco_contents (protocol_or_container_ids x i))) else None))"
  unfolding Let_def
  by (rule epco_roundtrip)
    (simp_all add: pco_valid_def PCO_MAX_def epco_wire_def pco_wire_def pco_container_wire_def iei_wire_def
      upt_rec)

text \<open>The decoder of protocol configuration options does not bound the number of containers: any sequence of more
  than thirty empty containers makes it write past its array.\<close>

theorem pco_overflow:
  assumes "30 < length ids" and "length ids < 700000000" and "unat len = 3 * length ids"
  shows "decode_protocol_configuration_options x (concat (map (\<lambda>i. [hi8 i, lo8 i, 0]) ids)) len = None"
  using pco_loop_overflow [OF assms(1,3), of "x\<lparr>num_protocol_or_container_id := 0\<rparr>" 0] assms(2,3)
  by (simp add: decode_protocol_configuration_options_def)

theorem pco_overflow_witness:
  "decode_protocol_configuration_options
     \<lparr>configuration_protocol = 0, num_protocol_or_container_id = 0,
        protocol_or_container_ids = (\<lambda>_. \<lparr>pco_id = 0, pco_length = 0, pco_contents = None\<rparr>)\<rparr>
     (concat (map (\<lambda>i. [hi8 i, lo8 i, 0]) (replicate 31 0x000D))) 93 = None"
  by (rule pco_overflow) simp_all

end
