(* ===== verification/IE_QosFlow.thy ===== *)
theory IE_QosFlow
  imports IE_Pco
begin

text \<open>
  QoS flow descriptions, \<open>QOSFlowDescriptions.c\<close>: a two-octet length over descriptions, each with a
  list of parameters under a length octet. The decoder first counts the descriptions by skipping
  over them, then reads that many into arrays allocated with \<open>calloc\<close>, which are lists here.
\<close>

subsection \<open>Structure\<close>

text \<open>
  The union \<open>parametercontents\<close> has one field per member: the code only accesses the member
  selected by \<open>parameteridentifier\<close>.
\<close>

record ParametersList =
  parameteridentifier :: u8
  fiveqi :: u8
  gfbrormfbr_uint :: u8
  gfbrormfbr_value :: u16
  uplinkinmilliseconds :: u8
  downlinkinmilliseconds :: u8
  epsbeareridentity :: "4 word"

record QOSFlowDescriptionsContents =
  qfi :: "6 word"
  operationcode :: "3 word"
  e_bit :: "1 word"
  numberofparameters :: "6 word"
  parameterslist :: "ParametersList list"

record QOSFlowDescriptions =
  qosflowdescriptionsnumber :: u16
  qosflowdescriptionscontents :: "QOSFlowDescriptionsContents list"

text \<open>Parameter identifiers that carry a rate: GFBR and MFBR, up and down.\<close>

definition is_rate :: "u8 \<Rightarrow> bool" where
  "is_rate p \<longleftrightarrow> p = 0x02 \<or> p = 0x03 \<or> p = 0x04 \<or> p = 0x05"

subsection \<open>Encoder\<close>

definition parameter_contents_cmds :: "ParametersList \<Rightarrow> ecmd list" where
  "parameter_contents_cmds p =
     (if parameteridentifier p = 0x01 then [ENCODE_U8 (fiveqi p)]
      else if is_rate (parameteridentifier p) then
        [ENCODE_U8 (gfbrormfbr_uint p), store [ucast (gfbrormfbr_value p div 256)],
         store [ucast (gfbrormfbr_value p mod 256)]]
      else if parameteridentifier p = 0x06 then
        [ENCODE_U8 (uplinkinmilliseconds p), ENCODE_U8 (downlinkinmilliseconds p)]
      else if parameteridentifier p = 0x07 then
        [ENCODE_U8 (push_bit 4 (ucast (epsbeareridentity p)))]
      else [])"

definition parameter_cmds :: "ParametersList \<Rightarrow> ecmd list" where
  "parameter_cmds p =
     [ENCODE_U8 (parameteridentifier p),
      with_lenptr 1 (\<lambda>lenPtr encoded. [of_nat encoded - of_nat (lenPtr + 1)]) (parameter_contents_cmds p)]"

text \<open>The element of an array by index: an index past its end is undefined behaviour.\<close>

definition nth_cmds :: "('a \<Rightarrow> ecmd list) \<Rightarrow> 'a list \<Rightarrow> nat \<Rightarrow> ecmd list" where
  "nth_cmds f xs i = (if i < length xs then f (xs ! i) else [\<lambda>len b e. EUndef])"

definition description_cmds :: "QOSFlowDescriptionsContents \<Rightarrow> ecmd list" where
  "description_cmds d =
     [ENCODE_U8 (ucast (qfi d)), ENCODE_U8 (push_bit 5 (ucast (operationcode d)))]
     @ (if operationcode d = 0b010 \<and> e_bit d = 0 then
          [ENCODE_U8 (push_bit 6 (ucast (e_bit d)) AND 0x40)]
        else
          [ENCODE_U8 (push_bit 6 (ucast (e_bit d)) OR ucast (numberofparameters d))]
          @ concat (map (nth_cmds parameter_cmds (parameterslist d)) [0..<unat (numberofparameters d)]))"

definition encode_qos_flow_descriptions :: "QOSFlowDescriptions \<Rightarrow> u8 \<Rightarrow> encoder" where
  "encode_qos_flow_descriptions x iei =
     encoder_body (if iei > 0 then 6 else 5)
       [put_iei iei,
        with_lenptr 2 (\<lambda>lenPtr encoded. len16 (of_nat encoded - 2 - (if iei > 0 then 1 else 0)))
          (concat (map (nth_cmds description_cmds (qosflowdescriptionscontents x))
             [0..<unat (qosflowdescriptionsnumber x)]))]"

subsection \<open>Decoder\<close>

text \<open>First pass. \<open>for (i < numberparameters) { decoded_tmp++; decoded_tmp = decoded_tmp + *(buffer + decoded_tmp) + 1; }\<close>\<close>

primrec skip_parameters :: "mem \<Rightarrow> nat \<Rightarrow> nat \<Rightarrow> nat option" where
  "skip_parameters buffer 0 tmp = Some tmp"
| "skip_parameters buffer (Suc k) tmp = do {
     l \<leftarrow> DECODE_U8 buffer (tmp + 1);
     skip_parameters buffer k (tmp + 1 + unat l + 1) }"

definition skip_description :: "mem \<Rightarrow> nat \<Rightarrow> nat option" where
  "skip_description buffer tmp = do {
     let tmp = tmp + 2;
     v \<leftarrow> DECODE_U8 buffer tmp;
     w \<leftarrow> DECODE_U8 buffer (tmp - 1);
     if drop_bit 6 v AND 0x01 = 0 \<and> drop_bit 5 w = 0b010 then Some (tmp + 1)
     else skip_parameters buffer (unat (v AND 0x3f)) (tmp + 1) }"

lemma skip_parameters_le: "skip_parameters buffer k tmp = Some t \<Longrightarrow> tmp \<le> t"
  by (induction k arbitrary: tmp) (auto split: bind_splits, fastforce)

lemma skip_description_less: "skip_description buffer tmp = Some t \<Longrightarrow> tmp < t"
  by (auto simp: skip_description_def Let_def split: bind_splits if_splits dest: skip_parameters_le)

function count_descriptions :: "mem \<Rightarrow> nat \<Rightarrow> nat \<Rightarrow> nat \<Rightarrow> nat \<Rightarrow> nat option" where
  "count_descriptions buffer start ielen tmp n =
     (if tmp - start < ielen then
        (case skip_description buffer tmp of
           None \<Rightarrow> None
         | Some tmp' \<Rightarrow> count_descriptions buffer start ielen tmp' (n + 1))
      else Some n)"
  by pat_completeness auto

termination
  by (relation "measure (\<lambda>(b, s, l, t, n). s + l - t)") (auto dest: skip_description_less)

declare count_descriptions.simps [simp del]

text \<open>Second pass, into zeroed structures; a parameter's length octet is skipped unread.\<close>

definition zero_parameter :: ParametersList where
  "zero_parameter = \<lparr>parameteridentifier = 0, fiveqi = 0, gfbrormfbr_uint = 0, gfbrormfbr_value = 0,
     uplinkinmilliseconds = 0, downlinkinmilliseconds = 0, epsbeareridentity = 0\<rparr>"

definition decode_parameter :: "mem \<Rightarrow> nat \<Rightarrow> (ParametersList \<times> nat) option" where
  "decode_parameter buffer decoded = do {
     ident \<leftarrow> DECODE_U8 buffer decoded;
     let p = zero_parameter\<lparr>parameteridentifier := ident\<rparr>;
     let decoded = decoded + 2;
     if ident = 0x01 then do {
       v \<leftarrow> DECODE_U8 buffer decoded;
       Some (p\<lparr>fiveqi := v\<rparr>, decoded + 1) }
     else if is_rate ident then do {
       u \<leftarrow> DECODE_U8 buffer decoded;
       hi \<leftarrow> DECODE_U8 buffer (decoded + 1);
       lo \<leftarrow> DECODE_U8 buffer (decoded + 2);
       Some (p\<lparr>gfbrormfbr_uint := u, gfbrormfbr_value := push_bit 8 (ucast hi) + ucast lo\<rparr>, decoded + 3) }
     else if ident = 0x06 then do {
       u \<leftarrow> DECODE_U8 buffer decoded;
       d \<leftarrow> DECODE_U8 buffer (decoded + 1);
       Some (p\<lparr>uplinkinmilliseconds := u, downlinkinmilliseconds := d\<rparr>, decoded + 2) }
     else if ident = 0x07 then do {
       v \<leftarrow> DECODE_U8 buffer decoded;
       Some (p\<lparr>epsbeareridentity := ucast (drop_bit 4 v)\<rparr>, decoded + 1) }
     else Some (p, decoded) }"

primrec decode_array :: "(mem \<Rightarrow> nat \<Rightarrow> ('a \<times> nat) option) \<Rightarrow> mem \<Rightarrow> nat \<Rightarrow> nat \<Rightarrow> ('a list \<times> nat) option" where
  "decode_array dec buffer 0 decoded = Some ([], decoded)"
| "decode_array dec buffer (Suc k) decoded = do {
     (x, decoded) \<leftarrow> dec buffer decoded;
     (xs, decoded) \<leftarrow> decode_array dec buffer k decoded;
     Some (x # xs, decoded) }"

lemma decode_array_le:
  assumes "\<And>d x d'. dec b d = Some (x, d') \<Longrightarrow> d \<le> d'"
  shows "decode_array dec b k d = Some (xs, d') \<Longrightarrow> d \<le> d'"
proof (induction k arbitrary: d xs)
  case (Suc k)
  then show ?case by (fastforce split: bind_splits dest: assms)
qed simp

definition decode_description :: "mem \<Rightarrow> nat \<Rightarrow> (QOSFlowDescriptionsContents \<times> nat) option" where
  "decode_description buffer decoded = do {
     a \<leftarrow> DECODE_U8 buffer decoded;
     b \<leftarrow> DECODE_U8 buffer (decoded + 1);
     c \<leftarrow> DECODE_U8 buffer (decoded + 2);
     let n = (ucast (c AND 0x3f) :: 6 word);
     (ps, decoded) \<leftarrow> decode_array decode_parameter buffer (unat n) (decoded + 3);
     Some (\<lparr>qfi = ucast (a AND 0x3f), operationcode = ucast (drop_bit 5 b), e_bit = ucast (drop_bit 6 c AND 0x01),
            numberofparameters = n, parameterslist = ps\<rparr>, decoded) }"

definition decode_qos_flow_descriptions ::
  "QOSFlowDescriptions \<Rightarrow> u8 \<Rightarrow> mem \<Rightarrow> u32 \<Rightarrow> (int \<times> QOSFlowDescriptions) option" where
  "decode_qos_flow_descriptions x iei buffer len =
     check_iei iei buffer x (\<lambda>decoded. do {
       hi \<leftarrow> DECODE_U8 buffer decoded;
       lo \<leftarrow> DECODE_U8 buffer (decoded + 1);
       let decoded = decoded + 2;
       let ielen = (push_bit 8 (ucast hi) + ucast lo :: u16);
       check_length (len - of_nat decoded) (ucast ielen) x (do {
         n \<leftarrow> count_descriptions buffer decoded (unat ielen) decoded 0;
         let x = x\<lparr>qosflowdescriptionsnumber := of_nat n\<rparr>;
         (ds, decoded) \<leftarrow>
           decode_array decode_description buffer (unat (qosflowdescriptionsnumber x)) decoded;
         Some (int decoded, x\<lparr>qosflowdescriptionscontents := ds\<rparr>) }) })"

text \<open>\<open>free_decode_qos_flow_descriptions\<close>: the loop over \<open>qosflowdescriptionsnumber\<close> entries.\<close>

definition free_decode_qos_flow_descriptions :: "QOSFlowDescriptions \<Rightarrow> QOSFlowDescriptions option" where
  "free_decode_qos_flow_descriptions x =
     (if length (qosflowdescriptionscontents x) < unat (qosflowdescriptionsnumber x) then None
      else Some (x\<lparr>qosflowdescriptionscontents := []\<rparr>))"

subsection \<open>What the encoder writes\<close>

definition parameter_contents_wire :: "ParametersList \<Rightarrow> u8 list" where
  "parameter_contents_wire p =
     (if parameteridentifier p = 0x01 then [fiveqi p]
      else if is_rate (parameteridentifier p) then
        [gfbrormfbr_uint p, hi8 (gfbrormfbr_value p), lo8 (gfbrormfbr_value p)]
      else if parameteridentifier p = 0x06 then [uplinkinmilliseconds p, downlinkinmilliseconds p]
      else if parameteridentifier p = 0x07 then [push_bit 4 (ucast (epsbeareridentity p))]
      else [])"

definition parameter_wire :: "ParametersList \<Rightarrow> u8 list" where
  "parameter_wire p = parameteridentifier p # of_nat (length (parameter_contents_wire p)) # parameter_contents_wire p"

text \<open>A description that deletes a flow, without parameters.\<close>

definition no_parameters :: "QOSFlowDescriptionsContents \<Rightarrow> bool" where
  "no_parameters d \<longleftrightarrow> operationcode d = 0b010 \<and> e_bit d = 0"

definition description_wire :: "QOSFlowDescriptionsContents \<Rightarrow> u8 list" where
  "description_wire d =
     [ucast (qfi d), push_bit 5 (ucast (operationcode d))]
     @ (if no_parameters d then [0]
        else (push_bit 6 (ucast (e_bit d)) OR ucast (numberofparameters d))
             # concat (map parameter_wire (parameterslist d)))"

definition descriptions_wire :: "QOSFlowDescriptions \<Rightarrow> u8 list" where
  "descriptions_wire x = concat (map description_wire (qosflowdescriptionscontents x))"

definition qos_flow_descriptions_wire :: "QOSFlowDescriptions \<Rightarrow> u8 \<Rightarrow> u8 list" where
  "qos_flow_descriptions_wire x iei =
     iei_wire iei @ len16 (of_nat (length (descriptions_wire x))) @ descriptions_wire x"

definition description_valid :: "QOSFlowDescriptionsContents \<Rightarrow> bool" where
  "description_valid d \<longleftrightarrow>
     (no_parameters d \<or> length (parameterslist d) = unat (numberofparameters d))"

definition qos_flow_descriptions_valid :: "QOSFlowDescriptions \<Rightarrow> bool" where
  "qos_flow_descriptions_valid x \<longleftrightarrow>
     qosflowdescriptionscontents x \<noteq> [] \<and>
     length (qosflowdescriptionscontents x) = unat (qosflowdescriptionsnumber x) \<and>
     list_all description_valid (qosflowdescriptionscontents x) \<and>
     length (descriptions_wire x) < 65536"

lemma value_bytes:
  "ucast (v div 256) = hi8 v" "ucast (v mod 256) = lo8 (v :: u16)"
proof -
  have "v div 256 = drop_bit 8 v" "v mod 256 = take_bit 8 v"
    by (simp_all add: drop_bit_eq_div take_bit_eq_mod)
  moreover have "ucast (take_bit 8 v) = (ucast v :: u8)"
    by (rule bit_word_eqI) (auto simp: bit_simps)
  ultimately show "ucast (v div 256) = hi8 v" "ucast (v mod 256) = lo8 v"
    by (simp_all add: hi8_def lo8_def)
qed

lemma parameter_contents_emits: "emits e (parameter_contents_cmds p) (parameter_contents_wire p)"
  unfolding parameter_contents_cmds_def parameter_contents_wire_def value_bytes [symmetric]
  by (auto intro!: emits_eq [OF emits_Cons] emit_intros)

lemma parameter_emits: "emits e (parameter_cmds p) (parameter_wire p)"
  unfolding parameter_cmds_def
  by (rule emits_eq, (rule emits_Cons emits_U8 emits_with_lenptr parameter_contents_emits emits_Nil
      | simp only: list.size)+)
    (simp_all add: parameter_wire_def)

lemma emits_map:
  "(\<And>e x. x \<in> set xs \<Longrightarrow> emits e (f x) (w x)) \<Longrightarrow> emits e (concat (map f xs)) (concat (map w xs))"
  by (rule emits_concat)

lemma nth_cmds_all: "concat (map (nth_cmds f xs) [0..<length xs]) = concat (map f xs)"
proof -
  have "map (nth_cmds f xs) [0..<length xs] = map f xs"
    by (rule nth_equalityI) (simp_all add: nth_cmds_def)
  then show ?thesis by simp
qed

lemma description_emits:
  assumes "description_valid d" shows "emits e (description_cmds d) (description_wire d)"
proof (cases "no_parameters d")
  case True
  have "emits e ([ENCODE_U8 (ucast (qfi d)), ENCODE_U8 (push_bit 5 (ucast (operationcode d)))]
      @ [ENCODE_U8 (push_bit 6 (ucast (e_bit d)) AND 0x40)])
      (([ucast (qfi d)] @ [push_bit 5 (ucast (operationcode d))] @ []) @ [push_bit 6 (ucast (e_bit d)) AND 0x40] @ [])"
    by (intro emits_append emits_Cons emits_U8 emits_Nil)
  with True show ?thesis by (simp add: description_cmds_def description_wire_def no_parameters_def)
next
  case False
  have "emits e ([ENCODE_U8 (ucast (qfi d)), ENCODE_U8 (push_bit 5 (ucast (operationcode d)))]
      @ [ENCODE_U8 (push_bit 6 (ucast (e_bit d)) OR ucast (numberofparameters d))]
      @ concat (map parameter_cmds (parameterslist d)))
      (([ucast (qfi d)] @ [push_bit 5 (ucast (operationcode d))] @ [])
        @ ([push_bit 6 (ucast (e_bit d)) OR ucast (numberofparameters d)] @ [])
        @ concat (map parameter_wire (parameterslist d)))"
    by (intro emits_append emits_Cons emits_U8 emits_Nil emits_map parameter_emits)
  moreover have "unat (numberofparameters d) = length (parameterslist d)"
    using False assms by (simp add: description_valid_def)
  ultimately show ?thesis using False nth_cmds_all [of parameter_cmds "parameterslist d"]
    by (auto simp: description_cmds_def description_wire_def no_parameters_def)
qed

lemma length_description_wire: "3 \<le> length (description_wire d)"
  by (simp add: description_wire_def)

lemma encode_qos_flow_descriptions_ok:
  assumes "qos_flow_descriptions_valid x"
  shows "encodes (encode_qos_flow_descriptions x iei) (qos_flow_descriptions_wire x iei)"
proof -
  have n: "unat (qosflowdescriptionsnumber x) = length (qosflowdescriptionscontents x)"
    using assms by (simp add: qos_flow_descriptions_valid_def)
  have body: "emits e (concat (map description_cmds (qosflowdescriptionscontents x))) (descriptions_wire x)" for e
    unfolding descriptions_wire_def using assms
    by (intro emits_map description_emits) (simp add: qos_flow_descriptions_valid_def list_all_iff)
  obtain d ds where "qosflowdescriptionscontents x = d # ds"
    using assms by (cases "qosflowdescriptionscontents x") (auto simp: qos_flow_descriptions_valid_def)
  then have three: "3 \<le> length (descriptions_wire x)"
    using length_description_wire [of d] by (simp add: descriptions_wire_def)
  show ?thesis
    unfolding encode_qos_flow_descriptions_def n nth_cmds_all
    by (rule encodes_body, rule emits_Cons, rule emits_put_iei, rule emits_Cons, rule emits_with_lenptr,
        rule body, simp only: length_len16, rule emits_Nil)
      (use three in \<open>simp_all add: qos_flow_descriptions_wire_def length_iei_wire\<close>)
qed


subsection \<open>What the decoder reads back\<close>

definition dreads :: "(mem \<Rightarrow> nat \<Rightarrow> ('a \<times> nat) option) \<Rightarrow> u8 list \<Rightarrow> 'a \<Rightarrow> bool" where
  "dreads dec bs x \<longleftrightarrow>
     (\<forall>pre rest. dec (pre @ bs @ rest) (length pre) = Some (x, length pre + length bs))"

lemma dreadsD:
  "dreads dec bs x \<Longrightarrow> dec (pre @ bs @ rest) (length pre) = Some (x, length pre + length bs)"
  by (simp add: dreads_def)

lemma dreads_array:
  "(\<And>x. x \<in> set xs \<Longrightarrow> dreads dec (w x) (c x)) \<Longrightarrow>
   dreads (\<lambda>b d. decode_array dec b (length xs) d) (concat (map w xs)) (map c xs)"
proof (induction xs)
  case Nil
  then show ?case by (simp add: dreads_def)
next
  case (Cons x xs)
  have "decode_array dec (pre @ (w x @ concat (map w xs)) @ rest) (length (x # xs)) (length pre)
      = Some (map c (x # xs), length pre + length (w x @ concat (map w xs)))" for pre rest
  proof -
    have "dec (pre @ w x @ concat (map w xs) @ rest) (length pre) = Some (c x, length pre + length (w x))"
      using Cons.prems by (intro dreadsD) simp
    moreover have "decode_array dec ((pre @ w x) @ concat (map w xs) @ rest) (length xs) (length (pre @ w x))
        = Some (map c xs, length (pre @ w x) + length (concat (map w xs)))"
      using Cons.prems Cons.IH
      by (intro dreadsD [of "\<lambda>b d. decode_array dec b (length xs) d"]) simp
    ultimately show ?thesis by (simp add: add.assoc)
  qed
  then show ?case by (simp add: dreads_def)
qed

text \<open>The parameter the decoder builds: the member selected by the identifier, the rest zero.\<close>

definition parameter_seen :: "ParametersList \<Rightarrow> ParametersList" where
  "parameter_seen p =
     (let z = zero_parameter\<lparr>parameteridentifier := parameteridentifier p\<rparr>
      in if parameteridentifier p = 0x01 then z\<lparr>fiveqi := fiveqi p\<rparr>
         else if is_rate (parameteridentifier p) then
           z\<lparr>gfbrormfbr_uint := gfbrormfbr_uint p, gfbrormfbr_value := gfbrormfbr_value p\<rparr>
         else if parameteridentifier p = 0x06 then
           z\<lparr>uplinkinmilliseconds := uplinkinmilliseconds p, downlinkinmilliseconds := downlinkinmilliseconds p\<rparr>
         else if parameteridentifier p = 0x07 then z\<lparr>epsbeareridentity := epsbeareridentity p\<rparr>
         else z)"

definition description_seen :: "QOSFlowDescriptionsContents \<Rightarrow> QOSFlowDescriptionsContents" where
  "description_seen d =
     (if no_parameters d then d\<lparr>numberofparameters := 0, parameterslist := []\<rparr>
      else d\<lparr>parameterslist := map parameter_seen (parameterslist d)\<rparr>)"

lemma eps_read: "ucast (drop_bit 4 (push_bit 4 (ucast (v :: 4 word)) :: u8)) = v"
  by (rule bit_word_eqI) (auto simp: bit_simps dest: bit_imp_le_length)

lemma parameter_dreads: "dreads decode_parameter (parameter_wire p) (parameter_seen p)"
  unfolding dreads_def parameter_wire_def parameter_contents_wire_def decode_parameter_def
    parameter_seen_def
  by (auto simp: Let_def DECODE_U8_shift be16_plus eps_read)

lemma flow_octets:
  "ucast (ucast (q :: 6 word) AND 0x3F :: u8) = q"
  "ucast (drop_bit 5 (push_bit 5 (ucast (o3 :: 3 word)) :: u8)) = o3"
  "ucast (drop_bit 6 (push_bit 6 (ucast (e :: 1 word)) OR ucast (n :: 6 word) :: u8) AND 1) = e"
  "ucast ((push_bit 6 (ucast (e :: 1 word)) OR ucast (n :: 6 word) :: u8) AND 0x3F) = n"
  unfolding octet_masks by (rule bit_word_eqI; auto simp: bit_simps dest: bit_imp_le_length)+

lemma description_dreads:
  assumes "description_valid d"
  shows "dreads decode_description (description_wire d) (description_seen d)"
proof (cases "no_parameters d")
  case True
  then show ?thesis
    by (cases d) (simp add: dreads_def decode_description_def description_wire_def description_seen_def
      no_parameters_def DECODE_U8_shift flow_octets [simplified])
next
  case False
  have n: "unat (numberofparameters d) = length (parameterslist d)"
    using False assms by (simp add: description_valid_def)
  have "decode_array decode_parameter ((pre @ [a, b, c]) @ concat (map parameter_wire ps) @ rest)
      (length ps) (length (pre @ [a, b, c]))
    = Some (map parameter_seen ps, length (pre @ [a, b, c]) + length (concat (map parameter_wire ps)))"
    for pre rest ps a b c
    by (rule dreadsD [OF dreads_array]) (rule parameter_dreads)
  then show ?thesis
    using False n
    by (cases d) (simp add: dreads_def decode_description_def description_wire_def description_seen_def
      DECODE_U8_shift flow_octets [simplified] Let_def numeral_3_eq_3)
qed

text \<open>The first pass skips the same bytes, by the length octets.\<close>

lemma skip_parameters_wire:
  "skip_parameters (pre @ concat (map parameter_wire ps) @ rest) (length ps) (length pre)
     = Some (length pre + length (concat (map parameter_wire ps)))"
proof (induction ps arbitrary: pre)
  case (Cons p ps)
  have l: "unat (of_nat (length (parameter_contents_wire p)) :: u8) = length (parameter_contents_wire p)"
    by (rule unat_len_u8) (simp add: parameter_contents_wire_def)
  have "skip_parameters ((pre @ parameter_wire p) @ concat (map parameter_wire ps) @ rest) (length ps)
      (length (pre @ parameter_wire p))
    = Some (length (pre @ parameter_wire p) + length (concat (map parameter_wire ps)))"
    by (rule Cons.IH)
  then show ?case
    using l by (simp add: parameter_wire_def [of p] DECODE_U8_shift add.assoc)
qed simp

lemma skip_description_wire:
  assumes "description_valid d"
  shows "skip_description (pre @ description_wire d @ rest) (length pre)
       = Some (length pre + length (description_wire d))"
proof (cases "no_parameters d")
  case True
  then show ?thesis
    by (simp add: skip_description_def description_wire_def no_parameters_def DECODE_U8_shift numeral_3_eq_3)
next
  case False
  define c where "c = (push_bit 6 (ucast (e_bit d)) OR ucast (numberofparameters d) :: u8)"
  define b where "b = (push_bit 5 (ucast (operationcode d)) :: u8)"
  have c: "unat (c AND 0x3F) = unat (numberofparameters d)"
  proof -
    have "c AND 0x3F = ucast (numberofparameters d)"
      unfolding c_def octet_masks by (rule bit_word_eqI) (auto simp: bit_simps dest: bit_imp_le_length)
    then show ?thesis
      using unsigned_less [of "numberofparameters d", where 'a = nat]
      by (simp add: unsigned_ucast_eq take_bit_nat_eq_self)
  qed
  have flds: "ucast (drop_bit 6 c AND 1) = e_bit d" "ucast (drop_bit 5 b) = operationcode d"
    unfolding c_def b_def by (rule flow_octets)+
  have cond: "\<not> (drop_bit 6 c AND 1 = 0 \<and> drop_bit 5 b = 2)"
  proof
    assume "drop_bit 6 c AND 1 = 0 \<and> drop_bit 5 b = 2"
    with flds have "e_bit d = 0" "operationcode d = 2" by auto
    with False show False by (simp add: no_parameters_def)
  qed
  have n: "length (parameterslist d) = unat (numberofparameters d)"
    using False assms by (simp add: description_valid_def)
  have wire: "description_wire d = [ucast (qfi d), b, c] @ concat (map parameter_wire (parameterslist d))"
    using False by (simp add: description_wire_def b_def c_def)
  have "skip_parameters ((pre @ [ucast (qfi d), b, c]) @ concat (map parameter_wire (parameterslist d)) @ rest)
      (length (parameterslist d)) (length (pre @ [ucast (qfi d), b, c]))
    = Some (length (pre @ [ucast (qfi d), b, c]) + length (concat (map parameter_wire (parameterslist d))))"
    by (rule skip_parameters_wire)
  with cond c n show ?thesis
    unfolding wire by (auto simp: skip_description_def DECODE_U8_shift numeral_3_eq_3)
qed

lemma count_descriptions_wire:
  assumes "\<And>d. d \<in> set ds \<Longrightarrow> description_valid d"
    and "length pre = start + k" and "l = k + length (concat (map description_wire ds))"
  shows "count_descriptions (pre @ concat (map description_wire ds) @ rest) start l (length pre) n
       = Some (n + length ds)"
  using assms
proof (induction ds arbitrary: pre n k)
  case Nil
  then show ?case by (subst count_descriptions.simps) simp
next
  case (Cons d ds)
  have "description_wire d \<noteq> []" by (simp add: description_wire_def)
  moreover have "skip_description (pre @ description_wire d @ concat (map description_wire ds) @ rest) (length pre)
      = Some (length pre + length (description_wire d))"
    using Cons.prems by (intro skip_description_wire) simp
  moreover have "count_descriptions ((pre @ description_wire d) @ concat (map description_wire ds) @ rest) start l
      (length (pre @ description_wire d)) (n + 1) = Some (n + 1 + length ds)"
    using Cons.prems by (intro Cons.IH [of _ "k + length (description_wire d)"]) auto
  ultimately show ?case
    using Cons.prems by (subst count_descriptions.simps) simp
qed

definition qos_flow_descriptions_seen :: "QOSFlowDescriptions \<Rightarrow> QOSFlowDescriptions \<Rightarrow> QOSFlowDescriptions" where
  "qos_flow_descriptions_seen x0 x =
     x\<lparr>qosflowdescriptionscontents := map description_seen (qosflowdescriptionscontents x)\<rparr>"

lemma len16_read:
  assumes "n < 65536"
  shows "\<exists>h l. len16 (of_nat n) = [h, l] \<and> unat (push_bit 8 (ucast h) + ucast l :: u16) = n"
proof -
  define v where "v = (of_nat n :: u32)"
  have v: "unat v = n" using assms by (simp add: v_def unat_u32_of_nat)
  have div: "v div 256 = drop_bit 8 v" and mod: "v mod 256 = take_bit 8 v"
    by (simp_all add: drop_bit_eq_div take_bit_eq_mod)
  have n: "of_nat n = (ucast v :: u16)" by (simp add: v_def)
  have "push_bit 8 (ucast (ucast (v div 256) :: u8)) + ucast (ucast (v mod 256) :: u8)
      = push_bit 8 (ucast (hi8 (ucast v))) + (ucast (lo8 (ucast v)) :: u16)"
    unfolding div mod hi8_def lo8_def
    by (intro arg_cong2 [where f = plus] bit_word_eqI) (auto simp: bit_simps)
  then have "push_bit 8 (ucast (ucast (v div 256) :: u8)) + ucast (ucast (v mod 256) :: u8) = (of_nat n :: u16)"
    by (simp only: be16_plus n)
  with assms show ?thesis by (simp add: len16_def v_def unat_len_u16)
qed

lemma decode_qos_flow_descriptions_ok:
  assumes v: "qos_flow_descriptions_valid x"
  shows "decodes (\<lambda>b len. decode_qos_flow_descriptions x0 iei b len) (qos_flow_descriptions_wire x iei)
           (qos_flow_descriptions_seen x0 x)"
proof -
  define ds where "ds = qosflowdescriptionscontents x"
  define ws where "ws = concat (map description_wire ds)"
  have ok: "description_valid d" if "d \<in> set ds" for d
    using v that by (simp add: qos_flow_descriptions_valid_def ds_def list_all_iff)
  from v have bnd: "length ws < 65536"
    by (simp add: qos_flow_descriptions_valid_def ws_def ds_def descriptions_wire_def)
  have n: "length ds = unat (qosflowdescriptionsnumber x)"
    using v by (simp add: qos_flow_descriptions_valid_def ds_def)
  obtain h l where hl: "len16 (of_nat (length ws)) = [h, l]"
    "unat (push_bit 8 (ucast h) + ucast l :: u16) = length ws"
    using len16_read [OF bnd] by blast
  have wire: "qos_flow_descriptions_wire x iei = iei_wire iei @ [h, l] @ ws"
    by (simp add: qos_flow_descriptions_wire_def descriptions_wire_def ws_def ds_def hl [unfolded ws_def ds_def])
  have cnt: "count_descriptions ((iei_wire iei @ [h, l]) @ ws @ rest) (length (iei_wire iei @ [h, l])) (length ws)
      (length (iei_wire iei @ [h, l])) 0 = Some (length ds)" for rest
    using count_descriptions_wire [of ds "iei_wire iei @ [h, l]" _ 0 "length ws" rest 0] ok by (simp add: ws_def)
  have arr: "decode_array decode_description ((iei_wire iei @ [h, l]) @ ws @ rest) (length ds)
      (length (iei_wire iei @ [h, l])) = Some (map description_seen ds, length (iei_wire iei @ [h, l]) + length ws)" for rest
    unfolding ws_def by (rule dreadsD [OF dreads_array]) (rule description_dreads [OF ok])
  have seen: "qos_flow_descriptions_seen x0 x = x0\<lparr>qosflowdescriptionsnumber := qosflowdescriptionsnumber x,
      qosflowdescriptionscontents := map description_seen ds\<rparr>"
    by (cases x; cases x0) (simp add: qos_flow_descriptions_seen_def ds_def)
  show ?thesis
    unfolding decodes_def wire seen
    using cnt arr hl(2) n
    by (cases "0 < iei") (auto simp: decode_qos_flow_descriptions_def iei_wire_def check_iei_def Let_def)
qed

interpretation qos_flow: ie_codec encode_qos_flow_descriptions qos_flow_descriptions_wire
  "\<lambda>x _. qos_flow_descriptions_valid x" decode_qos_flow_descriptions qos_flow_descriptions_seen
  by unfold_locales (simp_all add: encode_qos_flow_descriptions_ok decode_qos_flow_descriptions_ok)

subsection \<open>Properties\<close>

text \<open>C27: QoS flow descriptions survive the codec: what the encoder writes at the start of the buffer, and nowhere
  else, reads back description by description, and the decoded structure can be released.\<close>

theorem qos_flow_roundtrip:
  assumes "qos_flow_descriptions_valid x" and "length (qos_flow_descriptions_wire x iei) \<le> unat len"
    and "unat len \<le> length b"
  shows "\<exists>n b' y. encode_qos_flow_descriptions x iei len (Some b) = Some (n, b') \<and>
     drop (nat n) b' = drop (nat n) b \<and> decode_qos_flow_descriptions x0 iei b' len = Some (n, y) \<and>
     y = qos_flow_descriptions_seen x0 x \<and>
     free_decode_qos_flow_descriptions y = Some (y\<lparr>qosflowdescriptionscontents := []\<rparr>)"
  using qos_flow.roundtrip [OF assms, of x0] qos_flow.encode_result [OF assms] assms(1)
  by (auto simp: free_decode_qos_flow_descriptions_def qos_flow_descriptions_seen_def qos_flow_descriptions_valid_def)

theorem qos_flow_roundtrip_witness:
  "let x = \<lparr>qosflowdescriptionsnumber = 1, qosflowdescriptionscontents =
       [\<lparr>qfi = 9, operationcode = 1, e_bit = 1, numberofparameters = 2, parameterslist =
          [zero_parameter\<lparr>parameteridentifier := 1, fiveqi := 9\<rparr>,
           zero_parameter\<lparr>parameteridentifier := 2, gfbrormfbr_uint := 6, gfbrormfbr_value := 1000\<rparr>]\<rparr>]\<rparr>;
       x0 = \<lparr>qosflowdescriptionsnumber = 0, qosflowdescriptionscontents = []\<rparr>
   in \<exists>n b' y. encode_qos_flow_descriptions x 0x79 32 (Some (replicate 32 0)) = Some (n, b') \<and>
     drop (nat n) b' = drop (nat n) (replicate 32 0) \<and> decode_qos_flow_descriptions x0 0x79 b' 32 = Some (n, y) \<and>
     y = qos_flow_descriptions_seen x0 x \<and>
     free_decode_qos_flow_descriptions y = Some (y\<lparr>qosflowdescriptionscontents := []\<rparr>)"
  unfolding Let_def
  by (rule qos_flow_roundtrip)
    (simp_all add: qos_flow_descriptions_valid_def description_valid_def descriptions_wire_def
      description_wire_def qos_flow_descriptions_wire_def no_parameters_def parameter_wire_def
      parameter_contents_wire_def is_rate_def zero_parameter_def iei_wire_def)

end
