(* ===== verification/IE_QosRules.thy ===== *)
theory IE_QosRules
  imports IE_QosFlow
begin

text \<open>
  QoS rules, \<open>QOSRules.c\<close>. A rule is an identifier, a two-octet length, an octet with the operation
  code, the DQR bit and the number of packet filters, and for some operations the packet filters, the
  precedence and the flow. The encoder takes the field \<open>lengthofqosrulesie\<close> as the number of rules,
  the decoder stores the length of the element in octets there.
\<close>

subsection \<open>Structure\<close>

record PacketFilter =
  packetfilterdirection :: "2 word"
  packetfilteridentifier :: "4 word"
  component_type :: u8
  component_value :: bstring

text \<open>The union of two pointers; reading the member that was not stored is undefined behaviour.\<close>

datatype packetfilterlist =
    NoFilters
  | ModifyAndDelete "4 word list"
  | CreateModify "PacketFilter list"

record QOSRulesIE =
  qosruleidentifer :: u8
  LengthofQoSrule :: u16
  ruleoperationcode :: "3 word"
  dqrbit :: "1 word"
  numberofpacketfilters :: "4 word"
  filterlist :: packetfilterlist
  qosruleprecedence :: u8
  segregation :: "1 word"
  qosflowidentifer :: "6 word"

record QOSRules =
  lengthofqosrulesie :: u16
  qosrulesie :: "QOSRulesIE list"

text \<open>The operation codes that carry whole packet filters: create, add, replace all.\<close>

definition carries_filters :: "u8 \<Rightarrow> bool" where
  "carries_filters opc \<longleftrightarrow> opc = 0b001 \<or> opc = 0b011 \<or> opc = 0b100"

subsection \<open>Encoder\<close>

text \<open>
  \<open>encode_result\<close> is set by \<open>encode_bstring\<close>, which returns the length of its string, and keeps its
  value from one packet filter to the next, over rules too; a match-all filter does not set it.
\<close>

definition filter_result :: "PacketFilter \<Rightarrow> nat \<Rightarrow> nat" where
  "filter_result f encode_result =
     (if component_type f \<noteq> 1 then blength (component_value f) else encode_result)"

definition filter_cmds :: "PacketFilter \<Rightarrow> nat \<Rightarrow> ecmd list" where
  "filter_cmds f encode_result =
     [ENCODE_U8 (push_bit 4 (ucast (packetfilterdirection f)) OR (ucast (packetfilteridentifier f) AND 0x0f)),
      with_lenptr 1 (\<lambda>lenPtr encoded. [of_nat (filter_result f encode_result) + 1])
        ([ENCODE_U8 (component_type f)]
         @ (if component_type f \<noteq> 1 then [call (encode_bstring (component_value f))] else []))]"

text \<open>\<open>for (j = 0; j < n; j++)\<close> over an array of filters: past its end is undefined behaviour.\<close>

fun filters_cmds :: "nat \<Rightarrow> PacketFilter list \<Rightarrow> nat \<Rightarrow> ecmd list" where
  "filters_cmds 0 fs encode_result = []"
| "filters_cmds (Suc k) [] encode_result = [\<lambda>len b e. EUndef]"
| "filters_cmds (Suc k) (f # fs) encode_result =
     filter_cmds f encode_result @ filters_cmds k fs (filter_result f encode_result)"

fun filters_result :: "nat \<Rightarrow> PacketFilter list \<Rightarrow> nat \<Rightarrow> nat" where
  "filters_result 0 fs encode_result = encode_result"
| "filters_result (Suc k) [] encode_result = encode_result"
| "filters_result (Suc k) (f # fs) encode_result = filters_result k fs (filter_result f encode_result)"

definition rule_bits :: "QOSRulesIE \<Rightarrow> u8" where
  "rule_bits r = push_bit 5 (ucast (ruleoperationcode r)) OR push_bit 4 (ucast (dqrbit r))
                 OR ucast (numberofpacketfilters r)"

definition rule_tail_cmds :: "QOSRulesIE \<Rightarrow> ecmd list" where
  "rule_tail_cmds r =
     [ENCODE_U8 (qosruleprecedence r),
      ENCODE_U8 (push_bit 6 (ucast (segregation r)) OR (ucast (qosflowidentifer r) AND 0x3f))]"

definition rule_body_cmds :: "QOSRulesIE \<Rightarrow> nat \<Rightarrow> ecmd list" where
  "rule_body_cmds r encode_result =
     (let bitstream = rule_bits r; n = unat (bitstream AND 0x0f)
      in [ENCODE_U8 bitstream]
         @ (if drop_bit 5 bitstream = 0b101 then
              concat (map (\<lambda>j. case filterlist r of
                  ModifyAndDelete ds \<Rightarrow> (if j < length ds then [ENCODE_U8 (ucast (ds ! j))] else [\<lambda>len b e. EUndef])
                | _ \<Rightarrow> [\<lambda>len b e. EUndef]) [0..<n])
              @ rule_tail_cmds r
            else if carries_filters (drop_bit 5 bitstream) then
              (case filterlist r of
                 CreateModify fs \<Rightarrow> filters_cmds n fs encode_result
               | _ \<Rightarrow> (if n = 0 then [] else [\<lambda>len b e. EUndef]))
              @ rule_tail_cmds r
            else []))"

definition rule_result :: "QOSRulesIE \<Rightarrow> nat \<Rightarrow> nat" where
  "rule_result r encode_result =
     (if drop_bit 5 (rule_bits r) \<noteq> 0b101 \<and> carries_filters (drop_bit 5 (rule_bits r)) then
        (case filterlist r of
           CreateModify fs \<Rightarrow> filters_result (unat (rule_bits r AND 0x0f)) fs encode_result
         | _ \<Rightarrow> encode_result)
      else encode_result)"

text \<open>
  The length of a rule is \<open>encoded - len_pos_qos_rule\<close>, where the position after the length field is
  kept in a \<open>uint8_t\<close>.
\<close>

definition u8_pos_length :: "nat \<Rightarrow> nat \<Rightarrow> u8 list" where
  "u8_pos_length pos encoded =
     (let l = (ucast (of_nat encoded - ucast (of_nat pos :: u8) :: u32) :: u16) in [hi8 l, lo8 l])"

fun rules_cmds :: "nat \<Rightarrow> QOSRulesIE list \<Rightarrow> nat \<Rightarrow> ecmd list" where
  "rules_cmds 0 rs encode_result = []"
| "rules_cmds (Suc k) [] encode_result = [\<lambda>len b e. EUndef]"
| "rules_cmds (Suc k) (r # rs) encode_result =
     [ENCODE_U8 (qosruleidentifer r),
      with_lenptr 2 (\<lambda>lenPtr encoded. u8_pos_length (lenPtr + 2) encoded) (rule_body_cmds r encode_result)]
     @ rules_cmds k rs (rule_result r encode_result)"

definition encode_qos_rules :: "QOSRules \<Rightarrow> u8 \<Rightarrow> encoder" where
  "encode_qos_rules x iei =
     encoder_body (if iei > 0 then 7 else 6)
       [put_iei iei,
        with_lenptr 2 (\<lambda>lenPtr encoded. u8_pos_length (lenPtr + 2) encoded)
          (rules_cmds (unat (lengthofqosrulesie x)) (qosrulesie x) 0)]"

subsection \<open>Decoder\<close>

text \<open>An early return inside the loops is \<open>Inl\<close> of its code; \<open>None\<close> is a read outside the block.\<close>

definition decode_filter :: "mem \<Rightarrow> u32 \<Rightarrow> nat \<Rightarrow> (int + PacketFilter \<times> nat) option" where
  "decode_filter buffer len decoded = do {
     b \<leftarrow> DECODE_U8 buffer decoded;
     l \<leftarrow> DECODE_U8 buffer (decoded + 1);
     let lenghtofpacketfiltercontents = l - 1;
     t \<leftarrow> DECODE_U8 buffer (decoded + 2);
     let f = \<lparr>packetfilterdirection = ucast (drop_bit 4 b AND 0x03), packetfilteridentifier = ucast (b AND 0x0f),
              component_type = t, component_value = None\<rparr>;
     let decoded = decoded + 3;
     if t \<noteq> 1 then do {
       (decode_result, s) \<leftarrow>
         decode_bstring None (ucast lenghtofpacketfiltercontents) (Some (drop decoded buffer)) (len - of_nat decoded);
       if decode_result < 0 then Some (Inl decode_result)
       else Some (Inr (f\<lparr>component_value := s\<rparr>, decoded + nat decode_result)) }
     else Some (Inr (f, decoded)) }"

primrec decode_filters :: "mem \<Rightarrow> u32 \<Rightarrow> nat \<Rightarrow> nat \<Rightarrow> (int + PacketFilter list \<times> nat) option" where
  "decode_filters buffer len 0 decoded = Some (Inr ([], decoded))"
| "decode_filters buffer len (Suc k) decoded =
     (case decode_filter buffer len decoded of
        None \<Rightarrow> None
      | Some (Inl r) \<Rightarrow> Some (Inl r)
      | Some (Inr (f, decoded)) \<Rightarrow>
          (case decode_filters buffer len k decoded of
             None \<Rightarrow> None
           | Some (Inl r) \<Rightarrow> Some (Inl r)
           | Some (Inr (fs, decoded)) \<Rightarrow> Some (Inr (f # fs, decoded))))"

definition decode_filter_identifier :: "mem \<Rightarrow> nat \<Rightarrow> (4 word \<times> nat) option" where
  "decode_filter_identifier buffer decoded = do {
     b \<leftarrow> DECODE_U8 buffer decoded;
     Some (ucast (b AND 0x0f), decoded + 1) }"

text \<open>Precedence and flow, after the packet filters.\<close>

definition decode_rule_tail :: "mem \<Rightarrow> QOSRulesIE \<Rightarrow> nat \<Rightarrow> (int + QOSRulesIE \<times> nat) option" where
  "decode_rule_tail buffer r decoded = do {
     a \<leftarrow> DECODE_U8 buffer decoded;
     b \<leftarrow> DECODE_U8 buffer (decoded + 1);
     Some (Inr (r\<lparr>qosruleprecedence := a, segregation := ucast (drop_bit 6 b AND 0x01),
                 qosflowidentifer := ucast (b AND 0x3f)\<rparr>, decoded + 2)) }"

definition decode_rule :: "mem \<Rightarrow> u32 \<Rightarrow> nat \<Rightarrow> (int + QOSRulesIE \<times> nat) option" where
  "decode_rule buffer len decoded = do {
     ident \<leftarrow> DECODE_U8 buffer decoded;
     l \<leftarrow> DECODE_U16 buffer (decoded + 1);
     bitstream \<leftarrow> DECODE_U8 buffer (decoded + 3);
     let r = \<lparr>qosruleidentifer = ident, LengthofQoSrule = l, ruleoperationcode = ucast (drop_bit 5 bitstream),
              dqrbit = ucast (drop_bit 4 bitstream AND 0x01), numberofpacketfilters = ucast (bitstream AND 0x0f),
              filterlist = NoFilters, qosruleprecedence = 0, segregation = 0, qosflowidentifer = 0\<rparr>;
     let n = unat (numberofpacketfilters r);
     let decoded = decoded + 4;
     if ruleoperationcode r = 0b101 then do {
       (ds, decoded) \<leftarrow> decode_array decode_filter_identifier buffer n decoded;
       decode_rule_tail buffer (r\<lparr>filterlist := ModifyAndDelete ds\<rparr>) decoded }
     else if carries_filters (ucast (ruleoperationcode r)) then
       (case decode_filters buffer len n decoded of
          None \<Rightarrow> None
        | Some (Inl code) \<Rightarrow> Some (Inl code)
        | Some (Inr (fs, decoded)) \<Rightarrow> decode_rule_tail buffer (r\<lparr>filterlist := CreateModify fs\<rparr>) decoded)
     else Some (Inr (r, decoded)) }"

lemma decode_filter_less: "decode_filter buffer len d = Some (Inr (f, d')) \<Longrightarrow> d < d'"
  by (auto simp: decode_filter_def Let_def split: bind_splits if_splits)

lemma decode_filters_le: "decode_filters buffer len k d = Some (Inr (fs, d')) \<Longrightarrow> d \<le> d'"
  by (induction k arbitrary: d fs) (fastforce split: option.splits sum.splits dest: decode_filter_less)+

lemma decode_identifiers_le: "decode_array decode_filter_identifier buffer k d = Some (fs, d') \<Longrightarrow> d \<le> d'"
  by (induction k arbitrary: d fs)
    (auto simp: decode_filter_identifier_def split: bind_splits, fastforce)

lemma decode_rule_tail_less: "decode_rule_tail buffer r d = Some (Inr (r', d')) \<Longrightarrow> d < d'"
  by (auto simp: decode_rule_tail_def split: bind_splits)

lemma decode_rule_less: "decode_rule buffer len d = Some (Inr (r, d')) \<Longrightarrow> d < d'"
  by (auto simp: decode_rule_def Let_def split: bind_splits if_splits option.splits sum.splits
      dest!: decode_filters_le decode_identifiers_le decode_rule_tail_less)

text \<open>
  \<open>while (decoded < qosrules->lengthofqosrulesie)\<close>: \<open>decoded\<close> counts from the start of the element,
  the bound from the end of its header.
\<close>

function decode_rules_loop :: "mem \<Rightarrow> u32 \<Rightarrow> nat \<Rightarrow> nat \<Rightarrow> (int + QOSRulesIE list \<times> nat) option" where
  "decode_rules_loop buffer len bound decoded =
     (if decoded < bound then
        (case decode_rule buffer len decoded of
           None \<Rightarrow> None
         | Some (Inl code) \<Rightarrow> Some (Inl code)
         | Some (Inr (r, decoded')) \<Rightarrow>
             (case decode_rules_loop buffer len bound decoded' of
                None \<Rightarrow> None
              | Some (Inl code) \<Rightarrow> Some (Inl code)
              | Some (Inr (rs, decoded')) \<Rightarrow> Some (Inr (r # rs, decoded'))))
      else Some (Inr ([], decoded)))"
  by pat_completeness auto

termination
  by (relation "measure (\<lambda>(b, len, bound, d). bound - d)") (auto dest: decode_rule_less)

declare decode_rules_loop.simps [simp del]

text \<open>The rules are read twice: once for their number, once into the array of that size.\<close>

definition decode_qos_rules :: "QOSRules \<Rightarrow> u8 \<Rightarrow> mem \<Rightarrow> u32 \<Rightarrow> (int \<times> QOSRules) option" where
  "decode_qos_rules x iei buffer len =
     check_iei iei buffer x (\<lambda>decoded. do {
       l \<leftarrow> DECODE_U16 buffer decoded;
       let x = x\<lparr>lengthofqosrulesie := l\<rparr>;
       let decoded = decoded + 2;
       check_length (len - of_nat decoded) (ucast l) x
         (case decode_rules_loop buffer len (unat l) decoded of
            None \<Rightarrow> None
          | Some (Inl code) \<Rightarrow> Some (code, x)
          | Some (Inr _) \<Rightarrow>
              (case decode_rules_loop buffer len (unat l) decoded of
                 None \<Rightarrow> None
               | Some (Inl code) \<Rightarrow> Some (code, x)
               | Some (Inr (rs, decoded')) \<Rightarrow> Some (int decoded', x\<lparr>qosrulesie := rs\<rparr>))) })"

text \<open>
  \<open>free_decode_qos_rules\<close> runs over \<open>lengthofqosrulesie\<close> entries of the array; past its end is
  undefined behaviour.
\<close>

definition free_decode_qos_rules :: "QOSRules \<Rightarrow> QOSRules option" where
  "free_decode_qos_rules x =
     (if length (qosrulesie x) < unat (lengthofqosrulesie x) then None else Some (x\<lparr>qosrulesie := []\<rparr>))"

subsection \<open>What the encoder writes\<close>

definition filter_wire :: "PacketFilter \<Rightarrow> nat \<Rightarrow> u8 list" where
  "filter_wire f encode_result =
     [push_bit 4 (ucast (packetfilterdirection f)) OR (ucast (packetfilteridentifier f) AND 0x0f),
      of_nat (filter_result f encode_result) + 1, component_type f]
     @ (if component_type f \<noteq> 1 then bstr (component_value f) else [])"

primrec filters_wire :: "PacketFilter list \<Rightarrow> nat \<Rightarrow> u8 list" where
  "filters_wire [] encode_result = []"
| "filters_wire (f # fs) encode_result = filter_wire f encode_result @ filters_wire fs (filter_result f encode_result)"

definition rule_tail_wire :: "QOSRulesIE \<Rightarrow> u8 list" where
  "rule_tail_wire r =
     [qosruleprecedence r, push_bit 6 (ucast (segregation r)) OR (ucast (qosflowidentifer r) AND 0x3f)]"

definition rule_body_wire :: "QOSRulesIE \<Rightarrow> nat \<Rightarrow> u8 list" where
  "rule_body_wire r encode_result =
     rule_bits r #
     (if ruleoperationcode r = 0b101 then
        (case filterlist r of ModifyAndDelete ds \<Rightarrow> map ucast ds | _ \<Rightarrow> []) @ rule_tail_wire r
      else if carries_filters (ucast (ruleoperationcode r)) then
        (case filterlist r of CreateModify fs \<Rightarrow> filters_wire fs encode_result | _ \<Rightarrow> []) @ rule_tail_wire r
      else [])"

text \<open>
  The length written for a rule of which the contents, \<open>n\<close> octets, start at position \<open>pos\<close> of the element: the position
  is kept in a \<open>uint8_t\<close>, and the length grows by what is lost there.
\<close>

definition rule_length :: "nat \<Rightarrow> nat \<Rightarrow> u16" where
  "rule_length pos n = of_nat n + of_nat (256 * (pos div 256))"

definition rule_wire :: "QOSRulesIE \<Rightarrow> nat \<Rightarrow> nat \<Rightarrow> u8 list" where
  "rule_wire r encode_result pos =
     (let body = rule_body_wire r encode_result; l = rule_length (pos + 3) (length body)
      in qosruleidentifer r # hi8 l # lo8 l # body)"

primrec rules_wire :: "QOSRulesIE list \<Rightarrow> nat \<Rightarrow> nat \<Rightarrow> u8 list" where
  "rules_wire [] encode_result pos = []"
| "rules_wire (r # rs) encode_result pos =
     rule_wire r encode_result pos
     @ rules_wire rs (rule_result r encode_result) (pos + length (rule_wire r encode_result pos))"

definition qos_rules_wire :: "QOSRules \<Rightarrow> u8 \<Rightarrow> u8 list" where
  "qos_rules_wire x iei =
     (let body = rules_wire (qosrulesie x) 0 (length (iei_wire iei) + 2)
      in iei_wire iei @ hi8 (of_nat (length body)) # lo8 (of_nat (length body)) # body)"

text \<open>
  A rule whose filter list has the shape and the length its header announces, and as many rules as the two octets of
  the length of the element have room for.
\<close>

definition rule_valid :: "QOSRulesIE \<Rightarrow> bool" where
  "rule_valid r =
     (if ruleoperationcode r = 0b101 then
        (case filterlist r of ModifyAndDelete ds \<Rightarrow> length ds = unat (numberofpacketfilters r) | _ \<Rightarrow> False)
      else if carries_filters (ucast (ruleoperationcode r)) then
        (case filterlist r of CreateModify fs \<Rightarrow> length fs = unat (numberofpacketfilters r) | _ \<Rightarrow> False)
      else True)"

definition qos_rules_fit :: "QOSRules \<Rightarrow> bool" where
  "qos_rules_fit x \<longleftrightarrow>
     qosrulesie x \<noteq> [] \<and> length (qosrulesie x) = unat (lengthofqosrulesie x) \<and>
     list_all rule_valid (qosrulesie x) \<and> length (rules_wire (qosrulesie x) 0 0) < 65536"

lemma rule_bits_fields [simp]:
  "drop_bit 5 (rule_bits r) = ucast (ruleoperationcode r)"
  "rule_bits r AND 0x0F = ucast (numberofpacketfilters r)"
  "ucast (drop_bit 4 (rule_bits r) AND 1) = dqrbit r"
  unfolding rule_bits_def octet_masks
  by (rule bit_word_eqI; auto simp: bit_simps dest: bit_imp_le_length)+

lemma unat_ucast_4 [simp]: "unat (ucast (n :: 4 word) :: u8) = unat n"
  using unsigned_less [of n, where 'a = nat] by (simp add: unsigned_ucast_eq take_bit_nat_eq_self)

lemma ucast_ucast_3 [simp]: "ucast (ucast (n :: 3 word) :: u8) = n"
  by (rule ucast3_ucast8)

lemma ucast_ucast_4 [simp]: "ucast (ucast (n :: 4 word) :: u8) = n"
  by (rule bit_word_eqI) (auto simp: bit_simps)

lemma opcode5 [simp]: "(ucast (c :: 3 word) = (5 :: u8)) = (c = 5)"
proof
  assume "ucast c = (5 :: u8)"
  then have "(ucast (ucast c :: u8) :: 3 word) = ucast (5 :: u8)" by (rule arg_cong)
  then show "c = 5" unfolding ucast3_ucast8 by simp
qed simp

lemma filter_emits: "emits e (filter_cmds f k) (filter_wire f k)"
proof -
  let ?b = "push_bit 4 (ucast (packetfilterdirection f)) OR (ucast (packetfilteridentifier f) AND 0x0f) :: u8"
  let ?l = "\<lambda>(lenPtr :: nat) (encoded :: nat). [of_nat (filter_result f k) + 1 :: u8]"
  let ?v = "([component_type f] @ []) @ (if component_type f \<noteq> 1 then bstr (component_value f) @ [] else [])"
  have "emits1 e' (with_lenptr 1 ?l ([ENCODE_U8 (component_type f)]
          @ (if component_type f \<noteq> 1 then [call (encode_bstring (component_value f))] else [])))
        (?l e' (e' + 1 + length ?v) @ ?v)" for e'
    by (intro emits_with_lenptr emits_append emits_if emits_Cons emits_U8 emits_Nil emits_call encodes_bstring)
      simp
  then have "emits e (filter_cmds f k) ([?b] @ (?l 0 0 @ ?v) @ [])"
    unfolding filter_cmds_def by (intro emits_Cons emits_U8 emits_Nil) simp
  then show ?thesis by (simp add: filter_wire_def cong: if_cong)
qed

lemma filters_emits: "emits e (filters_cmds (length fs) fs k) (filters_wire fs k)"
  by (induction fs arbitrary: e k) (auto intro: emits_Nil emits_append filter_emits)

lemma rule_tail_emits: "emits e (rule_tail_cmds r) (rule_tail_wire r)"
proof -
  have "emits e (rule_tail_cmds r) ([qosruleprecedence r]
      @ [push_bit 6 (ucast (segregation r)) OR (ucast (qosflowidentifer r) AND 0x3f)] @ [])"
    unfolding rule_tail_cmds_def by (intro emits_Cons emits_U8 emits_Nil)
  then show ?thesis by (simp add: rule_tail_wire_def)
qed

lemma identifiers_cmds:
  "concat (map (\<lambda>j. if j < length ds then [ENCODE_U8 (ucast (ds ! j))] else [\<lambda>len b e. EUndef]) [0..<length ds])
     = map (\<lambda>d. ENCODE_U8 (ucast d)) ds"
proof -
  have "map (\<lambda>j. if j < length ds then [ENCODE_U8 (ucast (ds ! j))] else [\<lambda>len b e. EUndef]) [0..<length ds]
      = map (\<lambda>d. [ENCODE_U8 (ucast d)]) ds"
    by (rule nth_equalityI) simp_all
  then have "concat (map (\<lambda>j. if j < length ds then [ENCODE_U8 (ucast (ds ! j))] else [\<lambda>len b e. EUndef]) [0..<length ds])
      = concat (map (\<lambda>d. [ENCODE_U8 (ucast d)]) ds)" by simp
  then show ?thesis by simp
qed

lemma identifiers_emits: "emits e (map (\<lambda>d. ENCODE_U8 (ucast d)) ds) (map ucast ds)"
proof (induction ds arbitrary: e)
  case (Cons d ds)
  have "emits e (ENCODE_U8 (ucast d) # map (\<lambda>d. ENCODE_U8 (ucast d)) ds) ([ucast d] @ map ucast ds)"
    by (intro emits_Cons emits_U8 Cons.IH)
  then show ?case by simp
qed (simp add: emits_Nil)

lemma rule_body_emits:
  assumes "rule_valid r"
  shows "emits e (rule_body_cmds r k) (rule_body_wire r k)"
proof -
  consider ds where "ruleoperationcode r = 5" "filterlist r = ModifyAndDelete ds"
      "length ds = unat (numberofpacketfilters r)"
    | fs where "ruleoperationcode r \<noteq> 5" "carries_filters (ucast (ruleoperationcode r))"
      "filterlist r = CreateModify fs" "length fs = unat (numberofpacketfilters r)"
    | "ruleoperationcode r \<noteq> 5" "\<not> carries_filters (ucast (ruleoperationcode r))"
    using assms by (auto simp: rule_valid_def split: if_splits packetfilterlist.splits)
  then show ?thesis
  proof cases
    case 1
    have "emits e ([ENCODE_U8 (rule_bits r)] @ map (\<lambda>d. ENCODE_U8 (ucast d)) ds @ rule_tail_cmds r)
        (([rule_bits r] @ []) @ map ucast ds @ rule_tail_wire r)"
      by (intro emits_append emits_Cons emits_U8 emits_Nil identifiers_emits rule_tail_emits)
    with 1 identifiers_cmds [of ds] show ?thesis
      by (simp add: rule_body_cmds_def rule_body_wire_def Let_def)
  next
    case 2
    have "emits e ([ENCODE_U8 (rule_bits r)] @ filters_cmds (length fs) fs k @ rule_tail_cmds r)
        (([rule_bits r] @ []) @ filters_wire fs k @ rule_tail_wire r)"
      by (intro emits_append emits_Cons emits_U8 emits_Nil filters_emits rule_tail_emits)
    with 2 show ?thesis by (simp add: rule_body_cmds_def rule_body_wire_def Let_def)
  next
    case 3
    then show ?thesis
      using emits_single [OF emits_U8, of e "rule_bits r"]
      by (simp add: rule_body_cmds_def rule_body_wire_def Let_def)
  qed
qed


lemma rule_length_small [simp]: "pos < 256 \<Longrightarrow> rule_length pos n = of_nat n"
  by (simp add: rule_length_def)

lemma u8_pos_length: "u8_pos_length pos (pos + n) = [hi8 (rule_length pos n), lo8 (rule_length pos n)]"
proof -
  have "(ucast (of_nat pos :: u8) :: u32) = of_nat (pos mod 256)"
    by (simp add: unsigned_of_nat take_bit_eq_mod)
  moreover have "pos + n = n + 256 * (pos div 256) + pos mod 256" by simp
  ultimately have "(of_nat (pos + n) - ucast (of_nat pos :: u8) :: u32) = of_nat (n + 256 * (pos div 256))"
    by (metis add_diff_cancel_right' of_nat_add)
  then show ?thesis by (simp add: u8_pos_length_def rule_length_def Let_def del: of_nat_add of_nat_mult flip: of_nat_add)
qed

lemma length_filters_wire: "length (filters_wire fs k) = length (filters_wire fs j)"
  by (induction fs arbitrary: k j) (auto simp: filter_wire_def)

lemma length_rule_body_wire: "length (rule_body_wire r k) = length (rule_body_wire r 0)"
  by (auto simp: rule_body_wire_def split: packetfilterlist.splits intro: length_filters_wire)

lemma length_rule_wire: "length (rule_wire r k pos) = 3 + length (rule_body_wire r 0)"
  using length_rule_body_wire [of r k] by (simp add: rule_wire_def Let_def)

lemma four_octets: "4 \<le> length (rule_wire r k pos)"
  unfolding length_rule_wire by (simp add: rule_body_wire_def Let_def)

lemma length_rules_wire: "length (rules_wire rs k pos) = (\<Sum>r \<leftarrow> rs. 3 + length (rule_body_wire r 0))"
  by (induction rs arbitrary: k pos) (simp_all add: length_rule_wire)

lemma length_rules_wire_zero: "length (rules_wire rs k pos) = length (rules_wire rs 0 0)"
  by (simp only: length_rules_wire)

lemma rule_emits:
  assumes "rule_valid r"
  shows "emits e [ENCODE_U8 (qosruleidentifer r),
      with_lenptr 2 (\<lambda>lenPtr encoded. u8_pos_length (lenPtr + 2) encoded) (rule_body_cmds r k)] (rule_wire r k e)"
proof -
  let ?body = "rule_body_wire r k"
  have "emits1 (e + 1) (with_lenptr 2 (\<lambda>lenPtr encoded. u8_pos_length (lenPtr + 2) encoded) (rule_body_cmds r k))
      (u8_pos_length (e + 1 + 2) (e + 1 + 2 + length ?body) @ ?body)"
    by (rule emits_with_lenptr, rule rule_body_emits [OF assms(1)]) (simp add: u8_pos_length_def Let_def)
  then have "emits e [ENCODE_U8 (qosruleidentifer r),
      with_lenptr 2 (\<lambda>lenPtr encoded. u8_pos_length (lenPtr + 2) encoded) (rule_body_cmds r k)]
      ([qosruleidentifer r] @ (u8_pos_length (e + 1 + 2) (e + 1 + 2 + length ?body) @ ?body) @ [])"
    by (intro emits_Cons emits_U8 emits_Nil) simp
  then show ?thesis unfolding u8_pos_length by (simp add: rule_wire_def Let_def numeral_eq_Suc)
qed

lemma rules_emits: "list_all rule_valid rs \<Longrightarrow> emits e (rules_cmds (length rs) rs k) (rules_wire rs k e)"
proof (induction rs arbitrary: e k)
  case (Cons r rs)
  then show ?case
    by (simp only: list.size rules_cmds.simps rules_wire.simps add_0_right add_Suc_right)
      (intro emits_append rule_emits Cons.IH, auto)
qed (simp add: emits_Nil)

lemma encode_qos_rules_fit:
  assumes "qos_rules_fit x"
  shows "encodes (encode_qos_rules x iei) (qos_rules_wire x iei)"
proof -
  define w where "w = rules_wire (qosrulesie x) 0 (length (iei_wire iei) + 2)"
  have wire: "qos_rules_wire x iei = iei_wire iei @ hi8 (of_nat (length w)) # lo8 (of_nat (length w)) # w"
    by (simp add: qos_rules_wire_def Let_def w_def)
  have n: "unat (lengthofqosrulesie x) = length (qosrulesie x)"
    using assms by (simp add: qos_rules_fit_def)
  obtain r rs where "qosrulesie x = r # rs"
    using assms by (cases "qosrulesie x") (auto simp: qos_rules_fit_def)
  then have four: "4 \<le> length w" using four_octets [of r 0 "length (iei_wire iei) + 2"] by (simp add: w_def)
  have len1: "length (iei_wire iei) \<le> 1" by (simp add: length_iei_wire)
  have body: "emits (length (iei_wire iei) + 2) (rules_cmds (length (qosrulesie x)) (qosrulesie x) 0) w"
    unfolding w_def using assms by (intro rules_emits) (simp add: qos_rules_fit_def)
  have l: "u8_pos_length (length (iei_wire iei) + 2) (length (iei_wire iei) + 2 + length w)
      = [hi8 (of_nat (length w)), lo8 (of_nat (length w))]"
    using len1 by (simp only: u8_pos_length) simp
  have lenptr: "emits1 (0 + length (iei_wire iei))
      (with_lenptr 2 (\<lambda>lenPtr encoded. u8_pos_length (lenPtr + 2) encoded)
        (rules_cmds (length (qosrulesie x)) (qosrulesie x) 0))
      (u8_pos_length (length (iei_wire iei) + 2) (length (iei_wire iei) + 2 + length w) @ w)"
    unfolding add_0 by (rule emits_with_lenptr, rule body) (simp add: u8_pos_length_def Let_def)
  show ?thesis
    unfolding encode_qos_rules_def n
    by (rule encodes_body, rule emits_Cons, rule emits_put_iei, rule emits_Cons, rule lenptr, rule emits_Nil)
      (use four l in \<open>simp_all add: wire length_iei_wire\<close>)
qed

subsection \<open>What the decoder reads back\<close>

definition sreads :: "(mem \<Rightarrow> u32 \<Rightarrow> nat \<Rightarrow> (int + 'a \<times> nat) option) \<Rightarrow> u8 list \<Rightarrow> 'a \<Rightarrow> bool" where
  "sreads dec bs x \<longleftrightarrow>
     (\<forall>pre rest len. length pre + length bs \<le> unat len \<longrightarrow>
        dec (pre @ bs @ rest) len (length pre) = Some (Inr (x, length pre + length bs)))"

lemma sreadsD:
  "sreads dec bs x \<Longrightarrow> length pre + length bs \<le> unat len \<Longrightarrow>
   dec (pre @ bs @ rest) len (length pre) = Some (Inr (x, length pre + length bs))"
  by (simp add: sreads_def)

definition filter_seen :: "PacketFilter \<Rightarrow> PacketFilter" where
  "filter_seen f = f\<lparr>component_value :=
     (if component_type f \<noteq> 1 then Some (bstr (component_value f)) else None)\<rparr>"

definition filter_valid :: "PacketFilter \<Rightarrow> bool" where
  "filter_valid f \<longleftrightarrow> component_type f = 1 \<or> length (bstr (component_value f)) < 255"

lemma filter_octets:
  "ucast (drop_bit 4 (push_bit 4 (ucast (d :: 2 word)) OR (ucast (i :: 4 word) AND 0x0F) :: u8) AND 3) = d"
  "ucast ((push_bit 4 (ucast (d :: 2 word)) OR (ucast (i :: 4 word) AND 0x0F) :: u8) AND 0x0F) = i"
  unfolding octet_masks by (rule bit_word_eqI; auto simp: bit_simps dest: bit_imp_le_length)+

lemma filter_sreads:
  assumes "filter_valid f"
  shows "sreads decode_filter (filter_wire f k) (filter_seen f)"
proof -
  define b where "b = (push_bit 4 (ucast (packetfilterdirection f)) OR (ucast (packetfilteridentifier f) AND 0x0F) :: u8)"
  have b: "ucast (drop_bit 4 b AND 3) = packetfilterdirection f" "ucast (b AND 0x0F) = packetfilteridentifier f"
    unfolding b_def by (rule filter_octets)+
  define l where "l = (of_nat (filter_result f k) + 1 :: u8)"
  define s where "s = bstr (component_value f)"
  show ?thesis
  proof (cases "component_type f = 1")
    case True
    then have wire: "filter_wire f k = [b, l, 1]"
      by (simp add: filter_wire_def b_def l_def)
    show ?thesis unfolding sreads_def wire using b True
      by (cases f) (simp add: decode_filter_def DECODE_U8_shift filter_seen_def)
  next
    case False
    with assms have s: "length s < 255" by (simp add: filter_valid_def s_def)
    have "unat (ucast (l - 1) :: u16) = length s"
      using False s by (simp add: l_def filter_result_def s_def unat_len_u8)
    then have r: "decode_bstring s0 (ucast (l - 1)) (Some (s @ rest)) (len - of_nat d) = Some (int (length s), Some s)"
      if "d + length s \<le> unat len" for s0 rest d len
      using bstring_read [of s "ucast (l - 1)" d len s0 rest] that by simp
    have dec: "decode_filter (pre @ ([b, l, component_type f] @ s) @ rest) len (length pre)
        = Some (Inr (filter_seen f, length pre + length ([b, l, component_type f] @ s)))"
      if len: "length pre + (3 + length s) \<le> unat len" for pre rest len
      using False b r [of "length pre + 3" len] len
      by (cases f) (simp add: decode_filter_def DECODE_U8_shift filter_seen_def s_def)
    have wire: "filter_wire f k = [b, l, component_type f] @ s"
      using False by (simp add: filter_wire_def b_def l_def s_def)
    show ?thesis
      unfolding sreads_def wire using dec by simp
  qed
qed

lemma filters_sreads:
  assumes "\<And>f. f \<in> set fs \<Longrightarrow> filter_valid f"
  shows "sreads (\<lambda>b l d. decode_filters b l (length fs) d) (filters_wire fs k) (map filter_seen fs)"
  using assms
proof (induction fs arbitrary: k)
  case Nil
  then show ?case by (simp add: sreads_def)
next
  case (Cons f fs)
  let ?v = "filter_wire f k" and ?w = "filters_wire fs (filter_result f k)"
  have "decode_filters (pre @ (?v @ ?w) @ rest) len (length (f # fs)) (length pre)
      = Some (Inr (map filter_seen (f # fs), length pre + length (?v @ ?w)))"
    if len: "length pre + length (?v @ ?w) \<le> unat len" for pre rest len
  proof -
    have "decode_filter (pre @ ?v @ ?w @ rest) len (length pre) = Some (Inr (filter_seen f, length pre + length ?v))"
      using Cons.prems len by (intro sreadsD [OF filter_sreads]) auto
    moreover have "decode_filters ((pre @ ?v) @ ?w @ rest) len (length fs) (length (pre @ ?v))
        = Some (Inr (map filter_seen fs, length (pre @ ?v) + length ?w))"
      using Cons.prems len
      by (intro sreadsD [of "\<lambda>b l d. decode_filters b l (length fs) d", OF Cons.IH]) auto
    ultimately show ?thesis by (simp add: add.assoc)
  qed
  then show ?case unfolding sreads_def filters_wire.simps by blast
qed

text \<open>
  What a rule at position \<open>pos\<close> of the element looks like when it is read: the fields its operation carries, the
  rest zero, and the length that was written for that position.
\<close>

definition has_tail :: "QOSRulesIE \<Rightarrow> bool" where
  "has_tail r \<longleftrightarrow> ruleoperationcode r = 0b101 \<or> carries_filters (ucast (ruleoperationcode r))"

definition rule_seen :: "nat \<Rightarrow> QOSRulesIE \<Rightarrow> QOSRulesIE" where
  "rule_seen pos r =
     r\<lparr>LengthofQoSrule := rule_length (pos + 3) (length (rule_body_wire r 0)),
       filterlist := (if has_tail r then
           (case filterlist r of CreateModify fs \<Rightarrow> CreateModify (map filter_seen fs) | fl \<Rightarrow> fl) else NoFilters),
       qosruleprecedence := (if has_tail r then qosruleprecedence r else 0),
       segregation := (if has_tail r then segregation r else 0),
       qosflowidentifer := (if has_tail r then qosflowidentifer r else 0)\<rparr>"

primrec rules_seen :: "nat \<Rightarrow> QOSRulesIE list \<Rightarrow> QOSRulesIE list" where
  "rules_seen pos [] = []"
| "rules_seen pos (r # rs) = rule_seen pos r # rules_seen (pos + length (rule_wire r 0 pos)) rs"

definition filters_valid :: "QOSRulesIE \<Rightarrow> bool" where
  "filters_valid r = (case filterlist r of CreateModify fs \<Rightarrow> list_all filter_valid fs | _ \<Rightarrow> True)"

lemma identifiers_dreads:
  "dreads (\<lambda>b d. decode_array decode_filter_identifier b (length ds) d) (map ucast ds) ds"
proof -
  have "dreads (\<lambda>b d. decode_array decode_filter_identifier b (length ds) d)
      (concat (map (\<lambda>d. [ucast d]) ds)) (map (\<lambda>d. d) ds)"
  proof (rule dreads_array)
    fix x :: "4 word"
    have "ucast (ucast x AND 0x0F :: u8) = x"
      unfolding octet_masks by (rule bit_word_eqI) (auto simp: bit_simps)
    then show "dreads decode_filter_identifier [ucast x] x"
      by (simp add: dreads_def decode_filter_identifier_def)
  qed
  then show ?thesis by (simp add: concat_map_singleton)
qed

lemma tail_octets:
  "ucast (drop_bit 6 (push_bit 6 (ucast (s :: 1 word)) OR (ucast (q :: 6 word) AND 0x3F) :: u8) AND 1) = s"
  "ucast ((push_bit 6 (ucast (s :: 1 word)) OR (ucast (q :: 6 word) AND 0x3F) :: u8) AND 0x3F) = q"
  unfolding octet_masks by (rule bit_word_eqI; auto simp: bit_simps dest: bit_imp_le_length)+

lemma rule_tail_read:
  "decode_rule_tail (pre @ rule_tail_wire r @ rest) r' (length pre)
     = Some (Inr (r'\<lparr>qosruleprecedence := qosruleprecedence r, segregation := segregation r,
                    qosflowidentifer := qosflowidentifer r\<rparr>, length pre + 2))"
  by (simp add: decode_rule_tail_def rule_tail_wire_def DECODE_U8_shift tail_octets [simplified])

lemma rule_sreads:
  assumes "rule_valid r" and "filters_valid r"
  shows "sreads decode_rule (rule_wire r k pos) (rule_seen pos r)"
proof -
  define L where "L = rule_length (pos + 3) (length (rule_body_wire r 0))"
  have L: "rule_length (pos + 3) (length (rule_body_wire r k)) = L"
    using length_rule_body_wire [of r k] by (simp only: L_def)
  define hd where "hd = [qosruleidentifer r, hi8 L, lo8 L, rule_bits r]"
  define r0 where "r0 = r\<lparr>LengthofQoSrule := L, filterlist := NoFilters, qosruleprecedence := 0,
     segregation := 0, qosflowidentifer := 0\<rparr>"
  have open_rule: "decode_rule (pre @ hd @ rest) len (length pre) =
      (if ruleoperationcode r = 0b101 then do {
         (ds, decoded) \<leftarrow> decode_array decode_filter_identifier (pre @ hd @ rest)
            (unat (numberofpacketfilters r)) (length (pre @ hd));
         decode_rule_tail (pre @ hd @ rest) (r0\<lparr>filterlist := ModifyAndDelete ds\<rparr>) decoded }
       else if carries_filters (ucast (ruleoperationcode r)) then
         (case decode_filters (pre @ hd @ rest) len (unat (numberofpacketfilters r)) (length (pre @ hd)) of
            None \<Rightarrow> None
          | Some (Inl code) \<Rightarrow> Some (Inl code)
          | Some (Inr (fs, decoded)) \<Rightarrow>
              decode_rule_tail (pre @ hd @ rest) (r0\<lparr>filterlist := CreateModify fs\<rparr>) decoded)
       else Some (Inr (r0, length (pre @ hd))))" for pre rest len
  proof -
    have four: "length pre + 4 = length (pre @ hd)" by (simp add: hd_def)
    have new: "\<lparr>qosruleidentifer = qosruleidentifer r, LengthofQoSrule = L,
        ruleoperationcode = ruleoperationcode r, dqrbit = dqrbit r, numberofpacketfilters = numberofpacketfilters r,
        filterlist = NoFilters, qosruleprecedence = 0, segregation = 0, qosflowidentifer = 0\<rparr> = r0"
      by (cases r) (simp add: r0_def)
    have rd: "DECODE_U8 (pre @ hd @ rest) (length pre) = Some (qosruleidentifer r)"
      "DECODE_U16 (pre @ hd @ rest) (length pre + 1) = Some L"
      "DECODE_U8 (pre @ hd @ rest) (length pre + 3) = Some (rule_bits r)"
      using DECODE_U8_append [of pre "hd @ rest" 3] DECODE_U16_append [of pre "hd @ rest" 1]
      by (simp_all add: hd_def)
    have flds: "ucast (drop_bit 5 (rule_bits r)) = ruleoperationcode r"
      "ucast (rule_bits r AND 0x0F) = numberofpacketfilters r"
      "ucast (drop_bit 4 (rule_bits r) AND 0x01) = dqrbit r"
      by simp_all
    have op: "ruleoperationcode r0 = ruleoperationcode r" "numberofpacketfilters r0 = numberofpacketfilters r"
      by (simp_all add: r0_def)
    show ?thesis
      unfolding decode_rule_def four rd Let_def Option.bind.simps flds
      unfolding new op ..
  qed
  consider ds where "ruleoperationcode r = 5" "filterlist r = ModifyAndDelete ds"
      "length ds = unat (numberofpacketfilters r)"
    | fs where "ruleoperationcode r \<noteq> 5" "carries_filters (ucast (ruleoperationcode r))"
      "filterlist r = CreateModify fs" "length fs = unat (numberofpacketfilters r)"
    | "ruleoperationcode r \<noteq> 5" "\<not> carries_filters (ucast (ruleoperationcode r))"
    using assms(1) by (auto simp: rule_valid_def split: if_splits packetfilterlist.splits)
  then show ?thesis
  proof cases
    case 1
    have wire: "rule_wire r k pos = hd @ map ucast ds @ rule_tail_wire r"
      using 1 L by (simp add: rule_wire_def rule_body_wire_def hd_def Let_def)
    have lw: "length (rule_wire r k pos) = length hd + (length ds + 2)"
      by (simp add: wire rule_tail_wire_def)
    have "decode_rule (pre @ hd @ (map ucast ds @ rule_tail_wire r) @ rest) len (length pre)
        = Some (Inr (rule_seen pos r, length pre + length (rule_wire r k pos)))" for pre rest len
    proof -
      have "decode_array decode_filter_identifier ((pre @ hd) @ map ucast ds @ rule_tail_wire r @ rest)
          (length ds) (length (pre @ hd)) = Some (ds, length (pre @ hd) + length (map ucast ds :: u8 list))"
        by (rule dreadsD [OF identifiers_dreads])
      with 1 rule_tail_read [of "pre @ hd @ map ucast ds" r rest] show ?thesis
        unfolding open_rule lw
        by (cases r) (simp add: r0_def rule_seen_def has_tail_def L_def rule_tail_wire_def add.assoc)
    qed
    then show ?thesis unfolding sreads_def by (simp add: wire)
  next
    case 2
    have wire: "rule_wire r k pos = hd @ filters_wire fs k @ rule_tail_wire r"
      using 2 L by (simp add: rule_wire_def rule_body_wire_def hd_def Let_def)
    have lw: "length (rule_wire r k pos) = length hd + (length (filters_wire fs k) + 2)"
      by (simp add: wire rule_tail_wire_def)
    have ok: "filter_valid f" if "f \<in> set fs" for f
      using that assms(2) 2 by (simp add: filters_valid_def list_all_iff)
    have "decode_rule (pre @ hd @ (filters_wire fs k @ rule_tail_wire r) @ rest) len (length pre)
        = Some (Inr (rule_seen pos r, length pre + length (rule_wire r k pos)))"
      if len: "length pre + length (rule_wire r k pos) \<le> unat len" for pre rest len
    proof -
      have "decode_filters ((pre @ hd) @ filters_wire fs k @ rule_tail_wire r @ rest) len (length fs)
          (length (pre @ hd)) = Some (Inr (map filter_seen fs, length (pre @ hd) + length (filters_wire fs k)))"
        using len lw
        by (intro sreadsD [of "\<lambda>b l d. decode_filters b l (length fs) d", OF filters_sreads] ok)
          simp_all
      with 2 rule_tail_read [of "pre @ hd @ filters_wire fs k" r rest] show ?thesis
        unfolding open_rule lw
        by (cases r) (simp add: r0_def rule_seen_def has_tail_def L_def rule_tail_wire_def add.assoc)
    qed
    then show ?thesis unfolding sreads_def by (simp add: wire)
  next
    case 3
    have wire: "rule_wire r k pos = hd"
      using 3 L by (simp add: rule_wire_def rule_body_wire_def hd_def Let_def)
    show ?thesis
      unfolding sreads_def wire open_rule
      using 3 by (cases r) (simp add: r0_def rule_seen_def has_tail_def L_def)
  qed
qed

text \<open>
  The loop stops at the right place: a rule has at least four octets and the header of the element at
  most three, so \<open>decoded\<close> is still below the bound before the last rule.
\<close>

lemma decode_rules_wire:
  assumes "\<And>r. r \<in> set rs \<Longrightarrow> rule_valid r \<and> filters_valid r"
    and "bound \<le> length pre + length (rules_wire rs k pos)"
    and "length pre + length (rules_wire rs k pos) \<le> bound + 3"
    and "length pre + length (rules_wire rs k pos) \<le> unat len"
  shows "decode_rules_loop (pre @ rules_wire rs k pos @ rest) len bound (length pre)
       = Some (Inr (rules_seen pos rs, length pre + length (rules_wire rs k pos)))"
  using assms
proof (induction rs arbitrary: pre k pos)
  case Nil
  then show ?case by (subst decode_rules_loop.simps) simp
next
  case (Cons r rs)
  define v where "v = rule_wire r k pos"
  define w where "w = rules_wire rs (rule_result r k) (pos + length v)"
  have wire: "rules_wire (r # rs) k pos = v @ w" by (simp add: v_def w_def)
  have seen: "rules_seen pos (r # rs) = rule_seen pos r # rules_seen (pos + length v) rs"
    by (simp add: v_def length_rule_wire)
  have "length pre < bound" using Cons.prems(3) four_octets [of r k pos] by (simp add: wire v_def)
  moreover have "decode_rule (pre @ v @ w @ rest) len (length pre) = Some (Inr (rule_seen pos r, length pre + length v))"
    using Cons.prems unfolding wire v_def by (intro sreadsD [OF rule_sreads]) auto
  moreover have "decode_rules_loop ((pre @ v) @ w @ rest) len bound (length (pre @ v))
      = Some (Inr (rules_seen (pos + length v) rs, length (pre @ v) + length w))"
    using Cons.prems unfolding wire w_def by (intro Cons.IH) auto
  ultimately show ?case
    unfolding wire seen by (subst decode_rules_loop.simps) (simp add: add.assoc)
qed

text \<open>What is read of an element whose rules start behind the identifier and the length.\<close>

definition qos_rules_read :: "u8 \<Rightarrow> QOSRules \<Rightarrow> QOSRules" where
  "qos_rules_read iei x =
     \<lparr>lengthofqosrulesie = of_nat (length (rules_wire (qosrulesie x) 0 0)),
      qosrulesie = rules_seen (length (iei_wire iei) + 2) (qosrulesie x)\<rparr>"

lemma decode_qos_rules_fit:
  assumes v: "qos_rules_fit x" "list_all filters_valid (qosrulesie x)"
  shows "decodes (\<lambda>b len. decode_qos_rules x0 iei b len) (qos_rules_wire x iei) (qos_rules_read iei x)"
proof -
  define rs where "rs = qosrulesie x"
  define ws where "ws = rules_wire rs 0 (length (iei_wire iei) + 2)"
  define L where "L = (of_nat (length ws) :: u16)"
  define pre where "pre = iei_wire iei @ [hi8 L, lo8 L]"
  have lws: "length ws = length (rules_wire rs 0 0)" unfolding ws_def by (rule length_rules_wire_zero)
  have L: "unat L = length ws"
    using v(1) by (simp add: L_def unat_len_u16 qos_rules_fit_def lws rs_def)
  have ok: "rule_valid r \<and> filters_valid r" if "r \<in> set rs" for r
    using that v by (simp add: qos_rules_fit_def list_all_iff rs_def)
  have wire: "qos_rules_wire x iei = iei_wire iei @ [hi8 L, lo8 L] @ ws"
    by (simp add: qos_rules_wire_def Let_def L_def ws_def rs_def)
  have pre3: "length pre \<le> 3" by (simp add: pre_def length_iei_wire)
  have loop: "decode_rules_loop (pre @ ws @ rest) len (unat L) (length pre)
      = Some (Inr (rules_seen (length (iei_wire iei) + 2) rs, length pre + length ws))"
    if "length pre + length ws \<le> unat len" for rest len
    using that ok L pre3 unfolding ws_def by (intro decode_rules_wire) auto
  have seen: "qos_rules_read iei x
      = x0\<lparr>lengthofqosrulesie := L, qosrulesie := rules_seen (length (iei_wire iei) + 2) rs\<rparr>"
    by (cases x0) (simp add: qos_rules_read_def L_def lws rs_def)
  have "decode_qos_rules x0 iei (iei_wire iei @ [hi8 L, lo8 L] @ ws @ rest) len
      = Some (int (length pre + length ws), qos_rules_read iei x)"
    if len: "length pre + length ws \<le> unat len" for rest len
    using loop [OF len, of rest] len L
    by (cases "0 < iei") (auto simp: decode_qos_rules_def seen pre_def iei_wire_def check_iei_def)
  then show ?thesis unfolding decodes_def wire by (simp add: pre_def)
qed

definition qos_rules_ok :: "QOSRules \<Rightarrow> bool" where
  "qos_rules_ok x \<longleftrightarrow> qos_rules_fit x \<and> list_all filters_valid (qosrulesie x)"

interpretation qos_rules: ie_encoder encode_qos_rules qos_rules_wire "\<lambda>x _. qos_rules_ok x"
  by unfold_locales (simp add: encode_qos_rules_fit qos_rules_ok_def)

text \<open>
  The rules start one octet later behind an identifier, so that the lengths read depend on it. The messages that
  are read back have the element with the identifier \<open>0x7A\<close>.
\<close>

definition qos_rules_seen :: "QOSRules \<Rightarrow> QOSRules \<Rightarrow> QOSRules" where
  "qos_rules_seen x0 x = qos_rules_read 0x7A x"

interpretation qos_rules_tlv: ie_codec encode_qos_rules qos_rules_wire
  "\<lambda>x iei. iei = 0x7A \<and> qos_rules_ok x" decode_qos_rules qos_rules_seen
  by unfold_locales
    (auto simp: encode_qos_rules_fit qos_rules_ok_def qos_rules_seen_def intro: decode_qos_rules_fit)

lemma qos_rules_reads:
  assumes "switch full 0x7A = dcall (\<lambda>f. decode_qos_rules f 0x7A) get put mark"
    and "0x7A AND 0xF0 \<notin> set (map fst half)" and "present \<Longrightarrow> qos_rules_ok x"
    and "qos_rules_wire x 0x7A = 0x7A # tl (qos_rules_wire x 0x7A)"
    and "reads (ie_step half full) bs (when_present present (\<lambda>m. mark (put (qos_rules_seen (get m) x) m)) m) m'"
  shows "reads (ie_step half full) ((if present then qos_rules_wire x 0x7A else []) @ bs) m m'"
  by (rule qos_rules_tlv.reads_full [OF assms(1,2) _ _ assms(4,5)]) (simp_all add: assms(3))

subsection \<open>Properties\<close>

lemma length_rules_seen [simp]: "length (rules_seen pos rs) = length rs"
  by (induction rs arbitrary: pos) simp_all

lemma length_rules_wire_le: "4 * length rs \<le> length (rules_wire rs k pos)"
proof (induction rs arbitrary: k pos)
  case (Cons r rs)
  show ?case
    using add_mono [OF four_octets [of r k pos] Cons.IH [of "rule_result r k" "pos + length (rule_wire r k pos)"]] by simp
qed simp

text \<open>C25: QoS rules that the element can hold survive the codec: a list of at least one rule that is as long as its
  count says, of which each rule has as many packet filters or filter identifiers as its header says and each filter
  a component value below 255 octets, and which takes fewer than 65536 octets. The encoder writes them at the start of the
  buffer and nowhere else, and the decoder reads as many rules back, each with the identifier, operation, default bit,
  filters, precedence, segregation and flow that its operation carries (\<open>rule_seen\<close>: for an operation without filters and
  tail the fields it does not carry are zero). Two lengths differ: that of the element comes back in octets where
  the encoder had the number of rules, and that of a rule (\<open>rule_length\<close>) is right where its contents start before position
  256 of the element and too large by 256 for each 256 octets before it, because the encoder keeps the position
  in a \<open>uint8_t\<close>.\<close>

theorem qos_rules_roundtrip:
  assumes "qos_rules_ok x" and "length (qos_rules_wire x iei) \<le> unat len" and "unat len \<le> length b"
  shows "\<exists>n b'. encode_qos_rules x iei len (Some b) = Some (n, b') \<and>
     drop (nat n) b' = drop (nat n) b \<and> decode_qos_rules x0 iei b' len = Some (n, qos_rules_read iei x)"
proof -
  have "decodes (\<lambda>b len. decode_qos_rules x0 iei b len) (qos_rules_wire x iei) (qos_rules_read iei x)"
    using assms(1) by (intro decode_qos_rules_fit) (simp_all add: qos_rules_ok_def)
  from decodesD [OF this assms(2)] qos_rules.encode_result [OF assms] show ?thesis by simp
qed

theorem qos_rules_roundtrip_witness:
  "let x = \<lparr>lengthofqosrulesie = 1, qosrulesie =
       [\<lparr>qosruleidentifer = 1, LengthofQoSrule = 0, ruleoperationcode = 1, dqrbit = 1, numberofpacketfilters = 1,
         filterlist = CreateModify [\<lparr>packetfilterdirection = 1, packetfilteridentifier = 1, component_type = 0x10,
            component_value = Some [10, 0, 0, 1, 255, 255, 255, 255]\<rparr>],
         qosruleprecedence = 1, segregation = 0, qosflowidentifer = 9\<rparr>]\<rparr>;
       x0 = \<lparr>lengthofqosrulesie = 0, qosrulesie = []\<rparr>
   in \<exists>n b'. encode_qos_rules x 0x7A 64 (Some (replicate 64 0)) = Some (n, b') \<and>
     drop (nat n) b' = drop (nat n) (replicate 64 0) \<and>
     decode_qos_rules x0 0x7A b' 64 = Some (n, qos_rules_read 0x7A x)"
  unfolding Let_def
  by (rule qos_rules_roundtrip)
    (simp_all add: qos_rules_ok_def qos_rules_fit_def rule_valid_def filters_valid_def filter_valid_def
      carries_filters_def qos_rules_wire_def rule_wire_def rule_body_wire_def filter_wire_def rule_tail_wire_def
      Let_def iei_wire_def)

text \<open>C26: The releasing routine does not fit the decoder: on what decoding any encoded rules leaves, the loop of
  \<open>free_decode_qos_rules\<close> runs past the end of the array, because the bound it uses counts octets.\<close>

theorem qos_rules_free_after_decode:
  assumes "qos_rules_ok x" and "length (qos_rules_wire x iei) \<le> unat len"
  shows "\<exists>n y. decode_qos_rules x0 iei (qos_rules_wire x iei @ rest) len = Some (n, y) \<and>
     free_decode_qos_rules y = None"
proof -
  have "length (qosrulesie x) < length (rules_wire (qosrulesie x) 0 0)" "length (rules_wire (qosrulesie x) 0 0) < 65536"
    using assms(1) length_rules_wire_le [of "qosrulesie x" 0 0] by (cases "qosrulesie x"; simp add: qos_rules_ok_def qos_rules_fit_def)+
  then have "free_decode_qos_rules (qos_rules_read iei x) = None"
    by (simp add: free_decode_qos_rules_def qos_rules_read_def unat_len_u16)
  moreover have d: "decodes (\<lambda>b len. decode_qos_rules x0 iei b len) (qos_rules_wire x iei) (qos_rules_read iei x)"
    using assms(1) by (intro decode_qos_rules_fit) (simp_all add: qos_rules_ok_def)
  ultimately show ?thesis using decodesD [OF d assms(2)] by blast
qed

theorem qos_rules_free_after_decode_witness:
  "let x = \<lparr>lengthofqosrulesie = 1, qosrulesie =
       [\<lparr>qosruleidentifer = 1, LengthofQoSrule = 0, ruleoperationcode = 1, dqrbit = 1, numberofpacketfilters = 1,
         filterlist = CreateModify [\<lparr>packetfilterdirection = 1, packetfilteridentifier = 1, component_type = 0x10,
            component_value = Some [10, 0, 0, 1, 255, 255, 255, 255]\<rparr>],
         qosruleprecedence = 1, segregation = 0, qosflowidentifer = 9\<rparr>]\<rparr>;
       x0 = \<lparr>lengthofqosrulesie = 0, qosrulesie = []\<rparr>
   in \<exists>n y. decode_qos_rules x0 0x7A (qos_rules_wire x 0x7A @ []) 64 = Some (n, y) \<and>
     free_decode_qos_rules y = None"
  unfolding Let_def
  by (rule qos_rules_free_after_decode)
    (simp_all add: qos_rules_ok_def qos_rules_fit_def rule_valid_def filters_valid_def filter_valid_def
      carries_filters_def qos_rules_wire_def rule_wire_def rule_body_wire_def filter_wire_def rule_tail_wire_def
      Let_def iei_wire_def)

text \<open>The length octet of a match-all packet filter after another filter is that of the other filter: the encoder
  keeps the result of the last octet string it wrote.\<close>

theorem match_all_filter_stale_length:
  assumes "component_type f \<noteq> 1" and "component_type g = 1"
    and "length (filters_wire [f, g] 0) \<le> unat len" and "unat len \<le> length b"
  shows "\<exists>pre. exec (filters_cmds 2 [f, g] 0) len b 0
      = ENext (overwrite b 0 (pre @ [of_nat (blength (component_value f)) + 1, 1])) (length pre + 2)"
proof -
  obtain pre where pre: "filters_wire [f, g] 0 = pre @ [of_nat (blength (component_value f)) + 1, 1]"
    using assms(1,2) by (simp add: filter_wire_def filter_result_def)
  have "emits 0 (filters_cmds 2 [f, g] 0) (filters_wire [f, g] 0)"
    using filters_emits [of 0 "[f, g]" 0] by (simp add: numeral_2_eq_2)
  moreover have "length (filters_wire [f, g] 0) = length pre + 2" unfolding pre by simp
  ultimately show ?thesis
    using emitsD [of 0 "filters_cmds 2 [f, g] 0" "filters_wire [f, g] 0" len b] assms(3,4)
    unfolding pre by (intro exI [of _ pre]) simp
qed

theorem match_all_filter_stale_length_witness:
  "\<exists>pre. exec (filters_cmds 2
       [\<lparr>packetfilterdirection = 1, packetfilteridentifier = 1, component_type = 0x10, component_value = Some [10, 0, 0, 1]\<rparr>,
        \<lparr>packetfilterdirection = 1, packetfilteridentifier = 2, component_type = 1, component_value = None\<rparr>] 0)
       16 (replicate 16 0) 0
     = ENext (overwrite (replicate 16 0) 0 (pre @ [of_nat (blength (Some [10, 0, 0, 1])) + 1, 1])) (length pre + 2)"
  using match_all_filter_stale_length [of
      "\<lparr>packetfilterdirection = 1, packetfilteridentifier = 1, component_type = 0x10, component_value = Some [10, 0, 0, 1]\<rparr>"
      "\<lparr>packetfilterdirection = 1, packetfilteridentifier = 2, component_type = 1, component_value = None\<rparr>"
      16 "replicate 16 0"]
  by (simp add: filter_wire_def)

end
