(* ===== verification/SM_Common.thy ===== *)
theory SM_Common
  imports IE_QosRules
begin

text \<open>
  What the session management messages share: the rules by which the encoder of a message emits its
  elements (\<open>sm_emits\<close>), its decoder reads the mandatory ones (\<open>sm_mreads\<close>) and the loop reads the
  optional ones (\<open>sm_reads\<close>), collected from the interpretations of the elements' interface.
\<close>

lemma full_wire:
  "0 < iei \<Longrightarrow> cause_wire x iei = iei # tl (cause_wire x iei)"
  "0 < iei \<Longrightarrow> max_pf_wire n iei = iei # tl (max_pf_wire n iei)"
  "0 < iei \<Longrightarrow> gprs_timer_wire t iei = iei # tl (gprs_timer_wire t iei)"
  "0 < iei \<Longrightarrow> gprs_timer3_wire t iei = iei # tl (gprs_timer3_wire t iei)"
  "0 < iei \<Longrightarrow> congestion_wire c iei = iei # tl (congestion_wire c iei)"
  "0 < iei \<Longrightarrow> capability_wire k iei = iei # tl (capability_wire k iei)"
  "0 < iei \<Longrightarrow> session_ambr_wire a iei = iei # tl (session_ambr_wire a iei)"
  "0 < iei \<Longrightarrow> snssai_wire s iei = iei # tl (snssai_wire s iei)"
  "0 < iei \<Longrightarrow> integrity_rate_wire b iei = iei # tl (integrity_rate_wire b iei)"
  "0 < iei \<Longrightarrow> lv_wire b iei = iei # tl (lv_wire b iei)"
  "0 < iei \<Longrightarrow> eap_wire b iei = iei # tl (eap_wire b iei)"
  "0 < iei \<Longrightarrow> pdu_address_wire p iei = iei # tl (pdu_address_wire p iei)"
  "0 < iei \<Longrightarrow> epco_wire e iei = iei # tl (epco_wire e iei)"
  "0 < iei \<Longrightarrow> qos_flow_descriptions_wire f iei = iei # tl (qos_flow_descriptions_wire f iei)"
  "0 < iei \<Longrightarrow> qos_rules_wire r iei = iei # tl (qos_rules_wire r iei)"
  by (simp_all add: cause_wire_def max_pf_wire_def gprs_timer_wire_def gprs_timer3_wire_def
      congestion_wire_def capability_wire_def session_ambr_wire_def snssai_wire_def integrity_rate_wire_def
      lv_wire_def eap_wire_def pdu_address_wire_def epco_wire_def qos_flow_descriptions_wire_def
      qos_rules_wire_def iei_wire_def Let_def)

lemmas half_wires = pdu_session_type_wire_def ssc_mode_wire_def apsr_wire_def apsi_wire_def allowed_ssc_wire_def

lemma half_single:
  "pdu_session_type_wire t iei = [hd (pdu_session_type_wire t iei)]"
  "ssc_mode_wire s iei = [hd (ssc_mode_wire s iei)]"
  "apsr_wire r iei = [hd (apsr_wire r iei)]"
  "apsi_wire i iei = [hd (apsi_wire i iei)]"
  "allowed_ssc_wire a iei = [hd (allowed_ssc_wire a iei)]"
  by (simp_all add: wire_simps)

lemma half_hd:
  "(iei OR 0x10) AND 0xF0 = iei \<Longrightarrow> hd (pdu_session_type_wire t iei) AND 0xF0 = iei"
  "type1 iei \<Longrightarrow> hd (ssc_mode_wire s iei) AND 0xF0 = iei"
  "type1 iei \<Longrightarrow> hd (apsr_wire r iei) AND 0xF0 = iei"
  "type1 iei \<Longrightarrow> hd (apsi_wire i iei) AND 0xF0 = iei"
  "type1 iei \<Longrightarrow> hd (allowed_ssc_wire a iei) AND 0xF0 = iei"
proof -
  have hd: "hd (half_wire v k) AND 0xF0 = k AND 0xF0" for v k
    by (simp only: half_wire_def list.sel half_octet_iei)
  show "(iei OR 0x10) AND 0xF0 = iei \<Longrightarrow> hd (pdu_session_type_wire t iei) AND 0xF0 = iei"
    "type1 iei \<Longrightarrow> hd (ssc_mode_wire s iei) AND 0xF0 = iei"
    "type1 iei \<Longrightarrow> hd (apsr_wire r iei) AND 0xF0 = iei"
    "type1 iei \<Longrightarrow> hd (apsi_wire i iei) AND 0xF0 = iei"
    "type1 iei \<Longrightarrow> hd (allowed_ssc_wire a iei) AND 0xF0 = iei"
    by (simp_all only: half_wires hd type1_def)
qed

text \<open>Without an identifier the session type is an octet with bit 5 set.\<close>

lemma pdu_session_type_emits: "emits1 e (call (encode__pdu_session_type t iei)) (pdu_session_type_wire t iei)"
  using encode__pdu_session_type_ok by (auto intro: emits_call)

lemmas sm_emits = emits_Nil emits_Cons pdu_session_type_emits
  cause.emits_ie pdu_session_type.emits_ie qos_rules.emits_ie session_ambr.emits_ie eap.emits_ie
  integrity_rate.emits_ie
  cause.emits_opt_ie pdu_session_type.emits_opt_ie ssc_mode.emits_opt_ie apsr.emits_opt_ie
  apsi.emits_opt_ie allowed_ssc.emits_opt_ie max_pf.emits_opt_ie gprs_timer.emits_opt_ie
  gprs_timer3.emits_opt_ie congestion.emits_opt_ie capability.emits_opt_ie session_ambr.emits_opt_ie
  snssai.emits_opt_ie integrity_rate.emits_opt_ie dnn.emits_opt_ie smpdudn.emits_opt_ie
  eap.emits_opt_ie pdu_address.emits_opt_ie epco.emits_opt_ie qos_flow.emits_opt_ie qos_rules.emits_opt_ie

lemmas sm_mreads = mreads_Nil
  cause.mreads_ie pdu_session_type.mreads_ie ssc_mode.mreads_ie
  session_ambr.mreads_ie eap.mreads_ie integrity_rate.mreads_ie mreads_Cons

lemmas sm_reads = reads_Nil
  cause.reads_full max_pf.reads_full gprs_timer.reads_full gprs_timer3.reads_full congestion.reads_full
  capability.reads_full session_ambr.reads_full snssai.reads_full integrity_rate.reads_full
  dnn.reads_full smpdudn.reads_full eap.reads_full pdu_address.reads_full epco.reads_full
  qos_flow.reads_full qos_rules_reads
  pdu_session_type.reads_half ssc_mode.reads_half apsr.reads_half apsi.reads_half allowed_ssc.reads_half

text \<open>The identifiers of the half-octet elements are what their codecs expect.\<close>

lemma half_identifiers:
  "type1 0x80" "type1 0xA0" "type1 0xB0" "type1 0xF0" "type1 0x90 \<and> 0x90 > (0 :: u8) \<and> 0x90 OR 0x10 = (0x90 :: u8)"
  by (simp_all add: type1_def)

lemma mreads_to: "mreads cs bs m m' \<Longrightarrow> m' = m'' \<Longrightarrow> mreads cs bs m m''"
  by simp

lemma reads_to: "reads step bs m m' \<Longrightarrow> m' = m'' \<Longrightarrow> reads step bs m m''"
  by simp

lemmas sm_safe = safe_Nil
  cause.safe_call_ie pdu_session_type.safe_call_ie session_ambr.safe_call_ie eap.safe_call_ie
  integrity_rate.safe_call_ie
  cause.safe_opt_ie pdu_session_type.safe_opt_ie ssc_mode.safe_opt_ie apsr.safe_opt_ie apsi.safe_opt_ie
  allowed_ssc.safe_opt_ie max_pf.safe_opt_ie gprs_timer.safe_opt_ie gprs_timer3.safe_opt_ie
  congestion.safe_opt_ie capability.safe_opt_ie session_ambr.safe_opt_ie integrity_rate.safe_opt_ie
  dnn.safe_opt_ie smpdudn.safe_opt_ie eap.safe_opt_ie pdu_address.safe_opt_ie

lemmas sm_lengths = cause_wire_def eap_wire_def integrity_rate_wire_def session_ambr_wire_def
  iei_wire_def eap_valid_def

end
