(* ===== verification/SM_Establishment.thy ===== *)
theory SM_Establishment
  imports SM_Common
begin

text \<open>
  The PDU session establishment messages: request, accept, reject (\<open>sm/msg/PDUSessionEstablishment*.c\<close>).
  For each message: its structure (without the four header octets, which are in \<open>SM_msg\<close>), the encoder, the
  cases of the two switches of the decoder's loop, the decoder, the wire format, what the decoder leaves in
  the structure it fills, and the lemmas: the encoder writes the wire format, the decoder reads it back, an
  identifier unknown to both switches makes it loop for ever, and the encoder stays inside its buffer when no
  element with an unchecked encoder is present.
\<close>

subsection \<open>PDU session establishment request\<close>

record pdu_session_establishment_request_msg =
  ereq_intergrityprotectionmaximumdatarate :: bstring
  ereq_presence :: u8
  ereq_pdusessiontype :: PDUSessionTypeIE
  ereq_sscmode :: SSCMode
  ereq_5gsmcapability :: FiveGSMCapability
  ereq_maximumnumberofsupportedpacketfilters :: u16
  ereq_alwaysonpdusessionrequested :: AlwaysonPDUSessionRequested
  ereq_smpdudnrequestcontainer :: bstring
  ereq_extendedprotocolconfigurationoptions :: pco

definition encode_pdu_session_establishment_request :: "pdu_session_establishment_request_msg \<Rightarrow> encoder" where
  "encode_pdu_session_establishment_request msg = encoder_body 2
     [call (encode_intergrity_protection_maximum_data_rate (ereq_intergrityprotectionmaximumdatarate msg) 0),
      opt (ereq_presence msg AND 0x01 = 0x01) (encode__pdu_session_type (ereq_pdusessiontype msg) 0x90),
      opt (ereq_presence msg AND 0x02 = 0x02) (encode_ssc_mode (ereq_sscmode msg) 0xA0),
      opt (ereq_presence msg AND 0x04 = 0x04) (encode__5gsm_capability (ereq_5gsmcapability msg) 0x28),
      opt (ereq_presence msg AND 0x08 = 0x08) (encode_maximum_number_of_supported_packet_filters (ereq_maximumnumberofsupportedpacketfilters msg) 0x55),
      opt (ereq_presence msg AND 0x10 = 0x10) (encode_alwayson_pdu_session_requested (ereq_alwaysonpdusessionrequested msg) 0xB0),
      opt (ereq_presence msg AND 0x20 = 0x20) (encode_smpdudn_request_container (ereq_smpdudnrequestcontainer msg) 0x39),
      opt (ereq_presence msg AND 0x40 = 0x40) (encode_extended_protocol_configuration_options (ereq_extendedprotocolconfigurationoptions msg) 0x7B)]"

definition ereq_half :: "(u8 \<times> pdu_session_establishment_request_msg dcmd) list" where
  "ereq_half =
     [(0x90, dcall (\<lambda>f. decode__pdu_session_type f 0x90) ereq_pdusessiontype (\<lambda>v. ereq_pdusessiontype_update (\<lambda>_. v)) (ereq_presence_update (\<lambda>p. p OR 0x01))),
      (0xA0, dcall (\<lambda>f. decode_ssc_mode f 0xA0) ereq_sscmode (\<lambda>v. ereq_sscmode_update (\<lambda>_. v)) (ereq_presence_update (\<lambda>p. p OR 0x02))),
      (0xB0, dcall (\<lambda>f. decode_alwayson_pdu_session_requested f 0xB0) ereq_alwaysonpdusessionrequested (\<lambda>v. ereq_alwaysonpdusessionrequested_update (\<lambda>_. v)) (ereq_presence_update (\<lambda>p. p OR 0x10)))]"

definition ereq_full :: "(u8 \<times> pdu_session_establishment_request_msg dcmd) list" where
  "ereq_full =
     [(0x28, dcall (\<lambda>f. decode__5gsm_capability f 0x28) ereq_5gsmcapability (\<lambda>v. ereq_5gsmcapability_update (\<lambda>_. v)) (ereq_presence_update (\<lambda>p. p OR 0x04))),
      (0x55, dcall (\<lambda>f. decode_maximum_number_of_supported_packet_filters f 0x55) ereq_maximumnumberofsupportedpacketfilters (\<lambda>v. ereq_maximumnumberofsupportedpacketfilters_update (\<lambda>_. v)) (ereq_presence_update (\<lambda>p. p OR 0x08))),
      (0x39, dcall (\<lambda>f. decode_smpdudn_request_container f 0x39) ereq_smpdudnrequestcontainer (\<lambda>v. ereq_smpdudnrequestcontainer_update (\<lambda>_. v)) (ereq_presence_update (\<lambda>p. p OR 0x20))),
      (0x7B, dcall (\<lambda>f. decode_extended_protocol_configuration_options f 0x7B) ereq_extendedprotocolconfigurationoptions (\<lambda>v. ereq_extendedprotocolconfigurationoptions_update (\<lambda>_. v)) (ereq_presence_update (\<lambda>p. p OR 0x40)))]"

definition decode_pdu_session_establishment_request :: "pdu_session_establishment_request_msg msg_decoder" where
  "decode_pdu_session_establishment_request = msg_decoder 2
     [dcall (\<lambda>f. decode_intergrity_protection_maximum_data_rate f 0) ereq_intergrityprotectionmaximumdatarate (\<lambda>v. ereq_intergrityprotectionmaximumdatarate_update (\<lambda>_. v)) (\<lambda>m. m)]
     (ie_step ereq_half ereq_full)"

definition ereq_valid :: "pdu_session_establishment_request_msg \<Rightarrow> bool" where
  "ereq_valid msg \<longleftrightarrow>
     length (bstr (ereq_intergrityprotectionmaximumdatarate msg)) = 2 \<and>
     (ereq_presence msg AND 0x08 = 0x08 \<longrightarrow> (ereq_maximumnumberofsupportedpacketfilters msg) < 2048) \<and>
     (ereq_presence msg AND 0x20 = 0x20 \<longrightarrow> lv_valid (ereq_smpdudnrequestcontainer msg)) \<and>
     (ereq_presence msg AND 0x40 = 0x40 \<longrightarrow> pco_valid (ereq_extendedprotocolconfigurationoptions msg))"

definition ereq_mand_wire :: "pdu_session_establishment_request_msg \<Rightarrow> u8 list" where
  "ereq_mand_wire msg = concat [integrity_rate_wire (ereq_intergrityprotectionmaximumdatarate msg) 0]"

definition ereq_opt_wire :: "pdu_session_establishment_request_msg \<Rightarrow> u8 list" where
  "ereq_opt_wire msg = concat
     [(if ereq_presence msg AND 0x01 = 0x01 then pdu_session_type_wire (ereq_pdusessiontype msg) 0x90 else []),
      (if ereq_presence msg AND 0x02 = 0x02 then ssc_mode_wire (ereq_sscmode msg) 0xA0 else []),
      (if ereq_presence msg AND 0x04 = 0x04 then capability_wire (ereq_5gsmcapability msg) 0x28 else []),
      (if ereq_presence msg AND 0x08 = 0x08 then max_pf_wire (ereq_maximumnumberofsupportedpacketfilters msg) 0x55 else []),
      (if ereq_presence msg AND 0x10 = 0x10 then apsr_wire (ereq_alwaysonpdusessionrequested msg) 0xB0 else []),
      (if ereq_presence msg AND 0x20 = 0x20 then lv_wire (ereq_smpdudnrequestcontainer msg) 0x39 else []),
      (if ereq_presence msg AND 0x40 = 0x40 then epco_wire (ereq_extendedprotocolconfigurationoptions msg) 0x7B else [])]"

definition ereq_wire :: "pdu_session_establishment_request_msg \<Rightarrow> u8 list" where
  "ereq_wire msg = ereq_mand_wire msg @ ereq_opt_wire msg"

definition ereq_mand_seen :: "pdu_session_establishment_request_msg \<Rightarrow> pdu_session_establishment_request_msg \<Rightarrow> pdu_session_establishment_request_msg" where
  "ereq_mand_seen m msg = m\<lparr>ereq_intergrityprotectionmaximumdatarate := Some (bstr (ereq_intergrityprotectionmaximumdatarate msg))\<rparr>"

definition ereq_opt_seen :: "pdu_session_establishment_request_msg \<Rightarrow> pdu_session_establishment_request_msg \<Rightarrow> pdu_session_establishment_request_msg" where
  "ereq_opt_seen m msg = updates
     [when_present (ereq_presence msg AND 0x01 = 0x01)
        (\<lambda>m. ereq_presence_update (\<lambda>p. p OR 0x01) (m\<lparr>ereq_pdusessiontype := ereq_pdusessiontype msg\<rparr>)),
      when_present (ereq_presence msg AND 0x02 = 0x02)
        (\<lambda>m. ereq_presence_update (\<lambda>p. p OR 0x02) (m\<lparr>ereq_sscmode := ereq_sscmode msg\<rparr>)),
      when_present (ereq_presence msg AND 0x04 = 0x04)
        (\<lambda>m. ereq_presence_update (\<lambda>p. p OR 0x04) (m\<lparr>ereq_5gsmcapability := ereq_5gsmcapability msg\<rparr>)),
      when_present (ereq_presence msg AND 0x08 = 0x08)
        (\<lambda>m. ereq_presence_update (\<lambda>p. p OR 0x08) (m\<lparr>ereq_maximumnumberofsupportedpacketfilters := ereq_maximumnumberofsupportedpacketfilters msg\<rparr>)),
      when_present (ereq_presence msg AND 0x10 = 0x10)
        (\<lambda>m. ereq_presence_update (\<lambda>p. p OR 0x10) (m\<lparr>ereq_alwaysonpdusessionrequested := ereq_alwaysonpdusessionrequested msg\<rparr>)),
      when_present (ereq_presence msg AND 0x20 = 0x20)
        (\<lambda>m. ereq_presence_update (\<lambda>p. p OR 0x20) (m\<lparr>ereq_smpdudnrequestcontainer := Some (bstr (ereq_smpdudnrequestcontainer msg))\<rparr>)),
      when_present (ereq_presence msg AND 0x40 = 0x40)
        (\<lambda>m. ereq_presence_update (\<lambda>p. p OR 0x40) (m\<lparr>ereq_extendedprotocolconfigurationoptions := pco_seen (ereq_extendedprotocolconfigurationoptions m) (ereq_extendedprotocolconfigurationoptions msg)\<rparr>))] m"

definition ereq_seen :: "pdu_session_establishment_request_msg \<Rightarrow> pdu_session_establishment_request_msg \<Rightarrow> pdu_session_establishment_request_msg" where
  "ereq_seen m msg = ereq_opt_seen (ereq_mand_seen m msg) msg"

lemma ereq_min:
  assumes "ereq_valid msg"
  shows "2 \<le> length (ereq_wire msg)"
  using assms [unfolded ereq_valid_def] by (simp add: ereq_wire_def ereq_mand_wire_def sm_lengths)

lemma encode_pdu_session_establishment_request_ok:
  assumes "ereq_valid msg"
  shows "encodes (encode_pdu_session_establishment_request msg) (ereq_wire msg)"
  unfolding encode_pdu_session_establishment_request_def
  by (rule encodes_body, (rule sm_emits TrueI half_identifiers | (simp only: assms [unfolded ereq_valid_def]; fail))+,
      simp only: ereq_wire_def ereq_mand_wire_def ereq_opt_wire_def concat.simps append.simps append_assoc append_Nil2,
      rule ereq_min [OF assms])

lemma encode_pdu_session_establishment_request_safe:
  assumes "ereq_presence msg AND 0x40 \<noteq> 0x40"
  shows "safe_encoder (encode_pdu_session_establishment_request msg)"
  unfolding encode_pdu_session_establishment_request_def
  by (rule safe_encoder_body, (rule sm_safe | (rule safe_opt, simp add: assms; fail) | rule safe_Cons)+)

lemma ereq_mreads:
  assumes "ereq_valid msg"
  shows "mreads [dcall (\<lambda>f. decode_intergrity_protection_maximum_data_rate f 0) ereq_intergrityprotectionmaximumdatarate (\<lambda>v. ereq_intergrityprotectionmaximumdatarate_update (\<lambda>_. v)) (\<lambda>m. m)] (ereq_mand_wire msg) m (ereq_mand_seen m msg)"
  unfolding ereq_mand_wire_def concat.simps
  by (rule mreads_to, (rule sm_mreads TrueI half_identifiers | (simp only: assms [unfolded ereq_valid_def]; fail))+, simp add: ereq_mand_seen_def)

lemma ereq_reads:
  assumes "ereq_valid msg"
  shows "reads (ie_step ereq_half ereq_full) (ereq_opt_wire msg) m (ereq_opt_seen m msg)"
  unfolding ereq_half_def ereq_full_def ereq_opt_wire_def concat.simps
  by (rule reads_to, (rule sm_reads switch_here TrueI half_identifiers half_single | (rule switch_there, simp; fail) | (simp only: assms [unfolded ereq_valid_def]; fail)
      | (rule full_wire, simp; fail) | (rule half_hd, simp add: type1_def; fail) | (simp; fail))+)
    (simp only: ereq_opt_seen_def updates.simps)

lemma decode_pdu_session_establishment_request_wire:
  assumes "ereq_valid msg" and "unat len = length (ereq_wire msg)"
  shows "decode_pdu_session_establishment_request m (Some (ereq_wire msg @ rest)) len
       = Some (Returned (int (length (ereq_wire msg))) (ereq_seen m msg))"
  using msg_decoder_reads [OF ereq_mreads [OF assms(1)] ereq_reads [OF assms(1)], of 2 len m rest] assms(2) ereq_min [OF assms(1)]
  by (simp add: decode_pdu_session_establishment_request_def ereq_wire_def ereq_seen_def)

lemma decode_pdu_session_establishment_request_unknown:
  assumes "ereq_valid msg" and "iei \<noteq> 0" and "iei AND 0xF0 \<notin> set (map fst ereq_half)"
    and "iei \<notin> set (map fst ereq_full)" and "length (ereq_wire msg) < unat len"
  shows "decode_pdu_session_establishment_request m (Some (ereq_wire msg @ iei # rest)) len = None"
  using msg_decoder_unknown [OF ereq_mreads [OF assms(1)] ereq_reads [OF assms(1)] assms(2,3,4), of 2 len m rest] assms(5) ereq_min [OF assms(1)]
  by (simp add: decode_pdu_session_establishment_request_def ereq_wire_def)

subsection \<open>PDU session establishment accept\<close>

record pdu_session_establishment_accept_msg =
  eacc_pdusessiontype :: PDUSessionTypeIE
  eacc_sscmode :: SSCMode
  eacc_qosrules :: QOSRules
  eacc_sessionambr :: SessionAMBR
  eacc_presence :: u16
  eacc_5gsmcause :: u8
  eacc_pduaddress :: PDUAddress
  eacc_gprstimer :: GPRSTimer
  eacc_snssai :: SNSSAI
  eacc_alwaysonpdusessionindication :: AlwaysonPDUSessionIndication
  eacc_mappedepsbearercontexts :: bstring
  eacc_eapmessage :: bstring
  eacc_qosflowdescriptions :: QOSFlowDescriptions
  eacc_extendedprotocolconfigurationoptions :: pco
  eacc_dnn :: bstring

definition encode_pdu_session_establishment_accept :: "pdu_session_establishment_accept_msg \<Rightarrow> encoder" where
  "encode_pdu_session_establishment_accept msg = encoder_body 15
     [call (encode__pdu_session_type (eacc_pdusessiontype msg) 0),
      call (encode_qos_rules (eacc_qosrules msg) 0),
      call (encode_session_ambr (eacc_sessionambr msg) 0),
      opt (eacc_presence msg AND 0x01 = 0x01) (encode__5gsm_cause (eacc_5gsmcause msg) 0x59),
      opt (eacc_presence msg AND 0x02 = 0x02) (encode_pdu_address (eacc_pduaddress msg) 0x29),
      opt (eacc_presence msg AND 0x04 = 0x04) (encode_gprs_timer (eacc_gprstimer msg) 0x56),
      opt (eacc_presence msg AND 0x08 = 0x08) (encode_snssai (eacc_snssai msg) 0x22),
      opt (eacc_presence msg AND 0x10 = 0x10) (encode_alwayson_pdu_session_indication (eacc_alwaysonpdusessionindication msg) 0x80),
      opt (eacc_presence msg AND 0x40 = 0x40) (encode_eap_message (eacc_eapmessage msg) 0x78),
      opt (eacc_presence msg AND 0x80 = 0x80) (encode_qos_flow_descriptions (eacc_qosflowdescriptions msg) 0x79),
      opt (eacc_presence msg AND 0x100 = 0x100) (encode_extended_protocol_configuration_options (eacc_extendedprotocolconfigurationoptions msg) 0x7B),
      opt (eacc_presence msg AND 0x200 = 0x200) (encode_dnn (eacc_dnn msg) 0x25)]"

definition eacc_half :: "(u8 \<times> pdu_session_establishment_accept_msg dcmd) list" where
  "eacc_half =
     [(0x80, dcall (\<lambda>f. decode_alwayson_pdu_session_indication f 0x80) eacc_alwaysonpdusessionindication (\<lambda>v. eacc_alwaysonpdusessionindication_update (\<lambda>_. v)) (eacc_presence_update (\<lambda>p. p OR 0x10)))]"

definition eacc_full :: "(u8 \<times> pdu_session_establishment_accept_msg dcmd) list" where
  "eacc_full =
     [(0x59, dcall (\<lambda>f. decode__5gsm_cause f 0x59) eacc_5gsmcause (\<lambda>v. eacc_5gsmcause_update (\<lambda>_. v)) (eacc_presence_update (\<lambda>p. p OR 0x01))),
      (0x29, dcall (\<lambda>f. decode_pdu_address f 0x29) eacc_pduaddress (\<lambda>v. eacc_pduaddress_update (\<lambda>_. v)) (eacc_presence_update (\<lambda>p. p OR 0x02))),
      (0x56, dcall (\<lambda>f. decode_gprs_timer f 0x56) eacc_gprstimer (\<lambda>v. eacc_gprstimer_update (\<lambda>_. v)) (eacc_presence_update (\<lambda>p. p OR 0x04))),
      (0x22, dcall (\<lambda>f. decode_snssai f 0x22) eacc_snssai (\<lambda>v. eacc_snssai_update (\<lambda>_. v)) (eacc_presence_update (\<lambda>p. p OR 0x08))),
      (0x78, dcall (\<lambda>f. decode_eap_message f 0x78) eacc_eapmessage (\<lambda>v. eacc_eapmessage_update (\<lambda>_. v)) (eacc_presence_update (\<lambda>p. p OR 0x40))),
      (0x79, dcall (\<lambda>f. decode_qos_flow_descriptions f 0x79) eacc_qosflowdescriptions (\<lambda>v. eacc_qosflowdescriptions_update (\<lambda>_. v)) (eacc_presence_update (\<lambda>p. p OR 0x80))),
      (0x7B, dcall (\<lambda>f. decode_extended_protocol_configuration_options f 0x7B) eacc_extendedprotocolconfigurationoptions (\<lambda>v. eacc_extendedprotocolconfigurationoptions_update (\<lambda>_. v)) (eacc_presence_update (\<lambda>p. p OR 0x100))),
      (0x25, dcall (\<lambda>f. decode_dnn f 0x25) eacc_dnn (\<lambda>v. eacc_dnn_update (\<lambda>_. v)) (eacc_presence_update (\<lambda>p. p OR 0x200)))]"

definition decode_pdu_session_establishment_accept :: "pdu_session_establishment_accept_msg msg_decoder" where
  "decode_pdu_session_establishment_accept = msg_decoder 15
     [dcall (\<lambda>f. decode__pdu_session_type f 0) eacc_pdusessiontype (\<lambda>v. eacc_pdusessiontype_update (\<lambda>_. v)) (\<lambda>m. m),
      dcall (\<lambda>f. decode_ssc_mode f 0) eacc_sscmode (\<lambda>v. eacc_sscmode_update (\<lambda>_. v)) (\<lambda>m. m),
      dcall (\<lambda>f. decode_qos_rules f 0) eacc_qosrules (\<lambda>v. eacc_qosrules_update (\<lambda>_. v)) (\<lambda>m. m),
      dcall (\<lambda>f. decode_session_ambr f 0) eacc_sessionambr (\<lambda>v. eacc_sessionambr_update (\<lambda>_. v)) (\<lambda>m. m)]
     (ie_step eacc_half eacc_full)"

definition eacc_valid :: "pdu_session_establishment_accept_msg \<Rightarrow> bool" where
  "eacc_valid msg \<longleftrightarrow>
     qos_rules_ok (eacc_qosrules msg) \<and>
     (eacc_presence msg AND 0x02 = 0x02 \<longrightarrow> pdu_address_valid (eacc_pduaddress msg)) \<and>
     (eacc_presence msg AND 0x08 = 0x08 \<longrightarrow> snssai_valid (eacc_snssai msg)) \<and>
     (eacc_presence msg AND 0x40 = 0x40 \<longrightarrow> eap_valid (eacc_eapmessage msg)) \<and>
     (eacc_presence msg AND 0x80 = 0x80 \<longrightarrow> qos_flow_descriptions_valid (eacc_qosflowdescriptions msg)) \<and>
     (eacc_presence msg AND 0x100 = 0x100 \<longrightarrow> pco_valid (eacc_extendedprotocolconfigurationoptions msg)) \<and>
     (eacc_presence msg AND 0x200 = 0x200 \<longrightarrow> lv_valid (eacc_dnn msg))"

definition eacc_mand_wire :: "pdu_session_establishment_accept_msg \<Rightarrow> u8 list" where
  "eacc_mand_wire msg = concat [pdu_session_type_wire (eacc_pdusessiontype msg) 0, qos_rules_wire (eacc_qosrules msg) 0, session_ambr_wire (eacc_sessionambr msg) 0]"

definition eacc_opt_wire :: "pdu_session_establishment_accept_msg \<Rightarrow> u8 list" where
  "eacc_opt_wire msg = concat
     [(if eacc_presence msg AND 0x01 = 0x01 then cause_wire (eacc_5gsmcause msg) 0x59 else []),
      (if eacc_presence msg AND 0x02 = 0x02 then pdu_address_wire (eacc_pduaddress msg) 0x29 else []),
      (if eacc_presence msg AND 0x04 = 0x04 then gprs_timer_wire (eacc_gprstimer msg) 0x56 else []),
      (if eacc_presence msg AND 0x08 = 0x08 then snssai_wire (eacc_snssai msg) 0x22 else []),
      (if eacc_presence msg AND 0x10 = 0x10 then apsi_wire (eacc_alwaysonpdusessionindication msg) 0x80 else []),
      (if eacc_presence msg AND 0x40 = 0x40 then eap_wire (eacc_eapmessage msg) 0x78 else []),
      (if eacc_presence msg AND 0x80 = 0x80 then qos_flow_descriptions_wire (eacc_qosflowdescriptions msg) 0x79 else []),
      (if eacc_presence msg AND 0x100 = 0x100 then epco_wire (eacc_extendedprotocolconfigurationoptions msg) 0x7B else []),
      (if eacc_presence msg AND 0x200 = 0x200 then lv_wire (eacc_dnn msg) 0x25 else [])]"

definition eacc_wire :: "pdu_session_establishment_accept_msg \<Rightarrow> u8 list" where
  "eacc_wire msg = eacc_mand_wire msg @ eacc_opt_wire msg"

lemma encode_pdu_session_establishment_accept_ok:
  assumes "eacc_valid msg" and "15 \<le> length (eacc_wire msg)"
  shows "encodes (encode_pdu_session_establishment_accept msg) (eacc_wire msg)"
  unfolding encode_pdu_session_establishment_accept_def
  by (rule encodes_body, (rule sm_emits TrueI half_identifiers | (simp only: assms(1) [unfolded eacc_valid_def]; fail))+,
      simp only: eacc_wire_def eacc_mand_wire_def eacc_opt_wire_def concat.simps append.simps append_assoc append_Nil2,
      rule assms(2))

subsection \<open>PDU session establishment reject\<close>

record pdu_session_establishment_reject_msg =
  erej_5gsmcause :: u8
  erej_presence :: u8
  erej_gprstimer3 :: GPRSTimer
  erej_allowedsscmode :: AllowedSSCMode
  erej_eapmessage :: bstring
  erej_extendedprotocolconfigurationoptions :: pco
  erej_5gsmcongestionreattemptindicator :: CongestionReattemptIndicator

definition encode_pdu_session_establishment_reject :: "pdu_session_establishment_reject_msg \<Rightarrow> encoder" where
  "encode_pdu_session_establishment_reject msg = encoder_body 1
     [call (encode__5gsm_cause (erej_5gsmcause msg) 0),
      opt (erej_presence msg AND 0x01 = 0x01) (encode_gprs_timer3 (erej_gprstimer3 msg) 0x37),
      opt (erej_presence msg AND 0x02 = 0x02) (encode_allowed_ssc_mode (erej_allowedsscmode msg) 0xF0),
      opt (erej_presence msg AND 0x04 = 0x04) (encode_eap_message (erej_eapmessage msg) 0x78),
      opt (erej_presence msg AND 0x08 = 0x08) (encode_extended_protocol_configuration_options (erej_extendedprotocolconfigurationoptions msg) 0x7B),
      opt (erej_presence msg AND 0x10 = 0x10) (encode__5gsm_congestion_reattempt_indicator (erej_5gsmcongestionreattemptindicator msg) 0x61)]"

definition erej_half :: "(u8 \<times> pdu_session_establishment_reject_msg dcmd) list" where
  "erej_half =
     [(0xF0, dcall (\<lambda>f. decode_allowed_ssc_mode f 0xF0) erej_allowedsscmode (\<lambda>v. erej_allowedsscmode_update (\<lambda>_. v)) (erej_presence_update (\<lambda>p. p OR 0x02)))]"

definition erej_full :: "(u8 \<times> pdu_session_establishment_reject_msg dcmd) list" where
  "erej_full =
     [(0x37, dcall (\<lambda>f. decode_gprs_timer3 f 0x37) erej_gprstimer3 (\<lambda>v. erej_gprstimer3_update (\<lambda>_. v)) (erej_presence_update (\<lambda>p. p OR 0x01))),
      (0x78, dcall (\<lambda>f. decode_eap_message f 0x78) erej_eapmessage (\<lambda>v. erej_eapmessage_update (\<lambda>_. v)) (erej_presence_update (\<lambda>p. p OR 0x04))),
      (0x7B, dcall (\<lambda>f. decode_extended_protocol_configuration_options f 0x7B) erej_extendedprotocolconfigurationoptions (\<lambda>v. erej_extendedprotocolconfigurationoptions_update (\<lambda>_. v)) (erej_presence_update (\<lambda>p. p OR 0x08))),
      (0x61, dcall (\<lambda>f. decode__5gsm_congestion_reattempt_indicator f 0x61) erej_5gsmcongestionreattemptindicator (\<lambda>v. erej_5gsmcongestionreattemptindicator_update (\<lambda>_. v)) (erej_presence_update (\<lambda>p. p OR 0x10)))]"

definition decode_pdu_session_establishment_reject :: "pdu_session_establishment_reject_msg msg_decoder" where
  "decode_pdu_session_establishment_reject = msg_decoder 1
     [dcall (\<lambda>f. decode__5gsm_cause f 0) erej_5gsmcause (\<lambda>v. erej_5gsmcause_update (\<lambda>_. v)) (\<lambda>m. m)]
     (ie_step erej_half erej_full)"

definition erej_valid :: "pdu_session_establishment_reject_msg \<Rightarrow> bool" where
  "erej_valid msg \<longleftrightarrow>
     (erej_presence msg AND 0x04 = 0x04 \<longrightarrow> eap_valid (erej_eapmessage msg)) \<and>
     (erej_presence msg AND 0x08 = 0x08 \<longrightarrow> pco_valid (erej_extendedprotocolconfigurationoptions msg))"

definition erej_mand_wire :: "pdu_session_establishment_reject_msg \<Rightarrow> u8 list" where
  "erej_mand_wire msg = concat [cause_wire (erej_5gsmcause msg) 0]"

definition erej_opt_wire :: "pdu_session_establishment_reject_msg \<Rightarrow> u8 list" where
  "erej_opt_wire msg = concat
     [(if erej_presence msg AND 0x01 = 0x01 then gprs_timer3_wire (erej_gprstimer3 msg) 0x37 else []),
      (if erej_presence msg AND 0x02 = 0x02 then allowed_ssc_wire (erej_allowedsscmode msg) 0xF0 else []),
      (if erej_presence msg AND 0x04 = 0x04 then eap_wire (erej_eapmessage msg) 0x78 else []),
      (if erej_presence msg AND 0x08 = 0x08 then epco_wire (erej_extendedprotocolconfigurationoptions msg) 0x7B else []),
      (if erej_presence msg AND 0x10 = 0x10 then congestion_wire (erej_5gsmcongestionreattemptindicator msg) 0x61 else [])]"

definition erej_wire :: "pdu_session_establishment_reject_msg \<Rightarrow> u8 list" where
  "erej_wire msg = erej_mand_wire msg @ erej_opt_wire msg"

definition erej_mand_seen :: "pdu_session_establishment_reject_msg \<Rightarrow> pdu_session_establishment_reject_msg \<Rightarrow> pdu_session_establishment_reject_msg" where
  "erej_mand_seen m msg = m\<lparr>erej_5gsmcause := erej_5gsmcause msg\<rparr>"

definition erej_opt_seen :: "pdu_session_establishment_reject_msg \<Rightarrow> pdu_session_establishment_reject_msg \<Rightarrow> pdu_session_establishment_reject_msg" where
  "erej_opt_seen m msg = updates
     [when_present (erej_presence msg AND 0x01 = 0x01)
        (\<lambda>m. erej_presence_update (\<lambda>p. p OR 0x01) (m\<lparr>erej_gprstimer3 := erej_gprstimer3 msg\<rparr>)),
      when_present (erej_presence msg AND 0x02 = 0x02)
        (\<lambda>m. erej_presence_update (\<lambda>p. p OR 0x02) (m\<lparr>erej_allowedsscmode := erej_allowedsscmode msg\<rparr>)),
      when_present (erej_presence msg AND 0x04 = 0x04)
        (\<lambda>m. erej_presence_update (\<lambda>p. p OR 0x04) (m\<lparr>erej_eapmessage := Some (bstr (erej_eapmessage msg))\<rparr>)),
      when_present (erej_presence msg AND 0x08 = 0x08)
        (\<lambda>m. erej_presence_update (\<lambda>p. p OR 0x08) (m\<lparr>erej_extendedprotocolconfigurationoptions := pco_seen (erej_extendedprotocolconfigurationoptions m) (erej_extendedprotocolconfigurationoptions msg)\<rparr>)),
      when_present (erej_presence msg AND 0x10 = 0x10)
        (\<lambda>m. erej_presence_update (\<lambda>p. p OR 0x10) (m\<lparr>erej_5gsmcongestionreattemptindicator := erej_5gsmcongestionreattemptindicator msg\<rparr>))] m"

definition erej_seen :: "pdu_session_establishment_reject_msg \<Rightarrow> pdu_session_establishment_reject_msg \<Rightarrow> pdu_session_establishment_reject_msg" where
  "erej_seen m msg = erej_opt_seen (erej_mand_seen m msg) msg"

lemma erej_min:
  assumes "erej_valid msg"
  shows "1 \<le> length (erej_wire msg)"
  using assms [unfolded erej_valid_def] by (simp add: erej_wire_def erej_mand_wire_def sm_lengths)

lemma encode_pdu_session_establishment_reject_ok:
  assumes "erej_valid msg"
  shows "encodes (encode_pdu_session_establishment_reject msg) (erej_wire msg)"
  unfolding encode_pdu_session_establishment_reject_def
  by (rule encodes_body, (rule sm_emits TrueI half_identifiers | (simp only: assms [unfolded erej_valid_def]; fail))+,
      simp only: erej_wire_def erej_mand_wire_def erej_opt_wire_def concat.simps append.simps append_assoc append_Nil2,
      rule erej_min [OF assms])

lemma encode_pdu_session_establishment_reject_safe:
  assumes "erej_presence msg AND 0x08 \<noteq> 0x08"
  shows "safe_encoder (encode_pdu_session_establishment_reject msg)"
  unfolding encode_pdu_session_establishment_reject_def
  by (rule safe_encoder_body, (rule sm_safe | (rule safe_opt, simp add: assms; fail) | rule safe_Cons)+)

lemma erej_mreads:
  assumes "erej_valid msg"
  shows "mreads [dcall (\<lambda>f. decode__5gsm_cause f 0) erej_5gsmcause (\<lambda>v. erej_5gsmcause_update (\<lambda>_. v)) (\<lambda>m. m)] (erej_mand_wire msg) m (erej_mand_seen m msg)"
  unfolding erej_mand_wire_def concat.simps
  by (rule mreads_to, (rule sm_mreads TrueI half_identifiers | (simp only: assms [unfolded erej_valid_def]; fail))+, simp add: erej_mand_seen_def)

lemma erej_reads:
  assumes "erej_valid msg"
  shows "reads (ie_step erej_half erej_full) (erej_opt_wire msg) m (erej_opt_seen m msg)"
  unfolding erej_half_def erej_full_def erej_opt_wire_def concat.simps
  by (rule reads_to, (rule sm_reads switch_here TrueI half_identifiers half_single | (rule switch_there, simp; fail) | (simp only: assms [unfolded erej_valid_def]; fail)
      | (rule full_wire, simp; fail) | (rule half_hd, simp add: type1_def; fail) | (simp; fail))+)
    (simp only: erej_opt_seen_def updates.simps)

lemma decode_pdu_session_establishment_reject_wire:
  assumes "erej_valid msg" and "unat len = length (erej_wire msg)"
  shows "decode_pdu_session_establishment_reject m (Some (erej_wire msg @ rest)) len
       = Some (Returned (int (length (erej_wire msg))) (erej_seen m msg))"
  using msg_decoder_reads [OF erej_mreads [OF assms(1)] erej_reads [OF assms(1)], of 1 len m rest] assms(2) erej_min [OF assms(1)]
  by (simp add: decode_pdu_session_establishment_reject_def erej_wire_def erej_seen_def)

lemma decode_pdu_session_establishment_reject_unknown:
  assumes "erej_valid msg" and "iei \<noteq> 0" and "iei AND 0xF0 \<notin> set (map fst erej_half)"
    and "iei \<notin> set (map fst erej_full)" and "length (erej_wire msg) < unat len"
  shows "decode_pdu_session_establishment_reject m (Some (erej_wire msg @ iei # rest)) len = None"
  using msg_decoder_unknown [OF erej_mreads [OF assms(1)] erej_reads [OF assms(1)] assms(2,3,4), of 1 len m rest] assms(5) erej_min [OF assms(1)]
  by (simp add: decode_pdu_session_establishment_reject_def erej_wire_def)

end
