(* ===== verification/SM_Modification.thy ===== *)
theory SM_Modification
  imports SM_Establishment
begin

text \<open>
  The PDU session modification messages (\<open>sm/msg/PDUSessionModification*.c\<close>).
  For each message: its structure (without the four header octets, which are in \<open>SM_msg\<close>), the encoder, the
  cases of the two switches of the decoder's loop, the decoder, the wire format, what the decoder leaves in
  the structure it fills, and the lemmas: the encoder writes the wire format, the decoder reads it back, an
  identifier unknown to both switches makes it loop for ever, and the encoder stays inside its buffer when no
  element with an unchecked encoder is present.
\<close>

subsection \<open>PDU session modification request\<close>

record pdu_session_modification_request_msg =
  mreq_presence :: u16
  mreq_5gsmcapability :: FiveGSMCapability
  mreq_5gsmcause :: u8
  mreq_maximumnumberofsupportedpacketfilters :: u16
  mreq_alwaysonpdusessionrequested :: AlwaysonPDUSessionRequested
  mreq_intergrityprotectionmaximumdatarate :: bstring
  mreq_qosrules :: QOSRules
  mreq_qosflowdescriptions :: QOSFlowDescriptions
  mreq_mappedepsbearercontexts :: bstring
  mreq_extendedprotocolconfigurationoptions :: pco

definition encode_pdu_session_modification_request :: "pdu_session_modification_request_msg \<Rightarrow> encoder" where
  "encode_pdu_session_modification_request msg = encoder_body 0
     [opt (mreq_presence msg AND 0x01 = 0x01) (encode__5gsm_capability (mreq_5gsmcapability msg) 0x28),
      opt (mreq_presence msg AND 0x02 = 0x02) (encode__5gsm_cause (mreq_5gsmcause msg) 0x59),
      opt (mreq_presence msg AND 0x04 = 0x04) (encode_maximum_number_of_supported_packet_filters (mreq_maximumnumberofsupportedpacketfilters msg) 0x55),
      opt (mreq_presence msg AND 0x08 = 0x08) (encode_alwayson_pdu_session_requested (mreq_alwaysonpdusessionrequested msg) 0xB0),
      opt (mreq_presence msg AND 0x10 = 0x10) (encode_intergrity_protection_maximum_data_rate (mreq_intergrityprotectionmaximumdatarate msg) 0x13),
      opt (mreq_presence msg AND 0x20 = 0x20) (encode_qos_rules (mreq_qosrules msg) 0x7A),
      opt (mreq_presence msg AND 0x40 = 0x40) (encode_qos_flow_descriptions (mreq_qosflowdescriptions msg) 0x79),
      opt (mreq_presence msg AND 0x100 = 0x100) (encode_extended_protocol_configuration_options (mreq_extendedprotocolconfigurationoptions msg) 0x7B)]"

definition mreq_half :: "(u8 \<times> pdu_session_modification_request_msg dcmd) list" where
  "mreq_half =
     [(0xB0, dcall (\<lambda>f. decode_alwayson_pdu_session_requested f 0xB0) mreq_alwaysonpdusessionrequested (\<lambda>v. mreq_alwaysonpdusessionrequested_update (\<lambda>_. v)) (mreq_presence_update (\<lambda>p. p OR 0x08)))]"

definition mreq_full :: "(u8 \<times> pdu_session_modification_request_msg dcmd) list" where
  "mreq_full =
     [(0x28, dcall (\<lambda>f. decode__5gsm_capability f 0x28) mreq_5gsmcapability (\<lambda>v. mreq_5gsmcapability_update (\<lambda>_. v)) (mreq_presence_update (\<lambda>p. p OR 0x01))),
      (0x59, dcall (\<lambda>f. decode__5gsm_cause f 0x59) mreq_5gsmcause (\<lambda>v. mreq_5gsmcause_update (\<lambda>_. v)) (mreq_presence_update (\<lambda>p. p OR 0x02))),
      (0x55, dcall (\<lambda>f. decode_maximum_number_of_supported_packet_filters f 0x55) mreq_maximumnumberofsupportedpacketfilters (\<lambda>v. mreq_maximumnumberofsupportedpacketfilters_update (\<lambda>_. v)) (mreq_presence_update (\<lambda>p. p OR 0x04))),
      (0x13, dcall (\<lambda>f. decode_intergrity_protection_maximum_data_rate f 0x13) mreq_intergrityprotectionmaximumdatarate (\<lambda>v. mreq_intergrityprotectionmaximumdatarate_update (\<lambda>_. v)) (mreq_presence_update (\<lambda>p. p OR 0x10))),
      (0x7A, dcall (\<lambda>f. decode_qos_rules f 0x7A) mreq_qosrules (\<lambda>v. mreq_qosrules_update (\<lambda>_. v)) (mreq_presence_update (\<lambda>p. p OR 0x20))),
      (0x79, dcall (\<lambda>f. decode_qos_flow_descriptions f 0x79) mreq_qosflowdescriptions (\<lambda>v. mreq_qosflowdescriptions_update (\<lambda>_. v)) (mreq_presence_update (\<lambda>p. p OR 0x40))),
      (0x7B, dcall (\<lambda>f. decode_extended_protocol_configuration_options f 0x7B) mreq_extendedprotocolconfigurationoptions (\<lambda>v. mreq_extendedprotocolconfigurationoptions_update (\<lambda>_. v)) (mreq_presence_update (\<lambda>p. p OR 0x100)))]"

definition decode_pdu_session_modification_request :: "pdu_session_modification_request_msg msg_decoder" where
  "decode_pdu_session_modification_request = msg_decoder 0
     []
     (ie_step mreq_half mreq_full)"

definition mreq_valid :: "pdu_session_modification_request_msg \<Rightarrow> bool" where
  "mreq_valid msg \<longleftrightarrow>
     (mreq_presence msg AND 0x04 = 0x04 \<longrightarrow> (mreq_maximumnumberofsupportedpacketfilters msg) < 2048) \<and>
     (mreq_presence msg AND 0x10 = 0x10 \<longrightarrow> length (bstr (mreq_intergrityprotectionmaximumdatarate msg)) = 2) \<and>
     (mreq_presence msg AND 0x20 = 0x20 \<longrightarrow> qos_rules_ok (mreq_qosrules msg)) \<and>
     (mreq_presence msg AND 0x40 = 0x40 \<longrightarrow> qos_flow_descriptions_valid (mreq_qosflowdescriptions msg)) \<and>
     (mreq_presence msg AND 0x100 = 0x100 \<longrightarrow> pco_valid (mreq_extendedprotocolconfigurationoptions msg))"

definition mreq_mand_wire :: "pdu_session_modification_request_msg \<Rightarrow> u8 list" where
  "mreq_mand_wire msg = concat []"

definition mreq_opt_wire :: "pdu_session_modification_request_msg \<Rightarrow> u8 list" where
  "mreq_opt_wire msg = concat
     [(if mreq_presence msg AND 0x01 = 0x01 then capability_wire (mreq_5gsmcapability msg) 0x28 else []),
      (if mreq_presence msg AND 0x02 = 0x02 then cause_wire (mreq_5gsmcause msg) 0x59 else []),
      (if mreq_presence msg AND 0x04 = 0x04 then max_pf_wire (mreq_maximumnumberofsupportedpacketfilters msg) 0x55 else []),
      (if mreq_presence msg AND 0x08 = 0x08 then apsr_wire (mreq_alwaysonpdusessionrequested msg) 0xB0 else []),
      (if mreq_presence msg AND 0x10 = 0x10 then integrity_rate_wire (mreq_intergrityprotectionmaximumdatarate msg) 0x13 else []),
      (if mreq_presence msg AND 0x20 = 0x20 then qos_rules_wire (mreq_qosrules msg) 0x7A else []),
      (if mreq_presence msg AND 0x40 = 0x40 then qos_flow_descriptions_wire (mreq_qosflowdescriptions msg) 0x79 else []),
      (if mreq_presence msg AND 0x100 = 0x100 then epco_wire (mreq_extendedprotocolconfigurationoptions msg) 0x7B else [])]"

definition mreq_wire :: "pdu_session_modification_request_msg \<Rightarrow> u8 list" where
  "mreq_wire msg = mreq_mand_wire msg @ mreq_opt_wire msg"

definition mreq_mand_seen :: "pdu_session_modification_request_msg \<Rightarrow> pdu_session_modification_request_msg \<Rightarrow> pdu_session_modification_request_msg" where
  "mreq_mand_seen m msg = m"

definition mreq_opt_seen :: "pdu_session_modification_request_msg \<Rightarrow> pdu_session_modification_request_msg \<Rightarrow> pdu_session_modification_request_msg" where
  "mreq_opt_seen m msg = updates
     [when_present (mreq_presence msg AND 0x01 = 0x01)
        (\<lambda>m. mreq_presence_update (\<lambda>p. p OR 0x01) (m\<lparr>mreq_5gsmcapability := mreq_5gsmcapability msg\<rparr>)),
      when_present (mreq_presence msg AND 0x02 = 0x02)
        (\<lambda>m. mreq_presence_update (\<lambda>p. p OR 0x02) (m\<lparr>mreq_5gsmcause := mreq_5gsmcause msg\<rparr>)),
      when_present (mreq_presence msg AND 0x04 = 0x04)
        (\<lambda>m. mreq_presence_update (\<lambda>p. p OR 0x04) (m\<lparr>mreq_maximumnumberofsupportedpacketfilters := mreq_maximumnumberofsupportedpacketfilters msg\<rparr>)),
      when_present (mreq_presence msg AND 0x08 = 0x08)
        (\<lambda>m. mreq_presence_update (\<lambda>p. p OR 0x08) (m\<lparr>mreq_alwaysonpdusessionrequested := mreq_alwaysonpdusessionrequested msg\<rparr>)),
      when_present (mreq_presence msg AND 0x10 = 0x10)
        (\<lambda>m. mreq_presence_update (\<lambda>p. p OR 0x10) (m\<lparr>mreq_intergrityprotectionmaximumdatarate := Some (bstr (mreq_intergrityprotectionmaximumdatarate msg))\<rparr>)),
      when_present (mreq_presence msg AND 0x20 = 0x20)
        (\<lambda>m. mreq_presence_update (\<lambda>p. p OR 0x20) (m\<lparr>mreq_qosrules := qos_rules_seen (mreq_qosrules m) (mreq_qosrules msg)\<rparr>)),
      when_present (mreq_presence msg AND 0x40 = 0x40)
        (\<lambda>m. mreq_presence_update (\<lambda>p. p OR 0x40) (m\<lparr>mreq_qosflowdescriptions := qos_flow_descriptions_seen (mreq_qosflowdescriptions m) (mreq_qosflowdescriptions msg)\<rparr>)),
      when_present (mreq_presence msg AND 0x100 = 0x100)
        (\<lambda>m. mreq_presence_update (\<lambda>p. p OR 0x100) (m\<lparr>mreq_extendedprotocolconfigurationoptions := pco_seen (mreq_extendedprotocolconfigurationoptions m) (mreq_extendedprotocolconfigurationoptions msg)\<rparr>))] m"

definition mreq_seen :: "pdu_session_modification_request_msg \<Rightarrow> pdu_session_modification_request_msg \<Rightarrow> pdu_session_modification_request_msg" where
  "mreq_seen m msg = mreq_opt_seen (mreq_mand_seen m msg) msg"

lemma mreq_min:
  assumes "mreq_valid msg"
  shows "0 \<le> length (mreq_wire msg)"
  using assms [unfolded mreq_valid_def] by (simp add: mreq_wire_def mreq_mand_wire_def sm_lengths)

lemma encode_pdu_session_modification_request_ok:
  assumes "mreq_valid msg"
  shows "encodes (encode_pdu_session_modification_request msg) (mreq_wire msg)"
  unfolding encode_pdu_session_modification_request_def
  by (rule encodes_body, (rule sm_emits TrueI half_identifiers | (simp only: assms [unfolded mreq_valid_def]; fail))+,
      simp only: mreq_wire_def mreq_mand_wire_def mreq_opt_wire_def concat.simps append.simps append_assoc append_Nil2,
      rule mreq_min [OF assms])

lemma encode_pdu_session_modification_request_safe:
  assumes "mreq_presence msg AND 0x20 \<noteq> 0x20" and "mreq_presence msg AND 0x40 \<noteq> 0x40" and "mreq_presence msg AND 0x100 \<noteq> 0x100"
  shows "safe_encoder (encode_pdu_session_modification_request msg)"
  unfolding encode_pdu_session_modification_request_def
  by (rule safe_encoder_body, (rule sm_safe | (rule safe_opt, simp add: assms; fail) | rule safe_Cons)+)

lemma mreq_mreads:
  assumes "mreq_valid msg"
  shows "mreads [] (mreq_mand_wire msg) m (mreq_mand_seen m msg)"
  unfolding mreq_mand_wire_def concat.simps
  by (rule mreads_to, (rule sm_mreads TrueI half_identifiers | (simp only: assms [unfolded mreq_valid_def]; fail))+, simp add: mreq_mand_seen_def)

lemma mreq_reads:
  assumes "mreq_valid msg"
  shows "reads (ie_step mreq_half mreq_full) (mreq_opt_wire msg) m (mreq_opt_seen m msg)"
  unfolding mreq_half_def mreq_full_def mreq_opt_wire_def concat.simps
  by (rule reads_to, (rule sm_reads switch_here TrueI half_identifiers half_single | (rule switch_there, simp; fail) | (simp only: assms [unfolded mreq_valid_def]; fail)
      | (rule full_wire, simp; fail) | (rule half_hd, simp add: type1_def; fail) | (simp; fail))+)
    (simp only: mreq_opt_seen_def updates.simps)

lemma decode_pdu_session_modification_request_wire:
  assumes "mreq_valid msg" and "unat len = length (mreq_wire msg)"
  shows "decode_pdu_session_modification_request m (Some (mreq_wire msg @ rest)) len
       = Some (Returned (int (length (mreq_wire msg))) (mreq_seen m msg))"
  using msg_decoder_reads [OF mreq_mreads [OF assms(1)] mreq_reads [OF assms(1)], of 0 len m rest] assms(2) mreq_min [OF assms(1)]
  by (simp add: decode_pdu_session_modification_request_def mreq_wire_def mreq_seen_def)

lemma decode_pdu_session_modification_request_unknown:
  assumes "mreq_valid msg" and "iei \<noteq> 0" and "iei AND 0xF0 \<notin> set (map fst mreq_half)"
    and "iei \<notin> set (map fst mreq_full)" and "length (mreq_wire msg) < unat len"
  shows "decode_pdu_session_modification_request m (Some (mreq_wire msg @ iei # rest)) len = None"
  using msg_decoder_unknown [OF mreq_mreads [OF assms(1)] mreq_reads [OF assms(1)] assms(2,3,4), of 0 len m rest] assms(5) mreq_min [OF assms(1)]
  by (simp add: decode_pdu_session_modification_request_def mreq_wire_def)

subsection \<open>PDU session modification reject\<close>

record pdu_session_modification_reject_msg =
  mrej_5gsmcause :: u8
  mrej_presence :: u8
  mrej_gprstimer3 :: GPRSTimer
  mrej_extendedprotocolconfigurationoptions :: pco
  mrej_5gsmcongestionreattemptindicator :: CongestionReattemptIndicator

definition encode_pdu_session_modification_reject :: "pdu_session_modification_reject_msg \<Rightarrow> encoder" where
  "encode_pdu_session_modification_reject msg = encoder_body 1
     [call (encode__5gsm_cause (mrej_5gsmcause msg) 0),
      opt (mrej_presence msg AND 0x01 = 0x01) (encode_gprs_timer3 (mrej_gprstimer3 msg) 0x37),
      opt (mrej_presence msg AND 0x02 = 0x02) (encode_extended_protocol_configuration_options (mrej_extendedprotocolconfigurationoptions msg) 0x7B),
      opt (mrej_presence msg AND 0x04 = 0x04) (encode__5gsm_congestion_reattempt_indicator (mrej_5gsmcongestionreattemptindicator msg) 0x61)]"

definition mrej_half :: "(u8 \<times> pdu_session_modification_reject_msg dcmd) list" where
  "mrej_half =
     []"

definition mrej_full :: "(u8 \<times> pdu_session_modification_reject_msg dcmd) list" where
  "mrej_full =
     [(0x37, dcall (\<lambda>f. decode_gprs_timer3 f 0x37) mrej_gprstimer3 (\<lambda>v. mrej_gprstimer3_update (\<lambda>_. v)) (mrej_presence_update (\<lambda>p. p OR 0x01))),
      (0x7B, dcall (\<lambda>f. decode_extended_protocol_configuration_options f 0x7B) mrej_extendedprotocolconfigurationoptions (\<lambda>v. mrej_extendedprotocolconfigurationoptions_update (\<lambda>_. v)) (mrej_presence_update (\<lambda>p. p OR 0x02))),
      (0x61, dcall (\<lambda>f. decode__5gsm_congestion_reattempt_indicator f 0x61) mrej_5gsmcongestionreattemptindicator (\<lambda>v. mrej_5gsmcongestionreattemptindicator_update (\<lambda>_. v)) (mrej_presence_update (\<lambda>p. p OR 0x04)))]"

definition decode_pdu_session_modification_reject :: "pdu_session_modification_reject_msg msg_decoder" where
  "decode_pdu_session_modification_reject = msg_decoder 1
     [dcall (\<lambda>f. decode__5gsm_cause f 0) mrej_5gsmcause (\<lambda>v. mrej_5gsmcause_update (\<lambda>_. v)) (\<lambda>m. m)]
     (ie_step mrej_half mrej_full)"

definition mrej_valid :: "pdu_session_modification_reject_msg \<Rightarrow> bool" where
  "mrej_valid msg \<longleftrightarrow>
     (mrej_presence msg AND 0x02 = 0x02 \<longrightarrow> pco_valid (mrej_extendedprotocolconfigurationoptions msg))"

definition mrej_mand_wire :: "pdu_session_modification_reject_msg \<Rightarrow> u8 list" where
  "mrej_mand_wire msg = concat [cause_wire (mrej_5gsmcause msg) 0]"

definition mrej_opt_wire :: "pdu_session_modification_reject_msg \<Rightarrow> u8 list" where
  "mrej_opt_wire msg = concat
     [(if mrej_presence msg AND 0x01 = 0x01 then gprs_timer3_wire (mrej_gprstimer3 msg) 0x37 else []),
      (if mrej_presence msg AND 0x02 = 0x02 then epco_wire (mrej_extendedprotocolconfigurationoptions msg) 0x7B else []),
      (if mrej_presence msg AND 0x04 = 0x04 then congestion_wire (mrej_5gsmcongestionreattemptindicator msg) 0x61 else [])]"

definition mrej_wire :: "pdu_session_modification_reject_msg \<Rightarrow> u8 list" where
  "mrej_wire msg = mrej_mand_wire msg @ mrej_opt_wire msg"

definition mrej_mand_seen :: "pdu_session_modification_reject_msg \<Rightarrow> pdu_session_modification_reject_msg \<Rightarrow> pdu_session_modification_reject_msg" where
  "mrej_mand_seen m msg = m\<lparr>mrej_5gsmcause := mrej_5gsmcause msg\<rparr>"

definition mrej_opt_seen :: "pdu_session_modification_reject_msg \<Rightarrow> pdu_session_modification_reject_msg \<Rightarrow> pdu_session_modification_reject_msg" where
  "mrej_opt_seen m msg = updates
     [when_present (mrej_presence msg AND 0x01 = 0x01)
        (\<lambda>m. mrej_presence_update (\<lambda>p. p OR 0x01) (m\<lparr>mrej_gprstimer3 := mrej_gprstimer3 msg\<rparr>)),
      when_present (mrej_presence msg AND 0x02 = 0x02)
        (\<lambda>m. mrej_presence_update (\<lambda>p. p OR 0x02) (m\<lparr>mrej_extendedprotocolconfigurationoptions := pco_seen (mrej_extendedprotocolconfigurationoptions m) (mrej_extendedprotocolconfigurationoptions msg)\<rparr>)),
      when_present (mrej_presence msg AND 0x04 = 0x04)
        (\<lambda>m. mrej_presence_update (\<lambda>p. p OR 0x04) (m\<lparr>mrej_5gsmcongestionreattemptindicator := mrej_5gsmcongestionreattemptindicator msg\<rparr>))] m"

definition mrej_seen :: "pdu_session_modification_reject_msg \<Rightarrow> pdu_session_modification_reject_msg \<Rightarrow> pdu_session_modification_reject_msg" where
  "mrej_seen m msg = mrej_opt_seen (mrej_mand_seen m msg) msg"

lemma mrej_min:
  assumes "mrej_valid msg"
  shows "1 \<le> length (mrej_wire msg)"
  using assms [unfolded mrej_valid_def] by (simp add: mrej_wire_def mrej_mand_wire_def sm_lengths)

lemma encode_pdu_session_modification_reject_ok:
  assumes "mrej_valid msg"
  shows "encodes (encode_pdu_session_modification_reject msg) (mrej_wire msg)"
  unfolding encode_pdu_session_modification_reject_def
  by (rule encodes_body, (rule sm_emits TrueI half_identifiers | (simp only: assms [unfolded mrej_valid_def]; fail))+,
      simp only: mrej_wire_def mrej_mand_wire_def mrej_opt_wire_def concat.simps append.simps append_assoc append_Nil2,
      rule mrej_min [OF assms])

lemma encode_pdu_session_modification_reject_safe:
  assumes "mrej_presence msg AND 0x02 \<noteq> 0x02"
  shows "safe_encoder (encode_pdu_session_modification_reject msg)"
  unfolding encode_pdu_session_modification_reject_def
  by (rule safe_encoder_body, (rule sm_safe | (rule safe_opt, simp add: assms; fail) | rule safe_Cons)+)

lemma mrej_mreads:
  assumes "mrej_valid msg"
  shows "mreads [dcall (\<lambda>f. decode__5gsm_cause f 0) mrej_5gsmcause (\<lambda>v. mrej_5gsmcause_update (\<lambda>_. v)) (\<lambda>m. m)] (mrej_mand_wire msg) m (mrej_mand_seen m msg)"
  unfolding mrej_mand_wire_def concat.simps
  by (rule mreads_to, (rule sm_mreads TrueI half_identifiers | (simp only: assms [unfolded mrej_valid_def]; fail))+, simp add: mrej_mand_seen_def)

lemma mrej_reads:
  assumes "mrej_valid msg"
  shows "reads (ie_step mrej_half mrej_full) (mrej_opt_wire msg) m (mrej_opt_seen m msg)"
  unfolding mrej_half_def mrej_full_def mrej_opt_wire_def concat.simps
  by (rule reads_to, (rule sm_reads switch_here TrueI half_identifiers half_single | (rule switch_there, simp; fail) | (simp only: assms [unfolded mrej_valid_def]; fail)
      | (rule full_wire, simp; fail) | (rule half_hd, simp add: type1_def; fail) | (simp; fail))+)
    (simp only: mrej_opt_seen_def updates.simps)

lemma decode_pdu_session_modification_reject_wire:
  assumes "mrej_valid msg" and "unat len = length (mrej_wire msg)"
  shows "decode_pdu_session_modification_reject m (Some (mrej_wire msg @ rest)) len
       = Some (Returned (int (length (mrej_wire msg))) (mrej_seen m msg))"
  using msg_decoder_reads [OF mrej_mreads [OF assms(1)] mrej_reads [OF assms(1)], of 1 len m rest] assms(2) mrej_min [OF assms(1)]
  by (simp add: decode_pdu_session_modification_reject_def mrej_wire_def mrej_seen_def)

lemma decode_pdu_session_modification_reject_unknown:
  assumes "mrej_valid msg" and "iei \<noteq> 0" and "iei AND 0xF0 \<notin> set (map fst mrej_half)"
    and "iei \<notin> set (map fst mrej_full)" and "length (mrej_wire msg) < unat len"
  shows "decode_pdu_session_modification_reject m (Some (mrej_wire msg @ iei # rest)) len = None"
  using msg_decoder_unknown [OF mrej_mreads [OF assms(1)] mrej_reads [OF assms(1)] assms(2,3,4), of 1 len m rest] assms(5) mrej_min [OF assms(1)]
  by (simp add: decode_pdu_session_modification_reject_def mrej_wire_def)

subsection \<open>PDU session modification command\<close>

record pdu_session_modification_command_msg =
  mcmd_presence :: u8
  mcmd_5gsmcause :: u8
  mcmd_sessionambr :: SessionAMBR
  mcmd_gprstimer :: GPRSTimer
  mcmd_alwaysonpdusessionindication :: AlwaysonPDUSessionIndication
  mcmd_qosrules :: QOSRules
  mcmd_mappedepsbearercontexts :: bstring
  mcmd_qosflowdescriptions :: QOSFlowDescriptions
  mcmd_extendedprotocolconfigurationoptions :: pco

definition encode_pdu_session_modification_command :: "pdu_session_modification_command_msg \<Rightarrow> encoder" where
  "encode_pdu_session_modification_command msg = encoder_body 0
     [opt (mcmd_presence msg AND 0x01 = 0x01) (encode__5gsm_cause (mcmd_5gsmcause msg) 0x59),
      opt (mcmd_presence msg AND 0x02 = 0x02) (encode_session_ambr (mcmd_sessionambr msg) 0x2A),
      opt (mcmd_presence msg AND 0x04 = 0x04) (encode_gprs_timer (mcmd_gprstimer msg) 0x56),
      opt (mcmd_presence msg AND 0x08 = 0x08) (encode_alwayson_pdu_session_indication (mcmd_alwaysonpdusessionindication msg) 0x80),
      opt (mcmd_presence msg AND 0x10 = 0x10) (encode_qos_rules (mcmd_qosrules msg) 0x7A),
      opt (mcmd_presence msg AND 0x40 = 0x40) (encode_qos_flow_descriptions (mcmd_qosflowdescriptions msg) 0x79),
      opt (mcmd_presence msg AND 0x80 = 0x80) (encode_extended_protocol_configuration_options (mcmd_extendedprotocolconfigurationoptions msg) 0x7B)]"

definition mcmd_half :: "(u8 \<times> pdu_session_modification_command_msg dcmd) list" where
  "mcmd_half =
     [(0x80, dcall (\<lambda>f. decode_alwayson_pdu_session_indication f 0x80) mcmd_alwaysonpdusessionindication (\<lambda>v. mcmd_alwaysonpdusessionindication_update (\<lambda>_. v)) (mcmd_presence_update (\<lambda>p. p OR 0x08)))]"

definition mcmd_full :: "(u8 \<times> pdu_session_modification_command_msg dcmd) list" where
  "mcmd_full =
     [(0x59, dcall (\<lambda>f. decode__5gsm_cause f 0x59) mcmd_5gsmcause (\<lambda>v. mcmd_5gsmcause_update (\<lambda>_. v)) (mcmd_presence_update (\<lambda>p. p OR 0x01))),
      (0x2A, dcall (\<lambda>f. decode_session_ambr f 0x2A) mcmd_sessionambr (\<lambda>v. mcmd_sessionambr_update (\<lambda>_. v)) (mcmd_presence_update (\<lambda>p. p OR 0x02))),
      (0x56, dcall (\<lambda>f. decode_gprs_timer f 0x56) mcmd_gprstimer (\<lambda>v. mcmd_gprstimer_update (\<lambda>_. v)) (mcmd_presence_update (\<lambda>p. p OR 0x04))),
      (0x7A, dcall (\<lambda>f. decode_qos_rules f 0x7A) mcmd_qosrules (\<lambda>v. mcmd_qosrules_update (\<lambda>_. v)) (mcmd_presence_update (\<lambda>p. p OR 0x10))),
      (0x79, dcall (\<lambda>f. decode_qos_flow_descriptions f 0x79) mcmd_qosflowdescriptions (\<lambda>v. mcmd_qosflowdescriptions_update (\<lambda>_. v)) (mcmd_presence_update (\<lambda>p. p OR 0x40))),
      (0x7B, dcall (\<lambda>f. decode_extended_protocol_configuration_options f 0x7B) mcmd_extendedprotocolconfigurationoptions (\<lambda>v. mcmd_extendedprotocolconfigurationoptions_update (\<lambda>_. v)) (mcmd_presence_update (\<lambda>p. p OR 0x80)))]"

definition decode_pdu_session_modification_command :: "pdu_session_modification_command_msg msg_decoder" where
  "decode_pdu_session_modification_command = msg_decoder 0
     []
     (ie_step mcmd_half mcmd_full)"

definition mcmd_valid :: "pdu_session_modification_command_msg \<Rightarrow> bool" where
  "mcmd_valid msg \<longleftrightarrow>
     (mcmd_presence msg AND 0x10 = 0x10 \<longrightarrow> qos_rules_ok (mcmd_qosrules msg)) \<and>
     (mcmd_presence msg AND 0x40 = 0x40 \<longrightarrow> qos_flow_descriptions_valid (mcmd_qosflowdescriptions msg)) \<and>
     (mcmd_presence msg AND 0x80 = 0x80 \<longrightarrow> pco_valid (mcmd_extendedprotocolconfigurationoptions msg))"

definition mcmd_mand_wire :: "pdu_session_modification_command_msg \<Rightarrow> u8 list" where
  "mcmd_mand_wire msg = concat []"

definition mcmd_opt_wire :: "pdu_session_modification_command_msg \<Rightarrow> u8 list" where
  "mcmd_opt_wire msg = concat
     [(if mcmd_presence msg AND 0x01 = 0x01 then cause_wire (mcmd_5gsmcause msg) 0x59 else []),
      (if mcmd_presence msg AND 0x02 = 0x02 then session_ambr_wire (mcmd_sessionambr msg) 0x2A else []),
      (if mcmd_presence msg AND 0x04 = 0x04 then gprs_timer_wire (mcmd_gprstimer msg) 0x56 else []),
      (if mcmd_presence msg AND 0x08 = 0x08 then apsi_wire (mcmd_alwaysonpdusessionindication msg) 0x80 else []),
      (if mcmd_presence msg AND 0x10 = 0x10 then qos_rules_wire (mcmd_qosrules msg) 0x7A else []),
      (if mcmd_presence msg AND 0x40 = 0x40 then qos_flow_descriptions_wire (mcmd_qosflowdescriptions msg) 0x79 else []),
      (if mcmd_presence msg AND 0x80 = 0x80 then epco_wire (mcmd_extendedprotocolconfigurationoptions msg) 0x7B else [])]"

definition mcmd_wire :: "pdu_session_modification_command_msg \<Rightarrow> u8 list" where
  "mcmd_wire msg = mcmd_mand_wire msg @ mcmd_opt_wire msg"

definition mcmd_mand_seen :: "pdu_session_modification_command_msg \<Rightarrow> pdu_session_modification_command_msg \<Rightarrow> pdu_session_modification_command_msg" where
  "mcmd_mand_seen m msg = m"

definition mcmd_opt_seen :: "pdu_session_modification_command_msg \<Rightarrow> pdu_session_modification_command_msg \<Rightarrow> pdu_session_modification_command_msg" where
  "mcmd_opt_seen m msg = updates
     [when_present (mcmd_presence msg AND 0x01 = 0x01)
        (\<lambda>m. mcmd_presence_update (\<lambda>p. p OR 0x01) (m\<lparr>mcmd_5gsmcause := mcmd_5gsmcause msg\<rparr>)),
      when_present (mcmd_presence msg AND 0x02 = 0x02)
        (\<lambda>m. mcmd_presence_update (\<lambda>p. p OR 0x02) (m\<lparr>mcmd_sessionambr := (mcmd_sessionambr msg)\<lparr>sessionambr_length := sessionambr_length (mcmd_sessionambr m)\<rparr>\<rparr>)),
      when_present (mcmd_presence msg AND 0x04 = 0x04)
        (\<lambda>m. mcmd_presence_update (\<lambda>p. p OR 0x04) (m\<lparr>mcmd_gprstimer := mcmd_gprstimer msg\<rparr>)),
      when_present (mcmd_presence msg AND 0x08 = 0x08)
        (\<lambda>m. mcmd_presence_update (\<lambda>p. p OR 0x08) (m\<lparr>mcmd_alwaysonpdusessionindication := mcmd_alwaysonpdusessionindication msg\<rparr>)),
      when_present (mcmd_presence msg AND 0x10 = 0x10)
        (\<lambda>m. mcmd_presence_update (\<lambda>p. p OR 0x10) (m\<lparr>mcmd_qosrules := qos_rules_seen (mcmd_qosrules m) (mcmd_qosrules msg)\<rparr>)),
      when_present (mcmd_presence msg AND 0x40 = 0x40)
        (\<lambda>m. mcmd_presence_update (\<lambda>p. p OR 0x40) (m\<lparr>mcmd_qosflowdescriptions := qos_flow_descriptions_seen (mcmd_qosflowdescriptions m) (mcmd_qosflowdescriptions msg)\<rparr>)),
      when_present (mcmd_presence msg AND 0x80 = 0x80)
        (\<lambda>m. mcmd_presence_update (\<lambda>p. p OR 0x80) (m\<lparr>mcmd_extendedprotocolconfigurationoptions := pco_seen (mcmd_extendedprotocolconfigurationoptions m) (mcmd_extendedprotocolconfigurationoptions msg)\<rparr>))] m"

definition mcmd_seen :: "pdu_session_modification_command_msg \<Rightarrow> pdu_session_modification_command_msg \<Rightarrow> pdu_session_modification_command_msg" where
  "mcmd_seen m msg = mcmd_opt_seen (mcmd_mand_seen m msg) msg"

lemma mcmd_min:
  assumes "mcmd_valid msg"
  shows "0 \<le> length (mcmd_wire msg)"
  using assms [unfolded mcmd_valid_def] by (simp add: mcmd_wire_def mcmd_mand_wire_def sm_lengths)

lemma encode_pdu_session_modification_command_ok:
  assumes "mcmd_valid msg"
  shows "encodes (encode_pdu_session_modification_command msg) (mcmd_wire msg)"
  unfolding encode_pdu_session_modification_command_def
  by (rule encodes_body, (rule sm_emits TrueI half_identifiers | (simp only: assms [unfolded mcmd_valid_def]; fail))+,
      simp only: mcmd_wire_def mcmd_mand_wire_def mcmd_opt_wire_def concat.simps append.simps append_assoc append_Nil2,
      rule mcmd_min [OF assms])

lemma encode_pdu_session_modification_command_safe:
  assumes "mcmd_presence msg AND 0x10 \<noteq> 0x10" and "mcmd_presence msg AND 0x40 \<noteq> 0x40" and "mcmd_presence msg AND 0x80 \<noteq> 0x80"
  shows "safe_encoder (encode_pdu_session_modification_command msg)"
  unfolding encode_pdu_session_modification_command_def
  by (rule safe_encoder_body, (rule sm_safe | (rule safe_opt, simp add: assms; fail) | rule safe_Cons)+)

lemma mcmd_mreads:
  assumes "mcmd_valid msg"
  shows "mreads [] (mcmd_mand_wire msg) m (mcmd_mand_seen m msg)"
  unfolding mcmd_mand_wire_def concat.simps
  by (rule mreads_to, (rule sm_mreads TrueI half_identifiers | (simp only: assms [unfolded mcmd_valid_def]; fail))+, simp add: mcmd_mand_seen_def)

lemma mcmd_reads:
  assumes "mcmd_valid msg"
  shows "reads (ie_step mcmd_half mcmd_full) (mcmd_opt_wire msg) m (mcmd_opt_seen m msg)"
  unfolding mcmd_half_def mcmd_full_def mcmd_opt_wire_def concat.simps
  by (rule reads_to, (rule sm_reads switch_here TrueI half_identifiers half_single | (rule switch_there, simp; fail) | (simp only: assms [unfolded mcmd_valid_def]; fail)
      | (rule full_wire, simp; fail) | (rule half_hd, simp add: type1_def; fail) | (simp; fail))+)
    (simp only: mcmd_opt_seen_def updates.simps)

lemma decode_pdu_session_modification_command_wire:
  assumes "mcmd_valid msg" and "unat len = length (mcmd_wire msg)"
  shows "decode_pdu_session_modification_command m (Some (mcmd_wire msg @ rest)) len
       = Some (Returned (int (length (mcmd_wire msg))) (mcmd_seen m msg))"
  using msg_decoder_reads [OF mcmd_mreads [OF assms(1)] mcmd_reads [OF assms(1)], of 0 len m rest] assms(2) mcmd_min [OF assms(1)]
  by (simp add: decode_pdu_session_modification_command_def mcmd_wire_def mcmd_seen_def)

lemma decode_pdu_session_modification_command_unknown:
  assumes "mcmd_valid msg" and "iei \<noteq> 0" and "iei AND 0xF0 \<notin> set (map fst mcmd_half)"
    and "iei \<notin> set (map fst mcmd_full)" and "length (mcmd_wire msg) < unat len"
  shows "decode_pdu_session_modification_command m (Some (mcmd_wire msg @ iei # rest)) len = None"
  using msg_decoder_unknown [OF mcmd_mreads [OF assms(1)] mcmd_reads [OF assms(1)] assms(2,3,4), of 0 len m rest] assms(5) mcmd_min [OF assms(1)]
  by (simp add: decode_pdu_session_modification_command_def mcmd_wire_def)

subsection \<open>PDU session modification complete\<close>

record pdu_session_modification_complete_msg =
  mcpl_presence :: u8
  mcpl_extendedprotocolconfigurationoptions :: pco

definition encode_pdu_session_modification_complete :: "pdu_session_modification_complete_msg \<Rightarrow> encoder" where
  "encode_pdu_session_modification_complete msg = encoder_body 0
     [opt (mcpl_presence msg AND 0x01 = 0x01) (encode_extended_protocol_configuration_options (mcpl_extendedprotocolconfigurationoptions msg) 0x7B)]"

definition mcpl_half :: "(u8 \<times> pdu_session_modification_complete_msg dcmd) list" where
  "mcpl_half =
     []"

definition mcpl_full :: "(u8 \<times> pdu_session_modification_complete_msg dcmd) list" where
  "mcpl_full =
     [(0x7B, dcall (\<lambda>f. decode_extended_protocol_configuration_options f 0x7B) mcpl_extendedprotocolconfigurationoptions (\<lambda>v. mcpl_extendedprotocolconfigurationoptions_update (\<lambda>_. v)) (mcpl_presence_update (\<lambda>p. p OR 0x01)))]"

definition decode_pdu_session_modification_complete :: "pdu_session_modification_complete_msg msg_decoder" where
  "decode_pdu_session_modification_complete = msg_decoder 0
     []
     (ie_step mcpl_half mcpl_full)"

definition mcpl_valid :: "pdu_session_modification_complete_msg \<Rightarrow> bool" where
  "mcpl_valid msg \<longleftrightarrow>
     (mcpl_presence msg AND 0x01 = 0x01 \<longrightarrow> pco_valid (mcpl_extendedprotocolconfigurationoptions msg))"

definition mcpl_mand_wire :: "pdu_session_modification_complete_msg \<Rightarrow> u8 list" where
  "mcpl_mand_wire msg = concat []"

definition mcpl_opt_wire :: "pdu_session_modification_complete_msg \<Rightarrow> u8 list" where
  "mcpl_opt_wire msg = concat
     [(if mcpl_presence msg AND 0x01 = 0x01 then epco_wire (mcpl_extendedprotocolconfigurationoptions msg) 0x7B else [])]"

definition mcpl_wire :: "pdu_session_modification_complete_msg \<Rightarrow> u8 list" where
  "mcpl_wire msg = mcpl_mand_wire msg @ mcpl_opt_wire msg"

definition mcpl_mand_seen :: "pdu_session_modification_complete_msg \<Rightarrow> pdu_session_modification_complete_msg \<Rightarrow> pdu_session_modification_complete_msg" where
  "mcpl_mand_seen m msg = m"

definition mcpl_opt_seen :: "pdu_session_modification_complete_msg \<Rightarrow> pdu_session_modification_complete_msg \<Rightarrow> pdu_session_modification_complete_msg" where
  "mcpl_opt_seen m msg = updates
     [when_present (mcpl_presence msg AND 0x01 = 0x01)
        (\<lambda>m. mcpl_presence_update (\<lambda>p. p OR 0x01) (m\<lparr>mcpl_extendedprotocolconfigurationoptions := pco_seen (mcpl_extendedprotocolconfigurationoptions m) (mcpl_extendedprotocolconfigurationoptions msg)\<rparr>))] m"

definition mcpl_seen :: "pdu_session_modification_complete_msg \<Rightarrow> pdu_session_modification_complete_msg \<Rightarrow> pdu_session_modification_complete_msg" where
  "mcpl_seen m msg = mcpl_opt_seen (mcpl_mand_seen m msg) msg"

lemma mcpl_min:
  assumes "mcpl_valid msg"
  shows "0 \<le> length (mcpl_wire msg)"
  using assms [unfolded mcpl_valid_def] by (simp add: mcpl_wire_def mcpl_mand_wire_def sm_lengths)

lemma encode_pdu_session_modification_complete_ok:
  assumes "mcpl_valid msg"
  shows "encodes (encode_pdu_session_modification_complete msg) (mcpl_wire msg)"
  unfolding encode_pdu_session_modification_complete_def
  by (rule encodes_body, (rule sm_emits TrueI half_identifiers | (simp only: assms [unfolded mcpl_valid_def]; fail))+,
      simp only: mcpl_wire_def mcpl_mand_wire_def mcpl_opt_wire_def concat.simps append.simps append_assoc append_Nil2,
      rule mcpl_min [OF assms])

lemma encode_pdu_session_modification_complete_safe:
  assumes "mcpl_presence msg AND 0x01 \<noteq> 0x01"
  shows "safe_encoder (encode_pdu_session_modification_complete msg)"
  unfolding encode_pdu_session_modification_complete_def
  by (rule safe_encoder_body, (rule sm_safe | (rule safe_opt, simp add: assms; fail) | rule safe_Cons)+)

lemma mcpl_mreads:
  assumes "mcpl_valid msg"
  shows "mreads [] (mcpl_mand_wire msg) m (mcpl_mand_seen m msg)"
  unfolding mcpl_mand_wire_def concat.simps
  by (rule mreads_to, (rule sm_mreads TrueI half_identifiers | (simp only: assms [unfolded mcpl_valid_def]; fail))+, simp add: mcpl_mand_seen_def)

lemma mcpl_reads:
  assumes "mcpl_valid msg"
  shows "reads (ie_step mcpl_half mcpl_full) (mcpl_opt_wire msg) m (mcpl_opt_seen m msg)"
  unfolding mcpl_half_def mcpl_full_def mcpl_opt_wire_def concat.simps
  by (rule reads_to, (rule sm_reads switch_here TrueI half_identifiers half_single | (rule switch_there, simp; fail) | (simp only: assms [unfolded mcpl_valid_def]; fail)
      | (rule full_wire, simp; fail) | (rule half_hd, simp add: type1_def; fail) | (simp; fail))+)
    (simp only: mcpl_opt_seen_def updates.simps)

lemma decode_pdu_session_modification_complete_wire:
  assumes "mcpl_valid msg" and "unat len = length (mcpl_wire msg)"
  shows "decode_pdu_session_modification_complete m (Some (mcpl_wire msg @ rest)) len
       = Some (Returned (int (length (mcpl_wire msg))) (mcpl_seen m msg))"
  using msg_decoder_reads [OF mcpl_mreads [OF assms(1)] mcpl_reads [OF assms(1)], of 0 len m rest] assms(2) mcpl_min [OF assms(1)]
  by (simp add: decode_pdu_session_modification_complete_def mcpl_wire_def mcpl_seen_def)

lemma decode_pdu_session_modification_complete_unknown:
  assumes "mcpl_valid msg" and "iei \<noteq> 0" and "iei AND 0xF0 \<notin> set (map fst mcpl_half)"
    and "iei \<notin> set (map fst mcpl_full)" and "length (mcpl_wire msg) < unat len"
  shows "decode_pdu_session_modification_complete m (Some (mcpl_wire msg @ iei # rest)) len = None"
  using msg_decoder_unknown [OF mcpl_mreads [OF assms(1)] mcpl_reads [OF assms(1)] assms(2,3,4), of 0 len m rest] assms(5) mcpl_min [OF assms(1)]
  by (simp add: decode_pdu_session_modification_complete_def mcpl_wire_def)

subsection \<open>PDU session modification command reject\<close>

record pdu_session_modification_command_reject_msg =
  mcrj_5gsmcause :: u8
  mcrj_presence :: u8
  mcrj_extendedprotocolconfigurationoptions :: pco

definition encode_pdu_session_modification_command_reject :: "pdu_session_modification_command_reject_msg \<Rightarrow> encoder" where
  "encode_pdu_session_modification_command_reject msg = encoder_body 1
     [call (encode__5gsm_cause (mcrj_5gsmcause msg) 0),
      opt (mcrj_presence msg AND 0x01 = 0x01) (encode_extended_protocol_configuration_options (mcrj_extendedprotocolconfigurationoptions msg) 0x7B)]"

definition mcrj_half :: "(u8 \<times> pdu_session_modification_command_reject_msg dcmd) list" where
  "mcrj_half =
     []"

definition mcrj_full :: "(u8 \<times> pdu_session_modification_command_reject_msg dcmd) list" where
  "mcrj_full =
     [(0x7B, dcall (\<lambda>f. decode_extended_protocol_configuration_options f 0x7B) mcrj_extendedprotocolconfigurationoptions (\<lambda>v. mcrj_extendedprotocolconfigurationoptions_update (\<lambda>_. v)) (mcrj_presence_update (\<lambda>p. p OR 0x01)))]"

definition decode_pdu_session_modification_command_reject :: "pdu_session_modification_command_reject_msg msg_decoder" where
  "decode_pdu_session_modification_command_reject = msg_decoder 1
     [dcall (\<lambda>f. decode__5gsm_cause f 0) mcrj_5gsmcause (\<lambda>v. mcrj_5gsmcause_update (\<lambda>_. v)) (\<lambda>m. m)]
     (ie_step mcrj_half mcrj_full)"

definition mcrj_valid :: "pdu_session_modification_command_reject_msg \<Rightarrow> bool" where
  "mcrj_valid msg \<longleftrightarrow>
     (mcrj_presence msg AND 0x01 = 0x01 \<longrightarrow> pco_valid (mcrj_extendedprotocolconfigurationoptions msg))"

definition mcrj_mand_wire :: "pdu_session_modification_command_reject_msg \<Rightarrow> u8 list" where
  "mcrj_mand_wire msg = concat [cause_wire (mcrj_5gsmcause msg) 0]"

definition mcrj_opt_wire :: "pdu_session_modification_command_reject_msg \<Rightarrow> u8 list" where
  "mcrj_opt_wire msg = concat
     [(if mcrj_presence msg AND 0x01 = 0x01 then epco_wire (mcrj_extendedprotocolconfigurationoptions msg) 0x7B else [])]"

definition mcrj_wire :: "pdu_session_modification_command_reject_msg \<Rightarrow> u8 list" where
  "mcrj_wire msg = mcrj_mand_wire msg @ mcrj_opt_wire msg"

definition mcrj_mand_seen :: "pdu_session_modification_command_reject_msg \<Rightarrow> pdu_session_modification_command_reject_msg \<Rightarrow> pdu_session_modification_command_reject_msg" where
  "mcrj_mand_seen m msg = m\<lparr>mcrj_5gsmcause := mcrj_5gsmcause msg\<rparr>"

definition mcrj_opt_seen :: "pdu_session_modification_command_reject_msg \<Rightarrow> pdu_session_modification_command_reject_msg \<Rightarrow> pdu_session_modification_command_reject_msg" where
  "mcrj_opt_seen m msg = updates
     [when_present (mcrj_presence msg AND 0x01 = 0x01)
        (\<lambda>m. mcrj_presence_update (\<lambda>p. p OR 0x01) (m\<lparr>mcrj_extendedprotocolconfigurationoptions := pco_seen (mcrj_extendedprotocolconfigurationoptions m) (mcrj_extendedprotocolconfigurationoptions msg)\<rparr>))] m"

definition mcrj_seen :: "pdu_session_modification_command_reject_msg \<Rightarrow> pdu_session_modification_command_reject_msg \<Rightarrow> pdu_session_modification_command_reject_msg" where
  "mcrj_seen m msg = mcrj_opt_seen (mcrj_mand_seen m msg) msg"

lemma mcrj_min:
  assumes "mcrj_valid msg"
  shows "1 \<le> length (mcrj_wire msg)"
  using assms [unfolded mcrj_valid_def] by (simp add: mcrj_wire_def mcrj_mand_wire_def sm_lengths)

lemma encode_pdu_session_modification_command_reject_ok:
  assumes "mcrj_valid msg"
  shows "encodes (encode_pdu_session_modification_command_reject msg) (mcrj_wire msg)"
  unfolding encode_pdu_session_modification_command_reject_def
  by (rule encodes_body, (rule sm_emits TrueI half_identifiers | (simp only: assms [unfolded mcrj_valid_def]; fail))+,
      simp only: mcrj_wire_def mcrj_mand_wire_def mcrj_opt_wire_def concat.simps append.simps append_assoc append_Nil2,
      rule mcrj_min [OF assms])

lemma encode_pdu_session_modification_command_reject_safe:
  assumes "mcrj_presence msg AND 0x01 \<noteq> 0x01"
  shows "safe_encoder (encode_pdu_session_modification_command_reject msg)"
  unfolding encode_pdu_session_modification_command_reject_def
  by (rule safe_encoder_body, (rule sm_safe | (rule safe_opt, simp add: assms; fail) | rule safe_Cons)+)

lemma mcrj_mreads:
  assumes "mcrj_valid msg"
  shows "mreads [dcall (\<lambda>f. decode__5gsm_cause f 0) mcrj_5gsmcause (\<lambda>v. mcrj_5gsmcause_update (\<lambda>_. v)) (\<lambda>m. m)] (mcrj_mand_wire msg) m (mcrj_mand_seen m msg)"
  unfolding mcrj_mand_wire_def concat.simps
  by (rule mreads_to, (rule sm_mreads TrueI half_identifiers | (simp only: assms [unfolded mcrj_valid_def]; fail))+, simp add: mcrj_mand_seen_def)

lemma mcrj_reads:
  assumes "mcrj_valid msg"
  shows "reads (ie_step mcrj_half mcrj_full) (mcrj_opt_wire msg) m (mcrj_opt_seen m msg)"
  unfolding mcrj_half_def mcrj_full_def mcrj_opt_wire_def concat.simps
  by (rule reads_to, (rule sm_reads switch_here TrueI half_identifiers half_single | (rule switch_there, simp; fail) | (simp only: assms [unfolded mcrj_valid_def]; fail)
      | (rule full_wire, simp; fail) | (rule half_hd, simp add: type1_def; fail) | (simp; fail))+)
    (simp only: mcrj_opt_seen_def updates.simps)

lemma decode_pdu_session_modification_command_reject_wire:
  assumes "mcrj_valid msg" and "unat len = length (mcrj_wire msg)"
  shows "decode_pdu_session_modification_command_reject m (Some (mcrj_wire msg @ rest)) len
       = Some (Returned (int (length (mcrj_wire msg))) (mcrj_seen m msg))"
  using msg_decoder_reads [OF mcrj_mreads [OF assms(1)] mcrj_reads [OF assms(1)], of 1 len m rest] assms(2) mcrj_min [OF assms(1)]
  by (simp add: decode_pdu_session_modification_command_reject_def mcrj_wire_def mcrj_seen_def)

lemma decode_pdu_session_modification_command_reject_unknown:
  assumes "mcrj_valid msg" and "iei \<noteq> 0" and "iei AND 0xF0 \<notin> set (map fst mcrj_half)"
    and "iei \<notin> set (map fst mcrj_full)" and "length (mcrj_wire msg) < unat len"
  shows "decode_pdu_session_modification_command_reject m (Some (mcrj_wire msg @ iei # rest)) len = None"
  using msg_decoder_unknown [OF mcrj_mreads [OF assms(1)] mcrj_reads [OF assms(1)] assms(2,3,4), of 1 len m rest] assms(5) mcrj_min [OF assms(1)]
  by (simp add: decode_pdu_session_modification_command_reject_def mcrj_wire_def)

end
