(* ===== verification/SM_Release.thy ===== *)
theory SM_Release
  imports SM_Modification
begin

text \<open>
  The PDU session release messages (\<open>sm/msg/PDUSessionRelease*.c\<close>).
  For each message: its structure (without the four header octets, which are in \<open>SM_msg\<close>), the encoder, the
  cases of the two switches of the decoder's loop, the decoder, the wire format, what the decoder leaves in
  the structure it fills, and the lemmas: the encoder writes the wire format, the decoder reads it back, an
  identifier unknown to both switches makes it loop for ever, and the encoder stays inside its buffer when no
  element with an unchecked encoder is present.
\<close>

subsection \<open>PDU session release request\<close>

record pdu_session_release_request_msg =
  rreq_presence :: u8
  rreq_5gsmcause :: u8
  rreq_extendedprotocolconfigurationoptions :: pco

definition encode_pdu_session_release_request :: "pdu_session_release_request_msg \<Rightarrow> encoder" where
  "encode_pdu_session_release_request msg = encoder_body 0
     [opt (rreq_presence msg AND 0x01 = 0x01) (encode__5gsm_cause (rreq_5gsmcause msg) 0x59),
      opt (rreq_presence msg AND 0x02 = 0x02) (encode_extended_protocol_configuration_options (rreq_extendedprotocolconfigurationoptions msg) 0x7B)]"

definition rreq_half :: "(u8 \<times> pdu_session_release_request_msg dcmd) list" where
  "rreq_half =
     []"

definition rreq_full :: "(u8 \<times> pdu_session_release_request_msg dcmd) list" where
  "rreq_full =
     [(0x59, dcall (\<lambda>f. decode__5gsm_cause f 0x59) rreq_5gsmcause (\<lambda>v. rreq_5gsmcause_update (\<lambda>_. v)) (rreq_presence_update (\<lambda>p. p OR 0x01))),
      (0x7B, dcall (\<lambda>f. decode_extended_protocol_configuration_options f 0x7B) rreq_extendedprotocolconfigurationoptions (\<lambda>v. rreq_extendedprotocolconfigurationoptions_update (\<lambda>_. v)) (rreq_presence_update (\<lambda>p. p OR 0x02)))]"

definition decode_pdu_session_release_request :: "pdu_session_release_request_msg msg_decoder" where
  "decode_pdu_session_release_request = msg_decoder 0
     []
     (ie_step rreq_half rreq_full)"

definition rreq_valid :: "pdu_session_release_request_msg \<Rightarrow> bool" where
  "rreq_valid msg \<longleftrightarrow>
     (rreq_presence msg AND 0x02 = 0x02 \<longrightarrow> pco_valid (rreq_extendedprotocolconfigurationoptions msg))"

definition rreq_mand_wire :: "pdu_session_release_request_msg \<Rightarrow> u8 list" where
  "rreq_mand_wire msg = concat []"

definition rreq_opt_wire :: "pdu_session_release_request_msg \<Rightarrow> u8 list" where
  "rreq_opt_wire msg = concat
     [(if rreq_presence msg AND 0x01 = 0x01 then cause_wire (rreq_5gsmcause msg) 0x59 else []),
      (if rreq_presence msg AND 0x02 = 0x02 then epco_wire (rreq_extendedprotocolconfigurationoptions msg) 0x7B else [])]"

definition rreq_wire :: "pdu_session_release_request_msg \<Rightarrow> u8 list" where
  "rreq_wire msg = rreq_mand_wire msg @ rreq_opt_wire msg"

definition rreq_mand_seen :: "pdu_session_release_request_msg \<Rightarrow> pdu_session_release_request_msg \<Rightarrow> pdu_session_release_request_msg" where
  "rreq_mand_seen m msg = m"

definition rreq_opt_seen :: "pdu_session_release_request_msg \<Rightarrow> pdu_session_release_request_msg \<Rightarrow> pdu_session_release_request_msg" where
  "rreq_opt_seen m msg = updates
     [when_present (rreq_presence msg AND 0x01 = 0x01)
        (\<lambda>m. rreq_presence_update (\<lambda>p. p OR 0x01) (m\<lparr>rreq_5gsmcause := rreq_5gsmcause msg\<rparr>)),
      when_present (rreq_presence msg AND 0x02 = 0x02)
        (\<lambda>m. rreq_presence_update (\<lambda>p. p OR 0x02) (m\<lparr>rreq_extendedprotocolconfigurationoptions := pco_seen (rreq_extendedprotocolconfigurationoptions m) (rreq_extendedprotocolconfigurationoptions msg)\<rparr>))] m"

definition rreq_seen :: "pdu_session_release_request_msg \<Rightarrow> pdu_session_release_request_msg \<Rightarrow> pdu_session_release_request_msg" where
  "rreq_seen m msg = rreq_opt_seen (rreq_mand_seen m msg) msg"

lemma rreq_min:
  assumes "rreq_valid msg"
  shows "0 \<le> length (rreq_wire msg)"
  using assms [unfolded rreq_valid_def] by (simp add: rreq_wire_def rreq_mand_wire_def sm_lengths)

lemma encode_pdu_session_release_request_ok:
  assumes "rreq_valid msg"
  shows "encodes (encode_pdu_session_release_request msg) (rreq_wire msg)"
  unfolding encode_pdu_session_release_request_def
  by (rule encodes_body, (rule sm_emits TrueI half_identifiers | (simp only: assms [unfolded rreq_valid_def]; fail))+,
      simp only: rreq_wire_def rreq_mand_wire_def rreq_opt_wire_def concat.simps append.simps append_assoc append_Nil2,
      rule rreq_min [OF assms])

lemma encode_pdu_session_release_request_safe:
  assumes "rreq_presence msg AND 0x02 \<noteq> 0x02"
  shows "safe_encoder (encode_pdu_session_release_request msg)"
  unfolding encode_pdu_session_release_request_def
  by (rule safe_encoder_body, (rule sm_safe | (rule safe_opt, simp add: assms; fail) | rule safe_Cons)+)

lemma rreq_mreads:
  assumes "rreq_valid msg"
  shows "mreads [] (rreq_mand_wire msg) m (rreq_mand_seen m msg)"
  unfolding rreq_mand_wire_def concat.simps
  by (rule mreads_to, (rule sm_mreads TrueI half_identifiers | (simp only: assms [unfolded rreq_valid_def]; fail))+, simp add: rreq_mand_seen_def)

lemma rreq_reads:
  assumes "rreq_valid msg"
  shows "reads (ie_step rreq_half rreq_full) (rreq_opt_wire msg) m (rreq_opt_seen m msg)"
  unfolding rreq_half_def rreq_full_def rreq_opt_wire_def concat.simps
  by (rule reads_to, (rule sm_reads switch_here TrueI half_identifiers half_single | (rule switch_there, simp; fail) | (simp only: assms [unfolded rreq_valid_def]; fail)
      | (rule full_wire, simp; fail) | (rule half_hd, simp add: type1_def; fail) | (simp; fail))+)
    (simp only: rreq_opt_seen_def updates.simps)

lemma decode_pdu_session_release_request_wire:
  assumes "rreq_valid msg" and "unat len = length (rreq_wire msg)"
  shows "decode_pdu_session_release_request m (Some (rreq_wire msg @ rest)) len
       = Some (Returned (int (length (rreq_wire msg))) (rreq_seen m msg))"
  using msg_decoder_reads [OF rreq_mreads [OF assms(1)] rreq_reads [OF assms(1)], of 0 len m rest] assms(2) rreq_min [OF assms(1)]
  by (simp add: decode_pdu_session_release_request_def rreq_wire_def rreq_seen_def)

lemma decode_pdu_session_release_request_unknown:
  assumes "rreq_valid msg" and "iei \<noteq> 0" and "iei AND 0xF0 \<notin> set (map fst rreq_half)"
    and "iei \<notin> set (map fst rreq_full)" and "length (rreq_wire msg) < unat len"
  shows "decode_pdu_session_release_request m (Some (rreq_wire msg @ iei # rest)) len = None"
  using msg_decoder_unknown [OF rreq_mreads [OF assms(1)] rreq_reads [OF assms(1)] assms(2,3,4), of 0 len m rest] assms(5) rreq_min [OF assms(1)]
  by (simp add: decode_pdu_session_release_request_def rreq_wire_def)

subsection \<open>PDU session release reject\<close>

record pdu_session_release_reject_msg =
  rrej_5gsmcause :: u8
  rrej_presence :: u8
  rrej_extendedprotocolconfigurationoptions :: pco

definition encode_pdu_session_release_reject :: "pdu_session_release_reject_msg \<Rightarrow> encoder" where
  "encode_pdu_session_release_reject msg = encoder_body 1
     [call (encode__5gsm_cause (rrej_5gsmcause msg) 0),
      opt (rrej_presence msg AND 0x01 = 0x01) (encode_extended_protocol_configuration_options (rrej_extendedprotocolconfigurationoptions msg) 0x7B)]"

definition rrej_half :: "(u8 \<times> pdu_session_release_reject_msg dcmd) list" where
  "rrej_half =
     []"

definition rrej_full :: "(u8 \<times> pdu_session_release_reject_msg dcmd) list" where
  "rrej_full =
     [(0x7B, dcall (\<lambda>f. decode_extended_protocol_configuration_options f 0x7B) rrej_extendedprotocolconfigurationoptions (\<lambda>v. rrej_extendedprotocolconfigurationoptions_update (\<lambda>_. v)) (rrej_presence_update (\<lambda>p. p OR 0x01)))]"

definition decode_pdu_session_release_reject :: "pdu_session_release_reject_msg msg_decoder" where
  "decode_pdu_session_release_reject = msg_decoder 1
     [dcall (\<lambda>f. decode__5gsm_cause f 0) rrej_5gsmcause (\<lambda>v. rrej_5gsmcause_update (\<lambda>_. v)) (\<lambda>m. m)]
     (ie_step rrej_half rrej_full)"

definition rrej_valid :: "pdu_session_release_reject_msg \<Rightarrow> bool" where
  "rrej_valid msg \<longleftrightarrow>
     (rrej_presence msg AND 0x01 = 0x01 \<longrightarrow> pco_valid (rrej_extendedprotocolconfigurationoptions msg))"

definition rrej_mand_wire :: "pdu_session_release_reject_msg \<Rightarrow> u8 list" where
  "rrej_mand_wire msg = concat [cause_wire (rrej_5gsmcause msg) 0]"

definition rrej_opt_wire :: "pdu_session_release_reject_msg \<Rightarrow> u8 list" where
  "rrej_opt_wire msg = concat
     [(if rrej_presence msg AND 0x01 = 0x01 then epco_wire (rrej_extendedprotocolconfigurationoptions msg) 0x7B else [])]"

definition rrej_wire :: "pdu_session_release_reject_msg \<Rightarrow> u8 list" where
  "rrej_wire msg = rrej_mand_wire msg @ rrej_opt_wire msg"

definition rrej_mand_seen :: "pdu_session_release_reject_msg \<Rightarrow> pdu_session_release_reject_msg \<Rightarrow> pdu_session_release_reject_msg" where
  "rrej_mand_seen m msg = m\<lparr>rrej_5gsmcause := rrej_5gsmcause msg\<rparr>"

definition rrej_opt_seen :: "pdu_session_release_reject_msg \<Rightarrow> pdu_session_release_reject_msg \<Rightarrow> pdu_session_release_reject_msg" where
  "rrej_opt_seen m msg = updates
     [when_present (rrej_presence msg AND 0x01 = 0x01)
        (\<lambda>m. rrej_presence_update (\<lambda>p. p OR 0x01) (m\<lparr>rrej_extendedprotocolconfigurationoptions := pco_seen (rrej_extendedprotocolconfigurationoptions m) (rrej_extendedprotocolconfigurationoptions msg)\<rparr>))] m"

definition rrej_seen :: "pdu_session_release_reject_msg \<Rightarrow> pdu_session_release_reject_msg \<Rightarrow> pdu_session_release_reject_msg" where
  "rrej_seen m msg = rrej_opt_seen (rrej_mand_seen m msg) msg"

lemma rrej_min:
  assumes "rrej_valid msg"
  shows "1 \<le> length (rrej_wire msg)"
  using assms [unfolded rrej_valid_def] by (simp add: rrej_wire_def rrej_mand_wire_def sm_lengths)

lemma encode_pdu_session_release_reject_ok:
  assumes "rrej_valid msg"
  shows "encodes (encode_pdu_session_release_reject msg) (rrej_wire msg)"
  unfolding encode_pdu_session_release_reject_def
  by (rule encodes_body, (rule sm_emits TrueI half_identifiers | (simp only: assms [unfolded rrej_valid_def]; fail))+,
      simp only: rrej_wire_def rrej_mand_wire_def rrej_opt_wire_def concat.simps append.simps append_assoc append_Nil2,
      rule rrej_min [OF assms])

lemma encode_pdu_session_release_reject_safe:
  assumes "rrej_presence msg AND 0x01 \<noteq> 0x01"
  shows "safe_encoder (encode_pdu_session_release_reject msg)"
  unfolding encode_pdu_session_release_reject_def
  by (rule safe_encoder_body, (rule sm_safe | (rule safe_opt, simp add: assms; fail) | rule safe_Cons)+)

lemma rrej_mreads:
  assumes "rrej_valid msg"
  shows "mreads [dcall (\<lambda>f. decode__5gsm_cause f 0) rrej_5gsmcause (\<lambda>v. rrej_5gsmcause_update (\<lambda>_. v)) (\<lambda>m. m)] (rrej_mand_wire msg) m (rrej_mand_seen m msg)"
  unfolding rrej_mand_wire_def concat.simps
  by (rule mreads_to, (rule sm_mreads TrueI half_identifiers | (simp only: assms [unfolded rrej_valid_def]; fail))+, simp add: rrej_mand_seen_def)

lemma rrej_reads:
  assumes "rrej_valid msg"
  shows "reads (ie_step rrej_half rrej_full) (rrej_opt_wire msg) m (rrej_opt_seen m msg)"
  unfolding rrej_half_def rrej_full_def rrej_opt_wire_def concat.simps
  by (rule reads_to, (rule sm_reads switch_here TrueI half_identifiers half_single | (rule switch_there, simp; fail) | (simp only: assms [unfolded rrej_valid_def]; fail)
      | (rule full_wire, simp; fail) | (rule half_hd, simp add: type1_def; fail) | (simp; fail))+)
    (simp only: rrej_opt_seen_def updates.simps)

lemma decode_pdu_session_release_reject_wire:
  assumes "rrej_valid msg" and "unat len = length (rrej_wire msg)"
  shows "decode_pdu_session_release_reject m (Some (rrej_wire msg @ rest)) len
       = Some (Returned (int (length (rrej_wire msg))) (rrej_seen m msg))"
  using msg_decoder_reads [OF rrej_mreads [OF assms(1)] rrej_reads [OF assms(1)], of 1 len m rest] assms(2) rrej_min [OF assms(1)]
  by (simp add: decode_pdu_session_release_reject_def rrej_wire_def rrej_seen_def)

lemma decode_pdu_session_release_reject_unknown:
  assumes "rrej_valid msg" and "iei \<noteq> 0" and "iei AND 0xF0 \<notin> set (map fst rrej_half)"
    and "iei \<notin> set (map fst rrej_full)" and "length (rrej_wire msg) < unat len"
  shows "decode_pdu_session_release_reject m (Some (rrej_wire msg @ iei # rest)) len = None"
  using msg_decoder_unknown [OF rrej_mreads [OF assms(1)] rrej_reads [OF assms(1)] assms(2,3,4), of 1 len m rest] assms(5) rrej_min [OF assms(1)]
  by (simp add: decode_pdu_session_release_reject_def rrej_wire_def)

subsection \<open>PDU session release command\<close>

record pdu_session_release_command_msg =
  rcmd_5gsmcause :: u8
  rcmd_presence :: u8
  rcmd_gprstimer3 :: GPRSTimer
  rcmd_eapmessage :: bstring
  rcmd_5gsmcongestionreattemptindicator :: CongestionReattemptIndicator
  rcmd_extendedprotocolconfigurationoptions :: pco

definition encode_pdu_session_release_command :: "pdu_session_release_command_msg \<Rightarrow> encoder" where
  "encode_pdu_session_release_command msg = encoder_body 1
     [call (encode__5gsm_cause (rcmd_5gsmcause msg) 0),
      opt (rcmd_presence msg AND 0x01 = 0x01) (encode_gprs_timer3 (rcmd_gprstimer3 msg) 0x37),
      opt (rcmd_presence msg AND 0x02 = 0x02) (encode_eap_message (rcmd_eapmessage msg) 0x78),
      opt (rcmd_presence msg AND 0x04 = 0x04) (encode__5gsm_congestion_reattempt_indicator (rcmd_5gsmcongestionreattemptindicator msg) 0x61),
      opt (rcmd_presence msg AND 0x08 = 0x08) (encode_extended_protocol_configuration_options (rcmd_extendedprotocolconfigurationoptions msg) 0x7B)]"

definition rcmd_half :: "(u8 \<times> pdu_session_release_command_msg dcmd) list" where
  "rcmd_half =
     []"

definition rcmd_full :: "(u8 \<times> pdu_session_release_command_msg dcmd) list" where
  "rcmd_full =
     [(0x37, dcall (\<lambda>f. decode_gprs_timer3 f 0x37) rcmd_gprstimer3 (\<lambda>v. rcmd_gprstimer3_update (\<lambda>_. v)) (rcmd_presence_update (\<lambda>p. p OR 0x01))),
      (0x78, dcall (\<lambda>f. decode_eap_message f 0x78) rcmd_eapmessage (\<lambda>v. rcmd_eapmessage_update (\<lambda>_. v)) (rcmd_presence_update (\<lambda>p. p OR 0x02))),
      (0x61, dcall (\<lambda>f. decode__5gsm_congestion_reattempt_indicator f 0x61) rcmd_5gsmcongestionreattemptindicator (\<lambda>v. rcmd_5gsmcongestionreattemptindicator_update (\<lambda>_. v)) (rcmd_presence_update (\<lambda>p. p OR 0x04))),
      (0x7B, dcall (\<lambda>f. decode_extended_protocol_configuration_options f 0x7B) rcmd_extendedprotocolconfigurationoptions (\<lambda>v. rcmd_extendedprotocolconfigurationoptions_update (\<lambda>_. v)) (rcmd_presence_update (\<lambda>p. p OR 0x08)))]"

definition decode_pdu_session_release_command :: "pdu_session_release_command_msg msg_decoder" where
  "decode_pdu_session_release_command = msg_decoder 1
     [dcall (\<lambda>f. decode__5gsm_cause f 0) rcmd_5gsmcause (\<lambda>v. rcmd_5gsmcause_update (\<lambda>_. v)) (\<lambda>m. m)]
     (ie_step rcmd_half rcmd_full)"

definition rcmd_valid :: "pdu_session_release_command_msg \<Rightarrow> bool" where
  "rcmd_valid msg \<longleftrightarrow>
     (rcmd_presence msg AND 0x02 = 0x02 \<longrightarrow> eap_valid (rcmd_eapmessage msg)) \<and>
     (rcmd_presence msg AND 0x08 = 0x08 \<longrightarrow> pco_valid (rcmd_extendedprotocolconfigurationoptions msg))"

definition rcmd_mand_wire :: "pdu_session_release_command_msg \<Rightarrow> u8 list" where
  "rcmd_mand_wire msg = concat [cause_wire (rcmd_5gsmcause msg) 0]"

definition rcmd_opt_wire :: "pdu_session_release_command_msg \<Rightarrow> u8 list" where
  "rcmd_opt_wire msg = concat
     [(if rcmd_presence msg AND 0x01 = 0x01 then gprs_timer3_wire (rcmd_gprstimer3 msg) 0x37 else []),
      (if rcmd_presence msg AND 0x02 = 0x02 then eap_wire (rcmd_eapmessage msg) 0x78 else []),
      (if rcmd_presence msg AND 0x04 = 0x04 then congestion_wire (rcmd_5gsmcongestionreattemptindicator msg) 0x61 else []),
      (if rcmd_presence msg AND 0x08 = 0x08 then epco_wire (rcmd_extendedprotocolconfigurationoptions msg) 0x7B else [])]"

definition rcmd_wire :: "pdu_session_release_command_msg \<Rightarrow> u8 list" where
  "rcmd_wire msg = rcmd_mand_wire msg @ rcmd_opt_wire msg"

definition rcmd_mand_seen :: "pdu_session_release_command_msg \<Rightarrow> pdu_session_release_command_msg \<Rightarrow> pdu_session_release_command_msg" where
  "rcmd_mand_seen m msg = m\<lparr>rcmd_5gsmcause := rcmd_5gsmcause msg\<rparr>"

definition rcmd_opt_seen :: "pdu_session_release_command_msg \<Rightarrow> pdu_session_release_command_msg \<Rightarrow> pdu_session_release_command_msg" where
  "rcmd_opt_seen m msg = updates
     [when_present (rcmd_presence msg AND 0x01 = 0x01)
        (\<lambda>m. rcmd_presence_update (\<lambda>p. p OR 0x01) (m\<lparr>rcmd_gprstimer3 := rcmd_gprstimer3 msg\<rparr>)),
      when_present (rcmd_presence msg AND 0x02 = 0x02)
        (\<lambda>m. rcmd_presence_update (\<lambda>p. p OR 0x02) (m\<lparr>rcmd_eapmessage := Some (bstr (rcmd_eapmessage msg))\<rparr>)),
      when_present (rcmd_presence msg AND 0x04 = 0x04)
        (\<lambda>m. rcmd_presence_update (\<lambda>p. p OR 0x04) (m\<lparr>rcmd_5gsmcongestionreattemptindicator := rcmd_5gsmcongestionreattemptindicator msg\<rparr>)),
      when_present (rcmd_presence msg AND 0x08 = 0x08)
        (\<lambda>m. rcmd_presence_update (\<lambda>p. p OR 0x08) (m\<lparr>rcmd_extendedprotocolconfigurationoptions := pco_seen (rcmd_extendedprotocolconfigurationoptions m) (rcmd_extendedprotocolconfigurationoptions msg)\<rparr>))] m"

definition rcmd_seen :: "pdu_session_release_command_msg \<Rightarrow> pdu_session_release_command_msg \<Rightarrow> pdu_session_release_command_msg" where
  "rcmd_seen m msg = rcmd_opt_seen (rcmd_mand_seen m msg) msg"

lemma rcmd_min:
  assumes "rcmd_valid msg"
  shows "1 \<le> length (rcmd_wire msg)"
  using assms [unfolded rcmd_valid_def] by (simp add: rcmd_wire_def rcmd_mand_wire_def sm_lengths)

lemma encode_pdu_session_release_command_ok:
  assumes "rcmd_valid msg"
  shows "encodes (encode_pdu_session_release_command msg) (rcmd_wire msg)"
  unfolding encode_pdu_session_release_command_def
  by (rule encodes_body, (rule sm_emits TrueI half_identifiers | (simp only: assms [unfolded rcmd_valid_def]; fail))+,
      simp only: rcmd_wire_def rcmd_mand_wire_def rcmd_opt_wire_def concat.simps append.simps append_assoc append_Nil2,
      rule rcmd_min [OF assms])

lemma encode_pdu_session_release_command_safe:
  assumes "rcmd_presence msg AND 0x08 \<noteq> 0x08"
  shows "safe_encoder (encode_pdu_session_release_command msg)"
  unfolding encode_pdu_session_release_command_def
  by (rule safe_encoder_body, (rule sm_safe | (rule safe_opt, simp add: assms; fail) | rule safe_Cons)+)

lemma rcmd_mreads:
  assumes "rcmd_valid msg"
  shows "mreads [dcall (\<lambda>f. decode__5gsm_cause f 0) rcmd_5gsmcause (\<lambda>v. rcmd_5gsmcause_update (\<lambda>_. v)) (\<lambda>m. m)] (rcmd_mand_wire msg) m (rcmd_mand_seen m msg)"
  unfolding rcmd_mand_wire_def concat.simps
  by (rule mreads_to, (rule sm_mreads TrueI half_identifiers | (simp only: assms [unfolded rcmd_valid_def]; fail))+, simp add: rcmd_mand_seen_def)

lemma rcmd_reads:
  assumes "rcmd_valid msg"
  shows "reads (ie_step rcmd_half rcmd_full) (rcmd_opt_wire msg) m (rcmd_opt_seen m msg)"
  unfolding rcmd_half_def rcmd_full_def rcmd_opt_wire_def concat.simps
  by (rule reads_to, (rule sm_reads switch_here TrueI half_identifiers half_single | (rule switch_there, simp; fail) | (simp only: assms [unfolded rcmd_valid_def]; fail)
      | (rule full_wire, simp; fail) | (rule half_hd, simp add: type1_def; fail) | (simp; fail))+)
    (simp only: rcmd_opt_seen_def updates.simps)

lemma decode_pdu_session_release_command_wire:
  assumes "rcmd_valid msg" and "unat len = length (rcmd_wire msg)"
  shows "decode_pdu_session_release_command m (Some (rcmd_wire msg @ rest)) len
       = Some (Returned (int (length (rcmd_wire msg))) (rcmd_seen m msg))"
  using msg_decoder_reads [OF rcmd_mreads [OF assms(1)] rcmd_reads [OF assms(1)], of 1 len m rest] assms(2) rcmd_min [OF assms(1)]
  by (simp add: decode_pdu_session_release_command_def rcmd_wire_def rcmd_seen_def)

lemma decode_pdu_session_release_command_unknown:
  assumes "rcmd_valid msg" and "iei \<noteq> 0" and "iei AND 0xF0 \<notin> set (map fst rcmd_half)"
    and "iei \<notin> set (map fst rcmd_full)" and "length (rcmd_wire msg) < unat len"
  shows "decode_pdu_session_release_command m (Some (rcmd_wire msg @ iei # rest)) len = None"
  using msg_decoder_unknown [OF rcmd_mreads [OF assms(1)] rcmd_reads [OF assms(1)] assms(2,3,4), of 1 len m rest] assms(5) rcmd_min [OF assms(1)]
  by (simp add: decode_pdu_session_release_command_def rcmd_wire_def)

subsection \<open>PDU session release complete\<close>

record pdu_session_release_complete_msg =
  rcpl_presence :: u8
  rcpl_5gsmcause :: u8
  rcpl_extendedprotocolconfigurationoptions :: pco

definition encode_pdu_session_release_complete :: "pdu_session_release_complete_msg \<Rightarrow> encoder" where
  "encode_pdu_session_release_complete msg = encoder_body 0
     [opt (rcpl_presence msg AND 0x01 = 0x01) (encode__5gsm_cause (rcpl_5gsmcause msg) 0x59),
      opt (rcpl_presence msg AND 0x02 = 0x02) (encode_extended_protocol_configuration_options (rcpl_extendedprotocolconfigurationoptions msg) 0x7B)]"

definition rcpl_half :: "(u8 \<times> pdu_session_release_complete_msg dcmd) list" where
  "rcpl_half =
     []"

definition rcpl_full :: "(u8 \<times> pdu_session_release_complete_msg dcmd) list" where
  "rcpl_full =
     [(0x59, dcall (\<lambda>f. decode__5gsm_cause f 0x59) rcpl_5gsmcause (\<lambda>v. rcpl_5gsmcause_update (\<lambda>_. v)) (rcpl_presence_update (\<lambda>p. p OR 0x01))),
      (0x7B, dcall (\<lambda>f. decode_extended_protocol_configuration_options f 0x7B) rcpl_extendedprotocolconfigurationoptions (\<lambda>v. rcpl_extendedprotocolconfigurationoptions_update (\<lambda>_. v)) (rcpl_presence_update (\<lambda>p. p OR 0x02)))]"

definition decode_pdu_session_release_complete :: "pdu_session_release_complete_msg msg_decoder" where
  "decode_pdu_session_release_complete = msg_decoder 0
     []
     (ie_step rcpl_half rcpl_full)"

definition rcpl_valid :: "pdu_session_release_complete_msg \<Rightarrow> bool" where
  "rcpl_valid msg \<longleftrightarrow>
     (rcpl_presence msg AND 0x02 = 0x02 \<longrightarrow> pco_valid (rcpl_extendedprotocolconfigurationoptions msg))"

definition rcpl_mand_wire :: "pdu_session_release_complete_msg \<Rightarrow> u8 list" where
  "rcpl_mand_wire msg = concat []"

definition rcpl_opt_wire :: "pdu_session_release_complete_msg \<Rightarrow> u8 list" where
  "rcpl_opt_wire msg = concat
     [(if rcpl_presence msg AND 0x01 = 0x01 then cause_wire (rcpl_5gsmcause msg) 0x59 else []),
      (if rcpl_presence msg AND 0x02 = 0x02 then epco_wire (rcpl_extendedprotocolconfigurationoptions msg) 0x7B else [])]"

definition rcpl_wire :: "pdu_session_release_complete_msg \<Rightarrow> u8 list" where
  "rcpl_wire msg = rcpl_mand_wire msg @ rcpl_opt_wire msg"

definition rcpl_mand_seen :: "pdu_session_release_complete_msg \<Rightarrow> pdu_session_release_complete_msg \<Rightarrow> pdu_session_release_complete_msg" where
  "rcpl_mand_seen m msg = m"

definition rcpl_opt_seen :: "pdu_session_release_complete_msg \<Rightarrow> pdu_session_release_complete_msg \<Rightarrow> pdu_session_release_complete_msg" where
  "rcpl_opt_seen m msg = updates
     [when_present (rcpl_presence msg AND 0x01 = 0x01)
        (\<lambda>m. rcpl_presence_update (\<lambda>p. p OR 0x01) (m\<lparr>rcpl_5gsmcause := rcpl_5gsmcause msg\<rparr>)),
      when_present (rcpl_presence msg AND 0x02 = 0x02)
        (\<lambda>m. rcpl_presence_update (\<lambda>p. p OR 0x02) (m\<lparr>rcpl_extendedprotocolconfigurationoptions := pco_seen (rcpl_extendedprotocolconfigurationoptions m) (rcpl_extendedprotocolconfigurationoptions msg)\<rparr>))] m"

definition rcpl_seen :: "pdu_session_release_complete_msg \<Rightarrow> pdu_session_release_complete_msg \<Rightarrow> pdu_session_release_complete_msg" where
  "rcpl_seen m msg = rcpl_opt_seen (rcpl_mand_seen m msg) msg"

lemma rcpl_min:
  assumes "rcpl_valid msg"
  shows "0 \<le> length (rcpl_wire msg)"
  using assms [unfolded rcpl_valid_def] by (simp add: rcpl_wire_def rcpl_mand_wire_def sm_lengths)

lemma encode_pdu_session_release_complete_ok:
  assumes "rcpl_valid msg"
  shows "encodes (encode_pdu_session_release_complete msg) (rcpl_wire msg)"
  unfolding encode_pdu_session_release_complete_def
  by (rule encodes_body, (rule sm_emits TrueI half_identifiers | (simp only: assms [unfolded rcpl_valid_def]; fail))+,
      simp only: rcpl_wire_def rcpl_mand_wire_def rcpl_opt_wire_def concat.simps append.simps append_assoc append_Nil2,
      rule rcpl_min [OF assms])

lemma encode_pdu_session_release_complete_safe:
  assumes "rcpl_presence msg AND 0x02 \<noteq> 0x02"
  shows "safe_encoder (encode_pdu_session_release_complete msg)"
  unfolding encode_pdu_session_release_complete_def
  by (rule safe_encoder_body, (rule sm_safe | (rule safe_opt, simp add: assms; fail) | rule safe_Cons)+)

lemma rcpl_mreads:
  assumes "rcpl_valid msg"
  shows "mreads [] (rcpl_mand_wire msg) m (rcpl_mand_seen m msg)"
  unfolding rcpl_mand_wire_def concat.simps
  by (rule mreads_to, (rule sm_mreads TrueI half_identifiers | (simp only: assms [unfolded rcpl_valid_def]; fail))+, simp add: rcpl_mand_seen_def)

lemma rcpl_reads:
  assumes "rcpl_valid msg"
  shows "reads (ie_step rcpl_half rcpl_full) (rcpl_opt_wire msg) m (rcpl_opt_seen m msg)"
  unfolding rcpl_half_def rcpl_full_def rcpl_opt_wire_def concat.simps
  by (rule reads_to, (rule sm_reads switch_here TrueI half_identifiers half_single | (rule switch_there, simp; fail) | (simp only: assms [unfolded rcpl_valid_def]; fail)
      | (rule full_wire, simp; fail) | (rule half_hd, simp add: type1_def; fail) | (simp; fail))+)
    (simp only: rcpl_opt_seen_def updates.simps)

lemma decode_pdu_session_release_complete_wire:
  assumes "rcpl_valid msg" and "unat len = length (rcpl_wire msg)"
  shows "decode_pdu_session_release_complete m (Some (rcpl_wire msg @ rest)) len
       = Some (Returned (int (length (rcpl_wire msg))) (rcpl_seen m msg))"
  using msg_decoder_reads [OF rcpl_mreads [OF assms(1)] rcpl_reads [OF assms(1)], of 0 len m rest] assms(2) rcpl_min [OF assms(1)]
  by (simp add: decode_pdu_session_release_complete_def rcpl_wire_def rcpl_seen_def)

lemma decode_pdu_session_release_complete_unknown:
  assumes "rcpl_valid msg" and "iei \<noteq> 0" and "iei AND 0xF0 \<notin> set (map fst rcpl_half)"
    and "iei \<notin> set (map fst rcpl_full)" and "length (rcpl_wire msg) < unat len"
  shows "decode_pdu_session_release_complete m (Some (rcpl_wire msg @ iei # rest)) len = None"
  using msg_decoder_unknown [OF rcpl_mreads [OF assms(1)] rcpl_reads [OF assms(1)] assms(2,3,4), of 0 len m rest] assms(5) rcpl_min [OF assms(1)]
  by (simp add: decode_pdu_session_release_complete_def rcpl_wire_def)

end
