(* ===== verification/SM_Auth.thy ===== *)
theory SM_Auth
  imports SM_Release
begin

text \<open>
  The PDU session authentication messages (\<open>sm/msg/PDUSessionAuthentication*.c\<close>) and the 5GSM status (\<open>_5GSMStatus.c\<close>).
  For each message: its structure (without the four header octets, which are in \<open>SM_msg\<close>), the encoder, the
  cases of the two switches of the decoder's loop, the decoder, the wire format, what the decoder leaves in
  the structure it fills, and the lemmas: the encoder writes the wire format, the decoder reads it back, an
  identifier unknown to both switches makes it loop for ever, and the encoder stays inside its buffer when no
  element with an unchecked encoder is present.
\<close>

subsection \<open>PDU session authentication command\<close>

record pdu_session_authentication_command_msg =
  acmd_eapmessage :: bstring
  acmd_presence :: u8
  acmd_extendedprotocolconfigurationoptions :: pco

definition encode_pdu_session_authentication_command :: "pdu_session_authentication_command_msg \<Rightarrow> encoder" where
  "encode_pdu_session_authentication_command msg = encoder_body 6
     [call (encode_eap_message (acmd_eapmessage msg) 0),
      opt (acmd_presence msg AND 0x01 = 0x01) (encode_extended_protocol_configuration_options (acmd_extendedprotocolconfigurationoptions msg) 0x7B)]"

definition acmd_half :: "(u8 \<times> pdu_session_authentication_command_msg dcmd) list" where
  "acmd_half =
     []"

definition acmd_full :: "(u8 \<times> pdu_session_authentication_command_msg dcmd) list" where
  "acmd_full =
     [(0x7B, dcall (\<lambda>f. decode_extended_protocol_configuration_options f 0x7B) acmd_extendedprotocolconfigurationoptions (\<lambda>v. acmd_extendedprotocolconfigurationoptions_update (\<lambda>_. v)) (acmd_presence_update (\<lambda>p. p OR 0x01)))]"

definition decode_pdu_session_authentication_command :: "pdu_session_authentication_command_msg msg_decoder" where
  "decode_pdu_session_authentication_command = msg_decoder 6
     [dcall (\<lambda>f. decode_eap_message f 0) acmd_eapmessage (\<lambda>v. acmd_eapmessage_update (\<lambda>_. v)) (\<lambda>m. m)]
     (ie_step acmd_half acmd_full)"

definition acmd_valid :: "pdu_session_authentication_command_msg \<Rightarrow> bool" where
  "acmd_valid msg \<longleftrightarrow>
     eap_valid (acmd_eapmessage msg) \<and>
     (acmd_presence msg AND 0x01 = 0x01 \<longrightarrow> pco_valid (acmd_extendedprotocolconfigurationoptions msg))"

definition acmd_mand_wire :: "pdu_session_authentication_command_msg \<Rightarrow> u8 list" where
  "acmd_mand_wire msg = concat [eap_wire (acmd_eapmessage msg) 0]"

definition acmd_opt_wire :: "pdu_session_authentication_command_msg \<Rightarrow> u8 list" where
  "acmd_opt_wire msg = concat
     [(if acmd_presence msg AND 0x01 = 0x01 then epco_wire (acmd_extendedprotocolconfigurationoptions msg) 0x7B else [])]"

definition acmd_wire :: "pdu_session_authentication_command_msg \<Rightarrow> u8 list" where
  "acmd_wire msg = acmd_mand_wire msg @ acmd_opt_wire msg"

definition acmd_mand_seen :: "pdu_session_authentication_command_msg \<Rightarrow> pdu_session_authentication_command_msg \<Rightarrow> pdu_session_authentication_command_msg" where
  "acmd_mand_seen m msg = m\<lparr>acmd_eapmessage := Some (bstr (acmd_eapmessage msg))\<rparr>"

definition acmd_opt_seen :: "pdu_session_authentication_command_msg \<Rightarrow> pdu_session_authentication_command_msg \<Rightarrow> pdu_session_authentication_command_msg" where
  "acmd_opt_seen m msg = updates
     [when_present (acmd_presence msg AND 0x01 = 0x01)
        (\<lambda>m. acmd_presence_update (\<lambda>p. p OR 0x01) (m\<lparr>acmd_extendedprotocolconfigurationoptions := pco_seen (acmd_extendedprotocolconfigurationoptions m) (acmd_extendedprotocolconfigurationoptions msg)\<rparr>))] m"

definition acmd_seen :: "pdu_session_authentication_command_msg \<Rightarrow> pdu_session_authentication_command_msg \<Rightarrow> pdu_session_authentication_command_msg" where
  "acmd_seen m msg = acmd_opt_seen (acmd_mand_seen m msg) msg"

lemma acmd_min:
  assumes "acmd_valid msg"
  shows "6 \<le> length (acmd_wire msg)"
  using assms [unfolded acmd_valid_def] by (simp add: acmd_wire_def acmd_mand_wire_def sm_lengths)

lemma encode_pdu_session_authentication_command_ok:
  assumes "acmd_valid msg"
  shows "encodes (encode_pdu_session_authentication_command msg) (acmd_wire msg)"
  unfolding encode_pdu_session_authentication_command_def
  by (rule encodes_body, (rule sm_emits TrueI half_identifiers | (simp only: assms [unfolded acmd_valid_def]; fail))+,
      simp only: acmd_wire_def acmd_mand_wire_def acmd_opt_wire_def concat.simps append.simps append_assoc append_Nil2,
      rule acmd_min [OF assms])

lemma encode_pdu_session_authentication_command_safe:
  assumes "acmd_presence msg AND 0x01 \<noteq> 0x01"
  shows "safe_encoder (encode_pdu_session_authentication_command msg)"
  unfolding encode_pdu_session_authentication_command_def
  by (rule safe_encoder_body, (rule sm_safe | (rule safe_opt, simp add: assms; fail) | rule safe_Cons)+)

lemma acmd_mreads:
  assumes "acmd_valid msg"
  shows "mreads [dcall (\<lambda>f. decode_eap_message f 0) acmd_eapmessage (\<lambda>v. acmd_eapmessage_update (\<lambda>_. v)) (\<lambda>m. m)] (acmd_mand_wire msg) m (acmd_mand_seen m msg)"
  unfolding acmd_mand_wire_def concat.simps
  by (rule mreads_to, (rule sm_mreads TrueI half_identifiers | (simp only: assms [unfolded acmd_valid_def]; fail))+, simp add: acmd_mand_seen_def)

lemma acmd_reads:
  assumes "acmd_valid msg"
  shows "reads (ie_step acmd_half acmd_full) (acmd_opt_wire msg) m (acmd_opt_seen m msg)"
  unfolding acmd_half_def acmd_full_def acmd_opt_wire_def concat.simps
  by (rule reads_to, (rule sm_reads switch_here TrueI half_identifiers half_single | (rule switch_there, simp; fail) | (simp only: assms [unfolded acmd_valid_def]; fail)
      | (rule full_wire, simp; fail) | (rule half_hd, simp add: type1_def; fail) | (simp; fail))+)
    (simp only: acmd_opt_seen_def updates.simps)

lemma decode_pdu_session_authentication_command_wire:
  assumes "acmd_valid msg" and "unat len = length (acmd_wire msg)"
  shows "decode_pdu_session_authentication_command m (Some (acmd_wire msg @ rest)) len
       = Some (Returned (int (length (acmd_wire msg))) (acmd_seen m msg))"
  using msg_decoder_reads [OF acmd_mreads [OF assms(1)] acmd_reads [OF assms(1)], of 6 len m rest] assms(2) acmd_min [OF assms(1)]
  by (simp add: decode_pdu_session_authentication_command_def acmd_wire_def acmd_seen_def)

lemma decode_pdu_session_authentication_command_unknown:
  assumes "acmd_valid msg" and "iei \<noteq> 0" and "iei AND 0xF0 \<notin> set (map fst acmd_half)"
    and "iei \<notin> set (map fst acmd_full)" and "length (acmd_wire msg) < unat len"
  shows "decode_pdu_session_authentication_command m (Some (acmd_wire msg @ iei # rest)) len = None"
  using msg_decoder_unknown [OF acmd_mreads [OF assms(1)] acmd_reads [OF assms(1)] assms(2,3,4), of 6 len m rest] assms(5) acmd_min [OF assms(1)]
  by (simp add: decode_pdu_session_authentication_command_def acmd_wire_def)

subsection \<open>PDU session authentication complete\<close>

record pdu_session_authentication_complete_msg =
  acpl_eapmessage :: bstring
  acpl_presence :: u8
  acpl_extendedprotocolconfigurationoptions :: pco

definition encode_pdu_session_authentication_complete :: "pdu_session_authentication_complete_msg \<Rightarrow> encoder" where
  "encode_pdu_session_authentication_complete msg = encoder_body 6
     [call (encode_eap_message (acpl_eapmessage msg) 0),
      opt (acpl_presence msg AND 0x01 = 0x01) (encode_extended_protocol_configuration_options (acpl_extendedprotocolconfigurationoptions msg) 0x7B)]"

definition acpl_half :: "(u8 \<times> pdu_session_authentication_complete_msg dcmd) list" where
  "acpl_half =
     []"

definition acpl_full :: "(u8 \<times> pdu_session_authentication_complete_msg dcmd) list" where
  "acpl_full =
     [(0x7B, dcall (\<lambda>f. decode_extended_protocol_configuration_options f 0x7B) acpl_extendedprotocolconfigurationoptions (\<lambda>v. acpl_extendedprotocolconfigurationoptions_update (\<lambda>_. v)) (acpl_presence_update (\<lambda>p. p OR 0x01)))]"

definition decode_pdu_session_authentication_complete :: "pdu_session_authentication_complete_msg msg_decoder" where
  "decode_pdu_session_authentication_complete = msg_decoder 6
     [dcall (\<lambda>f. decode_eap_message f 0) acpl_eapmessage (\<lambda>v. acpl_eapmessage_update (\<lambda>_. v)) (\<lambda>m. m)]
     (ie_step acpl_half acpl_full)"

definition acpl_valid :: "pdu_session_authentication_complete_msg \<Rightarrow> bool" where
  "acpl_valid msg \<longleftrightarrow>
     eap_valid (acpl_eapmessage msg) \<and>
     (acpl_presence msg AND 0x01 = 0x01 \<longrightarrow> pco_valid (acpl_extendedprotocolconfigurationoptions msg))"

definition acpl_mand_wire :: "pdu_session_authentication_complete_msg \<Rightarrow> u8 list" where
  "acpl_mand_wire msg = concat [eap_wire (acpl_eapmessage msg) 0]"

definition acpl_opt_wire :: "pdu_session_authentication_complete_msg \<Rightarrow> u8 list" where
  "acpl_opt_wire msg = concat
     [(if acpl_presence msg AND 0x01 = 0x01 then epco_wire (acpl_extendedprotocolconfigurationoptions msg) 0x7B else [])]"

definition acpl_wire :: "pdu_session_authentication_complete_msg \<Rightarrow> u8 list" where
  "acpl_wire msg = acpl_mand_wire msg @ acpl_opt_wire msg"

definition acpl_mand_seen :: "pdu_session_authentication_complete_msg \<Rightarrow> pdu_session_authentication_complete_msg \<Rightarrow> pdu_session_authentication_complete_msg" where
  "acpl_mand_seen m msg = m\<lparr>acpl_eapmessage := Some (bstr (acpl_eapmessage msg))\<rparr>"

definition acpl_opt_seen :: "pdu_session_authentication_complete_msg \<Rightarrow> pdu_session_authentication_complete_msg \<Rightarrow> pdu_session_authentication_complete_msg" where
  "acpl_opt_seen m msg = updates
     [when_present (acpl_presence msg AND 0x01 = 0x01)
        (\<lambda>m. acpl_presence_update (\<lambda>p. p OR 0x01) (m\<lparr>acpl_extendedprotocolconfigurationoptions := pco_seen (acpl_extendedprotocolconfigurationoptions m) (acpl_extendedprotocolconfigurationoptions msg)\<rparr>))] m"

definition acpl_seen :: "pdu_session_authentication_complete_msg \<Rightarrow> pdu_session_authentication_complete_msg \<Rightarrow> pdu_session_authentication_complete_msg" where
  "acpl_seen m msg = acpl_opt_seen (acpl_mand_seen m msg) msg"

lemma acpl_min:
  assumes "acpl_valid msg"
  shows "6 \<le> length (acpl_wire msg)"
  using assms [unfolded acpl_valid_def] by (simp add: acpl_wire_def acpl_mand_wire_def sm_lengths)

lemma encode_pdu_session_authentication_complete_ok:
  assumes "acpl_valid msg"
  shows "encodes (encode_pdu_session_authentication_complete msg) (acpl_wire msg)"
  unfolding encode_pdu_session_authentication_complete_def
  by (rule encodes_body, (rule sm_emits TrueI half_identifiers | (simp only: assms [unfolded acpl_valid_def]; fail))+,
      simp only: acpl_wire_def acpl_mand_wire_def acpl_opt_wire_def concat.simps append.simps append_assoc append_Nil2,
      rule acpl_min [OF assms])

lemma encode_pdu_session_authentication_complete_safe:
  assumes "acpl_presence msg AND 0x01 \<noteq> 0x01"
  shows "safe_encoder (encode_pdu_session_authentication_complete msg)"
  unfolding encode_pdu_session_authentication_complete_def
  by (rule safe_encoder_body, (rule sm_safe | (rule safe_opt, simp add: assms; fail) | rule safe_Cons)+)

lemma acpl_mreads:
  assumes "acpl_valid msg"
  shows "mreads [dcall (\<lambda>f. decode_eap_message f 0) acpl_eapmessage (\<lambda>v. acpl_eapmessage_update (\<lambda>_. v)) (\<lambda>m. m)] (acpl_mand_wire msg) m (acpl_mand_seen m msg)"
  unfolding acpl_mand_wire_def concat.simps
  by (rule mreads_to, (rule sm_mreads TrueI half_identifiers | (simp only: assms [unfolded acpl_valid_def]; fail))+, simp add: acpl_mand_seen_def)

lemma acpl_reads:
  assumes "acpl_valid msg"
  shows "reads (ie_step acpl_half acpl_full) (acpl_opt_wire msg) m (acpl_opt_seen m msg)"
  unfolding acpl_half_def acpl_full_def acpl_opt_wire_def concat.simps
  by (rule reads_to, (rule sm_reads switch_here TrueI half_identifiers half_single | (rule switch_there, simp; fail) | (simp only: assms [unfolded acpl_valid_def]; fail)
      | (rule full_wire, simp; fail) | (rule half_hd, simp add: type1_def; fail) | (simp; fail))+)
    (simp only: acpl_opt_seen_def updates.simps)

lemma decode_pdu_session_authentication_complete_wire:
  assumes "acpl_valid msg" and "unat len = length (acpl_wire msg)"
  shows "decode_pdu_session_authentication_complete m (Some (acpl_wire msg @ rest)) len
       = Some (Returned (int (length (acpl_wire msg))) (acpl_seen m msg))"
  using msg_decoder_reads [OF acpl_mreads [OF assms(1)] acpl_reads [OF assms(1)], of 6 len m rest] assms(2) acpl_min [OF assms(1)]
  by (simp add: decode_pdu_session_authentication_complete_def acpl_wire_def acpl_seen_def)

lemma decode_pdu_session_authentication_complete_unknown:
  assumes "acpl_valid msg" and "iei \<noteq> 0" and "iei AND 0xF0 \<notin> set (map fst acpl_half)"
    and "iei \<notin> set (map fst acpl_full)" and "length (acpl_wire msg) < unat len"
  shows "decode_pdu_session_authentication_complete m (Some (acpl_wire msg @ iei # rest)) len = None"
  using msg_decoder_unknown [OF acpl_mreads [OF assms(1)] acpl_reads [OF assms(1)] assms(2,3,4), of 6 len m rest] assms(5) acpl_min [OF assms(1)]
  by (simp add: decode_pdu_session_authentication_complete_def acpl_wire_def)

subsection \<open>PDU session authentication result\<close>

record pdu_session_authentication_result_msg =
  ares_presence :: u8
  ares_eapmessage :: bstring
  ares_extendedprotocolconfigurationoptions :: pco

definition encode_pdu_session_authentication_result :: "pdu_session_authentication_result_msg \<Rightarrow> encoder" where
  "encode_pdu_session_authentication_result msg = encoder_body 0
     [opt (ares_presence msg AND 0x01 = 0x01) (encode_eap_message (ares_eapmessage msg) 0x78),
      opt (ares_presence msg AND 0x02 = 0x02) (encode_extended_protocol_configuration_options (ares_extendedprotocolconfigurationoptions msg) 0x7B)]"

definition ares_half :: "(u8 \<times> pdu_session_authentication_result_msg dcmd) list" where
  "ares_half =
     []"

definition ares_full :: "(u8 \<times> pdu_session_authentication_result_msg dcmd) list" where
  "ares_full =
     [(0x78, dcall (\<lambda>f. decode_eap_message f 0x78) ares_eapmessage (\<lambda>v. ares_eapmessage_update (\<lambda>_. v)) (ares_presence_update (\<lambda>p. p OR 0x01))),
      (0x7B, dcall (\<lambda>f. decode_extended_protocol_configuration_options f 0x7B) ares_extendedprotocolconfigurationoptions (\<lambda>v. ares_extendedprotocolconfigurationoptions_update (\<lambda>_. v)) (ares_presence_update (\<lambda>p. p OR 0x02)))]"

definition decode_pdu_session_authentication_result :: "pdu_session_authentication_result_msg msg_decoder" where
  "decode_pdu_session_authentication_result = msg_decoder 0
     []
     (ie_step ares_half ares_full)"

definition ares_valid :: "pdu_session_authentication_result_msg \<Rightarrow> bool" where
  "ares_valid msg \<longleftrightarrow>
     (ares_presence msg AND 0x01 = 0x01 \<longrightarrow> eap_valid (ares_eapmessage msg)) \<and>
     (ares_presence msg AND 0x02 = 0x02 \<longrightarrow> pco_valid (ares_extendedprotocolconfigurationoptions msg))"

definition ares_mand_wire :: "pdu_session_authentication_result_msg \<Rightarrow> u8 list" where
  "ares_mand_wire msg = concat []"

definition ares_opt_wire :: "pdu_session_authentication_result_msg \<Rightarrow> u8 list" where
  "ares_opt_wire msg = concat
     [(if ares_presence msg AND 0x01 = 0x01 then eap_wire (ares_eapmessage msg) 0x78 else []),
      (if ares_presence msg AND 0x02 = 0x02 then epco_wire (ares_extendedprotocolconfigurationoptions msg) 0x7B else [])]"

definition ares_wire :: "pdu_session_authentication_result_msg \<Rightarrow> u8 list" where
  "ares_wire msg = ares_mand_wire msg @ ares_opt_wire msg"

definition ares_mand_seen :: "pdu_session_authentication_result_msg \<Rightarrow> pdu_session_authentication_result_msg \<Rightarrow> pdu_session_authentication_result_msg" where
  "ares_mand_seen m msg = m"

definition ares_opt_seen :: "pdu_session_authentication_result_msg \<Rightarrow> pdu_session_authentication_result_msg \<Rightarrow> pdu_session_authentication_result_msg" where
  "ares_opt_seen m msg = updates
     [when_present (ares_presence msg AND 0x01 = 0x01)
        (\<lambda>m. ares_presence_update (\<lambda>p. p OR 0x01) (m\<lparr>ares_eapmessage := Some (bstr (ares_eapmessage msg))\<rparr>)),
      when_present (ares_presence msg AND 0x02 = 0x02)
        (\<lambda>m. ares_presence_update (\<lambda>p. p OR 0x02) (m\<lparr>ares_extendedprotocolconfigurationoptions := pco_seen (ares_extendedprotocolconfigurationoptions m) (ares_extendedprotocolconfigurationoptions msg)\<rparr>))] m"

definition ares_seen :: "pdu_session_authentication_result_msg \<Rightarrow> pdu_session_authentication_result_msg \<Rightarrow> pdu_session_authentication_result_msg" where
  "ares_seen m msg = ares_opt_seen (ares_mand_seen m msg) msg"

lemma ares_min:
  assumes "ares_valid msg"
  shows "0 \<le> length (ares_wire msg)"
  using assms [unfolded ares_valid_def] by (simp add: ares_wire_def ares_mand_wire_def sm_lengths)

lemma encode_pdu_session_authentication_result_ok:
  assumes "ares_valid msg"
  shows "encodes (encode_pdu_session_authentication_result msg) (ares_wire msg)"
  unfolding encode_pdu_session_authentication_result_def
  by (rule encodes_body, (rule sm_emits TrueI half_identifiers | (simp only: assms [unfolded ares_valid_def]; fail))+,
      simp only: ares_wire_def ares_mand_wire_def ares_opt_wire_def concat.simps append.simps append_assoc append_Nil2,
      rule ares_min [OF assms])

lemma encode_pdu_session_authentication_result_safe:
  assumes "ares_presence msg AND 0x02 \<noteq> 0x02"
  shows "safe_encoder (encode_pdu_session_authentication_result msg)"
  unfolding encode_pdu_session_authentication_result_def
  by (rule safe_encoder_body, (rule sm_safe | (rule safe_opt, simp add: assms; fail) | rule safe_Cons)+)

lemma ares_mreads:
  assumes "ares_valid msg"
  shows "mreads [] (ares_mand_wire msg) m (ares_mand_seen m msg)"
  unfolding ares_mand_wire_def concat.simps
  by (rule mreads_to, (rule sm_mreads TrueI half_identifiers | (simp only: assms [unfolded ares_valid_def]; fail))+, simp add: ares_mand_seen_def)

lemma ares_reads:
  assumes "ares_valid msg"
  shows "reads (ie_step ares_half ares_full) (ares_opt_wire msg) m (ares_opt_seen m msg)"
  unfolding ares_half_def ares_full_def ares_opt_wire_def concat.simps
  by (rule reads_to, (rule sm_reads switch_here TrueI half_identifiers half_single | (rule switch_there, simp; fail) | (simp only: assms [unfolded ares_valid_def]; fail)
      | (rule full_wire, simp; fail) | (rule half_hd, simp add: type1_def; fail) | (simp; fail))+)
    (simp only: ares_opt_seen_def updates.simps)

lemma decode_pdu_session_authentication_result_wire:
  assumes "ares_valid msg" and "unat len = length (ares_wire msg)"
  shows "decode_pdu_session_authentication_result m (Some (ares_wire msg @ rest)) len
       = Some (Returned (int (length (ares_wire msg))) (ares_seen m msg))"
  using msg_decoder_reads [OF ares_mreads [OF assms(1)] ares_reads [OF assms(1)], of 0 len m rest] assms(2) ares_min [OF assms(1)]
  by (simp add: decode_pdu_session_authentication_result_def ares_wire_def ares_seen_def)

lemma decode_pdu_session_authentication_result_unknown:
  assumes "ares_valid msg" and "iei \<noteq> 0" and "iei AND 0xF0 \<notin> set (map fst ares_half)"
    and "iei \<notin> set (map fst ares_full)" and "length (ares_wire msg) < unat len"
  shows "decode_pdu_session_authentication_result m (Some (ares_wire msg @ iei # rest)) len = None"
  using msg_decoder_unknown [OF ares_mreads [OF assms(1)] ares_reads [OF assms(1)] assms(2,3,4), of 0 len m rest] assms(5) ares_min [OF assms(1)]
  by (simp add: decode_pdu_session_authentication_result_def ares_wire_def)

subsection \<open>5GSM status\<close>

record fivegsm_status_msg =
  stat_5gsmcause :: u8

definition encode__5gsm_status :: "fivegsm_status_msg \<Rightarrow> encoder" where
  "encode__5gsm_status msg = encoder_body 1
     [call (encode__5gsm_cause (stat_5gsmcause msg) 0)]"

definition decode__5gsm_status :: "fivegsm_status_msg msg_decoder" where
  "decode__5gsm_status = plain_decoder 1
     [dcall (\<lambda>f. decode__5gsm_cause f 0) stat_5gsmcause (\<lambda>v. stat_5gsmcause_update (\<lambda>_. v)) (\<lambda>m. m)]"

definition stat_mand_wire :: "fivegsm_status_msg \<Rightarrow> u8 list" where
  "stat_mand_wire msg = concat [cause_wire (stat_5gsmcause msg) 0]"

definition stat_wire :: "fivegsm_status_msg \<Rightarrow> u8 list" where
  "stat_wire msg = stat_mand_wire msg"

definition stat_mand_seen :: "fivegsm_status_msg \<Rightarrow> fivegsm_status_msg \<Rightarrow> fivegsm_status_msg" where
  "stat_mand_seen m msg = m\<lparr>stat_5gsmcause := stat_5gsmcause msg\<rparr>"

definition stat_seen :: "fivegsm_status_msg \<Rightarrow> fivegsm_status_msg \<Rightarrow> fivegsm_status_msg" where
  "stat_seen m msg = stat_mand_seen m msg"

lemma stat_min: "1 \<le> length (stat_wire msg)"
  by (simp add: stat_wire_def stat_mand_wire_def sm_lengths)

lemma encode__5gsm_status_ok: "encodes (encode__5gsm_status msg) (stat_wire msg)"
  unfolding encode__5gsm_status_def
  by (rule encodes_body, (rule sm_emits TrueI half_identifiers)+,
      simp only: stat_wire_def stat_mand_wire_def concat.simps append.simps append_assoc append_Nil2,
      rule stat_min)

lemma encode__5gsm_status_safe: "safe_encoder (encode__5gsm_status msg)"
  unfolding encode__5gsm_status_def by (rule safe_encoder_body, (rule sm_safe)+)

lemma stat_mreads: "mreads [dcall (\<lambda>f. decode__5gsm_cause f 0) stat_5gsmcause (\<lambda>v. stat_5gsmcause_update (\<lambda>_. v)) (\<lambda>m. m)] (stat_mand_wire msg) m (stat_mand_seen m msg)"
  unfolding stat_mand_wire_def concat.simps
  by (rule mreads_to, (rule sm_mreads TrueI half_identifiers)+, simp add: stat_mand_seen_def)

lemma decode__5gsm_status_wire:
  assumes "unat len = length (stat_wire msg)"
  shows "decode__5gsm_status m (Some (stat_wire msg @ rest)) len
       = Some (Returned (int (length (stat_wire msg))) (stat_seen m msg))"
  using mreadsD [OF stat_mreads, of "[]" _ len rest] assms stat_min [of msg]
  by (simp add: decode__5gsm_status_def plain_decoder_def stat_wire_def stat_mand_wire_def stat_seen_def sm_lengths)

end
