(* ===== verification/SM_Msg.thy ===== *)
theory SM_Msg
  imports SM_Auth
begin

text \<open>
  Dispatch over the session management messages, \<open>sm_msg.c\<close>: the four header octets and the
  \<open>switch\<close> on the message type. The union \<open>SM_msg\<close> has the header, which is the common start of
  all its members, and one field per member; only the member of the message type is accessed.
\<close>

subsection \<open>Structure\<close>

record SM_msg =
  extended_protocol_discriminator :: u8
  pdu_session_identity :: u8
  procedure_transaction_identity :: u8
  message_type :: u8
  pdu_session_establishment_request :: pdu_session_establishment_request_msg
  pdu_session_establishment_accept :: pdu_session_establishment_accept_msg
  pdu_session_establishment_reject :: pdu_session_establishment_reject_msg
  pdu_session_authentication_command :: pdu_session_authentication_command_msg
  pdu_session_authentication_complete :: pdu_session_authentication_complete_msg
  pdu_session_authentication_result :: pdu_session_authentication_result_msg
  pdu_session_modification_request :: pdu_session_modification_request_msg
  pdu_session_modification_reject :: pdu_session_modification_reject_msg
  pdu_session_modification_command :: pdu_session_modification_command_msg
  pdu_session_modification_complete :: pdu_session_modification_complete_msg
  pdu_session_modification_command_reject :: pdu_session_modification_command_reject_msg
  pdu_session_release_request :: pdu_session_release_request_msg
  pdu_session_release_reject :: pdu_session_release_reject_msg
  pdu_session_release_command :: pdu_session_release_command_msg
  pdu_session_release_complete :: pdu_session_release_complete_msg
  fivegsm_status :: fivegsm_status_msg

definition EPD_5GS_SESSION_MANAGEMENT_MESSAGES :: u8 where
  "EPD_5GS_SESSION_MANAGEMENT_MESSAGES = 0x2e"

subsection \<open>Encoder\<close>

text \<open>The \<open>switch\<close>: the cases by message type, and the default.\<close>

definition wrong_message_type :: encoder where
  "wrong_message_type len p = Some (err TLV_WRONG_MESSAGE_TYPE, case p of None \<Rightarrow> [] | Some b \<Rightarrow> b)"

definition sm_encoders :: "(u8 \<times> (SM_msg \<Rightarrow> encoder)) list" where
  "sm_encoders =
     [(0xC1, \<lambda>msg. encode_pdu_session_establishment_request (pdu_session_establishment_request msg)),
      (0xC2, \<lambda>msg. encode_pdu_session_establishment_accept (pdu_session_establishment_accept msg)),
      (0xC3, \<lambda>msg. encode_pdu_session_establishment_reject (pdu_session_establishment_reject msg)),
      (0xC5, \<lambda>msg. encode_pdu_session_authentication_command (pdu_session_authentication_command msg)),
      (0xC6, \<lambda>msg. encode_pdu_session_authentication_complete (pdu_session_authentication_complete msg)),
      (0xC7, \<lambda>msg. encode_pdu_session_authentication_result (pdu_session_authentication_result msg)),
      (0xC9, \<lambda>msg. encode_pdu_session_modification_request (pdu_session_modification_request msg)),
      (0xCA, \<lambda>msg. encode_pdu_session_modification_reject (pdu_session_modification_reject msg)),
      (0xCB, \<lambda>msg. encode_pdu_session_modification_command (pdu_session_modification_command msg)),
      (0xCC, \<lambda>msg. encode_pdu_session_modification_complete (pdu_session_modification_complete msg)),
      (0xCD, \<lambda>msg. encode_pdu_session_modification_command_reject (pdu_session_modification_command_reject msg)),
      (0xD1, \<lambda>msg. encode_pdu_session_release_request (pdu_session_release_request msg)),
      (0xD2, \<lambda>msg. encode_pdu_session_release_reject (pdu_session_release_reject msg)),
      (0xD3, \<lambda>msg. encode_pdu_session_release_command (pdu_session_release_command msg)),
      (0xD4, \<lambda>msg. encode_pdu_session_release_complete (pdu_session_release_complete msg)),
      (0xD6, \<lambda>msg. encode__5gsm_status (fivegsm_status msg))]"

definition sm_encoder :: "SM_msg \<Rightarrow> encoder" where
  "sm_encoder msg =
     (case map_of sm_encoders (message_type msg) of None \<Rightarrow> wrong_message_type | Some enc \<Rightarrow> enc msg)"

definition fivegsm_msg_encode :: "SM_msg \<Rightarrow> encoder" where
  "fivegsm_msg_encode msg len p =
     (if unat len < 4 then
        Some (err TLV_BUFFER_TOO_SHORT, case p of None \<Rightarrow> [] | Some b \<Rightarrow> b)
      else if extended_protocol_discriminator msg \<noteq> EPD_5GS_SESSION_MANAGEMENT_MESSAGES then
        Some (err TLV_PROTOCOL_NOT_SUPPORTED, case p of None \<Rightarrow> [] | Some b \<Rightarrow> b)
      else
        (case p of
           None \<Rightarrow> None
         | Some b \<Rightarrow>
             finish (exec
               [ENCODE_U8 (extended_protocol_discriminator msg),
                ENCODE_U8 (pdu_session_identity msg),
                ENCODE_U8 (procedure_transaction_identity msg),
                ENCODE_U8 (message_type msg),
                call (sm_encoder msg)] len b 0)))"

subsection \<open>Decoder\<close>

text \<open>\<open>decode_x(&msg->x, buffer, len)\<close>: the result with the member put back.\<close>

definition member :: "'a msg_decoder \<Rightarrow> (SM_msg \<Rightarrow> 'a) \<Rightarrow> ('a \<Rightarrow> SM_msg \<Rightarrow> SM_msg) \<Rightarrow> SM_msg msg_decoder" where
  "member dec get put msg p len =
     (case dec (get msg) p len of
        None \<Rightarrow> None
      | Some Undefined \<Rightarrow> Some Undefined
      | Some (Returned r x) \<Rightarrow> Some (Returned r (put x msg)))"

definition sm_decoders :: "(u8 \<times> SM_msg msg_decoder) list" where
  "sm_decoders =
     [(0xC1, member decode_pdu_session_establishment_request pdu_session_establishment_request (\<lambda>v. pdu_session_establishment_request_update (\<lambda>_. v))),
      (0xC2, member decode_pdu_session_establishment_accept pdu_session_establishment_accept (\<lambda>v. pdu_session_establishment_accept_update (\<lambda>_. v))),
      (0xC3, member decode_pdu_session_establishment_reject pdu_session_establishment_reject (\<lambda>v. pdu_session_establishment_reject_update (\<lambda>_. v))),
      (0xC5, member decode_pdu_session_authentication_command pdu_session_authentication_command (\<lambda>v. pdu_session_authentication_command_update (\<lambda>_. v))),
      (0xC6, member decode_pdu_session_authentication_complete pdu_session_authentication_complete (\<lambda>v. pdu_session_authentication_complete_update (\<lambda>_. v))),
      (0xC7, member decode_pdu_session_authentication_result pdu_session_authentication_result (\<lambda>v. pdu_session_authentication_result_update (\<lambda>_. v))),
      (0xC9, member decode_pdu_session_modification_request pdu_session_modification_request (\<lambda>v. pdu_session_modification_request_update (\<lambda>_. v))),
      (0xCA, member decode_pdu_session_modification_reject pdu_session_modification_reject (\<lambda>v. pdu_session_modification_reject_update (\<lambda>_. v))),
      (0xCB, member decode_pdu_session_modification_command pdu_session_modification_command (\<lambda>v. pdu_session_modification_command_update (\<lambda>_. v))),
      (0xCC, member decode_pdu_session_modification_complete pdu_session_modification_complete (\<lambda>v. pdu_session_modification_complete_update (\<lambda>_. v))),
      (0xCD, member decode_pdu_session_modification_command_reject pdu_session_modification_command_reject (\<lambda>v. pdu_session_modification_command_reject_update (\<lambda>_. v))),
      (0xD1, member decode_pdu_session_release_request pdu_session_release_request (\<lambda>v. pdu_session_release_request_update (\<lambda>_. v))),
      (0xD2, member decode_pdu_session_release_reject pdu_session_release_reject (\<lambda>v. pdu_session_release_reject_update (\<lambda>_. v))),
      (0xD3, member decode_pdu_session_release_command pdu_session_release_command (\<lambda>v. pdu_session_release_command_update (\<lambda>_. v))),
      (0xD4, member decode_pdu_session_release_complete pdu_session_release_complete (\<lambda>v. pdu_session_release_complete_update (\<lambda>_. v))),
      (0xD6, member decode__5gsm_status fivegsm_status (\<lambda>v. fivegsm_status_update (\<lambda>_. v)))]"

definition sm_decoder :: "SM_msg msg_decoder" where
  "sm_decoder msg p len =
     (case map_of sm_decoders (message_type msg) of
        None \<Rightarrow> Some (Returned (err TLV_WRONG_MESSAGE_TYPE) msg)
      | Some dec \<Rightarrow> dec msg p len)"

text \<open>\<open>_fivegsm_msg_decode_header\<close>; \<open>None\<close> is a read outside the block.\<close>

definition fivegsm_msg_decode_header :: "SM_msg \<Rightarrow> mem \<Rightarrow> u32 \<Rightarrow> (int \<times> SM_msg) option" where
  "fivegsm_msg_decode_header msg buffer len =
     (if unat len < 4 then Some (err TLV_BUFFER_TOO_SHORT, msg)
      else do {
        a \<leftarrow> DECODE_U8 buffer 0;
        b \<leftarrow> DECODE_U8 buffer 1;
        c \<leftarrow> DECODE_U8 buffer 2;
        d \<leftarrow> DECODE_U8 buffer 3;
        let msg = msg\<lparr>extended_protocol_discriminator := a, pdu_session_identity := b,
                      procedure_transaction_identity := c, message_type := d\<rparr>;
        if a \<noteq> EPD_5GS_SESSION_MANAGEMENT_MESSAGES then Some (err TLV_PROTOCOL_NOT_SUPPORTED, msg)
        else Some (4, msg) })"

definition sm_msg_decode :: "SM_msg \<Rightarrow> mem \<Rightarrow> u32 \<Rightarrow> SM_msg run option" where
  "sm_msg_decode msg buffer len =
     (case fivegsm_msg_decode_header msg buffer len of
        None \<Rightarrow> Some Undefined
      | Some (header_result, msg) \<Rightarrow>
          (if header_result < 0 then Some (Returned header_result msg)
           else
             (case sm_decoder msg (Some (drop (nat header_result) buffer)) (len - of_int header_result) of
                None \<Rightarrow> None
              | Some Undefined \<Rightarrow> Some Undefined
              | Some (Returned r msg) \<Rightarrow> Some (Returned (if r < 0 then r else header_result + r) msg))))"

subsection \<open>Wire format\<close>

definition sm_header_wire :: "SM_msg \<Rightarrow> u8 list" where
  "sm_header_wire msg =
     [extended_protocol_discriminator msg, pdu_session_identity msg, procedure_transaction_identity msg,
      message_type msg]"

definition sm_body_valid :: "SM_msg \<Rightarrow> bool" where
  "sm_body_valid msg =
     (let t = message_type msg
      in if t = 0xC1 then ereq_valid (pdu_session_establishment_request msg)
         else if t = 0xC2 then eacc_valid (pdu_session_establishment_accept msg) \<and> 15 \<le> length (eacc_wire (pdu_session_establishment_accept msg))
         else if t = 0xC3 then erej_valid (pdu_session_establishment_reject msg)
         else if t = 0xC5 then acmd_valid (pdu_session_authentication_command msg)
         else if t = 0xC6 then acpl_valid (pdu_session_authentication_complete msg)
         else if t = 0xC7 then ares_valid (pdu_session_authentication_result msg)
         else if t = 0xC9 then mreq_valid (pdu_session_modification_request msg)
         else if t = 0xCA then mrej_valid (pdu_session_modification_reject msg)
         else if t = 0xCB then mcmd_valid (pdu_session_modification_command msg)
         else if t = 0xCC then mcpl_valid (pdu_session_modification_complete msg)
         else if t = 0xCD then mcrj_valid (pdu_session_modification_command_reject msg)
         else if t = 0xD1 then rreq_valid (pdu_session_release_request msg)
         else if t = 0xD2 then rrej_valid (pdu_session_release_reject msg)
         else if t = 0xD3 then rcmd_valid (pdu_session_release_command msg)
         else if t = 0xD4 then rcpl_valid (pdu_session_release_complete msg)
         else if t = 0xD6 then True
         else False)"

definition sm_body_wire :: "SM_msg \<Rightarrow> u8 list" where
  "sm_body_wire msg =
     (let t = message_type msg
      in if t = 0xC1 then ereq_wire (pdu_session_establishment_request msg)
         else if t = 0xC2 then eacc_wire (pdu_session_establishment_accept msg)
         else if t = 0xC3 then erej_wire (pdu_session_establishment_reject msg)
         else if t = 0xC5 then acmd_wire (pdu_session_authentication_command msg)
         else if t = 0xC6 then acpl_wire (pdu_session_authentication_complete msg)
         else if t = 0xC7 then ares_wire (pdu_session_authentication_result msg)
         else if t = 0xC9 then mreq_wire (pdu_session_modification_request msg)
         else if t = 0xCA then mrej_wire (pdu_session_modification_reject msg)
         else if t = 0xCB then mcmd_wire (pdu_session_modification_command msg)
         else if t = 0xCC then mcpl_wire (pdu_session_modification_complete msg)
         else if t = 0xCD then mcrj_wire (pdu_session_modification_command_reject msg)
         else if t = 0xD1 then rreq_wire (pdu_session_release_request msg)
         else if t = 0xD2 then rrej_wire (pdu_session_release_reject msg)
         else if t = 0xD3 then rcmd_wire (pdu_session_release_command msg)
         else if t = 0xD4 then rcpl_wire (pdu_session_release_complete msg)
         else if t = 0xD6 then stat_wire (fivegsm_status msg)
         else [])"

text \<open>What decoding over \<open>m\<close> leaves; the accept message is not read back (see below).\<close>

definition sm_body_seen :: "SM_msg \<Rightarrow> SM_msg \<Rightarrow> SM_msg" where
  "sm_body_seen m msg =
     (let t = message_type msg
      in if t = 0xC1 then m\<lparr>pdu_session_establishment_request := ereq_seen (pdu_session_establishment_request m) (pdu_session_establishment_request msg)\<rparr>
         else if t = 0xC3 then m\<lparr>pdu_session_establishment_reject := erej_seen (pdu_session_establishment_reject m) (pdu_session_establishment_reject msg)\<rparr>
         else if t = 0xC5 then m\<lparr>pdu_session_authentication_command := acmd_seen (pdu_session_authentication_command m) (pdu_session_authentication_command msg)\<rparr>
         else if t = 0xC6 then m\<lparr>pdu_session_authentication_complete := acpl_seen (pdu_session_authentication_complete m) (pdu_session_authentication_complete msg)\<rparr>
         else if t = 0xC7 then m\<lparr>pdu_session_authentication_result := ares_seen (pdu_session_authentication_result m) (pdu_session_authentication_result msg)\<rparr>
         else if t = 0xC9 then m\<lparr>pdu_session_modification_request := mreq_seen (pdu_session_modification_request m) (pdu_session_modification_request msg)\<rparr>
         else if t = 0xCA then m\<lparr>pdu_session_modification_reject := mrej_seen (pdu_session_modification_reject m) (pdu_session_modification_reject msg)\<rparr>
         else if t = 0xCB then m\<lparr>pdu_session_modification_command := mcmd_seen (pdu_session_modification_command m) (pdu_session_modification_command msg)\<rparr>
         else if t = 0xCC then m\<lparr>pdu_session_modification_complete := mcpl_seen (pdu_session_modification_complete m) (pdu_session_modification_complete msg)\<rparr>
         else if t = 0xCD then m\<lparr>pdu_session_modification_command_reject := mcrj_seen (pdu_session_modification_command_reject m) (pdu_session_modification_command_reject msg)\<rparr>
         else if t = 0xD1 then m\<lparr>pdu_session_release_request := rreq_seen (pdu_session_release_request m) (pdu_session_release_request msg)\<rparr>
         else if t = 0xD2 then m\<lparr>pdu_session_release_reject := rrej_seen (pdu_session_release_reject m) (pdu_session_release_reject msg)\<rparr>
         else if t = 0xD3 then m\<lparr>pdu_session_release_command := rcmd_seen (pdu_session_release_command m) (pdu_session_release_command msg)\<rparr>
         else if t = 0xD4 then m\<lparr>pdu_session_release_complete := rcpl_seen (pdu_session_release_complete m) (pdu_session_release_complete msg)\<rparr>
         else if t = 0xD6 then m\<lparr>fivegsm_status := stat_seen (fivegsm_status m) (fivegsm_status msg)\<rparr>
         else m)"

definition sm_seen :: "SM_msg \<Rightarrow> SM_msg \<Rightarrow> SM_msg" where
  "sm_seen m msg = sm_body_seen
     (m\<lparr>extended_protocol_discriminator := extended_protocol_discriminator msg,
        pdu_session_identity := pdu_session_identity msg,
        procedure_transaction_identity := procedure_transaction_identity msg,
        message_type := message_type msg\<rparr>) msg"

lemmas sm_encode_oks =
  encode_pdu_session_establishment_request_ok
  encode_pdu_session_establishment_accept_ok
  encode_pdu_session_establishment_reject_ok
  encode_pdu_session_authentication_command_ok
  encode_pdu_session_authentication_complete_ok
  encode_pdu_session_authentication_result_ok
  encode_pdu_session_modification_request_ok
  encode_pdu_session_modification_reject_ok
  encode_pdu_session_modification_command_ok
  encode_pdu_session_modification_complete_ok
  encode_pdu_session_modification_command_reject_ok
  encode_pdu_session_release_request_ok
  encode_pdu_session_release_reject_ok
  encode_pdu_session_release_command_ok
  encode_pdu_session_release_complete_ok
  encode__5gsm_status_ok

lemmas sm_decode_wires =
  decode_pdu_session_establishment_request_wire
  decode_pdu_session_establishment_reject_wire
  decode_pdu_session_authentication_command_wire
  decode_pdu_session_authentication_complete_wire
  decode_pdu_session_authentication_result_wire
  decode_pdu_session_modification_request_wire
  decode_pdu_session_modification_reject_wire
  decode_pdu_session_modification_command_wire
  decode_pdu_session_modification_complete_wire
  decode_pdu_session_modification_command_reject_wire
  decode_pdu_session_release_request_wire
  decode_pdu_session_release_reject_wire
  decode_pdu_session_release_command_wire
  decode_pdu_session_release_complete_wire
  decode__5gsm_status_wire

lemma sm_encoder_ok:
  assumes "sm_body_valid msg"
  shows "encodes (sm_encoder msg) (sm_body_wire msg)"
  using assms unfolding sm_body_valid_def sm_body_wire_def sm_encoder_def sm_encoders_def
  by (simp add: Let_def sm_encode_oks split: if_splits)

lemma fivegsm_msg_encode_encodes:
  assumes "sm_body_valid msg" and "extended_protocol_discriminator msg = EPD_5GS_SESSION_MANAGEMENT_MESSAGES"
  shows "encodes (fivegsm_msg_encode msg) (sm_header_wire msg @ sm_body_wire msg)"
proof -
  have "emits 0 [ENCODE_U8 (extended_protocol_discriminator msg), ENCODE_U8 (pdu_session_identity msg),
                 ENCODE_U8 (procedure_transaction_identity msg), ENCODE_U8 (message_type msg),
                 call (sm_encoder msg)]
      ([extended_protocol_discriminator msg] @ [pdu_session_identity msg]
        @ [procedure_transaction_identity msg] @ [message_type msg] @ sm_body_wire msg @ [])"
    by (intro emits_Cons emits_U8 emits_call sm_encoder_ok assms emits_Nil)
  then have e: "emits 0 [ENCODE_U8 (extended_protocol_discriminator msg), ENCODE_U8 (pdu_session_identity msg),
                 ENCODE_U8 (procedure_transaction_identity msg), ENCODE_U8 (message_type msg),
                 call (sm_encoder msg)] (sm_header_wire msg @ sm_body_wire msg)"
    by (simp add: sm_header_wire_def)
  have "4 \<le> length (sm_header_wire msg @ sm_body_wire msg)" by (simp add: sm_header_wire_def)
  with e assms(2) show ?thesis
    by (auto simp: encodes_def fivegsm_msg_encode_def finish_def emits_def)
qed

lemma sm_decoder_wire:
  assumes "sm_body_valid msg" and "message_type msg \<noteq> 0xC2" and "message_type m = message_type msg"
    and "unat len = length (sm_body_wire msg)"
  shows "sm_decoder m (Some (sm_body_wire msg @ rest)) len
       = Some (Returned (int (length (sm_body_wire msg))) (sm_body_seen m msg))"
  using assms unfolding sm_body_valid_def sm_body_wire_def sm_body_seen_def sm_decoder_def sm_decoders_def
  by (simp add: Let_def member_def sm_decode_wires split: if_splits)

lemma sm_msg_decode_wire:
  assumes "sm_body_valid msg" and "message_type msg \<noteq> 0xC2"
    and "extended_protocol_discriminator msg = EPD_5GS_SESSION_MANAGEMENT_MESSAGES"
    and "unat len = 4 + length (sm_body_wire msg)"
  shows "sm_msg_decode m (sm_header_wire msg @ sm_body_wire msg @ rest) len
       = Some (Returned (int (unat len)) (sm_seen m msg))"
proof -
  let ?m = "m\<lparr>extended_protocol_discriminator := extended_protocol_discriminator msg,
        pdu_session_identity := pdu_session_identity msg,
        procedure_transaction_identity := procedure_transaction_identity msg,
        message_type := message_type msg\<rparr>"
  have l: "unat (len - 4) = length (sm_body_wire msg)"
    using unat_u32_minus_of_nat [of 4 len] assms(4) by simp
  have hdr: "fivegsm_msg_decode_header m (sm_header_wire msg @ sm_body_wire msg @ rest) len = Some (4, ?m)"
    using assms(3,4) by (simp add: fivegsm_msg_decode_header_def sm_header_wire_def)
  have drop: "drop 4 (sm_header_wire msg) = []" "length (sm_header_wire msg) = 4"
    by (simp_all add: sm_header_wire_def)
  have "sm_decoder ?m (Some (sm_body_wire msg @ rest)) (len - 4)
      = Some (Returned (int (length (sm_body_wire msg))) (sm_body_seen ?m msg))"
    using assms(1,2) l by (intro sm_decoder_wire) simp_all
  then show ?thesis
    using assms(4) by (simp add: sm_msg_decode_def hdr drop sm_seen_def)
qed

text \<open>
  The octet of the session type of an accept message carries bit 5, so its decoder, which expects no
  identifier there, rejects it.
\<close>

lemma decode_own_accept:
  assumes "15 \<le> unat len"
  shows "decode_pdu_session_establishment_accept m (Some (eacc_wire msg @ rest)) len = Some (Returned (-1) m)"
proof -
  have "((0 OR 0x10) AND 0xF0 OR (ucast (pdu_session_type_value (eacc_pdusessiontype msg)) AND 7)) AND 0xF0 \<noteq> (0 :: u8)"
    by (simp only: half_octet_iei) simp
  then show ?thesis
    using assms
    by (cases "eacc_pdusessiontype m") (simp add: decode_pdu_session_establishment_accept_def msg_decoder_def msg_decoder_until_def
      dcall_def eacc_wire_def eacc_mand_wire_def half_wires half_wire_def decode__pdu_session_type_def)
qed

subsection \<open>Memory safety of the encoder\<close>

text \<open>
  The messages without the elements whose encoders do not check the room they need (S-NSSAI, protocol
  configuration options, QoS rules and flow descriptions).
\<close>

definition sm_checked :: "SM_msg \<Rightarrow> bool" where
  "sm_checked msg =
     (let t = message_type msg
      in if t = 0xC1 then ereq_presence (pdu_session_establishment_request msg) AND 0x40 \<noteq> 0x40
         else if t = 0xC2 then False
         else if t = 0xC3 then erej_presence (pdu_session_establishment_reject msg) AND 0x08 \<noteq> 0x08
         else if t = 0xC5 then acmd_presence (pdu_session_authentication_command msg) AND 0x01 \<noteq> 0x01
         else if t = 0xC6 then acpl_presence (pdu_session_authentication_complete msg) AND 0x01 \<noteq> 0x01
         else if t = 0xC7 then ares_presence (pdu_session_authentication_result msg) AND 0x02 \<noteq> 0x02
         else if t = 0xC9 then
           (let p = mreq_presence (pdu_session_modification_request msg)
            in p AND 0x20 \<noteq> 0x20 \<and> p AND 0x40 \<noteq> 0x40 \<and> p AND 0x100 \<noteq> 0x100)
         else if t = 0xCA then mrej_presence (pdu_session_modification_reject msg) AND 0x02 \<noteq> 0x02
         else if t = 0xCB then
           (let p = mcmd_presence (pdu_session_modification_command msg)
            in p AND 0x10 \<noteq> 0x10 \<and> p AND 0x40 \<noteq> 0x40 \<and> p AND 0x80 \<noteq> 0x80)
         else if t = 0xCC then mcpl_presence (pdu_session_modification_complete msg) AND 0x01 \<noteq> 0x01
         else if t = 0xCD then mcrj_presence (pdu_session_modification_command_reject msg) AND 0x01 \<noteq> 0x01
         else if t = 0xD1 then rreq_presence (pdu_session_release_request msg) AND 0x02 \<noteq> 0x02
         else if t = 0xD2 then rrej_presence (pdu_session_release_reject msg) AND 0x01 \<noteq> 0x01
         else if t = 0xD3 then rcmd_presence (pdu_session_release_command msg) AND 0x08 \<noteq> 0x08
         else if t = 0xD4 then rcpl_presence (pdu_session_release_complete msg) AND 0x02 \<noteq> 0x02
         else True)"

lemmas sm_encode_safes =
  encode_pdu_session_establishment_request_safe
  encode_pdu_session_establishment_reject_safe
  encode_pdu_session_authentication_command_safe
  encode_pdu_session_authentication_complete_safe
  encode_pdu_session_authentication_result_safe
  encode_pdu_session_modification_request_safe
  encode_pdu_session_modification_reject_safe
  encode_pdu_session_modification_command_safe
  encode_pdu_session_modification_complete_safe
  encode_pdu_session_modification_command_reject_safe
  encode_pdu_session_release_request_safe
  encode_pdu_session_release_reject_safe
  encode_pdu_session_release_command_safe
  encode_pdu_session_release_complete_safe
  encode__5gsm_status_safe

lemma safe_wrong_message_type: "safe_encoder wrong_message_type"
  by (simp add: safe_encoder_def wrong_message_type_def)

lemma sm_encoder_safe:
  assumes "sm_checked msg"
  shows "safe_encoder (sm_encoder msg)"
  using assms unfolding sm_checked_def sm_encoder_def sm_encoders_def
  by (simp add: Let_def sm_encode_safes safe_wrong_message_type split: if_splits)

lemma fivegsm_msg_encode_safe:
  assumes "sm_checked msg"
  shows "safe_encoder (fivegsm_msg_encode msg)"
proof -
  define hdr where "hdr = [ENCODE_U8 (extended_protocol_discriminator msg), ENCODE_U8 (pdu_session_identity msg),
     ENCODE_U8 (procedure_transaction_identity msg), ENCODE_U8 (message_type msg)]"
  have "emits 0 hdr ([extended_protocol_discriminator msg] @ [pdu_session_identity msg]
        @ [procedure_transaction_identity msg] @ [message_type msg] @ [])"
    unfolding hdr_def by (intro emits_Cons emits_U8 emits_Nil)
  then have "safe_encoder (encoder_body 4 (hdr @ [call (sm_encoder msg)]))"
    by (rule safe_encoder_prefix) (simp_all add: safe_call sm_encoder_safe assms)
  moreover have "fivegsm_msg_encode msg len (Some b) = encoder_body 4 (hdr @ [call (sm_encoder msg)]) len (Some b)"
    if "extended_protocol_discriminator msg = EPD_5GS_SESSION_MANAGEMENT_MESSAGES" for len b
    using that by (simp add: fivegsm_msg_encode_def encoder_body_def hdr_def del: exec.simps)
  moreover have "\<exists>r. fivegsm_msg_encode msg len (Some b) = Some (r, b) \<and> r < 0"
    if "extended_protocol_discriminator msg \<noteq> EPD_5GS_SESSION_MANAGEMENT_MESSAGES" for len b
    using that by (simp add: fivegsm_msg_encode_def)
  ultimately show ?thesis
    unfolding safe_encoder_def
    by (cases "extended_protocol_discriminator msg = EPD_5GS_SESSION_MANAGEMENT_MESSAGES") (simp, fastforce)
qed

subsection \<open>Properties\<close>

text \<open>C6: Encoding any session management message without the unchecked elements stays inside the buffer, for
  every value and every length: it returns, the buffer keeps its size and the count is at most the length.\<close>

theorem sm_message_encode_safe:
  assumes "sm_checked msg" and "unat len \<le> length b"
  shows "\<exists>r b'. fivegsm_msg_encode msg len (Some b) = Some (r, b') \<and> length b' = length b \<and> r \<le> int (unat len)"
  using safe_encoderD [OF fivegsm_msg_encode_safe [OF assms(1)] assms(2)] by (metis nat_le_iff)

theorem sm_message_encode_safe_witness:
  "\<forall>m. \<exists>r b'. fivegsm_msg_encode (m\<lparr>message_type := 0xD3, pdu_session_release_command :=
       (pdu_session_release_command m)\<lparr>rcmd_presence := 0x07\<rparr>\<rparr>) 3 (Some [1, 2, 3]) = Some (r, b') \<and>
     length b' = length [1, 2, 3 :: u8] \<and> r \<le> int (unat (3 :: u32))"
  by (intro allI sm_message_encode_safe) (simp_all add: sm_checked_def)

lemma sm_seen_header:
  "extended_protocol_discriminator (sm_seen m msg) = extended_protocol_discriminator msg"
  "pdu_session_identity (sm_seen m msg) = pdu_session_identity msg"
  "procedure_transaction_identity (sm_seen m msg) = procedure_transaction_identity msg"
  "message_type (sm_seen m msg) = message_type msg"
  by (simp_all add: sm_seen_def sm_body_seen_def Let_def)

text \<open>C1: A session management message of any type but the establishment accept is written by \<open>fivegsm_msg_encode\<close> at
  the start of the buffer and nowhere else, and \<open>sm_msg_decode\<close> of these octets, over any earlier message \<open>m\<close>, returns the
  same count and the message \<open>sm_seen m msg\<close>, when its elements are ones the codec can carry. \<open>sm_body_valid\<close> asks, of the
  mandatory elements and of the optional ones that are present: an EAP message has 4 to 255 octets (a longer one is
  encoded and not read back, \<open>eap_long_truncated\<close>), an integrity protection data rate two, an SM PDU DN request container
  1 to 255; at most 2047 packet filters; at most thirty protocol configuration containers, of which each says the length of its
  contents; QoS rules and QoS flow descriptions not empty, as many as their counts say, filters below 255 octets, and in
  all no longer than their two octets of length can say.

  What is read, \<open>sm_seen\<close>, is the message sent as to the header, the mandatory elements and the optional ones
  present, up to this: the configuration protocol is shifted right by one bit; the length of QoS rules is in octets where it
  was their number, and a rule that starts beyond octet 252 has a length too large by a multiple of 256; parts of a
  rule or flow description that its operation does not carry are zero; the length field of the session AMBR is that
  of \<open>m\<close>; a string is its octets, the empty one for \<open>NULL\<close>. The fields of absent elements are those of \<open>m\<close>, the presence
  bits are joined with those of \<open>m\<close>, and the structures of the other message types are left alone.\<close>

theorem sm_message_roundtrip:
  assumes "sm_body_valid msg" and "message_type msg \<noteq> 0xC2" and "extended_protocol_discriminator msg = 0x2e"
    and "4 + length (sm_body_wire msg) \<le> unat len" and "unat len \<le> length b" and "unat len < 2 ^ 31"
  shows "\<exists>n b' m'. fivegsm_msg_encode msg len (Some b) = Some (n, b') \<and> length b' = length b \<and>
     drop (nat n) b' = drop (nat n) b \<and> sm_msg_decode m b' (of_int n) = Some (Returned n m') \<and>
     m' = sm_seen m msg \<and> extended_protocol_discriminator m' = extended_protocol_discriminator msg \<and>
     pdu_session_identity m' = pdu_session_identity msg \<and>
     procedure_transaction_identity m' = procedure_transaction_identity msg \<and> message_type m' = message_type msg"
proof -
  define n where "n = 4 + length (sm_body_wire msg)"
  define w where "w = sm_header_wire msg @ sm_body_wire msg"
  have l: "length w = n" by (simp add: w_def n_def sm_header_wire_def)
  have epd: "extended_protocol_discriminator msg = EPD_5GS_SESSION_MANAGEMENT_MESSAGES"
    using assms(3) by (simp add: EPD_5GS_SESSION_MANAGEMENT_MESSAGES_def)
  have e: "fivegsm_msg_encode msg len (Some b) = Some (int n, w @ drop n b)"
    using encodesD [OF fivegsm_msg_encode_encodes [OF assms(1) epd, folded w_def], of len b] assms(4,5) l
    by (simp add: overwrite_zero n_def)
  have u: "unat (of_nat n :: u32) = n" using assms(4,6) by (intro unat_u32_of_nat) (simp add: n_def)
  have d: "sm_msg_decode m (w @ drop n b) (of_nat n) = Some (Returned (int n) (sm_seen m msg))"
    using sm_msg_decode_wire [OF assms(1,2) epd, of "of_nat n" m "drop n b"] u
    by (simp only: w_def n_def append_assoc)
  show ?thesis
    using e d l assms(4) [folded n_def] assms(5)
    by (intro exI [of _ "int n"] exI [of _ "w @ drop n b"] exI [of _ "sm_seen m msg"]) (simp add: sm_seen_header)
qed

theorem sm_message_roundtrip_witness:
  "\<forall>m0 m. let msg = m0\<lparr>extended_protocol_discriminator := 0x2e, message_type := 0xD6,
                      fivegsm_status := \<lparr>stat_5gsmcause = 0x1A\<rparr>\<rparr>
     in \<exists>n b' m'. fivegsm_msg_encode msg 16 (Some (replicate 16 0)) = Some (n, b') \<and> length b' = length (replicate 16 (0 :: u8)) \<and>
     drop (nat n) b' = drop (nat n) (replicate 16 0) \<and> sm_msg_decode m b' (of_int n) = Some (Returned n m') \<and>
     m' = sm_seen m msg \<and> extended_protocol_discriminator m' = extended_protocol_discriminator msg \<and>
     pdu_session_identity m' = pdu_session_identity msg \<and>
     procedure_transaction_identity m' = procedure_transaction_identity msg \<and> message_type m' = message_type msg"
  unfolding Let_def
  by (intro allI sm_message_roundtrip) (simp_all add: sm_body_valid_def sm_body_wire_def stat_wire_def stat_mand_wire_def cause_wire_def iei_wire_def)

lemma DECODE_U8_in: "k < length b \<Longrightarrow> DECODE_U8 b k = Some (b ! k)"
  by (simp add: DECODE_U8_def)

text \<open>C33: The errors of \<open>sm_msg_decode\<close> before a message is decoded: a short buffer, another protocol, a message type
  the dispatch does not know.\<close>

theorem sm_decode_rejects:
  assumes "unat len \<le> length b"
  shows "(unat len < 4 \<longrightarrow> sm_msg_decode m b len = Some (Returned (err TLV_BUFFER_TOO_SHORT) m)) \<and>
     (4 \<le> unat len \<and> b ! 0 \<noteq> 0x2e \<longrightarrow> (\<exists>m'. sm_msg_decode m b len = Some (Returned (err TLV_PROTOCOL_NOT_SUPPORTED) m'))) \<and>
     (4 \<le> unat len \<and> b ! 0 = 0x2e \<and> b ! 3 \<notin> set (map fst sm_decoders) \<longrightarrow>
        (\<exists>m'. sm_msg_decode m b len = Some (Returned (err TLV_WRONG_MESSAGE_TYPE) m')))"
proof (cases "unat len < 4")
  case True
  then show ?thesis by (simp add: sm_msg_decode_def fivegsm_msg_decode_header_def)
next
  case False
  have "DECODE_U8 b 0 = Some (b ! 0)" "DECODE_U8 b 1 = Some (b ! 1)" "DECODE_U8 b 2 = Some (b ! 2)" "DECODE_U8 b 3 = Some (b ! 3)"
    using assms False by (intro DECODE_U8_in; linarith)+
  then have "fivegsm_msg_decode_header m b len =
      (let msg = m\<lparr>extended_protocol_discriminator := b ! 0, pdu_session_identity := b ! 1,
                      procedure_transaction_identity := b ! 2, message_type := b ! 3\<rparr>
       in if b ! 0 \<noteq> 0x2e then Some (err TLV_PROTOCOL_NOT_SUPPORTED, msg) else Some (4, msg))"
    using False by (simp add: fivegsm_msg_decode_header_def Let_def EPD_5GS_SESSION_MANAGEMENT_MESSAGES_def)
  moreover have "map_of sm_decoders t = None" if "t \<notin> set (map fst sm_decoders)" for t
    using that by (simp add: map_of_eq_None_iff)
  ultimately show ?thesis
    using False by (auto simp: sm_msg_decode_def Let_def sm_decoder_def)
qed

theorem sm_decode_rejects_witness:
  "\<forall>m. let b = [0x2e, 1, 1, 0xC4]
    in (unat (4 :: u32) < 4 \<longrightarrow> sm_msg_decode m b 4 = Some (Returned (err TLV_BUFFER_TOO_SHORT) m)) \<and>
     (4 \<le> unat (4 :: u32) \<and> b ! 0 \<noteq> 0x2e \<longrightarrow> (\<exists>m'. sm_msg_decode m b 4 = Some (Returned (err TLV_PROTOCOL_NOT_SUPPORTED) m'))) \<and>
     (4 \<le> unat (4 :: u32) \<and> b ! 0 = 0x2e \<and> b ! 3 \<notin> set (map fst sm_decoders) \<longrightarrow>
        (\<exists>m'. sm_msg_decode m b 4 = Some (Returned (err TLV_WRONG_MESSAGE_TYPE) m')))"
  unfolding Let_def by (intro allI sm_decode_rejects) simp

text \<open>C10: A decoder of a session management message does not return when an optional element carries an identifier it
  does not know: here for an establishment request, as the network receives it from a user equipment.\<close>

theorem unknown_element_never_returns:
  assumes "ereq_valid r" and "iei \<noteq> 0" and "iei AND 0xF0 \<notin> {0x90, 0xA0, 0xB0}" and "iei \<notin> {0x28, 0x55, 0x39, 0x7B}"
    and "4 + length (ereq_wire r) < unat len"
  shows "sm_msg_decode m ([0x2e, psi, pti, 0xC1] @ ereq_wire r @ iei # rest) len = None"
proof -
  let ?m = "m\<lparr>extended_protocol_discriminator := 0x2e, pdu_session_identity := psi,
                      procedure_transaction_identity := pti, message_type := 0xC1\<rparr>"
  have hdr: "fivegsm_msg_decode_header m ([0x2e, psi, pti, 0xC1] @ ereq_wire r @ iei # rest) len = Some (4, ?m)"
    using assms(5) by (simp add: fivegsm_msg_decode_header_def EPD_5GS_SESSION_MANAGEMENT_MESSAGES_def)
  have l: "length (ereq_wire r) < unat (len - 4)"
    using unat_u32_minus_of_nat [of 4 len] assms(5) by simp
  have "sm_decoder ?m (Some (ereq_wire r @ iei # rest)) (len - 4) = None"
    using decode_pdu_session_establishment_request_unknown [OF assms(1,2) _ _ l] assms(3,4)
    by (simp add: sm_decoder_def sm_decoders_def member_def ereq_half_def ereq_full_def)
  then show ?thesis unfolding sm_msg_decode_def hdr by simp
qed

definition small_request :: "pdu_session_establishment_request_msg \<Rightarrow> pdu_session_establishment_request_msg" where
  "small_request r = r\<lparr>ereq_presence := 0x03, ereq_intergrityprotectionmaximumdatarate := Some [0xFF, 0xFF],
     ereq_pdusessiontype := \<lparr>pdu_session_type_value = 1\<rparr>, ereq_sscmode := \<lparr>ssc_mode_value = 1\<rparr>\<rparr>"

lemma small_request_valid: "ereq_valid (small_request r)"
  by (simp add: ereq_valid_def small_request_def)

lemma small_request_wire: "ereq_wire (small_request r) = [0xFF, 0xFF, 0x91, 0xA1]"
  by (simp add: small_request_def ereq_wire_def ereq_mand_wire_def ereq_opt_wire_def integrity_rate_wire_def iei_wire_def
    pdu_session_type_wire_def ssc_mode_wire_def half_wire_def)

theorem unknown_element_never_returns_witness:
  "\<forall>m. sm_msg_decode m ([0x2e, 1, 1, 0xC1] @ ereq_wire (small_request (pdu_session_establishment_request m)) @ 0x66 # [1, 0]) 11 = None"
  by (intro allI unknown_element_never_returns) (simp_all add: small_request_valid small_request_wire)

text \<open>C30: The establishment accept that the session management function encodes is rejected by its own decoder,
  whatever the message: the octet of the session type carries bit 5 and the code is -1.\<close>

theorem accept_not_read_back:
  assumes "eacc_valid msg" and "15 \<le> length (eacc_wire msg)" and "length (eacc_wire msg) \<le> unat len" and "unat len \<le> length b"
  shows "\<exists>n b'. encode_pdu_session_establishment_accept msg len (Some b) = Some (n, b') \<and> 15 \<le> n \<and>
     decode_pdu_session_establishment_accept m (Some b') len = Some (Returned (-1) m)"
  using encodesD [OF encode_pdu_session_establishment_accept_ok [OF assms(1,2)] assms(3,4)]
    decode_own_accept [of len m msg] assms(2,3)
  by (simp add: overwrite_zero)

definition small_accept :: "pdu_session_establishment_accept_msg \<Rightarrow> pdu_session_establishment_accept_msg" where
  "small_accept e = e\<lparr>eacc_pdusessiontype := \<lparr>pdu_session_type_value = 1\<rparr>, eacc_presence := 0x01, eacc_5gsmcause := 0x32,
     eacc_qosrules := \<lparr>lengthofqosrulesie = 1, qosrulesie =
       [\<lparr>qosruleidentifer = 1, LengthofQoSrule = 0, ruleoperationcode = 1, dqrbit = 1, numberofpacketfilters = 1,
         filterlist = CreateModify [\<lparr>packetfilterdirection = 3, packetfilteridentifier = 1, component_type = 1, component_value = None\<rparr>],
         qosruleprecedence = 0xFF, segregation = 0, qosflowidentifer = 9\<rparr>]\<rparr>\<rparr>"

lemma small_accept_valid: "eacc_valid (small_accept e)" "length (eacc_wire (small_accept e)) = 21"
  by (simp_all add: small_accept_def eacc_valid_def eacc_wire_def eacc_mand_wire_def eacc_opt_wire_def pdu_session_type_wire_def
    half_wire_def qos_rules_wire_def rule_wire_def rule_body_wire_def filter_wire_def rule_tail_wire_def Let_def iei_wire_def
    session_ambr_wire_def cause_wire_def qos_rules_ok_def qos_rules_fit_def rule_valid_def filters_valid_def filter_valid_def
    carries_filters_def)

theorem accept_not_read_back_witness:
  "\<forall>m. \<exists>n b'. encode_pdu_session_establishment_accept (small_accept m) 32 (Some (replicate 32 0)) = Some (n, b') \<and> 15 \<le> n \<and>
     decode_pdu_session_establishment_accept m (Some b') 32 = Some (Returned (-1) m)"
  by (intro allI accept_not_read_back) (simp_all add: small_accept_valid)

text \<open>The same protocol or container identifiers in the same order, with the same lengths and contents.\<close>

definition same_containers :: "pco \<Rightarrow> pco \<Rightarrow> bool" where
  "same_containers y x \<longleftrightarrow>
     num_protocol_or_container_id y = num_protocol_or_container_id x \<and>
     list_all (\<lambda>i. let c = protocol_or_container_ids x i; c' = protocol_or_container_ids y i
                   in pco_id c' = pco_id c \<and> pco_length c' = pco_length c \<and>
                      bstr (pco_contents c') = (if pco_length c > 0 then bstr (pco_contents c) else []))
       [0..<unat (num_protocol_or_container_id x)]"

lemma pco_seen_same: "same_containers (pco_seen x0 x) x"
  "configuration_protocol (pco_seen x0 x) = drop_bit 1 (configuration_protocol x)"
  by (auto simp: same_containers_def pco_seen_def pco_fill_def pco_canon_def list_all_iff Let_def)

lemma and_power: "p AND 2 ^ k = (if bit p k then 2 ^ k else 0)" for p :: u8
  by (rule bit_word_eqI) (auto simp: bit_simps)

lemma ereq_presence_step:
  assumes "\<And>m. ereq_presence (f m) = ereq_presence m OR 2 ^ k" and "k < 8"
  shows "ereq_presence (when_present (p AND 2 ^ k = 2 ^ k) f m) = ereq_presence m OR (p AND 2 ^ k)"
proof -
  have "(2 :: u8) ^ k \<noteq> 0" using assms(2) by simp
  then show ?thesis by (simp add: when_present_def and_power assms(1))
qed

lemmas ereq_presence_steps = ereq_presence_step [where k = 0, simplified] ereq_presence_step [where k = 1, simplified]
  ereq_presence_step [where k = 2, simplified] ereq_presence_step [where k = 3, simplified]
  ereq_presence_step [where k = 4, simplified] ereq_presence_step [where k = 5, simplified]
  ereq_presence_step [where k = 6, simplified]

lemma ereq_presence_seen: "ereq_presence (ereq_seen m msg) = ereq_presence m OR (ereq_presence msg AND 0x7F)"
  by (simp add: ereq_seen_def ereq_opt_seen_def ereq_mand_seen_def ereq_presence_steps or.assoc flip: bit.conj_disj_distrib)

text \<open>C24: An establishment request survives its codec field by field, over any earlier contents of the structure, when it
  is one the encoder can write (\<open>ereq_valid\<close>): a data rate of two octets, at most 2047 packet filters, an SM PDU DN request
  container of 1 to 255 octets, and at most thirty protocol configuration containers whose lengths are those of their
  contents, each where the element is present. A mandatory or present element comes back as it was, with the octets of
  the data rate and of the container for their strings, but for the extended protocol configuration options: of these
  the identifiers, lengths and contents come back and the configuration protocol is shifted right by one bit. A field
  of an absent element keeps its earlier value, and the presence mask is joined with the earlier one.\<close>

theorem establishment_request_roundtrip:
  assumes "ereq_valid msg" and "length (ereq_wire msg) \<le> unat len" and "unat len \<le> length b"
  shows "\<exists>n b' m'. encode_pdu_session_establishment_request msg len (Some b) = Some (n, b') \<and>
     decode_pdu_session_establishment_request m (Some b') (of_int n) = Some (Returned n m') \<and>
     bstr (ereq_intergrityprotectionmaximumdatarate m') = bstr (ereq_intergrityprotectionmaximumdatarate msg) \<and>
     ereq_presence m' = ereq_presence m OR (ereq_presence msg AND 0x7F) \<and>
     ereq_pdusessiontype m' =
       (if ereq_presence msg AND 0x01 = 0x01 then ereq_pdusessiontype msg else ereq_pdusessiontype m) \<and>
     ereq_sscmode m' = (if ereq_presence msg AND 0x02 = 0x02 then ereq_sscmode msg else ereq_sscmode m) \<and>
     ereq_5gsmcapability m' =
       (if ereq_presence msg AND 0x04 = 0x04 then ereq_5gsmcapability msg else ereq_5gsmcapability m) \<and>
     ereq_maximumnumberofsupportedpacketfilters m' =
       (if ereq_presence msg AND 0x08 = 0x08 then ereq_maximumnumberofsupportedpacketfilters msg
        else ereq_maximumnumberofsupportedpacketfilters m) \<and>
     ereq_alwaysonpdusessionrequested m' =
       (if ereq_presence msg AND 0x10 = 0x10 then ereq_alwaysonpdusessionrequested msg
        else ereq_alwaysonpdusessionrequested m) \<and>
     bstr (ereq_smpdudnrequestcontainer m') =
       (if ereq_presence msg AND 0x20 = 0x20 then bstr (ereq_smpdudnrequestcontainer msg)
        else bstr (ereq_smpdudnrequestcontainer m)) \<and>
     (ereq_presence msg AND 0x40 \<noteq> 0x40 \<longrightarrow>
        ereq_extendedprotocolconfigurationoptions m' = ereq_extendedprotocolconfigurationoptions m) \<and>
     (ereq_presence msg AND 0x40 = 0x40 \<longrightarrow>
        same_containers (ereq_extendedprotocolconfigurationoptions m') (ereq_extendedprotocolconfigurationoptions msg) \<and>
        configuration_protocol (ereq_extendedprotocolconfigurationoptions m')
          = drop_bit 1 (configuration_protocol (ereq_extendedprotocolconfigurationoptions msg)))"
proof -
  let ?n = "length (ereq_wire msg)"
  have e: "encode_pdu_session_establishment_request msg len (Some b) = Some (int ?n, ereq_wire msg @ drop ?n b)"
    using encodesD [OF encode_pdu_session_establishment_request_ok [OF assms(1)] assms(2,3)]
    by (simp add: overwrite_zero)
  have u: "unat (of_nat ?n :: u32) = ?n" using assms(2) unat_u32_less [of len] by (intro unat_u32_of_nat) simp
  have "decode_pdu_session_establishment_request m (Some (ereq_wire msg @ drop ?n b)) (of_nat ?n)
      = Some (Returned (int ?n) (ereq_seen m msg))"
    by (rule decode_pdu_session_establishment_request_wire [OF assms(1) u])
  with e ereq_presence_seen [of m msg] show ?thesis
    by (intro exI [of _ "int ?n"] exI [of _ "ereq_wire msg @ drop ?n b"] exI [of _ "ereq_seen m msg"])
      (simp add: ereq_seen_def ereq_opt_seen_def ereq_mand_seen_def when_present_def pco_seen_same)
qed

theorem establishment_request_roundtrip_witness:
  "\<forall>m. let msg = small_request m
   in \<exists>n b' m'. encode_pdu_session_establishment_request msg 8 (Some (replicate 8 0)) = Some (n, b') \<and>
     decode_pdu_session_establishment_request m (Some b') (of_int n) = Some (Returned n m') \<and>
     bstr (ereq_intergrityprotectionmaximumdatarate m') = bstr (ereq_intergrityprotectionmaximumdatarate msg) \<and>
     ereq_presence m' = ereq_presence m OR (ereq_presence msg AND 0x7F) \<and>
     ereq_pdusessiontype m' =
       (if ereq_presence msg AND 0x01 = 0x01 then ereq_pdusessiontype msg else ereq_pdusessiontype m) \<and>
     ereq_sscmode m' = (if ereq_presence msg AND 0x02 = 0x02 then ereq_sscmode msg else ereq_sscmode m) \<and>
     ereq_5gsmcapability m' =
       (if ereq_presence msg AND 0x04 = 0x04 then ereq_5gsmcapability msg else ereq_5gsmcapability m) \<and>
     ereq_maximumnumberofsupportedpacketfilters m' =
       (if ereq_presence msg AND 0x08 = 0x08 then ereq_maximumnumberofsupportedpacketfilters msg
        else ereq_maximumnumberofsupportedpacketfilters m) \<and>
     ereq_alwaysonpdusessionrequested m' =
       (if ereq_presence msg AND 0x10 = 0x10 then ereq_alwaysonpdusessionrequested msg
        else ereq_alwaysonpdusessionrequested m) \<and>
     bstr (ereq_smpdudnrequestcontainer m') =
       (if ereq_presence msg AND 0x20 = 0x20 then bstr (ereq_smpdudnrequestcontainer msg)
        else bstr (ereq_smpdudnrequestcontainer m)) \<and>
     (ereq_presence msg AND 0x40 \<noteq> 0x40 \<longrightarrow>
        ereq_extendedprotocolconfigurationoptions m' = ereq_extendedprotocolconfigurationoptions m) \<and>
     (ereq_presence msg AND 0x40 = 0x40 \<longrightarrow>
        same_containers (ereq_extendedprotocolconfigurationoptions m') (ereq_extendedprotocolconfigurationoptions msg) \<and>
        configuration_protocol (ereq_extendedprotocolconfigurationoptions m')
          = drop_bit 1 (configuration_protocol (ereq_extendedprotocolconfigurationoptions msg)))"
  unfolding Let_def
  by (intro allI establishment_request_roundtrip) (simp_all add: small_request_valid small_request_wire)

end
