(* ===== verification/Nas_Message.thy ===== *)
theory Nas_Message
  imports SM_Msg
begin

text \<open>
  The layer 3 NAS message, \<open>nas_message.c\<close>: the plain and the security protected header, and the
  choice between mobility and session management. The codecs of mobility management
  (\<open>fivegmm_msg_encode\<close>, \<open>mm_msg_decode\<close>) and the success of \<open>calloc\<close> are arguments.
\<close>

subsection \<open>Structures\<close>

text \<open>
  \<open>extended_protocol_discriminator\<close> is an enumeration, four bytes in the packed structure with the
  low one first; the security header type follows it.
\<close>

record nas_security_header =
  nas_epd :: u32
  security_header_type :: "4 word"
  spare_half_octet :: "4 word"
  message_authentication_code :: u32
  sequence_number :: u8

text \<open>The union of the two kinds of plain message: only the member of the header's kind is accessed.\<close>

record 'mm nas_plain =
  plain_mm :: 'mm
  plain_sm :: SM_msg

record 'mm nas_message =
  nas_header :: nas_security_header
  nas_protected_header :: nas_security_header
  nas_protected_plain :: "'mm nas_plain"
  nas_plain_part :: "'mm nas_plain"

record nas_count =
  count_overflow :: u16
  count_seq_num :: u8

record fivegmm_security_context =
  dl_count :: nas_count
  ul_count :: nas_count

record nas_message_decode_status =
  integrity_protected_message :: bool
  ciphered_message :: bool
  mac_matched :: bool
  security_context_available :: bool

definition EPD_MM :: u32 where "EPD_MM = 0x7e"
definition EPD_SM :: u32 where "EPD_SM = 0x2e"

subsection \<open>Encoder\<close>

text \<open>
  \<open>_nas_message_header_encode\<close>: the second octet is byte 1 of the header structure,
  \<open>*((uint8_t* ) (header) + 1)\<close>. \<open>RETURNerror\<close> is 1.
\<close>

definition RETURNerror :: int where "RETURNerror = 1"

definition nas_message_header_encode :: "mem \<Rightarrow> nas_security_header \<Rightarrow> u64 \<Rightarrow> (int \<times> mem) option" where
  "nas_message_header_encode buffer header len =
     (case exec [ENCODE_U8 (ucast (nas_epd header)), ENCODE_U8 (ucast (drop_bit 8 (nas_epd header)))] 0 buffer 0 of
        ENext buffer sz \<Rightarrow>
          (if nas_epd header = EPD_MM \<and> security_header_type header \<noteq> 0 then
             (if unat len < 7 then Some (RETURNerror, buffer)
              else finish (exec [store (be32 (message_authentication_code header)),
                                 ENCODE_U8 (sequence_number header)] 0 buffer sz))
           else Some (int sz, buffer))
      | _ \<Rightarrow> None)"

text \<open>\<open>_nas_message_plain_encode\<close>; the length is narrowed to 32 bits.\<close>

definition nas_message_plain_encode ::
  "('mm \<Rightarrow> encoder) \<Rightarrow> mem \<Rightarrow> nas_security_header \<Rightarrow> 'mm nas_plain \<Rightarrow> u64 \<Rightarrow> (int \<times> mem) option" where
  "nas_message_plain_encode mm_enc buffer header msg len =
     (if nas_epd header = EPD_MM then mm_enc (plain_mm msg) (ucast len) (Some buffer)
      else if nas_epd header = EPD_SM then fivegsm_msg_encode (plain_sm msg) (ucast len) (Some buffer)
      else Some (err TLV_PROTOCOL_NOT_SUPPORTED, buffer))"

text \<open>
  \<open>_nas_message_encrypt\<close> and \<open>_nas_message_decrypt\<close> do not write the destination, and
  \<open>_nas_message_get_mac\<close> returns 0 with and without a security context.
\<close>

definition nas_message_encrypt :: "mem \<Rightarrow> mem \<Rightarrow> u64 \<Rightarrow> int \<times> mem" where
  "nas_message_encrypt dest src len = (sint (ucast len :: u32), dest)"

definition nas_message_decrypt :: "mem \<Rightarrow> mem \<Rightarrow> u64 \<Rightarrow> int \<times> mem" where
  "nas_message_decrypt dest src len = (0, dest)"

definition nas_message_get_mac :: "mem \<Rightarrow> u64 \<Rightarrow> fivegmm_security_context option \<Rightarrow> u32" where
  "nas_message_get_mac buffer len ctx = (case ctx of None \<Rightarrow> 0 | Some _ \<Rightarrow> 0)"

definition nas_message_protected_encode ::
  "('mm \<Rightarrow> encoder) \<Rightarrow> (u64 \<Rightarrow> bool) \<Rightarrow> mem \<Rightarrow> nas_security_header \<Rightarrow> 'mm nas_plain \<Rightarrow> u64
     \<Rightarrow> (int \<times> mem) option" where
  "nas_message_protected_encode mm_enc calloc_ok buffer header msg len =
     (if calloc_ok len then
        (case nas_message_plain_encode mm_enc (replicate (unat len) 0) header msg len of
           None \<Rightarrow> None
         | Some (sz, plain_msg) \<Rightarrow>
             (if sz > 0 then Some (nas_message_encrypt buffer plain_msg (word_of_int sz))
              else Some (err TLV_BUFFER_TOO_SHORT, buffer)))
      else Some (err TLV_BUFFER_TOO_SHORT, buffer))"

text \<open>The increment of the 8-bit sequence number, with the overflow counter.\<close>

definition next_count :: "nas_count \<Rightarrow> nas_count" where
  "next_count c =
     (let c = c\<lparr>count_seq_num := count_seq_num c + 1\<rparr>
      in if count_seq_num c = 0 then c\<lparr>count_overflow := count_overflow c + 1\<rparr> else c)"

definition nas_message_encode ::
  "('mm \<Rightarrow> encoder) \<Rightarrow> (u64 \<Rightarrow> bool) \<Rightarrow> mem \<Rightarrow> 'mm nas_message \<Rightarrow> u64 \<Rightarrow> fivegmm_security_context option
     \<Rightarrow> (int \<times> mem \<times> fivegmm_security_context option) option" where
  "nas_message_encode mm_enc calloc_ok buffer msg len security =
     (case nas_message_header_encode buffer (nas_header msg) len of
        None \<Rightarrow> None
      | Some (sz, buffer) \<Rightarrow>
          (if sz < 0 then Some (err TLV_BUFFER_TOO_SHORT, buffer, security)
           else if sz > 2 then
             (case nas_message_protected_encode mm_enc calloc_ok (drop (nat sz) buffer)
                     (nas_protected_header msg) (nas_protected_plain msg) (len - of_int sz) of
                None \<Rightarrow> None
              | Some (bytes, tail) \<Rightarrow>
                  (let buffer = take (nat sz) buffer @ tail
                   in if bytes > 0 then
                        (let mac = nas_message_get_mac (drop (nat sz - 1) buffer)
                                     (of_int (bytes + 1)) security
                         in case store (be32 mac) 0 buffer 2 of
                              ENext buffer _ \<Rightarrow>
                                Some (bytes, buffer,
                                      map_option (\<lambda>c. c\<lparr>dl_count := next_count (dl_count c)\<rparr>) security)
                            | _ \<Rightarrow> None)
                      else Some (bytes, buffer, security)))
           else
             (case nas_message_plain_encode mm_enc buffer (nas_header msg) (nas_plain_part msg) len of
                None \<Rightarrow> None
              | Some (bytes, buffer) \<Rightarrow> Some (bytes, buffer, security))))"

subsection \<open>Decoder\<close>

text \<open>What a protected header says of the message, when the caller asks (\<open>status\<close> is not \<open>NULL\<close>).\<close>

definition note_header_type :: "4 word \<Rightarrow> nas_message_decode_status \<Rightarrow> nas_message_decode_status" where
  "note_header_type t status =
     (if t = 0b0001 \<or> t = 0b0011 then status\<lparr>integrity_protected_message := True\<rparr>
      else if t = 0b0010 \<or> t = 0b0100 then status\<lparr>integrity_protected_message := True, ciphered_message := True\<rparr>
      else status)"

definition nas_message_header_decode ::
  "mem \<Rightarrow> nas_security_header \<Rightarrow> u64 \<Rightarrow> nas_message_decode_status option
     \<Rightarrow> (int \<times> nas_security_header \<times> nas_message_decode_status option) option" where
  "nas_message_header_decode buffer header len status = do {
     epd \<leftarrow> DECODE_U8 buffer 0;
     let header = header\<lparr>nas_epd := ucast epd\<rparr>;
     if nas_epd header = EPD_MM then do {
       t \<leftarrow> DECODE_U8 buffer 1;
       let header = header\<lparr>security_header_type := ucast t\<rparr>;
       if security_header_type header \<noteq> 0 then do {
         let status = map_option (note_header_type (security_header_type header)) status;
         if unat len < 7 then Some (RETURNerror, header, status)
         else do {
           mac \<leftarrow> read_be32 buffer 2;
           s \<leftarrow> DECODE_U8 buffer 6;
           Some (7, header\<lparr>message_authentication_code := mac, sequence_number := s\<rparr>, status) } }
       else Some (2, header, status) }
     else Some (1, header, status) }"

definition nas_message_plain_decode ::
  "('mm \<Rightarrow> mem \<Rightarrow> u32 \<Rightarrow> 'mm run option) \<Rightarrow> mem \<Rightarrow> nas_security_header \<Rightarrow> 'mm nas_plain \<Rightarrow> u64
     \<Rightarrow> 'mm nas_plain run option" where
  "nas_message_plain_decode mm_dec buffer header msg len =
     (if nas_epd header = EPD_MM then
        (case mm_dec (plain_mm msg) buffer (ucast len) of
           None \<Rightarrow> None
         | Some Undefined \<Rightarrow> Some Undefined
         | Some (Returned r m) \<Rightarrow> Some (Returned r (msg\<lparr>plain_mm := m\<rparr>)))
      else if nas_epd header = EPD_SM then
        (case sm_msg_decode (plain_sm msg) buffer (ucast len) of
           None \<Rightarrow> None
         | Some Undefined \<Rightarrow> Some Undefined
         | Some (Returned r m) \<Rightarrow> Some (Returned r (msg\<lparr>plain_sm := m\<rparr>)))
      else Some (Returned (err TLV_PROTOCOL_NOT_SUPPORTED) msg))"

definition nas_message_protected_decode ::
  "('mm \<Rightarrow> mem \<Rightarrow> u32 \<Rightarrow> 'mm run option) \<Rightarrow> (u64 \<Rightarrow> bool) \<Rightarrow> mem \<Rightarrow> nas_security_header \<Rightarrow> 'mm nas_plain
     \<Rightarrow> u64 \<Rightarrow> 'mm nas_plain run option" where
  "nas_message_protected_decode mm_dec calloc_ok buffer header msg len =
     (if calloc_ok len then
        (let plain_msg = snd (nas_message_decrypt (replicate (unat len) 0) buffer len)
         in nas_message_plain_decode mm_dec plain_msg header msg len)
      else Some (Returned (err TLV_BUFFER_TOO_SHORT) msg))"

text \<open>What decoding leaves: the message, the security context, the status.\<close>

record 'mm nas_decoded =
  decoded_msg :: "'mm nas_message"
  decoded_security :: "fivegmm_security_context option"
  decoded_status :: "nas_message_decode_status option"

text \<open>The uplink count taken over from a received sequence number.\<close>

definition take_over_count :: "u8 \<Rightarrow> nas_count \<Rightarrow> nas_count" where
  "take_over_count s c =
     (let c = (if s < count_seq_num c then c\<lparr>count_overflow := count_overflow c + 1\<rparr> else c)
      in c\<lparr>count_seq_num := s\<rparr>)"

text \<open>
  The part of \<open>nas_message_decode\<close> under \<open>if (fivegmm_security_context)\<close> for a protected message; a
  missing \<open>status\<close> is dereferenced there.
\<close>

definition check_protection ::
  "mem \<Rightarrow> nat \<Rightarrow> u64 \<Rightarrow> nas_security_header \<Rightarrow> fivegmm_security_context option \<Rightarrow> nas_message_decode_status option
     \<Rightarrow> (fivegmm_security_context option \<times> nas_message_decode_status option) option" where
  "check_protection buffer sz len header security status =
     (case security of
        None \<Rightarrow> Some (security, status)
      | Some c \<Rightarrow>
          (case status of
             None \<Rightarrow> None
           | Some st \<Rightarrow>
               (let st = st\<lparr>security_context_available := True\<rparr>;
                    c = c\<lparr>ul_count := take_over_count (sequence_number header) (ul_count c)\<rparr>;
                    mac = nas_message_get_mac (drop (sz - 1) buffer) (len - of_nat (sz - 1)) (Some c);
                    st = (if mac = message_authentication_code header then st\<lparr>mac_matched := True\<rparr> else st)
                in Some (Some c, Some st))))"

text \<open>\<open>RETURNok\<close> whatever the result of the plain or the protected decoder.\<close>

definition nas_message_decode ::
  "('mm \<Rightarrow> mem \<Rightarrow> u32 \<Rightarrow> 'mm run option) \<Rightarrow> (u64 \<Rightarrow> bool) \<Rightarrow> mem \<Rightarrow> 'mm nas_message \<Rightarrow> u64
     \<Rightarrow> fivegmm_security_context option \<Rightarrow> nas_message_decode_status option \<Rightarrow> 'mm nas_decoded run option" where
  "nas_message_decode mm_dec calloc_ok buffer msg len security status =
     (if security \<noteq> None \<and> status = None then Some Undefined
      else
        (let status = (if security \<noteq> None then map_option (\<lambda>s. s\<lparr>security_context_available := True\<rparr>) status else status)
         in case nas_message_header_decode buffer (nas_header msg) len status of
              None \<Rightarrow> Some Undefined
            | Some (sz, header, status) \<Rightarrow>
                (let msg = msg\<lparr>nas_header := header\<rparr>
                 in if sz < 0 then Some (Returned (err TLV_BUFFER_TOO_SHORT) \<lparr>decoded_msg = msg, decoded_security = security, decoded_status = status\<rparr>)
                    else if sz > 1 then
                      (case check_protection buffer (nat sz) len header security status of
                         None \<Rightarrow> Some Undefined
                       | Some (security, status) \<Rightarrow>
                           (case nas_message_protected_decode mm_dec calloc_ok (drop (nat sz) buffer) header
                                   (nas_plain_part msg) (len - of_int sz) of
                              None \<Rightarrow> None
                            | Some Undefined \<Rightarrow> Some Undefined
                            | Some (Returned _ p) \<Rightarrow>
                                Some (Returned 0 \<lparr>decoded_msg = msg\<lparr>nas_plain_part := p\<rparr>, decoded_security = security, decoded_status = status\<rparr>)))
                    else
                      (case nas_message_plain_decode mm_dec buffer header (nas_plain_part msg) len of
                         None \<Rightarrow> None
                       | Some Undefined \<Rightarrow> Some Undefined
                       | Some (Returned _ p) \<Rightarrow>
                           Some (Returned 0 \<lparr>decoded_msg = msg\<lparr>nas_plain_part := p\<rparr>, decoded_security = security, decoded_status = status\<rparr>)))))"


subsection \<open>The counts\<close>

text \<open>The 24-bit count of an overflow counter and a sequence number.\<close>

definition count_value :: "nas_count \<Rightarrow> nat" where
  "count_value c = unat (count_overflow c) * 256 + unat (count_seq_num c)"

lemma next_count_value: "count_value (next_count c) = (count_value c + 1) mod 2 ^ 24"
proof -
  have s: "unat (count_seq_num c) < 256" and o': "unat (count_overflow c) < 65536"
    using unat_less [of "count_seq_num c"] unat_less [of "count_overflow c"] by simp_all
  show ?thesis
    using s o' plus_one_zero [of "count_seq_num c"] plus_one_zero [of "count_overflow c"]
    by (auto simp: next_count_def count_value_def Let_def unat_plus_one)
qed

lemma take_over_count_value:
  assumes "unat (count_overflow c) < 0xFFFF"
  shows "count_value c \<le> count_value (take_over_count s c)"
    and "count_value (take_over_count s c) < count_value c + 256"
    and "count_value (take_over_count s c) mod 256 = unat s"
proof -
  have s: "unat (count_seq_num c) < 256" "unat s < 256"
    using unat_less [of "count_seq_num c"] unat_less [of s] by simp_all
  have o': "unat (count_overflow c + 1) = unat (count_overflow c) + 1"
    using assms by (subst unat_plus_one) (simp add: plus_one_zero)
  show "count_value c \<le> count_value (take_over_count s c)"
    and "count_value (take_over_count s c) < count_value c + 256"
    and "count_value (take_over_count s c) mod 256 = unat s"
    using s o' by (auto simp: take_over_count_def count_value_def Let_def word_less_nat_alt)
qed

subsection \<open>Plain session management messages\<close>

lemma header_encode_plain:
  assumes "nas_epd h \<noteq> EPD_MM \<or> security_header_type h = 0" and "2 \<le> length b"
  shows "nas_message_header_encode b h len
       = Some (2, overwrite b 0 [ucast (nas_epd h), ucast (drop_bit 8 (nas_epd h))])"
  using assms by (auto simp: nas_message_header_encode_def ENCODE_U8_def store_def)
    (auto simp: overwrite_def)

lemma overwrite_over: "length bs \<le> length bs' \<Longrightarrow> length bs' \<le> length b \<Longrightarrow> overwrite (overwrite b 0 bs) 0 bs' = overwrite b 0 bs'"
  by (simp add: overwrite_def)

lemma encode_sm_plain:
  assumes "nas_epd (nas_header msg) = EPD_SM"
    and "sm_body_valid (plain_sm (nas_plain_part msg))"
    and "extended_protocol_discriminator (plain_sm (nas_plain_part msg)) = EPD_5GS_SESSION_MANAGEMENT_MESSAGES"
    and "unat len < 2 ^ 32" and "4 + length (sm_body_wire (plain_sm (nas_plain_part msg))) \<le> unat len"
    and "unat len \<le> length b"
  shows "nas_message_encode mm_enc calloc_ok b msg len security
       = Some (int (4 + length (sm_body_wire (plain_sm (nas_plain_part msg)))),
               sm_header_wire (plain_sm (nas_plain_part msg)) @ sm_body_wire (plain_sm (nas_plain_part msg))
                 @ drop (4 + length (sm_body_wire (plain_sm (nas_plain_part msg)))) b, security)"
proof -
  let ?sm = "plain_sm (nas_plain_part msg)"
  let ?w = "sm_header_wire ?sm @ sm_body_wire ?sm"
  let ?h = "[ucast (nas_epd (nas_header msg)), ucast (drop_bit 8 (nas_epd (nas_header msg)))] :: u8 list"
  have l: "length ?w = 4 + length (sm_body_wire ?sm)" by (simp add: sm_header_wire_def)
  have u: "unat (ucast len :: u32) = unat len" using assms(4) by (simp add: unsigned_ucast_eq take_bit_nat_eq_self)
  have e: "fivegsm_msg_encode ?sm (ucast len) (Some (overwrite b 0 ?h))
      = Some (int (length ?w), overwrite (overwrite b 0 ?h) 0 ?w)"
    using assms l u by (intro encodesD [OF fivegsm_msg_encode_encodes]) simp_all
  have o': "overwrite (overwrite b 0 ?h) 0 ?w = ?w @ drop (length ?w) b"
    using assms l by (subst overwrite_over) (simp_all add: overwrite_zero)
  have h: "nas_message_header_encode b (nas_header msg) len = Some (2, overwrite b 0 ?h)"
    using assms by (intro header_encode_plain) (simp_all add: EPD_SM_def EPD_MM_def)
  show ?thesis
    unfolding nas_message_encode_def h
    using assms(1) e [unfolded o'] l
    by (simp add: nas_message_plain_encode_def EPD_SM_def EPD_MM_def)
qed

lemma decode_sm_plain:
  assumes "sm_body_valid sm" and "message_type sm \<noteq> 0xC2"
    and "extended_protocol_discriminator sm = EPD_5GS_SESSION_MANAGEMENT_MESSAGES"
    and "unat len = 4 + length (sm_body_wire sm)" and "unat len < 2 ^ 32" and "sec = None \<or> status \<noteq> None"
  shows "nas_message_decode mm_dec calloc_ok (sm_header_wire sm @ sm_body_wire sm @ rest) msg len sec status
       = Some (Returned 0 \<lparr>decoded_msg = msg\<lparr>nas_header := (nas_header msg)\<lparr>nas_epd := EPD_SM\<rparr>,
             nas_plain_part := (nas_plain_part msg)\<lparr>plain_sm := sm_seen (plain_sm (nas_plain_part msg)) sm\<rparr>\<rparr>,
             decoded_security = sec,
             decoded_status = (if sec = None then status else map_option (\<lambda>s. s\<lparr>security_context_available := True\<rparr>) status)\<rparr>)"
proof -
  have u: "unat (ucast len :: u32) = unat len" using assms(5) by (simp add: unsigned_ucast_eq take_bit_nat_eq_self)
  have "nas_message_header_decode (sm_header_wire sm @ sm_body_wire sm @ rest) (nas_header msg) len status'
      = Some (1, (nas_header msg)\<lparr>nas_epd := EPD_SM\<rparr>, status')" for status'
    using assms(3) by (simp add: nas_message_header_decode_def DECODE_U8_def sm_header_wire_def
        EPD_5GS_SESSION_MANAGEMENT_MESSAGES_def EPD_SM_def EPD_MM_def)
  moreover have "sm_msg_decode (plain_sm (nas_plain_part msg)) (sm_header_wire sm @ sm_body_wire sm @ rest) (ucast len)
      = Some (Returned (int (unat len)) (sm_seen (plain_sm (nas_plain_part msg)) sm))"
    using sm_msg_decode_wire [OF assms(1-3), of "ucast len"] assms(4) u by simp
  ultimately show ?thesis
    using assms(6) by (auto simp: nas_message_decode_def nas_message_plain_decode_def EPD_SM_def EPD_MM_def Let_def)
qed


subsection \<open>Protected messages\<close>

text \<open>
  The second octet of a header is byte 1 of the discriminator; so what the header encoder writes for a
  protected message reads back as a plain header.
\<close>

lemma header_encode_protected:
  assumes "nas_epd h = EPD_MM" and "security_header_type h \<noteq> 0" and "7 \<le> unat len" and "unat len \<le> length b"
  shows "nas_message_header_encode b h len
       = Some (7, overwrite b 0 ([0x7e, 0] @ be32 (message_authentication_code h) @ [sequence_number h]))"
proof -
  have e: "emits 0 [ENCODE_U8 (0x7e :: u8), ENCODE_U8 (0 :: u8), store (be32 (message_authentication_code h)), ENCODE_U8 (sequence_number h)]
     ([0x7e] @ [0] @ be32 (message_authentication_code h) @ [sequence_number h] @ [])"
    by (intro emits_Cons emits_U8 emits_store emits_Nil)
  have l: "length (be32 v) = 4" for v by (simp add: be32_def)
  define b2 where "b2 = overwrite b 0 [0x7e, 0]"
  have two: "exec [ENCODE_U8 (0x7e :: u8), ENCODE_U8 (0 :: u8)] 0 b 0 = ENext b2 2"
    using assms(3,4) by (simp add: ENCODE_U8_def store_def b2_def) (simp add: overwrite_def)
  have "length b2 = length b" using assms(3,4) by (simp add: b2_def)
  then have "exec [store (be32 (message_authentication_code h)), ENCODE_U8 (sequence_number h)] 0 b2 2
     = ENext (overwrite b2 2 (be32 (message_authentication_code h) @ [sequence_number h])) 7"
    using assms(3,4) l by (simp add: ENCODE_U8_def store_def) 
      (simp add: overwrite_def l)
  moreover have "overwrite b2 2 (be32 (message_authentication_code h) @ [sequence_number h])
     = overwrite b 0 ([0x7e, 0] @ be32 (message_authentication_code h) @ [sequence_number h])"
    using assms(3,4) overwrite_overwrite [of 0 "[0x7e, 0]" b "be32 (message_authentication_code h) @ [sequence_number h]"]
    by (simp add: b2_def numeral_2_eq_2)
  ultimately show ?thesis
    using assms two by (simp add: nas_message_header_encode_def EPD_MM_def finish_def)
qed

lemma header_decode_own:
  assumes "nas_epd h = EPD_MM" and "security_header_type h \<noteq> 0" and "7 \<le> unat len" and "unat len \<le> length b"
  shows "\<exists>b'. nas_message_header_encode b h len = Some (7, b') \<and>
     nas_message_header_decode b' h0 len' status
       = Some (2, h0\<lparr>nas_epd := EPD_MM, security_header_type := 0\<rparr>, status)"
  using header_encode_protected [OF assms]
  by (simp add: nas_message_header_decode_def DECODE_U8_def overwrite_zero EPD_MM_def)

text \<open>A header of seven octets does read back when its second octet is the security header type.\<close>

lemma header_decode_protected:
  assumes "t \<noteq> 0" and "7 \<le> unat len"
  shows "nas_message_header_decode ([0x7e, ucast t] @ be32 mac @ [s] @ rest) h len status
     = Some (7, h\<lparr>nas_epd := EPD_MM, security_header_type := t, message_authentication_code := mac, sequence_number := s\<rparr>,
             map_option (note_header_type t) status)"
  using assms be32_read [of mac]
  by (simp add: nas_message_header_decode_def DECODE_U8_def DECODE_U16_def read_be32_def be32_def EPD_MM_def)

text \<open>
  Protecting copies nothing: the octets after the header of the block are what they were, for any
  plain message.
\<close>

lemma protected_encode_same:
  "nas_message_protected_encode mm_enc calloc_ok b h p len = Some (r, b') \<Longrightarrow> b' = b"
  by (auto simp: nas_message_protected_encode_def nas_message_encrypt_def split: if_splits option.splits)

lemma encode_protected_payload:
  assumes "nas_epd (nas_header msg) = EPD_MM" and "security_header_type (nas_header msg) \<noteq> 0"
    and "7 \<le> unat len" and "unat len \<le> length b"
    and "nas_message_encode mm_enc calloc_ok b msg len security = Some (r, b', security')"
  shows "drop 7 b' = drop 7 b"
proof -
  define h where "h = [0x7e, 0] @ be32 (message_authentication_code (nas_header msg)) @ [sequence_number (nas_header msg)]"
  have l: "length h = 7" "length (be32 v) = 4" for v by (simp_all add: h_def be32_def)
  have e: "nas_message_header_encode b (nas_header msg) len = Some (7, overwrite b 0 h)"
    using header_encode_protected [OF assms(1-4)] by (simp add: h_def)
  have d: "drop 7 (overwrite b 0 h) = drop 7 b" using l by (simp add: overwrite_zero)
  have t: "length (take 7 (overwrite b 0 h)) = 7" using l assms(3,4) by simp
  show ?thesis
    using assms(5) d t
    by (auto simp: nas_message_encode_def e Let_def store_def overwrite_def [of _ 2] l
      dest!: protected_encode_same split: option.splits if_splits)
qed

lemma decode_returns_ok:
  assumes "nas_message_decode mm_dec calloc_ok b msg len security status = Some (Returned r d)"
  shows "r = 0"
  using assms
  by (auto simp: nas_message_decode_def Let_def nas_message_header_decode_def RETURNerror_def
     split: if_splits option.splits run.splits bind_splits)

lemma check_protection_mac:
  assumes "check_protection b n len header (Some c) (Some st) = Some (security', Some st')"
  shows "mac_matched st' = (mac_matched st \<or> message_authentication_code header = 0)"
  using assms by (auto simp: check_protection_def nas_message_get_mac_def Let_def)

subsection \<open>Properties\<close>

text \<open>C8: A plain session management message of any type but the establishment accept (which its own decoder rejects) with
  elements that the codec can carry (\<open>sm_body_valid\<close>, as for the session management codec: EAP messages of 4 to 255 octets and so on) survives the layer 3 codec. Encoding it with
  a plain header leaves the sender's security context as it was. Decoding the octets returns \<open>RETURNok\<close>, with no security
  context as well as with any, and in it the message as \<open>sm_msg_decode\<close> leaves it over the earlier one (\<open>sm_seen\<close>):
  nothing else of the earlier message changes but the discriminator of its header. The receiver's security context,
  its counts included, stays as it was, and the status of decoding only notes that there is one. With a context
  and no place for the status the decoder would write through a null pointer; that is left out.\<close>

theorem nas_sm_roundtrip:
  assumes "nas_epd (nas_header msg) = EPD_SM"
    and "sm_body_valid (plain_sm (nas_plain_part msg))" and "message_type (plain_sm (nas_plain_part msg)) \<noteq> 0xC2"
    and "extended_protocol_discriminator (plain_sm (nas_plain_part msg)) = 0x2e"
    and "4 + length (sm_body_wire (plain_sm (nas_plain_part msg))) \<le> unat len" and "unat len \<le> length b"
    and "unat len < 2 ^ 31" and "sec = None \<or> status \<noteq> None"
  shows "\<exists>n b' d. nas_message_encode mm_enc calloc_ok b msg len security = Some (n, b', security) \<and>
     nas_message_decode mm_dec calloc_ok b' msg0 (of_int n) sec status = Some (Returned 0 d) \<and>
     decoded_msg d = msg0\<lparr>nas_header := (nas_header msg0)\<lparr>nas_epd := EPD_SM\<rparr>,
       nas_plain_part := (nas_plain_part msg0)
         \<lparr>plain_sm := sm_seen (plain_sm (nas_plain_part msg0)) (plain_sm (nas_plain_part msg))\<rparr>\<rparr> \<and>
     decoded_security d = sec \<and>
     decoded_status d = (if sec = None then status else map_option (\<lambda>s. s\<lparr>security_context_available := True\<rparr>) status)"
proof -
  let ?sm = "plain_sm (nas_plain_part msg)"
  define n where "n = 4 + length (sm_body_wire ?sm)"
  have epd: "extended_protocol_discriminator ?sm = EPD_5GS_SESSION_MANAGEMENT_MESSAGES"
    using assms(4) by (simp add: EPD_5GS_SESSION_MANAGEMENT_MESSAGES_def)
  have n: "n < 2 ^ 31" using assms(5,7) by (simp add: n_def)
  have u: "unat (of_nat n :: u64) = n" using n by (simp add: unat_of_nat take_bit_nat_eq_self)
  have e: "nas_message_encode mm_enc calloc_ok b msg len security
      = Some (int n, sm_header_wire ?sm @ sm_body_wire ?sm @ drop n b, security)"
    using encode_sm_plain [OF assms(1,2) epd _ assms(5,6)] assms(7) by (simp add: n_def)
  note d = decode_sm_plain [OF assms(2,3) epd _ _ assms(8), of "of_nat n" mm_dec calloc_ok "drop n b" msg0]
  show ?thesis
    using e d n u by (intro exI conjI) (assumption | simp add: n_def)+
qed

theorem nas_sm_roundtrip_witness:
  "\<forall>(m0 :: 'mm nas_message) mm_enc mm_dec c st.
    let msg = m0\<lparr>nas_header := (nas_header m0)\<lparr>nas_epd := EPD_SM\<rparr>,
                nas_plain_part := (nas_plain_part m0)\<lparr>plain_sm := (plain_sm (nas_plain_part m0))
                  \<lparr>extended_protocol_discriminator := 0x2e, message_type := 0xD6, fivegsm_status := \<lparr>stat_5gsmcause = 0x1A\<rparr>\<rparr>\<rparr>\<rparr>
    in \<exists>n b' d. nas_message_encode mm_enc (\<lambda>_. True) (replicate 8 0) msg 8 None = Some (n, b', None) \<and>
     nas_message_decode mm_dec (\<lambda>_. True) b' m0 (of_int n) (Some c) (Some st) = Some (Returned 0 d) \<and>
     decoded_msg d = m0\<lparr>nas_header := (nas_header m0)\<lparr>nas_epd := EPD_SM\<rparr>,
       nas_plain_part := (nas_plain_part m0)
         \<lparr>plain_sm := sm_seen (plain_sm (nas_plain_part m0)) (plain_sm (nas_plain_part msg))\<rparr>\<rparr> \<and>
     decoded_security d = Some c \<and>
     decoded_status d = (if Some c = None then Some st else map_option (\<lambda>s. s\<lparr>security_context_available := True\<rparr>) (Some st))"
  unfolding Let_def
  by (intro allI nas_sm_roundtrip)
    (simp_all add: sm_body_valid_def sm_body_wire_def stat_wire_def stat_mand_wire_def cause_wire_def iei_wire_def)

text \<open>The count of sent messages, 16 bits of overflow and 8 of sequence number, goes up by one modulo two to the 24:
  no value repeats before all are used.\<close>

theorem nas_count_advances:
  "count_value (next_count c) = (count_value c + 1) mod 2 ^ 24"
  by (rule next_count_value)

text \<open>C37: The uplink count taken over from a received sequence number is the least count not below the current one with
  that sequence number, as long as the overflow counter does not wrap.\<close>

theorem nas_count_take_over:
  assumes "unat (count_overflow c) < 0xFFFF"
  shows "count_value c \<le> count_value (take_over_count s c) \<and> count_value (take_over_count s c) mod 256 = unat s \<and>
     (\<forall>n. count_value c \<le> n \<and> n mod 256 = unat s \<longrightarrow> count_value (take_over_count s c) \<le> n)"
proof (intro conjI allI impI)
  fix n assume n: "count_value c \<le> n \<and> n mod 256 = unat s"
  show "count_value (take_over_count s c) \<le> n"
  proof (rule ccontr)
    define t where "t = count_value (take_over_count s c)"
    assume "\<not> count_value (take_over_count s c) \<le> n"
    then have "n < t" by (simp add: t_def)
    moreover have "t < n + 256"
      using take_over_count_value(2) [OF assms, of s] n unfolding t_def by linarith
    moreover have "t mod 256 = n mod 256"
      using take_over_count_value(3) [OF assms, of s] n unfolding t_def by (simp only:)
    then have "256 dvd t - n" using \<open>n < t\<close> by (simp only: mod_eq_dvd_iff_nat less_imp_le)
    then have "256 \<le> t - n" using \<open>n < t\<close> by (intro dvd_imp_le) simp_all
    ultimately show False by linarith
  qed
qed (use take_over_count_value [OF assms, of s] in simp_all)

theorem nas_count_take_over_witness:
  "let c = \<lparr>count_overflow = 1, count_seq_num = 250\<rparr>
   in count_value c \<le> count_value (take_over_count 3 c) \<and> count_value (take_over_count 3 c) mod 256 = unat (3 :: u8) \<and>
     (\<forall>n. count_value c \<le> n \<and> n mod 256 = unat (3 :: u8) \<longrightarrow> count_value (take_over_count 3 c) \<le> n)"
  unfolding Let_def by (rule nas_count_take_over) simp

text \<open>\<open>nas_message_decode\<close> returns \<open>RETURNok\<close> whenever it returns, whatever the buffer and the decoders below it report.\<close>

theorem nas_decode_always_ok:
  assumes "nas_message_decode mm_dec calloc_ok b msg len security status = Some (Returned r d)"
  shows "r = 0"
  by (rule decode_returns_ok [OF assms])

theorem nas_decode_always_ok_witness:
  "\<forall>(m :: 'mm nas_message) mm_dec. \<exists>r d. nas_message_decode mm_dec (\<lambda>_. True) [0x2e] m 1 None None = Some (Returned r d) \<and> r = 0"
proof (intro allI)
  fix m :: "'mm nas_message" and mm_dec
  have "\<exists>r d. nas_message_decode mm_dec (\<lambda>_. True) [0x2e] m 1 None None = Some (Returned r d)"
    by (simp add: nas_message_decode_def nas_message_header_decode_def EPD_MM_def nas_message_plain_decode_def EPD_SM_def
      sm_msg_decode_def fivegsm_msg_decode_header_def)
  then obtain r d where rd: "nas_message_decode mm_dec (\<lambda>_. True) [0x2e] m 1 None None = Some (Returned r d)" by blast
  from nas_decode_always_ok [OF this] rd
  show "\<exists>r d. nas_message_decode mm_dec (\<lambda>_. True) [0x2e] m 1 None None = Some (Returned r d) \<and> r = 0" by blast
qed

text \<open>A protected header does not survive the codec: the encoder writes byte 1 of the discriminator where the security
  header type belongs, so its output decodes as a plain header of two octets, with no note of protection.\<close>

theorem nas_protected_header_lost:
  assumes "nas_epd h = EPD_MM" and "security_header_type h \<noteq> 0" and "7 \<le> unat len" and "unat len \<le> length b"
  shows "\<exists>b'. nas_message_header_encode b h len = Some (7, b') \<and>
     nas_message_header_decode b' h0 len' status
       = Some (2, h0\<lparr>nas_epd := EPD_MM, security_header_type := 0\<rparr>, status)"
  by (rule header_decode_own [OF assms])

theorem nas_protected_header_lost_witness:
  "let h = \<lparr>nas_epd = EPD_MM, security_header_type = 2, spare_half_octet = 0, message_authentication_code = 0xDEADBEEF,
            sequence_number = 5\<rparr>
   in \<exists>b'. nas_message_header_encode (replicate 16 0) h 16 = Some (7, b') \<and>
     nas_message_header_decode b' h 16 None = Some (2, h\<lparr>nas_epd := EPD_MM, security_header_type := 0\<rparr>, None)"
  unfolding Let_def by (rule nas_protected_header_lost) simp_all

text \<open>Encoding a protected message copies nothing of it: whatever the plain message and its encoder, the octets
  after the seven of the header are what they were before.\<close>

theorem nas_protected_payload_missing:
  assumes "nas_epd (nas_header msg) = EPD_MM" and "security_header_type (nas_header msg) \<noteq> 0"
    and "7 \<le> unat len" and "unat len \<le> length b"
    and "nas_message_encode mm_enc calloc_ok b msg len security = Some (r, b', security')"
  shows "drop 7 b' = drop 7 b"
  by (rule encode_protected_payload [OF assms])

theorem nas_protected_payload_missing_witness:
  "\<forall>m0 :: 'mm nas_message. \<exists>r b' s. nas_message_encode (\<lambda>_ _ p. Some (1, case p of None \<Rightarrow> [] | Some b \<Rightarrow> 0x7e # tl b)) (\<lambda>_. True)
       [0, 0, 0, 0, 0, 0, 0, 0, 0, 0] (m0\<lparr>nas_header := \<lparr>nas_epd = EPD_MM, security_header_type = 1, spare_half_octet = 0,
          message_authentication_code = 0, sequence_number = 1\<rparr>,
         nas_protected_header := \<lparr>nas_epd = EPD_MM, security_header_type = 1, spare_half_octet = 0,
          message_authentication_code = 0, sequence_number = 1\<rparr>\<rparr>) 10 None = Some (r, b', s) \<and> drop 7 b' = drop 7 [0, 0, 0, 0, 0, 0, 0, 0, 0, 0]"
proof
  fix m0 :: "'mm nas_message"
  let ?h = "\<lparr>nas_epd = EPD_MM, security_header_type = 1, spare_half_octet = 0, message_authentication_code = 0, sequence_number = 1\<rparr>"
  let ?m = "m0\<lparr>nas_header := ?h, nas_protected_header := ?h\<rparr>"
  let ?enc = "\<lambda>(_ :: 'mm) (_ :: u32) p. Some (1 :: int, case p of None \<Rightarrow> [] | Some b \<Rightarrow> 0x7e # tl b)"
  have e: "nas_message_encode ?enc (\<lambda>_. True) [0, 0, 0, 0, 0, 0, 0, 0, 0, 0] ?m 10 None
      = Some (1, [0x7e, 0, 0, 0, 0, 0, 1, 0, 0, 0], None)"
    by (simp add: nas_message_encode_def nas_message_header_encode_def EPD_MM_def ENCODE_U8_def store_def overwrite_def
      finish_def be32_def nas_message_protected_encode_def nas_message_plain_encode_def nas_message_encrypt_def
      nas_message_get_mac_def Let_def)
  have "drop 7 [0x7e, 0, 0, 0, 0, 0, 1, 0, 0, 0 :: u8] = drop 7 [0, 0, 0, 0, 0, 0, 0, 0, 0, 0]"
    by (rule nas_protected_payload_missing [OF _ _ _ _ e]) simp_all
  with e show "\<exists>r b' s. nas_message_encode ?enc (\<lambda>_. True) [0, 0, 0, 0, 0, 0, 0, 0, 0, 0] ?m 10 None = Some (r, b', s) \<and>
      drop 7 b' = drop 7 [0, 0, 0, 0, 0, 0, 0, 0, 0, 0]" by blast
qed

text \<open>A message with a wrong authentication code is told apart from one with the right code only by the code being
  zero: with a security context, \<open>mac_matched\<close> is set exactly when the received code is 0.\<close>

theorem nas_mac_matched_iff_zero:
  assumes "check_protection b n len header (Some c) (Some st) = Some (security', Some st')"
  shows "mac_matched st' = (mac_matched st \<or> message_authentication_code header = 0)"
  by (rule check_protection_mac [OF assms])

theorem nas_mac_matched_iff_zero_witness:
  "let c = \<lparr>count_overflow = 0, count_seq_num = 1\<rparr>;
       st = \<lparr>integrity_protected_message = True, ciphered_message = False, mac_matched = False, security_context_available = True\<rparr>
   in \<exists>s st'. check_protection (replicate 8 0) 7 8
        \<lparr>nas_epd = EPD_MM, security_header_type = 1, spare_half_octet = 0, message_authentication_code = 0xCAFE, sequence_number = 2\<rparr>
        (Some \<lparr>dl_count = c, ul_count = c\<rparr>) (Some st) = Some (s, Some st') \<and> mac_matched st' = False"
proof -
  let ?c = "\<lparr>count_overflow = 0, count_seq_num = 1\<rparr>"
  let ?st = "\<lparr>integrity_protected_message = True, ciphered_message = False, mac_matched = False, security_context_available = True\<rparr>"
  let ?h = "\<lparr>nas_epd = EPD_MM, security_header_type = 1, spare_half_octet = 0, message_authentication_code = 0xCAFE, sequence_number = 2\<rparr>"
  obtain s st' where "check_protection (replicate 8 0) 7 8 ?h (Some \<lparr>dl_count = ?c, ul_count = ?c\<rparr>) (Some ?st) = Some (s, Some st')"
    by (simp add: check_protection_def Let_def)
  with nas_mac_matched_iff_zero [OF this] show ?thesis by (auto simp: Let_def)
qed

end
