(* ===== verification/IE_Mm_Shape.thy ===== *)
theory IE_Mm_Shape
  imports IE_QosFlow
begin

text \<open>
  What the elements of mobility management share. Many of their encoders ask for more room than they use
  (\<open>_5GMM_CAUSE_MINIMUM_LENGTH\<close> is 2 and the mandatory cause is one octet), so the contract of
  \<open>Ie_Interface\<close> gets a second form, \<open>roomy_ie_codec\<close>, in which the encoder writes the wire format when at
  least \<open>room\<close> octets are left. Most elements have the shape identifier, length octet, contents:
  \<open>tlv_encoder\<close> and \<open>tlv_decoder\<close>.
\<close>

subsection \<open>Encoders that ask for more room than they use\<close>

definition encodes_from :: "nat \<Rightarrow> encoder \<Rightarrow> u8 list \<Rightarrow> bool" where
  "encodes_from room enc bs \<longleftrightarrow>
     (\<forall>len b. room \<le> unat len \<longrightarrow> length bs \<le> unat len \<longrightarrow> unat len \<le> length b \<longrightarrow>
        enc len (Some b) = Some (int (length bs), overwrite b 0 bs))"

definition emits_from :: "nat \<Rightarrow> nat \<Rightarrow> ecmd list \<Rightarrow> u8 list \<Rightarrow> bool" where
  "emits_from room e cs bs \<longleftrightarrow>
     (\<forall>len b. room \<le> unat len \<longrightarrow> e + length bs \<le> unat len \<longrightarrow> unat len \<le> length b \<longrightarrow>
        exec cs len b e = ENext (overwrite b e bs) (e + length bs))"

lemma encodes_fromD:
  "encodes_from room enc bs \<Longrightarrow> room \<le> unat len \<Longrightarrow> length bs \<le> unat len \<Longrightarrow> unat len \<le> length b \<Longrightarrow>
   enc len (Some b) = Some (int (length bs), overwrite b 0 bs)"
  by (simp add: encodes_from_def)

lemma emits_fromD:
  "emits_from room e cs bs \<Longrightarrow> room \<le> unat len \<Longrightarrow> e + length bs \<le> unat len \<Longrightarrow> unat len \<le> length b \<Longrightarrow>
   exec cs len b e = ENext (overwrite b e bs) (e + length bs)"
  by (simp add: emits_from_def)

lemma encodes_from_encodes: "encodes enc bs \<Longrightarrow> encodes_from room enc bs"
  by (simp add: encodes_def encodes_from_def)

lemma encodes_when: "encodes_from room enc bs \<Longrightarrow> room \<le> length bs \<Longrightarrow> encodes enc bs"
  by (auto simp: encodes_def encodes_from_def)

lemma emits_from_emits: "emits e cs bs \<Longrightarrow> emits_from room e cs bs"
  by (simp add: emits_def emits_from_def)

lemmas emits_from_Nil = emits_from_emits [OF emits_Nil]

lemma emits_from_Cons:
  assumes "emits_from room e [c] bs" and "emits_from room (e + length bs) cs bs'"
  shows "emits_from room e (c # cs) (bs @ bs')"
  unfolding emits_from_def
proof (intro allI impI)
  fix len :: u32 and b :: mem
  assume r: "room \<le> unat len" and l: "e + length (bs @ bs') \<le> unat len" and b: "unat len \<le> length b"
  have "exec [c] len b e = ENext (overwrite b e bs) (e + length bs)"
    using l by (intro emits_fromD [OF assms(1) r _ b]) simp
  then have "c len b e = ENext (overwrite b e bs) (e + length bs)" by (auto split: ectl.splits)
  moreover have "exec cs len (overwrite b e bs) (e + length bs)
      = ENext (overwrite (overwrite b e bs) (e + length bs) bs') (e + length bs + length bs')"
    using l b by (intro emits_fromD [OF assms(2) r]) simp_all
  ultimately show "exec (c # cs) len b e = ENext (overwrite b e (bs @ bs')) (e + length (bs @ bs'))"
    using l b by (simp add: add.assoc)
qed

lemma emits_from_call:
  assumes "encodes_from room enc bs" and "e + room \<le> room'"
  shows "emits_from room' e [call enc] bs"
  unfolding emits_from_def
proof (intro allI impI)
  fix len :: u32 and b :: mem
  assume r: "room' \<le> unat len" and l: "e + length bs \<le> unat len" and b: "unat len \<le> length b"
  have "unat (len - of_nat e) = unat len - e" using l by (simp add: unat_u32_minus_of_nat)
  with assms(2) r l b have "enc (len - of_nat e) (Some (drop e b)) = Some (int (length bs), overwrite (drop e b) 0 bs)"
    by (intro encodes_fromD [OF assms(1)]) auto
  with l b show "exec [call enc] len b e = ENext (overwrite b e bs) (e + length bs)"
    by (simp add: call_def overwrite_drop)
qed

lemma encodes_from_body: "emits_from room 0 cs bs \<Longrightarrow> encodes_from room (encoder_body room cs) bs"
  by (auto simp: encodes_from_def encoder_body_def finish_def emits_from_def)

text \<open>Below the length it asks for, an encoder writes nothing and returns \<open>TLV_BUFFER_TOO_SHORT\<close>.\<close>

lemma encoder_body_short:
  "unat len < m \<Longrightarrow> encoder_body m cs len (Some b) = Some (err TLV_BUFFER_TOO_SHORT, b)"
  by (simp add: encoder_body_def)

locale roomy_ie_codec = ie_decoder wire valid dec seen
  for wire :: "'a \<Rightarrow> u8 \<Rightarrow> u8 list" and valid and dec and seen +
  fixes enc :: "'a \<Rightarrow> u8 \<Rightarrow> encoder"
    and room :: nat
  assumes enc_from: "valid x iei \<Longrightarrow> encodes_from room (enc x iei) (wire x iei)"
begin

lemma emits_at: "valid x iei \<Longrightarrow> e + room \<le> room' \<Longrightarrow> emits_from room' e [call (enc x iei)] (wire x iei)"
  by (rule emits_from_call [OF enc_from])

lemma encodes_ie: "valid x iei \<Longrightarrow> room \<le> length (wire x iei) \<Longrightarrow> encodes (enc x iei) (wire x iei)"
  by (rule encodes_when [OF enc_from])

lemma emits_anywhere:
  "valid x iei \<Longrightarrow> room \<le> length (wire x iei) \<Longrightarrow> emits_from room' e [call (enc x iei)] (wire x iei)"
  by (intro emits_from_emits emits_single emits_call encodes_ie)

lemma emits_opt_anywhere:
  "(present \<Longrightarrow> valid x iei) \<Longrightarrow> (present \<Longrightarrow> room \<le> length (wire x iei)) \<Longrightarrow>
   emits_from room' e [opt present (enc x iei)] (if present then wire x iei else [])"
  by (intro emits_from_emits emits_single emits_opt encodes_ie)

text \<open>With enough room the element is written and read back.\<close>

lemma roundtrip_with_room:
  assumes "valid x iei" and "room \<le> unat len" and "length (wire x iei) \<le> unat len" and "unat len \<le> length b"
  shows "\<exists>n b'. enc x iei len (Some b) = Some (n, b') \<and> length b' = length b \<and> dec x0 iei b' len = Some (n, seen x0 x)"
proof -
  have "enc x iei len (Some b) = Some (int (length (wire x iei)), overwrite b 0 (wire x iei))"
    by (rule encodes_fromD [OF enc_from [OF assms(1)] assms(2-4)])
  moreover have "dec x0 iei (overwrite b 0 (wire x iei)) len = Some (int (length (wire x iei)), seen x0 x)"
    unfolding overwrite_zero by (rule decodesD [OF dec_decodes [OF assms(1)] assms(3)])
  ultimately show ?thesis using assms(3,4) by simp
qed

end

sublocale ie_codec \<subseteq> roomy: roomy_ie_codec wire valid dec seen enc 0
  by unfold_locales (rule encodes_from_encodes [OF enc_encodes])

subsection \<open>Identifier, length octet, contents\<close>

definition tlv_encoder :: "nat \<Rightarrow> u8 \<Rightarrow> ecmd list \<Rightarrow> encoder" where
  "tlv_encoder minlen iei cs =
     encoder_body minlen
       [put_iei iei,
        with_lenptr 1 (\<lambda>lenPtr encoded. [of_nat encoded - 1 - (if iei > 0 then 1 else 0)]) cs]"

text \<open>The rest of the decoder gets the length octet, of which most make no use, and \<open>decoded\<close>.\<close>

definition tlv_decoder :: "u8 \<Rightarrow> mem \<Rightarrow> u32 \<Rightarrow> 'a \<Rightarrow> (u8 \<Rightarrow> nat \<Rightarrow> (int \<times> 'a) option) \<Rightarrow> (int \<times> 'a) option" where
  "tlv_decoder iei buffer len x k =
     check_iei iei buffer x (\<lambda>decoded. do {
       ielen \<leftarrow> DECODE_U8 buffer decoded;
       let decoded = decoded + 1;
       check_length (len - of_nat decoded) (ucast ielen) x (k ielen decoded) })"

definition tlv_wire :: "u8 list \<Rightarrow> u8 \<Rightarrow> u8 list" where
  "tlv_wire bs iei = iei_wire iei @ of_nat (length bs) # bs"

lemma length_tlv_wire [simp]: "length (tlv_wire bs iei) = (if iei > 0 then 2 else 1) + length bs"
  by (simp add: tlv_wire_def length_iei_wire)

lemma tlv_wire_iei: "0 < iei \<Longrightarrow> tlv_wire bs iei = iei # tl (tlv_wire bs iei)"
  by (simp add: tlv_wire_def iei_wire_def)

lemma tlv_encodes:
  assumes "emits (length (iei_wire iei) + 1) cs bs"
  shows "encodes_from minlen (tlv_encoder minlen iei cs) (tlv_wire bs iei)"
proof -
  have "emits 0 [put_iei iei, with_lenptr 1 (\<lambda>lenPtr encoded. [of_nat encoded - 1 - (if iei > 0 then 1 else 0)]) cs]
      (iei_wire iei @ ([of_nat (0 + length (iei_wire iei) + 1 + length bs) - 1 - (if iei > 0 then 1 else 0)] @ bs) @ [])"
    using assms by (intro emits_Cons emits_put_iei emits_with_lenptr emits_Nil) simp_all
  moreover have "iei_wire iei @ ([of_nat (0 + length (iei_wire iei) + 1 + length bs) - 1 - (if iei > 0 then 1 else 0)] @ bs) @ []
      = tlv_wire bs iei"
    by (simp add: tlv_wire_def length_iei_wire)
  ultimately show ?thesis
    unfolding tlv_encoder_def by (intro encodes_from_body emits_from_emits) simp
qed

lemma tlv_decodes_at:
  assumes "length bs < 256"
    and "\<And>pre rest len. length pre = length (iei_wire iei) + 1 \<Longrightarrow> length pre + length bs \<le> unat len \<Longrightarrow>
           k (pre @ bs @ rest) len (of_nat (length bs)) (length pre) = Some (int (length pre + length bs), f)"
  shows "decodes (\<lambda>b len. tlv_decoder iei b len x (k b len)) (tlv_wire bs iei) f"
  unfolding decodes_def
proof (intro allI impI)
  fix len :: u32 and rest :: mem
  assume l: "length (tlv_wire bs iei) \<le> unat len"
  let ?pre = "iei_wire iei @ [of_nat (length bs)]"
  have ok: "check_length (len - of_nat (length (iei_wire iei) + 1)) (ucast (of_nat (length bs) :: u8)) x z = z" for z
    using l assms(1) by (intro check_length_ok) (simp add: length_iei_wire unat_len_u8 split: if_splits)
  have "k (?pre @ bs @ rest) len (of_nat (length bs)) (length ?pre) = Some (int (length ?pre + length bs), f)"
    using l by (intro assms(2)) (simp_all add: length_iei_wire split: if_splits)
  moreover have "tlv_wire bs iei @ rest = ?pre @ bs @ rest" by (simp add: tlv_wire_def)
  moreover have "tlv_decoder iei (?pre @ bs @ rest) len x (k (?pre @ bs @ rest) len)
      = k (?pre @ bs @ rest) len (of_nat (length bs)) (length ?pre)"
    using ok by (simp add: tlv_decoder_def)
  ultimately show "tlv_decoder iei (tlv_wire bs iei @ rest) len x (k (tlv_wire bs iei @ rest) len)
      = Some (int (length (tlv_wire bs iei)), f)"
    by (simp add: tlv_wire_def)
qed

lemma tlv_decodes:
  assumes "length bs < 256"
    and "\<And>pre rest len. length pre + length bs \<le> unat len \<Longrightarrow>
           k (pre @ bs @ rest) len (of_nat (length bs)) (length pre) = Some (int (length pre + length bs), f)"
  shows "decodes (\<lambda>b len. tlv_decoder iei b len x (k b len)) (tlv_wire bs iei) f"
  using assms by (rule tlv_decodes_at)

end
