(* ===== verification/IE_Mm_Tlv.thy ===== *)
theory IE_Mm_Tlv
  imports IE_Mm_Shape
begin

text \<open>
  The elements of mobility management that are an identifier, a length octet and a fixed number of octets:
  timers and settings, the bit maps of sessions, capabilities, the registration result, the network feature
  support (\<open>nas/ies\<close>). For each: its structure, the C encoder and decoder, its wire format and the
  interpretation of the interface.
\<close>

named_theorems tlv_wires "wire formats of identifier, length and contents"

lemma emits_one: "emits e [ENCODE_U8 v] [v]"
  by (rule emits_single [OF emits_U8])

lemma emits_two: "emits e [ENCODE_U8 v, ENCODE_U8 w] [v, w]"
  using emits_Cons [OF emits_U8 emits_one, of e v w] by simp

lemma emits_16: "emits e [ENCODE_U16 v] [hi8 v, lo8 v]"
  by (rule emits_single [OF emits_U16])

lemma ucast_u16_u8 [simp]: "ucast (ucast (x :: u8) :: u16) = x"
  by (rule bit_word_eqI) (simp add: bit_simps)

subsection \<open>One octet: \<open>GPRSTimer2\<close>, \<open>UESUsageSetting\<close>, \<open>_5GSDRXParameters\<close>, \<open>SORTransparentContainer\<close>\<close>

definition encode_gprs_timer2 :: "u8 \<Rightarrow> u8 \<Rightarrow> encoder" where
  "encode_gprs_timer2 gprstimer2 iei = tlv_encoder 3 iei [ENCODE_U8 gprstimer2]"

definition decode_gprs_timer2 :: "u8 \<Rightarrow> u8 \<Rightarrow> mem \<Rightarrow> u32 \<Rightarrow> (int \<times> u8) option" where
  "decode_gprs_timer2 x iei buffer len =
     tlv_decoder iei buffer len x (\<lambda>ielen decoded. do {
       v \<leftarrow> DECODE_U8 buffer decoded;
       Some (int (decoded + 1), v) })"

definition gprs_timer2_wire :: "u8 \<Rightarrow> u8 \<Rightarrow> u8 list" where [tlv_wires]: "gprs_timer2_wire x = tlv_wire [x]"

definition encode_ues_usage_setting :: "u8 \<Rightarrow> u8 \<Rightarrow> encoder" where
  "encode_ues_usage_setting uesusagesetting iei = tlv_encoder 3 iei [ENCODE_U8 uesusagesetting]"

definition decode_ues_usage_setting :: "u8 \<Rightarrow> u8 \<Rightarrow> mem \<Rightarrow> u32 \<Rightarrow> (int \<times> u8) option" where
  "decode_ues_usage_setting x iei buffer len =
     tlv_decoder iei buffer len x (\<lambda>ielen decoded. do {
       v \<leftarrow> DECODE_U8 buffer decoded;
       Some (int (decoded + 1), v) })"

definition ues_usage_setting_wire :: "u8 \<Rightarrow> u8 \<Rightarrow> u8 list" where
  [tlv_wires]: "ues_usage_setting_wire x = tlv_wire [x]"

definition encode__5gsdrx_parameters :: "u8 \<Rightarrow> u8 \<Rightarrow> encoder" where
  "encode__5gsdrx_parameters drx iei = tlv_encoder 3 iei [ENCODE_U8 drx]"

definition decode__5gsdrx_parameters :: "u8 \<Rightarrow> u8 \<Rightarrow> mem \<Rightarrow> u32 \<Rightarrow> (int \<times> u8) option" where
  "decode__5gsdrx_parameters x iei buffer len =
     tlv_decoder iei buffer len x (\<lambda>ielen decoded. do {
       v \<leftarrow> DECODE_U8 buffer decoded;
       Some (int (decoded + 1), v) })"

definition drx_wire :: "u8 \<Rightarrow> u8 \<Rightarrow> u8 list" where [tlv_wires]: "drx_wire x = tlv_wire [x]"

record SORTransparentContainer =
  sorHeader :: u8

definition encode_sor_transparent_container :: "SORTransparentContainer \<Rightarrow> u8 \<Rightarrow> encoder" where
  "encode_sor_transparent_container c iei = tlv_encoder 20 iei [ENCODE_U8 (sorHeader c)]"

definition decode_sor_transparent_container ::
  "SORTransparentContainer \<Rightarrow> u8 \<Rightarrow> mem \<Rightarrow> u32 \<Rightarrow> (int \<times> SORTransparentContainer) option" where
  "decode_sor_transparent_container x iei buffer len =
     tlv_decoder iei buffer len x (\<lambda>ielen decoded. do {
       v \<leftarrow> DECODE_U8 buffer decoded;
       Some (int (decoded + 1), x\<lparr>sorHeader := v\<rparr>) })"

definition sor_wire :: "SORTransparentContainer \<Rightarrow> u8 \<Rightarrow> u8 list" where
  [tlv_wires]: "sor_wire x = tlv_wire [sorHeader x]"

interpretation gprs_timer2: roomy_ie_codec gprs_timer2_wire "\<lambda>_ _. True" decode_gprs_timer2 "\<lambda>_ x. x"
  encode_gprs_timer2 3
  by unfold_locales
    (unfold encode_gprs_timer2_def decode_gprs_timer2_def gprs_timer2_wire_def,
     rule tlv_decodes, simp_all add: tlv_encodes emits_one)

interpretation ues_usage_setting: roomy_ie_codec ues_usage_setting_wire "\<lambda>_ _. True" decode_ues_usage_setting
  "\<lambda>_ x. x" encode_ues_usage_setting 3
  by unfold_locales
    (unfold encode_ues_usage_setting_def decode_ues_usage_setting_def ues_usage_setting_wire_def,
     rule tlv_decodes, simp_all add: tlv_encodes emits_one)

interpretation drx: roomy_ie_codec drx_wire "\<lambda>_ _. True" decode__5gsdrx_parameters "\<lambda>_ x. x"
  encode__5gsdrx_parameters 3
  by unfold_locales
    (unfold encode__5gsdrx_parameters_def decode__5gsdrx_parameters_def drx_wire_def,
     rule tlv_decodes, simp_all add: tlv_encodes emits_one)

interpretation sor: roomy_ie_codec sor_wire "\<lambda>_ _. True" decode_sor_transparent_container "\<lambda>_ x. x"
  encode_sor_transparent_container 20
  by unfold_locales
    (unfold encode_sor_transparent_container_def decode_sor_transparent_container_def sor_wire_def,
     rule tlv_decodes, simp_all add: tlv_encodes emits_one)

subsection \<open>Bit maps of sessions, two octets\<close>

definition encode_pdu_session_status :: "u16 \<Rightarrow> u8 \<Rightarrow> encoder" where
  "encode_pdu_session_status pdusessionstatus iei = tlv_encoder 4 iei [ENCODE_U16 pdusessionstatus]"

definition decode_pdu_session_status :: "u16 \<Rightarrow> u8 \<Rightarrow> mem \<Rightarrow> u32 \<Rightarrow> (int \<times> u16) option" where
  "decode_pdu_session_status x iei buffer len =
     tlv_decoder iei buffer len x (\<lambda>ielen decoded. do {
       v \<leftarrow> DECODE_U16 buffer decoded;
       Some (int (decoded + 2), v) })"

definition pdu_session_status_wire :: "u16 \<Rightarrow> u8 \<Rightarrow> u8 list" where
  [tlv_wires]: "pdu_session_status_wire x = tlv_wire [hi8 x, lo8 x]"

definition encode_pdu_session_reactivation_result :: "u16 \<Rightarrow> u8 \<Rightarrow> encoder" where
  "encode_pdu_session_reactivation_result result iei = tlv_encoder 4 iei [ENCODE_U16 result]"

definition decode_pdu_session_reactivation_result :: "u16 \<Rightarrow> u8 \<Rightarrow> mem \<Rightarrow> u32 \<Rightarrow> (int \<times> u16) option" where
  "decode_pdu_session_reactivation_result x iei buffer len =
     tlv_decoder iei buffer len x (\<lambda>ielen decoded. do {
       v \<leftarrow> DECODE_U16 buffer decoded;
       Some (int (decoded + 2), v) })"

definition reactivation_result_wire :: "u16 \<Rightarrow> u8 \<Rightarrow> u8 list" where
  [tlv_wires]: "reactivation_result_wire x = tlv_wire [hi8 x, lo8 x]"

definition encode_uplink_data_status :: "u16 \<Rightarrow> u8 \<Rightarrow> encoder" where
  "encode_uplink_data_status uplinkdatastatus iei = tlv_encoder 4 iei [ENCODE_U16 uplinkdatastatus]"

definition decode_uplink_data_status :: "u16 \<Rightarrow> u8 \<Rightarrow> mem \<Rightarrow> u32 \<Rightarrow> (int \<times> u16) option" where
  "decode_uplink_data_status x iei buffer len =
     tlv_decoder iei buffer len x (\<lambda>ielen decoded. do {
       v \<leftarrow> DECODE_U16 buffer decoded;
       Some (int (decoded + 2), v) })"

definition uplink_data_status_wire :: "u16 \<Rightarrow> u8 \<Rightarrow> u8 list" where
  [tlv_wires]: "uplink_data_status_wire x = tlv_wire [hi8 x, lo8 x]"

text \<open>\<open>AllowedPDUSessionStatus\<close> is an octet, although it goes over the wire as two.\<close>

definition encode_allowed_pdu_session_status :: "u8 \<Rightarrow> u8 \<Rightarrow> encoder" where
  "encode_allowed_pdu_session_status allowed iei = tlv_encoder 4 iei [ENCODE_U16 (ucast allowed)]"

definition decode_allowed_pdu_session_status :: "u8 \<Rightarrow> u8 \<Rightarrow> mem \<Rightarrow> u32 \<Rightarrow> (int \<times> u8) option" where
  "decode_allowed_pdu_session_status x iei buffer len =
     tlv_decoder iei buffer len x (\<lambda>ielen decoded. do {
       v \<leftarrow> DECODE_U16 buffer decoded;
       Some (int (decoded + 2), ucast v) })"

definition allowed_pdu_session_status_wire :: "u8 \<Rightarrow> u8 \<Rightarrow> u8 list" where
  [tlv_wires]: "allowed_pdu_session_status_wire x = tlv_wire [hi8 (ucast x), lo8 (ucast x)]"

interpretation pdu_session_status: roomy_ie_codec pdu_session_status_wire "\<lambda>_ _. True"
  decode_pdu_session_status "\<lambda>_ x. x" encode_pdu_session_status 4
  by unfold_locales
    (unfold encode_pdu_session_status_def decode_pdu_session_status_def pdu_session_status_wire_def,
     rule tlv_decodes, simp_all add: tlv_encodes emits_16)

interpretation reactivation_result: roomy_ie_codec reactivation_result_wire "\<lambda>_ _. True"
  decode_pdu_session_reactivation_result "\<lambda>_ x. x" encode_pdu_session_reactivation_result 4
  by unfold_locales
    (unfold encode_pdu_session_reactivation_result_def decode_pdu_session_reactivation_result_def
       reactivation_result_wire_def,
     rule tlv_decodes, simp_all add: tlv_encodes emits_16)

interpretation uplink_data_status: roomy_ie_codec uplink_data_status_wire "\<lambda>_ _. True"
  decode_uplink_data_status "\<lambda>_ x. x" encode_uplink_data_status 4
  by unfold_locales
    (unfold encode_uplink_data_status_def decode_uplink_data_status_def uplink_data_status_wire_def,
     rule tlv_decodes, simp_all add: tlv_encodes emits_16)

interpretation allowed_pdu_session_status: roomy_ie_codec allowed_pdu_session_status_wire "\<lambda>_ _. True"
  decode_allowed_pdu_session_status "\<lambda>_ x. x" encode_allowed_pdu_session_status 4
  by unfold_locales
    (unfold encode_allowed_pdu_session_status_def decode_allowed_pdu_session_status_def
       allowed_pdu_session_status_wire_def,
     rule tlv_decodes, simp_all add: tlv_encodes emits_16)

subsection \<open>Capabilities and statuses\<close>

record S1UENetworkCapability =
  s1ue_eea :: u8
  s1ue_eia :: u8

definition encode_s1_ue_network_capability :: "S1UENetworkCapability \<Rightarrow> u8 \<Rightarrow> encoder" where
  "encode_s1_ue_network_capability c iei = tlv_encoder 4 iei [ENCODE_U8 (s1ue_eea c), ENCODE_U8 (s1ue_eia c)]"

definition decode_s1_ue_network_capability ::
  "S1UENetworkCapability \<Rightarrow> u8 \<Rightarrow> mem \<Rightarrow> u32 \<Rightarrow> (int \<times> S1UENetworkCapability) option" where
  "decode_s1_ue_network_capability x iei buffer len =
     tlv_decoder iei buffer len x (\<lambda>ielen decoded. do {
       a \<leftarrow> DECODE_U8 buffer decoded;
       b \<leftarrow> DECODE_U8 buffer (decoded + 1);
       Some (int (decoded + 2), x\<lparr>s1ue_eea := a, s1ue_eia := b\<rparr>) })"

definition s1_ue_network_capability_wire :: "S1UENetworkCapability \<Rightarrow> u8 \<Rightarrow> u8 list" where
  [tlv_wires]: "s1_ue_network_capability_wire x = tlv_wire [s1ue_eea x, s1ue_eia x]"

record UESecurityCapability =
  nea :: u8
  nia :: u8

definition encode_ue_security_capability :: "UESecurityCapability \<Rightarrow> u8 \<Rightarrow> encoder" where
  "encode_ue_security_capability c iei = tlv_encoder 4 iei [ENCODE_U8 (nea c), ENCODE_U8 (nia c)]"

definition decode_ue_security_capability ::
  "UESecurityCapability \<Rightarrow> u8 \<Rightarrow> mem \<Rightarrow> u32 \<Rightarrow> (int \<times> UESecurityCapability) option" where
  "decode_ue_security_capability x iei buffer len =
     tlv_decoder iei buffer len x (\<lambda>ielen decoded. do {
       a \<leftarrow> DECODE_U8 buffer decoded;
       b \<leftarrow> DECODE_U8 buffer (decoded + 1);
       Some (int (decoded + 2), x\<lparr>nea := a, nia := b\<rparr>) })"

definition ue_security_capability_wire :: "UESecurityCapability \<Rightarrow> u8 \<Rightarrow> u8 list" where
  [tlv_wires]: "ue_security_capability_wire x = tlv_wire [nea x, nia x]"

record UpdateType =
  ng_ran_rcu :: u8
  sms_requested :: u8

definition encode__5gs_update_type :: "UpdateType \<Rightarrow> u8 \<Rightarrow> encoder" where
  "encode__5gs_update_type t iei = tlv_encoder 3 iei [ENCODE_U8 (ng_ran_rcu t), ENCODE_U8 (sms_requested t)]"

definition decode__5gs_update_type :: "UpdateType \<Rightarrow> u8 \<Rightarrow> mem \<Rightarrow> u32 \<Rightarrow> (int \<times> UpdateType) option" where
  "decode__5gs_update_type x iei buffer len =
     tlv_decoder iei buffer len x (\<lambda>ielen decoded. do {
       a \<leftarrow> DECODE_U8 buffer decoded;
       b \<leftarrow> DECODE_U8 buffer (decoded + 1);
       Some (int (decoded + 2), x\<lparr>ng_ran_rcu := a, sms_requested := b\<rparr>) })"

definition update_type_wire :: "UpdateType \<Rightarrow> u8 \<Rightarrow> u8 list" where
  [tlv_wires]: "update_type_wire x = tlv_wire [ng_ran_rcu x, sms_requested x]"

record UEStatus =
  n1_mode_reg :: bool
  s1_mode_reg :: bool

definition ue_status_bits :: "UEStatus \<Rightarrow> u8" where
  "ue_status_bits s =
     (let bitStream = 0;
          bitStream = (if n1_mode_reg s then bitStream OR 0x02 else bitStream);
          bitStream = (if s1_mode_reg s then bitStream OR 0x01 else bitStream)
      in bitStream)"

definition encode_ue_status :: "UEStatus \<Rightarrow> u8 \<Rightarrow> encoder" where
  "encode_ue_status s iei = tlv_encoder 3 iei [ENCODE_U8 (ue_status_bits s)]"

definition decode_ue_status :: "UEStatus \<Rightarrow> u8 \<Rightarrow> mem \<Rightarrow> u32 \<Rightarrow> (int \<times> UEStatus) option" where
  "decode_ue_status x iei buffer len =
     tlv_decoder iei buffer len x (\<lambda>ielen decoded. do {
       bitStream \<leftarrow> DECODE_U8 buffer decoded;
       let x = x\<lparr>n1_mode_reg := bitStream AND 0x02 \<noteq> 0\<rparr>;
       let x = x\<lparr>s1_mode_reg := bitStream AND 0x01 \<noteq> 0\<rparr>;
       Some (int (decoded + 1), x) })"

definition ue_status_wire :: "UEStatus \<Rightarrow> u8 \<Rightarrow> u8 list" where
  [tlv_wires]: "ue_status_wire x = tlv_wire [ue_status_bits x]"

record FiveGMMCapability =
  is_LPP_supported :: bool
  is_HO_supported :: bool
  is_S1_mode_supported :: bool

definition mm_capability_bits :: "FiveGMMCapability \<Rightarrow> u8" where
  "mm_capability_bits c =
     (let bits = 0;
          bits = (if is_LPP_supported c then bits OR 0x04 else bits);
          bits = (if is_HO_supported c then bits OR 0x02 else bits);
          bits = (if is_S1_mode_supported c then bits OR 0x01 else bits)
      in bits)"

definition encode__5gmm_capability :: "FiveGMMCapability \<Rightarrow> u8 \<Rightarrow> encoder" where
  "encode__5gmm_capability c iei = tlv_encoder 3 iei [ENCODE_U8 (mm_capability_bits c)]"

definition decode__5gmm_capability ::
  "FiveGMMCapability \<Rightarrow> u8 \<Rightarrow> mem \<Rightarrow> u32 \<Rightarrow> (int \<times> FiveGMMCapability) option" where
  "decode__5gmm_capability x iei buffer len =
     tlv_decoder iei buffer len x (\<lambda>ielen decoded. do {
       bits \<leftarrow> DECODE_U8 buffer decoded;
       let x = x\<lparr>is_LPP_supported := bits AND 0x04 \<noteq> 0\<rparr>;
       let x = x\<lparr>is_HO_supported := bits AND 0x02 \<noteq> 0\<rparr>;
       let x = x\<lparr>is_S1_mode_supported := bits AND 0x01 \<noteq> 0\<rparr>;
       Some (int (decoded + 1), x) })"

definition mm_capability_wire :: "FiveGMMCapability \<Rightarrow> u8 \<Rightarrow> u8 list" where
  [tlv_wires]: "mm_capability_wire x = tlv_wire [mm_capability_bits x]"

text \<open>
  The decoder of the additional security information stores \<open>hdp\<close> only when its bit is set, and its second
  \<open>else\<close> clears \<open>rinmr\<close>.
\<close>

record Additional5GSecurityInformation =
  hdp :: bool
  rinmr :: bool

definition additional_security_bits :: "Additional5GSecurityInformation \<Rightarrow> u8" where
  "additional_security_bits i =
     (let bitStream = 0;
          bitStream = (if rinmr i then bitStream OR 0x02 else bitStream);
          bitStream = (if hdp i then bitStream OR 0x01 else bitStream)
      in bitStream)"

definition encode_additional_5g_security_information :: "Additional5GSecurityInformation \<Rightarrow> u8 \<Rightarrow> encoder" where
  "encode_additional_5g_security_information i iei = tlv_encoder 3 iei [ENCODE_U8 (additional_security_bits i)]"

definition decode_additional_5g_security_information ::
  "Additional5GSecurityInformation \<Rightarrow> u8 \<Rightarrow> mem \<Rightarrow> u32 \<Rightarrow> (int \<times> Additional5GSecurityInformation) option" where
  "decode_additional_5g_security_information x iei buffer len =
     tlv_decoder iei buffer len x (\<lambda>ielen decoded. do {
       bitStream \<leftarrow> DECODE_U8 buffer decoded;
       let x = (if bitStream AND 0x02 \<noteq> 0 then x\<lparr>rinmr := True\<rparr> else x\<lparr>rinmr := False\<rparr>);
       let x = (if bitStream AND 0x01 \<noteq> 0 then x\<lparr>hdp := True\<rparr> else x\<lparr>rinmr := False\<rparr>);
       Some (int (decoded + 1), x) })"

definition additional_security_wire :: "Additional5GSecurityInformation \<Rightarrow> u8 \<Rightarrow> u8 list" where
  [tlv_wires]: "additional_security_wire x = tlv_wire [additional_security_bits x]"

definition additional_security_seen ::
  "Additional5GSecurityInformation \<Rightarrow> Additional5GSecurityInformation \<Rightarrow> Additional5GSecurityInformation" where
  "additional_security_seen x0 x = x0\<lparr>hdp := hdp x0 \<or> hdp x, rinmr := rinmr x \<and> hdp x\<rparr>"

interpretation s1_ue_network_capability: roomy_ie_codec s1_ue_network_capability_wire "\<lambda>_ _. True"
  decode_s1_ue_network_capability "\<lambda>_ x. x" encode_s1_ue_network_capability 4
  by unfold_locales
    (unfold encode_s1_ue_network_capability_def decode_s1_ue_network_capability_def s1_ue_network_capability_wire_def,
     rule tlv_decodes, simp_all add: tlv_encodes emits_two DECODE_U8_shift)

interpretation ue_security_capability: roomy_ie_codec ue_security_capability_wire "\<lambda>_ _. True"
  decode_ue_security_capability "\<lambda>_ x. x" encode_ue_security_capability 4
  by unfold_locales
    (unfold encode_ue_security_capability_def decode_ue_security_capability_def ue_security_capability_wire_def,
     rule tlv_decodes, simp_all add: tlv_encodes emits_two DECODE_U8_shift)

interpretation update_type: roomy_ie_codec update_type_wire "\<lambda>_ _. True"
  decode__5gs_update_type "\<lambda>_ x. x" encode__5gs_update_type 3
  by unfold_locales
    (unfold encode__5gs_update_type_def decode__5gs_update_type_def update_type_wire_def,
     rule tlv_decodes, simp_all add: tlv_encodes emits_two DECODE_U8_shift)

lemma ue_status_read:
  "(ue_status_bits x AND 0x02 \<noteq> 0) = n1_mode_reg x" "(ue_status_bits x AND 0x01 \<noteq> 0) = s1_mode_reg x"
  by (simp_all add: ue_status_bits_def bit.conj_disj_distrib2)

lemma mm_capability_read:
  "(mm_capability_bits x AND 0x04 \<noteq> 0) = is_LPP_supported x"
  "(mm_capability_bits x AND 0x02 \<noteq> 0) = is_HO_supported x"
  "(mm_capability_bits x AND 0x01 \<noteq> 0) = is_S1_mode_supported x"
  by (simp_all add: mm_capability_bits_def bit.conj_disj_distrib2)

lemma additional_security_read:
  "(additional_security_bits x AND 0x02 \<noteq> 0) = rinmr x" "(additional_security_bits x AND 0x01 \<noteq> 0) = hdp x"
  by (simp_all add: additional_security_bits_def bit.conj_disj_distrib2)

interpretation ue_status: roomy_ie_codec ue_status_wire "\<lambda>_ _. True" decode_ue_status "\<lambda>_ x. x" encode_ue_status 3
  by unfold_locales
    (unfold encode_ue_status_def decode_ue_status_def ue_status_wire_def,
     rule tlv_decodes, simp_all add: tlv_encodes emits_one Let_def ue_status_read)

interpretation mm_capability: roomy_ie_codec mm_capability_wire "\<lambda>_ _. True" decode__5gmm_capability "\<lambda>_ x. x"
  encode__5gmm_capability 3
  by unfold_locales
    (unfold encode__5gmm_capability_def decode__5gmm_capability_def mm_capability_wire_def,
     rule tlv_decodes, simp_all add: tlv_encodes emits_one Let_def mm_capability_read)

interpretation additional_security: roomy_ie_codec additional_security_wire "\<lambda>_ _. True"
  decode_additional_5g_security_information additional_security_seen encode_additional_5g_security_information 3
  by unfold_locales
    (unfold encode_additional_5g_security_information_def decode_additional_5g_security_information_def
       additional_security_wire_def additional_security_seen_def,
     rule tlv_decodes, simp_all add: tlv_encodes emits_one Let_def additional_security_read)

subsection \<open>Registration result and network feature support\<close>

record RegistrationResult =
  is_SMS_allowed :: bool
  registration_result_value :: "3 word"

definition registration_result_bits :: "RegistrationResult \<Rightarrow> u8" where
  "registration_result_bits r =
     (let bitStream = 0;
          bitStream = (if is_SMS_allowed r then bitStream OR 0x08 else bitStream)
      in bitStream OR (ucast (registration_result_value r) AND 0x07))"

definition encode__5gs_registration_result :: "RegistrationResult \<Rightarrow> u8 \<Rightarrow> encoder" where
  "encode__5gs_registration_result r iei = tlv_encoder 3 iei [ENCODE_U8 (registration_result_bits r)]"

definition decode__5gs_registration_result ::
  "RegistrationResult \<Rightarrow> u8 \<Rightarrow> mem \<Rightarrow> u32 \<Rightarrow> (int \<times> RegistrationResult) option" where
  "decode__5gs_registration_result x iei buffer len =
     tlv_decoder iei buffer len x (\<lambda>ielen decoded. do {
       bitStream \<leftarrow> DECODE_U8 buffer decoded;
       let x = x\<lparr>is_SMS_allowed := bitStream AND 0x08 \<noteq> 0\<rparr>;
       let x = x\<lparr>registration_result_value := ucast (bitStream AND 0x07)\<rparr>;
       Some (int (decoded + 1), x) })"

definition registration_result_wire :: "RegistrationResult \<Rightarrow> u8 \<Rightarrow> u8 list" where
  [tlv_wires]: "registration_result_wire x = tlv_wire [registration_result_bits x]"

record NetworkFeatureSupport =
  mpsi :: "1 word"
  iwk_n26 :: "1 word"
  emf :: "2 word"
  emc :: "2 word"
  ims_VoPS_N3GPP :: "1 word"
  ims_VoPS_3GPP :: "1 word"
  mcsi :: "1 word"
  emcn :: "1 word"

definition feature_octet1 :: "NetworkFeatureSupport \<Rightarrow> u8" where
  "feature_octet1 n =
     push_bit 7 (ucast (mpsi n) AND 0x01) OR push_bit 6 (ucast (iwk_n26 n) AND 0x01) OR
     push_bit 4 (ucast (emf n) AND 0x03) OR push_bit 2 (ucast (emc n) AND 0x03) OR
     push_bit 1 (ucast (ims_VoPS_N3GPP n) AND 0x01) OR push_bit 0 (ucast (ims_VoPS_3GPP n) AND 0x01)"

definition feature_octet2 :: "NetworkFeatureSupport \<Rightarrow> u8" where
  "feature_octet2 n = push_bit 1 (ucast (mcsi n) AND 0x01) OR push_bit 0 (ucast (emcn n) AND 0x01)"

definition encode__5gs_network_feature_support :: "NetworkFeatureSupport \<Rightarrow> u8 \<Rightarrow> encoder" where
  "encode__5gs_network_feature_support n iei =
     tlv_encoder 3 iei [ENCODE_U8 (feature_octet1 n), ENCODE_U8 (feature_octet2 n)]"

definition decode__5gs_network_feature_support ::
  "NetworkFeatureSupport \<Rightarrow> u8 \<Rightarrow> mem \<Rightarrow> u32 \<Rightarrow> (int \<times> NetworkFeatureSupport) option" where
  "decode__5gs_network_feature_support x iei buffer len =
     tlv_decoder iei buffer len x (\<lambda>ielen decoded. do {
       v \<leftarrow> DECODE_U8 buffer decoded;
       let x = x\<lparr>mpsi := ucast (drop_bit 7 (v AND 0x80)), iwk_n26 := ucast (drop_bit 6 (v AND 0x40)),
                 emf := ucast (drop_bit 4 (v AND 0x30)), emc := ucast (drop_bit 2 (v AND 0x0C)),
                 ims_VoPS_N3GPP := ucast (drop_bit 1 (v AND 0x02)), ims_VoPS_3GPP := ucast (drop_bit 0 (v AND 0x01))\<rparr>;
       v \<leftarrow> DECODE_U8 buffer (decoded + 1);
       let x = x\<lparr>mcsi := ucast (drop_bit 1 (v AND 0x02)), emcn := ucast (drop_bit 0 (v AND 0x01))\<rparr>;
       Some (int (decoded + 2), x) })"

definition feature_support_wire :: "NetworkFeatureSupport \<Rightarrow> u8 \<Rightarrow> u8 list" where
  [tlv_wires]: "feature_support_wire x = tlv_wire [feature_octet1 x, feature_octet2 x]"

lemma registration_result_read:
  "(registration_result_bits x AND 0x08 \<noteq> 0) = is_SMS_allowed x"
  "ucast (registration_result_bits x AND 0x07) = registration_result_value x"
proof -
  have "(ucast (registration_result_value x) AND 7) AND (8 :: u8) = 0" by (simp add: and.assoc)
  then show "(registration_result_bits x AND 0x08 \<noteq> 0) = is_SMS_allowed x"
    by (simp add: registration_result_bits_def bit.conj_disj_distrib2)
  show "ucast (registration_result_bits x AND 0x07) = registration_result_value x"
    by (simp add: registration_result_bits_def bit.conj_disj_distrib2 and.assoc)
qed

lemma feature_read:
  "ucast (drop_bit 7 (feature_octet1 n) AND 1) = mpsi n"
  "ucast (drop_bit 6 (feature_octet1 n) AND 1) = iwk_n26 n"
  "ucast (drop_bit 4 (feature_octet1 n) AND 3) = emf n"
  "ucast (drop_bit 2 (feature_octet1 n) AND 3) = emc n"
  "ucast (drop_bit (Suc 0) (feature_octet1 n) AND 1) = ims_VoPS_N3GPP n"
  "ucast (feature_octet1 n AND 1) = ims_VoPS_3GPP n"
  "ucast (drop_bit (Suc 0) (feature_octet2 n) AND 1) = mcsi n"
  "ucast (feature_octet2 n AND 1) = emcn n"
  unfolding feature_octet1_def feature_octet2_def octet_masks
  by (rule bit_word_eqI; auto simp: bit_simps simp del: push_bit_Suc drop_bit_Suc dest: bit_imp_le_length)+

interpretation registration_result: roomy_ie_codec registration_result_wire "\<lambda>_ _. True"
  decode__5gs_registration_result "\<lambda>_ x. x" encode__5gs_registration_result 3
  by unfold_locales
    (unfold encode__5gs_registration_result_def decode__5gs_registration_result_def registration_result_wire_def,
     rule tlv_decodes, simp_all add: tlv_encodes emits_one Let_def registration_result_read)

interpretation feature_support: roomy_ie_codec feature_support_wire "\<lambda>_ _. True"
  decode__5gs_network_feature_support "\<lambda>_ x. x" encode__5gs_network_feature_support 3
  by unfold_locales
    (unfold encode__5gs_network_feature_support_def decode__5gs_network_feature_support_def feature_support_wire_def,
     rule tlv_decodes, simp_all add: tlv_encodes emits_two DECODE_U8_shift Let_def feature_read)

lemma tlv_iei:
  "0 < iei \<Longrightarrow> gprs_timer2_wire a iei = iei # tl (gprs_timer2_wire a iei)"
  "0 < iei \<Longrightarrow> ues_usage_setting_wire b iei = iei # tl (ues_usage_setting_wire b iei)"
  "0 < iei \<Longrightarrow> drx_wire c iei = iei # tl (drx_wire c iei)"
  "0 < iei \<Longrightarrow> pdu_session_status_wire d iei = iei # tl (pdu_session_status_wire d iei)"
  "0 < iei \<Longrightarrow> reactivation_result_wire e iei = iei # tl (reactivation_result_wire e iei)"
  "0 < iei \<Longrightarrow> additional_security_wire f iei = iei # tl (additional_security_wire f iei)"
  "0 < iei \<Longrightarrow> feature_support_wire g iei = iei # tl (feature_support_wire g iei)"
  by (simp_all only: tlv_wires tlv_wire_iei [symmetric])

end
