(* ===== verification/IE_Mm_Octet.thy ===== *)
theory IE_Mm_Octet
  imports IE_Mm_Tlv
begin

text \<open>
  The elements of mobility management without a length octet (\<open>nas/ies\<close>): the cause, the security algorithms,
  the elements that share an octet with their identifier, the tracking area identity, and the mobile
  identity, of which the code writes and reads the length only.
\<close>

subsection \<open>Cause and security algorithms\<close>

definition encode__5gmm_cause :: "u8 \<Rightarrow> u8 \<Rightarrow> encoder" where
  "encode__5gmm_cause cause iei = encoder_body 2 [put_iei iei, ENCODE_U8 cause]"

definition decode__5gmm_cause :: "u8 \<Rightarrow> u8 \<Rightarrow> mem \<Rightarrow> u32 \<Rightarrow> (int \<times> u8) option" where
  "decode__5gmm_cause x iei buffer len =
     check_iei iei buffer x (\<lambda>decoded. do {
       v \<leftarrow> DECODE_U8 buffer decoded;
       Some (int (decoded + 1), v) })"

definition mm_cause_wire :: "u8 \<Rightarrow> u8 \<Rightarrow> u8 list" where
  [tlv_wires]: "mm_cause_wire c iei = iei_wire iei @ [c]"

record NASSecurityAlgorithms =
  typeOfCipheringAlgorithm :: "4 word"
  typeOfIntegrityProtectionAlgorithm :: "4 word"

definition encode_nas_security_algorithms :: "NASSecurityAlgorithms \<Rightarrow> u8 \<Rightarrow> encoder" where
  "encode_nas_security_algorithms a iei =
     encoder_body 2
       [put_iei iei,
        ENCODE_U8 (push_bit 4 (ucast (typeOfCipheringAlgorithm a)) OR ucast (typeOfIntegrityProtectionAlgorithm a))]"

definition decode_nas_security_algorithms ::
  "NASSecurityAlgorithms \<Rightarrow> u8 \<Rightarrow> mem \<Rightarrow> u32 \<Rightarrow> (int \<times> NASSecurityAlgorithms) option" where
  "decode_nas_security_algorithms x iei buffer len =
     check_iei iei buffer x (\<lambda>decoded. do {
       v \<leftarrow> DECODE_U8 buffer decoded;
       Some (int (decoded + 1),
             x\<lparr>typeOfCipheringAlgorithm := ucast (drop_bit 4 (v AND 0xF0)),
               typeOfIntegrityProtectionAlgorithm := ucast (v AND 0x0F)\<rparr>) })"

definition nas_security_algorithms_wire :: "NASSecurityAlgorithms \<Rightarrow> u8 \<Rightarrow> u8 list" where
  [tlv_wires]: "nas_security_algorithms_wire a iei =
     iei_wire iei @ [push_bit 4 (ucast (typeOfCipheringAlgorithm a)) OR ucast (typeOfIntegrityProtectionAlgorithm a)]"

record EPSNASSecurityAlgorithms =
  typeOfCipheringAlgoithm :: "3 word"
  typeOfIntegrityProtectionAlgoithm :: "3 word"

definition encode_epsnas_security_algorithms :: "EPSNASSecurityAlgorithms \<Rightarrow> u8 \<Rightarrow> encoder" where
  "encode_epsnas_security_algorithms a iei =
     encoder_body 2
       [put_iei iei,
        ENCODE_U8 (push_bit 4 (ucast (typeOfCipheringAlgoithm a)) OR ucast (typeOfIntegrityProtectionAlgoithm a))]"

definition decode_epsnas_security_algorithms ::
  "EPSNASSecurityAlgorithms \<Rightarrow> u8 \<Rightarrow> mem \<Rightarrow> u32 \<Rightarrow> (int \<times> EPSNASSecurityAlgorithms) option" where
  "decode_epsnas_security_algorithms x iei buffer len =
     check_iei iei buffer x (\<lambda>decoded. do {
       v \<leftarrow> DECODE_U8 buffer decoded;
       Some (int (decoded + 1),
             x\<lparr>typeOfCipheringAlgoithm := ucast (drop_bit 4 (v AND 0x70)),
               typeOfIntegrityProtectionAlgoithm := ucast (v AND 0x07)\<rparr>) })"

definition epsnas_security_algorithms_wire :: "EPSNASSecurityAlgorithms \<Rightarrow> u8 \<Rightarrow> u8 list" where
  [tlv_wires]: "epsnas_security_algorithms_wire a iei =
     iei_wire iei @ [push_bit 4 (ucast (typeOfCipheringAlgoithm a)) OR ucast (typeOfIntegrityProtectionAlgoithm a)]"

lemma iei_octet_encodes: "encodes_from m (encoder_body m [put_iei iei, ENCODE_U8 v]) (iei_wire iei @ [v])"
  using emits_Cons [OF emits_put_iei emits_one, of 0 iei v]
  by (intro encodes_from_body emits_from_emits) simp

lemma algorithms_read:
  "ucast ((drop_bit 4 (push_bit 4 (ucast (c :: 4 word))) OR drop_bit 4 (ucast (i :: 4 word))) AND 0x0F :: u8) = c"
  "ucast ((push_bit 4 (ucast c) OR ucast i) AND 0x0F :: u8) = i"
  unfolding octet_masks by (rule bit_word_eqI; auto simp: bit_simps dest: bit_imp_le_length)+

lemma eps_algorithms_read:
  "ucast ((drop_bit 4 (push_bit 4 (ucast (c :: 3 word))) OR drop_bit 4 (ucast (i :: 3 word))) AND 7 :: u8) = c"
  "ucast ((push_bit 4 (ucast c) OR ucast i) AND 7 :: u8) = i"
  unfolding octet_masks by (rule bit_word_eqI; auto simp: bit_simps dest: bit_imp_le_length)+

interpretation mm_cause: roomy_ie_codec mm_cause_wire "\<lambda>_ _. True" decode__5gmm_cause "\<lambda>_ x. x" encode__5gmm_cause 2
  by unfold_locales
    (simp_all add: encode__5gmm_cause_def iei_octet_encodes decodes_def decode__5gmm_cause_def mm_cause_wire_def)

interpretation nas_security_algorithms: roomy_ie_codec nas_security_algorithms_wire "\<lambda>_ _. True"
  decode_nas_security_algorithms "\<lambda>_ x. x" encode_nas_security_algorithms 2
  by unfold_locales
    (simp_all add: encode_nas_security_algorithms_def iei_octet_encodes decodes_def
      decode_nas_security_algorithms_def nas_security_algorithms_wire_def algorithms_read)

interpretation epsnas_security_algorithms: roomy_ie_codec epsnas_security_algorithms_wire "\<lambda>_ _. True"
  decode_epsnas_security_algorithms "\<lambda>_ x. x" encode_epsnas_security_algorithms 2
  by unfold_locales
    (simp_all add: encode_epsnas_security_algorithms_def iei_octet_encodes decodes_def
      decode_epsnas_security_algorithms_def epsnas_security_algorithms_wire_def eps_algorithms_read)

subsection \<open>Elements that share an octet with their identifier\<close>

text \<open>The identifier above, the value below.\<close>

definition half4 :: "u8 \<Rightarrow> u8 \<Rightarrow> u8" where
  "half4 iei v = (iei AND 0xF0) OR (v AND 0x0F)"

definition encode_imeisv_request :: "u8 \<Rightarrow> u8 \<Rightarrow> encoder" where
  "encode_imeisv_request imeisvrequest iei = encoder_body 1 [ENCODE_U8 ((iei AND 0xF0) OR imeisvrequest)]"

definition decode_imeisv_request :: "u8 \<Rightarrow> u8 \<Rightarrow> mem \<Rightarrow> u32 \<Rightarrow> (int \<times> u8) option" where
  "decode_imeisv_request x iei buffer len = do {
     bitStream \<leftarrow> DECODE_U8 buffer 0;
     if iei \<noteq> bitStream AND 0xF0 then Some (-1, x)
     else Some (1, bitStream AND 0x07) }"

definition imeisv_wire :: "u8 \<Rightarrow> u8 \<Rightarrow> u8 list" where
  [tlv_wires]: "imeisv_wire x iei = [half4 iei x]"

definition encode_payload_container_type :: "u8 \<Rightarrow> u8 \<Rightarrow> encoder" where
  "encode_payload_container_type t iei =
     (let bitStream = 0;
          bitStream = (if iei > 0 then bitStream OR (iei AND 0xF0) else bitStream);
          bitStream = bitStream OR (t AND 0x0F)
      in encoder_body 1 [ENCODE_U8 bitStream])"

definition decode_payload_container_type :: "u8 \<Rightarrow> u8 \<Rightarrow> mem \<Rightarrow> u32 \<Rightarrow> (int \<times> u8) option" where
  "decode_payload_container_type x iei buffer len = do {
     bitStream \<leftarrow> DECODE_U8 buffer 0;
     if iei \<noteq> bitStream AND 0xF0 then Some (-1, x)
     else Some (1, bitStream AND 0x0F) }"

definition payload_container_type_wire :: "u8 \<Rightarrow> u8 \<Rightarrow> u8 list" where
  [tlv_wires]: "payload_container_type_wire x iei = [half4 iei x]"

definition encode_nssai_inclusion_mode :: "u8 \<Rightarrow> u8 \<Rightarrow> encoder" where
  "encode_nssai_inclusion_mode mode iei =
     (let bitStream = 0;
          bitStream = (if iei > 0 then bitStream OR (iei AND 0xF0) else bitStream);
          bitStream = bitStream OR (mode AND 0x0F)
      in encoder_body 1 [ENCODE_U8 bitStream])"

definition decode_nssai_inclusion_mode :: "u8 \<Rightarrow> u8 \<Rightarrow> mem \<Rightarrow> u32 \<Rightarrow> (int \<times> u8) option" where
  "decode_nssai_inclusion_mode x iei buffer len = do {
     bitStream \<leftarrow> DECODE_U8 buffer 0;
     if iei \<noteq> bitStream AND 0xF0 then Some (-1, x)
     else Some (1, bitStream AND 0x0F) }"

definition nssai_inclusion_mode_wire :: "u8 \<Rightarrow> u8 \<Rightarrow> u8 list" where
  [tlv_wires]: "nssai_inclusion_mode_wire x iei = [half4 iei x]"

text \<open>The decoder of the MICO indication only ever sets its flag.\<close>

record MICOIndication =
  raai :: bool

definition encode_mico_indication :: "MICOIndication \<Rightarrow> u8 \<Rightarrow> encoder" where
  "encode_mico_indication m iei =
     (let bitStream = 0;
          bitStream = (if iei > 0 then bitStream OR (iei AND 0xF0) else bitStream);
          bitStream = (if raai m then bitStream OR 0x01 else bitStream)
      in encoder_body 1 [ENCODE_U8 bitStream])"

definition decode_mico_indication ::
  "MICOIndication \<Rightarrow> u8 \<Rightarrow> mem \<Rightarrow> u32 \<Rightarrow> (int \<times> MICOIndication) option" where
  "decode_mico_indication x iei buffer len = do {
     bitStream \<leftarrow> DECODE_U8 buffer 0;
     if iei \<noteq> bitStream AND 0xF0 then Some (-1, x)
     else Some (1, if bitStream AND 0x01 \<noteq> 0 then x\<lparr>raai := True\<rparr> else x) }"

definition mico_wire :: "MICOIndication \<Rightarrow> u8 \<Rightarrow> u8 list" where
  [tlv_wires]: "mico_wire x iei = [half4 iei (if raai x then 1 else 0)]"

definition mico_seen :: "MICOIndication \<Rightarrow> MICOIndication \<Rightarrow> MICOIndication" where
  "mico_seen x0 x = (if raai x then x0\<lparr>raai := True\<rparr> else x0)"

record NetworkSlicingIndication =
  dcni :: "1 word"
  nssci :: "1 word"

definition encode_network_slicing_indication :: "NetworkSlicingIndication \<Rightarrow> u8 \<Rightarrow> encoder" where
  "encode_network_slicing_indication n iei =
     (let bitStream = 0;
          bitStream = (if iei > 0 then bitStream OR (iei AND 0xF0) else bitStream);
          bitStream = bitStream OR push_bit 1 (ucast (dcni n) AND 0x01);
          bitStream = bitStream OR (ucast (nssci n) AND 0x01)
      in encoder_body 1 [ENCODE_U8 bitStream])"

definition decode_network_slicing_indication ::
  "NetworkSlicingIndication \<Rightarrow> u8 \<Rightarrow> mem \<Rightarrow> u32 \<Rightarrow> (int \<times> NetworkSlicingIndication) option" where
  "decode_network_slicing_indication x iei buffer len = do {
     bitStream \<leftarrow> DECODE_U8 buffer 0;
     if iei \<noteq> bitStream AND 0xF0 then Some (-1, x)
     else
       (let bitStream = (if iei > 0 then bitStream AND 0x0F else bitStream)
        in Some (1, x\<lparr>dcni := ucast (drop_bit 1 (bitStream AND 0x02)), nssci := ucast (bitStream AND 0x01)\<rparr>)) }"

definition slicing_bits :: "NetworkSlicingIndication \<Rightarrow> u8" where
  "slicing_bits n = push_bit 1 (ucast (dcni n) AND 0x01) OR (ucast (nssci n) AND 0x01)"

definition slicing_wire :: "NetworkSlicingIndication \<Rightarrow> u8 \<Rightarrow> u8 list" where
  [tlv_wires]: "slicing_wire x iei = [half4 iei (slicing_bits x)]"

lemma half_encodes:
  "v = half4 iei x \<Longrightarrow> encodes_from m (encoder_body m [ENCODE_U8 v]) [half4 iei x]"
  by (intro encodes_from_body emits_from_emits) (simp add: emits_one)

lemma half4_bits: "half4 iei v AND w = v AND w" if "w AND 0x0F = w"
proof -
  have "half4 iei v AND w = (half4 iei v AND 0x0F) AND w"
    by (simp only: and.assoc and.commute [of "0x0F"] that)
  also have "\<dots> = v AND (w AND 0x0F)"
    by (simp only: half4_def half_octet_value and.assoc and.commute [of "0x0F"])
  finally show ?thesis by (simp only: that)
qed

lemma half4_simps:
  "half4 iei v AND 0xF0 = iei AND 0xF0" "half4 iei v AND 0x0F = v AND 0x0F" "half4 iei v AND 7 = v AND 7"
  "half4 iei v AND 2 = v AND 2" "half4 iei v AND 1 = v AND 1"
  by (simp add: half4_def) (rule half4_bits, simp)+

lemma half4_drop1: "drop_bit (Suc 0) (half4 iei v) AND 1 = drop_bit (Suc 0) v AND (1 :: u8)"
  unfolding half4_def octet_masks by (rule bit_word_eqI) (auto simp: bit_simps simp del: drop_bit_Suc)

lemma seven_fifteen: "x AND 0x0F = x" if "x AND 7 = (x :: u8)"
  by (subst (2) that [symmetric], subst (1) that [symmetric]) (simp add: and.assoc)

lemma slicing_bits_low: "slicing_bits n AND 0x0F = slicing_bits n"
  unfolding slicing_bits_def octet_masks
  by (rule bit_word_eqI) (auto simp: bit_simps simp del: push_bit_Suc drop_bit_Suc)

lemma slicing_read:
  "ucast (drop_bit (Suc 0) (slicing_bits n) AND 1) = dcni n" "ucast (slicing_bits n AND 1) = nssci n"
  unfolding slicing_bits_def octet_masks
  by (rule bit_word_eqI; auto simp: bit_simps simp del: push_bit_Suc drop_bit_Suc dest: bit_imp_le_length)+

interpretation imeisv: roomy_ie_codec imeisv_wire "\<lambda>x iei. type1 iei \<and> x AND 7 = x" decode_imeisv_request
  "\<lambda>_ x. x" encode_imeisv_request 1
proof (unfold_locales, goal_cases)
  case (1 x iei x0)
  then show ?case by (simp add: decodes_def decode_imeisv_request_def imeisv_wire_def half4_simps)
next
  case (2 x iei)
  then have "iei AND 0xF0 OR x = half4 iei x" by (simp add: half4_def seven_fifteen)
  then show ?case unfolding encode_imeisv_request_def imeisv_wire_def by (rule half_encodes)
qed

lemma half4_value:
  "(let bitStream = 0;
        bitStream = (if iei > 0 then bitStream OR (iei AND 0xF0) else bitStream);
        bitStream = bitStream OR (t AND 0x0F)
    in encoder_body 1 [ENCODE_U8 bitStream]) = encoder_body 1 [ENCODE_U8 (half4 iei t)]"
  by (cases "iei = 0") (simp_all add: half4_def word_neq_0_conv)

interpretation payload_container_type: roomy_ie_codec payload_container_type_wire
  "\<lambda>x iei. type1 iei \<and> x AND 0x0F = x" decode_payload_container_type "\<lambda>_ x. x" encode_payload_container_type 1
  by unfold_locales
    (simp add: decodes_def decode_payload_container_type_def payload_container_type_wire_def half4_simps,
     unfold encode_payload_container_type_def payload_container_type_wire_def half4_value, rule half_encodes, rule refl)

interpretation nssai_inclusion_mode: roomy_ie_codec nssai_inclusion_mode_wire
  "\<lambda>x iei. type1 iei \<and> x AND 0x0F = x" decode_nssai_inclusion_mode "\<lambda>_ x. x" encode_nssai_inclusion_mode 1
  by unfold_locales
    (simp add: decodes_def decode_nssai_inclusion_mode_def nssai_inclusion_mode_wire_def half4_simps,
     unfold encode_nssai_inclusion_mode_def nssai_inclusion_mode_wire_def half4_value, rule half_encodes, rule refl)

interpretation mico: roomy_ie_codec mico_wire "\<lambda>_ iei. type1 iei" decode_mico_indication mico_seen
  encode_mico_indication 1
proof (unfold_locales, goal_cases)
  case (1 x iei x0)
  then show ?case
    by (simp add: decodes_def decode_mico_indication_def mico_wire_def mico_seen_def half4_simps)
next
  case (2 x iei)
  show ?case
    unfolding encode_mico_indication_def mico_wire_def Let_def
    by (rule half_encodes, cases "iei = 0") (simp_all add: half4_def word_neq_0_conv)
qed

interpretation slicing: roomy_ie_codec slicing_wire "\<lambda>_ iei. type1 iei" decode_network_slicing_indication
  "\<lambda>_ x. x" encode_network_slicing_indication 1
proof (unfold_locales, goal_cases)
  case (1 x iei x0)
  then show ?case
    by (cases "iei = 0")
      (simp_all add: decodes_def decode_network_slicing_indication_def slicing_wire_def Let_def half4_simps half4_drop1
        slicing_bits_low slicing_read word_neq_0_conv)
next
  case (2 x iei)
  show ?case
    unfolding encode_network_slicing_indication_def slicing_wire_def Let_def
    by (rule half_encodes, cases "iei = 0")
      (simp_all add: half4_def slicing_bits_low, simp_all add: slicing_bits_def or.assoc word_neq_0_conv)
qed

subsection \<open>Key set identifier\<close>

record NASKeySetIdentifier =
  tsc :: "1 word"
  naskeysetidentifier :: "3 word"

definition key_set_bits :: "NASKeySetIdentifier \<Rightarrow> u8" where
  "key_set_bits k = push_bit 3 (ucast (tsc k) AND 0x1) OR (ucast (naskeysetidentifier k) AND 0x7)"

definition encode_nas_key_set_identifier :: "NASKeySetIdentifier \<Rightarrow> u8 \<Rightarrow> encoder" where
  "encode_nas_key_set_identifier k iei =
     encoder_body 1
       [store [0x00 OR (iei AND 0xF0) OR push_bit 3 (ucast (tsc k) AND 0x1) OR (ucast (naskeysetidentifier k) AND 0x7)]]"

definition encode_u8_nas_key_set_identifier :: "NASKeySetIdentifier \<Rightarrow> u8" where
  "encode_u8_nas_key_set_identifier k =
     (let iei = 0
      in 0x00 OR (iei AND 0xF0) OR push_bit 3 (ucast (tsc k) AND 0x1) OR (ucast (naskeysetidentifier k) AND 0x7))"

definition decode_nas_key_set_identifier ::
  "NASKeySetIdentifier \<Rightarrow> u8 \<Rightarrow> mem \<Rightarrow> u32 \<Rightarrow> (int \<times> NASKeySetIdentifier) option" where
  "decode_nas_key_set_identifier x iei buffer len =
     (if unat len < 1 then Some (err TLV_BUFFER_TOO_SHORT, x)
      else do {
        v \<leftarrow> DECODE_U8 buffer 0;
        if iei > 0 \<and> v AND 0xF0 \<noteq> iei then Some (err TLV_UNEXPECTED_IEI, x)
        else Some (1, x\<lparr>tsc := ucast (drop_bit 3 v AND 0x1), naskeysetidentifier := ucast (v AND 0x7)\<rparr>) })"

definition decode_u8_nas_key_set_identifier ::
  "NASKeySetIdentifier \<Rightarrow> u8 \<Rightarrow> u8 \<Rightarrow> u32 \<Rightarrow> int \<times> NASKeySetIdentifier" where
  "decode_u8_nas_key_set_identifier x iei v len =
     (1, x\<lparr>tsc := ucast (drop_bit 3 v AND 0x1), naskeysetidentifier := ucast (v AND 0x7)\<rparr>)"

definition key_set_wire :: "NASKeySetIdentifier \<Rightarrow> u8 \<Rightarrow> u8 list" where
  [tlv_wires]: "key_set_wire k iei = [half4 iei (key_set_bits k)]"

lemma key_set_low: "key_set_bits k AND 0x0F = key_set_bits k"
  unfolding key_set_bits_def octet_masks by (rule bit_word_eqI) (auto simp: bit_simps dest: bit_imp_le_length)

lemma key_set_read:
  "ucast (drop_bit 3 (key_set_bits k) AND 1) = tsc k" "ucast (key_set_bits k AND 7) = naskeysetidentifier k"
  unfolding key_set_bits_def octet_masks
  by (rule bit_word_eqI; auto simp: bit_simps dest: bit_imp_le_length)+

lemma half4_drop3: "drop_bit 3 (half4 iei v) AND 1 = drop_bit 3 v AND (1 :: u8)"
  unfolding half4_def octet_masks by (rule bit_word_eqI) (auto simp: bit_simps)

interpretation key_set: roomy_ie_codec key_set_wire "\<lambda>_ iei. type1 iei" decode_nas_key_set_identifier
  "\<lambda>_ x. x" encode_nas_key_set_identifier 1
proof (unfold_locales, goal_cases)
  case (1 x iei x0)
  then show ?case
    by (auto simp: decodes_def decode_nas_key_set_identifier_def key_set_wire_def half4_simps half4_drop3
        key_set_read type1_def)
next
  case (2 x iei)
  have "0x00 OR (iei AND 0xF0) OR push_bit 3 (ucast (tsc x) AND 0x1) OR (ucast (naskeysetidentifier x) AND 0x7)
      = half4 iei (key_set_bits x)"
    by (simp add: half4_def key_set_low) (simp add: key_set_bits_def)
  then show ?case
    unfolding encode_nas_key_set_identifier_def key_set_wire_def
    using half_encodes [OF refl, of 1 iei "key_set_bits x"] by (simp add: ENCODE_U8_def)
qed

subsection \<open>Elements without identifier\<close>

text \<open>\<open>encode__5gs_identity_type\<close> moves the low half of \<open>iei\<close> up; messages pass 0.\<close>

record IdentityType =
  typeOfIdentity :: "3 word"

definition encode__5gs_identity_type :: "IdentityType \<Rightarrow> u8 \<Rightarrow> encoder" where
  "encode__5gs_identity_type t iei =
     encoder_body 1 [ENCODE_U8 (push_bit 4 (iei AND 0x0F) OR ucast (typeOfIdentity t))]"

definition decode__5gs_identity_type :: "IdentityType \<Rightarrow> u8 \<Rightarrow> mem \<Rightarrow> u32 \<Rightarrow> (int \<times> IdentityType) option" where
  "decode__5gs_identity_type x iei buffer len = do {
     bitStream \<leftarrow> DECODE_U8 buffer 0;
     Some (1, x\<lparr>typeOfIdentity := ucast (bitStream AND 0x07)\<rparr>) }"

definition identity_type_wire :: "IdentityType \<Rightarrow> u8 \<Rightarrow> u8 list" where
  [tlv_wires]: "identity_type_wire t iei = [push_bit 4 (iei AND 0x0F) OR ucast (typeOfIdentity t)]"

record RegistrationType =
  is_for :: bool
  registration_type :: u8

definition encode__5gs_registration_type :: "RegistrationType \<Rightarrow> u8 \<Rightarrow> encoder" where
  "encode__5gs_registration_type t iei =
     (let bits = 0;
          bits = (if is_for t then bits OR 0x08 else bits);
          bits = bits OR (registration_type t AND 0x07)
      in encoder_body 1 [ENCODE_U8 bits])"

definition decode__5gs_registration_type ::
  "RegistrationType \<Rightarrow> u8 \<Rightarrow> mem \<Rightarrow> u32 \<Rightarrow> (int \<times> RegistrationType) option" where
  "decode__5gs_registration_type x iei buffer len = do {
     v \<leftarrow> DECODE_U8 buffer 0;
     Some (1, x\<lparr>is_for := v AND 0x08 \<noteq> 0, registration_type := v AND 0x07\<rparr>) }"

definition registration_type_wire :: "RegistrationType \<Rightarrow> u8 \<Rightarrow> u8 list" where
  [tlv_wires]: "registration_type_wire t iei = [(if is_for t then 0x08 else 0) OR (registration_type t AND 0x07)]"

definition encode_security_header_type :: "u8 \<Rightarrow> u8 \<Rightarrow> encoder" where
  "encode_security_header_type t iei = encoder_body 1 [ENCODE_U8 t]"

definition decode_security_header_type :: "u8 \<Rightarrow> u8 \<Rightarrow> mem \<Rightarrow> u32 \<Rightarrow> (int \<times> u8) option" where
  "decode_security_header_type x iei buffer len = do {
     v \<leftarrow> DECODE_U8 buffer 0;
     Some (1, v) }"

definition octet_wire :: "u8 \<Rightarrow> u8 \<Rightarrow> u8 list" where [tlv_wires]: "octet_wire x iei = [x]"

lemma one_octet_encodes: "encodes_from m (encoder_body m [ENCODE_U8 v]) [v]"
  by (intro encodes_from_body emits_from_emits emits_one)

lemma identity_type_read: "ucast ((push_bit 4 iei AND 0xF0 OR ucast (t :: 3 word)) AND 7 :: u8) = t"
  unfolding octet_masks by (rule bit_word_eqI) (auto simp: bit_simps)

lemma registration_type_read:
  "((if f then 8 else 0) OR (v AND 7)) AND 8 = (if f then 8 else 0 :: u8)"
  "((if f then 8 else 0) OR (v AND 7)) AND 7 = (v AND 7 :: u8)"
  by (simp_all add: bit.conj_disj_distrib2 and.assoc)

interpretation identity_type: roomy_ie_codec identity_type_wire "\<lambda>_ _. True" decode__5gs_identity_type "\<lambda>_ x. x"
  encode__5gs_identity_type 1
  by unfold_locales
    (simp_all add: decodes_def decode__5gs_identity_type_def identity_type_wire_def identity_type_read
      encode__5gs_identity_type_def one_octet_encodes)

interpretation registration_type: roomy_ie_codec registration_type_wire "\<lambda>_ _. True" decode__5gs_registration_type
  "\<lambda>_ x. x\<lparr>registration_type := registration_type x AND 7\<rparr>" encode__5gs_registration_type 1
proof (unfold_locales, goal_cases)
  case (1 x iei x0)
  show ?case
    by (simp only: decodes_def registration_type_wire_def)
      (simp add: decode__5gs_registration_type_def registration_type_read)
next
  case (2 x iei)
  show ?case
    unfolding encode__5gs_registration_type_def registration_type_wire_def Let_def
    by (cases "is_for x") (simp_all add: one_octet_encodes)
qed

interpretation security_header_octet: roomy_ie_codec octet_wire "\<lambda>_ _. True" decode_security_header_type "\<lambda>_ x. x"
  encode_security_header_type 1
  by unfold_locales
    (simp_all add: decodes_def decode_security_header_type_def octet_wire_def encode_security_header_type_def
      one_octet_encodes)

end
