(* ===== verification/IE_Mm_Area.thy ===== *)
theory IE_Mm_Area
  imports IE_Mm_Octet
begin

text \<open>
  Networks and tracking areas (\<open>PLMNList.c\<close>, \<open>_5GSTrackingAreaIdentity.c\<close>, \<open>_5GSTrackingAreaIdentityList.c\<close>,
  \<open>ServiceAreaList.c\<close>) and the error causes of reactivation (\<open>PDUSessionReactivationResultErrorCause.c\<close>). The
  linked lists of the structures are lists here, \<open>NULL\<close> the empty one; following \<open>NULL\<close> is undefined.
\<close>

subsection \<open>A network on three octets\<close>

record PLMN =
  mcc :: u16
  mnc :: u16

definition plmn_cmds :: "PLMN \<Rightarrow> ecmd list" where
  "plmn_cmds p =
     [ENCODE_U8 (ucast (mcc p AND 0x00FF)),
      ENCODE_U8 (ucast (drop_bit 8 (mcc p AND 0x0F00)) OR ucast (drop_bit 4 (mnc p AND 0x0F00))),
      ENCODE_U8 (ucast (mnc p AND 0x00FF))]"

definition read_plmn :: "mem \<Rightarrow> nat \<Rightarrow> (PLMN \<times> nat) option" where
  "read_plmn buffer decoded = do {
     octet \<leftarrow> DECODE_U8 buffer decoded;
     let c = 0x0000 OR ucast octet;
     octet \<leftarrow> DECODE_U8 buffer (decoded + 1);
     let c = c OR push_bit 8 (ucast (octet AND 0x0F));
     let n = 0x0000 OR push_bit 4 (ucast (octet AND 0xF0));
     octet \<leftarrow> DECODE_U8 buffer (decoded + 2);
     Some (\<lparr>mcc = c, mnc = n OR ucast octet\<rparr>, decoded + 3) }"

definition plmn_octets :: "PLMN \<Rightarrow> u8 list" where
  "plmn_octets p =
     [ucast (mcc p AND 0x00FF), ucast (drop_bit 8 (mcc p AND 0x0F00)) OR ucast (drop_bit 4 (mnc p AND 0x0F00)),
      ucast (mnc p AND 0x00FF)]"

text \<open>Three digits of four bits each.\<close>

definition plmn_valid :: "PLMN \<Rightarrow> bool" where
  "plmn_valid p \<longleftrightarrow> take_bit 12 (mcc p) = mcc p \<and> take_bit 12 (mnc p) = mnc p"

lemma length_plmn_octets [simp]: "length (plmn_octets p) = 3"
  by (simp add: plmn_octets_def)

lemma plmn_emits: "emits e (plmn_cmds p) (plmn_octets p)"
proof -
  have "emits e [ENCODE_U8 u, ENCODE_U8 v, ENCODE_U8 w] [u, v, w]" for u v w
    using emits_Cons [OF emits_U8 emits_two, of e u v w] by simp
  then show ?thesis by (simp add: plmn_cmds_def plmn_octets_def)
qed

lemma area_masks: "(0x00FF :: u16) = mask 8" "(0x0F00 :: u16) = push_bit 8 (mask 4)"
  by (simp_all add: mask_eq_exp_minus_1)

lemma digits_bits: "take_bit 12 (v :: u16) = v \<Longrightarrow> bit v n \<Longrightarrow> n < 12"
  by (metis bit_take_bit_iff)

lemma plmn_read:
  assumes "take_bit 12 c = (c :: u16)" and "take_bit 12 n = (n :: u16)"
  shows "ucast (ucast (c AND 0x00FF) :: u8) OR
      push_bit 8 (ucast ((ucast (drop_bit 8 (c AND 0x0F00)) OR ucast (drop_bit 4 (n AND 0x0F00))) AND 0x0F :: u8)) = c"
    and "push_bit 4 (ucast ((ucast (drop_bit 8 (c AND 0x0F00)) OR ucast (drop_bit 4 (n AND 0x0F00))) AND 0xF0 :: u8)) OR
      ucast (ucast (n AND 0x00FF) :: u8) = n"
  unfolding area_masks octet_masks
  by (rule bit_word_eqI; auto simp: bit_simps dest: digits_bits [OF assms(1)] digits_bits [OF assms(2)])+

lemma plmn_dreads: "plmn_valid p \<Longrightarrow> dreads read_plmn (plmn_octets p) p"
  unfolding dreads_def plmn_valid_def
  by (simp only: plmn_octets_def read_plmn_def)
    (simp add: DECODE_U8_shift Let_def, cases p, simp only: PLMN.simps plmn_read [simplified])

subsection \<open>List of networks\<close>

type_synonym PLMNList = "PLMN list"

definition encode_plmn_list :: "PLMNList \<Rightarrow> u8 \<Rightarrow> encoder" where
  "encode_plmn_list plmnlist iei = tlv_encoder 5 iei (concat (map (nth_cmds plmn_cmds plmnlist) [0..<15]))"

text \<open>The array has 15 entries and all are written, whatever the length octet says.\<close>

definition decode_plmn_list :: "PLMNList \<Rightarrow> u8 \<Rightarrow> mem \<Rightarrow> u32 \<Rightarrow> (int \<times> PLMNList) option" where
  "decode_plmn_list x iei buffer len =
     tlv_decoder iei buffer len x (\<lambda>ielen decoded. do {
       (ps, decoded) \<leftarrow> decode_array read_plmn buffer 15 decoded;
       Some (int decoded, ps) })"

definition plmn_list_wire :: "PLMNList \<Rightarrow> u8 \<Rightarrow> u8 list" where
  [tlv_wires]: "plmn_list_wire ps = tlv_wire (concat (map plmn_octets ps))"

definition plmn_list_valid :: "PLMNList \<Rightarrow> bool" where
  "plmn_list_valid ps \<longleftrightarrow> length ps = 15 \<and> list_all plmn_valid ps"

lemma length_plmns [simp]: "length (concat (map plmn_octets ps)) = 3 * length ps"
  by (induction ps) simp_all

lemma plmn_list_cmds: "length ps = 15 \<Longrightarrow> concat (map (nth_cmds plmn_cmds ps) [0..<15]) = concat (map plmn_cmds ps)"
  using nth_cmds_all [of plmn_cmds ps] by simp

lemma plmns_dreads:
  "list_all plmn_valid ps \<Longrightarrow>
   dreads (\<lambda>b d. decode_array read_plmn b (length ps) d) (concat (map plmn_octets ps)) ps"
  using dreads_array [of ps read_plmn plmn_octets "\<lambda>x. x"] plmn_dreads by (simp add: list_all_iff)

interpretation plmn_list: roomy_ie_codec plmn_list_wire "\<lambda>ps iei. plmn_list_valid ps" decode_plmn_list "\<lambda>_ x. x"
  encode_plmn_list 5
proof (unfold_locales, goal_cases)
  case (1 ps iei x0)
  then have ps: "length ps = 15" "list_all plmn_valid ps" by (simp_all add: plmn_list_valid_def)
  have "decode_array read_plmn (pre @ concat (map plmn_octets ps) @ rest) 15 (length pre)
      = Some (ps, length pre + 45)" for pre rest
    using dreadsD [OF plmns_dreads [OF ps(2)], of pre rest] ps(1) by simp
  then show ?case
    unfolding decode_plmn_list_def plmn_list_wire_def using ps(1) by (intro tlv_decodes) simp_all
next
  case (2 ps iei)
  then have ps: "length ps = 15" by (simp add: plmn_list_valid_def)
  show ?case
    unfolding encode_plmn_list_def plmn_list_wire_def plmn_list_cmds [OF ps]
    by (intro tlv_encodes emits_concat plmn_emits)
qed

subsection \<open>Tracking area identity\<close>

record FiveGSTrackingAreaIdentity =
  area_mcc :: u16
  area_mnc :: u16
  area_tac :: u32

definition encode__5gs_tracking_area_identity :: "FiveGSTrackingAreaIdentity \<Rightarrow> u8 \<Rightarrow> encoder" where
  "encode__5gs_tracking_area_identity t iei =
     encoder_body 7
       (put_iei iei #
        [ENCODE_U8 (ucast (area_mcc t AND 0x00FF)),
         ENCODE_U8 (ucast (drop_bit 8 (area_mcc t AND 0x0F00)) OR ucast (drop_bit 4 (area_mnc t AND 0x0F00))),
         ENCODE_U8 (ucast (area_mnc t AND 0x00FF)),
         store (be32 (area_tac t AND 0x00FFFFFF))])"

definition decode__5gs_tracking_area_identity ::
  "FiveGSTrackingAreaIdentity \<Rightarrow> u8 \<Rightarrow> mem \<Rightarrow> u32 \<Rightarrow> (int \<times> FiveGSTrackingAreaIdentity) option" where
  "decode__5gs_tracking_area_identity x iei buffer len =
     check_iei iei buffer x (\<lambda>decoded. do {
       (p, decoded) \<leftarrow> read_plmn buffer decoded;
       v \<leftarrow> read_be32 buffer decoded;
       Some (int (decoded + 4), x\<lparr>area_mcc := mcc p, area_mnc := mnc p, area_tac := v\<rparr>) })"

definition area_plmn :: "FiveGSTrackingAreaIdentity \<Rightarrow> PLMN" where
  "area_plmn t = \<lparr>mcc = area_mcc t, mnc = area_mnc t\<rparr>"

definition tracking_area_wire :: "FiveGSTrackingAreaIdentity \<Rightarrow> u8 \<Rightarrow> u8 list" where
  "tracking_area_wire t iei = iei_wire iei @ plmn_octets (area_plmn t) @ be32 (area_tac t AND 0x00FFFFFF)"

definition tracking_area_valid :: "FiveGSTrackingAreaIdentity \<Rightarrow> bool" where
  "tracking_area_valid t \<longleftrightarrow> plmn_valid (area_plmn t) \<and> area_tac t AND 0x00FFFFFF = area_tac t"

lemma read_be32_wire: "read_be32 (pre @ be32 v @ rest) (length pre) = Some v"
  using be32_read [of v] by (simp add: read_be32_def be32_def DECODE_U16_def nth_append)

interpretation tracking_area: roomy_ie_codec tracking_area_wire "\<lambda>t iei. tracking_area_valid t"
  decode__5gs_tracking_area_identity "\<lambda>_ x. x" encode__5gs_tracking_area_identity 7
proof (unfold_locales, goal_cases)
  case (1 t iei x0)
  then have v: "plmn_valid (area_plmn t)" and tac: "area_tac t AND 0x00FFFFFF = area_tac t"
    by (simp_all add: tracking_area_valid_def)
  show ?case
    unfolding decodes_def
  proof (intro allI impI)
    fix len :: u32 and rest :: mem
    let ?i = "iei_wire iei" and ?t = "be32 (area_tac t)"
    have "read_plmn (?i @ plmn_octets (area_plmn t) @ ?t @ rest) (length ?i) = Some (area_plmn t, length ?i + 3)"
      using dreadsD [OF plmn_dreads [OF v], of ?i "?t @ rest"] by simp
    moreover have "read_be32 ((?i @ plmn_octets (area_plmn t)) @ ?t @ rest) (length (?i @ plmn_octets (area_plmn t)))
        = Some (area_tac t)"
      by (rule read_be32_wire)
    ultimately show "decode__5gs_tracking_area_identity x0 iei (tracking_area_wire t iei @ rest) len
        = Some (int (length (tracking_area_wire t iei)), t)"
      by (simp add: decode__5gs_tracking_area_identity_def tracking_area_wire_def tac area_plmn_def be32_def)
  qed
next
  case (2 t iei)
  have "emits 0 (put_iei iei # plmn_cmds (area_plmn t) @ [store (be32 (area_tac t AND 0x00FFFFFF))])
      (tracking_area_wire t iei)"
    unfolding tracking_area_wire_def
    by (intro emits_Cons emits_put_iei emits_append plmn_emits emits_single emits_store)
  then show ?case
    unfolding encode__5gs_tracking_area_identity_def
    by (intro encodes_from_body emits_from_emits) (simp add: plmn_cmds_def area_plmn_def)
qed

end
