(* ===== verification/IE_Mm_Lists.thy ===== *)
theory IE_Mm_Lists
  imports IE_Mm_Area
begin

text \<open>
  The list of tracking areas (\<open>_5GSTrackingAreaIdentityList.c\<close>), the service area list (\<open>ServiceAreaList.c\<close>) and the
  error causes of reactivation (\<open>PDUSessionReactivationResultErrorCause.c\<close>). Both lists are sequences of partial
  lists, each with a type, a number of elements, networks and tracking area codes; the loops over them are the
  locale \<open>area_loop\<close>. The linked lists of the structures are lists, \<open>NULL\<close> the empty one.
\<close>

subsection \<open>Partial lists\<close>

record TrackingAreaIdentity =
  tac :: u8
  tacContinued :: u16

record PartialTrackingAreaIdentityList =
  typeOfList :: u8
  numberOfElements :: u8
  mcc_mnc :: "PLMN list"
  tai :: "TrackingAreaIdentity list"

definition tai_cmds :: "TrackingAreaIdentity \<Rightarrow> ecmd list" where
  "tai_cmds t = [ENCODE_U8 (tac t), ENCODE_U16 (tacContinued t)]"

text \<open>An access through the pointer to the first element.\<close>

definition first_cmds :: "('a \<Rightarrow> ecmd list) \<Rightarrow> 'a list \<Rightarrow> ecmd list" where
  "first_cmds f xs = (case xs of [] \<Rightarrow> [\<lambda>len b e. EUndef] | x # _ \<Rightarrow> f x)"

text \<open>
  The cases of the \<open>switch\<close> on the type; \<open>flag\<close> is bit 8 of the first octet. In the third the pointer to the tracking
  area never moves: the loop assigns to \<open>ptrTai\<close> and tests and reads \<open>ptrTai3\<close>.
\<close>

definition one_plmn_cmds :: "u8 \<Rightarrow> 'a PartialTrackingAreaIdentityList_scheme \<Rightarrow> ecmd list" where
  "one_plmn_cmds flag p =
     ENCODE_U8 (flag OR (numberOfElements p AND 0x1f)) #
     first_cmds plmn_cmds (mcc_mnc p) @ concat (map tai_cmds (take (unat (numberOfElements p)) (tai p)))"

definition consecutive_cmds :: "u8 \<Rightarrow> 'a PartialTrackingAreaIdentityList_scheme \<Rightarrow> ecmd list" where
  "consecutive_cmds flag p =
     ENCODE_U8 (flag OR (numberOfElements p AND 0x1f) OR 0x20) #
     first_cmds plmn_cmds (mcc_mnc p) @ first_cmds tai_cmds (tai p)"

definition different_plmns_cmds :: "u8 \<Rightarrow> 'a PartialTrackingAreaIdentityList_scheme \<Rightarrow> ecmd list" where
  "different_plmns_cmds flag p =
     ENCODE_U8 (flag OR (numberOfElements p AND 0x1f) OR 0x40) #
     (case tai p of
        [] \<Rightarrow> []
      | t # _ \<Rightarrow> concat (map (\<lambda>m. plmn_cmds m @ tai_cmds t) (take (unat (numberOfElements p)) (mcc_mnc p))))"

definition partial_list_cmds :: "PartialTrackingAreaIdentityList \<Rightarrow> ecmd list" where
  "partial_list_cmds p =
     (let t = typeOfList p AND 0x03
      in if t = 0x00 then one_plmn_cmds 0x00 p
         else if t = 0x01 then consecutive_cmds 0x00 p
         else if t = 0x02 then different_plmns_cmds 0x00 p
         else [])"

definition read_tai :: "mem \<Rightarrow> nat \<Rightarrow> (TrackingAreaIdentity \<times> nat) option" where
  "read_tai buffer decoded = do {
     t \<leftarrow> DECODE_U8 buffer decoded;
     c \<leftarrow> DECODE_U16 buffer (decoded + 1);
     Some (\<lparr>tac = t, tacContinued = c\<rparr>, decoded + 3) }"

definition read_network_area :: "mem \<Rightarrow> nat \<Rightarrow> ((PLMN \<times> TrackingAreaIdentity) \<times> nat) option" where
  "read_network_area buffer decoded = do {
     (m, decoded) \<leftarrow> read_plmn buffer decoded;
     (t, decoded) \<leftarrow> read_tai buffer decoded;
     Some ((m, t), decoded) }"

lemma elements_le: "unat (x AND 0x1f :: u8) \<le> 31"
  using word_and_le1 [of x "0x1f"] by (simp add: word_le_nat_alt)

text \<open>
  \<open>for (; elementIndex < (octet & 0x1f); elementIndex++)\<close>: the body reads into the same \<open>octet\<close>, so that the bound
  is the low part of the last octet read and not the number of elements.
\<close>

function read_tais_while :: "mem \<Rightarrow> nat \<Rightarrow> u8 \<Rightarrow> nat \<Rightarrow> (TrackingAreaIdentity list \<times> nat) option" where
  "read_tais_while buffer elementIndex octet decoded =
     (if elementIndex < unat (octet AND 0x1f) then do {
        (t, decoded) \<leftarrow> read_tai buffer decoded;
        (ts, decoded) \<leftarrow> read_tais_while buffer (elementIndex + 1) (tac t) decoded;
        Some (t # ts, decoded) }
      else Some ([], decoded))"
  by pat_completeness auto

termination
proof (relation "measure (\<lambda>(b, i, octet, d). 32 - i)", goal_cases)
  case 1
  then show ?case by simp
next
  case (2 buffer i octet d p t d')
  then show ?case using elements_le [of octet] by simp
qed

declare read_tais_while.simps [simp del]

definition decode_partial_list :: "mem \<Rightarrow> nat \<Rightarrow> (PartialTrackingAreaIdentityList \<times> nat) option" where
  "decode_partial_list buffer decoded = do {
     octet \<leftarrow> DECODE_U8 buffer decoded;
     let t = drop_bit 5 (octet AND 0x60);
     let n = octet AND 0x1f;
     if t = 0x00 then do {
       (m, d) \<leftarrow> read_plmn buffer (decoded + 1);
       octet \<leftarrow> DECODE_U8 buffer (decoded + 3);
       (ts, d) \<leftarrow> read_tais_while buffer 0 octet d;
       Some (\<lparr>typeOfList = 0x00, numberOfElements = n, mcc_mnc = [m], tai = ts\<rparr>, d) }
     else if t = 0x01 then do {
       (m, d) \<leftarrow> read_plmn buffer (decoded + 1);
       (t, d) \<leftarrow> read_tai buffer d;
       Some (\<lparr>typeOfList = 0x01, numberOfElements = n, mcc_mnc = [m], tai = [t]\<rparr>, d) }
     else if t = 0x02 then do {
       (mts, d) \<leftarrow> decode_array read_network_area buffer (unat n) (decoded + 1);
       Some (\<lparr>typeOfList = 0x02, numberOfElements = n, mcc_mnc = map fst mts, tai = map snd mts\<rparr>, d) }
     else Some (\<lparr>typeOfList = 0, numberOfElements = 0, mcc_mnc = [], tai = []\<rparr>, decoded + 1) }"

lemma read_plmn_end: "read_plmn b d = Some (m, d') \<Longrightarrow> d' = d + 3"
  by (auto simp: read_plmn_def Let_def split: bind_splits)

lemma read_tai_end: "read_tai b d = Some (t, d') \<Longrightarrow> d' = d + 3"
  by (auto simp: read_tai_def split: bind_splits)

lemma read_network_area_end: "read_network_area b d = Some (mt, d') \<Longrightarrow> d \<le> d'"
  by (auto simp: read_network_area_def dest!: read_plmn_end read_tai_end split: bind_splits)

lemma read_tais_while_le: "read_tais_while b i octet d = Some (ts, d') \<Longrightarrow> d \<le> d'"
proof (induction b i octet d arbitrary: ts d' rule: read_tais_while.induct)
  case (1 b i octet d)
  note unfolded = 1(2) [unfolded read_tais_while.simps [of b i octet d]]
  show ?case
  proof (cases "i < unat (octet AND 0x1f)")
    case True
    with unfolded obtain t d1 ts1 where t: "read_tai b d = Some (t, d1)"
      and "read_tais_while b (i + 1) (tac t) d1 = Some (ts1, d')"
      by (auto split: bind_splits)
    then have "d1 \<le> d'" by (intro 1(1) [OF True t refl])
    with read_tai_end [OF t] show ?thesis by simp
  qed (use unfolded in simp)
qed

lemmas read_ends = read_plmn_end read_tai_end read_tais_while_le

lemma decode_partial_list_less:
  assumes r: "decode_partial_list buffer d = Some (p, d')"
  shows "d < d'"
proof -
  from r obtain octet where "DECODE_U8 buffer d = Some octet"
      by (auto simp: decode_partial_list_def split: bind_splits)
  note r = r [unfolded decode_partial_list_def Let_def this, simplified]
  consider (zero) "drop_bit 5 (octet AND 0x60) = 0" | (one) "drop_bit 5 (octet AND 0x60) = 1"
    | (two) "drop_bit 5 (octet AND 0x60) = 2"
    | (other) "drop_bit 5 (octet AND 0x60) \<notin> {0, 1, 2}" by blast
  then show ?thesis
  proof cases
    case zero
    with r show ?thesis by (auto split: bind_splits dest!: read_ends)
  next
    case one
    with r show ?thesis by (auto split: bind_splits dest!: read_ends)
  next
    case two
    with r obtain mts where "decode_array read_network_area buffer (unat (octet AND 0x1f)) (d + 1) = Some (mts, d')"
      by (auto split: bind_splits)
    then have "d + 1 \<le> d'" by (rule decode_array_le [where dec = read_network_area, rotated]) (rule read_network_area_end)
    then show ?thesis by simp
  next
    case other
    with r show ?thesis by simp
  qed
qed

subsection \<open>The loop over the partial lists\<close>

text \<open>\<open>while (len - decoded > 0) { if ((ielen + 2) == decoded) break; \<dots> }\<close>, unsigned, over any reader of a round.\<close>

locale area_loop =
  fixes dec :: "mem \<Rightarrow> nat \<Rightarrow> ('p \<times> nat) option"
    and loop :: "mem \<Rightarrow> u32 \<Rightarrow> u8 \<Rightarrow> nat \<Rightarrow> ('p list \<times> nat) option"
  assumes loop_round: "loop b len ielen d =
    (if len - of_nat d = 0 \<or> unat ielen + 2 = d then Some ([], d)
     else do { (p, d) \<leftarrow> dec b d; (ps, d) \<leftarrow> loop b len ielen d; Some (p # ps, d) })"
    and dec_advances: "dec b d = Some (p, d') \<Longrightarrow> d < d' \<and> d < length b"
begin

text \<open>What holds of every partial list read holds of all that the loop gathers, and the cursor never goes back.\<close>

lemma loop_all:
  assumes "\<And>d p d'. dec b d = Some (p, d') \<Longrightarrow> P p" and "loop b len ielen d = Some (ps, d')"
  shows "list_all P ps \<and> d \<le> d'"
  using assms(2)
proof (induction "length b - d" arbitrary: d ps rule: less_induct)
  case less
  show ?case
  proof (cases "len - of_nat d = 0 \<or> unat ielen + 2 = d")
    case True
    with less.prems show ?thesis by (subst (asm) loop_round) simp
  next
    case False
    with less.prems obtain p d1 qs where p: "dec b d = Some (p, d1)" and qs: "loop b len ielen d1 = Some (qs, d')"
      and ps: "ps = p # qs"
      by (subst (asm) loop_round) (auto split: bind_splits)
    from dec_advances [OF p] have "length b - d1 < length b - d" "d < d1" by auto
    with less.hyps [OF _ qs] assms(1) [OF p] show ?thesis by (simp add: ps)
  qed
qed

lemma loop_reads:
  assumes "\<And>x. x \<in> set xs \<Longrightarrow> dreads dec (w x) (c x) \<and> w x \<noteq> []"
    and "length pre + length (concat (map w xs)) = unat ielen + 2" and "unat ielen + 2 \<le> unat len"
  shows "loop (pre @ concat (map w xs) @ rest) len ielen (length pre) = Some (map c xs, unat ielen + 2)"
  using assms(1,2)
proof (induction xs arbitrary: pre)
  case Nil
  then show ?case by (subst loop_round) simp
next
  case (Cons x xs)
  let ?b = "pre @ concat (map w (x # xs)) @ rest"
  have x: "dreads dec (w x) (c x)" "w x \<noteq> []" using Cons.prems(1) by simp_all
  then have "length (w x) > 0" by simp
  with Cons.prems(2) have "length pre < unat ielen + 2" unfolding list.map concat.simps length_append by linarith
  with assms(3) have go: "\<not> (len - of_nat (length pre) = 0 \<or> unat ielen + 2 = length pre)"
    using minus_of_nat_pos [of "length pre" len] by auto
  have "dec (pre @ w x @ concat (map w xs) @ rest) (length pre) = Some (c x, length pre + length (w x))"
    by (rule dreadsD [OF x(1)])
  moreover have "loop ((pre @ w x) @ concat (map w xs) @ rest) len ielen (length (pre @ w x))
      = Some (map c xs, unat ielen + 2)"
    using Cons.prems by (intro Cons.IH) auto
  ultimately show ?case using go by (subst loop_round) simp
qed

end

lemma decode_partial_list_inside: "decode_partial_list b d = Some r \<Longrightarrow> d < length b"
  by (cases "d < length b") (auto simp: decode_partial_list_def DECODE_U8_def)

function decode_tai_loop :: "mem \<Rightarrow> u32 \<Rightarrow> u8 \<Rightarrow> nat \<Rightarrow> (PartialTrackingAreaIdentityList list \<times> nat) option" where
  "decode_tai_loop buffer len ielen decoded =
     (if len - of_nat decoded = 0 \<or> unat ielen + 2 = decoded then Some ([], decoded)
      else do {
        (p, decoded) \<leftarrow> decode_partial_list buffer decoded;
        (ps, decoded) \<leftarrow> decode_tai_loop buffer len ielen decoded;
        Some (p # ps, decoded) })"
  by pat_completeness auto

termination
proof (relation "measure (\<lambda>(b, len, ielen, d). length b - d)", goal_cases)
  case 1
  then show ?case by simp
next
  case (2 b len ielen d r p d')
  then show ?case using decode_partial_list_less [of b d p d'] decode_partial_list_inside [of b d "(p, d')"] by simp
qed

declare decode_tai_loop.simps [simp del]

interpretation tai_loop: area_loop decode_partial_list decode_tai_loop
  by unfold_locales (rule decode_tai_loop.simps, blast dest: decode_partial_list_less decode_partial_list_inside)

subsection \<open>Tracking area identity list\<close>

record FiveGSTrackingAreaIdentityList =
  tai_listSize :: int
  partialTrackingAreaIdentityList :: "PartialTrackingAreaIdentityList list"

definition encode__5gs_tracking_area_identity_list :: "FiveGSTrackingAreaIdentityList \<Rightarrow> u8 \<Rightarrow> encoder" where
  "encode__5gs_tracking_area_identity_list x iei =
     tlv_encoder 9 iei
       (concat (map partial_list_cmds (take (nat (tai_listSize x)) (partialTrackingAreaIdentityList x))))"

definition decode__5gs_tracking_area_identity_list ::
  "FiveGSTrackingAreaIdentityList \<Rightarrow> u8 \<Rightarrow> mem \<Rightarrow> u32 \<Rightarrow> (int \<times> FiveGSTrackingAreaIdentityList) option" where
  "decode__5gs_tracking_area_identity_list x iei buffer len =
     tlv_decoder iei buffer len x (\<lambda>ielen decoded. do {
       (ps, decoded) \<leftarrow> decode_tai_loop buffer len ielen decoded;
       Some (int decoded,
         x\<lparr>tai_listSize := int (length ps),
           partialTrackingAreaIdentityList := if ps = [] then partialTrackingAreaIdentityList x else ps\<rparr>) })"

text \<open>Wire format of a partial list; the types are those the encoder distinguishes.\<close>

definition tai_octets :: "TrackingAreaIdentity \<Rightarrow> u8 list" where
  "tai_octets t = [tac t, hi8 (tacContinued t), lo8 (tacContinued t)]"

definition one_plmn_octets :: "u8 \<Rightarrow> 'a PartialTrackingAreaIdentityList_scheme \<Rightarrow> u8 list" where
  "one_plmn_octets flag p =
     (flag OR (numberOfElements p AND 0x1f)) # plmn_octets (hd (mcc_mnc p)) @ concat (map tai_octets (tai p))"

definition consecutive_octets :: "u8 \<Rightarrow> 'a PartialTrackingAreaIdentityList_scheme \<Rightarrow> u8 list" where
  "consecutive_octets flag p =
     (flag OR (numberOfElements p AND 0x1f) OR 0x20) # plmn_octets (hd (mcc_mnc p)) @ tai_octets (hd (tai p))"

definition different_plmns_octets :: "u8 \<Rightarrow> 'a PartialTrackingAreaIdentityList_scheme \<Rightarrow> u8 list" where
  "different_plmns_octets flag p =
     (flag OR (numberOfElements p AND 0x1f) OR 0x40) #
     concat (map (\<lambda>(m, t). plmn_octets m @ tai_octets t) (zip (mcc_mnc p) (tai p)))"

definition partial_list_octets :: "PartialTrackingAreaIdentityList \<Rightarrow> u8 list" where
  "partial_list_octets p =
     (let t = typeOfList p AND 0x03
      in if t = 0x00 then one_plmn_octets 0x00 p
         else if t = 0x01 then consecutive_octets 0x00 p
         else if t = 0x02 then different_plmns_octets 0x00 p
         else [])"

text \<open>
  Which partial lists survive. Of the third type only those with the same tracking area code for all networks; of
  the first only those for which the bound that the decoder takes from the octets just read stops it in the end.
\<close>

primrec tais_run :: "nat \<Rightarrow> u8 \<Rightarrow> TrackingAreaIdentity list \<Rightarrow> bool" where
  "tais_run elementIndex octet [] \<longleftrightarrow> unat (octet AND 0x1f) \<le> elementIndex"
| "tais_run elementIndex octet (t # ts) \<longleftrightarrow>
     elementIndex < unat (octet AND 0x1f) \<and> tais_run (elementIndex + 1) (tac t) ts"

definition one_plmn_valid :: "'a PartialTrackingAreaIdentityList_scheme \<Rightarrow> bool" where
  "one_plmn_valid p \<longleftrightarrow>
     numberOfElements p < 32 \<and> length (mcc_mnc p) = 1 \<and> plmn_valid (hd (mcc_mnc p)) \<and>
     length (tai p) = unat (numberOfElements p)"

definition consecutive_valid :: "'a PartialTrackingAreaIdentityList_scheme \<Rightarrow> bool" where
  "consecutive_valid p \<longleftrightarrow>
     numberOfElements p < 32 \<and> length (mcc_mnc p) = 1 \<and> plmn_valid (hd (mcc_mnc p)) \<and> length (tai p) = 1"

definition different_plmns_valid :: "'a PartialTrackingAreaIdentityList_scheme \<Rightarrow> bool" where
  "different_plmns_valid p \<longleftrightarrow>
     numberOfElements p < 32 \<and> length (mcc_mnc p) = unat (numberOfElements p) \<and> list_all plmn_valid (mcc_mnc p) \<and>
     tai p = replicate (unat (numberOfElements p)) (hd (tai p))"

definition partial_list_valid :: "PartialTrackingAreaIdentityList \<Rightarrow> bool" where
  "partial_list_valid p \<longleftrightarrow>
     typeOfList p = 0x00 \<and> one_plmn_valid p \<and> tais_run 0 (ucast (mnc (hd (mcc_mnc p)) AND 0x00FF)) (tai p) \<or>
     typeOfList p = 0x01 \<and> consecutive_valid p \<or>
     typeOfList p = 0x02 \<and> different_plmns_valid p"

definition tai_list_wire :: "FiveGSTrackingAreaIdentityList \<Rightarrow> u8 \<Rightarrow> u8 list" where
  [tlv_wires]: "tai_list_wire x = tlv_wire (concat (map partial_list_octets (partialTrackingAreaIdentityList x)))"

definition tai_list_valid :: "FiveGSTrackingAreaIdentityList \<Rightarrow> bool" where
  "tai_list_valid x \<longleftrightarrow>
     tai_listSize x = int (length (partialTrackingAreaIdentityList x)) \<and>
     partialTrackingAreaIdentityList x \<noteq> [] \<and> list_all partial_list_valid (partialTrackingAreaIdentityList x) \<and>
     length (concat (map partial_list_octets (partialTrackingAreaIdentityList x))) < 256"

lemma tai_emits: "emits e (tai_cmds t) (tai_octets t)"
proof -
  have "emits e [ENCODE_U8 (tac t), ENCODE_U16 (tacContinued t)] ([tac t] @ [hi8 (tacContinued t), lo8 (tacContinued t)] @ [])"
    by (intro emits_Cons emits_U8 emits_U16 emits_Nil)
  then show ?thesis by (simp add: tai_cmds_def tai_octets_def)
qed

lemma emits_octet: "emits (e + 1) cs bs \<Longrightarrow> emits e (ENCODE_U8 v # cs) (v # bs)"
  using emits_Cons [OF emits_U8, of e v cs bs] by simp

lemma first_cmds_one: "length xs = Suc 0 \<Longrightarrow> first_cmds f xs = f (hd xs)"
  by (cases xs) (simp_all add: first_cmds_def)

lemma one_plmn_emits: "one_plmn_valid p \<Longrightarrow> emits e (one_plmn_cmds flag p) (one_plmn_octets flag p)"
  unfolding one_plmn_valid_def one_plmn_cmds_def one_plmn_octets_def
  by (auto simp: first_cmds_one intro!: emits_octet emits_append plmn_emits emits_concat tai_emits)

lemma consecutive_emits: "consecutive_valid p \<Longrightarrow> emits e (consecutive_cmds flag p) (consecutive_octets flag p)"
  unfolding consecutive_valid_def consecutive_cmds_def consecutive_octets_def
  by (auto simp: first_cmds_one intro!: emits_octet emits_append plmn_emits tai_emits)

lemma zip_replicate_right: "length xs = n \<Longrightarrow> zip xs (replicate n y) = map (\<lambda>x. (x, y)) xs"
  by (induction xs arbitrary: n) auto

lemma different_plmns_emits:
  assumes "different_plmns_valid p"
  shows "emits e (different_plmns_cmds flag p) (different_plmns_octets flag p)"
proof (cases "tai p")
  case Nil
  then show ?thesis
    by (simp add: different_plmns_cmds_def different_plmns_octets_def emits_octet emits_Nil)
next
  case (Cons t ts)
  with assms have z: "length (mcc_mnc p) = unat (numberOfElements p)" "tai p = replicate (unat (numberOfElements p)) t"
    by (simp_all add: different_plmns_valid_def)
  then have zip: "zip (mcc_mnc p) (tai p) = map (\<lambda>m. (m, t)) (mcc_mnc p)"
    by (simp add: zip_replicate_right)
  show ?thesis
    unfolding different_plmns_cmds_def different_plmns_octets_def zip
    using Cons z(1)
    by (auto simp: comp_def intro!: emits_octet emits_concat emits_append plmn_emits tai_emits)
qed

text \<open>Reading a partial list.\<close>

lemma partial_octet:
  assumes "n < 32" and "flag = 0 \<or> flag = 0x80" and "k \<in> {0, 0x20, 0x40, 0x60 :: u8}"
  shows "(flag OR (n AND 0x1f) OR k) AND 0x60 = k" and "(flag OR (n AND 0x1f) OR k) AND 0x1f = n"
proof -
  have n: "n AND 0x1f = n"
    using assms(1) less_mask_eq [of n 5] by (simp add: take_bit_eq_mask mask_eq_exp_minus_1 and.commute)
  show "(flag OR (n AND 0x1f) OR k) AND 0x60 = k"
    using assms(2,3) by (auto simp: bit.conj_disj_distrib2 and.assoc)
  show "(flag OR (n AND 0x1f) OR k) AND 0x1f = n"
    using assms(2,3) by (auto simp: bit.conj_disj_distrib2 and.assoc n)
qed

lemma tai_dreads: "dreads read_tai (tai_octets t) t"
  by (cases t) (simp add: dreads_def read_tai_def tai_octets_def DECODE_U8_shift DECODE_U16_def nth_append)

lemma length_tai_octets [simp]: "length (tai_octets t) = 3"
  by (simp add: tai_octets_def)

lemma length_tais [simp]: "length (concat (map tai_octets ts)) = 3 * length ts"
  by (induction ts) simp_all

lemma network_area_dreads:
  assumes "plmn_valid m"
  shows "dreads read_network_area (plmn_octets m @ tai_octets t) (m, t)"
  unfolding dreads_def
proof (intro allI)
  fix pre rest :: mem
  have "read_plmn (pre @ plmn_octets m @ tai_octets t @ rest) (length pre) = Some (m, length pre + length (plmn_octets m))"
    by (rule dreadsD [OF plmn_dreads [OF assms]])
  moreover have "read_tai ((pre @ plmn_octets m) @ tai_octets t @ rest) (length (pre @ plmn_octets m))
      = Some (t, length (pre @ plmn_octets m) + length (tai_octets t))"
    by (rule dreadsD [OF tai_dreads])
  ultimately show "read_network_area (pre @ (plmn_octets m @ tai_octets t) @ rest) (length pre)
      = Some ((m, t), length pre + length (plmn_octets m @ tai_octets t))"
    by (simp add: read_network_area_def)
qed

lemma read_tais_run:
  "tais_run i octet ts \<Longrightarrow>
   read_tais_while (pre @ concat (map tai_octets ts) @ rest) i octet (length pre)
     = Some (ts, length pre + 3 * length ts)"
proof (induction ts arbitrary: i octet pre)
  case Nil
  then show ?case by (subst read_tais_while.simps) simp
next
  case (Cons t ts)
  have "read_tai (pre @ tai_octets t @ concat (map tai_octets ts) @ rest) (length pre)
      = Some (t, length pre + length (tai_octets t))"
    by (rule dreadsD [OF tai_dreads])
  moreover have "read_tais_while ((pre @ tai_octets t) @ concat (map tai_octets ts) @ rest) (i + 1) (tac t)
      (length (pre @ tai_octets t)) = Some (ts, length (pre @ tai_octets t) + 3 * length ts)"
    using Cons.prems by (intro Cons.IH) simp
  ultimately show ?case
    using Cons.prems by (subst read_tais_while.simps) simp
qed

lemma read_after_octet:
  assumes "plmn_valid m"
  shows "read_plmn (pre @ (v # plmn_octets m @ xs) @ rest) (length pre + 1) = Some (m, length pre + 4)"
    and "DECODE_U8 (pre @ (v # plmn_octets m @ xs) @ rest) (length pre + 3) = Some (ucast (mnc m AND 0x00FF))"
proof -
  have "read_plmn ((pre @ [v]) @ plmn_octets m @ xs @ rest) (length (pre @ [v])) = Some (m, length (pre @ [v]) + length (plmn_octets m))"
    by (rule dreadsD [OF plmn_dreads [OF assms]])
  then show "read_plmn (pre @ (v # plmn_octets m @ xs) @ rest) (length pre + 1) = Some (m, length pre + 4)"
    by simp
  show "DECODE_U8 (pre @ (v # plmn_octets m @ xs) @ rest) (length pre + 3) = Some (ucast (mnc m AND 0x00FF))"
    by (simp add: plmn_octets_def DECODE_U8_def nth_append)
qed

lemma read_tai_after:
  assumes "length us = 4"
  shows "read_tai (pre @ (us @ tai_octets t) @ rest) (length pre + 4) = Some (t, length pre + 7)"
  using dreadsD [OF tai_dreads [of t], of "pre @ us" rest] assms by simp

lemma read_tais_after:
  assumes "length us = 4" and "tais_run 0 octet ts"
  shows "read_tais_while (pre @ (us @ concat (map tai_octets ts)) @ rest) 0 octet (length pre + 4)
       = Some (ts, length pre + 4 + 3 * length ts)"
  using read_tais_run [OF assms(2), of "pre @ us" rest] assms(1) by simp

lemma length_areas:
  "length ms = length ts \<Longrightarrow> length (concat (map (\<lambda>(m, t). plmn_octets m @ tai_octets t) (zip ms ts))) = 6 * length ms"
  by (induction ms ts rule: list_induct2) simp_all

lemma read_areas_after:
  assumes "list_all plmn_valid ms" and "length ms = length ts"
  shows "decode_array read_network_area
      (pre @ (v # concat (map (\<lambda>(m, t). plmn_octets m @ tai_octets t) (zip ms ts))) @ rest) (length ms) (length pre + 1)
      = Some (zip ms ts, length pre + 1 + 6 * length ms)"
proof -
  have "dreads (\<lambda>b d. decode_array read_network_area b (length (zip ms ts)) d)
      (concat (map (\<lambda>(m, t). plmn_octets m @ tai_octets t) (zip ms ts))) (map (\<lambda>x. x) (zip ms ts))"
    using assms(1)
    by (intro dreads_array) (auto simp: list_all_iff dest!: set_zip_leftD intro!: network_area_dreads)
  from dreadsD [OF this, of "pre @ [v]" rest] show ?thesis
    using assms(2) by (simp add: length_areas)
qed

lemma partial_octet_kinds:
  assumes "n < 32" and "flag = 0 \<or> flag = 0x80"
  shows "(flag OR (n AND 0x1f)) AND 0x60 = 0" and "(flag OR (n AND 0x1f)) AND 0x1f = (n :: u8)"
    and "(flag OR (n AND 0x1f) OR 0x20) AND 0x60 = 0x20" and "(flag OR (n AND 0x1f) OR 0x20) AND 0x1f = n"
    and "(flag OR (n AND 0x1f) OR 0x40) AND 0x60 = 0x40" and "(flag OR (n AND 0x1f) OR 0x40) AND 0x1f = n"
    and "(flag OR (n AND 0x1f) OR 0x60) AND 0x60 = 0x60" and "(flag OR (n AND 0x1f) OR 0x60) AND 0x1f = n"
  using partial_octet [OF assms, of 0] partial_octet [OF assms, of "0x20"] partial_octet [OF assms, of "0x40"]
    partial_octet [OF assms, of "0x60"] by simp_all

lemma singleton_hd: "length xs = Suc 0 \<Longrightarrow> [hd xs] = xs"
  by (cases xs) simp_all

lemma one_plmn_reads:
  fixes p :: "'a PartialTrackingAreaIdentityList_scheme"
  assumes "one_plmn_valid p" and "flag = 0 \<or> flag = 0x80"
  defines "b \<equiv> \<lambda>pre rest. pre @ one_plmn_octets flag p @ rest"
  shows "DECODE_U8 (b pre rest) (length pre) = Some (flag OR (numberOfElements p AND 0x1f))"
    and "read_plmn (b pre rest) (length pre + 1) = Some (hd (mcc_mnc p), length pre + 4)"
    and "DECODE_U8 (b pre rest) (length pre + 3) = Some (ucast (mnc (hd (mcc_mnc p)) AND 0x00FF))"
    and "tais_run 0 octet (tai p) \<Longrightarrow>
      read_tais_while (b pre rest) 0 octet (length pre + 4) = Some (tai p, length pre + length (one_plmn_octets flag p))"
    and "decode_array read_tai (b pre rest) (unat (numberOfElements p)) (length pre + 4)
      = Some (tai p, length pre + length (one_plmn_octets flag p))"
proof -
  let ?o = "flag OR (numberOfElements p AND 0x1f)" and ?m = "hd (mcc_mnc p)"
  have v: "plmn_valid ?m" and n: "length (tai p) = unat (numberOfElements p)"
    using assms(1) by (simp_all add: one_plmn_valid_def)
  show "DECODE_U8 (b pre rest) (length pre) = Some ?o" by (simp add: b_def one_plmn_octets_def)
  show "read_plmn (b pre rest) (length pre + 1) = Some (?m, length pre + 4)"
    "DECODE_U8 (b pre rest) (length pre + 3) = Some (ucast (mnc ?m AND 0x00FF))"
    unfolding b_def one_plmn_octets_def by (rule read_after_octet [OF v])+
  show "read_tais_while (b pre rest) 0 octet (length pre + 4) = Some (tai p, length pre + length (one_plmn_octets flag p))"
    if "tais_run 0 octet (tai p)"
    using read_tais_after [OF _ that, of "?o # plmn_octets ?m" pre rest]
    by (simp add: b_def one_plmn_octets_def add.assoc)
  have "dreads (\<lambda>b d. decode_array read_tai b (length (tai p)) d) (concat (map tai_octets (tai p))) (map (\<lambda>x. x) (tai p))"
    by (intro dreads_array tai_dreads)
  from dreadsD [OF this, of "pre @ ?o # plmn_octets ?m" rest]
  show "decode_array read_tai (b pre rest) (unat (numberOfElements p)) (length pre + 4)
      = Some (tai p, length pre + length (one_plmn_octets flag p))"
    by (simp add: b_def one_plmn_octets_def n add.assoc)
qed

lemma consecutive_reads:
  fixes p :: "'a PartialTrackingAreaIdentityList_scheme" and flag :: u8
  assumes "consecutive_valid p"
  defines "b \<equiv> \<lambda>pre rest. pre @ consecutive_octets flag p @ rest"
  shows "DECODE_U8 (b pre rest) (length pre) = Some (flag OR (numberOfElements p AND 0x1f) OR 0x20)"
    and "read_plmn (b pre rest) (length pre + 1) = Some (hd (mcc_mnc p), length pre + 4)"
    and "read_tai (b pre rest) (length pre + 4) = Some (hd (tai p), length pre + 7)"
    and "length (consecutive_octets flag p) = 7"
proof -
  have v: "plmn_valid (hd (mcc_mnc p))" using assms(1) by (simp add: consecutive_valid_def)
  show "DECODE_U8 (b pre rest) (length pre) = Some (flag OR (numberOfElements p AND 0x1f) OR 0x20)"
    by (simp add: b_def consecutive_octets_def)
  show "read_plmn (b pre rest) (length pre + 1) = Some (hd (mcc_mnc p), length pre + 4)"
    unfolding b_def consecutive_octets_def by (rule read_after_octet [OF v])
  show "read_tai (b pre rest) (length pre + 4) = Some (hd (tai p), length pre + 7)"
    using read_tai_after [of "(flag OR (numberOfElements p AND 0x1f) OR 0x20) # plmn_octets (hd (mcc_mnc p))" pre "hd (tai p)" rest]
    by (simp add: b_def consecutive_octets_def)
  show "length (consecutive_octets flag p) = 7" by (simp add: consecutive_octets_def)
qed

lemma different_plmns_reads:
  fixes p :: "'a PartialTrackingAreaIdentityList_scheme" and flag :: u8
  assumes "different_plmns_valid p"
  defines "b \<equiv> \<lambda>pre rest. pre @ different_plmns_octets flag p @ rest"
  shows "DECODE_U8 (b pre rest) (length pre) = Some (flag OR (numberOfElements p AND 0x1f) OR 0x40)"
    and "decode_array read_network_area (b pre rest) (unat (numberOfElements p)) (length pre + 1)
      = Some (zip (mcc_mnc p) (tai p), length pre + length (different_plmns_octets flag p))"
    and "map fst (zip (mcc_mnc p) (tai p)) = mcc_mnc p" and "map snd (zip (mcc_mnc p) (tai p)) = tai p"
proof -
  have l: "length (mcc_mnc p) = unat (numberOfElements p)" "list_all plmn_valid (mcc_mnc p)"
    and t: "tai p = replicate (unat (numberOfElements p)) (hd (tai p))"
    using assms(1) by (simp_all add: different_plmns_valid_def)
  have "length (tai p) = unat (numberOfElements p)" by (subst t) simp
  with l(1) have same: "length (mcc_mnc p) = length (tai p)" by simp
  then show "map fst (zip (mcc_mnc p) (tai p)) = mcc_mnc p" "map snd (zip (mcc_mnc p) (tai p)) = tai p" by simp_all
  show "DECODE_U8 (b pre rest) (length pre) = Some (flag OR (numberOfElements p AND 0x1f) OR 0x40)"
    by (simp add: b_def different_plmns_octets_def)
  show "decode_array read_network_area (b pre rest) (unat (numberOfElements p)) (length pre + 1)
      = Some (zip (mcc_mnc p) (tai p), length pre + length (different_plmns_octets flag p))"
    using read_areas_after [OF l(2) same, of pre _ rest] same l(1)
    by (simp add: b_def different_plmns_octets_def length_areas)
qed

lemma record_partial_list:
  "\<lparr>typeOfList = typeOfList p, numberOfElements = numberOfElements p, mcc_mnc = mcc_mnc p, tai = tai p\<rparr> = (p :: PartialTrackingAreaIdentityList)"
  by (cases p) simp

lemma partial_list_dreads:
  assumes "partial_list_valid p"
  shows "dreads decode_partial_list (partial_list_octets p) p"
proof -
  from assms consider
      (zero) "typeOfList p = 0" "one_plmn_valid p" "tais_run 0 (ucast (mnc (hd (mcc_mnc p)) AND 0x00FF)) (tai p)"
    | (one) "typeOfList p = 1" "consecutive_valid p"
    | (two) "typeOfList p = 2" "different_plmns_valid p"
    by (auto simp: partial_list_valid_def)
  then show ?thesis
  proof cases
    case zero
    then have n: "numberOfElements p < 32" and m: "[hd (mcc_mnc p)] = mcc_mnc p"
      by (simp_all add: one_plmn_valid_def singleton_hd)
    have "partial_list_octets p = one_plmn_octets 0 p" using zero(1) by (simp add: partial_list_octets_def)
    then show ?thesis
      unfolding dreads_def decode_partial_list_def using record_partial_list [of p] zero(1)
      by (simp only: one_plmn_reads(1-3) [OF zero(2) disjI1 [OF refl]]
          one_plmn_reads(4) [OF zero(2) disjI1 [OF refl] zero(3)] Let_def bind.bind_lunit
          partial_octet_kinds [OF n disjI1 [OF refl]] m prod.case) simp
  next
    case one
    then have n: "numberOfElements p < 32" and m: "[hd (mcc_mnc p)] = mcc_mnc p" "[hd (tai p)] = tai p"
      by (simp_all add: consecutive_valid_def singleton_hd)
    have "partial_list_octets p = consecutive_octets 0 p" using one(1) by (simp add: partial_list_octets_def)
    then show ?thesis
      unfolding dreads_def decode_partial_list_def using record_partial_list [of p] one(1)
      by (simp only: consecutive_reads [OF one(2)] Let_def bind.bind_lunit
          partial_octet_kinds [OF n disjI1 [OF refl]] m prod.case) simp
  next
    case two
    then have n: "numberOfElements p < 32" by (simp add: different_plmns_valid_def)
    have "partial_list_octets p = different_plmns_octets 0 p" using two(1) by (simp add: partial_list_octets_def)
    then show ?thesis
      unfolding dreads_def decode_partial_list_def using record_partial_list [of p] two(1)
      by (simp only: different_plmns_reads [OF two(2)] Let_def bind.bind_lunit
          partial_octet_kinds [OF n disjI1 [OF refl]] prod.case) simp
  qed
qed

lemma partial_list_emits: "partial_list_valid p \<Longrightarrow> emits e (partial_list_cmds p) (partial_list_octets p)"
  unfolding partial_list_valid_def partial_list_cmds_def partial_list_octets_def Let_def
  by (elim disjE conjE) (simp_all add: one_plmn_emits consecutive_emits different_plmns_emits)

lemma partial_list_nonempty: "partial_list_valid p \<Longrightarrow> partial_list_octets p \<noteq> []"
  unfolding partial_list_valid_def partial_list_octets_def
  by (auto simp: one_plmn_octets_def consecutive_octets_def different_plmns_octets_def)

interpretation tai_list: roomy_ie_codec tai_list_wire "\<lambda>x iei. 0 < iei \<and> tai_list_valid x"
  decode__5gs_tracking_area_identity_list "\<lambda>_ x. x" encode__5gs_tracking_area_identity_list 9
proof (unfold_locales, goal_cases)
  case (1 x iei x0)
  let ?ps = "partialTrackingAreaIdentityList x"
  from 1 have v: "list_all partial_list_valid ?ps" "?ps \<noteq> []" "tai_listSize x = int (length ?ps)"
    and l: "length (concat (map partial_list_octets ?ps)) < 256" by (simp_all add: tai_list_valid_def)
  have loop: "decode_tai_loop (pre @ concat (map partial_list_octets ?ps) @ rest) len
      (of_nat (length (concat (map partial_list_octets ?ps)))) (length pre)
      = Some (?ps, length pre + length (concat (map partial_list_octets ?ps)))"
    if "length pre = 2" and "length pre + length (concat (map partial_list_octets ?ps)) \<le> unat len" for pre rest len
    using tai_loop.loop_reads [of ?ps partial_list_octets "\<lambda>p. p" pre _ len rest] v(1) that l
    by (simp add: list_all_iff partial_list_dreads partial_list_nonempty unat_len_u8 add.commute)
  show ?case
    unfolding decode__5gs_tracking_area_identity_list_def tai_list_wire_def
  proof (rule tlv_decodes_at [OF l])
    fix pre rest :: mem and len :: u32
    assume "length pre = length (iei_wire iei) + 1" and "length pre + length (concat (map partial_list_octets ?ps)) \<le> unat len"
    then show "decode_tai_loop (pre @ concat (map partial_list_octets ?ps) @ rest) len
          (of_nat (length (concat (map partial_list_octets ?ps)))) (length pre) \<bind>
        (\<lambda>(ps, decoded). Some (int decoded,
            x0\<lparr>tai_listSize := int (length ps),
               partialTrackingAreaIdentityList := if ps = [] then partialTrackingAreaIdentityList x0 else ps\<rparr>))
        = Some (int (length pre + length (concat (map partial_list_octets ?ps))), x)"
      using loop [of pre len rest] 1 v by (simp add: length_iei_wire)
  qed
next
  case (2 x iei)
  then have v: "list_all partial_list_valid (partialTrackingAreaIdentityList x)"
    and n: "nat (tai_listSize x) = length (partialTrackingAreaIdentityList x)" by (simp_all add: tai_list_valid_def)
  show ?case
    unfolding encode__5gs_tracking_area_identity_list_def tai_list_wire_def n take_all [OF order_refl]
    using v by (intro tlv_encodes emits_concat partial_list_emits) (simp add: list_all_iff)
qed

subsection \<open>Service area list\<close>

record PartialServiceAreaList = PartialTrackingAreaIdentityList +
  is_allowed :: bool

record ServiceAreaList =
  service_listSize :: int
  partialServiceAreaList :: "PartialServiceAreaList list"

definition all_tais_cmds :: "u8 \<Rightarrow> 'a PartialTrackingAreaIdentityList_scheme \<Rightarrow> ecmd list" where
  "all_tais_cmds flag p =
     ENCODE_U8 (flag OR (numberOfElements p AND 0x1f) OR 0x60) # first_cmds plmn_cmds (mcc_mnc p)"

definition service_list_cmds :: "PartialServiceAreaList \<Rightarrow> ecmd list" where
  "service_list_cmds p =
     (let t = typeOfList p AND 0x03; flag = (if is_allowed p then 0x80 else 0x00)
      in if t = 0x00 then one_plmn_cmds flag p
         else if t = 0x01 then consecutive_cmds flag p
         else if t = 0x02 then different_plmns_cmds flag p
         else all_tais_cmds flag p)"

definition encode_service_area_list :: "ServiceAreaList \<Rightarrow> u8 \<Rightarrow> encoder" where
  "encode_service_area_list x iei =
     tlv_encoder 9 iei (concat (map service_list_cmds (take (nat (service_listSize x)) (partialServiceAreaList x))))"

text \<open>
  \<open>if (((octet & 0x80) >> 8) == 0x01) is_allowed = true; else is_allowed = true;\<close> and the types \<open>0x10\<close> and
  \<open>0x11\<close> for \<open>0b10\<close> and \<open>0b11\<close> are the code's.
\<close>

definition decode_service_list :: "mem \<Rightarrow> nat \<Rightarrow> (PartialServiceAreaList \<times> nat) option" where
  "decode_service_list buffer decoded = do {
     octet \<leftarrow> DECODE_U8 buffer decoded;
     let allowed = (if drop_bit 8 (octet AND 0x80) = 0x01 then True else True);
     let t = drop_bit 5 (octet AND 0x60);
     let n = octet AND 0x1f;
     if t = 0x00 then do {
       (m, d) \<leftarrow> read_plmn buffer (decoded + 1);
       (ts, d) \<leftarrow> decode_array read_tai buffer (unat n) d;
       Some (\<lparr>typeOfList = 0x00, numberOfElements = n, mcc_mnc = [m], tai = ts, is_allowed = allowed\<rparr>, d) }
     else if t = 0x01 then do {
       (m, d) \<leftarrow> read_plmn buffer (decoded + 1);
       (t, d) \<leftarrow> read_tai buffer d;
       Some (\<lparr>typeOfList = 0x01, numberOfElements = n, mcc_mnc = [m], tai = [t], is_allowed = allowed\<rparr>, d) }
     else if t = 0x02 then do {
       (mts, d) \<leftarrow> decode_array read_network_area buffer (unat n) (decoded + 1);
       Some (\<lparr>typeOfList = 0x10, numberOfElements = n, mcc_mnc = map fst mts, tai = map snd mts,
              is_allowed = allowed\<rparr>, d) }
     else do {
       (m, d) \<leftarrow> read_plmn buffer (decoded + 1);
       Some (\<lparr>typeOfList = 0x11, numberOfElements = n, mcc_mnc = [m], tai = [], is_allowed = allowed\<rparr>, d) } }"

lemma decode_service_list_inside: "decode_service_list b d = Some r \<Longrightarrow> d < length b"
  by (cases "d < length b") (auto simp: decode_service_list_def DECODE_U8_def)

lemma decode_service_list_less:
  assumes r: "decode_service_list b d = Some (p, d')"
  shows "d < d'"
proof -
  from r obtain octet where "DECODE_U8 b d = Some octet"
    by (auto simp: decode_service_list_def split: bind_splits)
  note r = r [unfolded decode_service_list_def Let_def this, simplified]
  have arrays: "decode_array read_network_area b k d = Some (mts, d') \<Longrightarrow> d \<le> d'"
    "decode_array read_tai b k d = Some (ts, d') \<Longrightarrow> d \<le> d'" for k mts ts d d'
    by (erule decode_array_le [where dec = read_network_area, rotated], erule read_network_area_end)
      (erule decode_array_le [where dec = read_tai, rotated], drule read_tai_end, simp)
  show ?thesis
    using r by (auto split: if_splits bind_splits dest!: read_plmn_end read_tai_end arrays)
qed

function decode_service_loop :: "mem \<Rightarrow> u32 \<Rightarrow> u8 \<Rightarrow> nat \<Rightarrow> (PartialServiceAreaList list \<times> nat) option" where
  "decode_service_loop buffer len ielen decoded =
     (if len - of_nat decoded = 0 \<or> unat ielen + 2 = decoded then Some ([], decoded)
      else do {
        (p, decoded) \<leftarrow> decode_service_list buffer decoded;
        (ps, decoded) \<leftarrow> decode_service_loop buffer len ielen decoded;
        Some (p # ps, decoded) })"
  by pat_completeness auto

termination
proof (relation "measure (\<lambda>(b, len, ielen, d). length b - d)", goal_cases)
  case 1
  then show ?case by simp
next
  case (2 b len ielen d r p d')
  then show ?case using decode_service_list_less [of b d p d'] decode_service_list_inside [of b d "(p, d')"] by simp
qed

declare decode_service_loop.simps [simp del]

interpretation service_loop: area_loop decode_service_list decode_service_loop
  by unfold_locales (rule decode_service_loop.simps, blast dest: decode_service_list_less decode_service_list_inside)

definition decode_service_area_list :: "ServiceAreaList \<Rightarrow> u8 \<Rightarrow> mem \<Rightarrow> u32 \<Rightarrow> (int \<times> ServiceAreaList) option" where
  "decode_service_area_list x iei buffer len =
     tlv_decoder iei buffer len x (\<lambda>ielen decoded. do {
       (ps, decoded) \<leftarrow> decode_service_loop buffer len ielen decoded;
       Some (int decoded,
         x\<lparr>service_listSize := int (length ps),
           partialServiceAreaList := if ps = [] then partialServiceAreaList x else ps\<rparr>) })"

definition service_list_octets :: "PartialServiceAreaList \<Rightarrow> u8 list" where
  "service_list_octets p =
     (let t = typeOfList p AND 0x03; flag = (if is_allowed p then 0x80 else 0x00)
      in if t = 0x00 then one_plmn_octets flag p
         else if t = 0x01 then consecutive_octets flag p
         else if t = 0x02 then different_plmns_octets flag p
         else (flag OR (numberOfElements p AND 0x1f) OR 0x60) # plmn_octets (hd (mcc_mnc p)))"

definition all_tais_valid :: "'a PartialTrackingAreaIdentityList_scheme \<Rightarrow> bool" where
  "all_tais_valid p \<longleftrightarrow>
     numberOfElements p < 32 \<and> length (mcc_mnc p) = 1 \<and> plmn_valid (hd (mcc_mnc p)) \<and> tai p = []"

definition service_list_valid :: "PartialServiceAreaList \<Rightarrow> bool" where
  "service_list_valid p \<longleftrightarrow>
     typeOfList p = 0x00 \<and> one_plmn_valid p \<or> typeOfList p = 0x01 \<and> consecutive_valid p \<or>
     typeOfList p = 0x02 \<and> different_plmns_valid p \<or> typeOfList p = 0x03 \<and> all_tais_valid p"

text \<open>What decoding makes of it: always an allowed area, and the types in binary read as hexadecimal.\<close>

definition service_list_seen :: "PartialServiceAreaList \<Rightarrow> PartialServiceAreaList" where
  "service_list_seen p =
     p\<lparr>typeOfList := if typeOfList p = 0x02 then 0x10 else if typeOfList p = 0x03 then 0x11 else typeOfList p,
       is_allowed := True\<rparr>"

definition service_area_wire :: "ServiceAreaList \<Rightarrow> u8 \<Rightarrow> u8 list" where
  [tlv_wires]: "service_area_wire x = tlv_wire (concat (map service_list_octets (partialServiceAreaList x)))"

definition service_area_valid :: "ServiceAreaList \<Rightarrow> bool" where
  "service_area_valid x \<longleftrightarrow>
     service_listSize x = int (length (partialServiceAreaList x)) \<and>
     partialServiceAreaList x \<noteq> [] \<and> list_all service_list_valid (partialServiceAreaList x) \<and>
     length (concat (map service_list_octets (partialServiceAreaList x))) < 256"

definition service_area_seen :: "ServiceAreaList \<Rightarrow> ServiceAreaList" where
  "service_area_seen x = x\<lparr>partialServiceAreaList := map service_list_seen (partialServiceAreaList x)\<rparr>"

lemma service_list_emits: "service_list_valid p \<Longrightarrow> emits e (service_list_cmds p) (service_list_octets p)"
  unfolding service_list_valid_def service_list_cmds_def service_list_octets_def Let_def
  by (elim disjE conjE)
    (auto simp: one_plmn_emits consecutive_emits different_plmns_emits all_tais_cmds_def all_tais_valid_def
      first_cmds_one intro!: emits_octet plmn_emits)

lemma service_list_nonempty: "service_list_valid p \<Longrightarrow> service_list_octets p \<noteq> []"
  unfolding service_list_valid_def service_list_octets_def Let_def
  by (auto simp: one_plmn_octets_def consecutive_octets_def different_plmns_octets_def)

lemma record_service_list:
  "\<lparr>typeOfList = t, numberOfElements = numberOfElements p, mcc_mnc = mcc_mnc p, tai = tai p, is_allowed = a\<rparr>
    = p\<lparr>typeOfList := t, is_allowed := a\<rparr>"
  by (cases p) simp

lemma all_tais_reads:
  fixes p :: "'a PartialTrackingAreaIdentityList_scheme" and flag :: u8
  assumes "all_tais_valid p"
  defines "bs \<equiv> (flag OR (numberOfElements p AND 0x1f) OR 0x60) # plmn_octets (hd (mcc_mnc p))"
  shows "DECODE_U8 (pre @ bs @ rest) (length pre) = Some (flag OR (numberOfElements p AND 0x1f) OR 0x60)"
    and "read_plmn (pre @ bs @ rest) (length pre + 1) = Some (hd (mcc_mnc p), length pre + 4)"
proof -
  have v: "plmn_valid (hd (mcc_mnc p))" using assms(1) by (simp add: all_tais_valid_def)
  show "DECODE_U8 (pre @ bs @ rest) (length pre) = Some (flag OR (numberOfElements p AND 0x1f) OR 0x60)"
    by (simp add: bs_def)
  show "read_plmn (pre @ bs @ rest) (length pre + 1) = Some (hd (mcc_mnc p), length pre + 4)"
    using read_after_octet(1) [OF v, of pre _ "[]" rest] by (simp add: bs_def)
qed

lemma service_list_dreads:
  assumes "service_list_valid p"
  shows "dreads decode_service_list (service_list_octets p) (service_list_seen p)"
proof -
  define flag :: u8 where "flag = (if is_allowed p then 0x80 else 0x00)"
  then have f: "flag = 0 \<or> flag = 0x80" by simp
  from assms consider (zero) "typeOfList p = 0" "one_plmn_valid p" | (one) "typeOfList p = 1" "consecutive_valid p"
    | (two) "typeOfList p = 2" "different_plmns_valid p" | (three) "typeOfList p = 3" "all_tais_valid p"
    by (auto simp: service_list_valid_def)
  then show ?thesis
  proof cases
    case zero
    then have n: "numberOfElements p < 32" and m: "[hd (mcc_mnc p)] = mcc_mnc p"
      by (simp_all add: one_plmn_valid_def singleton_hd)
    have "service_list_octets p = one_plmn_octets flag p" "service_list_seen p = p\<lparr>typeOfList := 0, is_allowed := True\<rparr>"
      using zero(1) by (simp_all add: service_list_octets_def service_list_seen_def flag_def)
    then show ?thesis
      unfolding dreads_def decode_service_list_def
      by (simp only: one_plmn_reads(1,2,5) [OF zero(2) f] Let_def bind.bind_lunit
          partial_octet_kinds [OF n f] m prod.case record_service_list) simp
  next
    case one
    then have n: "numberOfElements p < 32" and m: "[hd (mcc_mnc p)] = mcc_mnc p" "[hd (tai p)] = tai p"
      by (simp_all add: consecutive_valid_def singleton_hd)
    have "service_list_octets p = consecutive_octets flag p" "service_list_seen p = p\<lparr>typeOfList := 1, is_allowed := True\<rparr>"
      using one(1) by (simp_all add: service_list_octets_def service_list_seen_def flag_def)
    then show ?thesis
      unfolding dreads_def decode_service_list_def
      by (simp only: consecutive_reads [OF one(2)] Let_def bind.bind_lunit
          partial_octet_kinds [OF n f] m prod.case record_service_list) simp
  next
    case two
    then have n: "numberOfElements p < 32" by (simp add: different_plmns_valid_def)
    have "service_list_octets p = different_plmns_octets flag p"
      "service_list_seen p = p\<lparr>typeOfList := 0x10, is_allowed := True\<rparr>"
      using two(1) by (simp_all add: service_list_octets_def service_list_seen_def flag_def)
    then show ?thesis
      unfolding dreads_def decode_service_list_def
      by (simp only: different_plmns_reads [OF two(2)] Let_def bind.bind_lunit
          partial_octet_kinds [OF n f] prod.case record_service_list) simp
  next
    case three
    then have n: "numberOfElements p < 32" and m: "[hd (mcc_mnc p)] = mcc_mnc p" and t: "tai p = []"
      by (simp_all add: all_tais_valid_def singleton_hd)
    have "service_list_octets p = (flag OR (numberOfElements p AND 0x1f) OR 0x60) # plmn_octets (hd (mcc_mnc p))"
      "service_list_seen p = p\<lparr>typeOfList := 0x11, is_allowed := True\<rparr>"
      using three(1) by (simp_all add: service_list_octets_def service_list_seen_def flag_def)
    then show ?thesis
      unfolding dreads_def decode_service_list_def
      by (simp only: all_tais_reads [OF three(2)] Let_def bind.bind_lunit
          partial_octet_kinds [OF n f] m prod.case t [symmetric] record_service_list) simp
  qed
qed

interpretation service_area: roomy_ie_codec service_area_wire "\<lambda>x iei. 0 < iei \<and> service_area_valid x"
  decode_service_area_list "\<lambda>_ x. service_area_seen x" encode_service_area_list 9
proof (unfold_locales, goal_cases)
  case (1 x iei x0)
  let ?ps = "partialServiceAreaList x" and ?seen = "map service_list_seen (partialServiceAreaList x)"
  from 1 have v: "list_all service_list_valid ?ps" "?ps \<noteq> []" "service_listSize x = int (length ?ps)"
    and l: "length (concat (map service_list_octets ?ps)) < 256" by (simp_all add: service_area_valid_def)
  have loop: "decode_service_loop (pre @ concat (map service_list_octets ?ps) @ rest) len
      (of_nat (length (concat (map service_list_octets ?ps)))) (length pre)
      = Some (?seen, length pre + length (concat (map service_list_octets ?ps)))"
    if "length pre = 2" and "length pre + length (concat (map service_list_octets ?ps)) \<le> unat len" for pre rest len
    using service_loop.loop_reads [of ?ps service_list_octets service_list_seen pre _ len rest] v(1) that l
    by (simp add: list_all_iff service_list_dreads service_list_nonempty unat_len_u8 add.commute)
  show ?case
    unfolding decode_service_area_list_def service_area_wire_def
  proof (rule tlv_decodes_at [OF l])
    fix pre rest :: mem and len :: u32
    assume "length pre = length (iei_wire iei) + 1" and "length pre + length (concat (map service_list_octets ?ps)) \<le> unat len"
    then show "decode_service_loop (pre @ concat (map service_list_octets ?ps) @ rest) len
          (of_nat (length (concat (map service_list_octets ?ps)))) (length pre) \<bind>
        (\<lambda>(ps, decoded). Some (int decoded,
            x0\<lparr>service_listSize := int (length ps),
               partialServiceAreaList := if ps = [] then partialServiceAreaList x0 else ps\<rparr>))
        = Some (int (length pre + length (concat (map service_list_octets ?ps))), service_area_seen x)"
      using loop [of pre len rest] 1 v by (simp add: length_iei_wire service_area_seen_def)
  qed
next
  case (2 x iei)
  then have v: "list_all service_list_valid (partialServiceAreaList x)"
    and n: "nat (service_listSize x) = length (partialServiceAreaList x)" by (simp_all add: service_area_valid_def)
  show ?case
    unfolding encode_service_area_list_def service_area_wire_def n take_all [OF order_refl]
    using v by (intro tlv_encodes emits_concat service_list_emits) (simp add: list_all_iff)
qed

subsection \<open>What any octets decode to\<close>

text \<open>
  A partial list as the decoder builds it: networks of digits, fewer than 32 elements, and for the types 1 and 2 as
  many networks and areas as they call for. A list of type 0 is either the empty one that stands for a type the
  decoder does not know, or has one network and the areas of a \<open>tais_run\<close>: the loop ends where the bound it takes
  from the octets it reads, first the last octet of the network and then the first one of each area, is
  reached. Nothing ties the number of these areas to \<open>numberOfElements\<close>.
\<close>

definition partial_list_wf :: "PartialTrackingAreaIdentityList \<Rightarrow> bool" where
  "partial_list_wf p \<longleftrightarrow>
     numberOfElements p < 32 \<and> list_all plmn_valid (mcc_mnc p) \<and>
     (typeOfList p = 0x00 \<and> numberOfElements p = 0 \<and> mcc_mnc p = [] \<and> tai p = [] \<or>
      typeOfList p = 0x00 \<and> length (mcc_mnc p) = 1 \<and> length (tai p) \<le> 31 \<and>
        tais_run 0 (ucast (mnc (hd (mcc_mnc p)) AND 0x00FF)) (tai p) \<or>
      typeOfList p = 0x01 \<and> length (mcc_mnc p) = 1 \<and> length (tai p) = 1 \<or>
      typeOfList p = 0x02 \<and> length (mcc_mnc p) = unat (numberOfElements p) \<and> length (tai p) = unat (numberOfElements p))"

lemma read_plmn_valid: "read_plmn b d = Some (m, d') \<Longrightarrow> plmn_valid m"
proof -
  have digits: "take_bit 12 (ucast u) = (ucast u :: u16)"
    "take_bit 12 (push_bit 8 (ucast (u AND 0x0F))) = (push_bit 8 (ucast (u AND 0x0F)) :: u16)"
    "take_bit 12 (push_bit 4 (ucast (u AND 0xF0))) = (push_bit 4 (ucast (u AND 0xF0)) :: u16)" for u :: u8
    unfolding octet_masks by (rule bit_word_eqI; auto simp: bit_simps dest: bit_imp_le_length)+
  assume "read_plmn b d = Some (m, d')"
  then show ?thesis
    by (auto simp: read_plmn_def Let_def plmn_valid_def digits split: bind_splits)
qed

lemma read_plmn_last:
  "read_plmn b d = Some (m, d') \<Longrightarrow> DECODE_U8 b (d + 2) = Some (ucast (mnc m AND 0x00FF))"
proof -
  have low_octet: "(0x00FF :: u16) = mask 8" by (simp add: mask_eq_exp_minus_1)
  have low: "ucast ((push_bit 4 (ucast (u AND 0xF0)) OR ucast v) AND 0x00FF :: u16) = v" for u v :: u8
    unfolding octet_masks low_octet by (rule bit_word_eqI) (auto simp: bit_simps dest: bit_imp_le_length)
  show "read_plmn b d = Some (m, d') \<Longrightarrow> ?thesis"
    by (auto simp: read_plmn_def Let_def low split: bind_splits)
qed

lemma read_tais_while_run: "read_tais_while b i octet d = Some (ts, d') \<Longrightarrow> tais_run i octet ts"
proof (induction b i octet d arbitrary: ts d' rule: read_tais_while.induct)
  case (1 b i octet d)
  note unfolded = 1(2) [unfolded read_tais_while.simps [of b i octet d]]
  show ?case
  proof (cases "i < unat (octet AND 0x1f)")
    case True
    with unfolded obtain t d1 ts1 where t: "read_tai b d = Some (t, d1)"
      and r: "read_tais_while b (i + 1) (tac t) d1 = Some (ts1, d')" and ts: "ts = t # ts1"
      by (auto split: bind_splits)
    from 1(1) [OF True t refl r] True show ?thesis by (simp add: ts)
  qed (use unfolded in simp)
qed

lemma read_tais_while_length: "read_tais_while b i octet d = Some (ts, d') \<Longrightarrow> i \<le> 31 \<Longrightarrow> i + length ts \<le> 31"
proof (induction b i octet d arbitrary: ts d' rule: read_tais_while.induct)
  case (1 b i octet d)
  note unfolded = 1(2) [unfolded read_tais_while.simps [of b i octet d]]
  show ?case
  proof (cases "i < unat (octet AND 0x1f)")
    case True
    with unfolded obtain t d1 ts1 where t: "read_tai b d = Some (t, d1)"
      and r: "read_tais_while b (i + 1) (tac t) d1 = Some (ts1, d')" and ts: "ts = t # ts1"
      by (auto split: bind_splits)
    have "i + 1 + length ts1 \<le> 31" using True elements_le [of octet] by (intro 1(1) [OF True t refl r]) simp
    then show ?thesis by (simp add: ts)
  qed (use unfolded 1(3) in simp)
qed

lemma read_network_area_valid: "read_network_area b d = Some (mt, d') \<Longrightarrow> plmn_valid (fst mt)"
  by (auto simp: read_network_area_def split: bind_splits) (erule read_plmn_valid)

lemma decode_array_all:
  assumes "decode_array dec b n d = Some (xs, d')" and "\<And>d x d'. dec b d = Some (x, d') \<Longrightarrow> P x"
  shows "length xs = n \<and> list_all P xs"
  using assms(1) by (induction n arbitrary: d xs) (auto split: bind_splits, erule assms(2))

lemma elements_less: "x AND 0x1f < (32 :: u8)"
  using elements_le [of x] by (simp add: word_less_nat_alt)

lemma decode_partial_list_wf:
  assumes r: "decode_partial_list buffer d = Some (p, d')"
  shows "partial_list_wf p"
proof -
  from r obtain octet where "DECODE_U8 buffer d = Some octet"
    by (auto simp: decode_partial_list_def split: bind_splits)
  note r = r [unfolded decode_partial_list_def Let_def this, simplified]
  consider (zero) "drop_bit 5 (octet AND 0x60) = 0" | (one) "drop_bit 5 (octet AND 0x60) = 1"
    | (two) "drop_bit 5 (octet AND 0x60) = 2"
    | (other) "drop_bit 5 (octet AND 0x60) \<notin> {0, 1, 2}" by blast
  then show ?thesis
  proof cases
    case zero
    with r obtain m d1 last ts where m: "read_plmn buffer (d + 1) = Some (m, d1)"
      and last: "DECODE_U8 buffer (d + 3) = Some last" and ts: "read_tais_while buffer 0 last d1 = Some (ts, d')"
      and p: "p = \<lparr>typeOfList = 0x00, numberOfElements = octet AND 0x1f, mcc_mnc = [m], tai = ts\<rparr>"
      by (auto split: bind_splits)
    have "last = ucast (mnc m AND 0x00FF)" using read_plmn_last [OF m] last by (simp add: numeral_eq_Suc)
    with read_tais_while_run [OF ts] read_tais_while_length [OF ts] read_plmn_valid [OF m] show ?thesis
      by (simp add: p partial_list_wf_def elements_less)
  next
    case one
    with r show ?thesis
      by (auto simp: partial_list_wf_def elements_less split: bind_splits dest!: read_plmn_valid)
  next
    case two
    with r obtain mts where mts: "decode_array read_network_area buffer (unat (octet AND 0x1f)) (d + 1) = Some (mts, d')"
      and p: "p = \<lparr>typeOfList = 0x02, numberOfElements = octet AND 0x1f, mcc_mnc = map fst mts, tai = map snd mts\<rparr>"
      by (auto split: bind_splits)
    from decode_array_all [OF mts, of "\<lambda>mt. plmn_valid (fst mt)"] read_network_area_valid
    have "length mts = unat (octet AND 0x1f) \<and> list_all (\<lambda>mt. plmn_valid (fst mt)) mts" by blast
    then show ?thesis by (simp add: p partial_list_wf_def elements_less list_all_iff)
  next
    case other
    with r show ?thesis by (auto simp: partial_list_wf_def)
  qed
qed

lemma tlv_decoder_result:
  assumes "tlv_decoder iei b len x k = Some (r, y)"
  obtains "r < 0" "y = x" | ielen d where "k ielen d = Some (r, y)"
  using assms
  by (auto simp: tlv_decoder_def check_iei_def check_length_def Let_def split: if_splits option.splits bind_splits)

lemma decode_service_list_allowed: "decode_service_list b d = Some (p, d') \<Longrightarrow> is_allowed p"
  by (auto simp: decode_service_list_def Let_def split: if_splits bind_splits)

subsection \<open>Properties\<close>

text \<open>C21: Whatever octets it reads over a structure of the right type, the decoder of a list of tracking areas leaves
  the structure as it was, or only sets its count to zero when there are no contents, or counts and builds partial
  lists, each of which has networks of three four-bit digits and fewer than 32 elements, and: for a type 1 list one network and one area; for a type 2 list as many networks and as
  many areas as elements; for a type 0 list one network and the areas that the bound taken from the octets just
  read lets in, of which the last one ends the loop, and which need not be as many as the elements the list
  says (the error of the loop at line 171 of the file; the witness reads one area for two elements); for a type
  that the decoder does not know the empty list of type 0.\<close>

theorem decoded_tai_list_wf:
  assumes "decode__5gs_tracking_area_identity_list x iei b len = Some (r, y)"
    and "list_all partial_list_wf (partialTrackingAreaIdentityList x)"
  shows "list_all partial_list_wf (partialTrackingAreaIdentityList y) \<and>
    (y = x \<or> tai_listSize y = 0 \<and> partialTrackingAreaIdentityList y = partialTrackingAreaIdentityList x \<or>
     tai_listSize y = int (length (partialTrackingAreaIdentityList y)))"
  using assms(1) unfolding decode__5gs_tracking_area_identity_list_def
proof (cases rule: tlv_decoder_result)
  case 1
  with assms(2) show ?thesis by simp
next
  case (2 ielen d)
  then obtain ps d' where ps: "decode_tai_loop b len ielen d = Some (ps, d')"
    and y: "y = x\<lparr>tai_listSize := int (length ps),
      partialTrackingAreaIdentityList := if ps = [] then partialTrackingAreaIdentityList x else ps\<rparr>"
    by (auto split: bind_splits)
  from tai_loop.loop_all [OF _ ps, of partial_list_wf] decode_partial_list_wf have "list_all partial_list_wf ps" by blast
  with assms(2) show ?thesis by (simp add: y)
qed

theorem decoded_tai_list_wf_witness:
  "\<exists>r y. decode__5gs_tracking_area_identity_list \<lparr>tai_listSize = 0, partialTrackingAreaIdentityList = []\<rparr> 0x54
     [0x54, 7, 0x02, 0x02, 0xF8, 0x01, 0x00, 0xA0, 0x00] 9 = Some (r, y) \<and> r = 9 \<and>
   map (\<lambda>p. (typeOfList p, numberOfElements p, length (tai p))) (partialTrackingAreaIdentityList y) = [(0x00, 2, 1)] \<and>
   list_all partial_list_wf (partialTrackingAreaIdentityList y) \<and> tai_listSize y = 1"
proof -
  have "\<exists>y. decode__5gs_tracking_area_identity_list \<lparr>tai_listSize = 0, partialTrackingAreaIdentityList = []\<rparr> 0x54
       [0x54, 7, 0x02, 0x02, 0xF8, 0x01, 0x00, 0xA0, 0x00] 9 = Some (9, y) \<and>
     map (\<lambda>p. (typeOfList p, numberOfElements p, length (tai p))) (partialTrackingAreaIdentityList y) = [(0x00, 2, 1)]"
    by (simp add: decode__5gs_tracking_area_identity_list_def tlv_decoder_def check_iei_def check_length_def Let_def
        decode_tai_loop.simps decode_partial_list_def read_plmn_def read_tai_def read_tais_while.simps)
  then obtain y where y: "decode__5gs_tracking_area_identity_list \<lparr>tai_listSize = 0, partialTrackingAreaIdentityList = []\<rparr> 0x54
       [0x54, 7, 0x02, 0x02, 0xF8, 0x01, 0x00, 0xA0, 0x00] 9 = Some (9, y)"
    and areas: "map (\<lambda>p. (typeOfList p, numberOfElements p, length (tai p))) (partialTrackingAreaIdentityList y) = [(0x00, 2, 1)]"
    by (elim exE conjE)
  have "length (partialTrackingAreaIdentityList y) = 1" using arg_cong [OF areas, of length] by simp
  moreover have "list_all partial_list_wf (partialTrackingAreaIdentityList y) \<and> tai_listSize y = 1"
    using decoded_tai_list_wf [OF y] calculation by auto
  ultimately show ?thesis using y areas by (intro exI [of _ 9] exI [of _ y]) simp
qed

text \<open>C36: A restriction to a service area does not survive the codec: a valid list of which no part is allowed is
  encoded, read back, and every part of what is read is allowed.\<close>

theorem service_area_restriction_lost:
  assumes "service_area_valid x" and "list_all (\<lambda>p. \<not> is_allowed p) (partialServiceAreaList x)" and "0 < iei"
    and "9 \<le> unat len" and "length (service_area_wire x iei) \<le> unat len" and "unat len \<le> length b"
  shows "\<exists>n b' y. encode_service_area_list x iei len (Some b) = Some (n, b') \<and> decode_service_area_list x0 iei b' len = Some (n, y) \<and>
     length (partialServiceAreaList y) = length (partialServiceAreaList x) \<and>
     list_all is_allowed (partialServiceAreaList y) \<and> partialServiceAreaList y \<noteq> []"
proof -
  have "\<exists>n b'. encode_service_area_list x iei len (Some b) = Some (n, b') \<and> length b' = length b \<and>
      decode_service_area_list x0 iei b' len = Some (n, service_area_seen x)"
    by (rule service_area.roundtrip_with_room) (use assms in simp_all)
  moreover have "partialServiceAreaList x \<noteq> []" using assms(1) by (simp add: service_area_valid_def)
  ultimately show ?thesis by (auto simp: service_area_seen_def service_list_seen_def list_all_iff)
qed

theorem service_area_restriction_lost_witness:
  "\<exists>n b' y. encode_service_area_list \<lparr>service_listSize = 1, partialServiceAreaList =
       [\<lparr>typeOfList = 1, numberOfElements = 1, mcc_mnc = [\<lparr>mcc = 0x208, mnc = 0x093\<rparr>], tai = [\<lparr>tac = 0, tacContinued = 0xA000\<rparr>],
         is_allowed = False\<rparr>]\<rparr> 0x27 16 (Some (replicate 16 0)) = Some (n, b') \<and>
     decode_service_area_list \<lparr>service_listSize = 0, partialServiceAreaList = []\<rparr> 0x27 b' 16 = Some (n, y) \<and>
     length (partialServiceAreaList y) = length (partialServiceAreaList \<lparr>service_listSize = 1, partialServiceAreaList =
       [\<lparr>typeOfList = 1, numberOfElements = 1, mcc_mnc = [\<lparr>mcc = 0x208, mnc = 0x093\<rparr>], tai = [\<lparr>tac = 0, tacContinued = 0xA000\<rparr>],
         is_allowed = False\<rparr>]\<rparr>) \<and>
     list_all is_allowed (partialServiceAreaList y) \<and> partialServiceAreaList y \<noteq> []"
  by (rule service_area_restriction_lost)
    (simp_all add: service_area_valid_def service_list_valid_def consecutive_valid_def plmn_valid_def service_list_octets_def
      consecutive_octets_def tai_octets_def service_area_wire_def Let_def)

end
