(* ===== verification/IE_Mm_Var.thy ===== *)
theory IE_Mm_Var
  imports IE_Mm_Lists
begin

text \<open>
  The elements of mobility management with an octet string: \<open>ABBA.c\<close>, \<open>AuthenticationFailureParameter.c\<close>,
  \<open>AuthenticationParameterAUTN.c\<close>, \<open>AuthenticationResponseParameter.c\<close> and \<open>AuthenticationParameterRAND.c\<close>; the
  containers \<open>NASMessageContainer.c\<close>, \<open>EPSNASMessageContainer.c\<close> and \<open>PayloadContainer.c\<close>; and the error causes of
  \<open>PDUSessionReactivationResultErrorCause.c\<close> and the mobile identity \<open>_5GSMobileIdentity.c\<close>, of which the code
  writes and reads the length field only.
\<close>

subsection \<open>Length in one octet\<close>

text \<open>The bodies of four encoders and decoders, which differ in the names and the length they ask for.\<close>

definition bstring_encoder :: "nat \<Rightarrow> bstring \<Rightarrow> u8 \<Rightarrow> encoder" where
  "bstring_encoder minlen s iei = tlv_encoder minlen iei [call (encode_bstring s)]"

definition bstring_decoder :: "bstring \<Rightarrow> u8 \<Rightarrow> mem \<Rightarrow> u32 \<Rightarrow> (int \<times> bstring) option" where
  "bstring_decoder x iei buffer len =
     tlv_decoder iei buffer len x (\<lambda>ielen decoded. do {
       (decode_result, x) \<leftarrow> decode_bstring x (ucast ielen) (Some (drop decoded buffer)) (len - of_nat decoded);
       if decode_result < 0 then Some (decode_result, x)
       else Some (int decoded + decode_result, x) })"

definition encode_abba :: "bstring \<Rightarrow> u8 \<Rightarrow> encoder" where
  "encode_abba abba iei = bstring_encoder 3 abba iei"

definition decode_abba :: "bstring \<Rightarrow> u8 \<Rightarrow> mem \<Rightarrow> u32 \<Rightarrow> (int \<times> bstring) option" where
  "decode_abba x iei buffer len = bstring_decoder x iei buffer len"

definition encode_authentication_failure_parameter :: "bstring \<Rightarrow> u8 \<Rightarrow> encoder" where
  "encode_authentication_failure_parameter auts iei = bstring_encoder 16 auts iei"

definition decode_authentication_failure_parameter :: "bstring \<Rightarrow> u8 \<Rightarrow> mem \<Rightarrow> u32 \<Rightarrow> (int \<times> bstring) option" where
  "decode_authentication_failure_parameter x iei buffer len = bstring_decoder x iei buffer len"

definition encode_authentication_parameter_autn :: "bstring \<Rightarrow> u8 \<Rightarrow> encoder" where
  "encode_authentication_parameter_autn autn iei = bstring_encoder 18 autn iei"

definition decode_authentication_parameter_autn :: "bstring \<Rightarrow> u8 \<Rightarrow> mem \<Rightarrow> u32 \<Rightarrow> (int \<times> bstring) option" where
  "decode_authentication_parameter_autn x iei buffer len = bstring_decoder x iei buffer len"

definition encode_authentication_response_parameter :: "bstring \<Rightarrow> u8 \<Rightarrow> encoder" where
  "encode_authentication_response_parameter res iei = bstring_encoder 6 res iei"

definition decode_authentication_response_parameter :: "bstring \<Rightarrow> u8 \<Rightarrow> mem \<Rightarrow> u32 \<Rightarrow> (int \<times> bstring) option" where
  "decode_authentication_response_parameter x iei buffer len = bstring_decoder x iei buffer len"

definition bstring_wire :: "bstring \<Rightarrow> u8 \<Rightarrow> u8 list" where [tlv_wires]: "bstring_wire s = tlv_wire (bstr s)"

lemma bstring_encoder_from: "encodes_from m (bstring_encoder m s iei) (bstring_wire s iei)"
  unfolding bstring_encoder_def bstring_wire_def
  by (intro tlv_encodes emits_single emits_call encodes_bstring)

lemma bstring_decoder_decodes:
  assumes "length (bstr s) < 256"
  shows "decodes (\<lambda>b len. bstring_decoder x0 iei b len) (bstring_wire s iei) (Some (bstr s))"
  unfolding bstring_decoder_def bstring_wire_def
proof (rule tlv_decodes [OF assms])
  fix pre rest :: mem and len :: u32
  assume "length pre + length (bstr s) \<le> unat len"
  moreover have "unat (ucast (of_nat (length (bstr s)) :: u8) :: u16) = length (bstr s)"
    using assms by (simp add: unat_len_u8)
  ultimately have "decode_bstring x0 (ucast (of_nat (length (bstr s)) :: u8)) (Some (bstr s @ rest)) (len - of_nat (length pre))
      = Some (int (length (bstr s)), Some (bstr s))"
    by (intro bstring_read) simp_all
  then show "do { (decode_result, x) \<leftarrow> decode_bstring x0 (ucast (of_nat (length (bstr s)) :: u8))
          (Some (drop (length pre) (pre @ bstr s @ rest))) (len - of_nat (length pre));
        if decode_result < 0 then Some (decode_result, x) else Some (int (length pre) + decode_result, x) }
      = Some (int (length pre + length (bstr s)), Some (bstr s))"
    by simp
qed

interpretation abba: roomy_ie_codec bstring_wire "\<lambda>s _. length (bstr s) < 256" decode_abba "\<lambda>_ s. Some (bstr s)"
  encode_abba 3
  by unfold_locales (simp_all add: decode_abba_def encode_abba_def bstring_decoder_decodes bstring_encoder_from)

interpretation auts: roomy_ie_codec bstring_wire "\<lambda>s _. length (bstr s) < 256"
  decode_authentication_failure_parameter "\<lambda>_ s. Some (bstr s)" encode_authentication_failure_parameter 16
  by unfold_locales
    (simp_all add: decode_authentication_failure_parameter_def encode_authentication_failure_parameter_def
      bstring_decoder_decodes bstring_encoder_from)

interpretation autn: roomy_ie_codec bstring_wire "\<lambda>s _. length (bstr s) < 256"
  decode_authentication_parameter_autn "\<lambda>_ s. Some (bstr s)" encode_authentication_parameter_autn 18
  by unfold_locales
    (simp_all add: decode_authentication_parameter_autn_def encode_authentication_parameter_autn_def
      bstring_decoder_decodes bstring_encoder_from)

interpretation res: roomy_ie_codec bstring_wire "\<lambda>s _. length (bstr s) < 256"
  decode_authentication_response_parameter "\<lambda>_ s. Some (bstr s)" encode_authentication_response_parameter 6
  by unfold_locales
    (simp_all add: decode_authentication_response_parameter_def encode_authentication_response_parameter_def
      bstring_decoder_decodes bstring_encoder_from)

subsection \<open>Length in two octets\<close>

definition container_encoder :: "nat \<Rightarrow> bstring \<Rightarrow> u8 \<Rightarrow> encoder" where
  "container_encoder minlen s iei =
     encoder_body minlen
       [put_iei iei,
        with_lenptr 2 (\<lambda>lenPtr encoded. len16 (of_nat encoded - 2 - (if iei > 0 then 1 else 0)))
          [call (encode_bstring s)]]"

text \<open>As in \<open>decode_eap_message\<close> the length ends up in an octet.\<close>

definition container_decoder :: "bstring \<Rightarrow> u8 \<Rightarrow> mem \<Rightarrow> u32 \<Rightarrow> (int \<times> bstring) option" where
  "container_decoder x iei buffer len =
     check_iei iei buffer x (\<lambda>decoded. do {
       hi \<leftarrow> DECODE_U8 buffer decoded;
       lo \<leftarrow> DECODE_U8 buffer (decoded + 1);
       let decoded = decoded + 2;
       let ielen = (ucast (push_bit 8 (ucast hi) + ucast lo :: u32) :: u8);
       check_length (len - of_nat decoded) (ucast ielen) x (do {
         (decode_result, x) \<leftarrow>
           decode_bstring x (ucast ielen) (Some (drop decoded buffer)) (len - of_nat decoded);
         if decode_result < 0 then Some (decode_result, x)
         else Some (int decoded + decode_result, x) }) })"

definition encode_nas_message_container :: "bstring \<Rightarrow> u8 \<Rightarrow> encoder" where
  "encode_nas_message_container nasmessagecontainer iei = container_encoder 4 nasmessagecontainer iei"

definition decode_nas_message_container :: "bstring \<Rightarrow> u8 \<Rightarrow> mem \<Rightarrow> u32 \<Rightarrow> (int \<times> bstring) option" where
  "decode_nas_message_container x iei buffer len = container_decoder x iei buffer len"

definition encode_epsnas_message_container :: "bstring \<Rightarrow> u8 \<Rightarrow> encoder" where
  "encode_epsnas_message_container epsnasmessagecontainer iei = container_encoder 3 epsnasmessagecontainer iei"

definition decode_epsnas_message_container :: "bstring \<Rightarrow> u8 \<Rightarrow> mem \<Rightarrow> u32 \<Rightarrow> (int \<times> bstring) option" where
  "decode_epsnas_message_container x iei buffer len = container_decoder x iei buffer len"

definition encode_payload_container :: "bstring \<Rightarrow> u8 \<Rightarrow> encoder" where
  "encode_payload_container payloadcontainer iei = container_encoder 4 payloadcontainer iei"

definition decode_payload_container :: "bstring \<Rightarrow> u8 \<Rightarrow> mem \<Rightarrow> u32 \<Rightarrow> (int \<times> bstring) option" where
  "decode_payload_container x iei buffer len = container_decoder x iei buffer len"

lemma container_decoder_eap: "container_decoder = decode_eap_message"
  by (intro ext) (simp add: container_decoder_def decode_eap_message_def)

lemma container_encodes: "encodes_from m (container_encoder m s iei) (eap_wire s iei)"
proof -
  have "emits 0 [put_iei iei, with_lenptr 2 (\<lambda>lenPtr encoded. len16 (of_nat encoded - 2 - (if iei > 0 then 1 else 0)))
      [call (encode_bstring s)]]
    (iei_wire iei @ (len16 (of_nat (0 + length (iei_wire iei) + 2 + length (bstr s)) - 2 - (if iei > 0 then 1 else 0))
      @ bstr s) @ [])"
    by (intro emits_Cons emits_put_iei emits_with_lenptr emits_single emits_call encodes_bstring emits_Nil) simp
  moreover have "iei_wire iei @ (len16 (of_nat (0 + length (iei_wire iei) + 2 + length (bstr s)) - 2 - (if iei > 0 then 1 else 0))
      @ bstr s) @ [] = eap_wire s iei"
    by (simp add: eap_wire_def length_iei_wire)
  ultimately show ?thesis
    unfolding container_encoder_def by (intro encodes_from_body emits_from_emits) simp
qed

lemma container_decodes:
  "length (bstr s) < 256 \<Longrightarrow> decodes (\<lambda>b len. container_decoder x0 iei b len) (eap_wire s iei) (Some (bstr s))"
  using decode_eap_message_reads [of "bstr s" iei _ x0]
  by (auto simp: decodes_def container_decoder_eap) (simp add: eap_wire_def)

interpretation nas_container: roomy_ie_codec eap_wire "\<lambda>s _. length (bstr s) < 256" decode_nas_message_container
  "\<lambda>_ s. Some (bstr s)" encode_nas_message_container 4
  by unfold_locales
    (simp_all add: decode_nas_message_container_def encode_nas_message_container_def container_decodes container_encodes)

interpretation epsnas_container: roomy_ie_codec eap_wire "\<lambda>s _. length (bstr s) < 256" decode_epsnas_message_container
  "\<lambda>_ s. Some (bstr s)" encode_epsnas_message_container 3
  by unfold_locales
    (simp_all add: decode_epsnas_message_container_def encode_epsnas_message_container_def container_decodes container_encodes)

interpretation payload_container: roomy_ie_codec eap_wire "\<lambda>s _. length (bstr s) < 256" decode_payload_container
  "\<lambda>_ s. Some (bstr s)" encode_payload_container 4
  by unfold_locales
    (simp_all add: decode_payload_container_def encode_payload_container_def container_decodes container_encodes)

subsection \<open>The random challenge\<close>

text \<open>
  No length on the wire: the decoder takes 16 octets. \<open>encode_result\<close> is unsigned here, so that \<open>encode_result < 0\<close>
  never holds and an error code of \<open>encode_bstring\<close> is added to \<open>encoded\<close> like a length.
\<close>

definition encode_authentication_parameter_rand :: "bstring \<Rightarrow> u8 \<Rightarrow> encoder" where
  "encode_authentication_parameter_rand rand iei len p =
     (case p of
        None \<Rightarrow> Some (err TLV_BUFFER_NULL, [])
      | Some b \<Rightarrow>
          (if unat len < 17 then Some (err TLV_BUFFER_TOO_SHORT, b)
           else
             (case put_iei iei len b 0 of
                EUndef \<Rightarrow> None
              | EReturn r b \<Rightarrow> Some (r, b)
              | ENext b encoded \<Rightarrow>
                  (case encode_bstring rand (len - of_nat encoded) (Some (drop encoded b)) of
                     None \<Rightarrow> None
                   | Some (encode_result, b') \<Rightarrow>
                       Some (sint (of_nat encoded + of_int encode_result :: u32), take encoded b @ b')))))"

definition decode_authentication_parameter_rand :: "bstring \<Rightarrow> u8 \<Rightarrow> mem \<Rightarrow> u32 \<Rightarrow> (int \<times> bstring) option" where
  "decode_authentication_parameter_rand x iei buffer len =
     check_iei iei buffer x (\<lambda>decoded. do {
       (decode_result, x) \<leftarrow> decode_bstring x 16 (Some (drop decoded buffer)) (len - of_nat decoded);
       if decode_result < 0 then Some (decode_result, x)
       else Some (int decoded + decode_result, x) })"

definition rand_wire :: "bstring \<Rightarrow> u8 \<Rightarrow> u8 list" where
  "rand_wire s iei = iei_wire iei @ bstr s"

lemma rand_encodes:
  assumes "length (bstr s) = 16"
  shows "encodes_from 17 (encode_authentication_parameter_rand s iei) (rand_wire s iei)"
  unfolding encodes_from_def
proof (intro allI impI)
  fix len :: u32 and b :: mem
  assume l: "17 \<le> unat len" "length (rand_wire s iei) \<le> unat len" "unat len \<le> length b"
  let ?e = "length (iei_wire iei)"
  have e: "?e \<le> 1" by (simp add: length_iei_wire)
  have "exec [put_iei iei] len b 0 = ENext (overwrite b 0 (iei_wire iei)) (0 + ?e)"
    using emitsD [OF emits_single [OF emits_put_iei], of 0 iei len b] l e by simp
  then have put: "put_iei iei len b 0 = ENext (overwrite b 0 (iei_wire iei)) ?e"
    by (auto split: ectl.splits)
  have "unat (len - of_nat ?e) = unat len - ?e" using e l by (intro unat_u32_minus_of_nat) simp
  then have "encode_bstring s (len - of_nat ?e) (Some (drop ?e (overwrite b 0 (iei_wire iei))))
      = Some (int (length (bstr s)), overwrite (drop ?e (overwrite b 0 (iei_wire iei))) 0 (bstr s))"
    using l by (intro encodesD [OF encodes_bstring]) (simp_all add: rand_wire_def)
  moreover have "take ?e (overwrite b 0 (iei_wire iei)) @ overwrite (drop ?e (overwrite b 0 (iei_wire iei))) 0 (bstr s)
      = overwrite b 0 (rand_wire s iei)"
    using l by (subst overwrite_drop) (simp_all add: rand_wire_def overwrite_def add.commute)
  moreover have "sint (of_nat ?e + of_int (int (length (bstr s))) :: u32) = int (length (rand_wire s iei))"
  proof -
    have "unat (of_nat (?e + length (bstr s)) :: u32) = ?e + length (bstr s)"
      using e assms by (intro unat_u32_of_nat) simp
    moreover from this have "sint (of_nat (?e + length (bstr s)) :: u32) = int (unat (of_nat (?e + length (bstr s)) :: u32))"
      using e assms by (intro sint_small) linarith
    ultimately have "sint (of_nat (?e + length (bstr s)) :: u32) = int (?e + length (bstr s))" by (simp only:)
    then show ?thesis by (simp add: rand_wire_def)
  qed
  ultimately show "encode_authentication_parameter_rand s iei len (Some b)
      = Some (int (length (rand_wire s iei)), overwrite b 0 (rand_wire s iei))"
    using l put by (simp add: encode_authentication_parameter_rand_def)
qed

interpretation rand: roomy_ie_codec rand_wire "\<lambda>s _. length (bstr s) = 16" decode_authentication_parameter_rand
  "\<lambda>_ s. Some (bstr s)" encode_authentication_parameter_rand 17
proof (unfold_locales, goal_cases)
  case (1 s iei x0)
  show ?case
    unfolding decodes_def
  proof (intro allI impI)
    fix len :: u32 and rest :: mem
    assume "length (rand_wire s iei) \<le> unat len"
    then have "decode_bstring x0 16 (Some (bstr s @ rest)) (len - of_nat (length (iei_wire iei)))
        = Some (int (length (bstr s)), Some (bstr s))"
      using 1 by (intro bstring_read) (simp_all add: rand_wire_def)
    then show "decode_authentication_parameter_rand x0 iei (rand_wire s iei @ rest) len
        = Some (int (length (rand_wire s iei)), Some (bstr s))"
      by (simp add: decode_authentication_parameter_rand_def rand_wire_def)
  qed
qed (rule rand_encodes)

subsection \<open>Error causes of the reactivation of sessions\<close>

record PduSessionID_CauseValue =
  pduSessionID :: u8
  causeValue :: u8

record PDUSessionReactivationResultErrorCause =
  error_size :: u16
  error_element :: "PduSessionID_CauseValue list"

definition error_cmds :: "PduSessionID_CauseValue \<Rightarrow> ecmd list" where
  "error_cmds c = [ENCODE_U8 (pduSessionID c), ENCODE_U8 (causeValue c)]"

text \<open>Without elements the encoder returns before it has written the length.\<close>

definition encode_pdu_session_reactivation_result_error_cause ::
  "PDUSessionReactivationResultErrorCause \<Rightarrow> u8 \<Rightarrow> encoder" where
  "encode_pdu_session_reactivation_result_error_cause x iei =
     encoder_body 5
       (if error_element x = [] then [put_iei iei, \<lambda>len b e. ENext b (e + 2)]
        else
          [put_iei iei,
           with_lenptr 2 (\<lambda>lenPtr encoded. len16 (of_nat encoded - 1 - (if iei > 0 then 1 else 0)))
             (ENCODE_U16 (error_size x) #
              concat (map error_cmds (take (unat (error_size x)) (error_element x))))])"

definition read_error :: "mem \<Rightarrow> nat \<Rightarrow> (PduSessionID_CauseValue \<times> nat) option" where
  "read_error buffer decoded = do {
     a \<leftarrow> DECODE_U8 buffer decoded;
     c \<leftarrow> DECODE_U8 buffer (decoded + 1);
     Some (\<lparr>pduSessionID = a, causeValue = c\<rparr>, decoded + 2) }"

text \<open>The decoder skips the length and takes the following two octets for the number of pairs.\<close>

definition decode_pdu_session_reactivation_result_error_cause ::
  "PDUSessionReactivationResultErrorCause \<Rightarrow> u8 \<Rightarrow> mem \<Rightarrow> u32 \<Rightarrow>
   (int \<times> PDUSessionReactivationResultErrorCause) option" where
  "decode_pdu_session_reactivation_result_error_cause x iei buffer len =
     check_iei iei buffer x (\<lambda>decoded. do {
       let decoded = decoded + 2;
       ielen \<leftarrow> DECODE_U16 buffer decoded;
       let decoded = decoded + 2;
       check_length (len - of_nat decoded) (ucast ielen) x (do {
         (es, decoded) \<leftarrow> decode_array read_error buffer (unat ielen) decoded;
         Some (int decoded,
           x\<lparr>error_size := ielen, error_element := if es = [] then error_element x else es\<rparr>) }) })"

definition error_octets :: "PduSessionID_CauseValue \<Rightarrow> u8 list" where
  "error_octets c = [pduSessionID c, causeValue c]"

definition error_cause_valid :: "PDUSessionReactivationResultErrorCause \<Rightarrow> bool" where
  "error_cause_valid x \<longleftrightarrow> error_element x \<noteq> [] \<and> length (error_element x) = unat (error_size x)"

definition error_cause_wire :: "PDUSessionReactivationResultErrorCause \<Rightarrow> u8 \<Rightarrow> u8 list" where
  "error_cause_wire x iei =
     iei_wire iei @ len16 (of_nat (2 * length (error_element x)) + 3) @
     [hi8 (error_size x), lo8 (error_size x)] @ concat (map error_octets (error_element x))"

lemma length_errors [simp]: "length (concat (map error_octets es)) = 2 * length es"
  by (induction es) (simp_all add: error_octets_def)

lemma error_cause_encodes:
  assumes "error_cause_valid x"
  shows "encodes_from 5 (encode_pdu_session_reactivation_result_error_cause x iei) (error_cause_wire x iei)"
proof -
  let ?n = "length (error_element x)"
  have x: "error_element x \<noteq> []" "take (unat (error_size x)) (error_element x) = error_element x"
    using assms by (simp_all add: error_cause_valid_def)
  have "emits 0 [put_iei iei, with_lenptr 2 (\<lambda>lenPtr encoded. len16 (of_nat encoded - 1 - (if iei > 0 then 1 else 0)))
      (ENCODE_U16 (error_size x) # concat (map error_cmds (error_element x)))]
    (iei_wire iei @ (len16 (of_nat (0 + length (iei_wire iei) + 2 +
        length ([hi8 (error_size x), lo8 (error_size x)] @ concat (map error_octets (error_element x)))) - 1 -
        (if iei > 0 then 1 else 0)) @ [hi8 (error_size x), lo8 (error_size x)] @ concat (map error_octets (error_element x))) @ [])"
    unfolding error_cmds_def error_octets_def
    by (intro emits_Cons emits_put_iei emits_with_lenptr emits_U16 emits_concat emits_two emits_Nil) simp
  moreover have "iei_wire iei @ (len16 (of_nat (0 + length (iei_wire iei) + 2 +
        length ([hi8 (error_size x), lo8 (error_size x)] @ concat (map error_octets (error_element x)))) - 1 -
        (if iei > 0 then 1 else 0)) @ [hi8 (error_size x), lo8 (error_size x)] @ concat (map error_octets (error_element x))) @ []
      = error_cause_wire x iei"
    by (simp add: error_cause_wire_def length_iei_wire algebra_simps)
  ultimately show ?thesis
    unfolding encode_pdu_session_reactivation_result_error_cause_def x(2)
    using x(1) by (intro encodes_from_body emits_from_emits) simp
qed

interpretation error_cause: roomy_ie_codec error_cause_wire "\<lambda>x _. error_cause_valid x"
  decode_pdu_session_reactivation_result_error_cause "\<lambda>_ x. x" encode_pdu_session_reactivation_result_error_cause 5
proof (unfold_locales, goal_cases)
  case (1 x iei x0)
  then have n: "unat (error_size x) = length (error_element x)" and ne: "error_element x \<noteq> []"
    by (simp_all add: error_cause_valid_def)
  have one: "dreads read_error (error_octets c) c" for c
    by (cases c) (simp add: dreads_def read_error_def error_octets_def DECODE_U8_shift)
  have all: "dreads (\<lambda>b d. decode_array read_error b (length (error_element x)) d)
      (concat (map error_octets (error_element x))) (map (\<lambda>c. c) (error_element x))"
    by (intro dreads_array one)
  show ?case
    unfolding decodes_def
  proof (intro allI impI)
    fix len :: u32 and rest :: mem
    assume l: "length (error_cause_wire x iei) \<le> unat len"
    let ?l = "len16 (of_nat (2 * length (error_element x)) + 3)" and ?e = "concat (map error_octets (error_element x))"
      and ?h = "[hi8 (error_size x), lo8 (error_size x)]"
    let ?b = "iei_wire iei @ ?l @ ?h @ ?e @ rest" and ?i = "length (iei_wire iei)"
    have size: "DECODE_U16 ?b (?i + 2) = Some (error_size x)"
      using DECODE_U16_append0 [of "iei_wire iei @ ?l" "?h @ ?e @ rest"] by simp
    have arr: "decode_array read_error ?b (length (error_element x)) (?i + 4)
        = Some (error_element x, ?i + 4 + 2 * length (error_element x))"
      using dreadsD [OF all, of "iei_wire iei @ ?l @ ?h" rest] by (simp add: add.assoc)
    have fits: "check_length (len - of_nat (?i + 4)) (ucast (error_size x)) y k = k" for y :: PDUSessionReactivationResultErrorCause and k
      using l n by (intro check_length_ok) (simp add: error_cause_wire_def)
    show "decode_pdu_session_reactivation_result_error_cause x0 iei (error_cause_wire x iei @ rest) len
        = Some (int (length (error_cause_wire x iei)), x)"
      using size arr fits n ne
      by (simp add: decode_pdu_session_reactivation_result_error_cause_def error_cause_wire_def Let_def numeral_eq_Suc)
  qed
qed (rule error_cause_encodes)

subsection \<open>Mobile identity\<close>

record FiveGSMobileIdentity =
  IdentityType :: u8
  odd_even_indication :: u8
  guti_mcc :: u16
  guti_mnc :: u16
  amfRegionID :: u8
  amfSetID :: u16
  amfPointer :: u8
  fiveg_tmsi :: u32
  identity :: u8
  supi :: u8
  routingIndicator :: u8
  protectionSchemeID :: u8
  homeNetworkPublicKeyIdentifier :: u8
  msin :: u8

text \<open>
  The encoder leaves two octets for the length, the cases of its \<open>switch\<close> on the type of identity are empty, and
  the identifier is counted off the length though it is not written.
\<close>

definition encode__5gs_mobile_identity :: "FiveGSMobileIdentity \<Rightarrow> u8 \<Rightarrow> encoder" where
  "encode__5gs_mobile_identity x iei =
     encoder_body 4
       [with_lenptr 2 (\<lambda>lenPtr encoded. len16 (of_nat encoded - 1 - (if iei > 0 then 1 else 0))) []]"

definition decode__5gs_mobile_identity ::
  "FiveGSMobileIdentity \<Rightarrow> u8 \<Rightarrow> mem \<Rightarrow> u32 \<Rightarrow> (int \<times> FiveGSMobileIdentity) option" where
  "decode__5gs_mobile_identity x iei buffer len =
     check_iei iei buffer x (\<lambda>decoded. do {
       hi \<leftarrow> DECODE_U8 buffer decoded;
       lo \<leftarrow> DECODE_U8 buffer (decoded + 1);
       let decoded = decoded + 2;
       let ielen = (ucast (push_bit 8 (ucast hi) + ucast lo :: u32) :: u8);
       check_length (len - of_nat decoded) (ucast ielen) x (Some (int decoded, x)) })"

lemma mobile_identity_encodes: "encodes_from 4 (encode__5gs_mobile_identity x 0) [0, 1]"
proof -
  have "emits 0 [with_lenptr 2 (\<lambda>lenPtr encoded. len16 (of_nat encoded - 1 - (if 0 < (0 :: u8) then 1 else 0))) []]
      ((len16 (of_nat (0 + 2 + length ([] :: u8 list)) - 1 - (if 0 < (0 :: u8) then 1 else 0)) @ []) @ [])"
    by (intro emits_Cons emits_with_lenptr emits_Nil) simp
  then show ?thesis
    unfolding encode__5gs_mobile_identity_def
    by (intro encodes_from_body emits_from_emits) (simp add: len16_def)
qed

end
