(* ===== verification/MM_Common.thy ===== *)
theory MM_Common
  imports IE_Mm_Var SM_Common
begin

text \<open>
  What the mobility management messages share: the key set identifier in the upper half of an octet, the
  loops that go on only at the identifiers they know, the decoder without checks of the registration
  request, and the rules by which an encoder emits its elements (\<open>mm_emits\<close>, \<open>mm_emits_opt\<close>), the decoder
  reads the mandatory ones (\<open>mm_mreads\<close>) and a loop of the second kind the optional ones (\<open>mm_until\<close>), collected
  from the interpretations of the elements' interface.
\<close>

subsection \<open>Key set identifier in the upper half of an octet\<close>

text \<open>\<open>*(buffer + encoded) = ((encode_u8_nas_key_set_identifier(k) & 0x0f) << 4) | 0x00; encoded++;\<close>\<close>

definition put_ksi :: "NASKeySetIdentifier \<Rightarrow> ecmd" where
  "put_ksi k = store [push_bit 4 (encode_u8_nas_key_set_identifier k AND 0x0F) OR 0x00]"

text \<open>\<open>decode_u8_nas_key_set_identifier(&msg->naskeysetidentifier, 0, *(buffer + decoded) >> 4, len - decoded)\<close>\<close>

definition get_ksi :: "('m \<Rightarrow> NASKeySetIdentifier) \<Rightarrow> (NASKeySetIdentifier \<Rightarrow> 'm \<Rightarrow> 'm) \<Rightarrow> 'm dcmd" where
  "get_ksi get put b len m d =
     (case DECODE_U8 b d of
        None \<Rightarrow> DUndef
      | Some v \<Rightarrow>
          (case decode_u8_nas_key_set_identifier (get m) 0 (drop_bit 4 v) (len - of_nat d) of
             (r, k) \<Rightarrow> (if r < 0 then DReturn r (put k m) else DNext (put k m) (d + 1))))"

definition ksi_wire :: "NASKeySetIdentifier \<Rightarrow> u8 list" where
  "ksi_wire k = [push_bit 4 (key_set_bits k)]"

lemma encode_u8_key_set: "encode_u8_nas_key_set_identifier k = key_set_bits k"
  by (simp add: encode_u8_nas_key_set_identifier_def key_set_bits_def)

lemma put_ksi_emits: "emits_from room e [put_ksi k] (ksi_wire k)"
  unfolding put_ksi_def ksi_wire_def encode_u8_key_set key_set_low or.right_neutral
  by (intro emits_from_emits emits_single emits_store)

lemma ksi_read: "drop_bit 4 (push_bit 4 (key_set_bits k)) = key_set_bits k"
proof -
  have "drop_bit 4 (push_bit 4 v) = v AND (0x0F :: u8)" for v
    unfolding octet_masks by (rule bit_word_eqI) (auto simp: bit_simps dest: bit_imp_le_length)
  then show ?thesis by (simp add: key_set_low)
qed

lemma get_ksi_mreads: "mreads [get_ksi get put] (ksi_wire k) m (put k m)"
proof -
  have "decode_u8_nas_key_set_identifier x 0 (key_set_bits k) len = (1, k)" for x len
    using key_set_read [of k] by (simp add: decode_u8_nas_key_set_identifier_def)
  then show ?thesis by (simp add: mreads_def get_ksi_def ksi_wire_def DECODE_U8_def ksi_read)
qed

subsection \<open>Two other forms of decoder\<close>

text \<open>
  The authentication failure message tests its element with \<open><= 0\<close>, and the registration request tests
  neither its pointer nor its length; without a block its first read is undefined.
\<close>

definition dcall_positive :: "('f \<Rightarrow> mem \<Rightarrow> u32 \<Rightarrow> (int \<times> 'f) option) \<Rightarrow> ('m \<Rightarrow> 'f) \<Rightarrow> ('f \<Rightarrow> 'm \<Rightarrow> 'm)
    \<Rightarrow> ('m \<Rightarrow> 'm) \<Rightarrow> 'm dcmd" where
  "dcall_positive dec get put mark b len m d =
     (case dec (get m) (drop d b) (len - of_nat d) of
        None \<Rightarrow> DUndef
      | Some (r, f) \<Rightarrow>
          (if r \<le> 0 then DReturn r (put f m) else DNext (mark (put f m)) (d + nat r)))"

definition unchecked_decoder :: "'m dcmd list \<Rightarrow> 'm msg_decoder" where
  "unchecked_decoder mand m p len =
     (case p of
        None \<Rightarrow> Some Undefined
      | Some b \<Rightarrow>
          (case dseq mand b len m 0 of
             DUndef \<Rightarrow> Some Undefined
           | DReturn r m' \<Rightarrow> Some (Returned r m')
           | DNext m' d \<Rightarrow> Some (Returned (int d) m')))"

subsection \<open>Emitting and reading\<close>

lemma encodes_from_to: "emits_from m 0 cs bs \<Longrightarrow> bs = out \<Longrightarrow> encodes_from m (encoder_body m cs) out"
  by (auto intro: encodes_from_body)

lemma encodes_from_call: "encodes_from room enc bs \<Longrightarrow> e + room \<le> room' \<Longrightarrow> emits_from room' e [call enc] bs"
  by (rule emits_from_call)

text \<open>The loop that goes on only at an identifier it knows.\<close>

context ie_decoder
begin

lemma until_full:
  assumes sw: "switch full iei = dcall (\<lambda>f. dec f iei) get put mark"
    and half: "iei AND 0xF0 \<notin> set (map fst half)" and "iei \<noteq> 0" and go: "\<not> stop iei"
    and v: "present \<Longrightarrow> valid x iei" and w: "wire x iei = iei # tl (wire x iei)"
    and rest: "reads_until stop (ie_step half full) bs (when_present present (\<lambda>m. mark (put (seen (get m) x) m)) m) m'"
  shows "reads_until stop (ie_step half full) ((if present then wire x iei else []) @ bs) m m'"
proof (cases present)
  case True
  have "hd (wire x iei) = iei" by (subst w) simp
  with True go rest consumes_full [OF v [OF True] w assms(3) sw half, of m]
  show ?thesis by (auto simp: when_present_def intro: until_Cons)
next
  case False
  with rest show ?thesis by (simp add: when_present_def)
qed

text \<open>One element, with the test \<open><= 0\<close> of the authentication failure.\<close>

lemma dcall_positive_ie:
  assumes "valid x iei" and "wire x iei = iei # w" and "length pre + length (wire x iei) \<le> unat len"
  shows "dcall_positive (\<lambda>f. dec f iei) get put mark (pre @ wire x iei @ rest) len m (length pre)
       = DNext (mark (put (seen (get m) x) m)) (length pre + length (wire x iei))"
proof -
  have "unat (len - of_nat (length pre)) = unat len - length pre"
    using assms(3) by (intro unat_u32_minus_of_nat) simp
  with assms(3) have "dec (get m) iei (wire x iei @ rest) (len - of_nat (length pre)) = Some (int (length (wire x iei)), seen (get m) x)"
    by (intro decodesD [OF dec_decodes [OF assms(1)]]) auto
  then show ?thesis by (simp add: dcall_positive_def assms(2))
qed

lemma reads_positive:
  assumes sw: "switch full iei = dcall_positive (\<lambda>f. dec f iei) get put mark"
    and half: "iei AND 0xF0 \<notin> set (map fst half)" and "iei \<noteq> 0"
    and v: "present \<Longrightarrow> valid x iei" and w: "wire x iei = iei # tl (wire x iei)"
    and rest: "reads (ie_step half full) bs (when_present present (\<lambda>m. mark (put (seen (get m) x) m)) m) m'"
  shows "reads (ie_step half full) ((if present then wire x iei else []) @ bs) m m'"
proof (rule reads_opt [OF _ _ rest])
  have hd: "hd (wire x iei) = iei" "wire x iei \<noteq> []" by (subst w, simp)+
  show "present \<Longrightarrow> consumes (ie_step half full) (wire x iei) m
      (when_present present (\<lambda>m. mark (put (seen (get m) x) m)) m)"
    unfolding consumes_def ie_step_def hd
    using sw half assms(3) hd(2) by (simp add: switch_miss when_present_def dcall_positive_ie [OF v w])
qed (simp add: when_present_def)

end

lemmas mm_emits =
  put_ksi_emits
  abba.emits_at eap.roomy.emits_at mm_cause.emits_at registration_type.emits_at registration_result.emits_at
  security_header_octet.emits_at sor.emits_at identity_type.emits_at nas_security_algorithms.emits_at
  key_set.emits_at ue_security_capability.emits_at

lemmas mm_emits_opt =
  rand.emits_opt_anywhere autn.emits_opt_anywhere eap.roomy.emits_opt_anywhere res.emits_opt_anywhere
  abba.emits_opt_anywhere auts.emits_opt_anywhere key_set.emits_opt_anywhere mm_capability.emits_opt_anywhere
  ue_security_capability.emits_opt_anywhere tracking_area.emits_opt_anywhere
  s1_ue_network_capability.emits_opt_anywhere uplink_data_status.emits_opt_anywhere
  pdu_session_status.emits_opt_anywhere mico.emits_opt_anywhere ue_status.emits_opt_anywhere
  allowed_pdu_session_status.emits_opt_anywhere ues_usage_setting.emits_opt_anywhere drx.emits_opt_anywhere
  epsnas_container.emits_opt_anywhere payload_container_type.emits_opt_anywhere
  payload_container.emits_opt_anywhere slicing.emits_opt_anywhere update_type.emits_opt_anywhere
  nas_container.emits_opt_anywhere plmn_list.emits_opt_anywhere tai_list.emits_opt_anywhere
  feature_support.emits_opt_anywhere reactivation_result.emits_opt_anywhere error_cause.emits_opt_anywhere
  service_area.emits_opt_anywhere gprs_timer3.roomy.emits_opt_anywhere gprs_timer2.emits_opt_anywhere
  nssai_inclusion_mode.emits_opt_anywhere imeisv.emits_opt_anywhere
  epsnas_security_algorithms.emits_opt_anywhere additional_security.emits_opt_anywhere

lemmas mm_mreads = mreads_Nil get_ksi_mreads
  abba.mreads_ie eap.mreads_ie mm_cause.mreads_ie registration_type.mreads_ie registration_result.mreads_ie
  security_header_octet.mreads_ie sor.mreads_ie identity_type.mreads_ie nas_security_algorithms.mreads_ie
  key_set.mreads_ie ue_security_capability.mreads_ie mreads_Cons

lemmas mm_until = reads_until.until_Nil res.until_full eap.until_full gprs_timer2.until_full

lemma until_to: "reads_until stop step bs m m' \<Longrightarrow> m' = m'' \<Longrightarrow> reads_until stop step bs m m''"
  by simp

lemma type1_mm [simp]: "type1 0xE0" "type1 0xC0" "type1 0x90" "type1 0xA0" "type1 0xB0" "type1 0x80" "type1 0"
  by (simp_all add: type1_def)

lemma mm_full_wire:
  "0 < iei \<Longrightarrow> bstring_wire s iei = iei # tl (bstring_wire s iei)"
  "0 < iei \<Longrightarrow> rand_wire s iei = iei # tl (rand_wire s iei)"
  "0 < iei \<Longrightarrow> plmn_list_wire ps iei = iei # tl (plmn_list_wire ps iei)"
  "0 < iei \<Longrightarrow> tai_list_wire ts iei = iei # tl (tai_list_wire ts iei)"
  "0 < iei \<Longrightarrow> service_area_wire as iei = iei # tl (service_area_wire as iei)"
  "0 < iei \<Longrightarrow> feature_support_wire f iei = iei # tl (feature_support_wire f iei)"
  "0 < iei \<Longrightarrow> pdu_session_status_wire v iei = iei # tl (pdu_session_status_wire v iei)"
  "0 < iei \<Longrightarrow> reactivation_result_wire v iei = iei # tl (reactivation_result_wire v iei)"
  "0 < iei \<Longrightarrow> error_cause_wire c iei = iei # tl (error_cause_wire c iei)"
  "0 < iei \<Longrightarrow> gprs_timer2_wire t iei = iei # tl (gprs_timer2_wire t iei)"
  "0 < iei \<Longrightarrow> drx_wire t iei = iei # tl (drx_wire t iei)"
  "0 < iei \<Longrightarrow> epsnas_security_algorithms_wire e iei = iei # tl (epsnas_security_algorithms_wire e iei)"
  "0 < iei \<Longrightarrow> additional_security_wire a iei = iei # tl (additional_security_wire a iei)"
  by (simp_all add: tlv_wires tlv_wire_def plmn_list_wire_def tai_list_wire_def service_area_wire_def error_cause_wire_def
      rand_wire_def iei_wire_def Let_def)

lemma mm_half_single:
  "mico_wire i iei = [hd (mico_wire i iei)]"
  "slicing_wire n iei = [hd (slicing_wire n iei)]"
  "nssai_inclusion_mode_wire v iei = [hd (nssai_inclusion_mode_wire v iei)]"
  "imeisv_wire v iei = [hd (imeisv_wire v iei)]"
  by (simp_all add: tlv_wires)

lemma mm_half_hd:
  "type1 iei \<Longrightarrow> hd (mico_wire i iei) AND 0xF0 = iei"
  "type1 iei \<Longrightarrow> hd (slicing_wire n iei) AND 0xF0 = iei"
  "type1 iei \<Longrightarrow> hd (nssai_inclusion_mode_wire v iei) AND 0xF0 = iei"
  "type1 iei \<Longrightarrow> hd (imeisv_wire v iei) AND 0xF0 = iei"
  by (simp_all add: tlv_wires half4_simps type1_def)

definition bstr_between :: "nat \<Rightarrow> bstring \<Rightarrow> bool" where
  "bstr_between lo s \<longleftrightarrow> lo \<le> length (bstr s) \<and> length (bstr s) < 256"

definition tai_list_fits :: "FiveGSTrackingAreaIdentityList \<Rightarrow> bool" where
  "tai_list_fits x \<longleftrightarrow> tai_list_valid x \<and> 9 \<le> length (tai_list_wire x 0x54)"

definition service_area_fits :: "ServiceAreaList \<Rightarrow> bool" where
  "service_area_fits x \<longleftrightarrow> service_area_valid x \<and> 9 \<le> length (service_area_wire x 0x27)"

text \<open>What the lists and strings must hold so that their encoders find the room they ask for.\<close>

lemma mm_rooms:
  "bstr_between 0 s \<Longrightarrow> length (bstr s) < 256" "bstr_between 1 s \<Longrightarrow> length (bstr s) < 256"
  "bstr_between 4 s \<Longrightarrow> length (bstr s) < 256" "bstr_between 14 s \<Longrightarrow> length (bstr s) < 256"
  "bstr_between 16 s \<Longrightarrow> length (bstr s) < 256"
  "bstr_between 1 s \<Longrightarrow> 0 < iei \<Longrightarrow> 3 \<le> length (bstring_wire s iei)"
  "bstr_between 4 s \<Longrightarrow> 0 < iei \<Longrightarrow> 6 \<le> length (bstring_wire s iei)"
  "bstr_between 14 s \<Longrightarrow> 0 < iei \<Longrightarrow> 16 \<le> length (bstring_wire s iei)"
  "bstr_between 16 s \<Longrightarrow> 0 < iei \<Longrightarrow> 18 \<le> length (bstring_wire s iei)"
  "0 < iei \<Longrightarrow> 3 \<le> length (eap_wire s iei)"
  "bstr_between 1 s \<Longrightarrow> 0 < iei \<Longrightarrow> 4 \<le> length (eap_wire s iei)"
  "length (bstr s) = 16 \<Longrightarrow> 0 < iei \<Longrightarrow> 17 \<le> length (rand_wire s iei)"
  "0 < iei \<Longrightarrow> plmn_list_valid ps \<Longrightarrow> 5 \<le> length (plmn_list_wire ps iei)"
  "0 < iei \<Longrightarrow> 7 \<le> length (tracking_area_wire t iei)"
  "0 < iei \<Longrightarrow> error_cause_valid c \<Longrightarrow> 5 \<le> length (error_cause_wire c iei)"
  "tai_list_fits ts \<Longrightarrow> tai_list_valid ts" "tai_list_fits ts \<Longrightarrow> 9 \<le> length (tai_list_wire ts 0x54)"
  "service_area_fits as \<Longrightarrow> service_area_valid as"
  "service_area_fits as \<Longrightarrow> 9 \<le> length (service_area_wire as 0x27)"
  by (simp_all add: bstr_between_def tai_list_fits_def service_area_fits_def bstring_wire_def eap_wire_def iei_wire_def
      rand_wire_def plmn_list_wire_def plmn_list_valid_def tracking_area_wire_def error_cause_wire_def error_cause_valid_def
      be32_def Suc_le_eq numeral_eq_Suc)

lemma length_ksi_wire: "length (ksi_wire k) = 1"
  by (simp add: ksi_wire_def)

lemmas mm_lengths = length_ksi_wire tlv_wires eap_wire_def iei_wire_def

lemma nothing_emits:
  "emits_from room e [call (encode_extended_protocol_discriminator x i)] []"
  "emits_from room e [call (encode_message_type x i)] []"
  by (simp_all add: emits_from_def call_def encode_extended_protocol_discriminator_def encode_message_type_def)

lemma nothing_mreads:
  "mreads [dcall (\<lambda>f. decode_extended_protocol_discriminator f i) get put mark] [] m (mark (put (get m) m))"
  "mreads [dcall (\<lambda>f. decode_message_type f i) get put mark] [] m (mark (put (get m) m))"
  by (simp_all add: mreads_def dcall_def decode_extended_protocol_discriminator_def decode_message_type_def)

text \<open>A decoder without optional elements, on any length that passes its check.\<close>

lemma plain_decoder_reads:
  assumes "mreads mand bs m m'" and "minlen \<le> unat len" and "length bs \<le> unat len"
  shows "plain_decoder minlen mand m (Some (bs @ rest)) len = Some (Returned (int (length bs)) m')"
  using mreadsD [OF assms(1), of "[]" len rest] assms(2,3) by (simp add: plain_decoder_def)

text \<open>The loops that stop at an identifier they do not know leave the rest of the octets unread.\<close>

lemma msg_decoder_until_stops:
  assumes "mreads mand bs m m1" and "reads_until stop step bs' m1 m2" and "stop iei"
    and "minlen \<le> unat len" and "length bs + length bs' < unat len"
  shows "msg_decoder_until stop minlen mand step m (Some (bs @ bs' @ iei # rest)) len
       = Some (Returned (int (length bs + length bs')) m2)"
proof -
  have "dseq mand ([] @ bs @ bs' @ iei # rest) len m (length ([] :: mem)) = DNext m1 (length ([] :: mem) + length bs)"
    using assms(5) by (intro mreadsD [OF assms(1)]) simp
  moreover have "ie_loop_until stop step (bs @ bs' @ iei # rest) len m1 (length bs)
      = ie_loop_until stop step (bs @ bs' @ iei # rest) len m2 (length bs + length bs')"
    using assms(2,5) by (intro ie_loop_until_reads) auto
  moreover have "\<dots> = Some (Returned (int (length bs + length bs')) m2)"
    using assms(3) minus_of_nat_pos [OF assms(5)]
    by (subst ie_loop_until.simps) (simp add: nth_append)
  ultimately show ?thesis using assms(4) by (simp add: msg_decoder_until_def)
qed

end
