(* ===== verification/MM_Authentication.thy ===== *)
theory MM_Authentication
  imports MM_Common
begin

text \<open>
  The authentication messages of mobility management (\<open>mm/msg/Authentication*.c\<close>).
  For each message: its structure (without the header octets, which are in \<open>MM_msg\<close>, unless its codec
  accesses them), the encoder, the cases of the switches of the decoder's loop, the decoder, the wire format,
  what the decoder leaves in the structure it fills, and the lemmas: the encoder writes the wire format when
  the length it asks for is there, the decoder reads it back when it is at least that long, and an identifier
  the loop does not know makes it loop for ever or stop.
\<close>

subsection \<open>Authentication request\<close>

record authentication_request_msg =
  aureq_naskeysetidentifier :: NASKeySetIdentifier
  aureq_abba :: bstring
  aureq_presence :: u8
  aureq_authenticationparameterrand :: bstring
  aureq_authenticationparameterautn :: bstring
  aureq_eapmessage :: bstring

definition encode_authentication_request :: "authentication_request_msg \<Rightarrow> encoder" where
  "encode_authentication_request msg = encoder_body 7
     [put_ksi (aureq_naskeysetidentifier msg),
      call (encode_abba (aureq_abba msg) 0),
      opt (aureq_presence msg AND 0x01 = 0x01) (encode_authentication_parameter_rand (aureq_authenticationparameterrand msg) 0x21),
      opt (aureq_presence msg AND 0x02 = 0x02) (encode_authentication_parameter_autn (aureq_authenticationparameterautn msg) 0x20),
      opt (aureq_presence msg AND 0x04 = 0x04) (encode_eap_message (aureq_eapmessage msg) 0x78)]"

definition aureq_half :: "(u8 \<times> authentication_request_msg dcmd) list" where
  "aureq_half =
     []"

definition aureq_full :: "(u8 \<times> authentication_request_msg dcmd) list" where
  "aureq_full =
     [(0x21, dcall (\<lambda>f. decode_authentication_parameter_rand f 0x21) aureq_authenticationparameterrand (\<lambda>v. aureq_authenticationparameterrand_update (\<lambda>_. v)) (aureq_presence_update (\<lambda>p. p OR 0x01))),
      (0x20, dcall (\<lambda>f. decode_authentication_parameter_autn f 0x20) aureq_authenticationparameterautn (\<lambda>v. aureq_authenticationparameterautn_update (\<lambda>_. v)) (aureq_presence_update (\<lambda>p. p OR 0x02))),
      (0x78, dcall (\<lambda>f. decode_eap_message f 0x78) aureq_eapmessage (\<lambda>v. aureq_eapmessage_update (\<lambda>_. v)) (aureq_presence_update (\<lambda>p. p OR 0x04)))]"

definition decode_authentication_request :: "authentication_request_msg msg_decoder" where
  "decode_authentication_request = msg_decoder 7
     [get_ksi aureq_naskeysetidentifier (\<lambda>v. aureq_naskeysetidentifier_update (\<lambda>_. v)),
      dcall (\<lambda>f. decode_abba f 0) aureq_abba (\<lambda>v. aureq_abba_update (\<lambda>_. v)) (\<lambda>m. m)]
     (ie_step aureq_half aureq_full)"

definition aureq_valid :: "authentication_request_msg \<Rightarrow> bool" where
  "aureq_valid msg \<longleftrightarrow>
     bstr_between 1 ((aureq_abba msg)) \<and>
     (aureq_presence msg AND 0x01 = 0x01 \<longrightarrow> length (bstr (aureq_authenticationparameterrand msg)) = 16) \<and>
     (aureq_presence msg AND 0x02 = 0x02 \<longrightarrow> bstr_between 16 (aureq_authenticationparameterautn msg)) \<and>
     (aureq_presence msg AND 0x04 = 0x04 \<longrightarrow> eap_valid (aureq_eapmessage msg))"

definition aureq_mand_wire :: "authentication_request_msg \<Rightarrow> u8 list" where
  "aureq_mand_wire msg = concat [ksi_wire (aureq_naskeysetidentifier msg), bstring_wire (aureq_abba msg) 0]"

definition aureq_opt_wire :: "authentication_request_msg \<Rightarrow> u8 list" where
  "aureq_opt_wire msg = concat
     [(if aureq_presence msg AND 0x01 = 0x01 then rand_wire (aureq_authenticationparameterrand msg) 0x21 else []),
      (if aureq_presence msg AND 0x02 = 0x02 then bstring_wire (aureq_authenticationparameterautn msg) 0x20 else []),
      (if aureq_presence msg AND 0x04 = 0x04 then eap_wire (aureq_eapmessage msg) 0x78 else [])]"

definition aureq_wire :: "authentication_request_msg \<Rightarrow> u8 list" where
  "aureq_wire msg = aureq_mand_wire msg @ aureq_opt_wire msg"

definition aureq_mand_seen :: "authentication_request_msg \<Rightarrow> authentication_request_msg \<Rightarrow> authentication_request_msg" where
  "aureq_mand_seen m msg = m\<lparr>aureq_naskeysetidentifier := aureq_naskeysetidentifier msg, aureq_abba := Some (bstr (aureq_abba msg))\<rparr>"

definition aureq_opt_seen :: "authentication_request_msg \<Rightarrow> authentication_request_msg \<Rightarrow> authentication_request_msg" where
  "aureq_opt_seen m msg = updates
     [when_present (aureq_presence msg AND 0x01 = 0x01)
        (\<lambda>m. aureq_presence_update (\<lambda>p. p OR 0x01) (m\<lparr>aureq_authenticationparameterrand := Some (bstr (aureq_authenticationparameterrand msg))\<rparr>)),
      when_present (aureq_presence msg AND 0x02 = 0x02)
        (\<lambda>m. aureq_presence_update (\<lambda>p. p OR 0x02) (m\<lparr>aureq_authenticationparameterautn := Some (bstr (aureq_authenticationparameterautn msg))\<rparr>)),
      when_present (aureq_presence msg AND 0x04 = 0x04)
        (\<lambda>m. aureq_presence_update (\<lambda>p. p OR 0x04) (m\<lparr>aureq_eapmessage := Some (bstr (aureq_eapmessage msg))\<rparr>))] m"

definition aureq_seen :: "authentication_request_msg \<Rightarrow> authentication_request_msg \<Rightarrow> authentication_request_msg" where
  "aureq_seen m msg = aureq_opt_seen (aureq_mand_seen m msg) msg"

lemma encode_authentication_request_ok:
  assumes "aureq_valid msg"
  shows "encodes_from 7 (encode_authentication_request msg) (aureq_wire msg)"
  unfolding encode_authentication_request_def
  by (rule encodes_from_to, ((rule emits_from_Nil mm_emits mm_emits_opt emits_from_Cons
      | (simp del: One_nat_def add: assms [unfolded aureq_valid_def] mm_rooms; fail) | (simp add: mm_lengths; fail))+)[1],
      simp only: aureq_wire_def aureq_mand_wire_def aureq_opt_wire_def concat.simps append.simps append_assoc append_Nil append_Nil2)

lemma aureq_mreads:
  assumes "aureq_valid msg"
  shows "mreads [get_ksi aureq_naskeysetidentifier (\<lambda>v. aureq_naskeysetidentifier_update (\<lambda>_. v)), dcall (\<lambda>f. decode_abba f 0) aureq_abba (\<lambda>v. aureq_abba_update (\<lambda>_. v)) (\<lambda>m. m)] (aureq_mand_wire msg) m (aureq_mand_seen m msg)"
  unfolding aureq_mand_wire_def concat.simps
  by (rule mreads_to, (rule mm_mreads TrueI | (simp del: One_nat_def add: assms [unfolded aureq_valid_def] mm_rooms; fail) | (simp add: mm_lengths; fail))+, simp add: aureq_mand_seen_def)

lemma aureq_reads:
  assumes "aureq_valid msg"
  shows "reads (ie_step aureq_half aureq_full) (aureq_opt_wire msg) m (aureq_opt_seen m msg)"
  unfolding aureq_half_def aureq_full_def aureq_opt_wire_def concat.simps
  by (rule reads_to, ((rule reads_Nil autn.reads_full eap.reads_full rand.reads_full switch_here TrueI mm_half_single | (rule switch_there, simp; fail)
      | (rule full_wire mm_full_wire, simp; fail) | (rule mm_half_hd, simp; fail) | (simp; fail) | (simp del: One_nat_def add: assms [unfolded aureq_valid_def] mm_rooms; fail))+)[1])
    (simp only: aureq_opt_seen_def updates.simps)

lemma decode_authentication_request_wire:
  assumes "aureq_valid msg" and "7 \<le> length (aureq_wire msg)" and "unat len = length (aureq_wire msg)"
  shows "decode_authentication_request m (Some (aureq_wire msg @ rest)) len
       = Some (Returned (int (length (aureq_wire msg))) (aureq_seen m msg))"
  using msg_decoder_reads [OF aureq_mreads [OF assms(1)] aureq_reads [OF assms(1)], of 7 len m rest] assms(2,3)
  by (simp add: decode_authentication_request_def aureq_wire_def aureq_seen_def)

lemma decode_authentication_request_unknown:
  assumes "aureq_valid msg" and "iei \<noteq> 0" and "iei AND 0xF0 \<notin> set (map fst aureq_half)"
    and "iei \<notin> set (map fst aureq_full)" and "7 \<le> unat len" and "length (aureq_wire msg) < unat len"
  shows "decode_authentication_request m (Some (aureq_wire msg @ iei # rest)) len = None"
  using msg_decoder_unknown [OF aureq_mreads [OF assms(1)] aureq_reads [OF assms(1)] assms(2,3,4,5), of m rest] assms(6)
  by (simp add: decode_authentication_request_def aureq_wire_def)

subsection \<open>Authentication response\<close>

record authentication_response_msg =
  aursp_presence :: u8
  aursp_authenticationresponseparameter :: bstring
  aursp_eapmessage :: bstring

definition encode_authentication_response :: "authentication_response_msg \<Rightarrow> encoder" where
  "encode_authentication_response msg = encoder_body 16
     [opt (aursp_presence msg AND 0x01 = 0x01) (encode_authentication_response_parameter (aursp_authenticationresponseparameter msg) 0x2D),
      opt (aursp_presence msg AND 0x02 = 0x02) (encode_eap_message (aursp_eapmessage msg) 0x78)]"

definition aursp_half :: "(u8 \<times> authentication_response_msg dcmd) list" where
  "aursp_half =
     []"

definition aursp_full :: "(u8 \<times> authentication_response_msg dcmd) list" where
  "aursp_full =
     [(0x2D, dcall (\<lambda>f. decode_authentication_response_parameter f 0x2D) aursp_authenticationresponseparameter (\<lambda>v. aursp_authenticationresponseparameter_update (\<lambda>_. v)) (aursp_presence_update (\<lambda>p. p OR 0x01))),
      (0x78, dcall (\<lambda>f. decode_eap_message f 0x78) aursp_eapmessage (\<lambda>v. aursp_eapmessage_update (\<lambda>_. v)) (aursp_presence_update (\<lambda>p. p OR 0x02)))]"

definition aursp_stop :: "u8 \<Rightarrow> bool" where
  "aursp_stop iei \<longleftrightarrow> iei \<noteq> 0x2D \<and> iei \<noteq> 0x78"

definition decode_authentication_response :: "authentication_response_msg msg_decoder" where
  "decode_authentication_response = msg_decoder_until aursp_stop 16
     []
     (ie_step aursp_half aursp_full)"

definition aursp_valid :: "authentication_response_msg \<Rightarrow> bool" where
  "aursp_valid msg \<longleftrightarrow>
     (aursp_presence msg AND 0x01 = 0x01 \<longrightarrow> bstr_between 4 (aursp_authenticationresponseparameter msg)) \<and>
     (aursp_presence msg AND 0x02 = 0x02 \<longrightarrow> eap_valid (aursp_eapmessage msg))"

definition aursp_mand_wire :: "authentication_response_msg \<Rightarrow> u8 list" where
  "aursp_mand_wire msg = concat []"

definition aursp_opt_wire :: "authentication_response_msg \<Rightarrow> u8 list" where
  "aursp_opt_wire msg = concat
     [(if aursp_presence msg AND 0x01 = 0x01 then bstring_wire (aursp_authenticationresponseparameter msg) 0x2D else []),
      (if aursp_presence msg AND 0x02 = 0x02 then eap_wire (aursp_eapmessage msg) 0x78 else [])]"

definition aursp_wire :: "authentication_response_msg \<Rightarrow> u8 list" where
  "aursp_wire msg = aursp_mand_wire msg @ aursp_opt_wire msg"

definition aursp_mand_seen :: "authentication_response_msg \<Rightarrow> authentication_response_msg \<Rightarrow> authentication_response_msg" where
  "aursp_mand_seen m msg = m"

definition aursp_opt_seen :: "authentication_response_msg \<Rightarrow> authentication_response_msg \<Rightarrow> authentication_response_msg" where
  "aursp_opt_seen m msg = updates
     [when_present (aursp_presence msg AND 0x01 = 0x01)
        (\<lambda>m. aursp_presence_update (\<lambda>p. p OR 0x01) (m\<lparr>aursp_authenticationresponseparameter := Some (bstr (aursp_authenticationresponseparameter msg))\<rparr>)),
      when_present (aursp_presence msg AND 0x02 = 0x02)
        (\<lambda>m. aursp_presence_update (\<lambda>p. p OR 0x02) (m\<lparr>aursp_eapmessage := Some (bstr (aursp_eapmessage msg))\<rparr>))] m"

definition aursp_seen :: "authentication_response_msg \<Rightarrow> authentication_response_msg \<Rightarrow> authentication_response_msg" where
  "aursp_seen m msg = aursp_opt_seen (aursp_mand_seen m msg) msg"

lemma encode_authentication_response_ok:
  assumes "aursp_valid msg"
  shows "encodes_from 16 (encode_authentication_response msg) (aursp_wire msg)"
  unfolding encode_authentication_response_def
  by (rule encodes_from_to, ((rule emits_from_Nil mm_emits mm_emits_opt emits_from_Cons
      | (simp del: One_nat_def add: assms [unfolded aursp_valid_def] mm_rooms; fail) | (simp add: mm_lengths; fail))+)[1],
      simp only: aursp_wire_def aursp_mand_wire_def aursp_opt_wire_def concat.simps append.simps append_assoc append_Nil append_Nil2)

lemma aursp_mreads:
  assumes "aursp_valid msg"
  shows "mreads [] (aursp_mand_wire msg) m (aursp_mand_seen m msg)"
  by (simp add: mreads_Nil aursp_mand_wire_def aursp_mand_seen_def)

lemma aursp_reads:
  assumes "aursp_valid msg"
  shows "reads_until aursp_stop (ie_step aursp_half aursp_full) (aursp_opt_wire msg) m (aursp_opt_seen m msg)"
  unfolding aursp_half_def aursp_full_def aursp_opt_wire_def concat.simps
  by (rule until_to, ((rule mm_until switch_here TrueI | (rule switch_there, simp; fail)
      | (rule full_wire mm_full_wire, simp; fail) | (simp del: One_nat_def add: assms [unfolded aursp_valid_def] aursp_stop_def mm_rooms; fail))+)[1])
    (simp only: aursp_opt_seen_def updates.simps)

lemma decode_authentication_response_wire:
  assumes "aursp_valid msg" and "16 \<le> length (aursp_wire msg)" and "unat len = length (aursp_wire msg)"
  shows "decode_authentication_response m (Some (aursp_wire msg @ rest)) len
       = Some (Returned (int (length (aursp_wire msg))) (aursp_seen m msg))"
  using msg_decoder_until_reads [OF aursp_mreads [OF assms(1)] aursp_reads [OF assms(1)], of 16 len m rest] assms(2,3)
  by (simp add: decode_authentication_response_def aursp_wire_def aursp_seen_def)

lemma decode_authentication_response_stops:
  assumes "aursp_valid msg" and "aursp_stop iei" and "16 \<le> unat len" and "length (aursp_wire msg) < unat len"
  shows "decode_authentication_response m (Some (aursp_wire msg @ iei # rest)) len
       = Some (Returned (int (length (aursp_wire msg))) (aursp_seen m msg))"
  using msg_decoder_until_stops [OF aursp_mreads [OF assms(1)] aursp_reads [OF assms(1)] assms(2,3), of m rest] assms(4)
  by (simp add: decode_authentication_response_def aursp_wire_def aursp_seen_def)

subsection \<open>Authentication result\<close>

record authentication_result_msg =
  aures_naskeysetidentifier :: NASKeySetIdentifier
  aures_eapmessage :: bstring
  aures_presence :: u8
  aures_abba :: bstring

definition encode_authentication_result :: "authentication_result_msg \<Rightarrow> encoder" where
  "encode_authentication_result msg = encoder_body 14
     [put_ksi (aures_naskeysetidentifier msg),
      call (encode_eap_message (aures_eapmessage msg) 0),
      opt (aures_presence msg AND 0x01 = 0x01) (encode_abba (aures_abba msg) 0x38)]"

definition aures_half :: "(u8 \<times> authentication_result_msg dcmd) list" where
  "aures_half =
     []"

definition aures_full :: "(u8 \<times> authentication_result_msg dcmd) list" where
  "aures_full =
     [(0x38, dcall (\<lambda>f. decode_abba f 0x38) aures_abba (\<lambda>v. aures_abba_update (\<lambda>_. v)) (aures_presence_update (\<lambda>p. p OR 0x01)))]"

definition decode_authentication_result :: "authentication_result_msg msg_decoder" where
  "decode_authentication_result = msg_decoder 14
     [get_ksi aures_naskeysetidentifier (\<lambda>v. aures_naskeysetidentifier_update (\<lambda>_. v)),
      dcall (\<lambda>f. decode_eap_message f 0) aures_eapmessage (\<lambda>v. aures_eapmessage_update (\<lambda>_. v)) (\<lambda>m. m)]
     (ie_step aures_half aures_full)"

definition aures_valid :: "authentication_result_msg \<Rightarrow> bool" where
  "aures_valid msg \<longleftrightarrow>
     eap_valid ((aures_eapmessage msg)) \<and>
     (aures_presence msg AND 0x01 = 0x01 \<longrightarrow> bstr_between 1 (aures_abba msg))"

definition aures_mand_wire :: "authentication_result_msg \<Rightarrow> u8 list" where
  "aures_mand_wire msg = concat [ksi_wire (aures_naskeysetidentifier msg), eap_wire (aures_eapmessage msg) 0]"

definition aures_opt_wire :: "authentication_result_msg \<Rightarrow> u8 list" where
  "aures_opt_wire msg = concat
     [(if aures_presence msg AND 0x01 = 0x01 then bstring_wire (aures_abba msg) 0x38 else [])]"

definition aures_wire :: "authentication_result_msg \<Rightarrow> u8 list" where
  "aures_wire msg = aures_mand_wire msg @ aures_opt_wire msg"

definition aures_mand_seen :: "authentication_result_msg \<Rightarrow> authentication_result_msg \<Rightarrow> authentication_result_msg" where
  "aures_mand_seen m msg = m\<lparr>aures_naskeysetidentifier := aures_naskeysetidentifier msg, aures_eapmessage := Some (bstr (aures_eapmessage msg))\<rparr>"

definition aures_opt_seen :: "authentication_result_msg \<Rightarrow> authentication_result_msg \<Rightarrow> authentication_result_msg" where
  "aures_opt_seen m msg = updates
     [when_present (aures_presence msg AND 0x01 = 0x01)
        (\<lambda>m. aures_presence_update (\<lambda>p. p OR 0x01) (m\<lparr>aures_abba := Some (bstr (aures_abba msg))\<rparr>))] m"

definition aures_seen :: "authentication_result_msg \<Rightarrow> authentication_result_msg \<Rightarrow> authentication_result_msg" where
  "aures_seen m msg = aures_opt_seen (aures_mand_seen m msg) msg"

lemma encode_authentication_result_ok:
  assumes "aures_valid msg"
  shows "encodes_from 14 (encode_authentication_result msg) (aures_wire msg)"
  unfolding encode_authentication_result_def
  by (rule encodes_from_to, ((rule emits_from_Nil mm_emits mm_emits_opt emits_from_Cons
      | (simp del: One_nat_def add: assms [unfolded aures_valid_def] mm_rooms; fail) | (simp add: mm_lengths; fail))+)[1],
      simp only: aures_wire_def aures_mand_wire_def aures_opt_wire_def concat.simps append.simps append_assoc append_Nil append_Nil2)

lemma aures_mreads:
  assumes "aures_valid msg"
  shows "mreads [get_ksi aures_naskeysetidentifier (\<lambda>v. aures_naskeysetidentifier_update (\<lambda>_. v)), dcall (\<lambda>f. decode_eap_message f 0) aures_eapmessage (\<lambda>v. aures_eapmessage_update (\<lambda>_. v)) (\<lambda>m. m)] (aures_mand_wire msg) m (aures_mand_seen m msg)"
  unfolding aures_mand_wire_def concat.simps
  by (rule mreads_to, (rule mm_mreads TrueI | (simp del: One_nat_def add: assms [unfolded aures_valid_def] mm_rooms; fail) | (simp add: mm_lengths; fail))+, simp add: aures_mand_seen_def)

lemma aures_reads:
  assumes "aures_valid msg"
  shows "reads (ie_step aures_half aures_full) (aures_opt_wire msg) m (aures_opt_seen m msg)"
  unfolding aures_half_def aures_full_def aures_opt_wire_def concat.simps
  by (rule reads_to, ((rule reads_Nil abba.reads_full switch_here TrueI mm_half_single | (rule switch_there, simp; fail)
      | (rule full_wire mm_full_wire, simp; fail) | (rule mm_half_hd, simp; fail) | (simp; fail) | (simp del: One_nat_def add: assms [unfolded aures_valid_def] mm_rooms; fail))+)[1])
    (simp only: aures_opt_seen_def updates.simps)

lemma decode_authentication_result_wire:
  assumes "aures_valid msg" and "14 \<le> length (aures_wire msg)" and "unat len = length (aures_wire msg)"
  shows "decode_authentication_result m (Some (aures_wire msg @ rest)) len
       = Some (Returned (int (length (aures_wire msg))) (aures_seen m msg))"
  using msg_decoder_reads [OF aures_mreads [OF assms(1)] aures_reads [OF assms(1)], of 14 len m rest] assms(2,3)
  by (simp add: decode_authentication_result_def aures_wire_def aures_seen_def)

lemma decode_authentication_result_unknown:
  assumes "aures_valid msg" and "iei \<noteq> 0" and "iei AND 0xF0 \<notin> set (map fst aures_half)"
    and "iei \<notin> set (map fst aures_full)" and "14 \<le> unat len" and "length (aures_wire msg) < unat len"
  shows "decode_authentication_result m (Some (aures_wire msg @ iei # rest)) len = None"
  using msg_decoder_unknown [OF aures_mreads [OF assms(1)] aures_reads [OF assms(1)] assms(2,3,4,5), of m rest] assms(6)
  by (simp add: decode_authentication_result_def aures_wire_def)

subsection \<open>Authentication reject\<close>

record authentication_reject_msg =
  aurej_presence :: u8
  aurej_eapmessage :: bstring

definition encode_authentication_reject :: "authentication_reject_msg \<Rightarrow> encoder" where
  "encode_authentication_reject msg = encoder_body 10
     [opt (aurej_presence msg AND 0x01 = 0x01) (encode_eap_message (aurej_eapmessage msg) 0x78)]"

definition aurej_half :: "(u8 \<times> authentication_reject_msg dcmd) list" where
  "aurej_half =
     []"

definition aurej_full :: "(u8 \<times> authentication_reject_msg dcmd) list" where
  "aurej_full =
     [(0x78, dcall (\<lambda>f. decode_eap_message f 0x78) aurej_eapmessage (\<lambda>v. aurej_eapmessage_update (\<lambda>_. v)) (aurej_presence_update (\<lambda>p. p OR 0x01)))]"

definition decode_authentication_reject :: "authentication_reject_msg msg_decoder" where
  "decode_authentication_reject = msg_decoder 10
     []
     (ie_step aurej_half aurej_full)"

definition aurej_valid :: "authentication_reject_msg \<Rightarrow> bool" where
  "aurej_valid msg \<longleftrightarrow>
     (aurej_presence msg AND 0x01 = 0x01 \<longrightarrow> eap_valid (aurej_eapmessage msg))"

definition aurej_mand_wire :: "authentication_reject_msg \<Rightarrow> u8 list" where
  "aurej_mand_wire msg = concat []"

definition aurej_opt_wire :: "authentication_reject_msg \<Rightarrow> u8 list" where
  "aurej_opt_wire msg = concat
     [(if aurej_presence msg AND 0x01 = 0x01 then eap_wire (aurej_eapmessage msg) 0x78 else [])]"

definition aurej_wire :: "authentication_reject_msg \<Rightarrow> u8 list" where
  "aurej_wire msg = aurej_mand_wire msg @ aurej_opt_wire msg"

definition aurej_mand_seen :: "authentication_reject_msg \<Rightarrow> authentication_reject_msg \<Rightarrow> authentication_reject_msg" where
  "aurej_mand_seen m msg = m"

definition aurej_opt_seen :: "authentication_reject_msg \<Rightarrow> authentication_reject_msg \<Rightarrow> authentication_reject_msg" where
  "aurej_opt_seen m msg = updates
     [when_present (aurej_presence msg AND 0x01 = 0x01)
        (\<lambda>m. aurej_presence_update (\<lambda>p. p OR 0x01) (m\<lparr>aurej_eapmessage := Some (bstr (aurej_eapmessage msg))\<rparr>))] m"

definition aurej_seen :: "authentication_reject_msg \<Rightarrow> authentication_reject_msg \<Rightarrow> authentication_reject_msg" where
  "aurej_seen m msg = aurej_opt_seen (aurej_mand_seen m msg) msg"

lemma encode_authentication_reject_ok:
  assumes "aurej_valid msg"
  shows "encodes_from 10 (encode_authentication_reject msg) (aurej_wire msg)"
  unfolding encode_authentication_reject_def
  by (rule encodes_from_to, ((rule emits_from_Nil mm_emits mm_emits_opt emits_from_Cons
      | (simp del: One_nat_def add: assms [unfolded aurej_valid_def] mm_rooms; fail) | (simp add: mm_lengths; fail))+)[1],
      simp only: aurej_wire_def aurej_mand_wire_def aurej_opt_wire_def concat.simps append.simps append_assoc append_Nil append_Nil2)

lemma aurej_mreads:
  assumes "aurej_valid msg"
  shows "mreads [] (aurej_mand_wire msg) m (aurej_mand_seen m msg)"
  by (simp add: mreads_Nil aurej_mand_wire_def aurej_mand_seen_def)

lemma aurej_reads:
  assumes "aurej_valid msg"
  shows "reads (ie_step aurej_half aurej_full) (aurej_opt_wire msg) m (aurej_opt_seen m msg)"
  unfolding aurej_half_def aurej_full_def aurej_opt_wire_def concat.simps
  by (rule reads_to, ((rule reads_Nil eap.reads_full switch_here TrueI mm_half_single | (rule switch_there, simp; fail)
      | (rule full_wire mm_full_wire, simp; fail) | (rule mm_half_hd, simp; fail) | (simp; fail) | (simp del: One_nat_def add: assms [unfolded aurej_valid_def] mm_rooms; fail))+)[1])
    (simp only: aurej_opt_seen_def updates.simps)

lemma decode_authentication_reject_wire:
  assumes "aurej_valid msg" and "10 \<le> length (aurej_wire msg)" and "unat len = length (aurej_wire msg)"
  shows "decode_authentication_reject m (Some (aurej_wire msg @ rest)) len
       = Some (Returned (int (length (aurej_wire msg))) (aurej_seen m msg))"
  using msg_decoder_reads [OF aurej_mreads [OF assms(1)] aurej_reads [OF assms(1)], of 10 len m rest] assms(2,3)
  by (simp add: decode_authentication_reject_def aurej_wire_def aurej_seen_def)

lemma decode_authentication_reject_unknown:
  assumes "aurej_valid msg" and "iei \<noteq> 0" and "iei AND 0xF0 \<notin> set (map fst aurej_half)"
    and "iei \<notin> set (map fst aurej_full)" and "10 \<le> unat len" and "length (aurej_wire msg) < unat len"
  shows "decode_authentication_reject m (Some (aurej_wire msg @ iei # rest)) len = None"
  using msg_decoder_unknown [OF aurej_mreads [OF assms(1)] aurej_reads [OF assms(1)] assms(2,3,4,5), of m rest] assms(6)
  by (simp add: decode_authentication_reject_def aurej_wire_def)

subsection \<open>Authentication failure\<close>

record authentication_failure_msg =
  aufail_5gmmcause :: u8
  aufail_presence :: u32
  aufail_authenticationfailureparameter :: bstring

definition encode_authentication_failure :: "authentication_failure_msg \<Rightarrow> encoder" where
  "encode_authentication_failure msg = encoder_body 21
     [call (encode__5gmm_cause (aufail_5gmmcause msg) 0),
      opt (aufail_presence msg AND 0x01 = 0x01) (encode_authentication_failure_parameter (aufail_authenticationfailureparameter msg) 0x21)]"

definition aufail_half :: "(u8 \<times> authentication_failure_msg dcmd) list" where
  "aufail_half =
     []"

definition aufail_full :: "(u8 \<times> authentication_failure_msg dcmd) list" where
  "aufail_full =
     [(0x21, dcall_positive (\<lambda>f. decode_authentication_failure_parameter f 0x21) aufail_authenticationfailureparameter (\<lambda>v. aufail_authenticationfailureparameter_update (\<lambda>_. v)) (aufail_presence_update (\<lambda>p. p OR 0x01)))]"

definition decode_authentication_failure :: "authentication_failure_msg msg_decoder" where
  "decode_authentication_failure = msg_decoder 21
     [dcall (\<lambda>f. decode__5gmm_cause f 0) aufail_5gmmcause (\<lambda>v. aufail_5gmmcause_update (\<lambda>_. v)) (\<lambda>m. m)]
     (ie_step aufail_half aufail_full)"

definition aufail_valid :: "authentication_failure_msg \<Rightarrow> bool" where
  "aufail_valid msg \<longleftrightarrow>
     (aufail_presence msg AND 0x01 = 0x01 \<longrightarrow> bstr_between 14 (aufail_authenticationfailureparameter msg))"

definition aufail_mand_wire :: "authentication_failure_msg \<Rightarrow> u8 list" where
  "aufail_mand_wire msg = concat [mm_cause_wire (aufail_5gmmcause msg) 0]"

definition aufail_opt_wire :: "authentication_failure_msg \<Rightarrow> u8 list" where
  "aufail_opt_wire msg = concat
     [(if aufail_presence msg AND 0x01 = 0x01 then bstring_wire (aufail_authenticationfailureparameter msg) 0x21 else [])]"

definition aufail_wire :: "authentication_failure_msg \<Rightarrow> u8 list" where
  "aufail_wire msg = aufail_mand_wire msg @ aufail_opt_wire msg"

definition aufail_mand_seen :: "authentication_failure_msg \<Rightarrow> authentication_failure_msg \<Rightarrow> authentication_failure_msg" where
  "aufail_mand_seen m msg = m\<lparr>aufail_5gmmcause := aufail_5gmmcause msg\<rparr>"

definition aufail_opt_seen :: "authentication_failure_msg \<Rightarrow> authentication_failure_msg \<Rightarrow> authentication_failure_msg" where
  "aufail_opt_seen m msg = updates
     [when_present (aufail_presence msg AND 0x01 = 0x01)
        (\<lambda>m. aufail_presence_update (\<lambda>p. p OR 0x01) (m\<lparr>aufail_authenticationfailureparameter := Some (bstr (aufail_authenticationfailureparameter msg))\<rparr>))] m"

definition aufail_seen :: "authentication_failure_msg \<Rightarrow> authentication_failure_msg \<Rightarrow> authentication_failure_msg" where
  "aufail_seen m msg = aufail_opt_seen (aufail_mand_seen m msg) msg"

lemma encode_authentication_failure_ok:
  assumes "aufail_valid msg"
  shows "encodes_from 21 (encode_authentication_failure msg) (aufail_wire msg)"
  unfolding encode_authentication_failure_def
  by (rule encodes_from_to, ((rule emits_from_Nil mm_emits mm_emits_opt emits_from_Cons
      | (simp del: One_nat_def add: assms [unfolded aufail_valid_def] mm_rooms; fail) | (simp add: mm_lengths; fail))+)[1],
      simp only: aufail_wire_def aufail_mand_wire_def aufail_opt_wire_def concat.simps append.simps append_assoc append_Nil append_Nil2)

lemma aufail_mreads:
  assumes "aufail_valid msg"
  shows "mreads [dcall (\<lambda>f. decode__5gmm_cause f 0) aufail_5gmmcause (\<lambda>v. aufail_5gmmcause_update (\<lambda>_. v)) (\<lambda>m. m)] (aufail_mand_wire msg) m (aufail_mand_seen m msg)"
  unfolding aufail_mand_wire_def concat.simps
  by (rule mreads_to, (rule mm_mreads TrueI | (simp del: One_nat_def add: assms [unfolded aufail_valid_def] mm_rooms; fail) | (simp add: mm_lengths; fail))+, simp add: aufail_mand_seen_def)

lemma aufail_reads:
  assumes "aufail_valid msg"
  shows "reads (ie_step aufail_half aufail_full) (aufail_opt_wire msg) m (aufail_opt_seen m msg)"
  unfolding aufail_half_def aufail_full_def aufail_opt_wire_def concat.simps
  by (rule reads_to, ((rule auts.reads_positive reads_Nil switch_here TrueI mm_half_single | (rule switch_there, simp; fail)
      | (rule full_wire mm_full_wire, simp; fail) | (rule mm_half_hd, simp; fail) | (simp; fail) | (simp del: One_nat_def add: assms [unfolded aufail_valid_def] mm_rooms; fail))+)[1])
    (simp only: aufail_opt_seen_def updates.simps)

lemma decode_authentication_failure_wire:
  assumes "aufail_valid msg" and "21 \<le> length (aufail_wire msg)" and "unat len = length (aufail_wire msg)"
  shows "decode_authentication_failure m (Some (aufail_wire msg @ rest)) len
       = Some (Returned (int (length (aufail_wire msg))) (aufail_seen m msg))"
  using msg_decoder_reads [OF aufail_mreads [OF assms(1)] aufail_reads [OF assms(1)], of 21 len m rest] assms(2,3)
  by (simp add: decode_authentication_failure_def aufail_wire_def aufail_seen_def)

lemma decode_authentication_failure_unknown:
  assumes "aufail_valid msg" and "iei \<noteq> 0" and "iei AND 0xF0 \<notin> set (map fst aufail_half)"
    and "iei \<notin> set (map fst aufail_full)" and "21 \<le> unat len" and "length (aufail_wire msg) < unat len"
  shows "decode_authentication_failure m (Some (aufail_wire msg @ iei # rest)) len = None"
  using msg_decoder_unknown [OF aufail_mreads [OF assms(1)] aufail_reads [OF assms(1)] assms(2,3,4,5), of m rest] assms(6)
  by (simp add: decode_authentication_failure_def aufail_wire_def)

end
