(* ===== verification/MM_Registration.thy ===== *)
theory MM_Registration
  imports MM_Authentication
begin

text \<open>
  The registration messages (\<open>mm/msg/Registration*.c\<close>).
  For each message: its structure (without the header octets, which are in \<open>MM_msg\<close>, unless its codec
  accesses them), the encoder, the cases of the switches of the decoder's loop, the decoder, the wire format,
  what the decoder leaves in the structure it fills, and the lemmas: the encoder writes the wire format when
  the length it asks for is there, the decoder reads it back when it is at least that long, and an identifier
  the loop does not know makes it loop for ever or stop.
\<close>

subsection \<open>Registration request\<close>

record registration_request_msg =
  rgreq_5gsregistrationtype :: RegistrationType
  rgreq_naskeysetidentifier :: NASKeySetIdentifier
  rgreq_presence :: u32
  rgreq_non_current_native_nas_key_set_identifier :: NASKeySetIdentifier
  rgreq_5gmmcapability :: FiveGMMCapability
  rgreq_uesecuritycapability :: UESecurityCapability
  rgreq_5gstrackingareaidentity :: FiveGSTrackingAreaIdentity
  rgreq_s1uenetworkcapability :: S1UENetworkCapability
  rgreq_uplinkdatastatus :: u16
  rgreq_pdusessionstatus :: u16
  rgreq_micoindication :: MICOIndication
  rgreq_uestatus :: UEStatus
  rgreq_allowedpdusessionstatus :: u8
  rgreq_uesusagesetting :: u8
  rgreq_5gsdrxparameters :: u8
  rgreq_epsnasmessagecontainer :: bstring
  rgreq_payloadcontainertype :: u8
  rgreq_payloadcontainer :: bstring
  rgreq_networkslicingindication :: NetworkSlicingIndication
  rgreq_5gsupdatetype :: UpdateType
  rgreq_nasmessagecontainer :: bstring

definition encode_registration_request :: "registration_request_msg \<Rightarrow> encoder" where
  "encode_registration_request msg = encoder_body 71
     [call (encode__5gs_registration_type (rgreq_5gsregistrationtype msg) 0),
      put_ksi (rgreq_naskeysetidentifier msg),
      opt (rgreq_presence msg AND 0x01 = 0x01) (encode_nas_key_set_identifier (rgreq_non_current_native_nas_key_set_identifier msg) 0xC0),
      opt (rgreq_presence msg AND 0x02 = 0x02) (encode__5gmm_capability (rgreq_5gmmcapability msg) 0x10),
      opt (rgreq_presence msg AND 0x04 = 0x04) (encode_ue_security_capability (rgreq_uesecuritycapability msg) 0x2E),
      opt (rgreq_presence msg AND 0x10 = 0x10) (encode__5gs_tracking_area_identity (rgreq_5gstrackingareaidentity msg) 0x52),
      opt (rgreq_presence msg AND 0x20 = 0x20) (encode_s1_ue_network_capability (rgreq_s1uenetworkcapability msg) 0x17),
      opt (rgreq_presence msg AND 0x40 = 0x40) (encode_uplink_data_status (rgreq_uplinkdatastatus msg) 0x40),
      opt (rgreq_presence msg AND 0x100 = 0x100) (encode_pdu_session_status (rgreq_pdusessionstatus msg) 0x50),
      opt (rgreq_presence msg AND 0x200 = 0x200) (encode_mico_indication (rgreq_micoindication msg) 0xB0),
      opt (rgreq_presence msg AND 0x400 = 0x400) (encode_ue_status (rgreq_uestatus msg) 0x2B),
      opt (rgreq_presence msg AND 0x1000 = 0x1000) (encode_allowed_pdu_session_status (rgreq_allowedpdusessionstatus msg) 0x25),
      opt (rgreq_presence msg AND 0x2000 = 0x2000) (encode_ues_usage_setting (rgreq_uesusagesetting msg) 0x18),
      opt (rgreq_presence msg AND 0x4000 = 0x4000) (encode__5gsdrx_parameters (rgreq_5gsdrxparameters msg) 0x51),
      opt (rgreq_presence msg AND 0x8000 = 0x8000) (encode_epsnas_message_container (rgreq_epsnasmessagecontainer msg) 0x70),
      opt (rgreq_presence msg AND 0x20000 = 0x20000) (encode_payload_container_type (rgreq_payloadcontainertype msg) 0x80),
      opt (rgreq_presence msg AND 0x40000 = 0x40000) (encode_payload_container (rgreq_payloadcontainer msg) 0x7B),
      opt (rgreq_presence msg AND 0x80000 = 0x80000) (encode_network_slicing_indication (rgreq_networkslicingindication msg) 0x90),
      opt (rgreq_presence msg AND 0x100000 = 0x100000) (encode__5gs_update_type (rgreq_5gsupdatetype msg) 0x53),
      opt (rgreq_presence msg AND 0x200000 = 0x200000) (encode_nas_message_container (rgreq_nasmessagecontainer msg) 0x71)]"

definition decode_registration_request :: "registration_request_msg msg_decoder" where
  "decode_registration_request = unchecked_decoder
     [dcall (\<lambda>f. decode__5gs_registration_type f 0) rgreq_5gsregistrationtype (\<lambda>v. rgreq_5gsregistrationtype_update (\<lambda>_. v)) (\<lambda>m. m),
      get_ksi rgreq_naskeysetidentifier (\<lambda>v. rgreq_naskeysetidentifier_update (\<lambda>_. v))]"

definition rgreq_valid :: "registration_request_msg \<Rightarrow> bool" where
  "rgreq_valid msg \<longleftrightarrow>
     (rgreq_presence msg AND 0x10 = 0x10 \<longrightarrow> tracking_area_valid (rgreq_5gstrackingareaidentity msg)) \<and>
     (rgreq_presence msg AND 0x8000 = 0x8000 \<longrightarrow> bstr_between 0 (rgreq_epsnasmessagecontainer msg)) \<and>
     (rgreq_presence msg AND 0x20000 = 0x20000 \<longrightarrow> (rgreq_payloadcontainertype msg) AND 0x0F = (rgreq_payloadcontainertype msg)) \<and>
     (rgreq_presence msg AND 0x40000 = 0x40000 \<longrightarrow> bstr_between 1 (rgreq_payloadcontainer msg)) \<and>
     (rgreq_presence msg AND 0x200000 = 0x200000 \<longrightarrow> bstr_between 1 (rgreq_nasmessagecontainer msg))"

definition rgreq_mand_wire :: "registration_request_msg \<Rightarrow> u8 list" where
  "rgreq_mand_wire msg = concat [registration_type_wire (rgreq_5gsregistrationtype msg) 0, ksi_wire (rgreq_naskeysetidentifier msg)]"

definition rgreq_opt_wire :: "registration_request_msg \<Rightarrow> u8 list" where
  "rgreq_opt_wire msg = concat
     [(if rgreq_presence msg AND 0x01 = 0x01 then key_set_wire (rgreq_non_current_native_nas_key_set_identifier msg) 0xC0 else []),
      (if rgreq_presence msg AND 0x02 = 0x02 then mm_capability_wire (rgreq_5gmmcapability msg) 0x10 else []),
      (if rgreq_presence msg AND 0x04 = 0x04 then ue_security_capability_wire (rgreq_uesecuritycapability msg) 0x2E else []),
      (if rgreq_presence msg AND 0x10 = 0x10 then tracking_area_wire (rgreq_5gstrackingareaidentity msg) 0x52 else []),
      (if rgreq_presence msg AND 0x20 = 0x20 then s1_ue_network_capability_wire (rgreq_s1uenetworkcapability msg) 0x17 else []),
      (if rgreq_presence msg AND 0x40 = 0x40 then uplink_data_status_wire (rgreq_uplinkdatastatus msg) 0x40 else []),
      (if rgreq_presence msg AND 0x100 = 0x100 then pdu_session_status_wire (rgreq_pdusessionstatus msg) 0x50 else []),
      (if rgreq_presence msg AND 0x200 = 0x200 then mico_wire (rgreq_micoindication msg) 0xB0 else []),
      (if rgreq_presence msg AND 0x400 = 0x400 then ue_status_wire (rgreq_uestatus msg) 0x2B else []),
      (if rgreq_presence msg AND 0x1000 = 0x1000 then allowed_pdu_session_status_wire (rgreq_allowedpdusessionstatus msg) 0x25 else []),
      (if rgreq_presence msg AND 0x2000 = 0x2000 then ues_usage_setting_wire (rgreq_uesusagesetting msg) 0x18 else []),
      (if rgreq_presence msg AND 0x4000 = 0x4000 then drx_wire (rgreq_5gsdrxparameters msg) 0x51 else []),
      (if rgreq_presence msg AND 0x8000 = 0x8000 then eap_wire (rgreq_epsnasmessagecontainer msg) 0x70 else []),
      (if rgreq_presence msg AND 0x20000 = 0x20000 then payload_container_type_wire (rgreq_payloadcontainertype msg) 0x80 else []),
      (if rgreq_presence msg AND 0x40000 = 0x40000 then eap_wire (rgreq_payloadcontainer msg) 0x7B else []),
      (if rgreq_presence msg AND 0x80000 = 0x80000 then slicing_wire (rgreq_networkslicingindication msg) 0x90 else []),
      (if rgreq_presence msg AND 0x100000 = 0x100000 then update_type_wire (rgreq_5gsupdatetype msg) 0x53 else []),
      (if rgreq_presence msg AND 0x200000 = 0x200000 then eap_wire (rgreq_nasmessagecontainer msg) 0x71 else [])]"

definition rgreq_wire :: "registration_request_msg \<Rightarrow> u8 list" where
  "rgreq_wire msg = rgreq_mand_wire msg @ rgreq_opt_wire msg"

definition rgreq_mand_seen :: "registration_request_msg \<Rightarrow> registration_request_msg \<Rightarrow> registration_request_msg" where
  "rgreq_mand_seen m msg = m\<lparr>rgreq_5gsregistrationtype := (rgreq_5gsregistrationtype msg)\<lparr>registration_type := registration_type (rgreq_5gsregistrationtype msg) AND 7\<rparr>, rgreq_naskeysetidentifier := rgreq_naskeysetidentifier msg\<rparr>"

definition rgreq_seen :: "registration_request_msg \<Rightarrow> registration_request_msg \<Rightarrow> registration_request_msg" where
  "rgreq_seen m msg = rgreq_mand_seen m msg"

lemma encode_registration_request_ok:
  assumes "rgreq_valid msg"
  shows "encodes_from 71 (encode_registration_request msg) (rgreq_wire msg)"
  unfolding encode_registration_request_def
  by (rule encodes_from_to, ((rule emits_from_Nil mm_emits mm_emits_opt emits_from_Cons
      | (simp del: One_nat_def add: assms [unfolded rgreq_valid_def] mm_rooms; fail) | (simp add: mm_lengths; fail))+)[1],
      simp only: rgreq_wire_def rgreq_mand_wire_def rgreq_opt_wire_def concat.simps append.simps append_assoc append_Nil append_Nil2)

lemma rgreq_mreads: "mreads [dcall (\<lambda>f. decode__5gs_registration_type f 0) rgreq_5gsregistrationtype (\<lambda>v. rgreq_5gsregistrationtype_update (\<lambda>_. v)) (\<lambda>m. m), get_ksi rgreq_naskeysetidentifier (\<lambda>v. rgreq_naskeysetidentifier_update (\<lambda>_. v))] (rgreq_mand_wire msg) m (rgreq_mand_seen m msg)"
  unfolding rgreq_mand_wire_def concat.simps
  by (rule mreads_to, (rule mm_mreads TrueI)+, simp add: rgreq_mand_seen_def)

text \<open>The decoder returns behind the mandatory elements, whatever follows them.\<close>

lemma length_rgreq_mand_wire: "length (rgreq_mand_wire msg) = 2"
  by (simp add: rgreq_mand_wire_def mm_lengths)

lemma decode_registration_request_wire:
  assumes "2 \<le> unat len"
  shows "decode_registration_request m (Some (rgreq_mand_wire msg @ rest)) len = Some (Returned 2 (rgreq_seen m msg))"
  using mreadsD [OF rgreq_mreads [where m = m and msg = msg], where pre = "[]" and len = len and rest = rest] assms
  by (simp add: decode_registration_request_def unchecked_decoder_def rgreq_seen_def length_rgreq_mand_wire)

subsection \<open>Registration accept\<close>

record registration_accept_msg =
  rgacc_5gsregistrationresult :: RegistrationResult
  rgacc_presence :: u32
  rgacc_plmnlist :: "PLMN list"
  rgacc_5gstrackingareaidentitylist :: FiveGSTrackingAreaIdentityList
  rgacc_5gsnetworkfeaturesupport :: NetworkFeatureSupport
  rgacc_pdusessionstatus :: u16
  rgacc_pdusessionreactivationresult :: u16
  rgacc_pdusessionreactivationresulterrorcause :: PDUSessionReactivationResultErrorCause
  rgacc_micoindication :: MICOIndication
  rgacc_networkslicingindication :: NetworkSlicingIndication
  rgacc_servicearealist :: ServiceAreaList
  rgacc_t3512 :: GPRSTimer
  rgacc_non_3gpp_deregistration_timer :: u8
  rgacc_t3502 :: u8
  rgacc_eapmessage :: bstring
  rgacc_nssaiinclusionmode :: u8
  rgacc_5gsdrxparameters :: u8

definition encode_registration_accept :: "registration_accept_msg \<Rightarrow> encoder" where
  "encode_registration_accept msg = encoder_body 110
     [call (encode__5gs_registration_result (rgacc_5gsregistrationresult msg) 0),
      opt (rgacc_presence msg AND 0x02 = 0x02) (encode_plmn_list (rgacc_plmnlist msg) 0x4A),
      opt (rgacc_presence msg AND 0x04 = 0x04) (encode__5gs_tracking_area_identity_list (rgacc_5gstrackingareaidentitylist msg) 0x54),
      opt (rgacc_presence msg AND 0x40 = 0x40) (encode__5gs_network_feature_support (rgacc_5gsnetworkfeaturesupport msg) 0x21),
      opt (rgacc_presence msg AND 0x80 = 0x80) (encode_pdu_session_status (rgacc_pdusessionstatus msg) 0x50),
      opt (rgacc_presence msg AND 0x100 = 0x100) (encode_pdu_session_reactivation_result (rgacc_pdusessionreactivationresult msg) 0x26),
      opt (rgacc_presence msg AND 0x200 = 0x200) (encode_pdu_session_reactivation_result_error_cause (rgacc_pdusessionreactivationresulterrorcause msg) 0x72),
      opt (rgacc_presence msg AND 0x800 = 0x800) (encode_mico_indication (rgacc_micoindication msg) 0xB0),
      opt (rgacc_presence msg AND 0x1000 = 0x1000) (encode_network_slicing_indication (rgacc_networkslicingindication msg) 0x90),
      opt (rgacc_presence msg AND 0x2000 = 0x2000) (encode_service_area_list (rgacc_servicearealist msg) 0x27),
      opt (rgacc_presence msg AND 0x4000 = 0x4000) (encode_gprs_timer3 (rgacc_t3512 msg) 0x5E),
      opt (rgacc_presence msg AND 0x8000 = 0x8000) (encode_gprs_timer2 (rgacc_non_3gpp_deregistration_timer msg) 0x5D),
      opt (rgacc_presence msg AND 0x10000 = 0x10000) (encode_gprs_timer2 (rgacc_t3502 msg) 0x16),
      opt (rgacc_presence msg AND 0x100000 = 0x100000) (encode_eap_message (rgacc_eapmessage msg) 0x78),
      opt (rgacc_presence msg AND 0x200000 = 0x200000) (encode_nssai_inclusion_mode (rgacc_nssaiinclusionmode msg) 0xA0),
      opt (rgacc_presence msg AND 0x800000 = 0x800000) (encode__5gsdrx_parameters (rgacc_5gsdrxparameters msg) 0x51)]"

definition rgacc_half :: "(u8 \<times> registration_accept_msg dcmd) list" where
  "rgacc_half =
     [(0xB0, dcall (\<lambda>f. decode_mico_indication f 0xB0) rgacc_micoindication (\<lambda>v. rgacc_micoindication_update (\<lambda>_. v)) (rgacc_presence_update (\<lambda>p. p OR 0x800))),
      (0x90, dcall (\<lambda>f. decode_network_slicing_indication f 0x90) rgacc_networkslicingindication (\<lambda>v. rgacc_networkslicingindication_update (\<lambda>_. v)) (rgacc_presence_update (\<lambda>p. p OR 0x1000))),
      (0xA0, dcall (\<lambda>f. decode_nssai_inclusion_mode f 0xA0) rgacc_nssaiinclusionmode (\<lambda>v. rgacc_nssaiinclusionmode_update (\<lambda>_. v)) (rgacc_presence_update (\<lambda>p. p OR 0x200000)))]"

definition rgacc_full :: "(u8 \<times> registration_accept_msg dcmd) list" where
  "rgacc_full =
     [(0x4A, dcall (\<lambda>f. decode_plmn_list f 0x4A) rgacc_plmnlist (\<lambda>v. rgacc_plmnlist_update (\<lambda>_. v)) (rgacc_presence_update (\<lambda>p. p OR 0x02))),
      (0x54, dcall (\<lambda>f. decode__5gs_tracking_area_identity_list f 0x54) rgacc_5gstrackingareaidentitylist (\<lambda>v. rgacc_5gstrackingareaidentitylist_update (\<lambda>_. v)) (rgacc_presence_update (\<lambda>p. p OR 0x04))),
      (0x21, dcall (\<lambda>f. decode__5gs_network_feature_support f 0x21) rgacc_5gsnetworkfeaturesupport (\<lambda>v. rgacc_5gsnetworkfeaturesupport_update (\<lambda>_. v)) (rgacc_presence_update (\<lambda>p. p OR 0x40))),
      (0x50, dcall (\<lambda>f. decode_pdu_session_status f 0x50) rgacc_pdusessionstatus (\<lambda>v. rgacc_pdusessionstatus_update (\<lambda>_. v)) (rgacc_presence_update (\<lambda>p. p OR 0x80))),
      (0x26, dcall (\<lambda>f. decode_pdu_session_reactivation_result f 0x26) rgacc_pdusessionreactivationresult (\<lambda>v. rgacc_pdusessionreactivationresult_update (\<lambda>_. v)) (rgacc_presence_update (\<lambda>p. p OR 0x100))),
      (0x72, dcall (\<lambda>f. decode_pdu_session_reactivation_result_error_cause f 0x72) rgacc_pdusessionreactivationresulterrorcause (\<lambda>v. rgacc_pdusessionreactivationresulterrorcause_update (\<lambda>_. v)) (rgacc_presence_update (\<lambda>p. p OR 0x200))),
      (0x27, dcall (\<lambda>f. decode_service_area_list f 0x27) rgacc_servicearealist (\<lambda>v. rgacc_servicearealist_update (\<lambda>_. v)) (rgacc_presence_update (\<lambda>p. p OR 0x2000))),
      (0x5E, dcall (\<lambda>f. decode_gprs_timer3 f 0x5E) rgacc_t3512 (\<lambda>v. rgacc_t3512_update (\<lambda>_. v)) (rgacc_presence_update (\<lambda>p. p OR 0x4000))),
      (0x5D, dcall (\<lambda>f. decode_gprs_timer2 f 0x5D) rgacc_non_3gpp_deregistration_timer (\<lambda>v. rgacc_non_3gpp_deregistration_timer_update (\<lambda>_. v)) (rgacc_presence_update (\<lambda>p. p OR 0x8000))),
      (0x16, dcall (\<lambda>f. decode_gprs_timer2 f 0x16) rgacc_t3502 (\<lambda>v. rgacc_t3502_update (\<lambda>_. v)) (rgacc_presence_update (\<lambda>p. p OR 0x10000))),
      (0x78, dcall (\<lambda>f. decode_eap_message f 0x78) rgacc_eapmessage (\<lambda>v. rgacc_eapmessage_update (\<lambda>_. v)) (rgacc_presence_update (\<lambda>p. p OR 0x100000))),
      (0x51, dcall (\<lambda>f. decode__5gsdrx_parameters f 0x51) rgacc_5gsdrxparameters (\<lambda>v. rgacc_5gsdrxparameters_update (\<lambda>_. v)) (rgacc_presence_update (\<lambda>p. p OR 0x800000)))]"

definition decode_registration_accept :: "registration_accept_msg msg_decoder" where
  "decode_registration_accept = msg_decoder 110
     [dcall (\<lambda>f. decode__5gs_registration_result f 0) rgacc_5gsregistrationresult (\<lambda>v. rgacc_5gsregistrationresult_update (\<lambda>_. v)) (\<lambda>m. m)]
     (ie_step rgacc_half rgacc_full)"

definition rgacc_valid :: "registration_accept_msg \<Rightarrow> bool" where
  "rgacc_valid msg \<longleftrightarrow>
     (rgacc_presence msg AND 0x02 = 0x02 \<longrightarrow> plmn_list_valid (rgacc_plmnlist msg)) \<and>
     (rgacc_presence msg AND 0x04 = 0x04 \<longrightarrow> tai_list_fits (rgacc_5gstrackingareaidentitylist msg)) \<and>
     (rgacc_presence msg AND 0x200 = 0x200 \<longrightarrow> error_cause_valid (rgacc_pdusessionreactivationresulterrorcause msg)) \<and>
     (rgacc_presence msg AND 0x2000 = 0x2000 \<longrightarrow> service_area_fits (rgacc_servicearealist msg)) \<and>
     (rgacc_presence msg AND 0x100000 = 0x100000 \<longrightarrow> eap_valid (rgacc_eapmessage msg)) \<and>
     (rgacc_presence msg AND 0x200000 = 0x200000 \<longrightarrow> (rgacc_nssaiinclusionmode msg) AND 0x0F = (rgacc_nssaiinclusionmode msg))"

definition rgacc_mand_wire :: "registration_accept_msg \<Rightarrow> u8 list" where
  "rgacc_mand_wire msg = concat [registration_result_wire (rgacc_5gsregistrationresult msg) 0]"

definition rgacc_opt_wire :: "registration_accept_msg \<Rightarrow> u8 list" where
  "rgacc_opt_wire msg = concat
     [(if rgacc_presence msg AND 0x02 = 0x02 then plmn_list_wire (rgacc_plmnlist msg) 0x4A else []),
      (if rgacc_presence msg AND 0x04 = 0x04 then tai_list_wire (rgacc_5gstrackingareaidentitylist msg) 0x54 else []),
      (if rgacc_presence msg AND 0x40 = 0x40 then feature_support_wire (rgacc_5gsnetworkfeaturesupport msg) 0x21 else []),
      (if rgacc_presence msg AND 0x80 = 0x80 then pdu_session_status_wire (rgacc_pdusessionstatus msg) 0x50 else []),
      (if rgacc_presence msg AND 0x100 = 0x100 then reactivation_result_wire (rgacc_pdusessionreactivationresult msg) 0x26 else []),
      (if rgacc_presence msg AND 0x200 = 0x200 then error_cause_wire (rgacc_pdusessionreactivationresulterrorcause msg) 0x72 else []),
      (if rgacc_presence msg AND 0x800 = 0x800 then mico_wire (rgacc_micoindication msg) 0xB0 else []),
      (if rgacc_presence msg AND 0x1000 = 0x1000 then slicing_wire (rgacc_networkslicingindication msg) 0x90 else []),
      (if rgacc_presence msg AND 0x2000 = 0x2000 then service_area_wire (rgacc_servicearealist msg) 0x27 else []),
      (if rgacc_presence msg AND 0x4000 = 0x4000 then gprs_timer3_wire (rgacc_t3512 msg) 0x5E else []),
      (if rgacc_presence msg AND 0x8000 = 0x8000 then gprs_timer2_wire (rgacc_non_3gpp_deregistration_timer msg) 0x5D else []),
      (if rgacc_presence msg AND 0x10000 = 0x10000 then gprs_timer2_wire (rgacc_t3502 msg) 0x16 else []),
      (if rgacc_presence msg AND 0x100000 = 0x100000 then eap_wire (rgacc_eapmessage msg) 0x78 else []),
      (if rgacc_presence msg AND 0x200000 = 0x200000 then nssai_inclusion_mode_wire (rgacc_nssaiinclusionmode msg) 0xA0 else []),
      (if rgacc_presence msg AND 0x800000 = 0x800000 then drx_wire (rgacc_5gsdrxparameters msg) 0x51 else [])]"

definition rgacc_wire :: "registration_accept_msg \<Rightarrow> u8 list" where
  "rgacc_wire msg = rgacc_mand_wire msg @ rgacc_opt_wire msg"

definition rgacc_mand_seen :: "registration_accept_msg \<Rightarrow> registration_accept_msg \<Rightarrow> registration_accept_msg" where
  "rgacc_mand_seen m msg = m\<lparr>rgacc_5gsregistrationresult := rgacc_5gsregistrationresult msg\<rparr>"

definition rgacc_opt_seen :: "registration_accept_msg \<Rightarrow> registration_accept_msg \<Rightarrow> registration_accept_msg" where
  "rgacc_opt_seen m msg = updates
     [when_present (rgacc_presence msg AND 0x02 = 0x02)
        (\<lambda>m. rgacc_presence_update (\<lambda>p. p OR 0x02) (m\<lparr>rgacc_plmnlist := rgacc_plmnlist msg\<rparr>)),
      when_present (rgacc_presence msg AND 0x04 = 0x04)
        (\<lambda>m. rgacc_presence_update (\<lambda>p. p OR 0x04) (m\<lparr>rgacc_5gstrackingareaidentitylist := rgacc_5gstrackingareaidentitylist msg\<rparr>)),
      when_present (rgacc_presence msg AND 0x40 = 0x40)
        (\<lambda>m. rgacc_presence_update (\<lambda>p. p OR 0x40) (m\<lparr>rgacc_5gsnetworkfeaturesupport := rgacc_5gsnetworkfeaturesupport msg\<rparr>)),
      when_present (rgacc_presence msg AND 0x80 = 0x80)
        (\<lambda>m. rgacc_presence_update (\<lambda>p. p OR 0x80) (m\<lparr>rgacc_pdusessionstatus := rgacc_pdusessionstatus msg\<rparr>)),
      when_present (rgacc_presence msg AND 0x100 = 0x100)
        (\<lambda>m. rgacc_presence_update (\<lambda>p. p OR 0x100) (m\<lparr>rgacc_pdusessionreactivationresult := rgacc_pdusessionreactivationresult msg\<rparr>)),
      when_present (rgacc_presence msg AND 0x200 = 0x200)
        (\<lambda>m. rgacc_presence_update (\<lambda>p. p OR 0x200) (m\<lparr>rgacc_pdusessionreactivationresulterrorcause := rgacc_pdusessionreactivationresulterrorcause msg\<rparr>)),
      when_present (rgacc_presence msg AND 0x800 = 0x800)
        (\<lambda>m. rgacc_presence_update (\<lambda>p. p OR 0x800) (m\<lparr>rgacc_micoindication := mico_seen (rgacc_micoindication m) (rgacc_micoindication msg)\<rparr>)),
      when_present (rgacc_presence msg AND 0x1000 = 0x1000)
        (\<lambda>m. rgacc_presence_update (\<lambda>p. p OR 0x1000) (m\<lparr>rgacc_networkslicingindication := rgacc_networkslicingindication msg\<rparr>)),
      when_present (rgacc_presence msg AND 0x2000 = 0x2000)
        (\<lambda>m. rgacc_presence_update (\<lambda>p. p OR 0x2000) (m\<lparr>rgacc_servicearealist := service_area_seen (rgacc_servicearealist msg)\<rparr>)),
      when_present (rgacc_presence msg AND 0x4000 = 0x4000)
        (\<lambda>m. rgacc_presence_update (\<lambda>p. p OR 0x4000) (m\<lparr>rgacc_t3512 := rgacc_t3512 msg\<rparr>)),
      when_present (rgacc_presence msg AND 0x8000 = 0x8000)
        (\<lambda>m. rgacc_presence_update (\<lambda>p. p OR 0x8000) (m\<lparr>rgacc_non_3gpp_deregistration_timer := rgacc_non_3gpp_deregistration_timer msg\<rparr>)),
      when_present (rgacc_presence msg AND 0x10000 = 0x10000)
        (\<lambda>m. rgacc_presence_update (\<lambda>p. p OR 0x10000) (m\<lparr>rgacc_t3502 := rgacc_t3502 msg\<rparr>)),
      when_present (rgacc_presence msg AND 0x100000 = 0x100000)
        (\<lambda>m. rgacc_presence_update (\<lambda>p. p OR 0x100000) (m\<lparr>rgacc_eapmessage := Some (bstr (rgacc_eapmessage msg))\<rparr>)),
      when_present (rgacc_presence msg AND 0x200000 = 0x200000)
        (\<lambda>m. rgacc_presence_update (\<lambda>p. p OR 0x200000) (m\<lparr>rgacc_nssaiinclusionmode := rgacc_nssaiinclusionmode msg\<rparr>)),
      when_present (rgacc_presence msg AND 0x800000 = 0x800000)
        (\<lambda>m. rgacc_presence_update (\<lambda>p. p OR 0x800000) (m\<lparr>rgacc_5gsdrxparameters := rgacc_5gsdrxparameters msg\<rparr>))] m"

definition rgacc_seen :: "registration_accept_msg \<Rightarrow> registration_accept_msg \<Rightarrow> registration_accept_msg" where
  "rgacc_seen m msg = rgacc_opt_seen (rgacc_mand_seen m msg) msg"

lemma encode_registration_accept_ok:
  assumes "rgacc_valid msg"
  shows "encodes_from 110 (encode_registration_accept msg) (rgacc_wire msg)"
  unfolding encode_registration_accept_def
  by (rule encodes_from_to, ((rule emits_from_Nil mm_emits mm_emits_opt emits_from_Cons
      | (simp del: One_nat_def add: assms [unfolded rgacc_valid_def] mm_rooms; fail) | (simp add: mm_lengths; fail))+)[1],
      simp only: rgacc_wire_def rgacc_mand_wire_def rgacc_opt_wire_def concat.simps append.simps append_assoc append_Nil append_Nil2)

lemma rgacc_mreads:
  assumes "rgacc_valid msg"
  shows "mreads [dcall (\<lambda>f. decode__5gs_registration_result f 0) rgacc_5gsregistrationresult (\<lambda>v. rgacc_5gsregistrationresult_update (\<lambda>_. v)) (\<lambda>m. m)] (rgacc_mand_wire msg) m (rgacc_mand_seen m msg)"
  unfolding rgacc_mand_wire_def concat.simps
  by (rule mreads_to, (rule mm_mreads TrueI | (simp del: One_nat_def add: assms [unfolded rgacc_valid_def] mm_rooms; fail) | (simp add: mm_lengths; fail))+, simp add: rgacc_mand_seen_def)

lemma rgacc_reads:
  assumes "rgacc_valid msg"
  shows "reads (ie_step rgacc_half rgacc_full) (rgacc_opt_wire msg) m (rgacc_opt_seen m msg)"
  unfolding rgacc_half_def rgacc_full_def rgacc_opt_wire_def concat.simps
  by (rule reads_to, ((rule reads_Nil drx.reads_full eap.reads_full error_cause.reads_full feature_support.reads_full gprs_timer2.reads_full gprs_timer3.reads_full mico.reads_half nssai_inclusion_mode.reads_half pdu_session_status.reads_full plmn_list.reads_full reactivation_result.reads_full service_area.reads_full slicing.reads_half tai_list.reads_full switch_here TrueI mm_half_single | (rule switch_there, simp; fail)
      | (rule full_wire mm_full_wire, simp; fail) | (rule mm_half_hd, simp; fail) | (simp; fail) | (simp del: One_nat_def add: assms [unfolded rgacc_valid_def] mm_rooms; fail))+)[1])
    (simp only: rgacc_opt_seen_def updates.simps)

lemma decode_registration_accept_wire:
  assumes "rgacc_valid msg" and "110 \<le> length (rgacc_wire msg)" and "unat len = length (rgacc_wire msg)"
  shows "decode_registration_accept m (Some (rgacc_wire msg @ rest)) len
       = Some (Returned (int (length (rgacc_wire msg))) (rgacc_seen m msg))"
  using msg_decoder_reads [OF rgacc_mreads [OF assms(1)] rgacc_reads [OF assms(1)], of 110 len m rest] assms(2,3)
  by (simp add: decode_registration_accept_def rgacc_wire_def rgacc_seen_def)

lemma decode_registration_accept_unknown:
  assumes "rgacc_valid msg" and "iei \<noteq> 0" and "iei AND 0xF0 \<notin> set (map fst rgacc_half)"
    and "iei \<notin> set (map fst rgacc_full)" and "110 \<le> unat len" and "length (rgacc_wire msg) < unat len"
  shows "decode_registration_accept m (Some (rgacc_wire msg @ iei # rest)) len = None"
  using msg_decoder_unknown [OF rgacc_mreads [OF assms(1)] rgacc_reads [OF assms(1)] assms(2,3,4,5), of m rest] assms(6)
  by (simp add: decode_registration_accept_def rgacc_wire_def)

subsection \<open>Registration complete\<close>

record registration_complete_msg =
  rgcpl_extendedprotocoldiscriminator :: u8
  rgcpl_securityheadertype :: u8
  rgcpl_messagetype :: u8
  rgcpl_sortransparentcontainer :: SORTransparentContainer

definition encode_registration_complete :: "registration_complete_msg \<Rightarrow> encoder" where
  "encode_registration_complete msg = encoder_body 23
     [call (encode_extended_protocol_discriminator (rgcpl_extendedprotocoldiscriminator msg) 0),
      call (encode_security_header_type (rgcpl_securityheadertype msg) 0),
      call (encode_message_type (rgcpl_messagetype msg) 0),
      call (encode_sor_transparent_container (rgcpl_sortransparentcontainer msg) 0)]"

definition decode_registration_complete :: "registration_complete_msg msg_decoder" where
  "decode_registration_complete = plain_decoder 23
     [dcall (\<lambda>f. decode_extended_protocol_discriminator f 0) rgcpl_extendedprotocoldiscriminator (\<lambda>v. rgcpl_extendedprotocoldiscriminator_update (\<lambda>_. v)) (\<lambda>m. m),
      dcall (\<lambda>f. decode_security_header_type f 0) rgcpl_securityheadertype (\<lambda>v. rgcpl_securityheadertype_update (\<lambda>_. v)) (\<lambda>m. m),
      dcall (\<lambda>f. decode_message_type f 0) rgcpl_messagetype (\<lambda>v. rgcpl_messagetype_update (\<lambda>_. v)) (\<lambda>m. m),
      dcall (\<lambda>f. decode_sor_transparent_container f 0) rgcpl_sortransparentcontainer (\<lambda>v. rgcpl_sortransparentcontainer_update (\<lambda>_. v)) (\<lambda>m. m)]"

definition rgcpl_mand_wire :: "registration_complete_msg \<Rightarrow> u8 list" where
  "rgcpl_mand_wire msg = concat [octet_wire (rgcpl_securityheadertype msg) 0, sor_wire (rgcpl_sortransparentcontainer msg) 0]"

definition rgcpl_wire :: "registration_complete_msg \<Rightarrow> u8 list" where
  "rgcpl_wire msg = rgcpl_mand_wire msg"

definition rgcpl_mand_seen :: "registration_complete_msg \<Rightarrow> registration_complete_msg \<Rightarrow> registration_complete_msg" where
  "rgcpl_mand_seen m msg = m\<lparr>rgcpl_securityheadertype := rgcpl_securityheadertype msg, rgcpl_sortransparentcontainer := rgcpl_sortransparentcontainer msg\<rparr>"

definition rgcpl_seen :: "registration_complete_msg \<Rightarrow> registration_complete_msg \<Rightarrow> registration_complete_msg" where
  "rgcpl_seen m msg = rgcpl_mand_seen m msg"

lemma encode_registration_complete_ok: "encodes_from 23 (encode_registration_complete msg) (rgcpl_wire msg)"
  unfolding encode_registration_complete_def
  by (rule encodes_from_to, ((rule emits_from_Nil nothing_emits encodes_from_call [OF mobile_identity_encodes] mm_emits mm_emits_opt emits_from_Cons
      | (simp del: One_nat_def add: mm_rooms; fail) | (simp add: mm_lengths; fail))+)[1],
      simp only: rgcpl_wire_def rgcpl_mand_wire_def concat.simps append.simps append_assoc append_Nil append_Nil2)

lemma rgcpl_mreads: "mreads [dcall (\<lambda>f. decode_extended_protocol_discriminator f 0) rgcpl_extendedprotocoldiscriminator (\<lambda>v. rgcpl_extendedprotocoldiscriminator_update (\<lambda>_. v)) (\<lambda>m. m), dcall (\<lambda>f. decode_security_header_type f 0) rgcpl_securityheadertype (\<lambda>v. rgcpl_securityheadertype_update (\<lambda>_. v)) (\<lambda>m. m), dcall (\<lambda>f. decode_message_type f 0) rgcpl_messagetype (\<lambda>v. rgcpl_messagetype_update (\<lambda>_. v)) (\<lambda>m. m), dcall (\<lambda>f. decode_sor_transparent_container f 0) rgcpl_sortransparentcontainer (\<lambda>v. rgcpl_sortransparentcontainer_update (\<lambda>_. v)) (\<lambda>m. m)] (rgcpl_mand_wire msg) m (rgcpl_mand_seen m msg)"
proof -
  have "mreads [dcall (\<lambda>f. decode_extended_protocol_discriminator f 0) rgcpl_extendedprotocoldiscriminator (\<lambda>v. rgcpl_extendedprotocoldiscriminator_update (\<lambda>_. v)) (\<lambda>m. m), dcall (\<lambda>f. decode_security_header_type f 0) rgcpl_securityheadertype (\<lambda>v. rgcpl_securityheadertype_update (\<lambda>_. v)) (\<lambda>m. m), dcall (\<lambda>f. decode_message_type f 0) rgcpl_messagetype (\<lambda>v. rgcpl_messagetype_update (\<lambda>_. v)) (\<lambda>m. m), dcall (\<lambda>f. decode_sor_transparent_container f 0) rgcpl_sortransparentcontainer (\<lambda>v. rgcpl_sortransparentcontainer_update (\<lambda>_. v)) (\<lambda>m. m)]
      ([] @ octet_wire (rgcpl_securityheadertype msg) 0 @ [] @ sor_wire (rgcpl_sortransparentcontainer msg) 0) m (rgcpl_mand_seen m msg)"
    by (rule mreads_to, (rule nothing_mreads mm_mreads TrueI)+, simp add: rgcpl_mand_seen_def)
  then show ?thesis by (simp add: rgcpl_mand_wire_def)
qed

lemma decode_registration_complete_wire:
  assumes "23 \<le> unat len" and "length (rgcpl_wire msg) \<le> unat len"
  shows "decode_registration_complete m (Some (rgcpl_wire msg @ rest)) len
       = Some (Returned (int (length (rgcpl_wire msg))) (rgcpl_seen m msg))"
  using plain_decoder_reads [OF rgcpl_mreads [where m = m and msg = msg] assms(1), where rest = rest] assms(2)
  by (simp add: decode_registration_complete_def rgcpl_wire_def rgcpl_seen_def)

subsection \<open>Registration reject\<close>

record registration_reject_msg =
  rgrej_5gmmcause :: u8
  rgrej_presence :: u8
  rgrej_t3346 :: u8
  rgrej_t3502 :: u8
  rgrej_eapmessage :: bstring

definition encode_registration_reject :: "registration_reject_msg \<Rightarrow> encoder" where
  "encode_registration_reject msg = encoder_body 15
     [call (encode__5gmm_cause (rgrej_5gmmcause msg) 0),
      opt (rgrej_presence msg AND 0x01 = 0x01) (encode_gprs_timer2 (rgrej_t3346 msg) 0x5F),
      opt (rgrej_presence msg AND 0x02 = 0x02) (encode_gprs_timer2 (rgrej_t3502 msg) 0x16),
      opt (rgrej_presence msg AND 0x04 = 0x04) (encode_eap_message (rgrej_eapmessage msg) 0x78)]"

definition rgrej_half :: "(u8 \<times> registration_reject_msg dcmd) list" where
  "rgrej_half =
     []"

definition rgrej_full :: "(u8 \<times> registration_reject_msg dcmd) list" where
  "rgrej_full =
     [(0x5F, dcall (\<lambda>f. decode_gprs_timer2 f 0x5F) rgrej_t3346 (\<lambda>v. rgrej_t3346_update (\<lambda>_. v)) (rgrej_presence_update (\<lambda>p. p OR 0x01))),
      (0x16, dcall (\<lambda>f. decode_gprs_timer2 f 0x16) rgrej_t3502 (\<lambda>v. rgrej_t3502_update (\<lambda>_. v)) (rgrej_presence_update (\<lambda>p. p OR 0x02))),
      (0x78, dcall (\<lambda>f. decode_eap_message f 0x78) rgrej_eapmessage (\<lambda>v. rgrej_eapmessage_update (\<lambda>_. v)) (rgrej_presence_update (\<lambda>p. p OR 0x04)))]"

definition rgrej_stop :: "u8 \<Rightarrow> bool" where
  "rgrej_stop iei \<longleftrightarrow> iei \<noteq> 0x5F \<and> iei \<noteq> 0x16 \<and> iei \<noteq> 0x78"

definition decode_registration_reject :: "registration_reject_msg msg_decoder" where
  "decode_registration_reject = msg_decoder_until rgrej_stop 15
     [dcall (\<lambda>f. decode__5gmm_cause f 0) rgrej_5gmmcause (\<lambda>v. rgrej_5gmmcause_update (\<lambda>_. v)) (\<lambda>m. m)]
     (ie_step rgrej_half rgrej_full)"

definition rgrej_valid :: "registration_reject_msg \<Rightarrow> bool" where
  "rgrej_valid msg \<longleftrightarrow>
     (rgrej_presence msg AND 0x04 = 0x04 \<longrightarrow> eap_valid (rgrej_eapmessage msg))"

definition rgrej_mand_wire :: "registration_reject_msg \<Rightarrow> u8 list" where
  "rgrej_mand_wire msg = concat [mm_cause_wire (rgrej_5gmmcause msg) 0]"

definition rgrej_opt_wire :: "registration_reject_msg \<Rightarrow> u8 list" where
  "rgrej_opt_wire msg = concat
     [(if rgrej_presence msg AND 0x01 = 0x01 then gprs_timer2_wire (rgrej_t3346 msg) 0x5F else []),
      (if rgrej_presence msg AND 0x02 = 0x02 then gprs_timer2_wire (rgrej_t3502 msg) 0x16 else []),
      (if rgrej_presence msg AND 0x04 = 0x04 then eap_wire (rgrej_eapmessage msg) 0x78 else [])]"

definition rgrej_wire :: "registration_reject_msg \<Rightarrow> u8 list" where
  "rgrej_wire msg = rgrej_mand_wire msg @ rgrej_opt_wire msg"

definition rgrej_mand_seen :: "registration_reject_msg \<Rightarrow> registration_reject_msg \<Rightarrow> registration_reject_msg" where
  "rgrej_mand_seen m msg = m\<lparr>rgrej_5gmmcause := rgrej_5gmmcause msg\<rparr>"

definition rgrej_opt_seen :: "registration_reject_msg \<Rightarrow> registration_reject_msg \<Rightarrow> registration_reject_msg" where
  "rgrej_opt_seen m msg = updates
     [when_present (rgrej_presence msg AND 0x01 = 0x01)
        (\<lambda>m. rgrej_presence_update (\<lambda>p. p OR 0x01) (m\<lparr>rgrej_t3346 := rgrej_t3346 msg\<rparr>)),
      when_present (rgrej_presence msg AND 0x02 = 0x02)
        (\<lambda>m. rgrej_presence_update (\<lambda>p. p OR 0x02) (m\<lparr>rgrej_t3502 := rgrej_t3502 msg\<rparr>)),
      when_present (rgrej_presence msg AND 0x04 = 0x04)
        (\<lambda>m. rgrej_presence_update (\<lambda>p. p OR 0x04) (m\<lparr>rgrej_eapmessage := Some (bstr (rgrej_eapmessage msg))\<rparr>))] m"

definition rgrej_seen :: "registration_reject_msg \<Rightarrow> registration_reject_msg \<Rightarrow> registration_reject_msg" where
  "rgrej_seen m msg = rgrej_opt_seen (rgrej_mand_seen m msg) msg"

lemma encode_registration_reject_ok:
  assumes "rgrej_valid msg"
  shows "encodes_from 15 (encode_registration_reject msg) (rgrej_wire msg)"
  unfolding encode_registration_reject_def
  by (rule encodes_from_to, ((rule emits_from_Nil mm_emits mm_emits_opt emits_from_Cons
      | (simp del: One_nat_def add: assms [unfolded rgrej_valid_def] mm_rooms; fail) | (simp add: mm_lengths; fail))+)[1],
      simp only: rgrej_wire_def rgrej_mand_wire_def rgrej_opt_wire_def concat.simps append.simps append_assoc append_Nil append_Nil2)

lemma rgrej_mreads:
  assumes "rgrej_valid msg"
  shows "mreads [dcall (\<lambda>f. decode__5gmm_cause f 0) rgrej_5gmmcause (\<lambda>v. rgrej_5gmmcause_update (\<lambda>_. v)) (\<lambda>m. m)] (rgrej_mand_wire msg) m (rgrej_mand_seen m msg)"
  unfolding rgrej_mand_wire_def concat.simps
  by (rule mreads_to, (rule mm_mreads TrueI | (simp del: One_nat_def add: assms [unfolded rgrej_valid_def] mm_rooms; fail) | (simp add: mm_lengths; fail))+, simp add: rgrej_mand_seen_def)

lemma rgrej_reads:
  assumes "rgrej_valid msg"
  shows "reads_until rgrej_stop (ie_step rgrej_half rgrej_full) (rgrej_opt_wire msg) m (rgrej_opt_seen m msg)"
  unfolding rgrej_half_def rgrej_full_def rgrej_opt_wire_def concat.simps
  by (rule until_to, ((rule mm_until switch_here TrueI | (rule switch_there, simp; fail)
      | (rule full_wire mm_full_wire, simp; fail) | (simp del: One_nat_def add: assms [unfolded rgrej_valid_def] rgrej_stop_def mm_rooms; fail))+)[1])
    (simp only: rgrej_opt_seen_def updates.simps)

lemma decode_registration_reject_wire:
  assumes "rgrej_valid msg" and "15 \<le> length (rgrej_wire msg)" and "unat len = length (rgrej_wire msg)"
  shows "decode_registration_reject m (Some (rgrej_wire msg @ rest)) len
       = Some (Returned (int (length (rgrej_wire msg))) (rgrej_seen m msg))"
  using msg_decoder_until_reads [OF rgrej_mreads [OF assms(1)] rgrej_reads [OF assms(1)], of 15 len m rest] assms(2,3)
  by (simp add: decode_registration_reject_def rgrej_wire_def rgrej_seen_def)

lemma decode_registration_reject_stops:
  assumes "rgrej_valid msg" and "rgrej_stop iei" and "15 \<le> unat len" and "length (rgrej_wire msg) < unat len"
  shows "decode_registration_reject m (Some (rgrej_wire msg @ iei # rest)) len
       = Some (Returned (int (length (rgrej_wire msg))) (rgrej_seen m msg))"
  using msg_decoder_until_stops [OF rgrej_mreads [OF assms(1)] rgrej_reads [OF assms(1)] assms(2,3), of m rest] assms(4)
  by (simp add: decode_registration_reject_def rgrej_wire_def rgrej_seen_def)

end
