(* ===== verification/MM_Security.thy ===== *)
theory MM_Security
  imports MM_Registration
begin

text \<open>
  The identity and security mode messages (\<open>mm/msg/Identity*.c\<close>, \<open>SecurityMode*.c\<close>).
  For each message: its structure (without the header octets, which are in \<open>MM_msg\<close>, unless its codec
  accesses them), the encoder, the cases of the switches of the decoder's loop, the decoder, the wire format,
  what the decoder leaves in the structure it fills, and the lemmas: the encoder writes the wire format when
  the length it asks for is there, the decoder reads it back when it is at least that long, and an identifier
  the loop does not know makes it loop for ever or stop.
\<close>

subsection \<open>Identity request\<close>

record identity_request_msg =
  idreq_5gsidentitytype :: IdentityType

definition encode_identity_request :: "identity_request_msg \<Rightarrow> encoder" where
  "encode_identity_request msg = encoder_body 4
     [call (encode__5gs_identity_type (idreq_5gsidentitytype msg) 0)]"

definition decode_identity_request :: "identity_request_msg msg_decoder" where
  "decode_identity_request = plain_decoder 4
     [dcall (\<lambda>f. decode__5gs_identity_type f 0) idreq_5gsidentitytype (\<lambda>v. idreq_5gsidentitytype_update (\<lambda>_. v)) (\<lambda>m. m)]"

definition idreq_mand_wire :: "identity_request_msg \<Rightarrow> u8 list" where
  "idreq_mand_wire msg = concat [identity_type_wire (idreq_5gsidentitytype msg) 0]"

definition idreq_wire :: "identity_request_msg \<Rightarrow> u8 list" where
  "idreq_wire msg = idreq_mand_wire msg"

definition idreq_mand_seen :: "identity_request_msg \<Rightarrow> identity_request_msg \<Rightarrow> identity_request_msg" where
  "idreq_mand_seen m msg = m\<lparr>idreq_5gsidentitytype := idreq_5gsidentitytype msg\<rparr>"

definition idreq_seen :: "identity_request_msg \<Rightarrow> identity_request_msg \<Rightarrow> identity_request_msg" where
  "idreq_seen m msg = idreq_mand_seen m msg"

lemma encode_identity_request_ok: "encodes_from 4 (encode_identity_request msg) (idreq_wire msg)"
  unfolding encode_identity_request_def
  by (rule encodes_from_to, ((rule emits_from_Nil mm_emits mm_emits_opt emits_from_Cons
      | (simp del: One_nat_def add: mm_rooms; fail) | (simp add: mm_lengths; fail))+)[1],
      simp only: idreq_wire_def idreq_mand_wire_def concat.simps append.simps append_assoc append_Nil append_Nil2)

lemma idreq_mreads: "mreads [dcall (\<lambda>f. decode__5gs_identity_type f 0) idreq_5gsidentitytype (\<lambda>v. idreq_5gsidentitytype_update (\<lambda>_. v)) (\<lambda>m. m)] (idreq_mand_wire msg) m (idreq_mand_seen m msg)"
  unfolding idreq_mand_wire_def concat.simps
  by (rule mreads_to, (rule mm_mreads TrueI | (simp del: One_nat_def add: mm_rooms; fail) | (simp add: mm_lengths; fail))+, simp add: idreq_mand_seen_def)

lemma decode_identity_request_wire:
  assumes "4 \<le> unat len" and "length (idreq_wire msg) \<le> unat len"
  shows "decode_identity_request m (Some (idreq_wire msg @ rest)) len
       = Some (Returned (int (length (idreq_wire msg))) (idreq_seen m msg))"
  using plain_decoder_reads [OF idreq_mreads [where m = m and msg = msg] assms(1), where rest = rest] assms(2)
  by (simp add: decode_identity_request_def idreq_wire_def idreq_seen_def)

subsection \<open>Identity response\<close>

record identity_response_msg =
  idrsp_extendedprotocoldiscriminator :: u8
  idrsp_securityheadertype :: u8
  idrsp_messagetype :: u8
  idrsp_5gsmobileidentity :: FiveGSMobileIdentity

definition encode_identity_response :: "identity_response_msg \<Rightarrow> encoder" where
  "encode_identity_response msg = encoder_body 7
     [call (encode_extended_protocol_discriminator (idrsp_extendedprotocoldiscriminator msg) 0),
      call (encode_security_header_type (idrsp_securityheadertype msg) 0),
      call (encode_message_type (idrsp_messagetype msg) 0),
      call (encode__5gs_mobile_identity (idrsp_5gsmobileidentity msg) 0)]"

definition decode_identity_response :: "identity_response_msg msg_decoder" where
  "decode_identity_response = plain_decoder 7
     [dcall (\<lambda>f. decode_extended_protocol_discriminator f 0) idrsp_extendedprotocoldiscriminator (\<lambda>v. idrsp_extendedprotocoldiscriminator_update (\<lambda>_. v)) (\<lambda>m. m),
      dcall (\<lambda>f. decode_security_header_type f 0) idrsp_securityheadertype (\<lambda>v. idrsp_securityheadertype_update (\<lambda>_. v)) (\<lambda>m. m),
      dcall (\<lambda>f. decode_message_type f 0) idrsp_messagetype (\<lambda>v. idrsp_messagetype_update (\<lambda>_. v)) (\<lambda>m. m),
      dcall (\<lambda>f. decode__5gs_mobile_identity f 0) idrsp_5gsmobileidentity (\<lambda>v. idrsp_5gsmobileidentity_update (\<lambda>_. v)) (\<lambda>m. m)]"

definition idrsp_mand_wire :: "identity_response_msg \<Rightarrow> u8 list" where
  "idrsp_mand_wire msg = concat [octet_wire (idrsp_securityheadertype msg) 0, [0, 1]]"

definition idrsp_wire :: "identity_response_msg \<Rightarrow> u8 list" where
  "idrsp_wire msg = idrsp_mand_wire msg"

lemma encode_identity_response_ok: "encodes_from 7 (encode_identity_response msg) (idrsp_wire msg)"
  unfolding encode_identity_response_def
  by (rule encodes_from_to, ((rule emits_from_Nil nothing_emits encodes_from_call [OF mobile_identity_encodes] mm_emits mm_emits_opt emits_from_Cons
      | (simp del: One_nat_def add: mm_rooms; fail) | (simp add: mm_lengths; fail))+)[1],
      simp only: idrsp_wire_def idrsp_mand_wire_def concat.simps append.simps append_assoc append_Nil append_Nil2)

text \<open>The identity is left as it was.\<close>

lemma decode_identity_response_wire:
  assumes "7 \<le> unat len" and "7 \<le> length (idrsp_wire msg @ rest)"
  shows "decode_identity_response m (Some (idrsp_wire msg @ rest)) len
       = Some (Returned 3 (m\<lparr>idrsp_securityheadertype := idrsp_securityheadertype msg\<rparr>))"
proof -
  have "unat (len - 1) = unat len - 1" "unat (len - 3) = unat len - 3"
    using assms(1) unat_u32_minus_of_nat [of 1 len] unat_u32_minus_of_nat [of 3 len] by simp_all
  with assms show ?thesis
    by (simp add: decode_identity_response_def plain_decoder_def dcall_def idrsp_wire_def idrsp_mand_wire_def octet_wire_def
        decode_extended_protocol_discriminator_def decode_message_type_def decode_security_header_type_def
        decode__5gs_mobile_identity_def check_iei_def check_length_def word_less_nat_alt)
qed

subsection \<open>Security mode command\<close>

record security_mode_command_msg =
  smcmd_nassecurityalgorithms :: NASSecurityAlgorithms
  smcmd_naskeysetidentifier :: NASKeySetIdentifier
  smcmd_uesecuritycapability :: UESecurityCapability
  smcmd_presence :: u8
  smcmd_imeisvrequest :: u8
  smcmd_epsnassecurityalgorithms :: EPSNASSecurityAlgorithms
  smcmd_additional5gsecurityinformation :: Additional5GSecurityInformation
  smcmd_eapmessage :: bstring
  smcmd_abba :: bstring

definition encode_security_mode_command :: "security_mode_command_msg \<Rightarrow> encoder" where
  "encode_security_mode_command msg = encoder_body 30
     [call (encode_nas_security_algorithms (smcmd_nassecurityalgorithms msg) 0),
      call (encode_nas_key_set_identifier (smcmd_naskeysetidentifier msg) 0),
      call (encode_ue_security_capability (smcmd_uesecuritycapability msg) 0),
      opt (smcmd_presence msg AND 0x01 = 0x01) (encode_imeisv_request (smcmd_imeisvrequest msg) 0xE0),
      opt (smcmd_presence msg AND 0x02 = 0x02) (encode_epsnas_security_algorithms (smcmd_epsnassecurityalgorithms msg) 0x57),
      opt (smcmd_presence msg AND 0x04 = 0x04) (encode_additional_5g_security_information (smcmd_additional5gsecurityinformation msg) 0x36),
      opt (smcmd_presence msg AND 0x08 = 0x08) (encode_eap_message (smcmd_eapmessage msg) 0x78),
      opt (smcmd_presence msg AND 0x10 = 0x10) (encode_abba (smcmd_abba msg) 0x38)]"

definition smcmd_half :: "(u8 \<times> security_mode_command_msg dcmd) list" where
  "smcmd_half =
     [(0xE0, dcall (\<lambda>f. decode_imeisv_request f 0xE0) smcmd_imeisvrequest (\<lambda>v. smcmd_imeisvrequest_update (\<lambda>_. v)) (smcmd_presence_update (\<lambda>p. p OR 0x01)))]"

definition smcmd_full :: "(u8 \<times> security_mode_command_msg dcmd) list" where
  "smcmd_full =
     [(0x57, dcall (\<lambda>f. decode_epsnas_security_algorithms f 0x57) smcmd_epsnassecurityalgorithms (\<lambda>v. smcmd_epsnassecurityalgorithms_update (\<lambda>_. v)) (smcmd_presence_update (\<lambda>p. p OR 0x02))),
      (0x36, dcall (\<lambda>f. decode_additional_5g_security_information f 0x36) smcmd_additional5gsecurityinformation (\<lambda>v. smcmd_additional5gsecurityinformation_update (\<lambda>_. v)) (smcmd_presence_update (\<lambda>p. p OR 0x04))),
      (0x78, dcall (\<lambda>f. decode_eap_message f 0x78) smcmd_eapmessage (\<lambda>v. smcmd_eapmessage_update (\<lambda>_. v)) (smcmd_presence_update (\<lambda>p. p OR 0x08))),
      (0x38, dcall (\<lambda>f. decode_abba f 0x38) smcmd_abba (\<lambda>v. smcmd_abba_update (\<lambda>_. v)) (smcmd_presence_update (\<lambda>p. p OR 0x10)))]"

definition decode_security_mode_command :: "security_mode_command_msg msg_decoder" where
  "decode_security_mode_command = msg_decoder 30
     [dcall (\<lambda>f. decode_nas_security_algorithms f 0) smcmd_nassecurityalgorithms (\<lambda>v. smcmd_nassecurityalgorithms_update (\<lambda>_. v)) (\<lambda>m. m),
      dcall (\<lambda>f. decode_nas_key_set_identifier f 0) smcmd_naskeysetidentifier (\<lambda>v. smcmd_naskeysetidentifier_update (\<lambda>_. v)) (\<lambda>m. m),
      dcall (\<lambda>f. decode_ue_security_capability f 0) smcmd_uesecuritycapability (\<lambda>v. smcmd_uesecuritycapability_update (\<lambda>_. v)) (\<lambda>m. m)]
     (ie_step smcmd_half smcmd_full)"

definition smcmd_valid :: "security_mode_command_msg \<Rightarrow> bool" where
  "smcmd_valid msg \<longleftrightarrow>
     (smcmd_presence msg AND 0x01 = 0x01 \<longrightarrow> (smcmd_imeisvrequest msg) AND 7 = (smcmd_imeisvrequest msg)) \<and>
     (smcmd_presence msg AND 0x08 = 0x08 \<longrightarrow> eap_valid (smcmd_eapmessage msg)) \<and>
     (smcmd_presence msg AND 0x10 = 0x10 \<longrightarrow> bstr_between 1 (smcmd_abba msg))"

definition smcmd_mand_wire :: "security_mode_command_msg \<Rightarrow> u8 list" where
  "smcmd_mand_wire msg = concat [nas_security_algorithms_wire (smcmd_nassecurityalgorithms msg) 0, key_set_wire (smcmd_naskeysetidentifier msg) 0, ue_security_capability_wire (smcmd_uesecuritycapability msg) 0]"

definition smcmd_opt_wire :: "security_mode_command_msg \<Rightarrow> u8 list" where
  "smcmd_opt_wire msg = concat
     [(if smcmd_presence msg AND 0x01 = 0x01 then imeisv_wire (smcmd_imeisvrequest msg) 0xE0 else []),
      (if smcmd_presence msg AND 0x02 = 0x02 then epsnas_security_algorithms_wire (smcmd_epsnassecurityalgorithms msg) 0x57 else []),
      (if smcmd_presence msg AND 0x04 = 0x04 then additional_security_wire (smcmd_additional5gsecurityinformation msg) 0x36 else []),
      (if smcmd_presence msg AND 0x08 = 0x08 then eap_wire (smcmd_eapmessage msg) 0x78 else []),
      (if smcmd_presence msg AND 0x10 = 0x10 then bstring_wire (smcmd_abba msg) 0x38 else [])]"

definition smcmd_wire :: "security_mode_command_msg \<Rightarrow> u8 list" where
  "smcmd_wire msg = smcmd_mand_wire msg @ smcmd_opt_wire msg"

definition smcmd_mand_seen :: "security_mode_command_msg \<Rightarrow> security_mode_command_msg \<Rightarrow> security_mode_command_msg" where
  "smcmd_mand_seen m msg = m\<lparr>smcmd_nassecurityalgorithms := smcmd_nassecurityalgorithms msg, smcmd_naskeysetidentifier := smcmd_naskeysetidentifier msg, smcmd_uesecuritycapability := smcmd_uesecuritycapability msg\<rparr>"

definition smcmd_opt_seen :: "security_mode_command_msg \<Rightarrow> security_mode_command_msg \<Rightarrow> security_mode_command_msg" where
  "smcmd_opt_seen m msg = updates
     [when_present (smcmd_presence msg AND 0x01 = 0x01)
        (\<lambda>m. smcmd_presence_update (\<lambda>p. p OR 0x01) (m\<lparr>smcmd_imeisvrequest := smcmd_imeisvrequest msg\<rparr>)),
      when_present (smcmd_presence msg AND 0x02 = 0x02)
        (\<lambda>m. smcmd_presence_update (\<lambda>p. p OR 0x02) (m\<lparr>smcmd_epsnassecurityalgorithms := smcmd_epsnassecurityalgorithms msg\<rparr>)),
      when_present (smcmd_presence msg AND 0x04 = 0x04)
        (\<lambda>m. smcmd_presence_update (\<lambda>p. p OR 0x04) (m\<lparr>smcmd_additional5gsecurityinformation := additional_security_seen (smcmd_additional5gsecurityinformation m) (smcmd_additional5gsecurityinformation msg)\<rparr>)),
      when_present (smcmd_presence msg AND 0x08 = 0x08)
        (\<lambda>m. smcmd_presence_update (\<lambda>p. p OR 0x08) (m\<lparr>smcmd_eapmessage := Some (bstr (smcmd_eapmessage msg))\<rparr>)),
      when_present (smcmd_presence msg AND 0x10 = 0x10)
        (\<lambda>m. smcmd_presence_update (\<lambda>p. p OR 0x10) (m\<lparr>smcmd_abba := Some (bstr (smcmd_abba msg))\<rparr>))] m"

definition smcmd_seen :: "security_mode_command_msg \<Rightarrow> security_mode_command_msg \<Rightarrow> security_mode_command_msg" where
  "smcmd_seen m msg = smcmd_opt_seen (smcmd_mand_seen m msg) msg"

lemma encode_security_mode_command_ok:
  assumes "smcmd_valid msg"
  shows "encodes_from 30 (encode_security_mode_command msg) (smcmd_wire msg)"
  unfolding encode_security_mode_command_def
  by (rule encodes_from_to, ((rule emits_from_Nil mm_emits mm_emits_opt emits_from_Cons
      | (simp del: One_nat_def add: assms [unfolded smcmd_valid_def] mm_rooms; fail) | (simp add: mm_lengths; fail))+)[1],
      simp only: smcmd_wire_def smcmd_mand_wire_def smcmd_opt_wire_def concat.simps append.simps append_assoc append_Nil append_Nil2)

lemma smcmd_mreads:
  assumes "smcmd_valid msg"
  shows "mreads [dcall (\<lambda>f. decode_nas_security_algorithms f 0) smcmd_nassecurityalgorithms (\<lambda>v. smcmd_nassecurityalgorithms_update (\<lambda>_. v)) (\<lambda>m. m), dcall (\<lambda>f. decode_nas_key_set_identifier f 0) smcmd_naskeysetidentifier (\<lambda>v. smcmd_naskeysetidentifier_update (\<lambda>_. v)) (\<lambda>m. m), dcall (\<lambda>f. decode_ue_security_capability f 0) smcmd_uesecuritycapability (\<lambda>v. smcmd_uesecuritycapability_update (\<lambda>_. v)) (\<lambda>m. m)] (smcmd_mand_wire msg) m (smcmd_mand_seen m msg)"
  unfolding smcmd_mand_wire_def concat.simps
  by (rule mreads_to, (rule mm_mreads TrueI | (simp del: One_nat_def add: assms [unfolded smcmd_valid_def] mm_rooms; fail) | (simp add: mm_lengths; fail))+, simp add: smcmd_mand_seen_def)

lemma smcmd_reads:
  assumes "smcmd_valid msg"
  shows "reads (ie_step smcmd_half smcmd_full) (smcmd_opt_wire msg) m (smcmd_opt_seen m msg)"
  unfolding smcmd_half_def smcmd_full_def smcmd_opt_wire_def concat.simps
  by (rule reads_to, ((rule reads_Nil abba.reads_full additional_security.reads_full eap.reads_full epsnas_security_algorithms.reads_full imeisv.reads_half switch_here TrueI mm_half_single | (rule switch_there, simp; fail)
      | (rule full_wire mm_full_wire, simp; fail) | (rule mm_half_hd, simp; fail) | (simp; fail) | (simp del: One_nat_def add: assms [unfolded smcmd_valid_def] mm_rooms; fail))+)[1])
    (simp only: smcmd_opt_seen_def updates.simps)

lemma decode_security_mode_command_wire:
  assumes "smcmd_valid msg" and "30 \<le> length (smcmd_wire msg)" and "unat len = length (smcmd_wire msg)"
  shows "decode_security_mode_command m (Some (smcmd_wire msg @ rest)) len
       = Some (Returned (int (length (smcmd_wire msg))) (smcmd_seen m msg))"
  using msg_decoder_reads [OF smcmd_mreads [OF assms(1)] smcmd_reads [OF assms(1)], of 30 len m rest] assms(2,3)
  by (simp add: decode_security_mode_command_def smcmd_wire_def smcmd_seen_def)

lemma decode_security_mode_command_unknown:
  assumes "smcmd_valid msg" and "iei \<noteq> 0" and "iei AND 0xF0 \<notin> set (map fst smcmd_half)"
    and "iei \<notin> set (map fst smcmd_full)" and "30 \<le> unat len" and "length (smcmd_wire msg) < unat len"
  shows "decode_security_mode_command m (Some (smcmd_wire msg @ iei # rest)) len = None"
  using msg_decoder_unknown [OF smcmd_mreads [OF assms(1)] smcmd_reads [OF assms(1)] assms(2,3,4,5), of m rest] assms(6)
  by (simp add: decode_security_mode_command_def smcmd_wire_def)

subsection \<open>Security mode complete\<close>

record security_mode_complete_msg =
  smcpl_presence :: u8
  smcpl_nasmessagecontainer :: bstring

definition encode_security_mode_complete :: "security_mode_complete_msg \<Rightarrow> encoder" where
  "encode_security_mode_complete msg = encoder_body 11
     [opt (smcpl_presence msg AND 0x02 = 0x02) (encode_nas_message_container (smcpl_nasmessagecontainer msg) 0x71)]"

definition smcpl_half :: "(u8 \<times> security_mode_complete_msg dcmd) list" where
  "smcpl_half =
     []"

definition smcpl_full :: "(u8 \<times> security_mode_complete_msg dcmd) list" where
  "smcpl_full =
     [(0x71, dcall (\<lambda>f. decode_nas_message_container f 0x71) smcpl_nasmessagecontainer (\<lambda>v. smcpl_nasmessagecontainer_update (\<lambda>_. v)) (smcpl_presence_update (\<lambda>p. p OR 0x02)))]"

definition decode_security_mode_complete :: "security_mode_complete_msg msg_decoder" where
  "decode_security_mode_complete = msg_decoder 11
     []
     (ie_step smcpl_half smcpl_full)"

definition smcpl_valid :: "security_mode_complete_msg \<Rightarrow> bool" where
  "smcpl_valid msg \<longleftrightarrow>
     (smcpl_presence msg AND 0x02 = 0x02 \<longrightarrow> bstr_between 1 (smcpl_nasmessagecontainer msg))"

definition smcpl_mand_wire :: "security_mode_complete_msg \<Rightarrow> u8 list" where
  "smcpl_mand_wire msg = concat []"

definition smcpl_opt_wire :: "security_mode_complete_msg \<Rightarrow> u8 list" where
  "smcpl_opt_wire msg = concat
     [(if smcpl_presence msg AND 0x02 = 0x02 then eap_wire (smcpl_nasmessagecontainer msg) 0x71 else [])]"

definition smcpl_wire :: "security_mode_complete_msg \<Rightarrow> u8 list" where
  "smcpl_wire msg = smcpl_mand_wire msg @ smcpl_opt_wire msg"

definition smcpl_mand_seen :: "security_mode_complete_msg \<Rightarrow> security_mode_complete_msg \<Rightarrow> security_mode_complete_msg" where
  "smcpl_mand_seen m msg = m"

definition smcpl_opt_seen :: "security_mode_complete_msg \<Rightarrow> security_mode_complete_msg \<Rightarrow> security_mode_complete_msg" where
  "smcpl_opt_seen m msg = updates
     [when_present (smcpl_presence msg AND 0x02 = 0x02)
        (\<lambda>m. smcpl_presence_update (\<lambda>p. p OR 0x02) (m\<lparr>smcpl_nasmessagecontainer := Some (bstr (smcpl_nasmessagecontainer msg))\<rparr>))] m"

definition smcpl_seen :: "security_mode_complete_msg \<Rightarrow> security_mode_complete_msg \<Rightarrow> security_mode_complete_msg" where
  "smcpl_seen m msg = smcpl_opt_seen (smcpl_mand_seen m msg) msg"

lemma encode_security_mode_complete_ok:
  assumes "smcpl_valid msg"
  shows "encodes_from 11 (encode_security_mode_complete msg) (smcpl_wire msg)"
  unfolding encode_security_mode_complete_def
  by (rule encodes_from_to, ((rule emits_from_Nil mm_emits mm_emits_opt emits_from_Cons
      | (simp del: One_nat_def add: assms [unfolded smcpl_valid_def] mm_rooms; fail) | (simp add: mm_lengths; fail))+)[1],
      simp only: smcpl_wire_def smcpl_mand_wire_def smcpl_opt_wire_def concat.simps append.simps append_assoc append_Nil append_Nil2)

lemma smcpl_mreads:
  assumes "smcpl_valid msg"
  shows "mreads [] (smcpl_mand_wire msg) m (smcpl_mand_seen m msg)"
  by (simp add: mreads_Nil smcpl_mand_wire_def smcpl_mand_seen_def)

lemma smcpl_reads:
  assumes "smcpl_valid msg"
  shows "reads (ie_step smcpl_half smcpl_full) (smcpl_opt_wire msg) m (smcpl_opt_seen m msg)"
  unfolding smcpl_half_def smcpl_full_def smcpl_opt_wire_def concat.simps
  by (rule reads_to, ((rule reads_Nil nas_container.reads_full switch_here TrueI mm_half_single | (rule switch_there, simp; fail)
      | (rule full_wire mm_full_wire, simp; fail) | (rule mm_half_hd, simp; fail) | (simp; fail) | (simp del: One_nat_def add: assms [unfolded smcpl_valid_def] mm_rooms; fail))+)[1])
    (simp only: smcpl_opt_seen_def updates.simps)

lemma decode_security_mode_complete_wire:
  assumes "smcpl_valid msg" and "11 \<le> length (smcpl_wire msg)" and "unat len = length (smcpl_wire msg)"
  shows "decode_security_mode_complete m (Some (smcpl_wire msg @ rest)) len
       = Some (Returned (int (length (smcpl_wire msg))) (smcpl_seen m msg))"
  using msg_decoder_reads [OF smcpl_mreads [OF assms(1)] smcpl_reads [OF assms(1)], of 11 len m rest] assms(2,3)
  by (simp add: decode_security_mode_complete_def smcpl_wire_def smcpl_seen_def)

lemma decode_security_mode_complete_unknown:
  assumes "smcpl_valid msg" and "iei \<noteq> 0" and "iei AND 0xF0 \<notin> set (map fst smcpl_half)"
    and "iei \<notin> set (map fst smcpl_full)" and "11 \<le> unat len" and "length (smcpl_wire msg) < unat len"
  shows "decode_security_mode_complete m (Some (smcpl_wire msg @ iei # rest)) len = None"
  using msg_decoder_unknown [OF smcpl_mreads [OF assms(1)] smcpl_reads [OF assms(1)] assms(2,3,4,5), of m rest] assms(6)
  by (simp add: decode_security_mode_complete_def smcpl_wire_def)

subsection \<open>Security mode reject\<close>

record security_mode_reject_msg =
  smrej_5gmmcause :: u8

definition encode_security_mode_reject :: "security_mode_reject_msg \<Rightarrow> encoder" where
  "encode_security_mode_reject msg = encoder_body 5
     [call (encode__5gmm_cause (smrej_5gmmcause msg) 0)]"

definition decode_security_mode_reject :: "security_mode_reject_msg msg_decoder" where
  "decode_security_mode_reject = plain_decoder 5
     [dcall (\<lambda>f. decode__5gmm_cause f 0) smrej_5gmmcause (\<lambda>v. smrej_5gmmcause_update (\<lambda>_. v)) (\<lambda>m. m)]"

definition smrej_mand_wire :: "security_mode_reject_msg \<Rightarrow> u8 list" where
  "smrej_mand_wire msg = concat [mm_cause_wire (smrej_5gmmcause msg) 0]"

definition smrej_wire :: "security_mode_reject_msg \<Rightarrow> u8 list" where
  "smrej_wire msg = smrej_mand_wire msg"

definition smrej_mand_seen :: "security_mode_reject_msg \<Rightarrow> security_mode_reject_msg \<Rightarrow> security_mode_reject_msg" where
  "smrej_mand_seen m msg = m\<lparr>smrej_5gmmcause := smrej_5gmmcause msg\<rparr>"

definition smrej_seen :: "security_mode_reject_msg \<Rightarrow> security_mode_reject_msg \<Rightarrow> security_mode_reject_msg" where
  "smrej_seen m msg = smrej_mand_seen m msg"

lemma encode_security_mode_reject_ok: "encodes_from 5 (encode_security_mode_reject msg) (smrej_wire msg)"
  unfolding encode_security_mode_reject_def
  by (rule encodes_from_to, ((rule emits_from_Nil mm_emits mm_emits_opt emits_from_Cons
      | (simp del: One_nat_def add: mm_rooms; fail) | (simp add: mm_lengths; fail))+)[1],
      simp only: smrej_wire_def smrej_mand_wire_def concat.simps append.simps append_assoc append_Nil append_Nil2)

lemma smrej_mreads: "mreads [dcall (\<lambda>f. decode__5gmm_cause f 0) smrej_5gmmcause (\<lambda>v. smrej_5gmmcause_update (\<lambda>_. v)) (\<lambda>m. m)] (smrej_mand_wire msg) m (smrej_mand_seen m msg)"
  unfolding smrej_mand_wire_def concat.simps
  by (rule mreads_to, (rule mm_mreads TrueI | (simp del: One_nat_def add: mm_rooms; fail) | (simp add: mm_lengths; fail))+, simp add: smrej_mand_seen_def)

lemma decode_security_mode_reject_wire:
  assumes "5 \<le> unat len" and "length (smrej_wire msg) \<le> unat len"
  shows "decode_security_mode_reject m (Some (smrej_wire msg @ rest)) len
       = Some (Returned (int (length (smrej_wire msg))) (smrej_seen m msg))"
  using plain_decoder_reads [OF smrej_mreads [where m = m and msg = msg] assms(1), where rest = rest] assms(2)
  by (simp add: decode_security_mode_reject_def smrej_wire_def smrej_seen_def)

end
