(* ===== verification/MM_Msg.thy ===== *)
theory MM_Msg
  imports MM_Security SM_Msg
begin

text \<open>
  Dispatch over the mobility management messages, \<open>mm_msg.c\<close>: the three header octets and the \<open>switch\<close> on the
  message type, which has no default. The union \<open>MM_msg\<close> has the header and one field per member, of which only
  that of the message type is accessed. The registration complete and the identity response have the header
  octets in their structures as well, and their codecs access them: \<open>rgcpl_view\<close> and \<open>idrsp_view\<close> are these
  members over the header, \<open>rgcpl_put\<close> and \<open>idrsp_put\<close> store them back. In the second octet the security header
  type is the low half.
\<close>

subsection \<open>Structure\<close>

record MM_msg =
  mm_extended_protocol_discriminator :: u8
  mm_security_header_type :: "4 word"
  mm_spare_half_octet :: "4 word"
  mm_message_type :: u8
  authentication_request :: authentication_request_msg
  authentication_response :: authentication_response_msg
  authentication_result :: authentication_result_msg
  authentication_reject :: authentication_reject_msg
  authentication_failure :: authentication_failure_msg
  registration_request :: registration_request_msg
  registration_accept :: registration_accept_msg
  registration_complete :: registration_complete_msg
  registration_reject :: registration_reject_msg
  identity_request :: identity_request_msg
  identity_response :: identity_response_msg
  security_mode_command :: security_mode_command_msg
  security_mode_complete :: security_mode_complete_msg
  security_mode_reject :: security_mode_reject_msg

definition EPD_5GS_MOBILITY_MANAGEMENT_MESSAGES :: u8 where
  "EPD_5GS_MOBILITY_MANAGEMENT_MESSAGES = 0x7e"

definition mm_header_octet :: "MM_msg \<Rightarrow> u8" where
  "mm_header_octet msg = ucast (mm_security_header_type msg) OR push_bit 4 (ucast (mm_spare_half_octet msg))"

definition put_header :: "u8 \<Rightarrow> u8 \<Rightarrow> u8 \<Rightarrow> MM_msg \<Rightarrow> MM_msg" where
  "put_header epd octet t msg = msg\<lparr>mm_extended_protocol_discriminator := epd, mm_security_header_type := ucast octet,
     mm_spare_half_octet := ucast (drop_bit 4 octet), mm_message_type := t\<rparr>"

definition rgcpl_view :: "MM_msg \<Rightarrow> registration_complete_msg" where
  "rgcpl_view msg = (registration_complete msg)\<lparr>rgcpl_extendedprotocoldiscriminator := mm_extended_protocol_discriminator msg,
     rgcpl_securityheadertype := mm_header_octet msg, rgcpl_messagetype := mm_message_type msg\<rparr>"

definition rgcpl_put :: "registration_complete_msg \<Rightarrow> MM_msg \<Rightarrow> MM_msg" where
  "rgcpl_put v msg = put_header (rgcpl_extendedprotocoldiscriminator v) (rgcpl_securityheadertype v)
     (rgcpl_messagetype v) (msg\<lparr>registration_complete := v\<rparr>)"

definition idrsp_view :: "MM_msg \<Rightarrow> identity_response_msg" where
  "idrsp_view msg = (identity_response msg)\<lparr>idrsp_extendedprotocoldiscriminator := mm_extended_protocol_discriminator msg,
     idrsp_securityheadertype := mm_header_octet msg, idrsp_messagetype := mm_message_type msg\<rparr>"

definition idrsp_put :: "identity_response_msg \<Rightarrow> MM_msg \<Rightarrow> MM_msg" where
  "idrsp_put v msg = put_header (idrsp_extendedprotocoldiscriminator v) (idrsp_securityheadertype v)
     (idrsp_messagetype v) (msg\<lparr>identity_response := v\<rparr>)"

subsection \<open>Encoder\<close>

definition mm_encoders :: "(u8 \<times> (MM_msg \<Rightarrow> encoder)) list" where
  "mm_encoders =
     [(0x56, \<lambda>msg. encode_authentication_request (authentication_request msg)),
      (0x57, \<lambda>msg. encode_authentication_response (authentication_response msg)),
      (0x5A, \<lambda>msg. encode_authentication_result (authentication_result msg)),
      (0x58, \<lambda>msg. encode_authentication_reject (authentication_reject msg)),
      (0x59, \<lambda>msg. encode_authentication_failure (authentication_failure msg)),
      (0x41, \<lambda>msg. encode_registration_request (registration_request msg)),
      (0x42, \<lambda>msg. encode_registration_accept (registration_accept msg)),
      (0x43, \<lambda>msg. encode_registration_complete (rgcpl_view msg)),
      (0x44, \<lambda>msg. encode_registration_reject (registration_reject msg)),
      (0x5B, \<lambda>msg. encode_identity_request (identity_request msg)),
      (0x5C, \<lambda>msg. encode_identity_response (idrsp_view msg)),
      (0x5D, \<lambda>msg. encode_security_mode_command (security_mode_command msg)),
      (0x5E, \<lambda>msg. encode_security_mode_complete (security_mode_complete msg)),
      (0x5F, \<lambda>msg. encode_security_mode_reject (security_mode_reject msg))]"

text \<open>The \<open>switch\<close>; for another type \<open>encode_result\<close> stays 0.\<close>

definition mm_encoder :: "MM_msg \<Rightarrow> encoder" where
  "mm_encoder msg =
     (case map_of mm_encoders (mm_message_type msg) of
        None \<Rightarrow> (\<lambda>len p. Some (0, case p of None \<Rightarrow> [] | Some b \<Rightarrow> b))
      | Some enc \<Rightarrow> enc msg)"

text \<open>\<open>_fivegmm_msg_encode_header\<close>\<close>

definition fivegmm_msg_encode_header :: "MM_msg \<Rightarrow> encoder" where
  "fivegmm_msg_encode_header msg len p =
     (if unat len < 3 then
        Some (err TLV_BUFFER_TOO_SHORT, case p of None \<Rightarrow> [] | Some b \<Rightarrow> b)
      else if mm_extended_protocol_discriminator msg \<noteq> EPD_5GS_MOBILITY_MANAGEMENT_MESSAGES then
        Some (err TLV_PROTOCOL_NOT_SUPPORTED, case p of None \<Rightarrow> [] | Some b \<Rightarrow> b)
      else
        (case p of
           None \<Rightarrow> None
         | Some b \<Rightarrow>
             finish (exec
               [ENCODE_U8 (mm_extended_protocol_discriminator msg),
                ENCODE_U8 (ucast (mm_security_header_type msg)),
                ENCODE_U8 (mm_message_type msg)] len b 0)))"

text \<open>An error of the message is added to the header's length like a count.\<close>

definition fivegmm_msg_encode :: "MM_msg \<Rightarrow> encoder" where
  "fivegmm_msg_encode msg len p =
     (case fivegmm_msg_encode_header msg len p of
        None \<Rightarrow> None
      | Some (header_result, b) \<Rightarrow>
          (if header_result < 0 then Some (header_result, b)
           else
             (case mm_encoder msg (len - of_int header_result) (Some (drop (nat header_result) b)) of
                None \<Rightarrow> None
              | Some (encode_result, b') \<Rightarrow>
                  Some (header_result + encode_result, take (nat header_result) b @ b'))))"

subsection \<open>Decoder\<close>

text \<open>\<open>decode_x(&msg->x, buffer, len)\<close>: the result with the member put back.\<close>

definition mm_member :: "'a msg_decoder \<Rightarrow> (MM_msg \<Rightarrow> 'a) \<Rightarrow> ('a \<Rightarrow> MM_msg \<Rightarrow> MM_msg) \<Rightarrow> MM_msg msg_decoder" where
  "mm_member dec get put msg p len =
     (case dec (get msg) p len of
        None \<Rightarrow> None
      | Some Undefined \<Rightarrow> Some Undefined
      | Some (Returned r x) \<Rightarrow> Some (Returned r (put x msg)))"

definition mm_decoders :: "(u8 \<times> MM_msg msg_decoder) list" where
  "mm_decoders =
     [(0x56, mm_member decode_authentication_request authentication_request (\<lambda>v. authentication_request_update (\<lambda>_. v))),
      (0x57, mm_member decode_authentication_response authentication_response (\<lambda>v. authentication_response_update (\<lambda>_. v))),
      (0x5A, mm_member decode_authentication_result authentication_result (\<lambda>v. authentication_result_update (\<lambda>_. v))),
      (0x58, mm_member decode_authentication_reject authentication_reject (\<lambda>v. authentication_reject_update (\<lambda>_. v))),
      (0x59, mm_member decode_authentication_failure authentication_failure (\<lambda>v. authentication_failure_update (\<lambda>_. v))),
      (0x41, mm_member decode_registration_request registration_request (\<lambda>v. registration_request_update (\<lambda>_. v))),
      (0x42, mm_member decode_registration_accept registration_accept (\<lambda>v. registration_accept_update (\<lambda>_. v))),
      (0x43, mm_member decode_registration_complete rgcpl_view rgcpl_put),
      (0x44, mm_member decode_registration_reject registration_reject (\<lambda>v. registration_reject_update (\<lambda>_. v))),
      (0x5B, mm_member decode_identity_request identity_request (\<lambda>v. identity_request_update (\<lambda>_. v))),
      (0x5C, mm_member decode_identity_response idrsp_view idrsp_put),
      (0x5D, mm_member decode_security_mode_command security_mode_command (\<lambda>v. security_mode_command_update (\<lambda>_. v))),
      (0x5E, mm_member decode_security_mode_complete security_mode_complete (\<lambda>v. security_mode_complete_update (\<lambda>_. v))),
      (0x5F, mm_member decode_security_mode_reject security_mode_reject (\<lambda>v. security_mode_reject_update (\<lambda>_. v)))]"

definition mm_decoder :: "MM_msg msg_decoder" where
  "mm_decoder msg p len =
     (case map_of mm_decoders (mm_message_type msg) of
        None \<Rightarrow> Some (Returned 0 msg)
      | Some dec \<Rightarrow> dec msg p len)"

text \<open>\<open>_fivegmm_msg_decode_header\<close>; \<open>None\<close> is a read outside the block.\<close>

definition fivegmm_msg_decode_header :: "MM_msg \<Rightarrow> mem \<Rightarrow> u32 \<Rightarrow> (int \<times> MM_msg) option" where
  "fivegmm_msg_decode_header msg buffer len =
     (if unat len < 3 then Some (err TLV_BUFFER_TOO_SHORT, msg)
      else do {
        a \<leftarrow> DECODE_U8 buffer 0;
        b \<leftarrow> DECODE_U8 buffer 1;
        c \<leftarrow> DECODE_U8 buffer 2;
        let msg = msg\<lparr>mm_extended_protocol_discriminator := a, mm_security_header_type := ucast b,
                      mm_message_type := c\<rparr>;
        if a \<noteq> EPD_5GS_MOBILITY_MANAGEMENT_MESSAGES then Some (err TLV_PROTOCOL_NOT_SUPPORTED, msg)
        else Some (3, msg) })"

definition mm_msg_decode :: "MM_msg \<Rightarrow> mem \<Rightarrow> u32 \<Rightarrow> MM_msg run option" where
  "mm_msg_decode msg buffer len =
     (case fivegmm_msg_decode_header msg buffer len of
        None \<Rightarrow> Some Undefined
      | Some (header_result, msg) \<Rightarrow>
          (if header_result < 0 then Some (Returned header_result msg)
           else
             (case mm_decoder msg (Some (drop (nat header_result) buffer)) (len - of_int header_result) of
                None \<Rightarrow> None
              | Some Undefined \<Rightarrow> Some Undefined
              | Some (Returned decode_result msg) \<Rightarrow> Some (Returned (header_result + decode_result) msg))))"

subsection \<open>Wire format\<close>

definition mm_header_wire :: "MM_msg \<Rightarrow> u8 list" where
  "mm_header_wire msg =
     [mm_extended_protocol_discriminator msg, ucast (mm_security_header_type msg), mm_message_type msg]"

text \<open>The length a message's encoder and decoder ask for; the decoder of a registration request asks for none.\<close>

definition mm_room :: "u8 \<Rightarrow> nat" where
  "mm_room t = (case map_of
     [(0x56, 7), (0x57, 16), (0x5A, 14), (0x58, 10), (0x59, 21), (0x41, 71), (0x42, 110), (0x43, 23), (0x44, 15), (0x5B, 4), (0x5C, 7), (0x5D, 30), (0x5E, 11), (0x5F, 5)] t of
       None \<Rightarrow> 0 | Some n \<Rightarrow> n)"

definition mm_body_valid :: "MM_msg \<Rightarrow> bool" where
  "mm_body_valid msg =
     (let t = mm_message_type msg
      in if t = 0x56 then aureq_valid (authentication_request msg)
         else if t = 0x57 then aursp_valid (authentication_response msg)
         else if t = 0x5A then aures_valid (authentication_result msg)
         else if t = 0x58 then aurej_valid (authentication_reject msg)
         else if t = 0x59 then aufail_valid (authentication_failure msg)
         else if t = 0x41 then rgreq_valid (registration_request msg)
         else if t = 0x42 then rgacc_valid (registration_accept msg)
         else if t = 0x43 then True
         else if t = 0x44 then rgrej_valid (registration_reject msg)
         else if t = 0x5B then True
         else if t = 0x5C then True
         else if t = 0x5D then smcmd_valid (security_mode_command msg)
         else if t = 0x5E then smcpl_valid (security_mode_complete msg)
         else if t = 0x5F then True
         else False)"

definition mm_body_wire :: "MM_msg \<Rightarrow> u8 list" where
  "mm_body_wire msg =
     (let t = mm_message_type msg
      in if t = 0x56 then aureq_wire (authentication_request msg)
         else if t = 0x57 then aursp_wire (authentication_response msg)
         else if t = 0x5A then aures_wire (authentication_result msg)
         else if t = 0x58 then aurej_wire (authentication_reject msg)
         else if t = 0x59 then aufail_wire (authentication_failure msg)
         else if t = 0x41 then rgreq_wire (registration_request msg)
         else if t = 0x42 then rgacc_wire (registration_accept msg)
         else if t = 0x43 then rgcpl_wire (rgcpl_view msg)
         else if t = 0x44 then rgrej_wire (registration_reject msg)
         else if t = 0x5B then idreq_wire (identity_request msg)
         else if t = 0x5C then idrsp_wire (idrsp_view msg)
         else if t = 0x5D then smcmd_wire (security_mode_command msg)
         else if t = 0x5E then smcpl_wire (security_mode_complete msg)
         else if t = 0x5F then smrej_wire (security_mode_reject msg)
         else [])"

text \<open>What decoding over \<open>m\<close> leaves, of the messages long enough for their decoders.\<close>

definition mm_body_seen :: "MM_msg \<Rightarrow> MM_msg \<Rightarrow> MM_msg" where
  "mm_body_seen m msg =
     (let t = mm_message_type msg
      in if t = 0x56 then m\<lparr>authentication_request := aureq_seen (authentication_request m) (authentication_request msg)\<rparr>
         else if t = 0x57 then m\<lparr>authentication_response := aursp_seen (authentication_response m) (authentication_response msg)\<rparr>
         else if t = 0x5A then m\<lparr>authentication_result := aures_seen (authentication_result m) (authentication_result msg)\<rparr>
         else if t = 0x58 then m\<lparr>authentication_reject := aurej_seen (authentication_reject m) (authentication_reject msg)\<rparr>
         else if t = 0x59 then m\<lparr>authentication_failure := aufail_seen (authentication_failure m) (authentication_failure msg)\<rparr>
         else if t = 0x42 then m\<lparr>registration_accept := rgacc_seen (registration_accept m) (registration_accept msg)\<rparr>
         else if t = 0x44 then m\<lparr>registration_reject := rgrej_seen (registration_reject m) (registration_reject msg)\<rparr>
         else if t = 0x5D then m\<lparr>security_mode_command := smcmd_seen (security_mode_command m) (security_mode_command msg)\<rparr>
         else if t = 0x5E then m\<lparr>security_mode_complete := smcpl_seen (security_mode_complete m) (security_mode_complete msg)\<rparr>
         else m)"

definition mm_header_seen :: "MM_msg \<Rightarrow> MM_msg \<Rightarrow> MM_msg" where
  "mm_header_seen m msg =
     m\<lparr>mm_extended_protocol_discriminator := mm_extended_protocol_discriminator msg,
       mm_security_header_type := mm_security_header_type msg, mm_message_type := mm_message_type msg\<rparr>"

definition mm_seen :: "MM_msg \<Rightarrow> MM_msg \<Rightarrow> MM_msg" where
  "mm_seen m msg = mm_body_seen (mm_header_seen m msg) msg"

lemmas mm_encode_oks =
  encode_authentication_request_ok
  encode_authentication_response_ok
  encode_authentication_result_ok
  encode_authentication_reject_ok
  encode_authentication_failure_ok
  encode_registration_request_ok
  encode_registration_accept_ok
  encode_registration_complete_ok
  encode_registration_reject_ok
  encode_identity_request_ok
  encode_identity_response_ok
  encode_security_mode_command_ok
  encode_security_mode_complete_ok
  encode_security_mode_reject_ok

lemmas mm_decode_wires =
  decode_authentication_request_wire
  decode_authentication_response_wire
  decode_authentication_result_wire
  decode_authentication_reject_wire
  decode_authentication_failure_wire
  decode_registration_accept_wire
  decode_registration_reject_wire
  decode_security_mode_command_wire
  decode_security_mode_complete_wire

lemma short_wires:
  "length (rgcpl_wire c) = 3" "length (idrsp_wire i) = 3" "length (idreq_wire q) = 1" "length (smrej_wire j) = 1"
  by (simp_all add: rgcpl_wire_def rgcpl_mand_wire_def idrsp_wire_def idrsp_mand_wire_def idreq_wire_def idreq_mand_wire_def
      smrej_wire_def smrej_mand_wire_def mm_lengths)

lemma mm_encoder_ok:
  assumes "mm_body_valid msg"
  shows "encodes_from (mm_room (mm_message_type msg)) (mm_encoder msg) (mm_body_wire msg)"
  using assms unfolding mm_body_valid_def mm_body_wire_def mm_encoder_def mm_encoders_def mm_room_def
  by (simp add: Let_def mm_encode_oks split: if_splits)

lemma mm_decoder_wire:
  assumes "mm_body_valid msg" and "mm_message_type msg \<noteq> 0x41" and "mm_message_type m = mm_message_type msg"
    and "mm_room (mm_message_type msg) \<le> length (mm_body_wire msg)" and "unat len = length (mm_body_wire msg)"
  shows "mm_decoder m (Some (mm_body_wire msg @ rest)) len
       = Some (Returned (int (length (mm_body_wire msg))) (mm_body_seen m msg))"
  using assms unfolding mm_body_valid_def mm_body_wire_def mm_body_seen_def mm_decoder_def mm_decoders_def mm_room_def
  by (simp add: Let_def mm_member_def mm_decode_wires short_wires split: if_splits)


subsection \<open>Header and message\<close>

lemma mm_header_encode:
  assumes "mm_extended_protocol_discriminator msg = EPD_5GS_MOBILITY_MANAGEMENT_MESSAGES"
    and "3 \<le> unat len" and "unat len \<le> length b"
  shows "fivegmm_msg_encode_header msg len (Some b) = Some (3, overwrite b 0 (mm_header_wire msg))"
proof -
  have "emits 0 [ENCODE_U8 (mm_extended_protocol_discriminator msg), ENCODE_U8 (ucast (mm_security_header_type msg)),
                 ENCODE_U8 (mm_message_type msg)]
      ([mm_extended_protocol_discriminator msg] @ [ucast (mm_security_header_type msg)] @ [mm_message_type msg] @ [])"
    by (intro emits_Cons emits_U8 emits_Nil)
  from emitsD [OF this, of len b] assms show ?thesis
    by (simp add: fivegmm_msg_encode_header_def finish_def mm_header_wire_def del: exec.simps)
qed

lemma length_mm_header_wire [simp]: "length (mm_header_wire msg) = 3"
  by (simp add: mm_header_wire_def)

lemma unat_minus_3: "3 \<le> unat (len :: u32) \<Longrightarrow> unat (len - 3) = unat len - 3"
  using unat_u32_minus_of_nat [of 3 len] by simp

lemma take_overwrite: "length bs = n \<Longrightarrow> n \<le> length b \<Longrightarrow> take n (overwrite b 0 bs) = bs \<and> drop n (overwrite b 0 bs) = drop n b"
  by (simp add: overwrite_zero)

lemma fivegmm_msg_encode_wire:
  assumes "mm_body_valid msg" and "mm_extended_protocol_discriminator msg = EPD_5GS_MOBILITY_MANAGEMENT_MESSAGES"
    and "3 + mm_room (mm_message_type msg) \<le> unat len" and "3 + length (mm_body_wire msg) \<le> unat len"
    and "unat len \<le> length b"
  shows "fivegmm_msg_encode msg len (Some b)
       = Some (int (3 + length (mm_body_wire msg)), overwrite b 0 (mm_header_wire msg @ mm_body_wire msg))"
proof -
  let ?b = "overwrite b 0 (mm_header_wire msg)"
  have "mm_encoder msg (len - 3) (Some (drop 3 ?b)) = Some (int (length (mm_body_wire msg)), overwrite (drop 3 ?b) 0 (mm_body_wire msg))"
    using assms(3-5) by (intro encodes_fromD [OF mm_encoder_ok [OF assms(1)]]) (simp_all add: unat_minus_3)
  moreover have "mm_header_wire msg @ overwrite (drop 3 ?b) 0 (mm_body_wire msg) = overwrite b 0 (mm_header_wire msg @ mm_body_wire msg)"
    using assms(4,5) by (simp add: overwrite_zero add.commute)
  ultimately show ?thesis
    using assms(3-5) take_overwrite [of "mm_header_wire msg" 3 b]
    by (simp add: fivegmm_msg_encode_def mm_header_encode [OF assms(2)])
qed

text \<open>With less room than its message asks for, only the header is written.\<close>

lemma fivegmm_msg_encode_short:
  assumes "mm_message_type msg \<in> set (map fst mm_encoders)"
    and "mm_extended_protocol_discriminator msg = EPD_5GS_MOBILITY_MANAGEMENT_MESSAGES"
    and "3 \<le> unat len" and "unat len < 3 + mm_room (mm_message_type msg)" and "unat len \<le> length b"
  shows "fivegmm_msg_encode msg len (Some b) = Some (-9, overwrite b 0 (mm_header_wire msg))"
proof -
  let ?b = "overwrite b 0 (mm_header_wire msg)"
  have "unat (len - 3) < mm_room (mm_message_type msg)" using assms(3,4) by (simp add: unat_minus_3)
  then have "mm_encoder msg (len - 3) (Some (drop 3 ?b)) = Some (-12, drop 3 ?b)"
    using assms(1)
    by (auto simp: mm_encoder_def mm_encoders_def mm_room_def encoder_body_short
        encode_authentication_request_def encode_authentication_response_def encode_authentication_result_def
        encode_authentication_reject_def encode_authentication_failure_def encode_registration_request_def
        encode_registration_accept_def encode_registration_complete_def encode_registration_reject_def
        encode_identity_request_def encode_identity_response_def encode_security_mode_command_def
        encode_security_mode_complete_def encode_security_mode_reject_def)
  then show ?thesis
    using assms(3,5) by (simp add: fivegmm_msg_encode_def mm_header_encode [OF assms(2)])
qed

lemma mm_header_decode:
  assumes "mm_extended_protocol_discriminator msg = EPD_5GS_MOBILITY_MANAGEMENT_MESSAGES" and "3 \<le> unat len"
  shows "fivegmm_msg_decode_header m (mm_header_wire msg @ rest) len = Some (3, mm_header_seen m msg)"
  using assms by (simp add: fivegmm_msg_decode_header_def mm_header_wire_def mm_header_seen_def)

lemma mm_msg_decode_wire:
  assumes "mm_body_valid msg" and "mm_message_type msg \<noteq> 0x41"
    and "mm_extended_protocol_discriminator msg = EPD_5GS_MOBILITY_MANAGEMENT_MESSAGES"
    and "mm_room (mm_message_type msg) \<le> length (mm_body_wire msg)" and "unat len = 3 + length (mm_body_wire msg)"
  shows "mm_msg_decode m (mm_header_wire msg @ mm_body_wire msg @ rest) len
       = Some (Returned (int (unat len)) (mm_seen m msg))"
proof -
  have "mm_decoder (mm_header_seen m msg) (Some (mm_body_wire msg @ rest)) (len - 3)
      = Some (Returned (int (length (mm_body_wire msg))) (mm_body_seen (mm_header_seen m msg) msg))"
    using assms by (intro mm_decoder_wire) (simp_all add: mm_header_seen_def unat_minus_3)
  then show ?thesis
    using assms(5) by (simp add: mm_msg_decode_def mm_header_decode [OF assms(3)] mm_seen_def)
qed

lemma mm_decoder_short:
  assumes "mm_message_type m \<noteq> 0x41" and "unat len < mm_room (mm_message_type m)"
  shows "\<exists>m'. mm_decoder m (Some b) len = Some (Returned (-12) m')"
  using assms
  by (auto simp: mm_decoder_def mm_decoders_def mm_room_def mm_member_def msg_decoder_def msg_decoder_until_def
      plain_decoder_def decode_authentication_request_def decode_authentication_response_def
      decode_authentication_result_def decode_authentication_reject_def decode_authentication_failure_def
      decode_registration_accept_def decode_registration_complete_def decode_registration_reject_def
      decode_identity_request_def decode_identity_response_def decode_security_mode_command_def
      decode_security_mode_complete_def decode_security_mode_reject_def split: if_splits)

lemma mm_msg_decode_short:
  assumes "mm_message_type msg \<noteq> 0x41"
    and "mm_extended_protocol_discriminator msg = EPD_5GS_MOBILITY_MANAGEMENT_MESSAGES"
    and "3 \<le> unat len" and "unat len < 3 + mm_room (mm_message_type msg)"
  shows "\<exists>m'. mm_msg_decode m (mm_header_wire msg @ rest) len = Some (Returned (-9) m')"
proof -
  have "\<exists>m'. mm_decoder (mm_header_seen m msg) (Some rest) (len - 3) = Some (Returned (-12) m')"
    using assms by (intro mm_decoder_short) (simp_all add: mm_header_seen_def unat_minus_3)
  then show ?thesis by (auto simp: mm_msg_decode_def mm_header_decode [OF assms(2,3)])
qed

subsection \<open>Properties\<close>

lemma mm_seen_header:
  "mm_extended_protocol_discriminator (mm_seen m msg) = mm_extended_protocol_discriminator msg"
  "mm_security_header_type (mm_seen m msg) = mm_security_header_type msg"
  "mm_message_type (mm_seen m msg) = mm_message_type msg"
  by (simp_all add: mm_seen_def mm_body_seen_def mm_header_seen_def Let_def)

text \<open>C2: A mobility management message of a type other than the registration request is written by
  \<open>fivegmm_msg_encode\<close> at the start of the buffer and nowhere else, and \<open>mm_msg_decode\<close> of these octets, over any earlier
  message \<open>m\<close>, returns the same count and the message \<open>mm_seen m msg\<close>, when it is as long as its own encoder and decoder ask
  for (\<open>mm_room\<close>, from 7 octets behind the header for an authentication request to 110 for a registration accept; the four
  messages of fixed size never are) and its elements are ones the codec can carry. \<open>mm_body_valid\<close> asks, of the
  mandatory elements and of the optional ones present: an EAP message of 4 to 255 octets, RAND of 16, AUTN of 16 to 255, the
  response parameter of 4 to 255, the failure parameter of 14 to 255, ABBA and the message container of 1 to 255; the
  inclusion mode and the IMEISV request within their bits; fifteen networks of four-bit digits in the list of networks;
  error causes not empty and as many as counted; lists of areas of at least nine octets as an element and fewer than 256 of
  contents, with as many networks and areas as their type and count say, those of type 2 with one and the same area for all networks,
  and tracking area lists of type 0 only where the bound that the decoder takes from the octets it reads ends its loop
  at the count.

  What is read, \<open>mm_seen\<close>, is the message sent as to the header, the mandatory elements and the optional ones
  present, up to this: every part of a service area list comes back as allowed, and its types 2 and 3 as \<open>0x10\<close> and
  \<open>0x11\<close>; a MICO indication without its bit leaves what \<open>m\<close> had; of the additional security information one bit is joined
  with that of \<open>m\<close> and the other is read only together with it; a string is its octets. The fields of absent elements are
  those of \<open>m\<close>, the presence bits are joined with those of \<open>m\<close>, and the structures of the other message types are left
  alone.\<close>

theorem mm_message_roundtrip:
  assumes "mm_body_valid msg" and "mm_message_type msg \<noteq> 0x41" and "mm_extended_protocol_discriminator msg = 0x7e"
    and "mm_room (mm_message_type msg) \<le> length (mm_body_wire msg)"
    and "3 + length (mm_body_wire msg) \<le> unat len" and "unat len \<le> length b" and "unat len < 2 ^ 31"
  shows "\<exists>n b' m'. fivegmm_msg_encode msg len (Some b) = Some (n, b') \<and> length b' = length b \<and>
     drop (nat n) b' = drop (nat n) b \<and> mm_msg_decode m b' (of_int n) = Some (Returned n m') \<and>
     m' = mm_seen m msg \<and> mm_extended_protocol_discriminator m' = mm_extended_protocol_discriminator msg \<and>
     mm_security_header_type m' = mm_security_header_type msg \<and> mm_message_type m' = mm_message_type msg"
proof -
  define n where "n = 3 + length (mm_body_wire msg)"
  define w where "w = mm_header_wire msg @ mm_body_wire msg"
  have l: "length w = n" by (simp add: w_def n_def)
  have epd: "mm_extended_protocol_discriminator msg = EPD_5GS_MOBILITY_MANAGEMENT_MESSAGES"
    using assms(3) by (simp add: EPD_5GS_MOBILITY_MANAGEMENT_MESSAGES_def)
  have e: "fivegmm_msg_encode msg len (Some b) = Some (int n, w @ drop n b)"
    using fivegmm_msg_encode_wire [OF assms(1) epd _ assms(5,6)] assms(4,5) l by (simp add: overwrite_zero n_def w_def)
  have u: "unat (of_nat n :: u32) = n" using assms(5,7) by (intro unat_u32_of_nat) (simp add: n_def)
  have d: "mm_msg_decode m (w @ drop n b) (of_nat n) = Some (Returned (int n) (mm_seen m msg))"
    using mm_msg_decode_wire [OF assms(1,2) epd assms(4), of "of_nat n" m "drop n b"] u
    by (simp only: w_def n_def append_assoc)
  show ?thesis
    using e d l assms(5) [folded n_def] assms(6)
    by (intro exI [of _ "int n"] exI [of _ "w @ drop n b"] exI [of _ "mm_seen m msg"]) (simp add: mm_seen_header)
qed

theorem mm_message_roundtrip_witness:
  "\<forall>m0 m. let msg = m0\<lparr>mm_extended_protocol_discriminator := 0x7e, mm_message_type := 0x58,
                      authentication_reject := \<lparr>aurej_presence = 1, aurej_eapmessage = Some [3, 1, 0, 4, 0, 0, 0]\<rparr>\<rparr>
     in \<exists>n b' m'. fivegmm_msg_encode msg 16 (Some (replicate 16 0)) = Some (n, b') \<and> length b' = length (replicate 16 (0 :: u8)) \<and>
     drop (nat n) b' = drop (nat n) (replicate 16 0) \<and> mm_msg_decode m b' (of_int n) = Some (Returned n m') \<and>
     m' = mm_seen m msg \<and> mm_extended_protocol_discriminator m' = mm_extended_protocol_discriminator msg \<and>
     mm_security_header_type m' = mm_security_header_type msg \<and> mm_message_type m' = mm_message_type msg"
  unfolding Let_def
  by (intro allI mm_message_roundtrip)
    (simp_all add: mm_body_valid_def mm_body_wire_def mm_room_def aurej_valid_def aurej_wire_def aurej_mand_wire_def
      aurej_opt_wire_def eap_valid_def eap_wire_def iei_wire_def)

text \<open>C23: The four messages of fixed size are never read back: an identity request, an identity response, a
  registration complete and a security mode reject are encoded in fewer octets than their decoders ask for, so
  that the decoder of exactly these octets returns an error, -9.\<close>

theorem mm_short_messages_rejected:
  assumes "mm_message_type msg \<in> {0x43, 0x5B, 0x5C, 0x5F}" and "mm_extended_protocol_discriminator msg = 0x7e"
    and "26 \<le> unat len" and "unat len \<le> length b"
  shows "\<exists>n b' m'. fivegmm_msg_encode msg len (Some b) = Some (n, b') \<and> 4 \<le> n \<and> n \<le> 6 \<and>
     mm_msg_decode m b' (of_int n) = Some (Returned (-9) m')"
proof -
  have epd: "mm_extended_protocol_discriminator msg = EPD_5GS_MOBILITY_MANAGEMENT_MESSAGES"
    using assms(2) by (simp add: EPD_5GS_MOBILITY_MANAGEMENT_MESSAGES_def)
  have valid: "mm_body_valid msg" using assms(1) by (auto simp: mm_body_valid_def Let_def)
  have l: "1 \<le> length (mm_body_wire msg)" "length (mm_body_wire msg) \<le> 3"
    "length (mm_body_wire msg) < mm_room (mm_message_type msg)" "mm_room (mm_message_type msg) \<le> 23"
    using assms(1) by (auto simp: mm_body_wire_def mm_room_def short_wires)
  define n where "n = 3 + length (mm_body_wire msg)"
  have e: "fivegmm_msg_encode msg len (Some b) = Some (int n, mm_header_wire msg @ mm_body_wire msg @ drop n b)"
    using fivegmm_msg_encode_wire [OF valid epd _ _ assms(4)] assms(3) l
    by (simp add: overwrite_zero n_def)
  have "unat (of_nat n :: u32) = n" using l by (intro unat_u32_of_nat) (simp add: n_def)
  then have "\<exists>m'. mm_msg_decode m (mm_header_wire msg @ mm_body_wire msg @ drop n b) (of_nat n) = Some (Returned (-9) m')"
    using assms(1) l by (intro mm_msg_decode_short [OF _ epd]) (auto simp: n_def)
  then obtain m' where "mm_msg_decode m (mm_header_wire msg @ mm_body_wire msg @ drop n b) (of_int (int n)) = Some (Returned (-9) m')"
    by auto
  with e l show ?thesis by (intro exI conjI) (assumption | simp add: n_def)+
qed

theorem mm_short_messages_rejected_witness:
  "\<forall>m0 m. \<exists>n b' m'. fivegmm_msg_encode (m0\<lparr>mm_extended_protocol_discriminator := 0x7e, mm_message_type := 0x5B\<rparr>) 64
       (Some (replicate 64 0)) = Some (n, b') \<and> 4 \<le> n \<and> n \<le> 6 \<and> mm_msg_decode m b' (of_int n) = Some (Returned (-9) m')"
  by (intro allI mm_short_messages_rejected) simp_all

text \<open>C22: The optional elements of a registration request are lost: however many the encoder wrote, the decoder of
  its octets returns 5, behind the registration type and the key set identifier, and leaves the rest of the
  structure as it was.\<close>

theorem registration_request_optionals_lost:
  assumes "rgreq_valid (registration_request msg)" and "mm_message_type msg = 0x41"
    and "mm_extended_protocol_discriminator msg = 0x7e" and "74 \<le> unat len"
    and "3 + length (rgreq_wire (registration_request msg)) \<le> unat len" and "unat len \<le> length b" and "unat len < 2 ^ 31"
  shows "\<exists>n b'. fivegmm_msg_encode msg len (Some b) = Some (n, b') \<and>
     n = int (5 + length (rgreq_opt_wire (registration_request msg))) \<and>
     mm_msg_decode m b' (of_int n) = Some (Returned 5 ((mm_header_seen m msg)\<lparr>registration_request :=
       rgreq_mand_seen (registration_request m) (registration_request msg)\<rparr>))"
proof -
  let ?r = "registration_request msg"
  have epd: "mm_extended_protocol_discriminator msg = EPD_5GS_MOBILITY_MANAGEMENT_MESSAGES"
    using assms(3) by (simp add: EPD_5GS_MOBILITY_MANAGEMENT_MESSAGES_def)
  have w: "mm_body_wire msg = rgreq_mand_wire ?r @ rgreq_opt_wire ?r" and valid: "mm_body_valid msg" and room: "mm_room 0x41 = 71"
    using assms(1,2) by (simp_all add: mm_body_wire_def mm_body_valid_def mm_room_def rgreq_wire_def)
  define n where "n = 5 + length (rgreq_opt_wire ?r)"
  have n: "5 \<le> n" by (simp add: n_def)
  have l: "length (mm_body_wire msg) + 3 = n" by (simp add: w n_def length_rgreq_mand_wire)
  have e: "fivegmm_msg_encode msg len (Some b)
      = Some (int n, mm_header_wire msg @ rgreq_mand_wire ?r @ rgreq_opt_wire ?r @ drop n b)"
    using fivegmm_msg_encode_wire [OF valid epd _ _ assms(6)] assms(2,4,5) l w room
    by (simp add: overwrite_zero add.commute rgreq_wire_def length_rgreq_mand_wire n_def)
  have u: "unat (of_nat n :: u32) = n"
    using assms(5,7) by (intro unat_u32_of_nat) (simp add: n_def rgreq_wire_def length_rgreq_mand_wire)
  have "decode_registration_request (registration_request m) (Some (rgreq_mand_wire ?r @ rgreq_opt_wire ?r @ drop n b)) (of_nat n - 3)
      = Some (Returned 2 (rgreq_mand_seen (registration_request m) ?r))"
    unfolding rgreq_seen_def [symmetric] using u n by (intro decode_registration_request_wire) (simp add: unat_minus_3)
  then have d: "mm_msg_decode m (mm_header_wire msg @ rgreq_mand_wire ?r @ rgreq_opt_wire ?r @ drop n b) (of_nat n)
      = Some (Returned 5 ((mm_header_seen m msg)\<lparr>registration_request := rgreq_mand_seen (registration_request m) ?r\<rparr>))"
    using u n assms(2)
    by (simp add: mm_msg_decode_def mm_header_decode [OF epd] mm_decoder_def mm_decoders_def mm_member_def mm_header_seen_def)
  show ?thesis using e d by (intro exI conjI) (assumption | simp add: n_def)+
qed

theorem registration_request_optionals_lost_witness:
  "\<forall>m0 m. let msg = m0\<lparr>mm_extended_protocol_discriminator := 0x7e, mm_message_type := 0x41,
       registration_request := (registration_request m0)\<lparr>rgreq_presence := 0x2000, rgreq_uesusagesetting := 1\<rparr>\<rparr>
   in \<exists>n b'. fivegmm_msg_encode msg 80 (Some (replicate 80 0)) = Some (n, b') \<and>
     n = int (5 + length (rgreq_opt_wire (registration_request msg))) \<and>
     mm_msg_decode m b' (of_int n) = Some (Returned 5 ((mm_header_seen m msg)\<lparr>registration_request :=
       rgreq_mand_seen (registration_request m) (registration_request msg)\<rparr>))"
  unfolding Let_def
  by (intro allI registration_request_optionals_lost)
    (simp_all add: rgreq_valid_def rgreq_wire_def length_rgreq_mand_wire rgreq_opt_wire_def ues_usage_setting_wire_def)

text \<open>C34: A message type that the dispatch does not know is not an error, unlike in session management: decoding returns
  3 with the header only, whatever follows, and encoding writes the header and returns 3.\<close>

theorem mm_unknown_type_accepted:
  assumes "t \<notin> set (map fst mm_decoders)" and "3 \<le> unat len"
  shows "mm_msg_decode m (0x7e # s # t # rest) len
       = Some (Returned 3 (m\<lparr>mm_extended_protocol_discriminator := 0x7e, mm_security_header_type := ucast s, mm_message_type := t\<rparr>)) \<and>
     (unat len \<le> length b \<longrightarrow>
       fivegmm_msg_encode (m\<lparr>mm_extended_protocol_discriminator := 0x7e, mm_message_type := t\<rparr>) len (Some b)
       = Some (3, [0x7e, ucast (mm_security_header_type m), t] @ drop 3 b))"
proof
  have "map_of mm_decoders t = None" using assms(1) by (simp add: map_of_eq_None_iff)
  then show "mm_msg_decode m (0x7e # s # t # rest) len
       = Some (Returned 3 (m\<lparr>mm_extended_protocol_discriminator := 0x7e, mm_security_header_type := ucast s, mm_message_type := t\<rparr>))"
    using assms(2)
    by (simp add: mm_msg_decode_def fivegmm_msg_decode_header_def EPD_5GS_MOBILITY_MANAGEMENT_MESSAGES_def mm_decoder_def)
  have "set (map fst mm_encoders) = set (map fst mm_decoders)" by (simp add: mm_encoders_def mm_decoders_def)
  then have "map_of mm_encoders t = None" using assms(1) by (simp only: map_of_eq_None_iff set_map not_False_eq_True)
  then show "unat len \<le> length b \<longrightarrow>
       fivegmm_msg_encode (m\<lparr>mm_extended_protocol_discriminator := 0x7e, mm_message_type := t\<rparr>) len (Some b)
       = Some (3, [0x7e, ucast (mm_security_header_type m), t] @ drop 3 b)"
    using assms(2)
    by (simp add: fivegmm_msg_encode_def mm_header_encode EPD_5GS_MOBILITY_MANAGEMENT_MESSAGES_def mm_encoder_def
        overwrite_zero mm_header_wire_def numeral_3_eq_3)
qed

theorem mm_unknown_type_accepted_witness:
  "\<forall>m. mm_msg_decode m (0x7e # 0 # 0x67 # [1]) 4
       = Some (Returned 3 (m\<lparr>mm_extended_protocol_discriminator := 0x7e, mm_security_header_type := ucast (0 :: u8), mm_message_type := 0x67\<rparr>)) \<and>
     (unat (4 :: u32) \<le> length [1, 2, 3, 4 :: u8] \<longrightarrow>
       fivegmm_msg_encode (m\<lparr>mm_extended_protocol_discriminator := 0x7e, mm_message_type := 0x67\<rparr>) 4 (Some [1, 2, 3, 4])
       = Some (3, [0x7e, ucast (mm_security_header_type m), 0x67] @ drop 3 [1, 2, 3, 4]))"
  by (intro allI mm_unknown_type_accepted) (simp_all add: mm_decoders_def)

text \<open>C35: Every mobility management encoder checks its room before it writes: in a buffer too small for what the
  message asks, only the header is written, and the code returned is -9, three more than that of a buffer that is
  too short.\<close>

theorem mm_encode_needs_room:
  assumes "mm_message_type msg \<in> set (map fst mm_encoders)" and "mm_extended_protocol_discriminator msg = 0x7e"
    and "3 \<le> unat len" and "unat len < 3 + mm_room (mm_message_type msg)" and "unat len \<le> length b"
  shows "fivegmm_msg_encode msg len (Some b) = Some (err TLV_BUFFER_TOO_SHORT + 3, mm_header_wire msg @ drop 3 b)"
  using fivegmm_msg_encode_short [OF assms(1) _ assms(3-5)] assms(2)
  by (simp add: EPD_5GS_MOBILITY_MANAGEMENT_MESSAGES_def overwrite_zero)

theorem mm_encode_needs_room_witness:
  "\<forall>m0. let msg = m0\<lparr>mm_extended_protocol_discriminator := 0x7e, mm_message_type := 0x42\<rparr>
   in fivegmm_msg_encode msg 64 (Some (replicate 64 0)) = Some (err TLV_BUFFER_TOO_SHORT + 3, mm_header_wire msg @ drop 3 (replicate 64 0))"
  unfolding Let_def by (intro allI mm_encode_needs_room) (simp_all add: mm_encoders_def mm_room_def)

end
