(* ===== verification/Nas_Mm.thy ===== *)
theory Nas_Mm
  imports Nas_Message MM_Msg
begin

text \<open>
  The layer 3 message (\<open>nas_message.c\<close>) over the mobility management codec (\<open>mm_msg.c\<close>): the parameters
  \<open>mm_enc\<close> and \<open>mm_dec\<close> of \<open>Nas_Message\<close> are \<open>fivegmm_msg_encode\<close> and \<open>mm_msg_decode\<close>.
\<close>

abbreviation nas_encode ::
  "(u64 \<Rightarrow> bool) \<Rightarrow> mem \<Rightarrow> MM_msg nas_message \<Rightarrow> u64 \<Rightarrow> fivegmm_security_context option
     \<Rightarrow> (int \<times> mem \<times> fivegmm_security_context option) option" where
  "nas_encode \<equiv> nas_message_encode fivegmm_msg_encode"

abbreviation nas_decode ::
  "(u64 \<Rightarrow> bool) \<Rightarrow> mem \<Rightarrow> MM_msg nas_message \<Rightarrow> u64 \<Rightarrow> fivegmm_security_context option
     \<Rightarrow> nas_message_decode_status option \<Rightarrow> MM_msg nas_decoded run option" where
  "nas_decode \<equiv> nas_message_decode mm_msg_decode"

text \<open>
  What the protected branch decodes is the zeroed block that nothing is decrypted into: the header octets of
  the message become 0, and no message is decoded.
\<close>

definition mm_zeroed :: "MM_msg \<Rightarrow> MM_msg" where
  "mm_zeroed m = m\<lparr>mm_extended_protocol_discriminator := 0, mm_security_header_type := 0, mm_message_type := 0\<rparr>"

lemma mm_decode_zeros:
  assumes "3 \<le> n" and "3 \<le> unat len"
  shows "mm_msg_decode m (replicate n 0) len = Some (Returned (err TLV_PROTOCOL_NOT_SUPPORTED) (mm_zeroed m))"
  using assms
  by (simp add: mm_msg_decode_def fivegmm_msg_decode_header_def DECODE_U8_def mm_zeroed_def
      EPD_5GS_MOBILITY_MANAGEMENT_MESSAGES_def)

lemma nas_mm_protected_decode:
  assumes "nas_epd h = EPD_MM" and "3 \<le> unat len" and "unat len < 2 ^ 32"
  shows "nas_message_protected_decode mm_msg_decode (\<lambda>_. True) b h p len
       = Some (Returned (err TLV_PROTOCOL_NOT_SUPPORTED) (p\<lparr>plain_mm := mm_zeroed (plain_mm p)\<rparr>))"
proof -
  have "unat (ucast len :: u32) = unat len" using assms(3) by (simp add: unsigned_ucast_eq take_bit_nat_eq_self)
  with assms mm_decode_zeros [of "unat len" "ucast len" "plain_mm p"] show ?thesis
    by (simp add: nas_message_protected_decode_def nas_message_decrypt_def nas_message_plain_decode_def)
qed

lemma unat_minus_2: "2 \<le> unat (len :: u64) \<Longrightarrow> unat (len - 2) = unat len - 2"
  using unat_sub [of 2 len] by (simp add: word_le_nat_alt)

lemma nas_mm_plain_decode:
  assumes "5 \<le> unat len" and "unat len < 2 ^ 32"
  shows "nas_decode (\<lambda>_. True) (0x7e # 0 # rest) msg len None status
       = Some (Returned 0 \<lparr>decoded_msg = msg\<lparr>nas_header := (nas_header msg)\<lparr>nas_epd := EPD_MM, security_header_type := 0\<rparr>,
             nas_plain_part := (nas_plain_part msg)\<lparr>plain_mm := mm_zeroed (plain_mm (nas_plain_part msg))\<rparr>\<rparr>,
             decoded_security = None, decoded_status = status\<rparr>)"
proof -
  let ?h = "(nas_header msg)\<lparr>nas_epd := EPD_MM, security_header_type := 0\<rparr>"
  have h: "nas_message_header_decode (0x7e # 0 # rest) (nas_header msg) len status = Some (2, ?h, status)"
    by (simp add: nas_message_header_decode_def DECODE_U8_def EPD_MM_def)
  have "unat (len - 2) = unat len - 2" using assms(1) by (intro unat_minus_2) simp
  then have "nas_message_protected_decode mm_msg_decode (\<lambda>_. True) rest ?h (nas_plain_part msg) (len - 2)
      = Some (Returned (err TLV_PROTOCOL_NOT_SUPPORTED)
          ((nas_plain_part msg)\<lparr>plain_mm := mm_zeroed (plain_mm (nas_plain_part msg))\<rparr>))"
    using assms by (intro nas_mm_protected_decode) simp_all
  then show ?thesis by (simp add: nas_message_decode_def h check_protection_def numeral_2_eq_2 [symmetric])
qed

text \<open>The encoder of the layer does write a plain mobility management message, over the header it wrote first.\<close>

lemma nas_mm_plain_encode:
  assumes "nas_epd (nas_header msg) = EPD_MM" and "security_header_type (nas_header msg) = 0"
    and "mm_body_valid (plain_mm (nas_plain_part msg))"
    and "mm_extended_protocol_discriminator (plain_mm (nas_plain_part msg)) = EPD_5GS_MOBILITY_MANAGEMENT_MESSAGES"
    and "3 + mm_room (mm_message_type (plain_mm (nas_plain_part msg))) \<le> unat len"
    and "3 + length (mm_body_wire (plain_mm (nas_plain_part msg))) \<le> unat len"
    and "unat len \<le> length b" and "unat len < 2 ^ 32"
  shows "nas_encode calloc_ok b msg len security
       = Some (int (3 + length (mm_body_wire (plain_mm (nas_plain_part msg)))),
               mm_header_wire (plain_mm (nas_plain_part msg)) @ mm_body_wire (plain_mm (nas_plain_part msg))
                 @ drop (3 + length (mm_body_wire (plain_mm (nas_plain_part msg)))) b, security)"
proof -
  let ?mm = "plain_mm (nas_plain_part msg)"
  let ?w = "mm_header_wire ?mm @ mm_body_wire ?mm"
  let ?h = "[ucast (nas_epd (nas_header msg)), ucast (drop_bit 8 (nas_epd (nas_header msg)))] :: u8 list"
  have l: "length ?w = 3 + length (mm_body_wire ?mm)" by simp
  have u: "unat (ucast len :: u32) = unat len" using assms(8) by (simp add: unsigned_ucast_eq take_bit_nat_eq_self)
  have e: "fivegmm_msg_encode ?mm (ucast len) (Some (overwrite b 0 ?h))
      = Some (int (length ?w), overwrite (overwrite b 0 ?h) 0 ?w)"
    using fivegmm_msg_encode_wire [OF assms(3,4), of "ucast len" "overwrite b 0 ?h"] assms(5-7) u by simp
  have o': "overwrite (overwrite b 0 ?h) 0 ?w = ?w @ drop (length ?w) b"
    using assms(6,7) l by (subst overwrite_over) (simp_all add: overwrite_zero)
  have h: "nas_message_header_encode b (nas_header msg) len = Some (2, overwrite b 0 ?h)"
    using assms by (intro header_encode_plain) simp_all
  show ?thesis
    unfolding nas_message_encode_def h
    using assms(1) e [unfolded o'] by (simp add: nas_message_plain_encode_def)
qed

subsection \<open>Properties\<close>

text \<open>C9: A plain mobility management message is lost in the layer 3 codec. The encoder writes it as the message codec
  does; the decoder takes the two octets of its header for a security header, decodes a zeroed block instead
  of the message, and returns \<open>RETURNok\<close>: of the message given to it, only the header octets change, to 0.\<close>

theorem nas_mm_lost:
  assumes "nas_epd (nas_header msg) = EPD_MM" and "security_header_type (nas_header msg) = 0"
    and "mm_body_valid (plain_mm (nas_plain_part msg))"
    and "mm_extended_protocol_discriminator (plain_mm (nas_plain_part msg)) = 0x7e"
    and "mm_security_header_type (plain_mm (nas_plain_part msg)) = 0"
    and "2 \<le> length (mm_body_wire (plain_mm (nas_plain_part msg)))"
    and "3 + mm_room (mm_message_type (plain_mm (nas_plain_part msg))) \<le> unat len"
    and "3 + length (mm_body_wire (plain_mm (nas_plain_part msg))) \<le> unat len"
    and "unat len \<le> length b" and "unat len < 2 ^ 31"
  shows "\<exists>n b' d. nas_message_encode fivegmm_msg_encode calloc_ok b msg len security = Some (n, b', security) \<and>
     take (nat n) b' = mm_header_wire (plain_mm (nas_plain_part msg)) @ mm_body_wire (plain_mm (nas_plain_part msg)) \<and>
     nas_message_decode mm_msg_decode (\<lambda>_. True) b' msg0 (of_int n) None status = Some (Returned 0 d) \<and>
     plain_mm (nas_plain_part (decoded_msg d)) = mm_zeroed (plain_mm (nas_plain_part msg0))"
proof -
  let ?mm = "plain_mm (nas_plain_part msg)"
  define n where "n = 3 + length (mm_body_wire ?mm)"
  have epd: "mm_extended_protocol_discriminator ?mm = EPD_5GS_MOBILITY_MANAGEMENT_MESSAGES"
    using assms(4) by (simp add: EPD_5GS_MOBILITY_MANAGEMENT_MESSAGES_def)
  have n: "5 \<le> n" "n < 2 ^ 31" using assms(6,8,10) by (simp_all add: n_def)
  have u: "unat (of_nat n :: u64) = n" using n by (simp add: unat_of_nat take_bit_nat_eq_self)
  have e: "nas_encode calloc_ok b msg len security
      = Some (int n, mm_header_wire ?mm @ mm_body_wire ?mm @ drop n b, security)"
    using nas_mm_plain_encode [OF assms(1-3) epd assms(7-9)] assms(10) by (simp add: n_def)
  have w: "mm_header_wire ?mm @ mm_body_wire ?mm @ drop n b = 0x7e # 0 # mm_message_type ?mm # mm_body_wire ?mm @ drop n b"
    using assms(4,5) by (simp add: mm_header_wire_def)
  let ?d = "\<lparr>decoded_msg = msg0\<lparr>nas_header := (nas_header msg0)\<lparr>nas_epd := EPD_MM, security_header_type := 0\<rparr>,
             nas_plain_part := (nas_plain_part msg0)\<lparr>plain_mm := mm_zeroed (plain_mm (nas_plain_part msg0))\<rparr>\<rparr>,
             decoded_security = None, decoded_status = status\<rparr>"
  have d: "nas_decode (\<lambda>_. True) (mm_header_wire ?mm @ mm_body_wire ?mm @ drop n b) msg0 (of_int (int n)) None status
      = Some (Returned 0 ?d)"
    unfolding w of_int_of_nat_eq using u n by (intro nas_mm_plain_decode) simp_all
  have t: "take n (mm_header_wire ?mm @ mm_body_wire ?mm @ drop n b) = mm_header_wire ?mm @ mm_body_wire ?mm"
    by (simp add: n_def)
  show ?thesis
  proof (intro exI conjI)
    show "nas_encode calloc_ok b msg len security
      = Some (int n, mm_header_wire ?mm @ mm_body_wire ?mm @ drop n b, security)" by (rule e)
    show "take (nat (int n)) (mm_header_wire ?mm @ mm_body_wire ?mm @ drop n b) = mm_header_wire ?mm @ mm_body_wire ?mm"
      unfolding nat_int by (rule t)
    show "nas_decode (\<lambda>_. True) (mm_header_wire ?mm @ mm_body_wire ?mm @ drop n b) msg0 (of_int (int n)) None status
      = Some (Returned 0 ?d)" by (rule d)
  qed simp
qed

theorem nas_mm_lost_witness:
  "\<forall>m0. let msg = m0\<lparr>nas_header := (nas_header m0)\<lparr>nas_epd := EPD_MM, security_header_type := 0\<rparr>,
                nas_plain_part := (nas_plain_part m0)\<lparr>plain_mm := (plain_mm (nas_plain_part m0))
                  \<lparr>mm_extended_protocol_discriminator := 0x7e, mm_security_header_type := 0, mm_message_type := 0x43\<rparr>\<rparr>\<rparr>
    in \<exists>n b' d. nas_message_encode fivegmm_msg_encode (\<lambda>_. True) (replicate 32 0) msg 32 None = Some (n, b', None) \<and>
     take (nat n) b' = mm_header_wire (plain_mm (nas_plain_part msg)) @ mm_body_wire (plain_mm (nas_plain_part msg)) \<and>
     nas_message_decode mm_msg_decode (\<lambda>_. True) b' m0 (of_int n) None None = Some (Returned 0 d) \<and>
     plain_mm (nas_plain_part (decoded_msg d)) = mm_zeroed (plain_mm (nas_plain_part m0))"
  unfolding Let_def
  by (intro allI nas_mm_lost) (simp_all add: mm_body_valid_def mm_body_wire_def short_wires mm_room_def)

end
