(* ===== verification/SM_Termination.thy ===== *)
theory SM_Termination
  imports SM_Msg
begin

text \<open>
  When the decoders of session management messages return. The loop over optional elements ends because
  every element decoder that succeeds takes at least one octet (\<open>moves\<close>); an octet that no case handles
  takes none. So the loop does not return exactly when a round of it reaches such an octet.
\<close>

subsection \<open>Every element decoder takes an octet\<close>

definition moves :: "('f \<Rightarrow> mem \<Rightarrow> u32 \<Rightarrow> (int \<times> 'f) option) \<Rightarrow> bool" where
  "moves dec \<longleftrightarrow> (\<forall>f b len r f'. dec f b len = Some (r, f') \<longrightarrow> r < 0 \<or> 0 < r)"

lemma movesI: "(\<And>f b len r f'. dec f b len = Some (r, f') \<Longrightarrow> r < 0 \<or> 0 < r) \<Longrightarrow> moves dec"
  by (auto simp: moves_def)

lemma check_iei_moves:
  assumes "check_iei iei b x k = Some (r, f)" and "\<And>d. k d = Some (r, f) \<Longrightarrow> r < 0 \<or> int d < r"
  shows "r < 0 \<or> 0 < r"
  using assms by (force simp: check_iei_def split: if_splits option.splits)

lemma check_lengthD: "check_length l n x k = Some (r, f) \<Longrightarrow> r < 0 \<or> k = Some (r, f)"
  by (auto simp: check_length_def split: if_splits)

lemma decode_parameter_le: "decode_parameter b d = Some (p, d') \<Longrightarrow> d \<le> d'"
  by (auto simp: decode_parameter_def Let_def split: bind_splits if_splits)

lemma decode_description_le: "decode_description b d = Some (p, d') \<Longrightarrow> d \<le> d'"
  using decode_array_le [of decode_parameter, OF decode_parameter_le]
  by (fastforce simp: decode_description_def Let_def split: bind_splits)

lemma decode_filters_neg: "decode_filters b len k d = Some (Inl r) \<Longrightarrow> r < 0"
  by (induction k arbitrary: d)
     (auto simp: decode_filter_def Let_def split: option.splits sum.splits bind_splits if_splits)

lemma decode_rule_neg: "decode_rule b len d = Some (Inl r) \<Longrightarrow> r < 0"
  by (auto simp: decode_rule_def decode_rule_tail_def Let_def
      split: bind_splits if_splits option.splits sum.splits dest: decode_filters_neg)

lemma decode_rules_loop_moves:
  "decode_rules_loop b len bound d = Some s \<Longrightarrow> (case s of Inl r \<Rightarrow> r < 0 | Inr (rs, d') \<Rightarrow> d \<le> d')"
proof (induction b len bound d arbitrary: s rule: decode_rules_loop.induct)
  case (1 b len bound d)
  show ?case
  proof (cases "d < bound")
    case False
    with 1(2) show ?thesis by (subst (asm) decode_rules_loop.simps) auto
  next
    case True
    from 1(2) True obtain t where rule: "decode_rule b len d = Some t"
      by (subst (asm) decode_rules_loop.simps) (auto split: option.splits)
    show ?thesis
    proof (cases t)
      case (Inl r)
      with 1(2) True rule have "s = Inl r" by (subst (asm) decode_rules_loop.simps) simp
      with rule Inl show ?thesis by (simp add: decode_rule_neg)
    next
      case (Inr rd)
      obtain r d1 where rd: "rd = (r, d1)" by (cases rd)
      from 1(2) True rule Inr rd obtain s1 where s1: "decode_rules_loop b len bound d1 = Some s1"
        and s: "s = (case s1 of Inl c \<Rightarrow> Inl c | Inr (rs, d2) \<Rightarrow> Inr (r # rs, d2))"
        by (subst (asm) decode_rules_loop.simps) (auto split: option.splits sum.splits)
      have "d < d1" using rule Inr rd by (simp add: decode_rule_less)
      with 1(1) [OF True rule Inr rd [symmetric] s1] s show ?thesis by (auto split: sum.splits)
    qed
  qed
qed

lemma fixed_moves:
  "iei \<noteq> 0 \<Longrightarrow> moves (\<lambda>f. decode__pdu_session_type f iei)" "moves (\<lambda>f. decode_ssc_mode f iei)"
  "moves (\<lambda>f. decode_alwayson_pdu_session_requested f iei)" "moves (\<lambda>f. decode_alwayson_pdu_session_indication f iei)"
  "moves (\<lambda>f. decode_allowed_ssc_mode f iei)"
  by (rule movesI; auto simp: decode__pdu_session_type_def decode_ssc_mode_def decode_alwayson_pdu_session_requested_def
      decode_alwayson_pdu_session_indication_def decode_allowed_ssc_mode_def Let_def split: bind_splits if_splits)+

lemma octet_moves:
  "moves (\<lambda>f. decode__5gsm_cause f iei)" "moves (\<lambda>f. decode_gprs_timer f iei)"
  "moves (\<lambda>f. decode_gprs_timer3 f iei)" "moves (\<lambda>f. decode__5gsm_congestion_reattempt_indicator f iei)"
  "moves (\<lambda>f. decode__5gsm_capability f iei)" "moves (\<lambda>f. decode_maximum_number_of_supported_packet_filters f iei)"
  "moves (\<lambda>f. decode_session_ambr f iei)"
  unfolding decode__5gsm_cause_def decode_gprs_timer_def decode_gprs_timer3_def decode__5gsm_capability_def
    decode__5gsm_congestion_reattempt_indicator_def decode_maximum_number_of_supported_packet_filters_def
    decode_session_ambr_def
  by (rule movesI, erule check_iei_moves, auto simp: Let_def split: bind_splits dest!: check_lengthD)+

lemma string_moves:
  "moves (\<lambda>f. decode_smpdudn_request_container f iei)" "moves (\<lambda>f. decode_dnn f iei)"
  "moves (\<lambda>f. decode_eap_message f iei)" "moves (\<lambda>f. decode_mapped_eps_bearer_contexts f iei)"
  "moves (\<lambda>f. decode_pdu_address f iei)" "moves (\<lambda>f. decode_extended_protocol_configuration_options f iei)"
  unfolding decode_smpdudn_request_container_def decode_dnn_def decode_eap_message_def
    decode_mapped_eps_bearer_contexts_def decode_pdu_address_def decode_extended_protocol_configuration_options_def
  by (rule movesI, erule check_iei_moves, auto simp: Let_def split: bind_splits if_splits dest!: check_lengthD)+

lemma integrity_moves: "iei \<noteq> 0 \<Longrightarrow> moves (\<lambda>f. decode_intergrity_protection_maximum_data_rate f iei)"
  unfolding decode_intergrity_protection_maximum_data_rate_def
  by (rule movesI) (auto simp: check_iei_def word_neq_0_conv [symmetric] split: bind_splits if_splits option.splits)

lemma snssai_moves: "moves (\<lambda>f. decode_snssai f iei)"
  unfolding decode_snssai_def
  by (rule movesI, erule check_iei_moves, auto simp: Let_def split: bind_splits if_splits dest!: check_lengthD)

lemma qos_moves: "moves (\<lambda>f. decode_qos_rules f iei)" "moves (\<lambda>f. decode_qos_flow_descriptions f iei)"
proof -
  show "moves (\<lambda>f. decode_qos_rules f iei)"
    unfolding decode_qos_rules_def
    by (rule movesI, erule check_iei_moves, fastforce simp: Let_def split: bind_splits option.splits sum.splits
        dest!: check_lengthD decode_rules_loop_moves)
  show "moves (\<lambda>f. decode_qos_flow_descriptions f iei)"
    unfolding decode_qos_flow_descriptions_def
    using decode_array_le [of decode_description, OF decode_description_le]
    by (intro movesI, erule_tac check_iei_moves) (fastforce simp: Let_def split: bind_splits dest!: check_lengthD)
qed

lemmas element_moves = fixed_moves octet_moves string_moves integrity_moves snssai_moves qos_moves

subsection \<open>Rounds of the loop\<close>

definition advances :: "'m dcmd \<Rightarrow> bool" where
  "advances c \<longleftrightarrow> (\<forall>b len m d m' d'. c b len m d = DNext m' d' \<longrightarrow> d < d')"

lemma advances_dcall: "moves dec \<Longrightarrow> advances (dcall dec get put mark)"
  by (force simp: advances_def moves_def dcall_def split: option.splits if_splits)

definition unknown_iei :: "(u8 \<times> 'm dcmd) list \<Rightarrow> (u8 \<times> 'm dcmd) list \<Rightarrow> u8 \<Rightarrow> bool" where
  "unknown_iei half full iei \<longleftrightarrow> iei AND 0xF0 \<notin> set (map fst half) \<and> iei \<notin> set (map fst full)"

lemma switch_advances:
  assumes "list_all (\<lambda>(k, c). advances c) t" and "switch t v b len m d = DNext m' d'"
  shows "d \<le> d' \<and> (v \<in> set (map fst t) \<longrightarrow> d < d')"
  using assms
proof (induction t)
  case (Cons kc t)
  show ?case
  proof (cases "v = fst kc")
    case True
    with Cons.prems have "d < d'" by (cases kc) (auto simp: advances_def)
    then show ?thesis by simp
  next
    case False
    with Cons show ?thesis by (cases kc) auto
  qed
qed simp

lemma ie_step_advances:
  assumes "list_all (\<lambda>(k, c). advances c) (half @ full)" and "\<not> unknown_iei half full iei"
    and "ie_step half full iei b len m d = DNext m' d'"
  shows "d < d'"
proof -
  from assms(3) obtain m1 d1 where 1: "switch half (iei AND 0xF0) b len m d = DNext m1 d1"
      "switch full iei b len m1 d1 = DNext m' d'"
    by (auto simp: ie_step_def split: dctl.splits)
  have "list_all (\<lambda>(k, c). advances c) half" "list_all (\<lambda>(k, c). advances c) full" using assms(1) by simp_all
  from switch_advances [OF this(1) 1(1)] switch_advances [OF this(2) 1(2)] assms(2) show ?thesis
    by (auto simp: unknown_iei_def)
qed

text \<open>The states at the head of the loop, from a first one.\<close>

inductive rounds :: "(u8 \<Rightarrow> 'm dcmd) \<Rightarrow> mem \<Rightarrow> u32 \<Rightarrow> 'm \<Rightarrow> nat \<Rightarrow> 'm \<Rightarrow> nat \<Rightarrow> bool" for step b len where
  here: "rounds step b len m d m d"
| round: "len - of_nat d \<noteq> 0 \<Longrightarrow> d < length b \<Longrightarrow> b ! d \<noteq> 0 \<Longrightarrow> step (b ! d) b len m d = DNext m1 d1 \<Longrightarrow>
    rounds step b len m1 d1 m' d' \<Longrightarrow> rounds step b len m d m' d'"

lemma ie_loop_stuck_at:
  assumes "rounds step b len m d m' d'" and "len - of_nat d' \<noteq> 0" "d' < length b" "b ! d' \<noteq> 0"
    and "step (b ! d') b len m' d' = DNext m' d'"
  shows "ie_loop step b len m d = None"
  using assms
proof (induction rule: rounds.induct)
  case (here m d)
  then show ?case by (intro ie_loop_stuck)
next
  case (round d m m1 d1 m' d')
  then show ?case by (subst ie_loop_until.simps) simp
qed

lemma ie_loop_None:
  assumes "list_all (\<lambda>(k, c). advances c) (half @ full)" and "ie_loop (ie_step half full) b len m d = None"
  shows "\<exists>m' d'. rounds (ie_step half full) b len m d m' d' \<and> len - of_nat d' \<noteq> 0 \<and> d' < length b \<and>
    b ! d' \<noteq> 0 \<and> unknown_iei half full (b ! d')"
  using assms(2)
proof (induction "length b - d" arbitrary: m d rule: less_induct)
  case less
  from less.prems have c: "len - of_nat d \<noteq> 0" "d < length b" "b ! d \<noteq> 0"
    by (subst (asm) ie_loop_until.simps; auto split: if_splits)+
  show ?case
  proof (cases "unknown_iei half full (b ! d)")
    case True
    with c show ?thesis by (blast intro: rounds.here)
  next
    case False
    from less.prems c obtain m1 d1 where 1: "ie_step half full (b ! d) b len m d = DNext m1 d1"
        "ie_loop (ie_step half full) b len m1 d1 = None"
      by (subst (asm) ie_loop_until.simps) (auto split: dctl.splits)
    from ie_step_advances [OF assms(1) False 1(1)] c(2) have "length b - d1 < length b - d" by simp
    from less.hyps [OF this 1(2)] c 1(1) show ?thesis by (blast intro: rounds.round)
  qed
qed

definition reaches_unknown ::
    "nat \<Rightarrow> 'm dcmd list \<Rightarrow> (u8 \<times> 'm dcmd) list \<Rightarrow> (u8 \<times> 'm dcmd) list \<Rightarrow> 'm \<Rightarrow> mem \<Rightarrow> u32 \<Rightarrow> bool" where
  "reaches_unknown minlen mand half full m b len \<longleftrightarrow> minlen \<le> unat len \<and>
     (\<exists>m1 d1 m' d'. dseq mand b len m 0 = DNext m1 d1 \<and> rounds (ie_step half full) b len m1 d1 m' d' \<and>
       len - of_nat d' \<noteq> 0 \<and> d' < length b \<and> b ! d' \<noteq> 0 \<and> unknown_iei half full (b ! d'))"

lemma msg_decoder_None:
  assumes "list_all (\<lambda>(k, c). advances c) (half @ full)"
  shows "(msg_decoder minlen mand (ie_step half full) m (Some b) len = None)
     = reaches_unknown minlen mand half full m b len"
proof
  assume "msg_decoder minlen mand (ie_step half full) m (Some b) len = None"
  then obtain m1 d1 where "minlen \<le> unat len" "dseq mand b len m 0 = DNext m1 d1"
      "ie_loop (ie_step half full) b len m1 d1 = None"
    by (auto simp: msg_decoder_def msg_decoder_until_def split: if_splits dctl.splits)
  with ie_loop_None [OF assms] show "reaches_unknown minlen mand half full m b len"
    by (fastforce simp: reaches_unknown_def)
next
  assume "reaches_unknown minlen mand half full m b len"
  then obtain m1 d1 m' d' where 1: "minlen \<le> unat len" "dseq mand b len m 0 = DNext m1 d1"
    and 2: "rounds (ie_step half full) b len m1 d1 m' d'" "len - of_nat d' \<noteq> 0" "d' < length b" "b ! d' \<noteq> 0"
      "unknown_iei half full (b ! d')"
    by (auto simp: reaches_unknown_def)
  then have "ie_loop (ie_step half full) b len m1 d1 = None"
    by (intro ie_loop_stuck_at [OF 2(1-4)] ie_step_unknown) (simp_all add: unknown_iei_def)
  with 1 show "msg_decoder minlen mand (ie_step half full) m (Some b) len = None"
    by (simp add: msg_decoder_def msg_decoder_until_def)
qed

lemma msg_decoder_None_octet:
  assumes "list_all (\<lambda>(k, c). advances c) (half @ full)"
    and "msg_decoder minlen mand (ie_step half full) m (Some b) len = None"
  shows "\<exists>d < length b. b ! d \<noteq> 0 \<and> unknown_iei half full (b ! d)"
  using msg_decoder_None [OF assms(1)] assms(2) by (auto simp: reaches_unknown_def)

subsection \<open>The identifiers of every message\<close>

lemma messages_advance:
  "list_all (\<lambda>(k, c). advances c) (ereq_half @ ereq_full)"
  "list_all (\<lambda>(k, c). advances c) (eacc_half @ eacc_full)"
  "list_all (\<lambda>(k, c). advances c) (erej_half @ erej_full)"
  "list_all (\<lambda>(k, c). advances c) (acmd_half @ acmd_full)"
  "list_all (\<lambda>(k, c). advances c) (acpl_half @ acpl_full)"
  "list_all (\<lambda>(k, c). advances c) (ares_half @ ares_full)"
  "list_all (\<lambda>(k, c). advances c) (mreq_half @ mreq_full)"
  "list_all (\<lambda>(k, c). advances c) (mrej_half @ mrej_full)"
  "list_all (\<lambda>(k, c). advances c) (mcmd_half @ mcmd_full)"
  "list_all (\<lambda>(k, c). advances c) (mcpl_half @ mcpl_full)"
  "list_all (\<lambda>(k, c). advances c) (mcrj_half @ mcrj_full)"
  "list_all (\<lambda>(k, c). advances c) (rreq_half @ rreq_full)"
  "list_all (\<lambda>(k, c). advances c) (rrej_half @ rrej_full)"
  "list_all (\<lambda>(k, c). advances c) (rcmd_half @ rcmd_full)"
  "list_all (\<lambda>(k, c). advances c) (rcpl_half @ rcpl_full)"
  by (simp_all add: ereq_half_def ereq_full_def eacc_half_def eacc_full_def erej_half_def erej_full_def acmd_half_def acmd_full_def acpl_half_def acpl_full_def ares_half_def ares_full_def mreq_half_def mreq_full_def mrej_half_def mrej_full_def mcmd_half_def mcmd_full_def mcpl_half_def mcpl_full_def mcrj_half_def mcrj_full_def rreq_half_def rreq_full_def rrej_half_def rrej_full_def rcmd_half_def rcmd_full_def rcpl_half_def rcpl_full_def
      advances_dcall element_moves)

text \<open>The identifiers a message of type \<open>t\<close> may carry: those of half an octet and the others.\<close>

definition sm_identifiers :: "u8 \<Rightarrow> u8 list \<times> u8 list" where
  "sm_identifiers t = (case map_of [
     (0xC1, (map fst ereq_half, map fst ereq_full)),
     (0xC2, (map fst eacc_half, map fst eacc_full)),
     (0xC3, (map fst erej_half, map fst erej_full)),
     (0xC5, (map fst acmd_half, map fst acmd_full)),
     (0xC6, (map fst acpl_half, map fst acpl_full)),
     (0xC7, (map fst ares_half, map fst ares_full)),
     (0xC9, (map fst mreq_half, map fst mreq_full)),
     (0xCA, (map fst mrej_half, map fst mrej_full)),
     (0xCB, (map fst mcmd_half, map fst mcmd_full)),
     (0xCC, (map fst mcpl_half, map fst mcpl_full)),
     (0xCD, (map fst mcrj_half, map fst mcrj_full)),
     (0xD1, (map fst rreq_half, map fst rreq_full)),
     (0xD2, (map fst rrej_half, map fst rrej_full)),
     (0xD3, (map fst rcmd_half, map fst rcmd_full)),
     (0xD4, (map fst rcpl_half, map fst rcpl_full))] t of
     None \<Rightarrow> ([], []) | Some ids \<Rightarrow> ids)"

definition known_element :: "u8 \<Rightarrow> u8 \<Rightarrow> bool" where
  "known_element t iei \<longleftrightarrow> iei AND 0xF0 \<in> set (fst (sm_identifiers t)) \<or> iei \<in> set (snd (sm_identifiers t))"

lemma known_elements:
  "known_element 0xC1 iei = (\<not> unknown_iei ereq_half ereq_full iei)"
  "known_element 0xC2 iei = (\<not> unknown_iei eacc_half eacc_full iei)"
  "known_element 0xC3 iei = (\<not> unknown_iei erej_half erej_full iei)"
  "known_element 0xC5 iei = (\<not> unknown_iei acmd_half acmd_full iei)"
  "known_element 0xC6 iei = (\<not> unknown_iei acpl_half acpl_full iei)"
  "known_element 0xC7 iei = (\<not> unknown_iei ares_half ares_full iei)"
  "known_element 0xC9 iei = (\<not> unknown_iei mreq_half mreq_full iei)"
  "known_element 0xCA iei = (\<not> unknown_iei mrej_half mrej_full iei)"
  "known_element 0xCB iei = (\<not> unknown_iei mcmd_half mcmd_full iei)"
  "known_element 0xCC iei = (\<not> unknown_iei mcpl_half mcpl_full iei)"
  "known_element 0xCD iei = (\<not> unknown_iei mcrj_half mcrj_full iei)"
  "known_element 0xD1 iei = (\<not> unknown_iei rreq_half rreq_full iei)"
  "known_element 0xD2 iei = (\<not> unknown_iei rrej_half rrej_full iei)"
  "known_element 0xD3 iei = (\<not> unknown_iei rcmd_half rcmd_full iei)"
  "known_element 0xD4 iei = (\<not> unknown_iei rcpl_half rcpl_full iei)"
  by (simp_all add: known_element_def sm_identifiers_def unknown_iei_def)

lemma messages_None:
  "decode_pdu_session_establishment_request m0 (Some b) len = None \<Longrightarrow> \<exists>d < length b. b ! d \<noteq> 0 \<and> \<not> known_element 0xC1 (b ! d)"
  "decode_pdu_session_establishment_accept m1 (Some b) len = None \<Longrightarrow> \<exists>d < length b. b ! d \<noteq> 0 \<and> \<not> known_element 0xC2 (b ! d)"
  "decode_pdu_session_establishment_reject m2 (Some b) len = None \<Longrightarrow> \<exists>d < length b. b ! d \<noteq> 0 \<and> \<not> known_element 0xC3 (b ! d)"
  "decode_pdu_session_authentication_command m3 (Some b) len = None \<Longrightarrow> \<exists>d < length b. b ! d \<noteq> 0 \<and> \<not> known_element 0xC5 (b ! d)"
  "decode_pdu_session_authentication_complete m4 (Some b) len = None \<Longrightarrow> \<exists>d < length b. b ! d \<noteq> 0 \<and> \<not> known_element 0xC6 (b ! d)"
  "decode_pdu_session_authentication_result m5 (Some b) len = None \<Longrightarrow> \<exists>d < length b. b ! d \<noteq> 0 \<and> \<not> known_element 0xC7 (b ! d)"
  "decode_pdu_session_modification_request m6 (Some b) len = None \<Longrightarrow> \<exists>d < length b. b ! d \<noteq> 0 \<and> \<not> known_element 0xC9 (b ! d)"
  "decode_pdu_session_modification_reject m7 (Some b) len = None \<Longrightarrow> \<exists>d < length b. b ! d \<noteq> 0 \<and> \<not> known_element 0xCA (b ! d)"
  "decode_pdu_session_modification_command m8 (Some b) len = None \<Longrightarrow> \<exists>d < length b. b ! d \<noteq> 0 \<and> \<not> known_element 0xCB (b ! d)"
  "decode_pdu_session_modification_complete m9 (Some b) len = None \<Longrightarrow> \<exists>d < length b. b ! d \<noteq> 0 \<and> \<not> known_element 0xCC (b ! d)"
  "decode_pdu_session_modification_command_reject m10 (Some b) len = None \<Longrightarrow> \<exists>d < length b. b ! d \<noteq> 0 \<and> \<not> known_element 0xCD (b ! d)"
  "decode_pdu_session_release_request m11 (Some b) len = None \<Longrightarrow> \<exists>d < length b. b ! d \<noteq> 0 \<and> \<not> known_element 0xD1 (b ! d)"
  "decode_pdu_session_release_reject m12 (Some b) len = None \<Longrightarrow> \<exists>d < length b. b ! d \<noteq> 0 \<and> \<not> known_element 0xD2 (b ! d)"
  "decode_pdu_session_release_command m13 (Some b) len = None \<Longrightarrow> \<exists>d < length b. b ! d \<noteq> 0 \<and> \<not> known_element 0xD3 (b ! d)"
  "decode_pdu_session_release_complete m14 (Some b) len = None \<Longrightarrow> \<exists>d < length b. b ! d \<noteq> 0 \<and> \<not> known_element 0xD4 (b ! d)"
  unfolding decode_pdu_session_establishment_request_def decode_pdu_session_establishment_accept_def decode_pdu_session_establishment_reject_def decode_pdu_session_authentication_command_def decode_pdu_session_authentication_complete_def decode_pdu_session_authentication_result_def decode_pdu_session_modification_request_def decode_pdu_session_modification_reject_def decode_pdu_session_modification_command_def decode_pdu_session_modification_complete_def decode_pdu_session_modification_command_reject_def decode_pdu_session_release_request_def decode_pdu_session_release_reject_def decode_pdu_session_release_command_def decode_pdu_session_release_complete_def known_elements not_not
  by (rule msg_decoder_None_octet, rule messages_advance, assumption)+

lemma member_None: "member dec get put msg p len = None \<Longrightarrow> dec (get msg) p len = None"
  by (auto simp: member_def split: option.splits run.splits)

lemma plain_decoder_returns: "plain_decoder minlen mand m p len \<noteq> None"
  by (auto simp: plain_decoder_def split: option.splits dctl.splits)

lemma status_returns: "decode__5gsm_status m p l \<noteq> None"
  unfolding decode__5gsm_status_def by (rule plain_decoder_returns)

lemma sm_decoders_None:
  "list_all (\<lambda>(t, dec). \<forall>msg b len. dec msg (Some b) len = None \<longrightarrow>
     (\<exists>d < length b. b ! d \<noteq> 0 \<and> \<not> known_element t (b ! d))) sm_decoders"
  unfolding sm_decoders_def list.pred_inject prod.case
  by (intro conjI allI impI list.pred_inject(1); drule member_None; (erule messages_None | erule notE [OF status_returns]))

lemma sm_decoder_None:
  assumes "sm_decoder msg (Some b) len = None"
  shows "\<exists>d < length b. b ! d \<noteq> 0 \<and> \<not> known_element (message_type msg) (b ! d)"
proof -
  obtain dec where dec: "map_of sm_decoders (message_type msg) = Some dec" "dec msg (Some b) len = None"
    using assms by (auto simp: sm_decoder_def split: option.splits)
  from map_of_SomeD [OF dec(1)] dec(2) sm_decoders_None show ?thesis
    by (fastforce simp: list_all_iff)
qed

section \<open>Properties\<close>

text \<open>C11: exactly when the decoder of an establishment request does not return. It does not return if and
  only if it accepts the length and the mandatory element, and a round of the loop over the optional
  elements arrives inside the block at an octet that is neither 0 nor one of the seven identifiers, before
  it has counted \<open>len\<close> octets. On every other input, well-formed or not, it returns.\<close>

theorem establishment_request_returns:
  "(decode_pdu_session_establishment_request m (Some b) len = None) =
     reaches_unknown 2
       [dcall (\<lambda>f. decode_intergrity_protection_maximum_data_rate f 0) ereq_intergrityprotectionmaximumdatarate
          (\<lambda>v. ereq_intergrityprotectionmaximumdatarate_update (\<lambda>_. v)) (\<lambda>m. m)]
       ereq_half ereq_full m b len"
  unfolding decode_pdu_session_establishment_request_def
  by (rule msg_decoder_None) (rule messages_advance)

text \<open>\<open>sm_msg_decode\<close> returns on every buffer in which each octet after the header is 0 or an identifier of
  the message's type, for all sixteen types and for unknown ones, whatever the length passed and the message
  before.\<close>

theorem sm_decode_returns:
  assumes "list_all (\<lambda>iei. iei = 0 \<or> known_element (buffer ! 3) iei) (drop 4 buffer)"
  shows "\<exists>r. sm_msg_decode msg buffer len = Some r"
proof (rule ccontr)
  assume "\<nexists>r. sm_msg_decode msg buffer len = Some r"
  then have "sm_msg_decode msg buffer len = None" by auto
  then obtain msg' where hdr: "fivegsm_msg_decode_header msg buffer len = Some (4, msg')"
    and dec: "sm_decoder msg' (Some (drop 4 buffer)) (len - 4) = None"
    by (auto simp: sm_msg_decode_def fivegsm_msg_decode_header_def Let_def
        split: option.splits run.splits bind_splits if_splits)
  from hdr have "message_type msg' = buffer ! 3"
    by (auto simp: fivegsm_msg_decode_header_def Let_def DECODE_U8_def split: bind_splits if_splits)
  with sm_decoder_None [OF dec] assms show False
    by (auto simp: list_all_length)
qed

theorem sm_decode_returns_witness:
  "\<forall>m. \<exists>r. sm_msg_decode m [0x2E, 1, 1, 0xD3, 0x37, 0, 0x37, 0x37] 8 = Some r"
  by (rule allI, rule sm_decode_returns)
     (simp add: known_elements unknown_iei_def rcmd_half_def rcmd_full_def)

end
