(* ===== verification/Byte_Order.thy ===== *)
theory Byte_Order
  imports Prelude
begin

text \<open>
  The octets of 16 and 32-bit words on a little-endian host and the byte order conversions of the
  programs: \<open>htons\<close> and \<open>htobe32\<close> of the user plane, \<open>hton_int32\<close> of the security algorithms.
\<close>

definition le16 :: "u8 \<Rightarrow> u8 \<Rightarrow> u16" where "le16 a b = be16 b a"

definition le32 :: "u8 \<Rightarrow> u8 \<Rightarrow> u8 \<Rightarrow> u8 \<Rightarrow> u32" where
  "le32 a b c d = ucast a OR push_bit 8 (ucast b) OR push_bit 16 (ucast c) OR push_bit 24 (ucast d)"

definition bytes16 :: "u16 \<Rightarrow> u8 list" where "bytes16 v = [lo8 v, hi8 v]"

definition bytes32 :: "u32 \<Rightarrow> u8 list" where
  "bytes32 v = [ucast v, ucast (drop_bit 8 v), ucast (drop_bit 16 v), ucast (drop_bit 24 v)]"

text \<open>\<open>__constant_htons\<close>, which converts its argument to 16 bits first, and \<open>htobe32\<close>.\<close>

definition htons :: "u16 \<Rightarrow> u16" where "htons v = be16 (lo8 v) (hi8 v)"

definition htobe32 :: "u32 \<Rightarrow> u32" where
  "htobe32 v = le32 (ucast (drop_bit 24 v)) (ucast (drop_bit 16 v)) (ucast (drop_bit 8 v)) (ucast v)"

definition be32_of :: "u8 \<Rightarrow> u8 \<Rightarrow> u8 \<Rightarrow> u8 \<Rightarrow> u32" where "be32_of a b c d = le32 d c b a"

lemma htons_le16 [simp]: "htons (le16 a b) = be16 a b"
  by (simp add: htons_def le16_def)

lemma htons_htons [simp]: "htons (htons v) = v"
  by (simp add: htons_def)

lemma htons_eq_iff: "(htons v = w) = (v = htons w)"
  by (metis htons_htons)

lemma bytes16_htons: "bytes16 (htons v) = [hi8 v, lo8 v]"
  by (simp add: bytes16_def htons_def)

lemma length_bytes [simp]: "length (bytes16 v) = 2" "length (bytes32 w) = 4"
  by (simp_all add: bytes16_def bytes32_def)

lemma ucast_le32:
  "ucast (le32 a b c d) = a" "ucast (drop_bit 8 (le32 a b c d)) = b"
  "ucast (drop_bit 16 (le32 a b c d)) = c" "ucast (drop_bit 24 (le32 a b c d)) = d"
  unfolding le32_def
  by (rule bit_word_eqI; auto simp: bit_simps not_less dest: bit_imp_le_length)+

lemma bytes32_le32 [simp]: "bytes32 (le32 a b c d) = [a, b, c, d]"
  by (simp add: bytes32_def ucast_le32)

lemma le32_bytes32 [simp]:
  "le32 (ucast v) (ucast (drop_bit 8 v)) (ucast (drop_bit 16 v)) (ucast (drop_bit 24 v)) = v"
proof (rule bit_word_eqI)
  fix n assume n: "n < LENGTH(32)"
  then have "n < 8 \<or> 8 \<le> n \<and> n < 16 \<or> 16 \<le> n \<and> n < 24 \<or> 24 \<le> n" by linarith
  with n show "bit (le32 (ucast v) (ucast (drop_bit 8 v)) (ucast (drop_bit 16 v)) (ucast (drop_bit 24 v))) n = bit v n"
    by (auto simp: le32_def bit_simps)
qed

lemma le32_inject [simp]: "(le32 a b c d = le32 a' b' c' d') = (a = a' \<and> b = b' \<and> c = c' \<and> d = d')"
  by (metis ucast_le32)

lemma htobe32_le32 [simp]: "htobe32 (le32 a b c d) = le32 d c b a"
  by (simp add: htobe32_def ucast_le32)

lemma htobe32_htobe32 [simp]: "htobe32 (htobe32 v) = v"
  by (simp add: htobe32_def ucast_le32)

lemma htobe32_be32_of: "htobe32 (be32_of a b c d) = le32 a b c d"
  by (simp add: be32_of_def)

lemma bytes32_htobe32:
  "bytes32 (htobe32 v) = [ucast (drop_bit 24 v), ucast (drop_bit 16 v), ucast (drop_bit 8 v), ucast v]"
  by (simp add: htobe32_def)

lemma unat_be16: "unat (be16 h l) = 256 * unat h + unat l"
proof -
  have "push_bit 8 (ucast h) AND (ucast l :: u16) = 0"
    by (rule bit_word_eqI) (auto simp: bit_simps dest: bit_imp_le_length)
  then have *: "be16 h l = push_bit 8 (ucast h) + ucast l"
    by (simp add: be16_def plus_disjoint)
  have "unat (push_bit 8 (ucast h) :: u16) = 256 * unat h"
    using unat_u8_less [of h] by (simp add: push_bit_eq_mult unat_word_ariths)
  then show ?thesis
    using unat_u8_less [of h] unat_u8_less [of l] by (simp add: * unat_word_ariths)
qed

lemma unat_le16: "unat (le16 a b) = unat a + 256 * unat b"
  by (simp add: le16_def unat_be16)

lemma ucast_le32_u16: "ucast (le32 a b c d) = le16 a b"
  unfolding le32_def le16_def be16_def
  by (rule bit_word_eqI) (auto simp: bit_simps dest: bit_imp_le_length)

lemma unat_le32: "unat (le32 a b c d) = unat (le16 a b) + 65536 * unat (le16 c d)"
proof -
  have "le32 a b c d = push_bit 16 (ucast (le16 c d)) OR ucast (le16 a b)"
    unfolding le32_def le16_def be16_def
    by (rule bit_word_eqI) (auto simp: bit_simps dest: bit_imp_le_length)
  moreover have "push_bit 16 (ucast (le16 c d)) AND (ucast (le16 a b) :: u32) = 0"
    by (rule bit_word_eqI) (auto simp: bit_simps dest: bit_imp_le_length)
  ultimately have *: "le32 a b c d = push_bit 16 (ucast (le16 c d)) + ucast (le16 a b)"
    by (simp add: plus_disjoint)
  have "unat (push_bit 16 (ucast (le16 c d)) :: u32) = 65536 * unat (le16 c d)"
    using unat_u16_less [of "le16 c d"] by (simp add: push_bit_eq_mult unat_word_ariths)
  then show ?thesis
    using unat_u16_less [of "le16 c d"] unat_u16_less [of "le16 a b"]
    by (simp add: * unat_word_ariths)
qed

subsection \<open>Big-endian words\<close>

lemma be32_of_inject [simp]: "(be32_of a b c d = be32_of a' b' c' d') = (a = a' \<and> b = b' \<and> c = c' \<and> d = d')"
  by (auto simp: be32_of_def)

lemma be32_octets: "be32_of (ucast (drop_bit 24 v)) (ucast (drop_bit 16 v)) (ucast (drop_bit 8 v)) (ucast v) = v"
  by (simp add: be32_of_def)

lemma be32_or: "push_bit 24 (ucast a) OR push_bit 16 (ucast b) OR push_bit 8 (ucast c) OR ucast d = be32_of a b c d"
  by (simp add: be32_of_def le32_def ac_simps)

text \<open>A 32-bit word is known from its four octets; the octets of its shifts by eight.\<close>

lemma u32_eqI:
  assumes "ucast v = (ucast w :: u8)" "ucast (drop_bit 8 v) = (ucast (drop_bit 8 w) :: u8)"
    "ucast (drop_bit 16 v) = (ucast (drop_bit 16 w) :: u8)" "ucast (drop_bit 24 v) = (ucast (drop_bit 24 w) :: u8)"
  shows "v = (w :: u32)"
  using assms by (metis be32_octets)

lemma drop_bit_32: "ucast (drop_bit 32 (v :: u32)) = (0 :: u8)" "drop_bit 32 (v :: u32) = 0"
  by (rule bit_word_eqI; auto simp: bit_simps dest: bit_imp_le_length)+

lemma ucast_push_8:
  "ucast (push_bit 8 (v :: u32)) = (0 :: u8)" "ucast (drop_bit 8 (push_bit 8 (v :: u32))) = (ucast v :: u8)"
  "ucast (drop_bit 16 (push_bit 8 (v :: u32))) = (ucast (drop_bit 8 v) :: u8)"
  "ucast (drop_bit 24 (push_bit 8 (v :: u32))) = (ucast (drop_bit 16 v) :: u8)"
  by (rule bit_word_eqI; auto simp: bit_simps)+

lemma and_ff: "v AND 0xff = take_bit 8 (v :: u32)"
proof -
  have "v AND mask 8 = take_bit 8 v" by (simp only: take_bit_eq_mask)
  then show ?thesis by (simp add: mask_eq_exp_minus_1)
qed

lemma ucast_be32:
  "ucast (be32_of a b c d) = d" "ucast (drop_bit 8 (be32_of a b c d)) = c"
  "ucast (drop_bit 16 (be32_of a b c d)) = b" "ucast (drop_bit 24 (be32_of a b c d)) = a"
  by (simp_all add: be32_of_def ucast_le32)

lemma ucast_xor: "ucast (v XOR w :: u32) = (ucast v XOR ucast w :: u8)"
  by (rule bit_word_eqI) (auto simp: bit_simps)

lemma be32_xor: "be32_of a b c d XOR be32_of a' b' c' d' = be32_of (a XOR a') (b XOR b') (c XOR c') (d XOR d')"
  by (rule u32_eqI) (simp_all add: ucast_be32 ucast_xor drop_bit_xor)

lemma be32_shift_left: "push_bit 8 (be32_of a b c d) = be32_of b c d 0"
  by (rule u32_eqI) (simp_all add: ucast_be32 ucast_push_8)

lemma be32_shift_right: "drop_bit 8 (be32_of a b c d) = be32_of 0 a b c"
  by (rule u32_eqI) (simp_all add: ucast_be32 drop_bit_32)

lemmas be32_shift = be32_shift_left be32_shift_right

lemma be32_cases:
  obtains a b c d where "v = be32_of a b c d"
  using be32_octets by metis

lemma ucast_and_ff [simp]: "ucast (v AND 0xff :: u32) = (ucast v :: u8)"
  by (rule bit_word_eqI) (auto simp: and_ff bit_simps)

lemma bytes32_inject [simp]: "(bytes32 v = bytes32 w) = (v = w)"
  by (auto simp: bytes32_def intro: u32_eqI)

lemma htobe32_inject [simp]: "(htobe32 v = htobe32 w) = (v = w)"
  by (metis htobe32_htobe32)

end
