(* ===== verification/Upf_Memory.thy ===== *)
theory Upf_Memory
  imports Codec Byte_Order
begin

text \<open>
  Packet memory of the user plane function: loads and stores of 8, 16 and 32 bits at an offset from
  \<open>ctx->data\<close> on a little-endian host. A packet
  is the list of the octets between \<open>ctx->data\<close> and \<open>ctx->data_end\<close>; an access outside it is \<open>None\<close>,
  so a program that yields a value has passed every bounds check it needs.
\<close>

subsection \<open>Loads and stores\<close>

definition ld8 :: "mem \<Rightarrow> nat \<Rightarrow> u8 option" where
  "ld8 p i = (if i + 1 \<le> length p then Some (p ! i) else None)"

definition ld16 :: "mem \<Rightarrow> nat \<Rightarrow> u16 option" where
  "ld16 p i = (if i + 2 \<le> length p then Some (le16 (p ! i) (p ! (i + 1))) else None)"

definition ld32 :: "mem \<Rightarrow> nat \<Rightarrow> u32 option" where
  "ld32 p i = (if i + 4 \<le> length p then Some (le32 (p ! i) (p ! (i + 1)) (p ! (i + 2)) (p ! (i + 3))) else None)"

definition ld_bytes :: "mem \<Rightarrow> nat \<Rightarrow> nat \<Rightarrow> mem option" where
  "ld_bytes p i n = (if i + n \<le> length p then Some (take n (drop i p)) else None)"

definition st_bytes :: "mem \<Rightarrow> nat \<Rightarrow> u8 list \<Rightarrow> mem option" where
  "st_bytes p i bs = (if i + length bs \<le> length p then Some (overwrite p i bs) else None)"

definition st8 :: "mem \<Rightarrow> nat \<Rightarrow> u8 \<Rightarrow> mem option" where "st8 p i v = st_bytes p i [v]"
definition st16 :: "mem \<Rightarrow> nat \<Rightarrow> u16 \<Rightarrow> mem option" where "st16 p i v = st_bytes p i (bytes16 v)"
definition st32 :: "mem \<Rightarrow> nat \<Rightarrow> u32 \<Rightarrow> mem option" where "st32 p i v = st_bytes p i (bytes32 v)"

lemmas ld_defs = ld8_def ld16_def ld32_def ld_bytes_def
lemmas st_defs = st8_def st16_def st32_def st_bytes_def

lemma length_st_bytes: "st_bytes p i bs = Some q \<Longrightarrow> length q = length p"
  by (auto simp: st_bytes_def split: if_splits)

text \<open>A list of known length is a list of its elements; used to compute with headers.\<close>

lemma length_eq_numeral:
  "(length xs = numeral k) = (\<exists>y ys. xs = y # ys \<and> length ys = pred_numeral k)"
  by (cases xs) (auto simp: numeral_eq_Suc)

lemma length_2E:
  assumes "length xs = 2"
  obtains a b where "xs = [a, b]"
  using assms that by (cases xs; cases "tl xs") auto

lemma length_4E:
  assumes "length xs = 4"
  obtains a b c d where "xs = [a, b, c, d]"
proof -
  from assms have "length (take 2 xs) = 2" "length (drop 2 xs) = 2" by simp_all
  then obtain a b c d where "take 2 xs = [a, b]" "drop 2 xs = [c, d]" by (elim length_2E)
  then have "xs = [a, b, c, d]" using append_take_drop_id [of 2 xs] by simp
  then show thesis by (rule that)
qed

lemma length_ge_numeral:
  "(numeral k \<le> length xs) = (\<exists>y ys. xs = y # ys \<and> pred_numeral k \<le> length ys)"
  by (cases xs) (auto simp: numeral_eq_Suc)

lemma nth_overwrite:
  "i + length bs \<le> length c \<Longrightarrow> k < i \<or> i + length bs \<le> k \<Longrightarrow> k < length c \<Longrightarrow> overwrite c i bs ! k = c ! k"
  by (auto simp: overwrite_def nth_append)

lemma take2_drop: "i + 2 \<le> length c \<Longrightarrow> take 2 (drop i c) = [c ! i, c ! (i + 1)]"
  by (simp add: take_Suc_conv_app_nth numeral_2_eq_2 Cons_nth_drop_Suc [symmetric])

end
