(* ===== verification/Upf_Stats.thy ===== *)
theory Upf_Stats
  imports Upf_Memory
begin

text \<open>
  What an XDP program of the user plane function returns, and \<open>bpf/xdp_stats_kern.h\<close>: the counters of
  packets and octets per action, in the per-CPU array \<open>mc_stats\<close>, which is a map from the actions to the
  records of one CPU.

  A program ends with an action, or by a tail call that succeeded and hands the packet to another
  program: \<open>bpf_tail_call\<close> does not return then.
\<close>

definition XDP_ABORTED :: u32 where [simp]: "XDP_ABORTED = 0"
definition XDP_DROP :: u32 where [simp]: "XDP_DROP = 1"
definition XDP_PASS :: u32 where [simp]: "XDP_PASS = 2"
definition XDP_REDIRECT :: u32 where [simp]: "XDP_REDIRECT = 4"
definition XDP_ACTION_MAX :: u32 where [simp]: "XDP_ACTION_MAX = 5"

datatype 'p xdp_result = XReturn u32 | XTail 'p

text \<open>A call of a function whose value is ignored, followed by \<open>return action\<close>.\<close>

definition and_return :: "'p xdp_result \<Rightarrow> u32 \<Rightarrow> 'p xdp_result" where
  "and_return r action = (case r of XTail p \<Rightarrow> XTail p | XReturn _ \<Rightarrow> XReturn action)"

lemma and_return_simps [simp]:
  "and_return (XReturn a) b = XReturn b" "and_return (XTail p) b = XTail p"
  by (simp_all add: and_return_def)

subsection \<open>Counters\<close>

record datarec =
  rx_packets :: u64
  rx_bytes :: u64

type_synonym stats = "u32 \<Rightarrow> datarec option"

definition xdp_stats_record_action :: "stats \<Rightarrow> mem \<Rightarrow> u32 \<Rightarrow> u32 \<times> stats" where
  "xdp_stats_record_action mc_stats p action =
     (if action \<ge> XDP_ACTION_MAX then (XDP_ABORTED, mc_stats)
      else
        (case mc_stats action of
           None \<Rightarrow> (XDP_ABORTED, mc_stats)
         | Some rec \<Rightarrow>
             (action, mc_stats(action \<mapsto>
                \<lparr>rx_packets = rx_packets rec + 1, rx_bytes = rx_bytes rec + of_nat (length p)\<rparr>))))"

text \<open>\<open>return xdp_stats_record_action(p_ctx, r)\<close>, where computing \<open>r\<close> may end in a tail call.\<close>

definition record_result :: "stats \<Rightarrow> mem \<Rightarrow> 'p xdp_result \<Rightarrow> 'p xdp_result \<times> stats" where
  "record_result mc_stats p r =
     (case r of
        XTail q \<Rightarrow> (XTail q, mc_stats)
      | XReturn a \<Rightarrow> (let (a, mc_stats) = xdp_stats_record_action mc_stats p a in (XReturn a, mc_stats)))"

text \<open>The array as the kernel sets it up: a record for every action.\<close>

definition stats_ok :: "stats \<Rightarrow> bool" where
  "stats_ok s \<longleftrightarrow> (\<forall>a < XDP_ACTION_MAX. s a \<noteq> None)"

definition total_packets :: "stats \<Rightarrow> u64" where
  "total_packets s = (\<Sum>a \<leftarrow> [0, 1, 2, 3, 4]. rx_packets (the (s a)))"

definition total_bytes :: "stats \<Rightarrow> u64" where
  "total_bytes s = (\<Sum>a \<leftarrow> [0, 1, 2, 3, 4]. rx_bytes (the (s a)))"

lemma action_cases:
  assumes "a < XDP_ACTION_MAX"
  obtains "a = 0" | "a = 1" | "a = 2" | "a = 3" | "a = (4 :: u32)"
proof -
  have "unat a < 5" using assms by (simp add: word_less_nat_alt)
  then have "unat a = 0 \<or> unat a = 1 \<or> unat a = 2 \<or> unat a = 3 \<or> unat a = 4" by linarith
  then have "a = 0 \<or> a = 1 \<or> a = 2 \<or> a = 3 \<or> a = 4" by (simp add: word_unat_eq_iff)
  then show thesis using that by blast
qed

lemma record_action_counts:
  assumes "stats_ok s" "a < XDP_ACTION_MAX" "xdp_stats_record_action s p a = (a', s')"
  shows "a' = a" "stats_ok s'" "total_packets s' = total_packets s + 1"
    "total_bytes s' = total_bytes s + of_nat (length p)"
proof -
  obtain r where r: "s a = Some r" using assms by (auto simp: stats_ok_def)
  have na: "\<not> a \<ge> XDP_ACTION_MAX" using assms(2) by simp
  have s': "a' = a" "s' = s(a \<mapsto> \<lparr>rx_packets = rx_packets r + 1, rx_bytes = rx_bytes r + of_nat (length p)\<rparr>)"
    using assms(3) na r by (auto simp: xdp_stats_record_action_def simp del: XDP_ACTION_MAX_def)
  show "a' = a" by (fact s'(1))
  show "stats_ok s'" using assms(1) by (auto simp: s' stats_ok_def)
  show "total_packets s' = total_packets s + 1"
    using assms(2) by (cases a rule: action_cases) (use r in \<open>auto simp: s' total_packets_def\<close>)
  show "total_bytes s' = total_bytes s + of_nat (length p)"
    using assms(2) by (cases a rule: action_cases) (use r in \<open>auto simp: s' total_bytes_def\<close>)
qed

end
