(* ===== verification/Upf_Session_Lookup.thy ===== *)
theory Upf_Session_Lookup
  imports Upf_Stats
begin

text \<open>
  The first program of the user plane datapath, \<open>pfcp_session_lookup_ebpf_xdp_prgrm_kernel.c\<close>: it
  parses Ethernet, IPv4, UDP and GTP-U, finds the program of the session by tunnel endpoint,
  interface and address of the user equipment, and hands the packet to it by a tail call. The maps
  are partial functions; the programs of \<open>m_next_rule_prog\<close> are of a type \<open>'p\<close> chosen by the user of
  the theory. The limit of 32 tail calls of the kernel is not reached: a program is called once here.

  A packet is read at offsets from \<open>ctx->data\<close>; \<open>None\<close> is a read behind \<open>ctx->data_end\<close>.
\<close>

subsection \<open>Headers and maps\<close>

definition sizeof_ethhdr :: nat where [simp]: "sizeof_ethhdr = 14"
definition sizeof_iphdr :: nat where [simp]: "sizeof_iphdr = 20"
definition sizeof_udphdr :: nat where [simp]: "sizeof_udphdr = 8"
definition sizeof_gtpuhdr :: nat where [simp]: "sizeof_gtpuhdr = 12"
definition sizeof_gtpu_extn_pdu_session_container :: nat where [simp]: "sizeof_gtpu_extn_pdu_session_container = 4"
definition sizeof_vlan_hdr :: nat where [simp]: "sizeof_vlan_hdr = 4"

definition GTP_ENCAPSULATED_SIZE :: nat where
  "GTP_ENCAPSULATED_SIZE =
     sizeof_iphdr + sizeof_udphdr + sizeof_gtpuhdr + sizeof_gtpu_extn_pdu_session_container"

lemma GTP_ENCAPSULATED_SIZE_44 [simp]: "GTP_ENCAPSULATED_SIZE = 44"
  by (simp add: GTP_ENCAPSULATED_SIZE_def)

definition GTP_UDP_PORT :: u16 where "GTP_UDP_PORT = 2152"
definition GTPU_G_PDU :: u8 where "GTPU_G_PDU = 255"
definition IPPROTO_UDP :: u8 where "IPPROTO_UDP = 17"
definition ETH_P_IP :: u16 where "ETH_P_IP = 0x0800"
definition ETH_P_8021Q :: u16 where "ETH_P_8021Q = 0x8100"
definition ETH_P_8021AD :: u16 where "ETH_P_8021AD = 0x88A8"
definition ETH_P_IPV6 :: u16 where "ETH_P_IPV6 = 0x86DD"
definition ETH_P_ARP :: u16 where "ETH_P_ARP = 0x0806"

lemmas protocol_defs = GTP_UDP_PORT_def GTPU_G_PDU_def IPPROTO_UDP_def ETH_P_IP_def ETH_P_8021Q_def
  ETH_P_8021AD_def ETH_P_IPV6_def ETH_P_ARP_def

definition INTERFACE_VALUE_ACCESS :: u8 where "INTERFACE_VALUE_ACCESS = 0"
definition INTERFACE_VALUE_CORE :: u8 where "INTERFACE_VALUE_CORE = 1"

record next_rule_prog_index_key =
  key_teid :: u32
  source_value :: u8
  ipv4_address :: u32

record 'p lookup_maps =
  m_session_mapping :: "u32 \<Rightarrow> u32 option"
  m_next_rule_prog_index :: "next_rule_prog_index_key \<Rightarrow> u32 option"
  m_next_rule_prog :: "u32 \<Rightarrow> 'p option"

subsection \<open>The program\<close>

definition tail_call_next_prog :: "'p lookup_maps \<Rightarrow> u32 \<Rightarrow> u8 \<Rightarrow> u32 \<Rightarrow> 'p xdp_result" where
  "tail_call_next_prog maps teid source ip =
     (case m_next_rule_prog_index maps \<lparr>key_teid = teid, source_value = source, ipv4_address = ip\<rparr> of
        Some index_prog \<Rightarrow>
          (case m_next_rule_prog maps index_prog of Some prog \<Rightarrow> XTail prog | None \<Rightarrow> XReturn XDP_DROP)
      | None \<Rightarrow> XReturn XDP_DROP)"

definition handle_downlink_traffic :: "'p lookup_maps \<Rightarrow> u32 \<Rightarrow> 'p xdp_result" where
  "handle_downlink_traffic maps ue_ip_address =
     (case m_session_mapping maps ue_ip_address of
        Some teid_dl \<Rightarrow>
          and_return (tail_call_next_prog maps teid_dl INTERFACE_VALUE_CORE ue_ip_address) XDP_PASS
      | None \<Rightarrow> XReturn XDP_PASS)"

definition handle_uplink_traffic :: "'p lookup_maps \<Rightarrow> mem \<Rightarrow> nat \<Rightarrow> 'p xdp_result option" where
  "handle_uplink_traffic maps p udph =
     (let p_gtpuh = udph + sizeof_udphdr in
      if p_gtpuh + sizeof_gtpuhdr > length p then Some (XReturn XDP_DROP)
      else
        (let p_new_eth = GTP_ENCAPSULATED_SIZE in
         if p_new_eth + sizeof_ethhdr > length p then Some (XReturn XDP_DROP)
         else
           (let p_ip_inner = p_new_eth + sizeof_ethhdr in
            if p_ip_inner + sizeof_iphdr > length p then Some (XReturn XDP_DROP)
            else do {
              src_ip_in \<leftarrow> ld32 p (p_ip_inner + 12);
              message_type \<leftarrow> ld8 p (p_gtpuh + 1);
              if message_type \<noteq> GTPU_G_PDU then Some (XReturn XDP_PASS)
              else do {
                teid \<leftarrow> ld32 p (p_gtpuh + 4);
                Some (and_return (tail_call_next_prog maps teid INTERFACE_VALUE_ACCESS src_ip_in) XDP_PASS) }})))"

definition ipv4_handle :: "'p lookup_maps \<Rightarrow> mem \<Rightarrow> nat \<Rightarrow> 'p xdp_result option" where
  "ipv4_handle maps p iph = do {
     ip_dest \<leftarrow> ld32 p (iph + 16);
     protocol \<leftarrow> ld8 p (iph + 9);
     if protocol = IPPROTO_UDP then
       (let udph = iph + sizeof_iphdr in
        if udph + sizeof_udphdr > length p then Some (XReturn XDP_DROP)
        else do {
          dest \<leftarrow> ld16 p (udph + 2);
          if htons dest = GTP_UDP_PORT then handle_uplink_traffic maps p udph
          else Some (handle_downlink_traffic maps ip_dest) })
     else Some (handle_downlink_traffic maps ip_dest) }"

text \<open>
  The case of the two VLAN types falls through to the one of IPv4; the type it reads behind the tag
  is not used.
\<close>

definition eth_handle :: "'p lookup_maps \<Rightarrow> mem \<Rightarrow> nat \<Rightarrow> 'p xdp_result option" where
  "eth_handle maps p ethh = do {
     h_proto \<leftarrow> ld16 p (ethh + 12);
     let eth_type = htons h_proto;
     let ip_case = (\<lambda>offset.
       if ethh + offset + sizeof_iphdr > length p then Some (XReturn XDP_DROP)
       else ipv4_handle maps p (ethh + offset));
     if eth_type = ETH_P_8021Q \<or> eth_type = ETH_P_8021AD then do {
       _ \<leftarrow> (if ethh + sizeof_ethhdr + sizeof_vlan_hdr \<le> length p
            then map_option htons (ld16 p (ethh + sizeof_ethhdr + 2)) else Some eth_type);
       ip_case (sizeof_ethhdr + sizeof_vlan_hdr) }
     else if eth_type = ETH_P_IP then ip_case sizeof_ethhdr
     else Some (XReturn XDP_PASS) }"

definition entry_point :: "'p lookup_maps \<Rightarrow> stats \<Rightarrow> mem \<Rightarrow> ('p xdp_result \<times> stats) option" where
  "entry_point maps mc_stats p =
     (if sizeof_ethhdr > length p then Some (XReturn XDP_DROP, mc_stats)
      else map_option (record_result mc_stats p) (eth_handle maps p 0))"

subsection \<open>Every packet is handled inside its bounds\<close>

lemma ld_some [simp]:
  "i + 1 \<le> length p \<Longrightarrow> ld8 p i = Some (p ! i)"
  "i + 2 \<le> length p \<Longrightarrow> ld16 p i = Some (le16 (p ! i) (p ! (i + 1)))"
  "i + 4 \<le> length p \<Longrightarrow> ld32 p i = Some (le32 (p ! i) (p ! (i + 1)) (p ! (i + 2)) (p ! (i + 3)))"
  by (simp_all add: ld_defs)

lemma uplink_defined: "\<exists>r. handle_uplink_traffic maps p udph = Some r"
  by (simp add: handle_uplink_traffic_def Let_def)

lemma ipv4_defined: "iph + 20 \<le> length p \<Longrightarrow> \<exists>r. ipv4_handle maps p iph = Some r"
  using uplink_defined by (auto simp: ipv4_handle_def Let_def)

lemma eth_defined: "14 \<le> length p \<Longrightarrow> \<exists>r. eth_handle maps p 0 = Some r"
  using ipv4_defined [of _ p maps] by (auto simp: eth_handle_def Let_def)

text \<open>The actions this program can return.\<close>

lemma tail_call_action: "tail_call_next_prog maps t s i = XReturn a \<Longrightarrow> a = XDP_DROP"
  by (auto simp: tail_call_next_prog_def split: option.splits)

lemma and_return_action: "and_return r b = XReturn a \<Longrightarrow> a = b"
  by (cases r) auto

lemma downlink_action: "handle_downlink_traffic maps ip = XReturn a \<Longrightarrow> a = XDP_PASS"
  by (auto simp: handle_downlink_traffic_def dest: and_return_action split: option.splits)

lemma uplink_action:
  "handle_uplink_traffic maps p udph = Some (XReturn a) \<Longrightarrow> a = XDP_DROP \<or> a = XDP_PASS"
  by (auto simp: handle_uplink_traffic_def Let_def dest: and_return_action split: if_splits)

lemma ipv4_action:
  "ipv4_handle maps p iph = Some (XReturn a) \<Longrightarrow> a = XDP_DROP \<or> a = XDP_PASS"
  by (auto simp: ipv4_handle_def Let_def dest: uplink_action downlink_action
      split: bind_splits if_splits)

lemma eth_action:
  "eth_handle maps p e = Some (XReturn a) \<Longrightarrow> a = XDP_DROP \<or> a = XDP_PASS"
  by (auto simp: eth_handle_def Let_def dest: ipv4_action split: bind_splits if_splits)

subsection \<open>Packets\<close>

text \<open>
  A G-PDU in a tunnel: Ethernet, IPv4 without options, UDP to port 2152, GTP-U of type 255 with the
  extension header of a PDU session, and an IPv4 packet inside it. The tunnel endpoint is its number,
  an address is the value of an \<open>s_addr\<close>, four octets in the order of the packet.
\<close>

definition ethertype :: "mem \<Rightarrow> u16" where "ethertype p = be16 (p ! 12) (p ! 13)"

definition uplink_gpdu :: "u32 \<Rightarrow> u32 \<Rightarrow> mem \<Rightarrow> bool" where
  "uplink_gpdu teid ue p \<longleftrightarrow>
     78 \<le> length p \<and> ethertype p = ETH_P_IP \<and> p ! 23 = IPPROTO_UDP \<and>
     be16 (p ! 36) (p ! 37) = GTP_UDP_PORT \<and> p ! 43 = GTPU_G_PDU \<and>
     be32_of (p ! 46) (p ! 47) (p ! 48) (p ! 49) = teid \<and>
     le32 (p ! 70) (p ! 71) (p ! 72) (p ! 73) = ue"

text \<open>An IPv4 packet that is not sent to the GTP-U port.\<close>

definition ipv4_to :: "u32 \<Rightarrow> mem \<Rightarrow> bool" where
  "ipv4_to ip p \<longleftrightarrow>
     34 \<le> length p \<and> ethertype p = ETH_P_IP \<and> le32 (p ! 30) (p ! 31) (p ! 32) (p ! 33) = ip \<and>
     (p ! 23 = IPPROTO_UDP \<longrightarrow> 42 \<le> length p \<and> be16 (p ! 36) (p ! 37) \<noteq> GTP_UDP_PORT)"

lemma eth_uplink:
  assumes "uplink_gpdu teid ue p"
  shows "eth_handle maps p 0 =
    Some (and_return (tail_call_next_prog maps (htobe32 teid) INTERFACE_VALUE_ACCESS ue) XDP_PASS)"
proof -
  have "htobe32 teid = le32 (p ! 46) (p ! 47) (p ! 48) (p ! 49)"
    using assms by (auto simp: uplink_gpdu_def htobe32_be32_of)
  then show ?thesis
    using assms
    by (simp add: uplink_gpdu_def ethertype_def eth_handle_def ipv4_handle_def handle_uplink_traffic_def
        Let_def protocol_defs)
qed

lemma eth_downlink:
  assumes "ipv4_to ip p"
  shows "eth_handle maps p 0 = Some (handle_downlink_traffic maps ip)"
  using assms
  by (auto simp: ipv4_to_def ethertype_def eth_handle_def ipv4_handle_def Let_def protocol_defs)

section \<open>Properties\<close>

text \<open>C19: the session lookup program handles every packet without reading behind its end, whatever the
  maps hold, and when it returns an action, this is \<open>XDP_DROP\<close> or \<open>XDP_PASS\<close>.\<close>

theorem session_lookup_safe:
  assumes "stats_ok s"
  shows "\<exists>r s'. entry_point maps s p = Some (r, s') \<and> stats_ok s' \<and>
           (r = XReturn XDP_DROP \<or> r = XReturn XDP_PASS \<or> (\<exists>prog. r = XTail prog))"
proof (cases "14 \<le> length p")
  case True
  then obtain r where r: "eth_handle maps p 0 = Some r" using eth_defined by blast
  show ?thesis
  proof (cases r)
    case (XReturn a)
    obtain a' s' where s': "xdp_stats_record_action s p a = (a', s')" by fastforce
    have a: "a = XDP_DROP \<or> a = XDP_PASS" using eth_action r XReturn by auto
    then have "a < XDP_ACTION_MAX" by auto
    from record_action_counts [OF assms this s'] a show ?thesis
      using True r XReturn s' by (auto simp: entry_point_def record_result_def)
  qed (use True r assms in \<open>auto simp: entry_point_def record_result_def\<close>)
qed (use assms in \<open>auto simp: entry_point_def\<close>)

definition zero_stats :: stats where
  "zero_stats a = (if a < XDP_ACTION_MAX then Some \<lparr>rx_packets = 0, rx_bytes = 0\<rparr> else None)"

lemma zero_stats_ok [simp]: "stats_ok zero_stats"
  by (simp add: stats_ok_def zero_stats_def)

theorem session_lookup_safe_witness:
  "\<exists>r s'. entry_point \<lparr>m_session_mapping = Map.empty, m_next_rule_prog_index = Map.empty,
      m_next_rule_prog = (Map.empty :: u32 \<Rightarrow> nat option)\<rparr> zero_stats (replicate 20 0) = Some (r, s') \<and> stats_ok s' \<and>
      (r = XReturn XDP_DROP \<or> r = XReturn XDP_PASS \<or> (\<exists>prog. r = XTail prog))"
  by (rule session_lookup_safe) simp

text \<open>A tagged frame is handled as if the tag were followed by an IPv4 header, whatever type it
  carries: the tagged type is not looked at.\<close>

theorem vlan_type_ignored:
  assumes "ethertype p = ETH_P_8021Q \<or> ethertype p = ETH_P_8021AD" and "38 \<le> length p"
  shows "eth_handle maps (overwrite p 16 [a, b]) 0 = eth_handle maps p 0 \<and>
         eth_handle maps p 0 = ipv4_handle maps p 18"
proof -
  define q where "q = overwrite p 16 [a, b]"
  have len: "length q = length p" using assms by (simp add: q_def)
  have nth: "q ! i = p ! i" if "i < 16 \<or> 18 \<le> i" "i < length p" for i
    using that assms(2) unfolding q_def overwrite_def by (auto simp: nth_append)
  have ld: "ld8 q i = ld8 p i" if "18 \<le> i" for i using that by (simp add: ld8_def len nth)
  have ld2: "ld16 q i = ld16 p i" if "18 \<le> i" for i using that by (simp add: ld16_def len nth)
  have ld4: "ld32 q i = ld32 p i" if "18 \<le> i" for i using that by (simp add: ld32_def len nth)
  have "ipv4_handle maps q 18 = ipv4_handle maps p 18"
    by (simp add: ipv4_handle_def handle_uplink_traffic_def Let_def len ld ld2 ld4 del: ld_some cong: if_cong)
  moreover have "eth_handle maps r 0 = ipv4_handle maps r 18"
    if "length r = length p" "r ! 12 = p ! 12" "r ! 13 = p ! 13" for r
    using assms that by (auto simp: eth_handle_def ethertype_def Let_def protocol_defs)
  ultimately show ?thesis
    using nth [of 12] nth [of 13] assms(2) len unfolding q_def [symmetric] by simp
qed

definition example_maps :: "nat lookup_maps" where
  "example_maps =
     \<lparr>m_session_mapping = [0x0100000c \<mapsto> 5],
      m_next_rule_prog_index = [\<lparr>key_teid = 5, source_value = 1, ipv4_address = 0x0100000c\<rparr> \<mapsto> 7],
      m_next_rule_prog = [7 \<mapsto> 1]\<rparr>"

text \<open>A tagged ARP packet.\<close>

definition tagged_arp :: mem where
  "tagged_arp = replicate 12 0 @ [0x81, 0, 0, 1, 0x08, 0x06] @ replicate 16 0 @ [12, 0, 0, 1]"

theorem vlan_type_ignored_witness:
  "eth_handle example_maps (overwrite tagged_arp 16 [0x86, 0xDD]) 0 = eth_handle example_maps tagged_arp 0 \<and>
   eth_handle example_maps tagged_arp 0 = ipv4_handle example_maps tagged_arp 18"
  by (rule vlan_type_ignored)
     (simp_all add: tagged_arp_def ethertype_def protocol_defs be16_def nth_append)

text \<open>A G-PDU of a tunnel that is not in the index is handed to the kernel's network stack, not
  dropped: the \<open>XDP_DROP\<close> of \<open>tail_call_next_prog\<close> is ignored by its caller.\<close>

theorem unknown_tunnel_passes:
  assumes "uplink_gpdu teid ue p"
    and "m_next_rule_prog_index maps
      \<lparr>key_teid = htobe32 teid, source_value = INTERFACE_VALUE_ACCESS, ipv4_address = ue\<rparr> = None"
  shows "tail_call_next_prog maps (htobe32 teid) INTERFACE_VALUE_ACCESS ue = XReturn XDP_DROP \<and>
         entry_point maps s p = Some (record_result s p (XReturn XDP_PASS))"
proof -
  have "tail_call_next_prog maps (htobe32 teid) INTERFACE_VALUE_ACCESS ue = XReturn XDP_DROP"
    using assms(2) by (simp add: tail_call_next_prog_def)
  moreover have "14 \<le> length p" using assms(1) by (simp add: uplink_gpdu_def)
  ultimately show ?thesis using eth_uplink [OF assms(1), of maps] by (simp add: entry_point_def)
qed

definition gpdu_example :: mem where
  "gpdu_example = replicate 12 2 @ [8, 0] @ replicate 9 0 @ [17] @ replicate 12 0 @ [0x08, 0x68] @ replicate 4 0
     @ [0x34, 255] @ [0, 0, 0, 0, 0, 9] @ replicate 20 0 @ [12, 1, 1, 2] @ replicate 4 0"

lemma gpdu_example_gpdu: "uplink_gpdu 9 0x0201010c gpdu_example"
  by (simp add: uplink_gpdu_def gpdu_example_def ethertype_def protocol_defs be16_def be32_of_def le32_def nth_append)

definition ip_example :: mem where
  "ip_example = replicate 12 2 @ [8, 0] @ replicate 9 0 @ [6] @ replicate 6 0 @ [12, 1, 1, 2]"

lemma ip_example_to: "ipv4_to 0x0201010c ip_example"
  by (simp add: ipv4_to_def ip_example_def ethertype_def protocol_defs be16_def le32_def nth_append)

lemma ip_example_ipv4: "34 \<le> length ip_example" "ethertype ip_example = ETH_P_IP"
  by (simp_all add: ip_example_def ethertype_def protocol_defs be16_def nth_append)

theorem unknown_tunnel_passes_witness:
  "tail_call_next_prog (\<lparr>m_session_mapping = Map.empty, m_next_rule_prog_index = Map.empty,
      m_next_rule_prog = (Map.empty :: u32 \<Rightarrow> nat option)\<rparr>) (htobe32 9) INTERFACE_VALUE_ACCESS 0x0201010c = XReturn XDP_DROP \<and>
   entry_point (\<lparr>m_session_mapping = Map.empty, m_next_rule_prog_index = Map.empty,
      m_next_rule_prog = (Map.empty :: u32 \<Rightarrow> nat option)\<rparr>) zero_stats gpdu_example
    = Some (record_result zero_stats gpdu_example (XReturn XDP_PASS))"
  by (rule unknown_tunnel_passes [OF gpdu_example_gpdu]) simp

end
