(* ===== verification/Upf_Control.thy ===== *)
theory Upf_Control
  imports Upf_Session_Lookup
begin

text \<open>
  The control side of the session lookup, \<open>SessionProgramManager.cpp\<close>: a pipeline is a FAR program,
  its entries in the maps of the lookup program and the record of the session it belongs to. A FAR
  program is a value of the type \<open>'p\<close> with the identifier \<open>getId()\<close> under which it is stored; the host
  is little-endian, so the branch of \<open>is_little_endian()\<close> is the one taken. Updates of the BPF maps
  succeed here (the wrapper throws when a map is full). The FAR and ARP maps of the program are not
  part of this state.
\<close>

subsection \<open>State\<close>

record 'p control =
  ctl_maps :: "'p lookup_maps"
  mSessionProgramsMap :: "u32 \<Rightarrow> (next_rule_prog_index_key \<times> 'p) option"
  farPrograms :: "(u32 \<times> 'p) list"
  torn_down :: "'p list"

datatype control_error = Session_Does_Not_Exist

definition initial_control :: "'p control" where
  "initial_control =
     \<lparr>ctl_maps = \<lparr>m_session_mapping = Map.empty, m_next_rule_prog_index = Map.empty, m_next_rule_prog = Map.empty\<rparr>,
      mSessionProgramsMap = Map.empty, farPrograms = [], torn_down = []\<rparr>"

subsection \<open>Operations\<close>

definition initializeNextRuleProgIndexKey :: "u32 \<Rightarrow> u32 \<Rightarrow> u8 \<Rightarrow> next_rule_prog_index_key" where
  "initializeNextRuleProgIndexKey teid ueIpAddress sourceInterface =
     \<lparr>key_teid = htobe32 teid, source_value = sourceInterface, ipv4_address = ueIpAddress\<rparr>"

definition storeFarProgramIndexInNextProgRuleIndexMap ::
  "u32 \<Rightarrow> 'p \<Rightarrow> next_rule_prog_index_key \<Rightarrow> 'p control \<Rightarrow> 'p control" where
  "storeFarProgramIndexInNextProgRuleIndexMap ident prog key c =
     c\<lparr>ctl_maps := (ctl_maps c)
         \<lparr>m_next_rule_prog_index := (m_next_rule_prog_index (ctl_maps c))(key \<mapsto> ident),
          m_next_rule_prog := (m_next_rule_prog (ctl_maps c))(ident \<mapsto> prog)\<rparr>\<rparr>"

definition storeSessionMappingMap :: "u32 \<Rightarrow> u32 \<Rightarrow> 'p control \<Rightarrow> 'p control" where
  "storeSessionMappingMap ue_ip_address teid_dl c =
     c\<lparr>ctl_maps := (ctl_maps c)
         \<lparr>m_session_mapping := (m_session_mapping (ctl_maps c))(ue_ip_address \<mapsto> htobe32 teid_dl)\<rparr>\<rparr>"

text \<open>
  The assignment to \<open>mSessionProgramsMap[seid]\<close> releases the object that was there; its destructor
  tears its FAR program down.
\<close>

definition saveSeidWithinFARProgram :: "u32 \<Rightarrow> 'p \<Rightarrow> next_rule_prog_index_key \<Rightarrow> 'p control \<Rightarrow> 'p control" where
  "saveSeidWithinFARProgram seid prog key c =
     c\<lparr>mSessionProgramsMap := (mSessionProgramsMap c)(seid \<mapsto> (key, prog)),
       farPrograms := farPrograms c @ [(seid, prog)],
       torn_down := torn_down c @ (case mSessionProgramsMap c seid of None \<Rightarrow> [] | Some (_, old) \<Rightarrow> [old])\<rparr>"

definition createPipeline ::
  "u32 \<Rightarrow> u32 \<Rightarrow> u8 \<Rightarrow> u32 \<Rightarrow> bool \<Rightarrow> u32 \<Rightarrow> 'p \<Rightarrow> 'p control \<Rightarrow> 'p control" where
  "createPipeline seid teid1 sourceInterface ueIpAddress isModification ident prog c =
     (let key = initializeNextRuleProgIndexKey teid1 ueIpAddress sourceInterface;
          c = storeFarProgramIndexInNextProgRuleIndexMap ident prog key c
      in if isModification then storeSessionMappingMap ueIpAddress teid1 c
         else saveSeidWithinFARProgram seid prog key c)"

definition removePipeline :: "u32 \<Rightarrow> 'p control \<Rightarrow> control_error + 'p control" where
  "removePipeline seid c =
     (case mSessionProgramsMap c seid of
        None \<Rightarrow> Inl Session_Does_Not_Exist
      | Some (key, prog) \<Rightarrow>
          Inr (c\<lparr>mSessionProgramsMap := (mSessionProgramsMap c)(seid := None),
                 torn_down := torn_down c @ [prog],
                 ctl_maps := (ctl_maps c)
                   \<lparr>m_next_rule_prog_index := (m_next_rule_prog_index (ctl_maps c))(key := None)\<rparr>\<rparr>))"

subsection \<open>Runs\<close>

text \<open>The states the manager goes through, from an empty one, in any order of calls.\<close>

inductive control_step :: "'p control \<Rightarrow> 'p control \<Rightarrow> bool" where
  create: "control_step c (createPipeline seid teid src ue md ident prog c)"
| remove: "removePipeline seid c = Inr c' \<Longrightarrow> control_step c c'"

inductive_cases control_stepE: "control_step c c'"

inductive reachable_control :: "'p control \<Rightarrow> bool" where
  init: "reachable_control initial_control"
| step: "reachable_control c \<Longrightarrow> control_step c c' \<Longrightarrow> reachable_control c'"

definition index_ok :: "'p control \<Rightarrow> bool" where
  "index_ok c \<longleftrightarrow> (\<forall>key i. m_next_rule_prog_index (ctl_maps c) key = Some i \<longrightarrow>
     m_next_rule_prog (ctl_maps c) i \<noteq> None)"

lemma store_index:
  "m_next_rule_prog_index (ctl_maps (createPipeline seid teid src ue md ident prog c))
     = (m_next_rule_prog_index (ctl_maps c))(initializeNextRuleProgIndexKey teid ue src \<mapsto> ident)"
  "m_next_rule_prog (ctl_maps (createPipeline seid teid src ue md ident prog c))
     = (m_next_rule_prog (ctl_maps c))(ident \<mapsto> prog)"
  "m_session_mapping (ctl_maps (createPipeline seid teid src ue md ident prog c))
     = (if md then (m_session_mapping (ctl_maps c))(ue \<mapsto> htobe32 teid) else m_session_mapping (ctl_maps c))"
  by (simp_all add: createPipeline_def storeFarProgramIndexInNextProgRuleIndexMap_def
      storeSessionMappingMap_def saveSeidWithinFARProgram_def Let_def)

lemma store_sessions:
  "mSessionProgramsMap (createPipeline seid teid src ue md ident prog c)
     = (if md then mSessionProgramsMap c
        else (mSessionProgramsMap c)(seid \<mapsto> (initializeNextRuleProgIndexKey teid ue src, prog)))"
  "torn_down (createPipeline seid teid src ue md ident prog c)
     = (if md then torn_down c
        else torn_down c @ (case mSessionProgramsMap c seid of None \<Rightarrow> [] | Some (_, old) \<Rightarrow> [old]))"
  by (simp_all add: createPipeline_def storeFarProgramIndexInNextProgRuleIndexMap_def
      storeSessionMappingMap_def saveSeidWithinFARProgram_def Let_def)

lemma index_ok_create: "index_ok c \<Longrightarrow> index_ok (createPipeline seid teid src ue md ident prog c)"
  by (auto simp: index_ok_def store_index)

lemma index_ok_remove: "index_ok c \<Longrightarrow> removePipeline seid c = Inr c' \<Longrightarrow> index_ok c'"
  by (auto simp: index_ok_def removePipeline_def split: option.splits if_splits)

lemma index_ok_reachable: "reachable_control c \<Longrightarrow> index_ok c"
proof (induction rule: reachable_control.induct)
  case init
  show ?case by (simp add: index_ok_def initial_control_def)
next
  case (step c c')
  from step.hyps(2) step.IH show ?case
    by (elim control_stepE) (auto intro: index_ok_create index_ok_remove)
qed

lemma key_eq [simp]:
  "(initializeNextRuleProgIndexKey t u s = initializeNextRuleProgIndexKey t' u' s') = (t = t' \<and> u = u' \<and> s = s')"
  by (auto simp: initializeNextRuleProgIndexKey_def dest: arg_cong [where f = htobe32])

lemma dispatch:
  assumes "m_next_rule_prog_index maps (initializeNextRuleProgIndexKey teid ue INTERFACE_VALUE_ACCESS) = Some i"
    and "m_next_rule_prog maps i = Some prog" and "uplink_gpdu teid ue p"
  shows "entry_point maps s p = Some (XTail prog, s)"
proof -
  have "tail_call_next_prog maps (htobe32 teid) INTERFACE_VALUE_ACCESS ue = XTail prog"
    using assms(1,2) by (simp add: tail_call_next_prog_def initializeNextRuleProgIndexKey_def)
  moreover have "14 \<le> length p" using assms(3) by (simp add: uplink_gpdu_def)
  ultimately show ?thesis
    using eth_uplink [OF assms(3), of maps] by (simp add: entry_point_def record_result_def)
qed

lemma dispatch_downlink:
  assumes "m_session_mapping maps ue = Some (htobe32 teid)"
    and "m_next_rule_prog_index maps (initializeNextRuleProgIndexKey teid ue INTERFACE_VALUE_CORE) = Some i"
    and "m_next_rule_prog maps i = Some prog" and "ipv4_to ue p"
  shows "entry_point maps s p = Some (XTail prog, s)"
proof -
  have "tail_call_next_prog maps (htobe32 teid) INTERFACE_VALUE_CORE ue = XTail prog"
    using assms(2,3) by (simp add: tail_call_next_prog_def initializeNextRuleProgIndexKey_def)
  moreover have "14 \<le> length p" using assms(4) by (simp add: ipv4_to_def)
  ultimately show ?thesis
    using eth_downlink [OF assms(4), of maps] assms(1)
    by (simp add: entry_point_def record_result_def handle_downlink_traffic_def)
qed

subsection \<open>Many pipelines\<close>

text \<open>
  The contract between the manager and the lookup program: a request adds a program under its key and
  a number that is not in use, and leaves what is found under the other keys. Requests with different
  keys and numbers then do not disturb each other, in any number.
\<close>

locale pipeline_store =
  fixes add :: "'k \<Rightarrow> 'i \<Rightarrow> 'p \<Rightarrow> 'c \<Rightarrow> 'c"
    and key_of :: "'k \<Rightarrow> 'q"
    and find_prog :: "'c \<Rightarrow> 'q \<Rightarrow> 'p option"
    and in_use :: "'c \<Rightarrow> 'i set"
  assumes find_add: "i \<notin> in_use c \<Longrightarrow> find_prog (add k i p c) q = (if q = key_of k then Some p else find_prog c q)"
    and in_use_add: "in_use (add k i p c) \<subseteq> insert i (in_use c)"
begin

lemma in_use_step:
  assumes "i \<notin> A" "A \<inter> in_use c = {}"
  shows "A \<inter> in_use (add k i p c) = {}"
  using assms in_use_add [of k i p c] by blast

lemma find_other:
  assumes "q \<notin> key_of ` fst ` set xs" "distinct (map (\<lambda>x. fst (snd x)) xs)" "(\<lambda>x. fst (snd x)) ` set xs \<inter> in_use c = {}"
  shows "find_prog (fold (\<lambda>(k, i, p). add k i p) xs c) q = find_prog c q"
  using assms
proof (induction xs arbitrary: c)
  case (Cons x xs)
  obtain k i p where x: "x = (k, i, p)" by (cases x)
  have "(\<lambda>x. fst (snd x)) ` set xs \<inter> in_use (add k i p c) = {}"
    using Cons.prems by (intro in_use_step) (simp_all add: x)
  then have "find_prog (fold (\<lambda>(k, i, p). add k i p) xs (add k i p c)) q = find_prog (add k i p c) q"
    using Cons.prems by (intro Cons.IH) (auto simp: x)
  with Cons.prems show ?case by (simp add: x find_add)
qed simp

lemma find_all:
  assumes "distinct (map (\<lambda>x. key_of (fst x)) xs)" "distinct (map (\<lambda>x. fst (snd x)) xs)"
    "(\<lambda>x. fst (snd x)) ` set xs \<inter> in_use c = {}" "(k, i, p) \<in> set xs"
  shows "find_prog (fold (\<lambda>(k, i, p). add k i p) xs c) (key_of k) = Some p"
  using assms
proof (induction xs arbitrary: c)
  case (Cons x xs)
  obtain k0 i0 p0 where x: "x = (k0, i0, p0)" by (cases x)
  have use: "(\<lambda>x. fst (snd x)) ` set xs \<inter> in_use (add k0 i0 p0 c) = {}"
    using Cons.prems by (intro in_use_step) (simp_all add: x)
  show ?case
  proof (cases "(k, i, p) \<in> set xs")
    case True
    then show ?thesis using Cons.IH [OF _ _ use] Cons.prems by (simp add: x)
  next
    case False
    with Cons.prems(4) x have "k0 = k" "i0 = i" "p0 = p" by auto
    moreover have "key_of k \<notin> key_of ` fst ` set xs"
      using Cons.prems(1) calculation by (auto simp: x image_image)
    ultimately show ?thesis
      using find_other [OF _ _ use] Cons.prems by (simp add: x find_add)
  qed
qed simp

end

text \<open>The manager keeps the contract; a number is in use when it has a program or is in the index.\<close>

type_synonym request = "u32 \<times> u32 \<times> u8 \<times> u32 \<times> bool"

fun add_pipeline :: "request \<Rightarrow> u32 \<Rightarrow> 'p \<Rightarrow> 'p control \<Rightarrow> 'p control" where
  "add_pipeline (seid, teid, src, ue, md) ident prog c = createPipeline seid teid src ue md ident prog c"

fun request_key :: "request \<Rightarrow> next_rule_prog_index_key" where
  "request_key (seid, teid, src, ue, md) = initializeNextRuleProgIndexKey teid ue src"

definition find_pipeline :: "'p control \<Rightarrow> next_rule_prog_index_key \<Rightarrow> 'p option" where
  "find_pipeline c key = Option.bind (m_next_rule_prog_index (ctl_maps c) key) (m_next_rule_prog (ctl_maps c))"

definition idents_in_use :: "'p control \<Rightarrow> u32 set" where
  "idents_in_use c = dom (m_next_rule_prog (ctl_maps c)) \<union> ran (m_next_rule_prog_index (ctl_maps c))"

interpretation pipelines: pipeline_store add_pipeline request_key find_pipeline idents_in_use
proof unfold_locales
  fix i and c :: "'p control" and k p q
  assume "i \<notin> idents_in_use c"
  then show "find_pipeline (add_pipeline k i p c) q = (if q = request_key k then Some p else find_pipeline c q)"
    by (cases k) (auto simp: find_pipeline_def idents_in_use_def store_index ran_def split: Option.bind_split)
next
  fix k i p and c :: "'p control"
  show "idents_in_use (add_pipeline k i p c) \<subseteq> insert i (idents_in_use c)"
    by (cases k) (auto simp: idents_in_use_def store_index ran_def split: if_splits)
qed

section \<open>Properties\<close>

text \<open>C32: in every state the manager can reach, a key of the index leads to a program: a tail call with
  it does not fail for want of a program.\<close>

theorem index_never_dangling:
  assumes "reachable_control c" and "m_next_rule_prog_index (ctl_maps c) key = Some i"
  shows "\<exists>prog. tail_call_next_prog (ctl_maps c) (key_teid key) (source_value key) (ipv4_address key) = XTail prog"
proof -
  obtain prog where "m_next_rule_prog (ctl_maps c) i = Some prog"
    using index_ok_reachable [OF assms(1)] assms(2) by (auto simp: index_ok_def)
  with assms(2) show ?thesis by (cases key) (auto simp: tail_call_next_prog_def)
qed

theorem index_never_dangling_witness:
  "\<exists>prog. tail_call_next_prog (ctl_maps (createPipeline 1 9 0 5 False 3 (8 :: nat) initial_control))
     (key_teid (initializeNextRuleProgIndexKey 9 5 0)) (source_value (initializeNextRuleProgIndexKey 9 5 0))
     (ipv4_address (initializeNextRuleProgIndexKey 9 5 0)) = XTail prog"
  by (rule index_never_dangling [where i = 3, OF reachable_control.step [OF reachable_control.init control_step.create]])
     (simp add: store_index)

text \<open>A modified session is connected in both directions. After the pipelines for a new session's
  uplink tunnel and for the downlink tunnel of its modification are created, a G-PDU in the uplink
  tunnel from the address of the user equipment is handed to the program of the first, and an IPv4
  packet to that address to the program of the second; no counter changes.\<close>

theorem session_dispatched:
  assumes "c1 = createPipeline seid teid_ul INTERFACE_VALUE_ACCESS ue False ident1 prog1 c0"
    and "c2 = createPipeline seid teid_dl INTERFACE_VALUE_CORE ue True ident2 prog2 c1"
    and "ident1 \<noteq> ident2" and "uplink_gpdu teid_ul ue p" and "ipv4_to ue q"
  shows "entry_point (ctl_maps c2) s p = Some (XTail prog1, s) \<and>
         entry_point (ctl_maps c2) s q = Some (XTail prog2, s)"
proof
  have src: "INTERFACE_VALUE_CORE \<noteq> INTERFACE_VALUE_ACCESS"
    by (simp add: INTERFACE_VALUE_CORE_def INTERFACE_VALUE_ACCESS_def)
  show "entry_point (ctl_maps c2) s p = Some (XTail prog1, s)"
    using src assms(3) by (intro dispatch [OF _ _ assms(4), of _ ident1]) (simp_all add: assms(1,2) store_index)
  show "entry_point (ctl_maps c2) s q = Some (XTail prog2, s)"
    by (intro dispatch_downlink [OF _ _ _ assms(5), of _ teid_dl ident2]) (simp_all add: assms(1,2) store_index)
qed

theorem session_dispatched_witness:
  "entry_point (ctl_maps (createPipeline 1 5 INTERFACE_VALUE_CORE 0x0201010c True 3 (7 :: nat)
       (createPipeline 1 9 INTERFACE_VALUE_ACCESS 0x0201010c False 2 6 initial_control))) zero_stats gpdu_example
     = Some (XTail 6, zero_stats) \<and>
   entry_point (ctl_maps (createPipeline 1 5 INTERFACE_VALUE_CORE 0x0201010c True 3 (7 :: nat)
       (createPipeline 1 9 INTERFACE_VALUE_ACCESS 0x0201010c False 2 6 initial_control))) zero_stats ip_example
     = Some (XTail 7, zero_stats)"
  by (rule session_dispatched [OF refl refl _ gpdu_example_gpdu ip_example_to]) simp

text \<open>C7: a session established with pipelines for both directions is not disconnected by its removal.
  The record of the session holds the pipeline created last only; \<open>removePipeline\<close> succeeds, and a
  G-PDU in the uplink tunnel is still handed to the uplink program, although that program was torn
  down when its record was overwritten.\<close>

theorem removed_session_still_forwards:
  assumes "c1 = createPipeline seid teid_ul INTERFACE_VALUE_ACCESS ue False ident1 prog1 c0"
    and "c2 = createPipeline seid teid_dl INTERFACE_VALUE_CORE ue False ident2 prog2 c1"
    and "ident1 \<noteq> ident2" and "uplink_gpdu teid_ul ue p"
  shows "\<exists>c3. removePipeline seid c2 = Inr c3 \<and> mSessionProgramsMap c3 seid = None \<and>
           entry_point (ctl_maps c3) s p = Some (XTail prog1, s) \<and> prog1 \<in> set (torn_down c3)"
proof -
  have src: "INTERFACE_VALUE_CORE \<noteq> INTERFACE_VALUE_ACCESS"
    by (simp add: INTERFACE_VALUE_CORE_def INTERFACE_VALUE_ACCESS_def)
  obtain c3 where c3: "removePipeline seid c2 = Inr c3"
    by (simp add: removePipeline_def assms(1,2) store_sessions)
  then have idx: "m_next_rule_prog_index (ctl_maps c3)
        = (m_next_rule_prog_index (ctl_maps c2))(initializeNextRuleProgIndexKey teid_dl ue INTERFACE_VALUE_CORE := None)"
      "m_next_rule_prog (ctl_maps c3) = m_next_rule_prog (ctl_maps c2)"
    and rest: "mSessionProgramsMap c3 seid = None" "prog1 \<in> set (torn_down c3)"
    by (auto simp: removePipeline_def assms(1,2) store_sessions)
  have "entry_point (ctl_maps c3) s p = Some (XTail prog1, s)"
    using src assms(3)
    by (intro dispatch [OF _ _ assms(4), of _ ident1]) (simp_all add: idx assms(1,2) store_index)
  with c3 rest show ?thesis by blast
qed

theorem removed_session_still_forwards_witness:
  "\<exists>c3. removePipeline 1 (createPipeline 1 5 INTERFACE_VALUE_CORE 0x0201010c False 3 (7 :: nat)
       (createPipeline 1 9 INTERFACE_VALUE_ACCESS 0x0201010c False 2 6 initial_control)) = Inr c3 \<and>
     mSessionProgramsMap c3 1 = None \<and>
     entry_point (ctl_maps c3) zero_stats gpdu_example = Some (XTail 6, zero_stats) \<and> 6 \<in> set (torn_down c3)"
  by (rule removed_session_still_forwards [OF refl refl _ gpdu_example_gpdu]) simp

text \<open>C18: any number of sessions coexist. When pipelines are created, in any number and in any order of
  directions, under different keys and new program numbers, a G-PDU in the tunnel of each uplink one
  from its user's address is handed to its own program.\<close>

theorem sessions_coexist:
  assumes "distinct (map (\<lambda>x. request_key (fst x)) xs)" "distinct (map (\<lambda>x. fst (snd x)) xs)"
    and "(\<lambda>x. fst (snd x)) ` set xs \<inter> idents_in_use c = {}"
    and "((seid, teid, INTERFACE_VALUE_ACCESS, ue, md), ident, prog) \<in> set xs" and "uplink_gpdu teid ue p"
  shows "entry_point (ctl_maps (fold (\<lambda>(k, i, q). add_pipeline k i q) xs c)) s p = Some (XTail prog, s)"
proof -
  let ?c = "fold (\<lambda>(k, i, q). add_pipeline k i q) xs c"
  have "find_pipeline ?c (initializeNextRuleProgIndexKey teid ue INTERFACE_VALUE_ACCESS) = Some prog"
    using pipelines.find_all [OF assms(1-4)] by simp
  then obtain i where "m_next_rule_prog_index (ctl_maps ?c) (initializeNextRuleProgIndexKey teid ue INTERFACE_VALUE_ACCESS) = Some i"
      "m_next_rule_prog (ctl_maps ?c) i = Some prog"
    by (auto simp: find_pipeline_def bind_eq_Some_conv)
  then show ?thesis by (rule dispatch [OF _ _ assms(5)])
qed

theorem sessions_coexist_witness:
  "entry_point (ctl_maps (fold (\<lambda>(k, i, q). add_pipeline k i q)
      [((1, 8, INTERFACE_VALUE_ACCESS, 3, False), 1, 5 :: nat),
       ((2, 9, INTERFACE_VALUE_ACCESS, 0x0201010c, False), 2, 6),
       ((2, 4, INTERFACE_VALUE_CORE, 0x0201010c, True), 3, 7)] initial_control)) zero_stats gpdu_example
   = Some (XTail 6, zero_stats)"
  by (rule sessions_coexist [where seid = 2 and teid = 9 and ue = "0x0201010c" and md = False and ident = 2])
     (simp_all add: gpdu_example_gpdu idents_in_use_def initial_control_def)

end
