(* ===== verification/Upf_Csum.thy ===== *)
theory Upf_Csum
  imports Upf_Memory
begin

text \<open>
  The internet checksum of the user plane function, \<open>bpf/utils/csum.h\<close>: ones' complement sums in
  machine words, their folding to 16 bits, the incremental update of a checksum field of a packet,
  and what they compute, against the sum of the 16-bit words of a header (\<open>sum16\<close>) modulo 65535.
\<close>

subsection \<open>Words\<close>

definition pcn_csum_fold :: "u32 \<Rightarrow> u16" where
  "pcn_csum_fold csum =
     (let s = csum;
          s = (s AND 0xffff) + drop_bit 16 s;
          s = (s AND 0xffff) + drop_bit 16 s
      in ucast (NOT s))"

definition pcn_csum16_add :: "u16 \<Rightarrow> u16 \<Rightarrow> u16" where
  "pcn_csum16_add csum addend = (let res = csum + addend in res + (if res < addend then 1 else 0))"

definition pcn_csum_unfold :: "u16 \<Rightarrow> u32" where
  "pcn_csum_unfold n = ucast n"

definition pcn_csum_add :: "u32 \<Rightarrow> u32 \<Rightarrow> u32" where
  "pcn_csum_add csum addend = (let res = csum + addend in res + (if res < addend then 1 else 0))"

text \<open>The new value of \<open>*sum\<close>.\<close>

definition pcn_csum_replace_by_diff :: "u16 \<Rightarrow> u32 \<Rightarrow> u16" where
  "pcn_csum_replace_by_diff s diff = pcn_csum_fold (pcn_csum_add diff (NOT (pcn_csum_unfold s)))"

text \<open>
  \<open>pcn_csum_update2\<close> and \<open>pcn_csum_update4\<close> are the bodies of \<open>case 2\<close> and \<open>case 4\<close>
  of the two replacing functions; the 32-bit values are cut to 16 bits by the parameter types of
  \<open>pcn_csum16_add\<close>.
\<close>

definition pcn_csum_update2 :: "u16 \<Rightarrow> u32 \<Rightarrow> u32 \<Rightarrow> u16" where
  "pcn_csum_update2 s old_value new_value =
     NOT (pcn_csum16_add (pcn_csum16_add (NOT s) (ucast (NOT old_value))) (ucast new_value))"

definition pcn_csum_update4 :: "u16 \<Rightarrow> u32 \<Rightarrow> u32 \<Rightarrow> u16" where
  "pcn_csum_update4 s old_value new_value =
     pcn_csum_replace_by_diff s (pcn_csum_add new_value (NOT old_value))"

subsection \<open>Packets\<close>

definition EINVAL :: int where "EINVAL = 22"
definition EFAULT :: int where "EFAULT = 14"
definition BPF_F_HDR_FIELD_MASK :: u32 where "BPF_F_HDR_FIELD_MASK = 0x0f"
definition BPF_F_PSEUDO_HDR :: u32 where "BPF_F_PSEUDO_HDR = 0x10"
definition BPF_F_MARK_MANGLED_0 :: u32 where "BPF_F_MARK_MANGLED_0 = 0x20"
definition BPF_F_MARK_ENFORCE :: u32 where "BPF_F_MARK_ENFORCE = 0x40"
definition CSUM_MANGLED_0 :: u16 where "CSUM_MANGLED_0 = 0xffff"

text \<open>
  \<open>pcn_update_csum\<close>: ten 16-bit words from the start of the IP header at offset \<open>i\<close> are added in 32
  bits, the field \<open>check\<close> at offset 10 of the header included as it is, and folded once.
\<close>

primrec add_words :: "nat \<Rightarrow> mem \<Rightarrow> nat \<Rightarrow> u32 \<Rightarrow> u32 option" where
  "add_words 0 p i csum = Some csum"
| "add_words (Suc k) p i csum = do { w \<leftarrow> ld16 p i; add_words k p (i + 2) (csum + ucast w) }"

definition pcn_update_csum :: "mem \<Rightarrow> nat \<Rightarrow> mem option" where
  "pcn_update_csum p iph = do {
     csum \<leftarrow> add_words 10 p iph 0;
     st16 p (iph + 10) (ucast (NOT ((csum AND 0xffff) + drop_bit 16 csum))) }"

text \<open>
  \<open>pcn_csum_diff\<close> for kernels before 4.16; from 4.16 on it is the helper \<open>bpf_csum_diff\<close>. The pointers
  are dereferenced only when both sizes are 4.
\<close>

definition pcn_csum_diff_old :: "u32 \<Rightarrow> u32 \<Rightarrow> u32 \<Rightarrow> u32 \<Rightarrow> u32 \<Rightarrow> u32" where
  "pcn_csum_diff_old from_word from_size to_word to_size seed =
     (if from_size \<noteq> 4 \<or> to_size \<noteq> 4 then word_of_int (- EINVAL)
      else
        (let result = pcn_csum_add to_word (NOT from_word);
             result = result + seed
         in if seed > result then result + 1 else result))"

definition pcn_l3_csum_replace :: "mem \<Rightarrow> u32 \<Rightarrow> u32 \<Rightarrow> u32 \<Rightarrow> u32 \<Rightarrow> (int \<times> mem) option" where
  "pcn_l3_csum_replace p csum_offset old_value new_value flags =
     (if flags AND NOT BPF_F_HDR_FIELD_MASK \<noteq> 0 then Some (- EINVAL, p)
      else if csum_offset > 0xffff \<or> csum_offset AND 1 \<noteq> 0 then Some (- EFAULT, p)
      else if length p < unat csum_offset + 2 then Some (- EINVAL, p)
      else do {
        s \<leftarrow> ld16 p (unat csum_offset);
        let width = flags AND BPF_F_HDR_FIELD_MASK;
        if width = 0 then do {
          p \<leftarrow> st16 p (unat csum_offset) (pcn_csum_replace_by_diff s new_value); Some (0, p) }
        else if width = 2 then do {
          p \<leftarrow> st16 p (unat csum_offset) (pcn_csum_update2 s old_value new_value); Some (0, p) }
        else if width = 4 then do {
          p \<leftarrow> st16 p (unat csum_offset) (pcn_csum_update4 s old_value new_value); Some (0, p) }
        else Some (- EINVAL, p) })"

definition pcn_l4_csum_replace :: "mem \<Rightarrow> u32 \<Rightarrow> u32 \<Rightarrow> u32 \<Rightarrow> u32 \<Rightarrow> (int \<times> mem) option" where
  "pcn_l4_csum_replace p csum_offset old_value new_value flags =
     (let is_mmzero = flags AND BPF_F_MARK_MANGLED_0 \<noteq> 0;
          do_mforce = flags AND BPF_F_MARK_ENFORCE \<noteq> 0
      in
      if flags AND NOT (BPF_F_MARK_MANGLED_0 OR BPF_F_MARK_ENFORCE OR BPF_F_PSEUDO_HDR OR BPF_F_HDR_FIELD_MASK) \<noteq> 0
      then Some (- EINVAL, p)
      else if csum_offset > 0xffff \<or> csum_offset AND 1 \<noteq> 0 then Some (- EFAULT, p)
      else if length p < unat csum_offset + 2 then Some (- EINVAL, p)
      else do {
        s \<leftarrow> ld16 p (unat csum_offset);
        let width = flags AND BPF_F_HDR_FIELD_MASK;
        let put_check = (\<lambda>v. do {
          p \<leftarrow> st16 p (unat csum_offset) (if is_mmzero \<and> v = 0 then CSUM_MANGLED_0 else v);
          Some (0, p) });
        if is_mmzero \<and> \<not> do_mforce \<and> s = 0 then Some (0, p)
        else if width = 0 then put_check (pcn_csum_replace_by_diff s new_value)
        else if width = 2 then put_check (pcn_csum_update2 s old_value new_value)
        else if width = 4 then put_check (pcn_csum_update4 s old_value new_value)
        else Some (- EINVAL, p) })"

subsection \<open>Ones' complement arithmetic\<close>

text \<open>
  The specification: the representative in \<open>0..m\<close> of a sum in ones' complement, which is 0 only for
  the sum 0 and \<open>m\<close> for the other multiples of \<open>m\<close>.
\<close>

definition oc :: "nat \<Rightarrow> nat \<Rightarrow> nat" where
  "oc m n = (if n = 0 then 0 else (n - 1) mod m + 1)"

lemma oc_small: "n \<le> m \<Longrightarrow> oc m n = n"
  by (auto simp: oc_def)

lemma oc_le: "0 < m \<Longrightarrow> oc m n \<le> m"
  by (simp add: oc_def Suc_le_eq)

lemma oc_eq_0 [simp]: "(oc m n = 0) = (n = 0)"
  by (simp add: oc_def)

lemma oc_gt_0 [simp]: "(0 < oc m n) = (0 < n)"
  by (simp add: oc_def)

lemma oc_0 [simp]: "oc m 0 = 0"
  by (simp add: oc_def)

lemma oc_mod: "0 < m \<Longrightarrow> oc m n mod m = n mod m"
proof (cases n)
  case (Suc k)
  then show ?thesis by (simp add: oc_def mod_Suc_eq)
qed (simp add: oc_def)

lemma oc_unique:
  assumes "0 < m" "r \<le> m" "r mod m = n mod m" "(r = 0) = (n = 0)"
  shows "r = oc m n"
proof (cases "n mod m = 0")
  case True
  with assms have "r = 0 \<or> r = m" by (auto simp: le_less)
  moreover have "oc m n = 0 \<or> oc m n = m"
    using oc_mod [OF assms(1), of n] oc_le [OF assms(1), of n] True by (auto simp: le_less)
  ultimately show ?thesis using assms(4) oc_eq_0 [of m n] by auto
next
  case False
  with assms have "r < m" "r mod m = n mod m" by (auto simp: le_less)
  moreover have "oc m n < m" "oc m n mod m = n mod m"
    using oc_mod [OF assms(1), of n] oc_le [OF assms(1), of n] False by (auto simp: le_less)
  ultimately show ?thesis by simp
qed

lemma oc_add:
  assumes "0 < m"
  shows "oc m (oc m a + b) = oc m (a + b)"
proof (rule oc_unique)
  have "(oc m a + b) mod m = (oc m a mod m + b) mod m" by (rule mod_add_left_eq [symmetric])
  also have "\<dots> = (a mod m + b) mod m" by (simp only: oc_mod [OF assms])
  also have "\<dots> = (a + b) mod m" by (rule mod_add_left_eq)
  finally show "oc m (oc m a + b) mod m = (a + b) mod m" by (simp only: oc_mod [OF assms])
qed (use assms in \<open>simp_all add: oc_le\<close>)

lemma oc_add_right: "0 < m \<Longrightarrow> oc m (a + oc m b) = oc m (a + b)"
  by (metis oc_add add.commute)

lemma oc_oc:
  assumes "0 < m" "m dvd k" "0 < k"
  shows "oc m (oc k n) = oc m n"
proof (rule oc_unique)
  have "oc k n mod m = (oc k n mod k) mod m" by (rule mod_mod_cancel [OF assms(2), symmetric])
  also have "\<dots> = n mod m" by (simp only: oc_mod [OF assms(3)] mod_mod_cancel [OF assms(2)])
  finally show "oc m (oc k n) mod m = n mod m" by (simp only: oc_mod [OF assms(1)])
qed (use assms in \<open>simp_all add: oc_le\<close>)

lemma oc_oc_add:
  assumes "0 < m" "m dvd k" "0 < k"
  shows "oc m (oc k a + b) = oc m (a + b)"
  using oc_add [OF assms(1), of "oc k a" b] oc_add [OF assms(1), of a b] oc_oc [OF assms, of a] by simp

subsection \<open>The code computes in ones' complement\<close>

lemma oc_shift:
  assumes "0 < k"
  shows "oc 65535 (n + 65535 * k) = (if n = 0 then 65535 else oc 65535 n)"
  by (rule oc_unique [symmetric]) (use assms in \<open>auto simp: oc_mod oc_le\<close>)

lemma oc_carry:
  assumes "m < n" "n \<le> 2 * m"
  shows "oc m n = n - m"
proof (rule oc_unique [symmetric])
  show "(n - m) mod m = n mod m" using assms(1) by (simp add: le_mod_geq)
qed (use assms in auto)

lemma end_around_carry:
  "unat (let res = a + b in res + (if res < b then 1 else 0) :: 'a::len word)
     = oc (2 ^ LENGTH('a) - 1) (unat a + unat b)"
proof (cases "unat a + unat b < 2 ^ LENGTH('a)")
  case True
  then have "unat (a + b) = unat a + unat b" by (simp add: unat_word_ariths)
  moreover from this have "\<not> a + b < b" by (simp add: word_less_nat_alt)
  moreover have "unat a + unat b \<le> 2 ^ LENGTH('a) - 1" using True by linarith
  ultimately show ?thesis by (simp add: oc_small del: of_nat_add)
next
  case False
  let ?N = "2 ^ LENGTH('a) :: nat"
  have lt: "unat a < ?N" "unat b < ?N" by (rule unat_less)+
  from lt have "unat a + unat b - ?N < ?N" by linarith
  with False have s: "unat (a + b) = unat a + unat b - ?N"
    by (simp add: unat_word_ariths le_mod_geq not_less)
  have "a + b < b" unfolding word_less_nat_alt s using lt False by linarith
  moreover have "unat (a + b + 1) = unat a + unat b - ?N + 1"
  proof -
    have "unat a + unat b - ?N + 1 < ?N" using lt False by linarith
    then show ?thesis using s by (subst unat_word_ariths) simp
  qed
  moreover have "oc (?N - 1) (unat a + unat b) = unat a + unat b - ?N + 1"
  proof -
    have "?N - 1 < unat a + unat b" "unat a + unat b \<le> 2 * (?N - 1)" using lt False by linarith+
    then show ?thesis using lt by (subst oc_carry) linarith+
  qed
  ultimately show ?thesis by simp
qed

lemma csum_add_oc: "unat (pcn_csum_add a b) = oc 4294967295 (unat a + unat b)"
  unfolding pcn_csum_add_def by (subst end_around_carry) simp

lemma csum16_add_oc: "unat (pcn_csum16_add a b) = oc 65535 (unat a + unat b)"
  unfolding pcn_csum16_add_def by (subst end_around_carry) simp

lemma unat_not: "unat (NOT (w :: 'a::len word)) = 2 ^ LENGTH('a) - 1 - unat w"
proof -
  have "NOT w = - 1 - w" by (simp add: not_eq_complement)
  then show ?thesis
    by (simp add: unat_sub word_le_nat_alt unsigned_minus_1_eq_mask mask_eq_exp_minus_1 
        less_Suc_eq_le [symmetric] unat_less)
qed

lemma unat_low16: "unat (w AND 0xffff :: u32) = unat w mod 65536"
proof -
  have "w AND 0xffff = take_bit 16 w" by (simp add: take_bit_eq_mask mask_eq_exp_minus_1)
  then show ?thesis by (simp add: take_bit_eq_mod unat_mod)
qed

lemma unat_high16: "unat (drop_bit 16 w :: u32) = unat w div 65536"
  by (simp add: drop_bit_eq_div unat_div)

lemma fold_step: "unat ((w AND 0xffff) + drop_bit 16 w :: u32) = unat w mod 65536 + unat w div 65536"
proof -
  have "unat w < 4294967296" by (rule unat_u32_less)
  then have "unat w div 65536 < 65536" by linarith
  moreover have "unat w mod 65536 < 65536" by simp
  ultimately show ?thesis
    by (simp add: unat_word_ariths unat_low16 unat_high16)
qed

lemma fold_step_mod: "(n mod 65536 + n div 65536) mod 65535 = n mod (65535 :: nat)"
proof -
  have "n = 65535 * (n div 65536) + (n mod 65536 + n div 65536)"
    using mult_div_mod_eq [of 65536 n] by linarith
  then show ?thesis by (metis mod_mult_self4)
qed

lemma fold_step_0: "(n mod 65536 + n div 65536 = 0) = (n = (0 :: nat))"
  using mult_div_mod_eq [of 65536 n] by fastforce

lemma csum_fold_oc: "unat (pcn_csum_fold c) = 65535 - oc 65535 (unat c)"
proof -
  define s1 where "s1 = (c AND 0xffff) + drop_bit 16 c"
  define s2 where "s2 = (s1 AND 0xffff) + drop_bit 16 s1"
  define n where "n = unat c mod 65536 + unat c div 65536"
  have s1: "unat s1 = n" by (simp add: s1_def n_def fold_step)
  have s2: "unat s2 = n mod 65536 + n div 65536" by (simp add: s2_def fold_step s1)
  have "unat c < 4294967296" by (rule unat_u32_less)
  then have "n \<le> 131070" unfolding n_def by linarith
  then have le: "unat s2 \<le> 65535" unfolding s2
    by (cases "n < 65536") (simp_all add: le_mod_geq le_div_geq not_less)
  have "unat s2 = oc 65535 (unat c)"
  proof (rule oc_unique)
    show "unat s2 mod 65535 = unat c mod 65535" by (simp only: s2 fold_step_mod n_def)
    show "(unat s2 = 0) = (unat c = 0)" by (simp only: s2 fold_step_0 n_def)
  qed (use le in simp_all)
  moreover have "unat (ucast (NOT s2) :: u16) = 65535 - unat s2"
  proof -
    have "unat (ucast (NOT s2) :: u16) = (4294967295 - unat s2) mod 65536"
      by (simp add: unsigned_ucast_eq take_bit_eq_mod unat_not)
    also have "\<dots> = 65535 - unat s2"
    proof -
      have "4294967295 - unat s2 = (65535 - unat s2) + 65536 * 65535" using le by simp
      then show ?thesis by (simp only: mod_mult_self2) simp
    qed
    finally show ?thesis .
  qed
  ultimately show ?thesis
    by (simp add: pcn_csum_fold_def Let_def s1_def s2_def)
qed

lemma csum_add_commute: "pcn_csum_add a b = pcn_csum_add b a"
  by (simp add: word_unat_eq_iff csum_add_oc add.commute)

lemma csum_add_assoc: "pcn_csum_add (pcn_csum_add a b) c = pcn_csum_add a (pcn_csum_add b c)"
  by (simp add: word_unat_eq_iff csum_add_oc oc_add oc_add_right add.assoc)

lemma replace_by_diff_oc:
  "unat (pcn_csum_replace_by_diff s d) = 65535 - oc 65535 (unat d + (4294967295 - unat s))"
  by (simp add: pcn_csum_replace_by_diff_def csum_fold_oc csum_add_oc oc_oc unat_not pcn_csum_unfold_def)

lemma update4_oc:
  "unat (pcn_csum_update4 s a b)
     = 65535 - oc 65535 (unat b + (4294967295 - unat a) + (4294967295 - unat s))"
  unfolding pcn_csum_update4_def replace_by_diff_oc csum_add_oc
  by (subst oc_oc_add) (simp_all add: unat_not)

lemma update2_oc:
  "unat (pcn_csum_update2 s a b)
     = 65535 - oc 65535 ((65535 - unat s) + (65535 - unat a mod 65536) + unat b mod 65536)"
proof -
  have "unat (ucast (NOT a) :: u16) = 65535 - unat a mod 65536"
  proof -
    have "(ucast (NOT a) :: u16) = NOT (ucast a)"
      by (rule bit_word_eqI) (auto simp: bit_simps)
    then show ?thesis by (simp add: unat_not unsigned_ucast_eq take_bit_eq_mod)
  qed
  then show ?thesis
    by (simp add: pcn_csum_update2_def unat_not csum16_add_oc oc_add unsigned_ucast_eq take_bit_eq_mod)
qed

lemma diff_old_add:
  "pcn_csum_diff_old a 4 b 4 seed = pcn_csum_add (pcn_csum_add b (NOT a)) seed"
  by (simp add: pcn_csum_diff_old_def pcn_csum_add_def Let_def)

subsection \<open>The sum of a header\<close>

fun sum16 :: "u8 list \<Rightarrow> nat" where
  "sum16 (a # b # r) = unat (le16 a b) + sum16 r"
| "sum16 [a] = unat a"
| "sum16 [] = 0"

text \<open>A 16- or 32-bit field as the value the replacing functions take.\<close>

fun le_value :: "u8 list \<Rightarrow> u32" where
  "le_value [a, b] = ucast (le16 a b)"
| "le_value [a, b, c, d] = le32 a b c d"
| "le_value _ = 0"

lemma sum16_append: "even (length a) \<Longrightarrow> sum16 (a @ b) = sum16 a + sum16 b"
  by (induction a rule: sum16.induct) auto

lemma sum16_overwrite:
  assumes "even i" "even (length bs)" "i + length bs \<le> length h"
  shows "sum16 (overwrite h i bs) + sum16 (take (length bs) (drop i h)) = sum16 h + sum16 bs"
proof -
  have "h = take i h @ take (length bs) (drop i h) @ drop (i + length bs) h"
    by (metis add.commute append_take_drop_id drop_drop)
  then have "sum16 h = sum16 (take i h) + (sum16 (take (length bs) (drop i h)) + sum16 (drop (i + length bs) h))"
    using assms by (metis (no_types, lifting) sum16_append length_take length_drop min.absorb2 add_leD1 add_le_imp_le_diff add.commute)
  then show ?thesis
    using assms by (simp add: overwrite_def sum16_append)
qed

text \<open>A header of twenty octets inside a packet, and stores into it.\<close>

lemma take_drop_overwrite:
  assumes "i + length bs \<le> n" "h + n \<le> length p"
  shows "take n (drop h (overwrite p (h + i) bs)) = overwrite (take n (drop h p)) i bs"
proof -
  have "p = take h p @ take n (drop h p) @ drop (h + n) p"
    by (metis add.commute append_take_drop_id drop_drop)
  moreover define a c d where "a = take h p" and "c = take n (drop h p)" and "d = drop (h + n) p"
  ultimately have p: "p = a @ c @ d" and l: "length a = h" "length c = n" using assms by simp_all
  have "overwrite p (h + i) bs = a @ overwrite c i bs @ d"
    using assms l by (simp add: p overwrite_def)
  moreover have "length (overwrite c i bs) = n" using assms l by simp
  ultimately show ?thesis unfolding c_def [symmetric] using l by simp
qed

lemma ld16_header:
  assumes "i + 2 \<le> n" "h + n \<le> length p"
  shows "ld16 p (h + i) = Some (le16 (take n (drop h p) ! i) (take n (drop h p) ! (i + 1)))"
  using assms by (simp add: ld16_def add.assoc)

lemma le_value_sum16:
  "length bs = 2 \<or> length bs = 4 \<Longrightarrow> unat (le_value bs) mod 65535 = sum16 bs mod 65535"
proof -
  assume "length bs = 2 \<or> length bs = 4"
  then consider a b where "bs = [a, b]" | a b c d where "bs = [a, b, c, d]"
    by (auto elim: length_2E length_4E)
  then show ?thesis
  proof cases
    case (2 a b c d)
    have "(unat (le16 a b) + 65536 * unat (le16 c d)) mod 65535
        = (unat (le16 a b) + unat (le16 c d)) mod 65535"
    proof -
      have "unat (le16 a b) + 65536 * unat (le16 c d) = unat (le16 a b) + unat (le16 c d) + 65535 * unat (le16 c d)"
        by simp
      then show ?thesis by (simp only: mod_mult_self2)
    qed
    then show ?thesis by (simp add: 2 unat_le32)
  qed simp
qed

text \<open>The new checksum cancels the old one and the change of the field.\<close>

lemma oc_cancel: "(65535 - oc 65535 n + n) mod 65535 = 0"
proof -
  have "oc 65535 n \<le> 65535" by (simp add: oc_le)
  moreover have "oc 65535 n mod 65535 = n mod 65535" by (simp add: oc_mod)
  ultimately have "(65535 - oc 65535 n + n) mod 65535 = (65535 - oc 65535 n + oc 65535 n) mod 65535"
    by (intro mod_add_cong) simp_all
  with \<open>oc 65535 n \<le> 65535\<close> show ?thesis by simp
qed

lemma nat_mod_eqE:
  assumes "a mod 65535 = b mod (65535 :: nat)"
  obtains x where "int a = int b + 65535 * x"
proof -
  define r where "r = b mod 65535"
  have ab: "a = 65535 * (a div 65535) + r" "b = 65535 * (b div 65535) + r"
    using mult_div_mod_eq [of 65535 a] mult_div_mod_eq [of 65535 b] assms unfolding r_def by linarith+
  then have "int a = 65535 * int (a div 65535) + int r" "int b = 65535 * int (b div 65535) + int r"
    using arg_cong [OF ab(1), of int] arg_cong [OF ab(2), of int] by simp_all
  then have "int a = int b + 65535 * (int (a div 65535) - int (b div 65535))" by (simp only: right_diff_distrib)
  then show thesis by (rule that)
qed

lemma update_cancel:
  fixes s :: u16
  assumes w: "w = 2 \<or> w = 4" and "length old = w" "length new = w"
  defines "s' \<equiv> (if w = 2 then pcn_csum_update2 else pcn_csum_update4) s (le_value old) (le_value new)"
  shows "(int (unat s') + int (sum16 new) - int (sum16 old) - int (unat s)) mod 65535 = 0"
proof -
  let ?o = "unat (le_value old)" and ?n = "unat (le_value new)"
  define N where "N = (if w = 2 then (65535 - unat s) + (65535 - ?o) + ?n
                       else ?n + (4294967295 - ?o) + (4294967295 - unat s))"
  have le: "unat s \<le> 65535" "?o \<le> 4294967295" and le2: "w = 2 \<Longrightarrow> ?o \<le> 65535 \<and> ?n \<le> 65535"
  proof -
    assume "w = 2"
    with assms obtain a b c d where "old = [a, b]" "new = [c, d]"
      by (metis length_2E)
    then show "?o \<le> 65535 \<and> ?n \<le> 65535"
      using unat_u16_less [of "le16 a b"] unat_u16_less [of "le16 c d"] by simp
  qed (use unat_u16_less [of s] unat_u32_less [of "le_value old"] in simp_all)
  have "unat s' = 65535 - oc 65535 N"
    using w le le2 by (auto simp: s'_def N_def update2_oc update4_oc)
  then have "(unat s' + N) mod 65535 = 0" by (simp add: oc_cancel)
  then obtain k where k: "unat s' + N = 65535 * k" by (auto simp: mod_eq_0_iff_dvd)
  have "?o mod 65535 = sum16 old mod 65535" "?n mod 65535 = sum16 new mod 65535"
    using le_value_sum16 [of old] le_value_sum16 [of new] assms(1-3) by auto
  then obtain x y where xy: "int ?o = int (sum16 old) + 65535 * x" "int ?n = int (sum16 new) + 65535 * y"
    by (meson nat_mod_eqE)
  obtain c where N: "int N = int ?n - int ?o - int (unat s) + 65535 * c"
    by (rule that [of "if w = 2 then 2 else 131074"]) (use w le le2 in \<open>auto simp: N_def of_nat_diff\<close>)
  have k': "int (unat s') + int N = 65535 * int k"
    using arg_cong [OF k, of int] by simp
  have "int (unat s') + int (sum16 new) - int (sum16 old) - int (unat s) = 65535 * (int k - c + x - y)"
    using k' N xy by (simp only: right_diff_distrib distrib_left)
  then show ?thesis by simp
qed

lemma sum16_bytes16 [simp]: "sum16 (bytes16 v) = unat v"
  by (simp add: bytes16_def le16_def)

lemma store_check_sum:
  assumes "h + 20 \<le> length p" "st16 p (h + 10) v = Some q" "ld16 p (h + 10) = Some s"
  shows "sum16 (take 20 (drop h q)) + unat s = sum16 (take 20 (drop h p)) + unat v"
proof -
  let ?c = "take 20 (drop h p)"
  have "q = overwrite p (h + 10) (bytes16 v)"
    using assms by (simp add: st16_def st_bytes_def split: if_splits)
  then have "take 20 (drop h q) = overwrite ?c 10 (bytes16 v)"
    using assms by (simp add: take_drop_overwrite [of 10 "bytes16 v" 20 h p])
  moreover have "sum16 (take (length (bytes16 v)) (drop 10 ?c)) = unat s"
  proof -
    have "take (length (bytes16 v)) (drop 10 ?c) = [?c ! 10, ?c ! (10 + 1)]"
      using assms take2_drop [of 10 ?c] by simp
    moreover have "s = le16 (?c ! 10) (?c ! (10 + 1))"
      using assms ld16_header [of 10 20 h p] by simp
    ultimately show ?thesis by simp
  qed
  ultimately show ?thesis
    using sum16_overwrite [of 10 "bytes16 v" ?c] assms by simp
qed

section \<open>Properties\<close>

text \<open>C29: the checksum routines compute in ones' complement: the additions are sums modulo
  \<open>2 ^ 32 - 1\<close> and \<open>2 ^ 16 - 1\<close> in the representation of \<open>oc\<close>, folding gives the complement of the
  sum modulo \<open>2 ^ 16 - 1\<close>, and the difference computed on old kernels is the ones' complement
  difference of the two words plus the seed.\<close>

theorem csum_ones_complement:
  "unat (pcn_csum_add a b) = oc 4294967295 (unat a + unat b) \<and>
   unat (pcn_csum16_add c d) = oc 65535 (unat c + unat d) \<and>
   unat (pcn_csum_fold a) = 65535 - oc 65535 (unat a) \<and>
   unat (pcn_csum_diff_old a 4 b 4 seed) = oc 4294967295 (unat b + (4294967295 - unat a) + unat seed)"
  by (simp add: csum_add_oc csum16_add_oc csum_fold_oc diff_old_add oc_add unat_not)

text \<open>For values of 16 bits the two-byte and the four-byte update of a checksum give the same
  result, except that the checksum \<open>0xffff\<close> updated from \<open>0xffff\<close> to 0 stays \<open>0xffff\<close> by the first and
  becomes 0, the other representation of the same sum, by the second.\<close>

theorem csum_widths_agree:
  assumes "old_value < 0x10000" and "new_value < 0x10000"
  shows "pcn_csum_update2 s old_value new_value =
    (if s = 0xffff \<and> old_value = 0xffff \<and> new_value = 0 then 0xffff
     else pcn_csum_update4 s old_value new_value)"
proof -
  let ?o = "unat old_value" and ?n = "unat new_value" and ?s = "unat s"
  have le: "?o < 65536" "?n < 65536" "?s < 65536"
    using assms unat_u16_less [of s] by (simp_all add: word_less_nat_alt)
  have eqs: "(s = 0xffff) = (?s = 65535)" "(old_value = 0xffff) = (?o = 65535)" "(new_value = 0) = (?n = 0)"
    by (simp_all add: word_unat_eq_iff)
  let ?a = "(65535 - ?s) + (65535 - ?o) + ?n"
  let ?b = "?n + (4294967295 - ?o) + (4294967295 - ?s)"
  have b: "?b = ?a + 65535 * 131072" using le by simp
  have "oc 65535 ?b = (if ?a = 0 then 65535 else oc 65535 ?a)"
    unfolding b by (rule oc_shift) simp
  moreover have "(?a = 0) = (?s = 65535 \<and> ?o = 65535 \<and> ?n = 0)" using le by auto
  ultimately show ?thesis
    using le unfolding word_unat_eq_iff [of "pcn_csum_update2 _ _ _"]
    by (simp add: eqs update2_oc update4_oc split: if_splits)
qed

theorem csum_widths_agree_witness:
  "pcn_csum_update2 0x1234 0x5678 0x9abc = pcn_csum_update4 0x1234 0x5678 0x9abc"
  using csum_widths_agree [of "0x5678" "0x9abc" "0x1234"] by simp

text \<open>C28: replacing a field of two or four octets of an IP header and then its checksum with
  \<open>pcn_l3_csum_replace\<close>, given the old and the new value of the field, keeps the header valid: its
  16-bit words still add up to 0 modulo 65535.\<close>

theorem l3_csum_replace_keeps_valid:
  assumes w: "w = 2 \<or> w = 4" "length new = w"
    and h: "h + 20 \<le> length p" "even h" "h + 10 \<le> 65535"
    and i: "even i" "i + w \<le> 10 \<or> 12 \<le> i" "i + w \<le> 20"
    and valid: "sum16 (take 20 (drop h p)) mod 65535 = 0"
  shows "\<exists>q. pcn_l3_csum_replace (overwrite p (h + i) new) (of_nat (h + 10))
               (le_value (take w (drop (h + i) p))) (le_value new) (of_nat w) = Some (0, q) \<and>
             sum16 (take 20 (drop h q)) mod 65535 = 0"
proof -
  define p1 where "p1 = overwrite p (h + i) new"
  define old where "old = take w (drop (h + i) p)"
  have len: "length p1 = length p" "h + 20 \<le> length p1" using h i w by (simp_all add: p1_def)
  obtain s where s: "ld16 p1 (h + 10) = Some s" using len by (simp add: ld16_def)
  define s' where "s' = (if w = 2 then pcn_csum_update2 else pcn_csum_update4) s (le_value old) (le_value new)"
  obtain q where q: "st16 p1 (h + 10) s' = Some q" using len by (simp add: st16_def st_bytes_def)
  have off: "unat (of_nat (h + 10) :: u32) = h + 10" using h by (intro unat_u32_of_nat) simp
  have off1: "(of_nat (h + 10) :: u32) AND 1 = 0"
    unfolding word_unat_eq_iff and_one_eq unat_mod off using h(2) by simp
  have "pcn_l3_csum_replace p1 (of_nat (h + 10)) (le_value old) (le_value new) (of_nat w) = Some (0, q)"
    using w(1) s q len h off off1
    by (auto simp: pcn_l3_csum_replace_def BPF_F_HDR_FIELD_MASK_def s'_def word_less_nat_alt)
  moreover have "sum16 (take 20 (drop h q)) mod 65535 = 0"
  proof -
    have "take 20 (drop h p1) = overwrite (take 20 (drop h p)) i new"
      unfolding p1_def using w i h by (intro take_drop_overwrite) auto
    moreover have "take (length new) (drop i (take 20 (drop h p))) = old"
      using w i h by (auto simp: old_def drop_take add.commute min_def)
    ultimately have "sum16 (take 20 (drop h p1)) + sum16 old = sum16 (take 20 (drop h p)) + sum16 new"
      using sum16_overwrite [of i new "take 20 (drop h p)"] w i h by auto
    moreover have "sum16 (take 20 (drop h q)) + unat s = sum16 (take 20 (drop h p1)) + unat s'"
      by (rule store_check_sum [OF len(2) q s])
    ultimately have "int (sum16 (take 20 (drop h q))) = int (sum16 (take 20 (drop h p)))
        + (int (unat s') + int (sum16 new) - int (sum16 old) - int (unat s))"
      by linarith
    moreover have "(int (unat s') + int (sum16 new) - int (sum16 old) - int (unat s)) mod 65535 = 0"
      unfolding s'_def using w i h by (intro update_cancel) (auto simp: old_def)
    moreover have "int (sum16 (take 20 (drop h p))) mod 65535 = 0"
      using arg_cong [OF valid, of int] by (simp add: of_nat_mod)
    ultimately have "int (sum16 (take 20 (drop h q))) mod 65535 = 0"
      unfolding mod_eq_0_iff_dvd by (simp only: dvd_add)
    then have "int (sum16 (take 20 (drop h q)) mod 65535) = 0" unfolding of_nat_mod of_nat_numeral .
    then show ?thesis by (simp only: of_nat_eq_0_iff)
  qed
  ultimately show ?thesis unfolding p1_def old_def by (intro exI [of _ q] conjI)
qed

text \<open>A header with a valid checksum whose source address is replaced.\<close>

theorem l3_csum_replace_keeps_valid_witness:
  "\<exists>q. pcn_l3_csum_replace
      (overwrite (replicate 14 0 @ [0x45, 0, 0, 84, 0, 0, 64, 0, 64, 1, 38, 167, 10, 0, 0, 1, 10, 0, 0, 2]) (14 + 12) [12, 1, 1, 2])
      (of_nat (14 + 10))
      (le_value (take 4 (drop (14 + 12) (replicate 14 0 @ [0x45, 0, 0, 84, 0, 0, 64, 0, 64, 1, 38, 167, 10, 0, 0, 1, 10, 0, 0, 2]))))
      (le_value [12, 1, 1, 2]) (of_nat 4) = Some (0, q) \<and>
    sum16 (take 20 (drop 14 q)) mod 65535 = 0"
  by (rule l3_csum_replace_keeps_valid) (simp_all add: unat_le16)

end
