(* ===== verification/Upf_Pdr_Lookup.thy ===== *)
theory Upf_Pdr_Lookup
  imports Upf_Session_Lookup
begin

text \<open>
  The lookup of packet detection rules, \<open>pfcp_session_pdr_lookup_ebpf_xdp_prgrm_kernel.c\<close>, over the
  structures of \<open>bpf/pfcp\<close> and \<open>bpf/ie\<close>. Of a rule and a forwarding action the records keep the
  members the programs read; the value of a structure with one value member is that member. The
  debug output is left out.
\<close>

subsection \<open>Rules\<close>

record pdi =
  pdi_source_interface :: u8
  pdi_fteid_teid :: u32
  pdi_ue_ip_address :: u32

record pfcp_pdr =
  pdr_rule_id :: u16
  pdr_pdi :: pdi
  outer_header_removal_description :: u8
  pdr_far_id :: u32

record apply_action =
  act_spare :: "3 word"
  act_dupl :: bool
  act_nocp :: bool
  act_buff :: bool
  act_forw :: bool
  act_drop :: bool

record outer_header_creation =
  outer_header_creation_description :: u16
  ohc_teid :: u32
  ohc_ipv4_address :: u32
  ohc_port_number :: u16

record forwarding_parameters =
  destination_interface :: u8
  outer_header_creation_of :: outer_header_creation

record pfcp_far =
  far_id :: u32
  apply_action_of :: apply_action
  forwarding_parameters_of :: forwarding_parameters

record 'p pdr_maps =
  m_teid_pdr :: "u32 \<Rightarrow> pfcp_pdr option"
  m_ueip_pdr :: "u32 \<Rightarrow> pfcp_pdr option"
  m_fars :: "u32 \<Rightarrow> pfcp_far option"
  pdr_programs :: "'p lookup_maps"

definition OUTER_HEADER_REMOVAL_GTPU_UDP_IPV4 :: u8 where "OUTER_HEADER_REMOVAL_GTPU_UDP_IPV4 = 0"
definition OUTER_HEADER_REMOVAL_UDP_IPV4 :: u8 where "OUTER_HEADER_REMOVAL_UDP_IPV4 = 2"
definition GTPV1U_MSG_HEADER_MIN_SIZE :: nat where [simp]: "GTPV1U_MSG_HEADER_MIN_SIZE = 8"

subsection \<open>The programs\<close>

text \<open>An IP header is designated by its offset in the packet.\<close>

definition pfcp_pdr_match_pdi_access :: "pfcp_pdr \<Rightarrow> mem \<Rightarrow> nat \<Rightarrow> u32 \<Rightarrow> u32 option" where
  "pfcp_pdr_match_pdi_access p_pdr p p_iph teid = do {
     saddr \<leftarrow> ld32 p (p_iph + 12);
     Some (if outer_header_removal_description p_pdr \<noteq> OUTER_HEADER_REMOVAL_GTPU_UDP_IPV4 \<or>
              pdi_source_interface (pdr_pdi p_pdr) \<noteq> INTERFACE_VALUE_ACCESS \<or>
              pdi_fteid_teid (pdr_pdi p_pdr) \<noteq> teid \<or>
              pdi_ue_ip_address (pdr_pdi p_pdr) \<noteq> saddr
           then XDP_DROP else XDP_PASS) }"

definition pfcp_pdr_match_pdi_downlink :: "pfcp_pdr \<Rightarrow> mem \<Rightarrow> nat \<Rightarrow> u32 option" where
  "pfcp_pdr_match_pdi_downlink p_pdr p p_iph = do {
     daddr \<leftarrow> ld32 p (p_iph + 16);
     Some (if outer_header_removal_description p_pdr \<noteq> OUTER_HEADER_REMOVAL_UDP_IPV4 \<or>
              pdi_source_interface (pdr_pdi p_pdr) \<noteq> INTERFACE_VALUE_CORE \<or>
              pdi_ue_ip_address (pdr_pdi p_pdr) \<noteq> daddr
           then XDP_DROP else XDP_PASS) }"

definition pdr_tail_call_next_prog :: "'p lookup_maps \<Rightarrow> u32 \<Rightarrow> u8 \<Rightarrow> u32 \<Rightarrow> 'p xdp_result" where
  "pdr_tail_call_next_prog maps teid source ip =
     (case m_next_rule_prog_index maps \<lparr>key_teid = teid, source_value = source, ipv4_address = ip\<rparr> of
        Some index_prog \<Rightarrow>
          (case m_next_rule_prog maps index_prog of Some prog \<Rightarrow> XTail prog | None \<Rightarrow> XReturn 0)
      | None \<Rightarrow> XReturn 0)"

definition pfcp_pdr_lookup_uplink :: "'p pdr_maps \<Rightarrow> mem \<Rightarrow> 'p xdp_result option" where
  "pfcp_pdr_lookup_uplink maps p =
     (let offset = sizeof_ethhdr + sizeof_iphdr + sizeof_udphdr in
      if offset + sizeof_gtpuhdr > length p then Some (XReturn XDP_DROP)
      else do {
        let p_gtpuh = offset;
        gtp_teid \<leftarrow> ld32 p (p_gtpuh + 4);
        let teid = (ucast (htons (ucast gtp_teid)) :: u32);
        (case m_teid_pdr maps teid of
          None \<Rightarrow> Some (XReturn XDP_DROP)
        | Some p_pdr \<Rightarrow>
            (let p_iph = p_gtpuh + GTPV1U_MSG_HEADER_MIN_SIZE in
             if p_iph + sizeof_iphdr > length p then Some (XReturn XDP_DROP)
             else do {
               _ \<leftarrow> pfcp_pdr_match_pdi_access p_pdr p p_iph teid;
               (case m_fars maps (pdr_far_id p_pdr) of
                 None \<Rightarrow> Some (XReturn XDP_DROP)
               | Some _ \<Rightarrow> do {
                   saddr \<leftarrow> ld32 p (p_iph + 12);
                   Some (and_return
                     (pdr_tail_call_next_prog (pdr_programs maps) teid INTERFACE_VALUE_ACCESS saddr) XDP_DROP) }) })) })"

definition pfcp_pdr_lookup_downlink :: "'p pdr_maps \<Rightarrow> mem \<Rightarrow> 'p xdp_result option" where
  "pfcp_pdr_lookup_downlink maps p =
     (if sizeof_ethhdr + sizeof_iphdr + sizeof_udphdr > length p then Some (XReturn XDP_DROP)
      else
        (let p_iph = sizeof_ethhdr in
         if p_iph + sizeof_iphdr > length p then Some (XReturn XDP_DROP)
         else do {
           dest_ip \<leftarrow> ld32 p (p_iph + 16);
           (case m_ueip_pdr maps dest_ip of
             None \<Rightarrow> Some (XReturn XDP_DROP)
           | Some p_pdr \<Rightarrow> do {
               _ \<leftarrow> pfcp_pdr_match_pdi_downlink p_pdr p p_iph;
               (case m_fars maps (pdr_far_id p_pdr) of
                 None \<Rightarrow> Some (XReturn XDP_DROP)
               | Some _ \<Rightarrow> do {
                   saddr \<leftarrow> ld32 p (p_iph + 12);
                   Some (and_return
                     (pdr_tail_call_next_prog (pdr_programs maps) 0 INTERFACE_VALUE_CORE saddr) XDP_DROP) }) }) }))"

definition uplink_entry_point :: "'p pdr_maps \<Rightarrow> stats \<Rightarrow> mem \<Rightarrow> ('p xdp_result \<times> stats) option" where
  "uplink_entry_point maps mc_stats p = map_option (record_result mc_stats p) (pfcp_pdr_lookup_uplink maps p)"

definition downlink_entry_point :: "'p pdr_maps \<Rightarrow> stats \<Rightarrow> mem \<Rightarrow> ('p xdp_result \<times> stats) option" where
  "downlink_entry_point maps mc_stats p = map_option (record_result mc_stats p) (pfcp_pdr_lookup_downlink maps p)"

subsection \<open>The key of the rule\<close>

text \<open>The tunnel endpoint of the packet at the offset both programs assume, as a number.\<close>

definition packet_teid :: "mem \<Rightarrow> u32" where
  "packet_teid p = be32_of (p ! 46) (p ! 47) (p ! 48) (p ! 49)"

lemma packet_key: "packet_teid p div 0x10000 = ucast (be16 (p ! 46) (p ! 47))"
proof -
  have "unat (packet_teid p div 0x10000) = unat (be16 (p ! 46) (p ! 47))"
    using unat_u16_less [of "le16 (p ! 49) (p ! 48)"]
    by (simp add: packet_teid_def be32_of_def unat_div unat_le32 unat_le16 unat_be16)
  then show ?thesis by (simp add: word_unat_eq_iff)
qed

lemma uplink_key:
  "ucast (htons (ucast (le32 (p ! 46) (p ! 47) (p ! 48) (p ! 49)))) = packet_teid p div 0x10000"
  by (simp add: packet_key ucast_le32_u16)

lemma uplink_by_key:
  assumes "54 \<le> length p"
  shows "pfcp_pdr_lookup_uplink maps p =
    (let teid = packet_teid p div 0x10000 in
     case m_teid_pdr maps teid of
       None \<Rightarrow> Some (XReturn XDP_DROP)
     | Some p_pdr \<Rightarrow>
         (if length p < 70 then Some (XReturn XDP_DROP)
          else
            (case m_fars maps (pdr_far_id p_pdr) of
               None \<Rightarrow> Some (XReturn XDP_DROP)
             | Some _ \<Rightarrow>
                 Some (and_return (pdr_tail_call_next_prog (pdr_programs maps) teid INTERFACE_VALUE_ACCESS
                   (le32 (p ! 62) (p ! 63) (p ! 64) (p ! 65))) XDP_DROP))))"
  using assms
  by (simp add: pfcp_pdr_lookup_uplink_def pfcp_pdr_match_pdi_access_def uplink_key Let_def
      split: option.split)

section \<open>Properties\<close>

text \<open>C31: the uplink lookup uses the upper 16 bits of the tunnel endpoint as its key, so the packets of
  all tunnels that agree there get the same rule and the same program: changing the lower octets of
  the endpoint changes nothing, and no rule but the one stored under that key has an influence.\<close>

theorem pdr_teid_collision:
  assumes "54 \<le> length p"
  shows "pfcp_pdr_lookup_uplink maps (overwrite p 48 [a, b]) = pfcp_pdr_lookup_uplink maps p \<and>
         pfcp_pdr_lookup_uplink
           (maps\<lparr>m_teid_pdr := \<lambda>k. if k = packet_teid p div 0x10000 then m_teid_pdr maps k else f k\<rparr>) p
         = pfcp_pdr_lookup_uplink maps p"
proof
  define q where "q = overwrite p 48 [a, b]"
  have len: "length q = length p" using assms by (simp add: q_def)
  have nth: "q ! i = p ! i" if "i < 48 \<or> 50 \<le> i" "i < length p" for i
    using that assms unfolding q_def by (intro nth_overwrite) auto
  have "packet_teid q div 0x10000 = packet_teid p div 0x10000"
    using nth [of 46] nth [of 47] assms by (simp add: packet_key)
  moreover have "le32 (q ! 62) (q ! 63) (q ! 64) (q ! 65) = le32 (p ! 62) (p ! 63) (p ! 64) (p ! 65)"
    if "\<not> length p < 70"
    using that nth [of 62] nth [of 63] nth [of 64] nth [of 65] by simp
  ultimately show "pfcp_pdr_lookup_uplink maps (overwrite p 48 [a, b]) = pfcp_pdr_lookup_uplink maps p"
    unfolding q_def [symmetric] using assms len
    by (simp add: uplink_by_key Let_def split: option.split cong: if_cong)
next
  show "pfcp_pdr_lookup_uplink
      (maps\<lparr>m_teid_pdr := \<lambda>k. if k = packet_teid p div 0x10000 then m_teid_pdr maps k else f k\<rparr>) p
    = pfcp_pdr_lookup_uplink maps p"
    using assms by (simp add: uplink_by_key Let_def split: option.split)
qed

definition example_pdr_maps :: "nat pdr_maps" where
  "example_pdr_maps =
     \<lparr>m_teid_pdr = [9 \<mapsto> \<lparr>pdr_rule_id = 1, pdr_pdi = \<lparr>pdi_source_interface = 0, pdi_fteid_teid = 9,
        pdi_ue_ip_address = 0x0201010c\<rparr>, outer_header_removal_description = 0, pdr_far_id = 1\<rparr>],
      m_ueip_pdr = Map.empty, m_fars = Map.empty, pdr_programs = example_maps\<rparr>"

text \<open>Tunnel 9: only a rule stored under 0 would be used.\<close>

theorem pdr_teid_collision_witness:
  "pfcp_pdr_lookup_uplink example_pdr_maps (overwrite gpdu_example 48 [1, 2])
     = pfcp_pdr_lookup_uplink example_pdr_maps gpdu_example \<and>
   pfcp_pdr_lookup_uplink (example_pdr_maps\<lparr>m_teid_pdr :=
       \<lambda>k. if k = packet_teid gpdu_example div 0x10000 then m_teid_pdr example_pdr_maps k else Map.empty k\<rparr>) gpdu_example
     = pfcp_pdr_lookup_uplink example_pdr_maps gpdu_example"
  by (rule pdr_teid_collision) (simp add: gpdu_example_def)

text \<open>Whether the rule matches the packet has no influence. If every rule is replaced by one with
  the same forwarding action and any other interface, tunnel, address or header removal, both
  lookups give the same result on every packet.\<close>

theorem pdr_match_ignored:
  assumes "\<And>pdr. pdr_far_id (f pdr) = pdr_far_id pdr"
  shows "pfcp_pdr_lookup_uplink (maps\<lparr>m_teid_pdr := \<lambda>k. map_option f (m_teid_pdr maps k)\<rparr>) p
           = pfcp_pdr_lookup_uplink maps p \<and>
         pfcp_pdr_lookup_downlink (maps\<lparr>m_ueip_pdr := \<lambda>k. map_option f (m_ueip_pdr maps k)\<rparr>) p
           = pfcp_pdr_lookup_downlink maps p"
  using assms
  by (auto simp: pfcp_pdr_lookup_uplink_def pfcp_pdr_lookup_downlink_def pfcp_pdr_match_pdi_access_def
      pfcp_pdr_match_pdi_downlink_def Let_def split: option.split)

theorem pdr_match_ignored_witness:
  "pfcp_pdr_lookup_uplink (example_pdr_maps\<lparr>m_teid_pdr := \<lambda>k. map_option
       (\<lambda>pdr. pdr\<lparr>outer_header_removal_description := 1\<rparr>) (m_teid_pdr example_pdr_maps k)\<rparr>) gpdu_example
     = pfcp_pdr_lookup_uplink example_pdr_maps gpdu_example \<and>
   pfcp_pdr_lookup_downlink (example_pdr_maps\<lparr>m_ueip_pdr := \<lambda>k. map_option
       (\<lambda>pdr. pdr\<lparr>outer_header_removal_description := 1\<rparr>) (m_ueip_pdr example_pdr_maps k)\<rparr>) gpdu_example
     = pfcp_pdr_lookup_downlink example_pdr_maps gpdu_example"
  by (rule pdr_match_ignored) simp

end
