(* ===== verification/Upf_Far.thy ===== *)
theory Upf_Far
  imports Upf_Csum Upf_Pdr_Lookup
begin

text \<open>
  The program that applies a forwarding action, \<open>far_ebpf_xdp_prgrm_kernel.c\<close>: towards the data
  network the tunnel headers are removed, towards the access network they are put in front of the
  packet. The helpers of the kernel are a parameter, \<open>bpf_helpers\<close>; what the properties rely on of
  them is stated by \<open>adjust_head_ok\<close> and \<open>csum_diff_ok\<close> from their documentation in \<open>linux/bpf.h\<close>.

  The host is little-endian. Bit fields are those of the first octet of an IP header. The \<open>memset\<close> in
  \<open>update_dst_mac_address\<close> through the address of a pointer is left out of the model: it writes
  12 octets over a pointer of 8 on the stack.
\<close>

subsection \<open>Maps and helpers\<close>

datatype e_reference_point = N3_INTERFACE | N6_INTERFACE | N4_INTERFACE | N9_INTERFACE | N19_INTERFACE

record s_interface =
  if_ipv4_address :: u32
  if_port :: u32

type_synonym mac = "u8 \<times> u8 \<times> u8 \<times> u8 \<times> u8 \<times> u8"

fun mac_bytes :: "mac \<Rightarrow> u8 list" where
  "mac_bytes (a, b, c, d, e, f) = [a, b, c, d, e, f]"

lemma length_mac_bytes [simp]: "length (mac_bytes m) = 6"
  by (cases m) simp

record s_arp_mapping =
  mac_address :: mac
  arp_ipv4_address :: u32

text \<open>The keys of \<open>m_far\<close> have one octet.\<close>

record far_maps =
  m_far :: "u8 \<Rightarrow> pfcp_far option"
  m_arp_table :: "u32 \<Rightarrow> s_arp_mapping option"
  m_upf_interfaces :: "e_reference_point \<Rightarrow> s_interface option"

text \<open>
  \<open>bpf_xdp_adjust_head\<close> gives the new packet, or \<open>None\<close> for a non-zero return value, after which the
  packet is as before. \<open>bpf_csum_diff\<close> takes the octets it is given the addresses of.
\<close>

record bpf_helpers =
  bpf_xdp_adjust_head :: "mem \<Rightarrow> int \<Rightarrow> mem option"
  bpf_csum_diff :: "mem \<Rightarrow> mem \<Rightarrow> u32 \<Rightarrow> u32"
  kernel_4_16 :: bool

definition adjust_head_ok :: "bpf_helpers \<Rightarrow> bool" where
  "adjust_head_ok K \<longleftrightarrow>
     (\<forall>p n q. bpf_xdp_adjust_head K p (int n) = Some q \<longrightarrow> q = drop n p) \<and>
     (\<forall>p n q. bpf_xdp_adjust_head K p (- int n) = Some q \<longrightarrow> (\<exists>h. length h = n \<and> q = h @ p))"

definition csum_diff_ok :: "bpf_helpers \<Rightarrow> bool" where
  "csum_diff_ok K \<longleftrightarrow>
     kernel_4_16 K \<and>
     (\<forall>to. 4 dvd length to \<longrightarrow> unat (bpf_csum_diff K [] to 0) mod 65535 = sum16 to mod 65535)"

text \<open>\<open>pcn_csum_diff\<close> of \<open>csum.h\<close>: the helper, or the computation for older kernels.\<close>

definition pcn_csum_diff :: "bpf_helpers \<Rightarrow> mem \<Rightarrow> u32 \<Rightarrow> mem \<Rightarrow> u32 \<Rightarrow> u32 \<Rightarrow> u32 option" where
  "pcn_csum_diff K from from_size to to_size seed =
     (if kernel_4_16 K then Some (bpf_csum_diff K (take (unat from_size) from) (take (unat to_size) to) seed)
      else if from_size \<noteq> 4 \<or> to_size \<noteq> 4 then Some (word_of_int (- EINVAL))
      else do {
        f \<leftarrow> ld32 from 0;
        t \<leftarrow> ld32 to 0;
        Some (pcn_csum_diff_old f from_size t to_size seed) })"

subsection \<open>Helpers of the program\<close>

definition update_dst_mac_address :: "far_maps \<Rightarrow> u32 \<Rightarrow> mem \<Rightarrow> nat \<Rightarrow> (u32 \<times> mem) option" where
  "update_dst_mac_address maps ip p p_eth =
     (case m_arp_table maps ip of
        None \<Rightarrow> Some (1, p)
      | Some map_table \<Rightarrow> do { p \<leftarrow> st_bytes p p_eth (mac_bytes (mac_address map_table)); Some (0, p) })"

definition get_ip_address_from_map :: "far_maps \<Rightarrow> e_reference_point \<Rightarrow> u32" where
  "get_ip_address_from_map maps key =
     (case m_upf_interfaces maps key of Some map_element \<Rightarrow> if_ipv4_address map_element | None \<Rightarrow> XDP_DROP)"

definition swap_src_dst_mac :: "mem \<Rightarrow> mem option" where
  "swap_src_dst_mac p = do {
     dst \<leftarrow> ld_bytes p 0 6;
     src \<leftarrow> ld_bytes p 6 6;
     p \<leftarrow> st_bytes p 0 src;
     st_bytes p 6 dst }"

subsection \<open>The outer headers\<close>

definition IP_CSUM_OFFSET :: u32 where "IP_CSUM_OFFSET = 24"

text \<open>\<open>version\<close> and \<open>ihl\<close> are the upper and the lower half of the first octet.\<close>

definition write_outer_ip :: "far_maps \<Rightarrow> pfcp_far \<Rightarrow> mem \<Rightarrow> nat \<Rightarrow> nat \<Rightarrow> mem option" where
  "write_outer_ip maps p_far p p_ip p_inner_ip = do {
     b \<leftarrow> ld8 p p_ip;
     p \<leftarrow> st8 p p_ip ((b AND 0x0f) OR 0x40);
     b \<leftarrow> ld8 p p_ip;
     p \<leftarrow> st8 p p_ip ((b AND 0xf0) OR 0x05);
     p \<leftarrow> st8 p (p_ip + 1) 0;
     tot_len \<leftarrow> ld16 p (p_inner_ip + 2);
     p \<leftarrow> st16 p (p_ip + 2) (htons (htons tot_len + of_nat GTP_ENCAPSULATED_SIZE));
     p \<leftarrow> st16 p (p_ip + 4) 0;
     p \<leftarrow> st16 p (p_ip + 6) 0x0040;
     p \<leftarrow> st8 p (p_ip + 8) 64;
     p \<leftarrow> st8 p (p_ip + 9) IPPROTO_UDP;
     p \<leftarrow> st16 p (p_ip + 10) 0;
     p \<leftarrow> st32 p (p_ip + 12) (get_ip_address_from_map maps N3_INTERFACE);
     st32 p (p_ip + 16) (ohc_ipv4_address (outer_header_creation_of (forwarding_parameters_of p_far))) }"

definition write_outer_udp :: "mem \<Rightarrow> nat \<Rightarrow> nat \<Rightarrow> mem option" where
  "write_outer_udp p p_udp p_inner_ip = do {
     p \<leftarrow> st16 p p_udp (htons GTP_UDP_PORT);
     p \<leftarrow> st16 p (p_udp + 2) (htons GTP_UDP_PORT);
     tot_len \<leftarrow> ld16 p (p_inner_ip + 2);
     p \<leftarrow> st16 p (p_udp + 4) (htons (htons tot_len +
            of_nat (sizeof_udphdr + sizeof_gtpuhdr + sizeof_gtpu_extn_pdu_session_container)));
     st16 p (p_udp + 6) 0 }"

definition write_gtpu :: "pfcp_far \<Rightarrow> mem \<Rightarrow> nat \<Rightarrow> nat \<Rightarrow> mem option" where
  "write_gtpu p_far p p_gtpuh p_inner_ip = do {
     p \<leftarrow> st8 p p_gtpuh 0x34;
     p \<leftarrow> st8 p (p_gtpuh + 1) GTPU_G_PDU;
     tot_len \<leftarrow> ld16 p (p_inner_ip + 2);
     p \<leftarrow> st16 p (p_gtpuh + 2) (htons (htons tot_len + of_nat (sizeof_gtpu_extn_pdu_session_container + 4)));
     p \<leftarrow> st32 p (p_gtpuh + 4) (htobe32 (ohc_teid (outer_header_creation_of (forwarding_parameters_of p_far))));
     p \<leftarrow> st16 p (p_gtpuh + 8) 0;
     p \<leftarrow> st8 p (p_gtpuh + 10) 0;
     st8 p (p_gtpuh + 11) 0x85 }"

definition write_gtpu_ext :: "mem \<Rightarrow> nat \<Rightarrow> mem option" where
  "write_gtpu_ext p p_ext = do {
     p \<leftarrow> st8 p p_ext 0x01;
     p \<leftarrow> st8 p (p_ext + 1) 0x00;
     p \<leftarrow> st8 p (p_ext + 2) 0x08;
     st8 p (p_ext + 3) 0x00 }"

text \<open>
  \<open>create_outer_header_gtpu_ipv4\<close>: the value returned, \<open>None\<close> where the end of the function is reached
  without a \<open>return\<close>, and the packet.
\<close>

definition create_outer_header_gtpu_ipv4 ::
  "bpf_helpers \<Rightarrow> far_maps \<Rightarrow> pfcp_far \<Rightarrow> mem \<Rightarrow> (u32 option \<times> mem) option" where
  "create_outer_header_gtpu_ipv4 K maps p_far p =
     (case bpf_xdp_adjust_head K p (- int GTP_ENCAPSULATED_SIZE) of
        None \<Rightarrow> Some (Some XDP_DROP, p)
      | Some p \<Rightarrow>
          (let p_eth = 0; p_orig_eth = GTP_ENCAPSULATED_SIZE; p_ip = p_eth + sizeof_ethhdr;
               p_inner_ip = p_ip + GTP_ENCAPSULATED_SIZE; p_udp = p_ip + sizeof_iphdr;
               p_gtpuh = p_udp + sizeof_udphdr; p_gtpu_ext_h = p_gtpuh + sizeof_gtpuhdr in
           if p_eth + sizeof_ethhdr > length p then Some (Some XDP_DROP, p)
           else if p_orig_eth + sizeof_ethhdr > length p then Some (Some XDP_DROP, p)
           else do {
             eth \<leftarrow> ld_bytes p p_orig_eth sizeof_ethhdr;
             p \<leftarrow> st_bytes p p_eth eth;
             if p_ip + sizeof_iphdr > length p then Some (Some XDP_DROP, p)
             else if p_inner_ip + sizeof_iphdr > length p then Some (Some XDP_DROP, p)
             else do {
               p \<leftarrow> write_outer_ip maps p_far p p_ip p_inner_ip;
               if p_udp + sizeof_udphdr > length p then Some (Some XDP_DROP, p)
               else do {
                 p \<leftarrow> write_outer_udp p p_udp p_inner_ip;
                 (case m_arp_table maps (get_ip_address_from_map maps N3_INTERFACE) of
                    None \<Rightarrow> Some (Some XDP_DROP, p)
                  | Some arp \<Rightarrow> do {
                      p \<leftarrow> st_bytes p p_eth (mac_bytes (mac_address arp));
                      if p_gtpuh + sizeof_gtpuhdr > length p then Some (Some XDP_DROP, p)
                      else do {
                        p \<leftarrow> write_gtpu p_far p p_gtpuh p_inner_ip;
                        if p_gtpu_ext_h + sizeof_gtpu_extn_pdu_session_container > length p
                        then Some (Some XDP_DROP, p)
                        else do {
                          p \<leftarrow> write_gtpu_ext p p_gtpu_ext_h;
                          l3sum \<leftarrow> pcn_csum_diff K [] 0 (drop p_ip p) (of_nat sizeof_iphdr) 0;
                          (_, p) \<leftarrow> pcn_l3_csum_replace p IP_CSUM_OFFSET 0 l3sum 0;
                          Some (None, p) } } }) } } }))"

subsection \<open>Applying a forwarding action\<close>

text \<open>
  \<open>FRedirect key\<close> is \<open>return bpf_redirect_map(&m_redirect_interfaces, key, 0)\<close>; \<open>FNoValue\<close> is the end of
  the function without a \<open>return\<close>.
\<close>

datatype far_result = FReturn u32 | FRedirect u32 | FNoValue

definition DOWNLINK :: u32 where "DOWNLINK = 0"
definition UPLINK :: u32 where "UPLINK = 1"
definition OUTER_HEADER_CREATION_GTPU_UDP_IPV4 :: u16 where "OUTER_HEADER_CREATION_GTPU_UDP_IPV4 = 0x0100"

definition pfcp_far_apply ::
  "bpf_helpers \<Rightarrow> far_maps \<Rightarrow> pfcp_far option \<Rightarrow> mem \<Rightarrow> (far_result \<times> mem) option" where
  "pfcp_far_apply K maps p_far p =
     (let p_eth = 0 in
      if p_eth + sizeof_ethhdr > length p then Some (FReturn XDP_DROP, p)
      else
        (case p_far of
           None \<Rightarrow> Some (FReturn XDP_DROP, p)
         | Some p_far \<Rightarrow>
             (let dest_interface = destination_interface (forwarding_parameters_of p_far);
                  outer_header_creation = outer_header_creation_description
                    (outer_header_creation_of (forwarding_parameters_of p_far)) in
              if \<not> act_forw (apply_action_of p_far) then Some (FReturn XDP_PASS, p)
              else if dest_interface = INTERFACE_VALUE_CORE then
                (let p_new_eth = GTP_ENCAPSULATED_SIZE in
                 if p_new_eth + sizeof_ethhdr > length p then Some (FReturn XDP_DROP, p)
                 else do {
                   eth \<leftarrow> ld_bytes p p_eth sizeof_ethhdr;
                   p \<leftarrow> st_bytes p p_new_eth eth;
                   (fail, p) \<leftarrow> update_dst_mac_address maps (get_ip_address_from_map maps N6_INTERFACE) p p_new_eth;
                   if fail \<noteq> 0 then Some (FReturn XDP_DROP, p)
                   else
                     (case bpf_xdp_adjust_head K p (int GTP_ENCAPSULATED_SIZE) of
                        None \<Rightarrow> Some (FReturn XDP_DROP, p)
                      | Some p \<Rightarrow> Some (FRedirect UPLINK, p)) })
              else if dest_interface = INTERFACE_VALUE_ACCESS then
                (if outer_header_creation = OUTER_HEADER_CREATION_GTPU_UDP_IPV4 then do {
                   (_, p) \<leftarrow> create_outer_header_gtpu_ipv4 K maps p_far p;
                   Some (FRedirect DOWNLINK, p) }
                 else Some (FNoValue, p))
              else Some (FNoValue, p))))"

definition far_entry_point :: "bpf_helpers \<Rightarrow> far_maps \<Rightarrow> mem \<Rightarrow> (far_result \<times> mem) option" where
  "far_entry_point K maps p =
     (case m_far maps 0 of
        Some p_far \<Rightarrow> pfcp_far_apply K maps (Some p_far) p
      | None \<Rightarrow> Some (FReturn XDP_DROP, p))"

subsection \<open>Blocks of a packet\<close>

text \<open>A store into the middle part of a packet, designated by the length of what is before it.\<close>

lemma st_bytes_mid:
  "i + length bs \<le> length m \<Longrightarrow> st_bytes (a @ m @ r) (length a + i) bs = Some (a @ overwrite m i bs @ r)"
  by (simp add: st_bytes_def overwrite_def)

lemma st_bytes_mid0:
  "length bs \<le> length m \<Longrightarrow> st_bytes (a @ m @ r) (length a) bs = Some (a @ overwrite m 0 bs @ r)"
  using st_bytes_mid [of 0 bs m a r] by simp

lemma ld8_mid: "1 \<le> length m \<Longrightarrow> ld8 (a @ m @ r) (length a) = Some (m ! 0)"
  by (cases m) (simp_all add: ld8_def nth_append)

lemma ld16_right: "ld16 (a @ m @ r) (length a + length m + j) = ld16 r j"
  by (simp add: ld16_def nth_append add.assoc)

lemma version_ihl: "(((b AND 0x0f) OR 0x40) AND 0xf0) OR 0x05 = (0x45 :: u8)"
proof -
  have "((b AND 0x0f) OR 0x40) AND 0xf0 = ((b AND 0x0f) AND 0xf0) OR (0x40 AND 0xf0)"
    by (rule bit.conj_disj_distrib2)
  also have "(b AND 0x0f) AND 0xf0 = 0" by (simp add: and.assoc)
  finally show ?thesis by simp
qed

text \<open>The headers as octets in network order.\<close>

definition outer_ip :: "u16 \<Rightarrow> u16 \<Rightarrow> u32 \<Rightarrow> u32 \<Rightarrow> u8 list" where
  "outer_ip inner_len check saddr daddr =
     [0x45, 0, hi8 (inner_len + 44), lo8 (inner_len + 44), 0, 0, 0x40, 0, 64, 17] @ bytes16 check
       @ bytes32 saddr @ bytes32 daddr"

definition outer_udp :: "u16 \<Rightarrow> u8 list" where
  "outer_udp inner_len = [0x08, 0x68, 0x08, 0x68, hi8 (inner_len + 24), lo8 (inner_len + 24), 0, 0]"

definition outer_gtpu :: "u16 \<Rightarrow> u32 \<Rightarrow> u8 list" where
  "outer_gtpu inner_len teid = [0x34, 255, hi8 (inner_len + 8), lo8 (inner_len + 8)] @ bytes32 (htobe32 teid) @ [0, 0, 0, 0x85]"

definition outer_ext :: "u8 list" where "outer_ext = [1, 0, 8, 0]"

lemma ow_ip:
  assumes "length m = 20" "length t = 2" "length s = 4" "length d = 4"
  shows "overwrite (overwrite (overwrite (overwrite (overwrite (overwrite (overwrite (overwrite (overwrite
    (overwrite (overwrite m 0 [b1]) 0 [b2]) (Suc 0) [0]) 2 t) 4 [0,0]) 6 [0x40, 0]) 8 [64]) 9 [17]) 10 [0, 0]) 12 s) 16 d
   = [b2, 0] @ t @ [0, 0, 0x40, 0, 64, 17, 0, 0] @ s @ d"
proof -
  obtain t0 t1 where t: "t = [t0, t1]" using assms(2) by (rule length_2E)
  obtain s0 s1 s2 s3 where s: "s = [s0, s1, s2, s3]" using assms(3) by (rule length_4E)
  obtain d0 d1 d2 d3 where d: "d = [d0, d1, d2, d3]" using assms(4) by (rule length_4E)
  show ?thesis using assms(1)
    by (simp add: length_eq_numeral t s d overwrite_def, elim exE conjE, simp)
qed

lemma st_bytes_mid_Suc:
  "1 + length bs \<le> length m \<Longrightarrow> st_bytes (a @ m @ r) (Suc (length a)) bs = Some (a @ overwrite m 1 bs @ r)"
  "2 + length bs \<le> length m \<Longrightarrow> st_bytes (a @ m @ r) (Suc (Suc (length a))) bs = Some (a @ overwrite m 2 bs @ r)"
  using st_bytes_mid [of 1 bs m a r] st_bytes_mid [of 2 bs m a r] by simp_all

lemma overwrite_0_nth [simp]: "overwrite m 0 [x] ! 0 = x"
  by (simp add: overwrite_def)

lemmas mid_simps = st_bytes_mid_Suc st8_def st16_def st32_def st_bytes_mid st_bytes_mid0 ld8_mid

lemma write_outer_ip_mid:
  assumes "length m = 20" "ld16 r j = Some t" "k + 2 = length a + 20 + j"
  shows "write_outer_ip maps far (a @ m @ r) (length a) k =
    Some (a @ outer_ip (htons t) 0 (get_ip_address_from_map maps N3_INTERFACE)
      (ohc_ipv4_address (outer_header_creation_of (forwarding_parameters_of far))) @ r)"
proof -
  have ld: "ld16 (a @ m' @ r) (Suc (Suc k)) = Some t" if "length m' = 20" for m'
  proof -
    have "Suc (Suc k) = length a + length m' + j" using assms(3) that by simp
    then show ?thesis by (simp only: ld16_right assms(2))
  qed
  have b0: "bytes16 0 = [0, 0]" "bytes16 0x0040 = [0x40, 0]"
    by (simp_all add: bytes16_def lo8_def hi8_def)
  show ?thesis
    using assms(1) unfolding write_outer_ip_def
    by (simp add: mid_simps ld version_ihl b0 ow_ip outer_ip_def bytes16_htons IPPROTO_UDP_def del: ld_some)
qed

lemma write_outer_udp_mid:
  assumes "length m = 8" "ld16 r j = Some t" "k + 2 = length a + 8 + j"
  shows "write_outer_udp (a @ m @ r) (length a) k = Some (a @ outer_udp (htons t) @ r)"
proof -
  have ld: "ld16 (a @ m' @ r) (Suc (Suc k)) = Some t" if "length m' = 8" for m'
  proof -
    have "Suc (Suc k) = length a + length m' + j" using assms(3) that by simp
    then show ?thesis by (simp only: ld16_right assms(2))
  qed
  have port: "hi8 GTP_UDP_PORT = 0x08" "lo8 GTP_UDP_PORT = 0x68" "bytes16 0 = [0, 0]"
    by (simp_all add: GTP_UDP_PORT_def bytes16_def lo8_def hi8_def)
  have ow: "overwrite (overwrite (overwrite (overwrite m 0 [x, y]) 2 [x, y]) 4 [u, v]) 6 [0, 0]
    = [x, y, x, y, u, v, 0, 0]" for x y u v
    using assms(1) by (simp add: length_eq_numeral overwrite_def, elim exE conjE, simp)
  show ?thesis
    using assms(1) unfolding write_outer_udp_def
    by (simp add: mid_simps ld port ow outer_udp_def bytes16_htons del: ld_some)
qed

lemma write_gtpu_mid:
  assumes "length m = 12" "ld16 r j = Some t" "k + 2 = length a + 12 + j"
  shows "write_gtpu far (a @ m @ r) (length a) k =
    Some (a @ outer_gtpu (htons t) (ohc_teid (outer_header_creation_of (forwarding_parameters_of far))) @ r)"
proof -
  have ld: "ld16 (a @ m' @ r) (Suc (Suc k)) = Some t" if "length m' = 12" for m'
  proof -
    have "Suc (Suc k) = length a + length m' + j" using assms(3) that by simp
    then show ?thesis by (simp only: ld16_right assms(2))
  qed
  have b0: "bytes16 0 = [0, 0]" by (simp add: bytes16_def lo8_def hi8_def)
  have ow: "overwrite (overwrite (overwrite (overwrite (overwrite (overwrite (overwrite m 0 [0x34]) (Suc 0) [x]) 2 [u, v])
      4 (bytes32 w)) 8 [0, 0]) 10 [0]) 11 [0x85] = [0x34, x, u, v] @ bytes32 w @ [0, 0, 0, 0x85]" for x u v w
    using assms(1) by (simp add: length_eq_numeral overwrite_def bytes32_def, elim exE conjE, simp)
  show ?thesis
    using assms(1) unfolding write_gtpu_def
    by (simp add: mid_simps ld b0 ow outer_gtpu_def bytes16_htons GTPU_G_PDU_def del: ld_some)
qed

lemma write_gtpu_ext_mid:
  assumes "length m = 4"
  shows "write_gtpu_ext (a @ m @ r) (length a) = Some (a @ outer_ext @ r)"
proof -
  have ow: "overwrite (overwrite (overwrite (overwrite m 0 [1]) (Suc 0) [0]) 2 [8]) 3 [0] = outer_ext"
    using assms by (simp add: length_eq_numeral overwrite_def outer_ext_def, elim exE conjE, simp)
  show ?thesis
    using assms unfolding write_gtpu_ext_def by (simp add: mid_simps ow)
qed

subsection \<open>Encapsulation\<close>

lemma adjust_headD:
  assumes "adjust_head_ok K"
  shows "bpf_xdp_adjust_head K p (int n) = Some q \<Longrightarrow> q = drop n p"
    and "bpf_xdp_adjust_head K p (- int n) = Some q \<Longrightarrow> \<exists>h. length h = n \<and> q = h @ p"
  using assms unfolding adjust_head_ok_def by blast+

definition ip_check :: "bpf_helpers \<Rightarrow> u8 list \<Rightarrow> u16" where
  "ip_check K hdr = pcn_csum_replace_by_diff 0 (bpf_csum_diff K [] hdr 0)"

lemma length_outer [simp]:
  "length (outer_ip l c s d) = 20" "length (outer_udp l) = 8" "length (outer_gtpu l t) = 12" "length outer_ext = 4"
  by (simp_all add: outer_ip_def outer_udp_def outer_gtpu_def outer_ext_def)

lemma outer_ip_check: "overwrite (outer_ip l 0 s d) 10 (bytes16 c) = outer_ip l c s d"
  by (simp add: outer_ip_def overwrite_def bytes16_def)

lemma header_sum:
  "kernel_4_16 K \<Longrightarrow> pcn_csum_diff K [] 0 (outer_ip l c s d @ r) 20 0 = Some (bpf_csum_diff K [] (outer_ip l c s d) 0)"
  by (simp add: pcn_csum_diff_def)

lemma put_check:
  assumes "length a = 14"
  shows "pcn_l3_csum_replace (a @ outer_ip l 0 s d @ r) IP_CSUM_OFFSET 0 x 0
       = Some (0, a @ outer_ip l (pcn_csum_replace_by_diff 0 x) s d @ r)"
proof -
  have "ld16 (a @ outer_ip l 0 s d @ r) 24 = Some 0"
    using assms by (simp add: ld16_def nth_append outer_ip_def bytes16_def le16_def be16_def lo8_def hi8_def)
  moreover have "st_bytes (a @ outer_ip l 0 s d @ r) 24 (bytes16 v) = Some (a @ outer_ip l v s d @ r)" for v
    using st_bytes_mid [of 10 "bytes16 v" "outer_ip l 0 s d" a r] assms by (simp add: outer_ip_check)
  ultimately show ?thesis
    using assms
    by (simp add: pcn_l3_csum_replace_def BPF_F_HDR_FIELD_MASK_def IP_CSUM_OFFSET_def st16_def del: ld_some)
qed

text \<open>The result of a complete run.\<close>

definition encapsulated :: "bpf_helpers \<Rightarrow> far_maps \<Rightarrow> pfcp_far \<Rightarrow> mac \<Rightarrow> mem \<Rightarrow> mem" where
  "encapsulated K maps far mac p =
     (let inner_len = be16 (p ! 16) (p ! 17);
          creation = outer_header_creation_of (forwarding_parameters_of far);
          s = get_ip_address_from_map maps N3_INTERFACE; d = ohc_ipv4_address creation in
      mac_bytes mac @ take 8 (drop 6 p) @ outer_ip inner_len (ip_check K (outer_ip inner_len 0 s d)) s d
        @ outer_udp inner_len @ outer_gtpu inner_len (ohc_teid creation) @ outer_ext @ drop 14 p)"

lemma create_outer_header_result:
  assumes K: "adjust_head_ok K" "kernel_4_16 K"
    and q: "bpf_xdp_adjust_head K p (- int 44) = Some q" and p: "34 \<le> length p"
    and arp: "m_arp_table maps (get_ip_address_from_map maps N3_INTERFACE) = Some arp"
  shows "create_outer_header_gtpu_ipv4 K maps far p = Some (None, encapsulated K maps far (mac_address arp) p)"
proof -
  obtain h where h: "length h = 44" "q = h @ p" using adjust_headD(2) [OF K(1) q] by auto
  define e r where "e = take 14 p" and "r = drop 14 p"
  have pe: "p = e @ r" "length e = 14" "20 \<le> length r" using p by (simp_all add: e_def r_def)
  define M where "M = drop 14 h @ e"
  define m1 m2 m3 m4 where "m1 = take 20 M" and "m2 = take 8 (drop 20 M)" and "m3 = take 12 (drop 28 M)" and "m4 = drop 40 M"
  have "drop 20 M = take 8 (drop 20 M) @ drop 28 M" "drop 28 M = take 12 (drop 28 M) @ drop 40 M"
    using append_take_drop_id [of 8 "drop 20 M"] append_take_drop_id [of 12 "drop 28 M"] by simp_all
  then have M: "M = m1 @ m2 @ m3 @ m4"
    unfolding m1_def m2_def m3_def m4_def by (metis append_take_drop_id)
  have len: "length m1 = 20" "length m2 = 8" "length m3 = 12" "length m4 = 4"
    using h pe by (simp_all add: m1_def m2_def m3_def m4_def M_def)
  define t where "t = le16 (r ! 2) (r ! 3)"
  have ht: "htons t = be16 (p ! 16) (p ! 17)" by (simp add: t_def pe nth_append)
  have r2: "ld16 r 2 = Some t" using pe by (simp add: ld16_def t_def)
  have ld: "ld16 (m4 @ r) 6 = Some t" "ld16 (m3 @ m4 @ r) 18 = Some t" "ld16 (m2 @ m3 @ m4 @ r) 26 = Some t"
    using ld16_right [of "[]" m4 r 2] ld16_right [of m3 m4 r 2] ld16_right [of "m2 @ m3" m4 r 2] r2 len by simp_all
  have s1: "ld_bytes q 44 14 = Some e" "st_bytes q 0 e = Some (e @ m1 @ m2 @ m3 @ m4 @ r)"
  proof -
    show "ld_bytes q 44 14 = Some e" using h pe by (simp add: ld_bytes_def)
    have "overwrite q 0 e = e @ M @ r" using h pe by (simp add: overwrite_def M_def)
    then show "st_bytes q 0 e = Some (e @ m1 @ m2 @ m3 @ m4 @ r)" using h pe by (simp add: st_bytes_def M)
  qed
  let ?c = "outer_header_creation_of (forwarding_parameters_of far)"
  let ?ip = "outer_ip (htons t) 0 (get_ip_address_from_map maps N3_INTERFACE) (ohc_ipv4_address ?c)"
  have s2: "write_outer_ip maps far (e @ m1 @ m2 @ m3 @ m4 @ r) 14 58 = Some (e @ ?ip @ m2 @ m3 @ m4 @ r)"
    using write_outer_ip_mid [OF len(1) ld(3), where a = e and k = 58] pe by simp
  have s3: "write_outer_udp (e @ ?ip @ m2 @ m3 @ m4 @ r) 34 58 = Some (e @ ?ip @ outer_udp (htons t) @ m3 @ m4 @ r)"
    using write_outer_udp_mid [OF len(2) ld(2), where a = "e @ ?ip" and k = 58] pe by simp
  define e' where "e' = mac_bytes (mac_address arp) @ take 8 (drop 6 p)"
  have e': "length e' = 14" using p by (simp add: e'_def)
  have s4: "st_bytes (e @ z) 0 (mac_bytes (mac_address arp)) = Some (e' @ z)" for z
  proof -
    have "drop 6 e = take 8 (drop 6 p)" by (simp add: e_def drop_take)
    then show ?thesis
      using st_bytes_mid0 [of "mac_bytes (mac_address arp)" e "[]" z] pe(2)
      by (simp add: overwrite_def e'_def)
  qed
  have s5: "write_gtpu far (e' @ ?ip @ outer_udp (htons t) @ m3 @ m4 @ r) 42 58
      = Some (e' @ ?ip @ outer_udp (htons t) @ outer_gtpu (htons t) (ohc_teid ?c) @ m4 @ r)"
    using write_gtpu_mid [OF len(3) ld(1), where a = "e' @ ?ip @ outer_udp (htons t)" and k = 58] e' by simp
  have s6: "write_gtpu_ext (e' @ ?ip @ outer_udp (htons t) @ outer_gtpu (htons t) (ohc_teid ?c) @ m4 @ r) 54
      = Some (e' @ ?ip @ outer_udp (htons t) @ outer_gtpu (htons t) (ohc_teid ?c) @ outer_ext @ r)"
    using write_gtpu_ext_mid [OF len(4), where a = "e' @ ?ip @ outer_udp (htons t) @ outer_gtpu (htons t) (ohc_teid ?c)"] e' by simp
  have lq: "length q = 44 + (14 + length r)" using h pe by simp
  show ?thesis
    unfolding create_outer_header_gtpu_ipv4_def
    using q arp len e' pe(2,3) lq
    by (simp add: s1 s2 s3 s4 s5 s6 header_sum [OF K(2)] put_check [OF e'] encapsulated_def Let_def
        ip_check_def ht [symmetric] e'_def [symmetric] r_def [symmetric])
qed


subsection \<open>No access outside the packet\<close>

lemma write_defined:
  "k + 4 \<le> length p \<Longrightarrow> i + 20 \<le> length p \<Longrightarrow> \<exists>q. write_outer_ip maps far p i k = Some q \<and> length q = length p"
  "k + 4 \<le> length p \<Longrightarrow> i + 8 \<le> length p \<Longrightarrow> \<exists>q. write_outer_udp p i k = Some q \<and> length q = length p"
  "k + 4 \<le> length p \<Longrightarrow> i + 12 \<le> length p \<Longrightarrow> \<exists>q. write_gtpu far p i k = Some q \<and> length q = length p"
  "i + 4 \<le> length p \<Longrightarrow> \<exists>q. write_gtpu_ext p i = Some q \<and> length q = length p"
  by (simp_all add: write_outer_ip_def write_outer_udp_def write_gtpu_def write_gtpu_ext_def st_defs)

lemma csum_defined:
  "34 \<le> length p \<Longrightarrow> \<exists>x. pcn_csum_diff K [] 0 (drop 14 p) 20 0 = Some x"
  "34 \<le> length p \<Longrightarrow> \<exists>q. pcn_l3_csum_replace p IP_CSUM_OFFSET 0 x 0 = Some (0, q)"
  by (simp_all add: pcn_csum_diff_def pcn_l3_csum_replace_def BPF_F_HDR_FIELD_MASK_def IP_CSUM_OFFSET_def st_defs)

lemma create_defined: "\<exists>v q. create_outer_header_gtpu_ipv4 K maps far p = Some (v, q)"
proof (cases "bpf_xdp_adjust_head K p (- 44)")
  case (Some q)
  show ?thesis
  proof (cases "78 \<le> length q")
    case True
    then obtain q1 where q1: "ld_bytes q 44 14 = Some (take 14 (drop 44 q))"
        "st_bytes q 0 (take 14 (drop 44 q)) = Some q1" "length q1 = length q"
      by (simp add: ld_bytes_def st_bytes_def)
    obtain q2 where q2: "write_outer_ip maps far q1 14 58 = Some q2" "length q2 = length q"
      using write_defined(1) [of 58 q1 14 maps far] True q1 by auto
    obtain q3 where q3: "write_outer_udp q2 34 58 = Some q3" "length q3 = length q"
      using write_defined(2) [of 58 q2 34] True q2 by auto
    show ?thesis
    proof (cases "m_arp_table maps (get_ip_address_from_map maps N3_INTERFACE)")
      case None
      then show ?thesis using Some True q1 q2 q3 by (simp add: create_outer_header_gtpu_ipv4_def)
    next
      case (Some arp)
      obtain q4 where q4: "st_bytes q3 0 (mac_bytes (mac_address arp)) = Some q4" "length q4 = length q"
        using True q3 by (simp add: st_bytes_def)
      obtain q5 where q5: "write_gtpu far q4 42 58 = Some q5" "length q5 = length q"
        using write_defined(3) [of 58 q4 42 far] True q4 by auto
      obtain q6 where q6: "write_gtpu_ext q5 54 = Some q6" "length q6 = length q"
        using write_defined(4) [of 54 q5] True q5 by auto
      obtain x where x: "pcn_csum_diff K [] 0 (drop 14 q6) 20 0 = Some x"
        using csum_defined(1) True q6 by fastforce
      obtain q7 where "pcn_l3_csum_replace q6 IP_CSUM_OFFSET 0 x 0 = Some (0, q7)"
        using csum_defined(2) True q6 by fastforce
      then show ?thesis
        using Some \<open>bpf_xdp_adjust_head K p (- 44) = Some q\<close> True q1 q2 q3 q4 q5 q6 x
        by (simp add: create_outer_header_gtpu_ipv4_def)
    qed
  next
    case False
    then show ?thesis using Some
      by (cases "58 \<le> length q")
         (simp_all add: create_outer_header_gtpu_ipv4_def Let_def ld_bytes_def st_bytes_def split: option.split)
  qed
qed (simp add: create_outer_header_gtpu_ipv4_def)

lemma apply_defined: "\<exists>r q. pfcp_far_apply K maps far p = Some (r, q)"
proof (cases far)
  case (Some f)
  obtain v q where c: "create_outer_header_gtpu_ipv4 K maps f p = Some (v, q)"
    using create_defined by blast
  show ?thesis
    by (simp add: pfcp_far_apply_def Some c Let_def update_dst_mac_address_def ld_bytes_def st_bytes_def
        split: option.split)
qed (simp add: pfcp_far_apply_def)

lemma far_defined: "\<exists>r q. far_entry_point K maps p = Some (r, q)"
  using apply_defined by (auto simp: far_entry_point_def split: option.split)

subsection \<open>What the outer headers say\<close>

lemma sum16_outer_ip: "sum16 (outer_ip l c s d) = sum16 (outer_ip l 0 s d) + unat c"
proof -
  have "sum16 (bytes16 c @ x) = unat c + sum16 x" for x
    using sum16_append [of "bytes16 c" x] by simp
  moreover have "sum16 (bytes16 0 @ x) = sum16 x" for x
    using sum16_append [of "bytes16 0" x] by simp
  ultimately show ?thesis by (simp add: outer_ip_def)
qed

lemma ip_check_valid:
  assumes "csum_diff_ok K"
  shows "sum16 (outer_ip l (ip_check K (outer_ip l 0 s d)) s d) mod 65535 = 0"
proof -
  let ?S = "sum16 (outer_ip l 0 s d)" and ?x = "bpf_csum_diff K [] (outer_ip l 0 s d) 0"
  have x: "unat ?x mod 65535 = ?S mod 65535"
    using assms unfolding csum_diff_ok_def by simp
  have "unat (ip_check K (outer_ip l 0 s d)) = 65535 - oc 65535 (unat ?x + 65535 * 65537)"
    by (simp add: ip_check_def replace_by_diff_oc)
  then have "(unat (ip_check K (outer_ip l 0 s d)) + (unat ?x + 65535 * 65537)) mod 65535 = 0"
    by (simp only: oc_cancel)
  then have "(unat (ip_check K (outer_ip l 0 s d)) + unat ?x) mod 65535 = 0"
    by (simp only: add.assoc [symmetric] mod_mult_self2)
  then have "(unat (ip_check K (outer_ip l 0 s d)) + ?S) mod 65535 = 0"
    using x mod_add_cong [OF refl x, of "unat (ip_check K (outer_ip l 0 s d))"] by simp
  then show ?thesis
    by (simp only: sum16_outer_ip [of l "ip_check K (outer_ip l 0 s d)"] add.commute)
qed

lemma encapsulated_gpdu:
  assumes "34 \<le> length p" "ethertype p = ETH_P_IP"
  shows "uplink_gpdu (ohc_teid (outer_header_creation_of (forwarding_parameters_of far)))
           (le32 (p ! 26) (p ! 27) (p ! 28) (p ! 29)) (encapsulated K maps far mac p)"
proof -
  obtain a b c d e f where "mac = (a, b, c, d, e, f)" by (metis prod.exhaust)
  then show ?thesis using assms
    by (simp add: uplink_gpdu_def ethertype_def encapsulated_def Let_def nth_append outer_ip_def outer_udp_def
        outer_gtpu_def outer_ext_def bytes32_def bytes16_def htobe32_def ucast_le32 be32_of_def protocol_defs be16_def)
qed

section \<open>Properties\<close>

text \<open>C20: the FAR program handles every packet without an access outside it, whatever its maps hold and
  however the helpers of the kernel move the head of the packet.\<close>

theorem far_safe: "\<exists>r q. far_entry_point K maps p = Some (r, q)"
  by (rule far_defined)

text \<open>C5: towards the access network the program puts the outer Ethernet, IPv4, UDP, GTP-U and extension
  headers in front of the packet and redirects it. The result is a G-PDU in the tunnel of the action,
  as the session lookup of the next node parses it, its outer IP header has a valid checksum, and the
  user packet behind the headers is unchanged.\<close>

theorem far_encapsulates:
  assumes K: "adjust_head_ok K" "csum_diff_ok K" and q: "bpf_xdp_adjust_head K p (- 44) = Some q"
    and far: "act_forw (apply_action_of far)" "destination_interface (forwarding_parameters_of far) = INTERFACE_VALUE_ACCESS"
      "outer_header_creation_description (outer_header_creation_of (forwarding_parameters_of far)) = OUTER_HEADER_CREATION_GTPU_UDP_IPV4"
    and arp: "m_arp_table maps (get_ip_address_from_map maps N3_INTERFACE) = Some arp"
    and p: "34 \<le> length p" "ethertype p = ETH_P_IP"
  shows "\<exists>r. pfcp_far_apply K maps (Some far) p = Some (FRedirect DOWNLINK, r) \<and>
      r = encapsulated K maps far (mac_address arp) p \<and> drop 58 r = drop 14 p \<and>
      uplink_gpdu (ohc_teid (outer_header_creation_of (forwarding_parameters_of far)))
        (le32 (p ! 26) (p ! 27) (p ! 28) (p ! 29)) r \<and>
      sum16 (take 20 (drop 14 r)) mod 65535 = 0"
proof -
  have "create_outer_header_gtpu_ipv4 K maps far p = Some (None, encapsulated K maps far (mac_address arp) p)"
    using create_outer_header_result [OF K(1) _ _ p(1) arp, of q far] K(2) q by (simp add: csum_diff_ok_def)
  moreover have "INTERFACE_VALUE_ACCESS \<noteq> INTERFACE_VALUE_CORE"
    by (simp add: INTERFACE_VALUE_CORE_def INTERFACE_VALUE_ACCESS_def)
  ultimately have "pfcp_far_apply K maps (Some far) p
      = Some (FRedirect DOWNLINK, encapsulated K maps far (mac_address arp) p)"
    using far p by (simp add: pfcp_far_apply_def Let_def)
  moreover have "drop 58 (encapsulated K maps far (mac_address arp) p) = drop 14 p"
    using p by (simp add: encapsulated_def Let_def)
  moreover have "sum16 (take 20 (drop 14 (encapsulated K maps far (mac_address arp) p))) mod 65535 = 0"
    using p ip_check_valid [OF K(2)] by (simp add: encapsulated_def Let_def)
  ultimately show ?thesis
    using encapsulated_gpdu [OF p, of far K maps "mac_address arp"]
    by (intro exI conjI) (assumption | rule refl)+
qed

text \<open>Helpers that do what is documented, and a session towards 10.1.1.2 in tunnel 9.\<close>

definition example_helpers :: bpf_helpers where
  "example_helpers =
     \<lparr>bpf_xdp_adjust_head = (\<lambda>p delta. Some (if delta \<ge> 0 then drop (nat delta) p else replicate (nat (- delta)) 0 @ p)),
      bpf_csum_diff = (\<lambda>from to seed. of_nat (sum16 to mod 65535)), kernel_4_16 = True\<rparr>"

definition example_far :: "u8 \<Rightarrow> pfcp_far" where
  "example_far dest =
     \<lparr>far_id = 1, apply_action_of = \<lparr>act_spare = 0, act_dupl = False, act_nocp = False, act_buff = False,
        act_forw = True, act_drop = False\<rparr>,
      forwarding_parameters_of = \<lparr>destination_interface = dest, outer_header_creation_of =
        \<lparr>outer_header_creation_description = OUTER_HEADER_CREATION_GTPU_UDP_IPV4, ohc_teid = 9,
         ohc_ipv4_address = 0x0201010a, ohc_port_number = 2152\<rparr>\<rparr>\<rparr>"

definition example_far_maps :: far_maps where
  "example_far_maps =
     \<lparr>m_far = [0 \<mapsto> example_far 0],
      m_arp_table = [7 \<mapsto> \<lparr>mac_address = (2, 0, 0, 0, 0, 1), arp_ipv4_address = 0x0201010a\<rparr>,
        8 \<mapsto> \<lparr>mac_address = (2, 0, 0, 0, 0, 2), arp_ipv4_address = 0\<rparr>],
      m_upf_interfaces = [N3_INTERFACE \<mapsto> \<lparr>if_ipv4_address = 7, if_port = 0\<rparr>,
        N6_INTERFACE \<mapsto> \<lparr>if_ipv4_address = 8, if_port = 0\<rparr>]\<rparr>"

lemma example_helpers_ok: "adjust_head_ok example_helpers" "csum_diff_ok example_helpers"
proof -
  show "adjust_head_ok example_helpers"
    by (auto simp: adjust_head_ok_def example_helpers_def)
  have "unat (of_nat (n mod 65535) :: u32) mod 65535 = n mod 65535" for n
  proof -
    have "n mod 65535 < 65535" by simp
    then show ?thesis by (subst unat_u32_of_nat) simp_all
  qed
  then show "csum_diff_ok example_helpers" by (simp add: csum_diff_ok_def example_helpers_def)
qed

theorem far_encapsulates_witness:
  "\<exists>r. pfcp_far_apply example_helpers example_far_maps (Some (example_far 0)) ip_example = Some (FRedirect DOWNLINK, r) \<and>
     r = encapsulated example_helpers example_far_maps (example_far 0) (2, 0, 0, 0, 0, 1) ip_example \<and>
     drop 58 r = drop 14 ip_example \<and>
     uplink_gpdu (ohc_teid (outer_header_creation_of (forwarding_parameters_of (example_far 0))))
       (le32 (ip_example ! 26) (ip_example ! 27) (ip_example ! 28) (ip_example ! 29)) r \<and>
     sum16 (take 20 (drop 14 r)) mod 65535 = 0"
  using far_encapsulates [OF example_helpers_ok, of ip_example "replicate 44 0 @ ip_example" "example_far 0"
      example_far_maps "\<lparr>mac_address = (2, 0, 0, 0, 0, 1), arp_ipv4_address = 0x0201010a\<rparr>"]
  by (simp add: example_helpers_def example_far_def example_far_maps_def get_ip_address_from_map_def
      INTERFACE_VALUE_ACCESS_def ip_example_ipv4)

text \<open>When the outer headers cannot be written the packet is redirected all the same: without any
  header when the kernel does not make room for them, and with the GTP-U header left as it was found
  in memory when there is no hardware address for the N3 interface. The \<open>XDP_DROP\<close> of
  \<open>create_outer_header_gtpu_ipv4\<close> is ignored.\<close>

theorem far_failed_encapsulation_redirected:
  assumes far: "act_forw (apply_action_of far)" "destination_interface (forwarding_parameters_of far) = INTERFACE_VALUE_ACCESS"
      "outer_header_creation_description (outer_header_creation_of (forwarding_parameters_of far)) = OUTER_HEADER_CREATION_GTPU_UDP_IPV4"
    and p: "14 \<le> length p"
    and fail: "bpf_xdp_adjust_head K p (- 44) = None \<or>
      adjust_head_ok K \<and> m_arp_table maps (get_ip_address_from_map maps N3_INTERFACE) = None"
  shows "\<exists>r. create_outer_header_gtpu_ipv4 K maps far p = Some (Some XDP_DROP, r) \<and>
             pfcp_far_apply K maps (Some far) p = Some (FRedirect DOWNLINK, r)"
proof -
  have "INTERFACE_VALUE_ACCESS \<noteq> INTERFACE_VALUE_CORE"
    by (simp add: INTERFACE_VALUE_CORE_def INTERFACE_VALUE_ACCESS_def)
  then have redirected: "pfcp_far_apply K maps (Some far) p = Some (FRedirect DOWNLINK, r)"
    if "create_outer_header_gtpu_ipv4 K maps far p = Some (v, r)" for v r
    using that far p by (simp add: pfcp_far_apply_def Let_def)
  show ?thesis
  proof (cases "bpf_xdp_adjust_head K p (- 44)")
    case None
    then have "create_outer_header_gtpu_ipv4 K maps far p = Some (Some XDP_DROP, p)"
      by (simp add: create_outer_header_gtpu_ipv4_def)
    with redirected None show ?thesis by auto
  next
    case (Some q)
    with fail have arp: "m_arp_table maps (get_ip_address_from_map maps N3_INTERFACE) = None" by simp
    obtain v r where c: "create_outer_header_gtpu_ipv4 K maps far p = Some (v, r)"
      using create_defined by blast
    moreover have "v = Some XDP_DROP"
      using c arp Some
      by (auto simp: create_outer_header_gtpu_ipv4_def Let_def split: if_splits bind_splits)
    ultimately show ?thesis using redirected Some by auto
  qed
qed

lemma far_decapsulation:
  assumes K: "adjust_head_ok K" "\<And>r. length r = length p \<Longrightarrow> bpf_xdp_adjust_head K r 44 \<noteq> None"
    and far: "act_forw (apply_action_of far)" "destination_interface (forwarding_parameters_of far) = INTERFACE_VALUE_CORE"
    and arp: "m_arp_table maps (get_ip_address_from_map maps N6_INTERFACE) = Some arp"
    and p: "58 \<le> length p"
  shows "pfcp_far_apply K maps (Some far) p
    = Some (FRedirect UPLINK, mac_bytes (mac_address arp) @ take 8 (drop 6 p) @ drop 58 p)"
proof -
  define e m r where "e = take 14 p" and "m = take 44 p" and "r = drop 58 p"
  define p1 where "p1 = m @ e @ r"
  have len: "length m = 44" "length e = 14" "length p1 = length p" using p by (simp_all add: e_def m_def p1_def r_def)
  have s1: "ld_bytes p 0 14 = Some e" "st_bytes p 44 e = Some p1"
    using p by (simp_all add: ld_bytes_def st_bytes_def overwrite_def p1_def e_def m_def r_def)
  define p2 where "p2 = m @ overwrite e 0 (mac_bytes (mac_address arp)) @ r"
  have s2: "st_bytes p1 44 (mac_bytes (mac_address arp)) = Some p2"
    using st_bytes_mid0 [of "mac_bytes (mac_address arp)" e m r] len by (simp add: p1_def p2_def)
  have "drop 6 e = take 8 (drop 6 p)" by (simp add: e_def drop_take)
  then have d: "drop 44 p2 = mac_bytes (mac_address arp) @ take 8 (drop 6 p) @ drop 58 p"
    using len by (simp add: p2_def overwrite_def r_def)
  have "length p2 = length p" using len length_st_bytes [OF s2] by simp
  then obtain q where q: "bpf_xdp_adjust_head K p2 44 = Some q" using K(2) by blast
  then have "q = drop 44 p2" using adjust_headD(1) [OF K(1), of p2 44 q] by simp
  with q d show ?thesis
    using far arp p by (simp add: pfcp_far_apply_def Let_def s1 s2 update_dst_mac_address_def)
qed

text \<open>A kernel that has no room in front of the packet.\<close>

theorem far_failed_encapsulation_redirected_witness:
  "\<exists>r. create_outer_header_gtpu_ipv4 (example_helpers\<lparr>bpf_xdp_adjust_head := \<lambda>p delta. None\<rparr>) example_far_maps (example_far 0) ip_example
       = Some (Some XDP_DROP, r) \<and>
     pfcp_far_apply (example_helpers\<lparr>bpf_xdp_adjust_head := \<lambda>p delta. None\<rparr>) example_far_maps (Some (example_far 0)) ip_example
       = Some (FRedirect DOWNLINK, r)"
  by (rule far_failed_encapsulation_redirected)
     (simp_all add: example_far_def ip_example_def INTERFACE_VALUE_ACCESS_def)

text \<open>Towards the data network the tunnel headers are removed: the packet that is redirected is the
  inner one behind an Ethernet header with the hardware address found for the N6 interface as
  destination and the source and type of the frame received.\<close>

theorem far_decapsulates:
  assumes K: "adjust_head_ok K" "\<And>r. length r = length p \<Longrightarrow> bpf_xdp_adjust_head K r 44 \<noteq> None"
    and far: "act_forw (apply_action_of far)" "destination_interface (forwarding_parameters_of far) = INTERFACE_VALUE_CORE"
    and arp: "m_arp_table maps (get_ip_address_from_map maps N6_INTERFACE) = Some arp"
    and p: "58 \<le> length p"
  shows "pfcp_far_apply K maps (Some far) p
    = Some (FRedirect UPLINK, mac_bytes (mac_address arp) @ take 8 (drop 6 p) @ drop 58 p)"
  by (rule far_decapsulation [OF assms])

theorem far_decapsulates_witness:
  "pfcp_far_apply example_helpers example_far_maps (Some (example_far 1)) gpdu_example
    = Some (FRedirect UPLINK, mac_bytes (2, 0, 0, 0, 0, 2) @ take 8 (drop 6 gpdu_example) @ drop 58 gpdu_example)"
  using far_decapsulates [OF example_helpers_ok(1), of gpdu_example "example_far 1" example_far_maps
      "\<lparr>mac_address = (2, 0, 0, 0, 0, 2), arp_ipv4_address = 0\<rparr>"]
  by (simp add: example_helpers_def example_far_def example_far_maps_def get_ip_address_from_map_def
      INTERFACE_VALUE_CORE_def gpdu_example_def)

text \<open>C4: where the kernel makes room for the outer headers of an IPv4 packet (its call with \<open>-44\<close>
  succeeds on that packet) and takes 44 octets off a packet of the length that results, a packet that is
  put into a tunnel by the action of one program, whose forwarding parameters ask for a GTP-U header and
  whose N3 hardware address is known, and taken out by the action of another one comes out with the
  same octets behind its Ethernet header, and the same source address and type in that header. The
  packet in between is longer by the 44 octets.\<close>

theorem tunnel_roundtrip:
  assumes K: "adjust_head_ok K" "csum_diff_ok K"
    and room: "bpf_xdp_adjust_head K p (- 44) = Some h"
    and shrink: "\<And>r. length r = length p + 44 \<Longrightarrow> bpf_xdp_adjust_head K r 44 \<noteq> None"
    and into: "act_forw (apply_action_of far)" "destination_interface (forwarding_parameters_of far) = INTERFACE_VALUE_ACCESS"
      "outer_header_creation_description (outer_header_creation_of (forwarding_parameters_of far)) = OUTER_HEADER_CREATION_GTPU_UDP_IPV4"
      "m_arp_table maps (get_ip_address_from_map maps N3_INTERFACE) = Some arp"
    and out: "act_forw (apply_action_of far')" "destination_interface (forwarding_parameters_of far') = INTERFACE_VALUE_CORE"
      "m_arp_table maps' (get_ip_address_from_map maps' N6_INTERFACE) = Some arp'"
    and p: "34 \<le> length p" "ethertype p = ETH_P_IP"
  shows "\<exists>q. pfcp_far_apply K maps (Some far) p = Some (FRedirect DOWNLINK, q) \<and> length q = length p + 44 \<and>
             pfcp_far_apply K maps' (Some far') q = Some (FRedirect UPLINK, mac_bytes (mac_address arp') @ drop 6 p)"
proof -
  let ?q = "encapsulated K maps far (mac_address arp) p"
  have len: "length ?q = length p + 44" using p by (simp add: encapsulated_def Let_def)
  have "create_outer_header_gtpu_ipv4 K maps far p = Some (None, ?q)"
    using create_outer_header_result [OF K(1) _ _ p(1) into(4), of h far] K(2) room by (simp add: csum_diff_ok_def)
  moreover have "INTERFACE_VALUE_ACCESS \<noteq> INTERFACE_VALUE_CORE"
    by (simp add: INTERFACE_VALUE_CORE_def INTERFACE_VALUE_ACCESS_def)
  ultimately have "pfcp_far_apply K maps (Some far) p = Some (FRedirect DOWNLINK, ?q)"
    using into(1-3) p by (simp add: pfcp_far_apply_def Let_def)
  moreover have "pfcp_far_apply K maps' (Some far') ?q
      = Some (FRedirect UPLINK, mac_bytes (mac_address arp') @ take 8 (drop 6 ?q) @ drop 58 ?q)"
    using len p by (intro far_decapsulation [OF K(1) shrink out]) simp_all
  moreover have "take 8 (drop 6 ?q) @ drop 58 ?q = drop 6 p"
    using p append_take_drop_id [of 8 "drop 6 p"] by (simp add: encapsulated_def Let_def)
  ultimately show ?thesis using len by (intro exI [of _ ?q] conjI) simp_all
qed

theorem tunnel_roundtrip_witness:
  "\<exists>q. pfcp_far_apply example_helpers example_far_maps (Some (example_far 0)) ip_example = Some (FRedirect DOWNLINK, q) \<and>
     length q = length ip_example + 44 \<and>
     pfcp_far_apply example_helpers example_far_maps (Some (example_far 1)) q
       = Some (FRedirect UPLINK, mac_bytes (2, 0, 0, 0, 0, 2) @ drop 6 ip_example)"
  using tunnel_roundtrip [OF example_helpers_ok, of ip_example "replicate 44 0 @ ip_example" "example_far 0" example_far_maps
      "\<lparr>mac_address = (2, 0, 0, 0, 0, 1), arp_ipv4_address = 0x0201010a\<rparr>" "example_far 1" example_far_maps
      "\<lparr>mac_address = (2, 0, 0, 0, 0, 2), arp_ipv4_address = 0\<rparr>"]
  by (simp add: example_helpers_def example_far_def example_far_maps_def get_ip_address_from_map_def
      INTERFACE_VALUE_ACCESS_def INTERFACE_VALUE_CORE_def ip_example_ipv4)

end
