(* ===== verification/Upf_Datapath.thy ===== *)
theory Upf_Datapath
  imports Upf_Control Upf_Far
begin

text \<open>
  The user plane function as a whole: the programs the session lookup calls are FAR programs, each with
  its own maps; a packet goes through the lookup and, when it calls one, through that program, and the
  counters go on from packet to packet.
\<close>

definition datapath ::
  "bpf_helpers \<Rightarrow> far_maps lookup_maps \<Rightarrow> stats \<Rightarrow> mem \<Rightarrow> ((far_result \<times> mem) \<times> stats) option" where
  "datapath K maps s p =
     (case entry_point maps s p of
        None \<Rightarrow> None
      | Some (XReturn a, s') \<Rightarrow> Some ((FReturn a, p), s')
      | Some (XTail far, s') \<Rightarrow> map_option (\<lambda>r. (r, s')) (far_entry_point K far p))"

inductive processes :: "bpf_helpers \<Rightarrow> far_maps lookup_maps \<Rightarrow> stats \<Rightarrow> mem list \<Rightarrow> (far_result \<times> mem) list \<Rightarrow> stats \<Rightarrow> bool"
  for K maps where
  none: "processes K maps s [] [] s"
| packet: "datapath K maps s p = Some (r, s1) \<Longrightarrow> processes K maps s1 ps rs s2
    \<Longrightarrow> processes K maps s (p # ps) (r # rs) s2"

inductive_cases processes_NilE: "processes K maps s [] rs s'"
inductive_cases processes_ConsE: "processes K maps s (p # ps) rs s'"

text \<open>The packets the lookup program answers itself; it counts them, unless they are too short for a frame.\<close>

definition counted :: "'p lookup_maps \<Rightarrow> mem \<Rightarrow> bool" where
  "counted maps p \<longleftrightarrow> 14 \<le> length p \<and> (\<exists>a. eth_handle maps p 0 = Some (XReturn a))"

lemma datapath_defined: "\<exists>r s'. datapath K maps s p = Some (r, s')"
proof (cases "14 \<le> length p")
  case True
  then obtain r where r: "eth_handle maps p 0 = Some r" using eth_defined by blast
  show ?thesis
  proof (cases r)
    case (XReturn a)
    then show ?thesis using True r
      by (auto simp: datapath_def entry_point_def record_result_def split: prod.split)
  next
    case (XTail far)
    obtain x y where "far_entry_point K far p = Some (x, y)"
      using far_defined by blast
    then show ?thesis using True r XTail
      by (auto simp: datapath_def entry_point_def record_result_def)
  qed
qed (auto simp: datapath_def entry_point_def)

lemma datapath_counts:
  assumes "stats_ok s" "datapath K maps s p = Some (r, s')"
  shows "stats_ok s' \<and>
    total_packets s' = total_packets s + (if counted maps p then 1 else 0) \<and>
    total_bytes s' = total_bytes s + (if counted maps p then of_nat (length p) else 0)"
proof (cases "14 \<le> length p")
  case True
  then obtain x where x: "eth_handle maps p 0 = Some x" using eth_defined by blast
  show ?thesis
  proof (cases x)
    case (XReturn a)
    obtain a' t where t: "xdp_stats_record_action s p a = (a', t)" by fastforce
    have "a < XDP_ACTION_MAX" using eth_action [of maps p 0 a] x XReturn by auto
    moreover have "s' = t"
      using assms(2) True x XReturn t by (simp add: datapath_def entry_point_def record_result_def)
    ultimately show ?thesis
      using record_action_counts [OF assms(1) _ t] True x XReturn by (simp add: counted_def)
  next
    case (XTail far)
    then have "s' = s" using assms(2) True x by (auto simp: datapath_def entry_point_def record_result_def)
    then show ?thesis using assms(1) x XTail by (simp add: counted_def)
  qed
next
  case False
  then show ?thesis using assms by (auto simp: datapath_def entry_point_def counted_def)
qed

section \<open>Properties\<close>

text \<open>C17: for every sequence of packets there is exactly one run of the datapath, with one answer for
  each packet, and in it the packet counters add up to the frames the lookup program answered itself and the octet counters to
  their lengths, modulo \<open>2 ^ 64\<close>; a packet handed to a FAR program is in no counter.\<close>

theorem counters_invariant:
  assumes "stats_ok s"
  shows "\<exists>rs s'. {run. processes K maps s ps (fst run) (snd run)} = {(rs, s')} \<and>
       length rs = length ps \<and> stats_ok s' \<and>
       total_packets s' = total_packets s + of_nat (length (filter (counted maps) ps)) \<and>
       total_bytes s' = total_bytes s + of_nat (\<Sum>p \<leftarrow> filter (counted maps) ps. length p)"
  using assms
proof (induction ps arbitrary: s)
  case Nil
  have "{run. processes K maps s [] (fst run) (snd run)} = {([], s)}"
    by (auto intro: processes.none elim: processes_NilE)
  with Nil show ?case by (intro exI [of _ "[]"] exI [of _ s]) simp
next
  case (Cons p ps)
  obtain r s1 where step: "datapath K maps s p = Some (r, s1)" using datapath_defined by blast
  note c = datapath_counts [OF Cons.prems step]
  obtain rs s' where IH: "{run. processes K maps s1 ps (fst run) (snd run)} = {(rs, s')}"
    and run: "length rs = length ps" "stats_ok s'"
      "total_packets s' = total_packets s1 + of_nat (length (filter (counted maps) ps))"
      "total_bytes s' = total_bytes s1 + of_nat (\<Sum>p \<leftarrow> filter (counted maps) ps. length p)"
    using Cons.IH [OF conjunct1 [OF c]] by blast
  from IH have unique: "processes K maps s1 ps xs t \<longleftrightarrow> xs = rs \<and> t = s'" for xs t
    by (auto simp: set_eq_iff)
  have "processes K maps s (p # ps) xs t \<longleftrightarrow> xs = r # rs \<and> t = s'" for xs t
    using step unique by (auto intro: processes.packet elim!: processes_ConsE)
  then have "{run. processes K maps s (p # ps) (fst run) (snd run)} = {(r # rs, s')}"
    by auto
  with run c show ?case by (intro exI [of _ "r # rs"] exI [of _ s']) simp
qed

definition empty_maps :: "far_maps lookup_maps" where
  "empty_maps = \<lparr>m_session_mapping = Map.empty, m_next_rule_prog_index = Map.empty, m_next_rule_prog = Map.empty\<rparr>"

theorem counters_invariant_witness:
  "\<exists>rs s'. {run. processes example_helpers empty_maps zero_stats [gpdu_example, [1, 2]] (fst run) (snd run)} = {(rs, s')} \<and>
      length rs = length [gpdu_example, [1, 2]] \<and> stats_ok s' \<and>
      total_packets s' = total_packets zero_stats + of_nat (length (filter (counted empty_maps) [gpdu_example, [1, 2]])) \<and>
      total_bytes s' = total_bytes zero_stats + of_nat (\<Sum>p \<leftarrow> filter (counted empty_maps) [gpdu_example, [1, 2]]. length p)"
  by (rule counters_invariant) simp

text \<open>C3: end to end. When the control side has created the pipeline of an uplink tunnel with an action
  towards the data network, a G-PDU of the tunnel from the address of the user equipment leaves the
  datapath on the uplink interface as the user packet in a frame to the hardware address of the next
  hop, and no counter changes.\<close>

theorem uplink_end_to_end:
  assumes c: "c' = createPipeline seid teid INTERFACE_VALUE_ACCESS ue md ident prog c"
    and K: "adjust_head_ok K" "\<And>r. length r = length p \<Longrightarrow> bpf_xdp_adjust_head K r 44 \<noteq> None"
    and far: "m_far prog 0 = Some far" "act_forw (apply_action_of far)"
      "destination_interface (forwarding_parameters_of far) = INTERFACE_VALUE_CORE"
    and arp: "m_arp_table prog (get_ip_address_from_map prog N6_INTERFACE) = Some arp"
    and p: "uplink_gpdu teid ue p"
  shows "datapath K (ctl_maps c') s p
    = Some ((FRedirect UPLINK, mac_bytes (mac_address arp) @ take 8 (drop 6 p) @ drop 58 p), s)"
proof -
  have "entry_point (ctl_maps c') s p = Some (XTail prog, s)"
    by (rule dispatch [OF _ _ p, of _ ident]) (simp_all add: c store_index)
  moreover have "58 \<le> length p" using p by (simp add: uplink_gpdu_def)
  ultimately show ?thesis
    using far_decapsulation [OF K far(2,3) arp] far(1) by (simp add: datapath_def far_entry_point_def)
qed

theorem uplink_end_to_end_witness:
  "datapath example_helpers (ctl_maps (createPipeline 1 9 INTERFACE_VALUE_ACCESS 0x0201010c False 2
       (example_far_maps\<lparr>m_far := [0 \<mapsto> example_far 1]\<rparr>) initial_control)) zero_stats gpdu_example
   = Some ((FRedirect UPLINK, mac_bytes (2, 0, 0, 0, 0, 2) @ take 8 (drop 6 gpdu_example) @ drop 58 gpdu_example), zero_stats)"
  using uplink_end_to_end [OF refl example_helpers_ok(1), of gpdu_example "example_far_maps\<lparr>m_far := [0 \<mapsto> example_far 1]\<rparr>"
      "example_far 1" "\<lparr>mac_address = (2, 0, 0, 0, 0, 2), arp_ipv4_address = 0\<rparr>" 9 "0x0201010c" 1 False 2 initial_control zero_stats]
    gpdu_example_gpdu
  by (simp add: example_helpers_def example_far_def example_far_maps_def get_ip_address_from_map_def
      INTERFACE_VALUE_CORE_def)

end
