(* ===== verification/Sec_Gf2.thy ===== *)
theory Sec_Gf2
  imports Prelude
begin

text \<open>
  Arithmetic modulo two on words, for the security algorithms: exclusive or of a finite family, maps
  that respect exclusive or (\<open>xor_linear\<close>), and multiplication by the unknown of a polynomial ring
  (\<open>times_x\<close>), which both \<open>MULx\<close> of \<open>snow3g.c\<close> and \<open>MUL64x\<close> of \<open>nas_stream_nia1.c\<close> are. The product
  that is built from it by shift and add is shown to be commutative and associative once, here.
\<close>

subsection \<open>Exclusive or\<close>

lemma xor_left_cancel [simp]: "(a XOR b = a XOR c) = (b = (c :: 'a :: len word))"
  by (metis xor.left_commute xor_self_eq xor.right_neutral xor.commute)

lemma xor_right_cancel [simp]: "(b XOR a = c XOR a) = (b = (c :: 'a :: len word))"
  by (simp add: xor.commute [of _ a])

lemma xor_eq_self [simp]: "(a = a XOR b) = (b = (0 :: 'a :: len word))"
  using xor_left_cancel [of a 0 b] by auto

lemma xor_xor_same [simp]: "a XOR (a XOR b) = (b :: 'a :: len word)"
  by (metis xor.assoc xor_self_eq xor.left_neutral)

primrec xor_upto :: "(nat \<Rightarrow> 'a :: len word) \<Rightarrow> nat \<Rightarrow> 'a word" where
  "xor_upto f 0 = 0"
| "xor_upto f (Suc n) = xor_upto f n XOR f n"

lemma xor_upto_cong: "(\<And>i. i < n \<Longrightarrow> f i = g i) \<Longrightarrow> xor_upto f n = xor_upto g n"
  by (induction n) auto

lemma xor_upto_zero [simp]: "xor_upto (\<lambda>i. 0) n = 0"
  by (induction n) auto

lemma xor_upto_xor: "xor_upto (\<lambda>i. f i XOR g i) n = xor_upto f n XOR xor_upto g n"
  by (induction n) (auto simp: ac_simps)

lemma xor_upto_swap:
  "xor_upto (\<lambda>i. xor_upto (\<lambda>j. f i j) m) n = xor_upto (\<lambda>j. xor_upto (\<lambda>i. f i j) n) m"
  by (induction n) (simp_all add: xor_upto_xor)

lemma bit_xor_upto_powers:
  "bit (xor_upto (\<lambda>i. if bit w i then 2 ^ i else 0 :: 'a word) n) k = (k < n \<and> bit (w :: 'a :: len word) k)"
proof (induction n)
  case (Suc n)
  have "bit (if bit w n then 2 ^ n else 0 :: 'a word) k = (k = n \<and> bit w k)"
    using bit_imp_le_length [of w n] by (auto simp: bit_exp_iff)
  then show ?case by (auto simp add: bit_xor_iff Suc.IH less_Suc_eq simp del: if_split)
qed simp

text \<open>A word is the sum of its bits.\<close>

lemma word_as_powers: "xor_upto (\<lambda>i. if bit w i then 2 ^ i else 0) LENGTH('a) = (w :: 'a :: len word)"
  by (rule bit_word_eqI) (simp add: bit_xor_upto_powers)

lemma fold_xor_upto:
  "fold (\<lambda>i r. if P i then r XOR f i else r) [0..<n] r = r XOR xor_upto (\<lambda>i. if P i then f i else (0 :: 'a :: len word)) n"
  by (induction n) (auto simp: ac_simps)

subsection \<open>Maps that respect exclusive or\<close>

locale xor_linear =
  fixes f :: "'a :: len word \<Rightarrow> 'b :: len word"
  assumes lin: "f (a XOR b) = f a XOR f b"
begin

lemma zero: "f 0 = 0"
  using lin [of 0 0] by simp

lemma upto: "f (xor_upto g n) = xor_upto (\<lambda>i. f (g i)) n"
  by (induction n) (simp_all add: zero lin)

lemma cond: "f (if b then v else 0) = (if b then f v else 0)"
  by (simp add: zero)

text \<open>Such a map is known from its values at the powers of two.\<close>

lemma powers: "f w = xor_upto (\<lambda>i. if bit w i then f (2 ^ i) else 0) LENGTH('a)"
  by (subst word_as_powers [of w, symmetric]) (simp add: upto zero if_distrib cong: if_cong)

end

lemma xor_linear_eqI:
  assumes "xor_linear f" "xor_linear g" and "\<And>i. i < LENGTH('a) \<Longrightarrow> f (2 ^ i) = g (2 ^ i)"
  shows "f (w :: 'a :: len word) = g w"
  by (subst xor_linear.powers [OF assms(1)], subst xor_linear.powers [OF assms(2)])
     (auto intro!: xor_upto_cong simp: assms(3))

lemma xor_linear_funpow: "xor_linear (f :: 'a :: len word \<Rightarrow> 'a word) \<Longrightarrow> xor_linear (f ^^ n)"
  by (induction n) (auto simp: xor_linear_def)

subsection \<open>Multiplication by the unknown\<close>

text \<open>The product by shift and add, for a multiplication \<open>x\<close> by the unknown.\<close>

definition times_by :: "('a :: len word \<Rightarrow> 'a word) \<Rightarrow> 'a word \<Rightarrow> 'a word \<Rightarrow> 'a word" where
  "times_by x v p = xor_upto (\<lambda>i. if bit p i then (x ^^ i) v else 0) LENGTH('a)"

locale times_x = xor_linear x
  for x :: "'a :: len word \<Rightarrow> 'a word" +
  assumes shift: "Suc i < LENGTH('a) \<Longrightarrow> x (2 ^ i) = 2 ^ Suc i"
begin

lemma pow_lin: "xor_linear (x ^^ n)"
  by (rule xor_linear_funpow) (rule xor_linear_axioms)

lemma pow_one: "i < LENGTH('a) \<Longrightarrow> (x ^^ i) 1 = 2 ^ i"
  by (induction i) (simp_all add: shift)

lemma pow_comm: "(x ^^ i) ((x ^^ j) v) = (x ^^ j) ((x ^^ i) v)"
  by (metis add.commute funpow_add comp_apply)

lemma times_linear: "xor_linear (\<lambda>v. times_by x v p)"
  by (rule xor_linear.intro)
     (auto simp: times_by_def xor_upto_xor [symmetric] xor_linear.lin [OF pow_lin] intro!: xor_upto_cong)

text \<open>A word is its own multiple of 1, and two products can be taken in either order.\<close>

lemma times_one_left: "times_by x 1 p = p"
  unfolding times_by_def
  by (rule trans [OF xor_upto_cong word_as_powers]) (simp add: pow_one)

lemma times_pow: "times_by x ((x ^^ j) v) p = (x ^^ j) (times_by x v p)"
  unfolding times_by_def xor_linear.upto [OF pow_lin]
  by (rule xor_upto_cong) (simp add: pow_comm xor_linear.zero [OF pow_lin])

lemma times_times: "times_by x (times_by x v p) q = times_by x (times_by x v q) p"
proof -
  have "times_by x (times_by x v p) q
      = xor_upto (\<lambda>i. if bit p i then times_by x ((x ^^ i) v) q else 0) LENGTH('a)"
    unfolding times_by_def [of x v p] by (simp add: xor_linear.upto [OF times_linear] xor_linear.cond [OF times_linear])
  also have "\<dots> = times_by x (times_by x v q) p"
    unfolding times_by_def [of x "times_by x v q" p] by (simp add: times_pow cong: if_cong)
  finally show ?thesis .
qed

lemma times_commute: "times_by x v p = times_by x p v"
  using times_times [of 1 v p] by (simp add: times_one_left)

lemma times_assoc: "times_by x (times_by x u v) p = times_by x u (times_by x v p)"
  by (metis times_times times_commute)

lemma times_xor_left: "times_by x (a XOR b) p = times_by x a p XOR times_by x b p"
  by (rule xor_linear.lin [OF times_linear])

lemma times_xor_right: "times_by x p (a XOR b) = times_by x p a XOR times_by x p b"
  by (simp add: times_commute [of p] times_xor_left)

lemma times_zero: "times_by x 0 p = 0" "times_by x p 0 = 0"
  using xor_linear.zero [OF times_linear] by (simp_all add: times_commute [of p 0])

end

text \<open>Shift left by one and subtract the modulus when a bit falls out.\<close>

definition shift_xor :: "'a :: len word \<Rightarrow> 'a word \<Rightarrow> 'a word" where
  "shift_xor c v = push_bit 1 v XOR (if bit v (LENGTH('a) - 1) then c else 0)"

lemma times_x_shift_xor: "times_x (shift_xor (c :: 'a :: len word))"
proof
  show "shift_xor c (a XOR b) = shift_xor c a XOR shift_xor c b" for a b
    by (auto simp: shift_xor_def bit_xor_iff push_bit_xor ac_simps)
next
  fix i assume "Suc i < LENGTH('a)"
  then show "shift_xor c (2 ^ i) = 2 ^ Suc i"
    by (auto simp: shift_xor_def bit_exp_iff)
qed

end
