(* ===== verification/Sec_Snow3g_Box.thy ===== *)
theory Sec_Snow3g_Box
  imports Sec_Gf2 Byte_Order
begin

text \<open>
  The tables and boxes of SNOW 3G: \<open>rijndael.c\<close> and the first half of \<open>snow3g.c\<close> of
  \<open>src/component/oai-smf/src/nas/security\<close>. The two boxes are shown to be one to one and the
  multiplications by \<open>alpha\<close> and by its inverse to be inverse to each other, which is what the
  generator needs to lose no state.
\<close>

subsection \<open>Tables\<close>

definition SR :: "u8 list" where
  "SR = [
     0x63, 0x7C, 0x77, 0x7B, 0xF2, 0x6B, 0x6F, 0xC5, 0x30, 0x01, 0x67, 0x2B, 0xFE, 0xD7, 0xAB, 0x76,
     0xCA, 0x82, 0xC9, 0x7D, 0xFA, 0x59, 0x47, 0xF0, 0xAD, 0xD4, 0xA2, 0xAF, 0x9C, 0xA4, 0x72, 0xC0,
     0xB7, 0xFD, 0x93, 0x26, 0x36, 0x3F, 0xF7, 0xCC, 0x34, 0xA5, 0xE5, 0xF1, 0x71, 0xD8, 0x31, 0x15,
     0x04, 0xC7, 0x23, 0xC3, 0x18, 0x96, 0x05, 0x9A, 0x07, 0x12, 0x80, 0xE2, 0xEB, 0x27, 0xB2, 0x75,
     0x09, 0x83, 0x2C, 0x1A, 0x1B, 0x6E, 0x5A, 0xA0, 0x52, 0x3B, 0xD6, 0xB3, 0x29, 0xE3, 0x2F, 0x84,
     0x53, 0xD1, 0x00, 0xED, 0x20, 0xFC, 0xB1, 0x5B, 0x6A, 0xCB, 0xBE, 0x39, 0x4A, 0x4C, 0x58, 0xCF,
     0xD0, 0xEF, 0xAA, 0xFB, 0x43, 0x4D, 0x33, 0x85, 0x45, 0xF9, 0x02, 0x7F, 0x50, 0x3C, 0x9F, 0xA8,
     0x51, 0xA3, 0x40, 0x8F, 0x92, 0x9D, 0x38, 0xF5, 0xBC, 0xB6, 0xDA, 0x21, 0x10, 0xFF, 0xF3, 0xD2,
     0xCD, 0x0C, 0x13, 0xEC, 0x5F, 0x97, 0x44, 0x17, 0xC4, 0xA7, 0x7E, 0x3D, 0x64, 0x5D, 0x19, 0x73,
     0x60, 0x81, 0x4F, 0xDC, 0x22, 0x2A, 0x90, 0x88, 0x46, 0xEE, 0xB8, 0x14, 0xDE, 0x5E, 0x0B, 0xDB,
     0xE0, 0x32, 0x3A, 0x0A, 0x49, 0x06, 0x24, 0x5C, 0xC2, 0xD3, 0xAC, 0x62, 0x91, 0x95, 0xE4, 0x79,
     0xE7, 0xC8, 0x37, 0x6D, 0x8D, 0xD5, 0x4E, 0xA9, 0x6C, 0x56, 0xF4, 0xEA, 0x65, 0x7A, 0xAE, 0x08,
     0xBA, 0x78, 0x25, 0x2E, 0x1C, 0xA6, 0xB4, 0xC6, 0xE8, 0xDD, 0x74, 0x1F, 0x4B, 0xBD, 0x8B, 0x8A,
     0x70, 0x3E, 0xB5, 0x66, 0x48, 0x03, 0xF6, 0x0E, 0x61, 0x35, 0x57, 0xB9, 0x86, 0xC1, 0x1D, 0x9E,
     0xE1, 0xF8, 0x98, 0x11, 0x69, 0xD9, 0x8E, 0x94, 0x9B, 0x1E, 0x87, 0xE9, 0xCE, 0x55, 0x28, 0xDF,
     0x8C, 0xA1, 0x89, 0x0D, 0xBF, 0xE6, 0x42, 0x68, 0x41, 0x99, 0x2D, 0x0F, 0xB0, 0x54, 0xBB, 0x16]"

definition SQ :: "u8 list" where
  "SQ = [
     0x25, 0x24, 0x73, 0x67, 0xD7, 0xAE, 0x5C, 0x30, 0xA4, 0xEE, 0x6E, 0xCB, 0x7D, 0xB5, 0x82, 0xDB,
     0xE4, 0x8E, 0x48, 0x49, 0x4F, 0x5D, 0x6A, 0x78, 0x70, 0x88, 0xE8, 0x5F, 0x5E, 0x84, 0x65, 0xE2,
     0xD8, 0xE9, 0xCC, 0xED, 0x40, 0x2F, 0x11, 0x28, 0x57, 0xD2, 0xAC, 0xE3, 0x4A, 0x15, 0x1B, 0xB9,
     0xB2, 0x80, 0x85, 0xA6, 0x2E, 0x02, 0x47, 0x29, 0x07, 0x4B, 0x0E, 0xC1, 0x51, 0xAA, 0x89, 0xD4,
     0xCA, 0x01, 0x46, 0xB3, 0xEF, 0xDD, 0x44, 0x7B, 0xC2, 0x7F, 0xBE, 0xC3, 0x9F, 0x20, 0x4C, 0x64,
     0x83, 0xA2, 0x68, 0x42, 0x13, 0xB4, 0x41, 0xCD, 0xBA, 0xC6, 0xBB, 0x6D, 0x4D, 0x71, 0x21, 0xF4,
     0x8D, 0xB0, 0xE5, 0x93, 0xFE, 0x8F, 0xE6, 0xCF, 0x43, 0x45, 0x31, 0x22, 0x37, 0x36, 0x96, 0xFA,
     0xBC, 0x0F, 0x08, 0x52, 0x1D, 0x55, 0x1A, 0xC5, 0x4E, 0x23, 0x69, 0x7A, 0x92, 0xFF, 0x5B, 0x5A,
     0xEB, 0x9A, 0x1C, 0xA9, 0xD1, 0x7E, 0x0D, 0xFC, 0x50, 0x8A, 0xB6, 0x62, 0xF5, 0x0A, 0xF8, 0xDC,
     0x03, 0x3C, 0x0C, 0x39, 0xF1, 0xB8, 0xF3, 0x3D, 0xF2, 0xD5, 0x97, 0x66, 0x81, 0x32, 0xA0, 0x00,
     0x06, 0xCE, 0xF6, 0xEA, 0xB7, 0x17, 0xF7, 0x8C, 0x79, 0xD6, 0xA7, 0xBF, 0x8B, 0x3F, 0x1F, 0x53,
     0x63, 0x75, 0x35, 0x2C, 0x60, 0xFD, 0x27, 0xD3, 0x94, 0xA5, 0x7C, 0xA1, 0x05, 0x58, 0x2D, 0xBD,
     0xD9, 0xC7, 0xAF, 0x6B, 0x54, 0x0B, 0xE0, 0x38, 0x04, 0xC8, 0x9D, 0xE7, 0x14, 0xB1, 0x87, 0x9C,
     0xDF, 0x6F, 0xF9, 0xDA, 0x2A, 0xC4, 0x59, 0x16, 0x74, 0x91, 0xAB, 0x26, 0x61, 0x76, 0x34, 0x2B,
     0xAD, 0x99, 0xFB, 0x72, 0xEC, 0x33, 0x12, 0xDE, 0x98, 0x3B, 0xC0, 0x9B, 0x3E, 0x18, 0x10, 0x3A,
     0x56, 0xE1, 0x77, 0xC9, 0x1E, 0x9E, 0x95, 0xA3, 0x90, 0x19, 0xA8, 0x6C, 0x09, 0xD0, 0xF0, 0x86]"

subsection \<open>Multiplication of octets\<close>

definition MULx :: "u8 \<Rightarrow> u8 \<Rightarrow> u8" where
  "MULx V c = (if V AND 0x80 \<noteq> 0 then push_bit 1 V XOR c else push_bit 1 V)"

function MULxPOW :: "u8 \<Rightarrow> u8 \<Rightarrow> u8 \<Rightarrow> u8" where
  "MULxPOW V i c = (if i = 0 then V else MULx (MULxPOW V (i - 1) c) c)"
  by auto
termination by (relation "measure (\<lambda>(V, i, c). unat i)") (auto simp: unat_minus_one unat_gt_0)

declare MULxPOW.simps [simp del]

definition MULalpha :: "u8 \<Rightarrow> u32" where
  "MULalpha c = push_bit 24 (ucast (MULxPOW c 23 0xa9)) OR push_bit 16 (ucast (MULxPOW c 245 0xa9)) OR
     push_bit 8 (ucast (MULxPOW c 48 0xa9)) OR ucast (MULxPOW c 239 0xa9)"

definition DIValpha :: "u8 \<Rightarrow> u32" where
  "DIValpha c = push_bit 24 (ucast (MULxPOW c 16 0xa9)) OR push_bit 16 (ucast (MULxPOW c 39 0xa9)) OR
     push_bit 8 (ucast (MULxPOW c 6 0xa9)) OR ucast (MULxPOW c 64 0xa9)"

subsection \<open>The boxes\<close>

definition S1 :: "u32 \<Rightarrow> u32" where
  "S1 w = (let
     srw0 = SR ! unat (ucast (drop_bit 24 w AND 0xff) :: u8);
     srw1 = SR ! unat (ucast (drop_bit 16 w AND 0xff) :: u8);
     srw2 = SR ! unat (ucast (drop_bit 8 w AND 0xff) :: u8);
     srw3 = SR ! unat (ucast (w AND 0xff) :: u8);
     r0 = MULx srw0 0x1b XOR srw1 XOR srw2 XOR (MULx srw3 0x1b XOR srw3);
     r1 = (MULx srw0 0x1b XOR srw0) XOR MULx srw1 0x1b XOR srw2 XOR srw3;
     r2 = srw0 XOR (MULx srw1 0x1b XOR srw1) XOR MULx srw2 0x1b XOR srw3;
     r3 = srw0 XOR srw1 XOR (MULx srw2 0x1b XOR srw2) XOR MULx srw3 0x1b
   in push_bit 24 (ucast r0) OR push_bit 16 (ucast r1) OR push_bit 8 (ucast r2) OR ucast r3)"

definition S2 :: "u32 \<Rightarrow> u32" where
  "S2 w = (let
     sqw0 = SQ ! unat (ucast (drop_bit 24 w AND 0xff) :: u8);
     sqw1 = SQ ! unat (ucast (drop_bit 16 w AND 0xff) :: u8);
     sqw2 = SQ ! unat (ucast (drop_bit 8 w AND 0xff) :: u8);
     sqw3 = SQ ! unat (ucast (w AND 0xff) :: u8);
     r0 = MULx sqw0 0x69 XOR sqw1 XOR sqw2 XOR (MULx sqw3 0x69 XOR sqw3);
     r1 = (MULx sqw0 0x69 XOR sqw0) XOR MULx sqw1 0x69 XOR sqw2 XOR sqw3;
     r2 = sqw0 XOR (MULx sqw1 0x69 XOR sqw1) XOR MULx sqw2 0x69 XOR sqw3;
     r3 = sqw0 XOR sqw1 XOR (MULx sqw2 0x69 XOR sqw2) XOR MULx sqw3 0x69
   in push_bit 24 (ucast r0) OR push_bit 16 (ucast r1) OR push_bit 8 (ucast r2) OR ucast r3)"

subsection \<open>The tables are permutations\<close>

text \<open>A list without duplicates, decided by splitting it along the bits of its elements.\<close>

primrec radix_distinct :: "nat \<Rightarrow> u8 list \<Rightarrow> bool" where
  "radix_distinct 0 xs = (length xs \<le> 1)"
| "radix_distinct (Suc n) xs = (radix_distinct n (filter (\<lambda>x. bit x n) xs) \<and> radix_distinct n (filter (\<lambda>x. \<not> bit x n) xs))"

lemma distinct_filters: "distinct (filter P xs) \<Longrightarrow> distinct (filter (\<lambda>x. \<not> P x) xs) \<Longrightarrow> distinct xs"
  by (induction xs) (auto split: if_splits)

lemma radix_distinct: "radix_distinct n xs \<Longrightarrow> distinct xs"
  by (induction n arbitrary: xs) (auto simp: le_Suc_eq length_Suc_conv intro: distinct_filters)

lemma length_tables [simp]: "length SR = 256" "length SQ = 256"
  by (simp_all add: SR_def SQ_def)

lemma distinct_SR: "distinct SR"
  by (rule radix_distinct [of 8]) code_simp

lemma distinct_SQ: "distinct SQ"
  by (rule radix_distinct [of 8]) code_simp

lemma table_inject: "distinct T \<Longrightarrow> length T = 256 \<Longrightarrow> (T ! unat (x :: u8) = T ! unat y) = (x = y)"
  by (simp add: nth_eq_iff_index_eq unat_u8_less) (metis unsigned_word_eqI)

lemmas SR_inject [simp] = table_inject [OF distinct_SR length_tables(1)]
lemmas SQ_inject [simp] = table_inject [OF distinct_SQ length_tables(2)]

subsection \<open>The boxes are one to one\<close>

lemma MULx_shift_xor: "MULx V c = shift_xor c V"
proof -
  have "(V AND 0x80 \<noteq> 0) = bit V 7" by (simp add: bit_iff_and_push_bit_not_eq_0)
  then show ?thesis by (simp add: MULx_def shift_xor_def)
qed

lemma times_x_MULx: "times_x (\<lambda>V. MULx V c)"
  using times_x_shift_xor [of c] by (simp add: MULx_shift_xor [abs_def])

interpretation mulx: times_x "\<lambda>V. MULx V c" for c :: u8
  by (rule times_x_MULx)

text \<open>The mixing of four octets in the boxes, for a multiplication \<open>x\<close>.\<close>

definition mix :: "(u8 \<Rightarrow> u8) \<Rightarrow> u8 \<times> u8 \<times> u8 \<times> u8 \<Rightarrow> u8 \<times> u8 \<times> u8 \<times> u8" where
  "mix x = (\<lambda>(a, b, c, d).
     (x a XOR b XOR c XOR (x d XOR d), (x a XOR a) XOR x b XOR c XOR d,
      a XOR (x b XOR b) XOR x c XOR d, a XOR b XOR (x c XOR c) XOR x d))"

lemma mix_twice:
  assumes "xor_linear x"
  shows "mix x (mix x (a, b, c, d))
    = (x (x a) XOR a XOR x (x c), x (x b) XOR b XOR x (x d), x (x c) XOR c XOR x (x a), x (x d) XOR d XOR x (x b))"
  by (simp add: mix_def xor_linear.lin [OF assms] ac_simps)

lemma mix_four_times:
  assumes "xor_linear x"
  shows "mix x (mix x (mix x (mix x v))) = v"
proof -
  obtain a b c d where "v = (a, b, c, d)" by (cases v)
  then show ?thesis
    unfolding mix_twice [OF assms] by (simp add: mix_twice [OF assms] xor_linear.lin [OF assms] ac_simps)
qed

lemma mix_inject: "xor_linear x \<Longrightarrow> (mix x v = mix x w) = (v = w)"
  by (metis mix_four_times)

definition be32_tuple :: "u8 \<times> u8 \<times> u8 \<times> u8 \<Rightarrow> u32" where
  "be32_tuple = (\<lambda>(a, b, c, d). be32_of a b c d)"

lemma be32_tuple_inject [simp]: "(be32_tuple v = be32_tuple w) = (v = w)"
  by (cases v; cases w) (simp add: be32_tuple_def)

lemma S1_mix:
  "S1 (be32_of a b c d) = be32_tuple (mix (\<lambda>V. MULx V 0x1b) (SR ! unat a, SR ! unat b, SR ! unat c, SR ! unat d))"
  by (simp add: S1_def Let_def be32_or be32_tuple_def mix_def ucast_be32)

lemma S2_mix:
  "S2 (be32_of a b c d) = be32_tuple (mix (\<lambda>V. MULx V 0x69) (SQ ! unat a, SQ ! unat b, SQ ! unat c, SQ ! unat d))"
  by (simp add: S2_def Let_def be32_or be32_tuple_def mix_def ucast_be32)

lemma S1_inject [simp]: "(S1 v = S1 w) = (v = w)"
proof -
  obtain a b c d a' b' c' d' where "v = be32_of a b c d" "w = be32_of a' b' c' d'" by (metis be32_cases)
  then show ?thesis by (simp add: S1_mix mix_inject mulx.xor_linear_axioms)
qed

lemma S2_inject [simp]: "(S2 v = S2 w) = (v = w)"
proof -
  obtain a b c d a' b' c' d' where "v = be32_of a b c d" "w = be32_of a' b' c' d'" by (metis be32_cases)
  then show ?thesis by (simp add: S2_mix mix_inject mulx.xor_linear_axioms)
qed

subsection \<open>Multiplication and division by \<open>alpha\<close>\<close>

lemma MULxPOW_funpow: "MULxPOW V i c = ((\<lambda>V. MULx V c) ^^ unat i) V"
proof (induction V i c rule: MULxPOW.induct)
  case (1 V i c)
  show ?case
  proof (cases "i = 0")
    case False
    then have "unat i = Suc (unat (i - 1))" by (simp add: unat_minus_one unat_gt_0)
    with False 1 show ?thesis by (subst MULxPOW.simps) simp
  qed (simp add: MULxPOW.simps)
qed

text \<open>The unknown has order 255 modulo the polynomial of \<open>alpha\<close>.\<close>

definition alpha_powers :: "u8 list" where
  "alpha_powers = [
     0x01, 0x02, 0x04, 0x08, 0x10, 0x20, 0x40, 0x80, 0xA9, 0xFB, 0x5F, 0xBE, 0xD5, 0x03, 0x06, 0x0C,
     0x18, 0x30, 0x60, 0xC0, 0x29, 0x52, 0xA4, 0xE1, 0x6B, 0xD6, 0x05, 0x0A, 0x14, 0x28, 0x50, 0xA0,
     0xE9, 0x7B, 0xF6, 0x45, 0x8A, 0xBD, 0xD3, 0x0F, 0x1E, 0x3C, 0x78, 0xF0, 0x49, 0x92, 0x8D, 0xB3,
     0xCF, 0x37, 0x6E, 0xDC, 0x11, 0x22, 0x44, 0x88, 0xB9, 0xDB, 0x1F, 0x3E, 0x7C, 0xF8, 0x59, 0xB2,
     0xCD, 0x33, 0x66, 0xCC, 0x31, 0x62, 0xC4, 0x21, 0x42, 0x84, 0xA1, 0xEB, 0x7F, 0xFE, 0x55, 0xAA,
     0xFD, 0x53, 0xA6, 0xE5, 0x63, 0xC6, 0x25, 0x4A, 0x94, 0x81, 0xAB, 0xFF, 0x57, 0xAE, 0xF5, 0x43,
     0x86, 0xA5, 0xE3, 0x6F, 0xDE, 0x15, 0x2A, 0x54, 0xA8, 0xF9, 0x5B, 0xB6, 0xC5, 0x23, 0x46, 0x8C,
     0xB1, 0xCB, 0x3F, 0x7E, 0xFC, 0x51, 0xA2, 0xED, 0x73, 0xE6, 0x65, 0xCA, 0x3D, 0x7A, 0xF4, 0x41,
     0x82, 0xAD, 0xF3, 0x4F, 0x9E, 0x95, 0x83, 0xAF, 0xF7, 0x47, 0x8E, 0xB5, 0xC3, 0x2F, 0x5E, 0xBC,
     0xD1, 0x0B, 0x16, 0x2C, 0x58, 0xB0, 0xC9, 0x3B, 0x76, 0xEC, 0x71, 0xE2, 0x6D, 0xDA, 0x1D, 0x3A,
     0x74, 0xE8, 0x79, 0xF2, 0x4D, 0x9A, 0x9D, 0x93, 0x8F, 0xB7, 0xC7, 0x27, 0x4E, 0x9C, 0x91, 0x8B,
     0xBF, 0xD7, 0x07, 0x0E, 0x1C, 0x38, 0x70, 0xE0, 0x69, 0xD2, 0x0D, 0x1A, 0x34, 0x68, 0xD0, 0x09,
     0x12, 0x24, 0x48, 0x90, 0x89, 0xBB, 0xDF, 0x17, 0x2E, 0x5C, 0xB8, 0xD9, 0x1B, 0x36, 0x6C, 0xD8,
     0x19, 0x32, 0x64, 0xC8, 0x39, 0x72, 0xE4, 0x61, 0xC2, 0x2D, 0x5A, 0xB4, 0xC1, 0x2B, 0x56, 0xAC,
     0xF1, 0x4B, 0x96, 0x85, 0xA3, 0xEF, 0x77, 0xEE, 0x75, 0xEA, 0x7D, 0xFA, 0x5D, 0xBA, 0xDD, 0x13,
     0x26, 0x4C, 0x98, 0x99, 0x9B, 0x9F, 0x97, 0x87, 0xA7, 0xE7, 0x67, 0xCE, 0x35, 0x6A, 0xD4]"

lemma MULx_alpha_powers: "map (\<lambda>V. MULx V 0xa9) alpha_powers = rotate1 alpha_powers"
  by (simp add: alpha_powers_def MULx_def)

lemma pow_alpha_powers: "map ((\<lambda>V. MULx V 0xa9) ^^ n) alpha_powers = rotate n alpha_powers"
proof (induction n)
  case (Suc n)
  have "map ((\<lambda>V. MULx V 0xa9) ^^ Suc n) alpha_powers = map (\<lambda>V. MULx V 0xa9) (rotate n alpha_powers)"
    by (simp flip: Suc)
  also have "\<dots> = rotate (Suc n) alpha_powers"
    by (simp only: rotate_map [symmetric] MULx_alpha_powers rotate_Suc rotate1_rotate_swap)
  finally show ?case .
qed simp

lemma alpha_powers_bits: "i < 8 \<Longrightarrow> alpha_powers ! i = 2 ^ i" "length alpha_powers = 255"
  by (auto simp: alpha_powers_def less_Suc_eq numeral_eq_Suc)

lemma pow_255: "((\<lambda>V. MULx V 0xa9) ^^ 255) v = v"
proof (rule xor_linear_eqI [OF mulx.pow_lin, where g = "\<lambda>v. v"])
  show "xor_linear (\<lambda>v :: u8. v)" by unfold_locales simp
  fix i assume i: "i < LENGTH(8)"
  have "map ((\<lambda>V. MULx V 0xa9) ^^ 255) alpha_powers = alpha_powers"
    using pow_alpha_powers [of 255] rotate_conv_mod [of 255 alpha_powers] by (simp add: alpha_powers_bits)
  then have "map ((\<lambda>V. MULx V 0xa9) ^^ 255) alpha_powers ! i = alpha_powers ! i" by simp
  with i show "((\<lambda>V. MULx V 0xa9) ^^ 255) (2 ^ i) = (2 ^ i :: u8)" by (simp add: alpha_powers_bits)
qed

lemma pow_pow: "((\<lambda>V. MULx V c) ^^ m) (((\<lambda>V. MULx V c) ^^ n) v) = ((\<lambda>V. MULx V c) ^^ (m + n)) v"
  by (simp add: funpow_add)

lemma pow_mod: "255 \<le> n \<Longrightarrow> ((\<lambda>V. MULx V 0xa9) ^^ n) v = ((\<lambda>V. MULx V 0xa9) ^^ (n - 255)) v"
  using pow_pow [where c = "0xa9" and m = 255 and n = "n - 255" and v = v] by (simp add: pow_255)

lemma alpha_octets:
  "MULalpha c = be32_of (MULxPOW c 23 0xa9) (MULxPOW c 245 0xa9) (MULxPOW c 48 0xa9) (MULxPOW c 239 0xa9)"
  "DIValpha c = be32_of (MULxPOW c 16 0xa9) (MULxPOW c 39 0xa9) (MULxPOW c 6 0xa9) (MULxPOW c 64 0xa9)"
  by (simp_all only: MULalpha_def DIValpha_def be32_or)

definition mul_alpha :: "u32 \<Rightarrow> u32" where
  "mul_alpha w = push_bit 8 w XOR MULalpha (ucast (drop_bit 24 w))"

definition div_alpha :: "u32 \<Rightarrow> u32" where
  "div_alpha w = drop_bit 8 w XOR DIValpha (ucast w)"

lemma MULxPOW_div:
  "MULxPOW (MULxPOW c 239 0xa9) 16 0xa9 = c" "MULxPOW (MULxPOW c 239 0xa9) 39 0xa9 = MULxPOW c 23 0xa9"
  "MULxPOW (MULxPOW c 239 0xa9) 6 0xa9 = MULxPOW c 245 0xa9" "MULxPOW (MULxPOW c 239 0xa9) 64 0xa9 = MULxPOW c 48 0xa9"
  by (simp_all add: MULxPOW_funpow pow_pow pow_mod)

lemma MULxPOW_xor: "MULxPOW (a XOR b) i c = MULxPOW a i c XOR MULxPOW b i c"
  unfolding MULxPOW_funpow by (rule xor_linear.lin [OF mulx.pow_lin])

lemma div_mul_alpha [simp]: "div_alpha (mul_alpha w) = w"
proof -
  obtain a b c d where w: "w = be32_of a b c d" by (rule be32_cases)
  show ?thesis
    unfolding w mul_alpha_def div_alpha_def alpha_octets
    by (simp add: be32_shift be32_xor ucast_be32 MULxPOW_div ac_simps)
qed

lemma mul_alpha_inject [simp]: "(mul_alpha v = mul_alpha w) = (v = w)"
  by (metis div_mul_alpha)

section \<open>Properties\<close>

text \<open>The two tables of \<open>snow3g.c\<close> fit together. Multiplying a word by \<open>alpha\<close> the way the clock of
  the shift register does (shift left, \<open>_MULalpha\<close> of the octet that falls out) and then dividing it (shift
  right, \<open>_DIValpha\<close> of the octet that falls out) gives the word back, and the boxes \<open>_S1\<close> and \<open>_S2\<close>
  map different words to different words.\<close>

theorem snow3g_boxes_invertible:
  "(let m = push_bit 8 w XOR MULalpha (ucast (drop_bit 24 w)) in drop_bit 8 m XOR DIValpha (ucast m)) = w \<and>
   (S1 v = S1 w) = (v = w) \<and> (S2 v = S2 w) = (v = w)"
  using div_mul_alpha [of w] by (simp_all add: mul_alpha_def div_alpha_def)

end
