(* ===== verification/Sec_Snow3g.thy ===== *)
theory Sec_Snow3g
  imports Sec_Snow3g_Box
begin

text \<open>
  The key stream generator SNOW 3G, \<open>snow3g.c\<close>: the shift register and the state machine, loading of a
  key and an initialization vector, and generation. An array of four words is a tuple. The generator
  implements the linear recurrence of its specification (\<open>lfsr_seq\<close>), and no two inputs of
  \<open>snow3g_initialize\<close> give the same state.
\<close>

record snow_3g_context =
  LFSR_S0 :: u32
  LFSR_S1 :: u32
  LFSR_S2 :: u32
  LFSR_S3 :: u32
  LFSR_S4 :: u32
  LFSR_S5 :: u32
  LFSR_S6 :: u32
  LFSR_S7 :: u32
  LFSR_S8 :: u32
  LFSR_S9 :: u32
  LFSR_S10 :: u32
  LFSR_S11 :: u32
  LFSR_S12 :: u32
  LFSR_S13 :: u32
  LFSR_S14 :: u32
  LFSR_S15 :: u32
  FSM_R1 :: u32
  FSM_R2 :: u32
  FSM_R3 :: u32

type_synonym words4 = "u32 \<times> u32 \<times> u32 \<times> u32"

text \<open>The context after \<open>memset\<close>.\<close>

definition zero_context :: snow_3g_context where
  "zero_context = \<lparr>LFSR_S0 = 0, LFSR_S1 = 0, LFSR_S2 = 0, LFSR_S3 = 0, LFSR_S4 = 0, LFSR_S5 = 0, LFSR_S6 = 0,
     LFSR_S7 = 0, LFSR_S8 = 0, LFSR_S9 = 0, LFSR_S10 = 0, LFSR_S11 = 0, LFSR_S12 = 0, LFSR_S13 = 0, LFSR_S14 = 0,
     LFSR_S15 = 0, FSM_R1 = 0, FSM_R2 = 0, FSM_R3 = 0\<rparr>"

subsection \<open>Clocks\<close>

definition snow3g_clock_LFSR_initialization_mode :: "u32 \<Rightarrow> snow_3g_context \<Rightarrow> snow_3g_context" where
  "snow3g_clock_LFSR_initialization_mode F ctx = (let
     v = (push_bit 8 (LFSR_S0 ctx) AND 0xffffff00) XOR MULalpha (ucast (drop_bit 24 (LFSR_S0 ctx) AND 0xff)) XOR
         LFSR_S2 ctx XOR (drop_bit 8 (LFSR_S11 ctx) AND 0x00ffffff) XOR DIValpha (ucast (LFSR_S11 ctx AND 0xff)) XOR F
   in ctx\<lparr>LFSR_S0 := LFSR_S1 ctx,
       LFSR_S1 := LFSR_S2 ctx,
       LFSR_S2 := LFSR_S3 ctx,
       LFSR_S3 := LFSR_S4 ctx,
       LFSR_S4 := LFSR_S5 ctx,
       LFSR_S5 := LFSR_S6 ctx,
       LFSR_S6 := LFSR_S7 ctx,
       LFSR_S7 := LFSR_S8 ctx,
       LFSR_S8 := LFSR_S9 ctx,
       LFSR_S9 := LFSR_S10 ctx,
       LFSR_S10 := LFSR_S11 ctx,
       LFSR_S11 := LFSR_S12 ctx,
       LFSR_S12 := LFSR_S13 ctx,
       LFSR_S13 := LFSR_S14 ctx,
       LFSR_S14 := LFSR_S15 ctx,
       LFSR_S15 := v\<rparr>)"

definition snow3g_clock_LFSR_key_stream_mode :: "snow_3g_context \<Rightarrow> snow_3g_context" where
  "snow3g_clock_LFSR_key_stream_mode ctx = (let
     v = (push_bit 8 (LFSR_S0 ctx) AND 0xffffff00) XOR MULalpha (ucast (drop_bit 24 (LFSR_S0 ctx) AND 0xff)) XOR
         LFSR_S2 ctx XOR (drop_bit 8 (LFSR_S11 ctx) AND 0x00ffffff) XOR DIValpha (ucast (LFSR_S11 ctx AND 0xff))
   in ctx\<lparr>LFSR_S0 := LFSR_S1 ctx,
       LFSR_S1 := LFSR_S2 ctx,
       LFSR_S2 := LFSR_S3 ctx,
       LFSR_S3 := LFSR_S4 ctx,
       LFSR_S4 := LFSR_S5 ctx,
       LFSR_S5 := LFSR_S6 ctx,
       LFSR_S6 := LFSR_S7 ctx,
       LFSR_S7 := LFSR_S8 ctx,
       LFSR_S8 := LFSR_S9 ctx,
       LFSR_S9 := LFSR_S10 ctx,
       LFSR_S10 := LFSR_S11 ctx,
       LFSR_S11 := LFSR_S12 ctx,
       LFSR_S12 := LFSR_S13 ctx,
       LFSR_S13 := LFSR_S14 ctx,
       LFSR_S14 := LFSR_S15 ctx,
       LFSR_S15 := v\<rparr>)"

definition snow3g_clock_fsm :: "snow_3g_context \<Rightarrow> u32 \<times> snow_3g_context" where
  "snow3g_clock_fsm ctx = (let
     F = ((LFSR_S15 ctx + FSM_R1 ctx) AND 0xffffffff) XOR FSM_R2 ctx;
     r = (FSM_R2 ctx + (FSM_R3 ctx XOR LFSR_S5 ctx)) AND 0xffffffff
   in (F, ctx\<lparr>FSM_R3 := S2 (FSM_R2 ctx), FSM_R2 := S1 (FSM_R1 ctx), FSM_R1 := r\<rparr>))"

subsection \<open>Initialization and generation\<close>

definition snow3g_load :: "words4 \<Rightarrow> words4 \<Rightarrow> snow_3g_context \<Rightarrow> snow_3g_context" where
  "snow3g_load = (\<lambda>(k0, k1, k2, k3) (iv0, iv1, iv2, iv3) ctx. ctx\<lparr>
     LFSR_S15 := k3 XOR iv0,
     LFSR_S14 := k2,
     LFSR_S13 := k1,
     LFSR_S12 := k0 XOR iv1,
     LFSR_S11 := k3 XOR 0xffffffff,
     LFSR_S10 := k2 XOR 0xffffffff XOR iv2,
     LFSR_S9 := k1 XOR 0xffffffff XOR iv3,
     LFSR_S8 := k0 XOR 0xffffffff,
     LFSR_S7 := k3,
     LFSR_S6 := k2,
     LFSR_S5 := k1,
     LFSR_S4 := k0,
     LFSR_S3 := k3 XOR 0xffffffff,
     LFSR_S2 := k2 XOR 0xffffffff,
     LFSR_S1 := k1 XOR 0xffffffff,
     LFSR_S0 := k0 XOR 0xffffffff,
     FSM_R1 := 0, FSM_R2 := 0, FSM_R3 := 0\<rparr>)"

definition snow3g_initialize_round :: "snow_3g_context \<Rightarrow> snow_3g_context" where
  "snow3g_initialize_round ctx = (let (F, ctx) = snow3g_clock_fsm ctx in snow3g_clock_LFSR_initialization_mode F ctx)"

definition snow3g_initialize :: "words4 \<Rightarrow> words4 \<Rightarrow> snow_3g_context \<Rightarrow> snow_3g_context" where
  "snow3g_initialize k IV ctx = fold (\<lambda>i. snow3g_initialize_round) [0..<32] (snow3g_load k IV ctx)"

text \<open>The array \<open>ks\<close> is the list of the words that are stored at its elements 0 to \<open>n - 1\<close>.\<close>

primrec key_stream_loop :: "nat \<Rightarrow> snow_3g_context \<Rightarrow> u32 list \<times> snow_3g_context" where
  "key_stream_loop 0 ctx = ([], ctx)"
| "key_stream_loop (Suc n) ctx = (let
     (F, ctx) = snow3g_clock_fsm ctx;
     k = F XOR LFSR_S0 ctx;
     (ks, ctx) = key_stream_loop n (snow3g_clock_LFSR_key_stream_mode ctx)
   in (k # ks, ctx))"

definition snow3g_generate_key_stream :: "u32 \<Rightarrow> snow_3g_context \<Rightarrow> u32 list \<times> snow_3g_context" where
  "snow3g_generate_key_stream n ctx = (let
     (_, ctx) = snow3g_clock_fsm ctx;
     ctx = snow3g_clock_LFSR_key_stream_mode ctx
   in key_stream_loop (unat n) ctx)"

subsection \<open>No state is lost\<close>

lemma and_fffffff: "v AND 0xffffffff = (v :: u32)"
proof -
  have "v AND mask 32 = v" by (simp only: take_bit_eq_mask [symmetric]) (simp add: take_bit_word_eq_self)
  then show ?thesis by (simp add: mask_eq_exp_minus_1)
qed

lemma shifted_masks: "push_bit 8 v AND 0xffffff00 = push_bit 8 (v :: u32)" "drop_bit 8 v AND 0x00ffffff = drop_bit 8 (v :: u32)"
proof -
  have "push_bit 8 v AND (push_bit 8 (mask 24)) = push_bit 8 v" "drop_bit 8 v AND mask 24 = drop_bit 8 v"
    by (rule bit_word_eqI; auto simp: bit_simps dest: bit_imp_le_length)+
  then show "push_bit 8 v AND 0xffffff00 = push_bit 8 v" "drop_bit 8 v AND 0x00ffffff = drop_bit 8 v"
    by (simp_all add: mask_eq_exp_minus_1)
qed

lemma feedback:
  "(push_bit 8 s0 AND 0xffffff00) XOR MULalpha (ucast (drop_bit 24 s0)) XOR r = mul_alpha s0 XOR r"
  "(drop_bit 8 s11 AND 0x00ffffff) XOR DIValpha (ucast s11) = div_alpha s11"
  "(drop_bit 8 s11 AND 0x00ffffff) XOR DIValpha (ucast s11) XOR r = div_alpha s11 XOR r"
  by (simp_all add: shifted_masks mul_alpha_def div_alpha_def ac_simps)

lemma fsm_inject [simp]: "(snow3g_clock_fsm c = snow3g_clock_fsm c') = (c = c')"
  by (cases c; cases c') (auto simp: snow3g_clock_fsm_def Let_def and_fffffff)

lemma key_stream_mode_inject [simp]:
  "(snow3g_clock_LFSR_key_stream_mode c = snow3g_clock_LFSR_key_stream_mode c') = (c = c')"
  by (cases c; cases c') (auto simp: snow3g_clock_LFSR_key_stream_mode_def feedback)

text \<open>The output of the state machine is determined by what a round leaves of its registers.\<close>

lemma initialize_round_inject [simp]: "(snow3g_initialize_round c = snow3g_initialize_round c') = (c = c')"
  by (cases c; cases c')
     (auto simp: snow3g_initialize_round_def snow3g_clock_fsm_def snow3g_clock_LFSR_initialization_mode_def
        Let_def and_fffffff feedback)

lemma fold_inject: "inj f \<Longrightarrow> (fold (\<lambda>_. f) xs c = fold (\<lambda>_. f) xs c') = (c = c')"
  by (induction xs arbitrary: c c') (auto simp: inj_eq)

lemma load_inject: "(snow3g_load k iv c = snow3g_load k' iv' c') = (k = k' \<and> iv = iv')"
  by (cases k; cases iv; cases k'; cases iv'; cases c; cases c') (auto simp: snow3g_load_def)

lemma initialize_inject: "(snow3g_initialize k iv c = snow3g_initialize k' iv' c') = (k = k' \<and> iv = iv')"
  by (simp add: snow3g_initialize_def fold_inject inj_def load_inject)

lemma length_key_stream_loop [simp]: "length (fst (key_stream_loop n ctx)) = n"
  by (induction n arbitrary: ctx) (auto simp: Let_def split_beta)

lemma length_key_stream [simp]: "length (fst (snow3g_generate_key_stream n ctx)) = unat n"
  by (simp add: snow3g_generate_key_stream_def Let_def split_beta)

subsection \<open>The recurrence\<close>

text \<open>
  The sequence that the shift register is specified by: sixteen words are given, and every further word is
  \<open>alpha\<close> times the one sixteen before it, the one fourteen before it, and the one five before it divided
  by \<open>alpha\<close>, added up. The state of the register at time \<open>t\<close> is the words \<open>t\<close> to \<open>t + 15\<close>.
\<close>

fun lfsr_seq :: "(nat \<Rightarrow> u32) \<Rightarrow> nat \<Rightarrow> u32" where
  "lfsr_seq s t = (if t < 16 then s t
     else mul_alpha (lfsr_seq s (t - 16)) XOR lfsr_seq s (t - 14) XOR div_alpha (lfsr_seq s (t - 5)))"

declare lfsr_seq.simps [simp del]

definition lfsr :: "snow_3g_context \<Rightarrow> u32 list" where
  "lfsr ctx = [LFSR_S0 ctx, LFSR_S1 ctx, LFSR_S2 ctx, LFSR_S3 ctx, LFSR_S4 ctx, LFSR_S5 ctx, LFSR_S6 ctx,
     LFSR_S7 ctx, LFSR_S8 ctx, LFSR_S9 ctx, LFSR_S10 ctx, LFSR_S11 ctx, LFSR_S12 ctx, LFSR_S13 ctx,
     LFSR_S14 ctx, LFSR_S15 ctx]"

lemma lfsr_seq_add: "lfsr_seq s (t + 16) = mul_alpha (lfsr_seq s t) XOR lfsr_seq s (t + 2) XOR div_alpha (lfsr_seq s (t + 11))"
  by (subst lfsr_seq.simps) (simp add: add.commute)

lemma lfsr_clock:
  "lfsr (snow3g_clock_LFSR_key_stream_mode ctx)
     = tl (lfsr ctx) @ [mul_alpha (lfsr ctx ! 0) XOR lfsr ctx ! 2 XOR div_alpha (lfsr ctx ! 11)]"
  by (simp add: lfsr_def snow3g_clock_LFSR_key_stream_mode_def Let_def feedback)

lemma lfsr_fsm [simp]: "lfsr (snd (snow3g_clock_fsm ctx)) = lfsr ctx"
  by (simp add: lfsr_def snow3g_clock_fsm_def Let_def)

lemma lfsr_clock_seq:
  assumes "lfsr ctx = map (lfsr_seq s) [t..<t + 16]"
  shows "lfsr (snow3g_clock_LFSR_key_stream_mode ctx) = map (lfsr_seq s) [Suc t..<Suc t + 16]"
proof -
  have "[t..<t + 16] ! i = t + i" if "i < 16" for i using that by simp
  then have "lfsr ctx ! 0 = lfsr_seq s t" "lfsr ctx ! 2 = lfsr_seq s (t + 2)" "lfsr ctx ! 11 = lfsr_seq s (t + 11)"
    by (simp_all add: assms)
  then have "lfsr (snow3g_clock_LFSR_key_stream_mode ctx)
      = map (lfsr_seq s) (tl [t..<t + 16] @ [t + 16])"
    by (simp only: lfsr_clock lfsr_seq_add) (simp add: assms lfsr_seq_add map_tl [symmetric] del: upt_Suc tl_upt)
  also have "tl [t..<t + 16] @ [t + 16] = [Suc t..<Suc t + 16]"
    by (simp add: upt_conv_Cons)
  finally show ?thesis .
qed

lemma lfsr_start: "lfsr ctx = map (lfsr_seq (\<lambda>i. lfsr ctx ! i)) [0..<0 + 16]"
proof (rule nth_equalityI)
  show "length (lfsr ctx) = length (map (lfsr_seq (\<lambda>i. lfsr ctx ! i)) [0..<0 + 16])" by (simp add: lfsr_def)
  fix i assume "i < length (lfsr ctx)"
  then have "i < 16" by (simp add: lfsr_def)
  then show "lfsr ctx ! i = map (lfsr_seq (\<lambda>i. lfsr ctx ! i)) [0..<0 + 16] ! i"
    by (simp add: lfsr_seq.simps)
qed

text \<open>The key stream in terms of the clocks: word \<open>t\<close> comes from the state after \<open>t + 1\<close> clocks.\<close>

definition key_stream_clock :: "snow_3g_context \<Rightarrow> snow_3g_context" where
  "key_stream_clock ctx = snow3g_clock_LFSR_key_stream_mode (snd (snow3g_clock_fsm ctx))"

lemma key_stream_loop_clocks:
  "key_stream_loop n ctx
     = (map (\<lambda>t. let c = (key_stream_clock ^^ t) ctx in fst (snow3g_clock_fsm c) XOR LFSR_S0 c) [0..<n],
        (key_stream_clock ^^ n) ctx)"
proof (induction n arbitrary: ctx)
  case (Suc n)
  have S0: "LFSR_S0 (snd (snow3g_clock_fsm ctx)) = LFSR_S0 ctx" by (simp add: snow3g_clock_fsm_def Let_def)
  show ?case
    by (simp add: Let_def split_beta Suc S0 key_stream_clock_def [symmetric] funpow_swap1 [symmetric]
        upt_conv_Cons map_Suc_upt [symmetric] comp_def del: upt_Suc)
qed simp

lemma lfsr_clocks: "lfsr ((key_stream_clock ^^ n) ctx) = map (lfsr_seq (\<lambda>i. lfsr ctx ! i)) [n..<n + 16]"
proof (induction n)
  case 0
  show ?case using lfsr_start by simp
next
  case (Suc n)
  then show ?case by (simp add: key_stream_clock_def lfsr_clock_seq)
qed

text \<open>The registers of the state machine and the key stream as sequences over the words of the recurrence.\<close>

primrec fsm_seq :: "(nat \<Rightarrow> u32) \<Rightarrow> u32 \<times> u32 \<times> u32 \<Rightarrow> nat \<Rightarrow> u32 \<times> u32 \<times> u32" where
  "fsm_seq s r 0 = r"
| "fsm_seq s r (Suc t) = (let (r1, r2, r3) = fsm_seq s r t in (r2 + (r3 XOR s (t + 5)), S1 r1, S2 r2))"

definition snow3g_word :: "(nat \<Rightarrow> u32) \<Rightarrow> u32 \<times> u32 \<times> u32 \<Rightarrow> nat \<Rightarrow> u32" where
  "snow3g_word s r t = (let (r1, r2, r3) = fsm_seq s r t in ((s (t + 15) + r1) XOR r2) XOR s t)"

definition fsm :: "snow_3g_context \<Rightarrow> u32 \<times> u32 \<times> u32" where
  "fsm ctx = (FSM_R1 ctx, FSM_R2 ctx, FSM_R3 ctx)"

lemma lfsr_words: "LFSR_S0 c = lfsr c ! 0" "LFSR_S5 c = lfsr c ! 5" "LFSR_S15 c = lfsr c ! 15"
  by (simp_all add: lfsr_def)

lemma lfsr_clocks_nth:
  "i < 16 \<Longrightarrow> lfsr ((key_stream_clock ^^ t) ctx) ! i = lfsr_seq (\<lambda>i. lfsr ctx ! i) (t + i)"
  by (simp add: lfsr_clocks del: upt_Suc)

lemma fsm_clock:
  "fsm (key_stream_clock c) = (FSM_R2 c + (FSM_R3 c XOR LFSR_S5 c), S1 (FSM_R1 c), S2 (FSM_R2 c))"
  by (simp add: fsm_def key_stream_clock_def snow3g_clock_LFSR_key_stream_mode_def snow3g_clock_fsm_def Let_def and_fffffff)

lemma fsm_clocks: "fsm ((key_stream_clock ^^ t) ctx) = fsm_seq (lfsr_seq (\<lambda>i. lfsr ctx ! i)) (fsm ctx) t"
proof (induction t)
  case (Suc t)
  let ?c = "(key_stream_clock ^^ t) ctx"
  have "fsm (key_stream_clock ?c) = (FSM_R2 ?c + (FSM_R3 ?c XOR lfsr_seq (\<lambda>i. lfsr ctx ! i) (t + 5)), S1 (FSM_R1 ?c), S2 (FSM_R2 ?c))"
    by (simp only: fsm_clock lfsr_words lfsr_clocks_nth)
  then show ?case by (simp add: fsm_def Suc [unfolded fsm_def, symmetric])
qed simp

lemma clock_word:
  fixes ctx t
  defines "c \<equiv> (key_stream_clock ^^ t) ctx"
  shows "fst (snow3g_clock_fsm c) XOR LFSR_S0 c = snow3g_word (lfsr_seq (\<lambda>i. lfsr ctx ! i)) (fsm ctx) t"
proof -
  have "fsm_seq (lfsr_seq (\<lambda>i. lfsr ctx ! i)) (fsm ctx) t = (FSM_R1 c, FSM_R2 c, FSM_R3 c)"
    using fsm_clocks [of t ctx] by (simp add: c_def fsm_def)
  moreover have "LFSR_S15 c = lfsr_seq (\<lambda>i. lfsr ctx ! i) (t + 15)" "LFSR_S0 c = lfsr_seq (\<lambda>i. lfsr ctx ! i) t"
    unfolding c_def lfsr_words by (simp_all add: lfsr_clocks_nth)
  ultimately show ?thesis
    by (simp add: snow3g_word_def snow3g_clock_fsm_def Let_def and_fffffff)
qed

section \<open>Properties\<close>

text \<open>C12: the generator implements its specification. The words it stores are words 1 to \<open>n\<close> of the key
  stream of the linear recurrence and the state machine, started from the registers it finds.\<close>

theorem snow3g_key_stream_words:
  "fst (snow3g_generate_key_stream n ctx)
     = map (snow3g_word (lfsr_seq (\<lambda>i. lfsr ctx ! i)) (fsm ctx)) [1..<Suc (unat n)]"
proof -
  have "fst (snow3g_generate_key_stream n ctx) = fst (key_stream_loop (unat n) (key_stream_clock ctx))"
    by (simp add: snow3g_generate_key_stream_def key_stream_clock_def Let_def split_beta)
  also have "\<dots> = map (\<lambda>t. snow3g_word (lfsr_seq (\<lambda>i. lfsr ctx ! i)) (fsm ctx) (Suc t)) [0..<unat n]"
    unfolding key_stream_loop_clocks fst_conv
    using clock_word [of "Suc _" ctx] by (intro map_cong refl) (simp add: Let_def funpow_swap1)
  also have "\<dots> = map (snow3g_word (lfsr_seq (\<lambda>i. lfsr ctx ! i)) (fsm ctx)) (map Suc [0..<unat n])"
    by simp
  finally show ?thesis by (simp only: map_Suc_upt One_nat_def)
qed

text \<open>The initialization loses nothing. Two runs of \<open>snow3g_initialize\<close> leave the same state, whatever
  the contexts they find, exactly when key and initialization vector are the same.\<close>

theorem snow3g_initialize_injective:
  "(snow3g_initialize k IV ctx = snow3g_initialize k' IV' ctx') = (k = k' \<and> IV = IV')"
  by (rule initialize_inject)

end
