(* ===== verification/Sec_Stream.thy ===== *)
theory Sec_Stream
  imports Sec_Snow3g
begin

text \<open>
  What the NAS security algorithms of \<open>src/component/oai-smf/src/nas/security\<close> share: the parameters
  \<open>nas_stream_cipher_t\<close>, the loading of keys, and the contract of a stream cipher. A pointer to octets is
  the block it points into. A call is undefined behaviour (\<open>Undef\<close>) when it leaves a block, or stops at a
  \<open>DevAssert\<close> (\<open>Abort\<close>), or returns.
\<close>

datatype 'a run = Undef | Abort | Return 'a

record nas_stream_cipher =
  key :: "mem option"
  key_length :: u32
  count :: u32
  bearer :: u8
  direction :: u8
  message :: mem
  blength :: u32

definition hton_int32 :: "u32 \<Rightarrow> u32" where
  "hton_int32 x = push_bit 24 (x AND 0x000000FF) OR push_bit 8 (x AND 0x0000FF00) OR
     drop_bit 8 (x AND 0x00FF0000) OR drop_bit 24 (x AND 0xFF000000)"

text \<open>\<open>memcpy\<close> of four octets into a 32-bit word of a little-endian host.\<close>

definition word_at :: "mem \<Rightarrow> nat \<Rightarrow> u32" where
  "word_at m i = le32 (m ! i) (m ! (i + 1)) (m ! (i + 2)) (m ! (i + 3))"

definition key_words :: "mem \<Rightarrow> words4 option" where
  "key_words k = (if 16 \<le> length k
     then Some (hton_int32 (word_at k 12), hton_int32 (word_at k 8), hton_int32 (word_at k 4), hton_int32 (word_at k 0))
     else None)"

subsection \<open>Byte order\<close>

lemma byte_masks: "(0x0000FF00 :: u32) = push_bit 8 (mask 8)" "(0x00FF0000 :: u32) = push_bit 16 (mask 8)"
  "(0xFF000000 :: u32) = push_bit 24 (mask 8)" "(0x000000FF :: u32) = mask 8"
  by (simp_all add: mask_eq_exp_minus_1)

lemma hton_int32_octets:
  "ucast (hton_int32 v) = (ucast (drop_bit 24 v) :: u8)" "ucast (drop_bit 8 (hton_int32 v)) = (ucast (drop_bit 16 v) :: u8)"
  "ucast (drop_bit 16 (hton_int32 v)) = (ucast (drop_bit 8 v) :: u8)" "ucast (drop_bit 24 (hton_int32 v)) = (ucast v :: u8)"
  unfolding hton_int32_def byte_masks
  by (rule bit_word_eqI; auto simp: bit_simps dest: bit_imp_le_length)+

lemma hton_int32_htobe32: "hton_int32 v = htobe32 v"
  by (rule u32_eqI) (simp_all add: hton_int32_octets htobe32_def ucast_le32)

lemma hton_word_at: "hton_int32 (word_at m i) = be32_of (m ! i) (m ! (i + 1)) (m ! (i + 2)) (m ! (i + 3))"
  by (simp add: hton_int32_htobe32 word_at_def be32_of_def)

lemma take_16: "16 \<le> length k \<Longrightarrow> take 16 k = [k ! 0, k ! 1, k ! 2, k ! 3, k ! 4, k ! 5, k ! 6, k ! 7,
    k ! 8, k ! 9, k ! 10, k ! 11, k ! 12, k ! 13, k ! 14, k ! 15]"
  by (rule nth_equalityI) (auto simp: less_Suc_eq numeral_eq_Suc)

lemma key_words_inject:
  "key_words k = Some K \<Longrightarrow> key_words k' = Some K' \<Longrightarrow> (K = K') = (take 16 k = take 16 k')"
  by (auto simp: key_words_def hton_word_at take_16 numeral_2_eq_2 split: if_splits)

subsection \<open>Stream ciphers\<close>

text \<open>The first \<open>n\<close> bits of a message, the bits of the last octet in their place.\<close>

definition bit_mask :: "nat \<Rightarrow> u8" where
  "bit_mask z = push_bit (8 - z) 0xFF"

definition first_bits :: "nat \<Rightarrow> mem \<Rightarrow> mem" where
  "first_bits n m = take (n div 8) m @ (if n mod 8 = 0 then [] else [m ! (n div 8) AND bit_mask (n mod 8)])"

lemma ceil_8: "(n + 7) div 8 = n div 8 + (if n mod 8 = 0 then 0 else 1 :: nat)"
  by presburger

lemma first_bits_eqI:
  assumes "(n + 7) div 8 \<le> length m" "(n + 7) div 8 \<le> length m'"
    and "\<And>i. i < n div 8 \<Longrightarrow> m ! i = m' ! i"
    and "n mod 8 \<noteq> 0 \<Longrightarrow> m ! (n div 8) AND bit_mask (n mod 8) = m' ! (n div 8) AND bit_mask (n mod 8)"
  shows "first_bits n m = first_bits n m'"
proof -
  have "n div 8 \<le> (n + 7) div 8" by (rule div_le_mono) simp
  with assms(1-3) have "take (n div 8) m = take (n div 8) m'" by (intro nth_equalityI) auto
  with assms(4) show ?thesis by (auto simp: first_bits_def)
qed

text \<open>
  A cipher that adds a key stream to \<open>n\<close> bits and clears the rest of the last octet: \<open>crypt\<close> maps a message
  and the block of the output to the output, and is defined when both have the octets it \<open>needs\<close>.
\<close>

lemma xor_masked_twice: "((((m XOR k) AND b) XOR k) AND b) AND b = (m :: u8) AND b"
  by (rule bit_word_eqI) (auto simp: bit_simps)

locale keystream_cipher =
  fixes crypt :: "mem \<Rightarrow> mem \<Rightarrow> mem option" and n :: nat and needs :: nat and ks :: "nat \<Rightarrow> u8"
  assumes defined: "(n + 7) div 8 \<le> needs \<Longrightarrow> needs \<le> length m \<Longrightarrow> needs \<le> length out \<Longrightarrow>
      \<exists>out'. crypt m out = Some out' \<and> length out' = length out"
    and octet: "crypt m out = Some out' \<Longrightarrow> (n + 7) div 8 \<le> needs \<Longrightarrow> i < n div 8 \<Longrightarrow> out' ! i = m ! i XOR ks i"
    and last: "crypt m out = Some out' \<Longrightarrow> (n + 7) div 8 \<le> needs \<Longrightarrow> n mod 8 \<noteq> 0 \<Longrightarrow>
      out' ! (n div 8) = (m ! (n div 8) XOR ks (n div 8)) AND bit_mask (n mod 8)"
begin

lemma twice:
  assumes n: "(n + 7) div 8 \<le> needs" and len: "needs \<le> length m" "needs \<le> length out" "needs \<le> length out'"
  shows "\<exists>c p. crypt m out = Some c \<and> crypt c out' = Some p \<and> first_bits n p = first_bits n m"
proof -
  obtain c where c: "crypt m out = Some c" "length c = length out" using defined [OF n len(1,2)] by blast
  moreover obtain p where p: "crypt c out' = Some p" "length p = length out'"
    using defined [OF n _ len(3), of c] len(2) c(2) by auto
  moreover have "first_bits n p = first_bits n m"
  proof (rule first_bits_eqI)
    fix i assume "i < n div 8"
    with octet [OF c(1) n] octet [OF p(1) n] show "p ! i = m ! i" by (simp add: ac_simps)
  next
    assume z: "n mod 8 \<noteq> 0"
    show "p ! (n div 8) AND bit_mask (n mod 8) = m ! (n div 8) AND bit_mask (n mod 8)"
      by (simp only: last [OF c(1) n z] last [OF p(1) n z] xor_masked_twice)
  qed (use n len p(2) in auto)
  ultimately show ?thesis by blast
qed

end

end
