(* ===== verification/Sec_Nea.thy ===== *)
theory Sec_Nea
  imports Sec_Stream
begin

text \<open>
  NAS encryption: \<open>nas_stream_encrypt_nea1\<close> (SNOW 3G) and \<open>nas_stream_encrypt_nea2\<close> (AES in counter mode,
  where the counter mode of the nettle library is a parameter). The output block is separate from the
  message, and \<open>malloc\<close> succeeds.
\<close>

subsection \<open>NEA1\<close>

definition nea1_iv :: "nas_stream_cipher \<Rightarrow> words4" where
  "nea1_iv sc = (let
     IV3 = count sc;
     IV2 = push_bit 24 (push_bit 3 (ucast (bearer sc)) OR push_bit 2 (ucast (direction sc) AND 1));
     IV1 = IV3;
     IV0 = IV2
   in (IV0, IV1, IV2, IV3))"

definition nea1_words :: "nas_stream_cipher \<Rightarrow> u32" where
  "nea1_words sc = (blength sc + 31) div 32"

definition zero_bit :: "nas_stream_cipher \<Rightarrow> u32" where
  "zero_bit sc = blength sc AND 7"

text \<open>The key stream as octets: generated, masked at its end and put into network order.\<close>

definition nea1_key_stream :: "words4 \<Rightarrow> nas_stream_cipher \<Rightarrow> mem" where
  "nea1_key_stream K sc = (let
     n = unat (nea1_words sc);
     KS = fst (snow3g_generate_key_stream (nea1_words sc) (snow3g_initialize K (nea1_iv sc) zero_context));
     KS = (if zero_bit sc > 0 then KS[n - 1 := KS ! (n - 1) AND push_bit (8 - unat (zero_bit sc)) 0xFFFFFFFF] else KS)
   in concat (map bytes32 (map hton_int32 KS)))"

text \<open>The message after the loops, for a loaded key; then the copy to the output.\<close>

definition ceil_index :: "nas_stream_cipher \<Rightarrow> u32" where
  "ceil_index sc = drop_bit 3 (blength sc + 7)"

definition nea1_message :: "words4 \<Rightarrow> nas_stream_cipher \<Rightarrow> mem" where
  "nea1_message K sc = (let
     n = unat (nea1_words sc);
     m = map2 (XOR) (take (n * 4) (message sc)) (nea1_key_stream K sc) @ drop (n * 4) (message sc);
     i = unat (ceil_index sc) - 1
   in if zero_bit sc > 0
      then m[i := m ! i AND ucast (push_bit (8 - unat (zero_bit sc)) (0xFF :: u32))]
      else m)"

definition nea1_apply :: "words4 \<Rightarrow> nas_stream_cipher \<Rightarrow> mem \<Rightarrow> (nas_stream_cipher \<times> mem) option" where
  "nea1_apply K sc out = (let
     n = unat (nea1_words sc);
     m = nea1_message K sc;
     out1 = take (n * 4) m @ drop (n * 4) out;
     i = unat (ceil_index sc) - 1;
     out2 = (if zero_bit sc > 0 then out1[i := m ! i] else out1)
   in if zero_bit sc > 0 \<and> n = 0 then None
      else if length (message sc) < n * 4 \<or> length out < n * 4 then None
      else Some (sc\<lparr>message := m\<rparr>, out2))"

definition nas_stream_encrypt_nea1 :: "nas_stream_cipher \<Rightarrow> mem \<Rightarrow> (int \<times> nas_stream_cipher \<times> mem) run" where
  "nas_stream_encrypt_nea1 sc out = (case key sc of
     None \<Rightarrow> Abort
   | Some k \<Rightarrow>
     if key_length sc \<noteq> 16 then Abort
     else (case key_words k of
       None \<Rightarrow> Undef
     | Some K \<Rightarrow> (case nea1_apply K sc out of
         None \<Rightarrow> Undef
       | Some (sc, out) \<Rightarrow> Return (0, sc, out))))"

subsection \<open>NEA2\<close>

text \<open>\<open>ctr k m src\<close> is the data \<open>nettle_ctr_crypt\<close> yields for a key, an initial counter block and a source.\<close>

definition bearer_octet :: "u8 \<Rightarrow> u8 \<Rightarrow> u8" where
  "bearer_octet b d = push_bit 3 (b AND 0x1F) OR push_bit 2 (d AND 1)"

definition counter_block :: "nas_stream_cipher \<Rightarrow> mem" where
  "counter_block sc = bytes32 (hton_int32 (count sc)) @
     [bearer_octet (bearer sc) (direction sc)] @ replicate 11 0"

definition byte_length :: "nas_stream_cipher \<Rightarrow> u32" where
  "byte_length sc = (if zero_bit sc > 0 then drop_bit 3 (blength sc) + 1 else drop_bit 3 (blength sc))"

definition nas_stream_encrypt_nea2 ::
    "(mem \<Rightarrow> mem \<Rightarrow> mem \<Rightarrow> mem) \<Rightarrow> nas_stream_cipher \<Rightarrow> mem \<Rightarrow> (int \<times> mem) run" where
  "nas_stream_encrypt_nea2 ctr sc out = (let
     n = unat (byte_length sc);
     z = unat (zero_bit sc)
   in case key sc of
     None \<Rightarrow> Undef
   | Some k \<Rightarrow>
     if length k < 16 \<or> length (message sc) < n \<or> length out < n then Undef
     else (let
       data = ctr (take 16 k) (counter_block sc) (take n (message sc));
       data = (if z > 0 then data[n - 1 := data ! (n - 1) AND ucast (push_bit (8 - z) (0xFF :: u32))] else data)
     in Return (0, data @ drop n out)))"

subsection \<open>Lengths and masks\<close>

lemma length_nea1_key_stream: "length (nea1_key_stream K sc) = unat (nea1_words sc) * 4"
  by (simp add: nea1_key_stream_def Let_def length_concat comp_def sum_list_triv)

lemma unat_zero_bit: "unat (zero_bit sc) = unat (blength sc) mod 8"
proof -
  have "blength sc AND mask 3 = take_bit 3 (blength sc)" by (simp only: take_bit_eq_mask)
  then show ?thesis by (simp add: zero_bit_def mask_eq_exp_minus_1 take_bit_eq_mod unat_mod)
qed

lemma zero_bit_pos: "(zero_bit sc > 0) = (unat (blength sc) mod 8 \<noteq> 0)"
  by (simp add: word_less_nat_alt unat_zero_bit)

lemma bit_mask_u32: "ucast (push_bit (8 - z) (0xFF :: u32)) = bit_mask z"
proof -
  have "(0xFF :: u32) = mask 8" "(0xFF :: u8) = mask 8" by (simp_all add: mask_eq_exp_minus_1)
  then show ?thesis
    unfolding bit_mask_def by (simp only:) (rule bit_word_eqI, auto simp: bit_simps)
qed

lemma unat_words:
  assumes "unat (blength sc) < 2 ^ 32 - 31"
  shows "unat (nea1_words sc) = (unat (blength sc) + 31) div 32"
proof -
  have "unat (blength sc + 31) = unat (blength sc) + 31"
    using assms by (subst unat_plus_if') simp
  then show ?thesis by (simp add: nea1_words_def unat_div)
qed

lemma unat_ceil:
  assumes "unat (blength sc) < 2 ^ 32 - 31"
  shows "unat (ceil_index sc) = (unat (blength sc) + 7) div 8"
proof -
  have "unat (blength sc + 7) = unat (blength sc) + 7"
    using assms by (subst unat_plus_if') simp
  then show ?thesis by (simp add: ceil_index_def drop_bit_eq_div unat_div)
qed

lemma unat_byte_length: "unat (byte_length sc) = (unat (blength sc) + 7) div 8"
proof -
  have *: "unat (drop_bit 3 (blength sc)) = unat (blength sc) div 8"
    by (simp add: drop_bit_eq_div unat_div)
  moreover have "unat (drop_bit 3 (blength sc) + 1) = unat (blength sc) div 8 + 1"
    using unat_u32_less [of "blength sc"] by (subst unat_plus_if') (simp add: *)
  ultimately show ?thesis
    by (simp add: byte_length_def zero_bit_pos ceil_8)
qed

lemma words_cover:
  assumes "(unat (blength sc) + 7) div 8 \<le> unat (nea1_words sc) * 4"
  shows "unat (blength sc) < 2 ^ 32 - 31"
proof (rule ccontr)
  assume big: "\<not> unat (blength sc) < 2 ^ 32 - 31"
  then have "unat (blength sc + 31) = unat (blength sc) + 31 - 2 ^ 32"
    using unat_u32_less [of "blength sc"] by (subst unat_plus_if') simp
  then have "unat (nea1_words sc) = 0"
    using unat_u32_less [of "blength sc"] by (simp add: nea1_words_def unat_div)
  with assms big show False by simp
qed

text \<open>One application, seen from outside: which octets it changes, and when it is defined.\<close>

lemma nea1_apply_defined:
  assumes "(unat (blength sc) + 7) div 8 \<le> unat (nea1_words sc) * 4"
  shows "(\<exists>r. nea1_apply K sc out = Some r) = (unat (nea1_words sc) * 4 \<le> length (message sc) \<and>
      unat (nea1_words sc) * 4 \<le> length out)"
  using assms by (auto simp: nea1_apply_def Let_def zero_bit_pos)

lemma nea1_message_nth:
  assumes cover: "(unat (blength sc) + 7) div 8 \<le> unat (nea1_words sc) * 4"
    and len: "unat (nea1_words sc) * 4 \<le> length (message sc)" and i: "i < unat (nea1_words sc) * 4"
  shows "nea1_message K sc ! i =
      (if unat (blength sc) mod 8 \<noteq> 0 \<and> i = unat (blength sc) div 8
       then (message sc ! i XOR nea1_key_stream K sc ! i) AND bit_mask (unat (blength sc) mod 8)
       else message sc ! i XOR nea1_key_stream K sc ! i)"
proof -
  let ?m = "map2 (XOR) (take (unat (nea1_words sc) * 4) (message sc)) (nea1_key_stream K sc) @
    drop (unat (nea1_words sc) * 4) (message sc)"
  have nth: "?m ! k = message sc ! k XOR nea1_key_stream K sc ! k" if "k < unat (nea1_words sc) * 4" for k
    using that len by (simp add: nth_append length_nea1_key_stream)
  show ?thesis
  proof (cases "unat (blength sc) mod 8 = 0")
    case True
    with i show ?thesis by (simp add: nea1_message_def Let_def zero_bit_pos nth)
  next
    case False
    then have c: "unat (ceil_index sc) - 1 = unat (blength sc) div 8" "unat (blength sc) div 8 < unat (nea1_words sc) * 4"
      using cover words_cover [OF cover] by (simp_all add: unat_ceil ceil_8)
    have "nea1_message K sc = ?m[unat (blength sc) div 8 := ?m ! (unat (blength sc) div 8) AND bit_mask (unat (blength sc) mod 8)]"
      using False c by (simp add: nea1_message_def Let_def zero_bit_pos unat_zero_bit bit_mask_u32)
    with False i len c(2) show ?thesis
      by (simp add: nth_list_update nth length_nea1_key_stream)
  qed
qed

lemma length_nea1_message: "length (nea1_message K sc) = length (message sc)"
  by (simp add: nea1_message_def Let_def length_nea1_key_stream)

lemma nea1_apply_out:
  assumes "nea1_apply K sc out = Some (sc', out')" and cover: "(unat (blength sc) + 7) div 8 \<le> unat (nea1_words sc) * 4"
  shows "length out' = length out" "sc' = sc\<lparr>message := nea1_message K sc\<rparr>"
    and "take (unat (nea1_words sc) * 4) out' = take (unat (nea1_words sc) * 4) (nea1_message K sc)"
proof -
  have len: "unat (nea1_words sc) * 4 \<le> length (message sc)" "unat (nea1_words sc) * 4 \<le> length out"
    using assms(1) by (auto simp: nea1_apply_def Let_def not_less split: if_splits)
  have "(take (unat (nea1_words sc) * 4) (nea1_message K sc))[i := nea1_message K sc ! i]
      = take (unat (nea1_words sc) * 4) (nea1_message K sc)" for i
    by (metis list_update_id take_update_swap)
  with assms(1) len show "length out' = length out" "sc' = sc\<lparr>message := nea1_message K sc\<rparr>"
    and "take (unat (nea1_words sc) * 4) out' = take (unat (nea1_words sc) * 4) (nea1_message K sc)"
    by (auto simp: nea1_apply_def Let_def length_nea1_message take_update_swap list_update_append split: if_splits)
qed

subsection \<open>Both keep the contract of a stream cipher\<close>

definition nea1_crypt :: "words4 \<Rightarrow> nas_stream_cipher \<Rightarrow> mem \<Rightarrow> mem \<Rightarrow> mem option" where
  "nea1_crypt K sc m out = map_option snd (nea1_apply K (sc\<lparr>message := m\<rparr>) out)"

lemma message_only [simp]:
  "nea1_words (sc\<lparr>message := m\<rparr>) = nea1_words sc" "zero_bit (sc\<lparr>message := m\<rparr>) = zero_bit sc"
  "nea1_iv (sc\<lparr>message := m\<rparr>) = nea1_iv sc" "counter_block (sc\<lparr>message := m\<rparr>) = counter_block sc"
  by (simp_all add: nea1_words_def zero_bit_def nea1_iv_def counter_block_def)

lemma stream_message_only [simp]:
  "nea1_key_stream K (sc\<lparr>message := m\<rparr>) = nea1_key_stream K sc" "byte_length (sc\<lparr>message := m\<rparr>) = byte_length sc"
  by (simp_all add: nea1_key_stream_def byte_length_def cong: if_cong)

lemma nea1_crypt_out:
  assumes "nea1_crypt K sc m out = Some out'" "(unat (blength sc) + 7) div 8 \<le> unat (nea1_words sc) * 4"
    and "i < unat (nea1_words sc) * 4"
  shows "length out' = length out" "out' ! i = nea1_message K (sc\<lparr>message := m\<rparr>) ! i"
    and "unat (nea1_words sc) * 4 \<le> length m"
proof -
  obtain sc' where *: "nea1_apply K (sc\<lparr>message := m\<rparr>) out = Some (sc', out')"
    using assms(1) by (auto simp: nea1_crypt_def)
  show "length out' = length out" using nea1_apply_out(1) [OF *] assms(2) by simp
  show "out' ! i = nea1_message K (sc\<lparr>message := m\<rparr>) ! i"
    using nea1_apply_out(3) [OF *] assms(2,3) by simp (metis nth_take)
  show "unat (nea1_words sc) * 4 \<le> length m"
    using * nea1_apply_defined [of "sc\<lparr>message := m\<rparr>" K out] assms(2) by simp
qed

interpretation nea1: keystream_cipher "nea1_crypt K sc" "unat (blength sc)" "unat (nea1_words sc) * 4"
  "\<lambda>i. nea1_key_stream K sc ! i" for K sc
proof
  fix m out :: mem
  assume c: "(unat (blength sc) + 7) div 8 \<le> unat (nea1_words sc) * 4"
    and "unat (nea1_words sc) * 4 \<le> length m" "unat (nea1_words sc) * 4 \<le> length out"
  then obtain sc' out' where "nea1_apply K (sc\<lparr>message := m\<rparr>) out = Some (sc', out')"
    using nea1_apply_defined [of "sc\<lparr>message := m\<rparr>" K out] by auto
  with c nea1_apply_out(1) [OF this] show "\<exists>out'. nea1_crypt K sc m out = Some out' \<and> length out' = length out"
    by (simp add: nea1_crypt_def)
next
  fix m out out' :: mem and i
  assume *: "nea1_crypt K sc m out = Some out'" and c: "(unat (blength sc) + 7) div 8 \<le> unat (nea1_words sc) * 4"
    and i: "i < unat (blength sc) div 8"
  then have "i < unat (nea1_words sc) * 4" using c by (auto simp: ceil_8 split: if_splits)
  with i show "out' ! i = m ! i XOR nea1_key_stream K sc ! i"
    using nea1_crypt_out [OF * c, of i] c by (simp add: nea1_message_nth)
next
  fix m out out' :: mem
  assume *: "nea1_crypt K sc m out = Some out'" and c: "(unat (blength sc) + 7) div 8 \<le> unat (nea1_words sc) * 4"
    and z: "unat (blength sc) mod 8 \<noteq> 0"
  then have "unat (blength sc) div 8 < unat (nea1_words sc) * 4" by (simp add: ceil_8)
  with z show "out' ! (unat (blength sc) div 8) =
      (m ! (unat (blength sc) div 8) XOR nea1_key_stream K sc ! (unat (blength sc) div 8)) AND bit_mask (unat (blength sc) mod 8)"
    using nea1_crypt_out [OF * c, of "unat (blength sc) div 8"] c by (simp add: nea1_message_nth)
qed

text \<open>Counter mode adds a key stream that does not depend on the source.\<close>

definition counter_mode :: "(mem \<Rightarrow> mem \<Rightarrow> mem \<Rightarrow> mem) \<Rightarrow> (mem \<Rightarrow> mem \<Rightarrow> nat \<Rightarrow> u8) \<Rightarrow> bool" where
  "counter_mode ctr stream \<longleftrightarrow> (\<forall>k m src. ctr k m src = map2 (\<lambda>i b. b XOR stream k m i) [0..<length src] src)"

definition nea2_crypt :: "(mem \<Rightarrow> mem \<Rightarrow> mem \<Rightarrow> mem) \<Rightarrow> nas_stream_cipher \<Rightarrow> mem \<Rightarrow> mem \<Rightarrow> mem option" where
  "nea2_crypt ctr sc m out = (case nas_stream_encrypt_nea2 ctr (sc\<lparr>message := m\<rparr>) out of
     Return (_, out') \<Rightarrow> Some out' | _ \<Rightarrow> None)"

lemma nea2_keystream:
  assumes "counter_mode ctr stream" and k: "key sc = Some k" "16 \<le> length k"
  shows "keystream_cipher (nea2_crypt ctr sc) (unat (blength sc)) (unat (byte_length sc))
    (stream (take 16 k) (counter_block sc))"
proof -
  let ?n = "unat (byte_length sc)" and ?z = "unat (blength sc) mod 8"
    and ?s = "stream (take 16 k) (counter_block sc)"
  define data where "data m = map2 (\<lambda>i b. b XOR ?s i) [0..<?n] (take ?n m)" for m :: mem
  have n1: "?n - 1 = unat (blength sc) div 8" "unat (blength sc) div 8 < ?n" if "?z \<noteq> 0"
    using that by (simp_all add: unat_byte_length ceil_8)
  have crypt: "nea2_crypt ctr sc m out = (if ?n \<le> length m \<and> ?n \<le> length out
      then Some ((if ?z \<noteq> 0 then (data m)[?n - 1 := data m ! (?n - 1) AND bit_mask ?z] else data m) @ drop ?n out)
      else None)" for m out
    using k assms(1) by (auto simp: nea2_crypt_def nas_stream_encrypt_nea2_def Let_def unat_zero_bit bit_mask_u32
        counter_mode_def data_def min_def)
  have data: "length (data m) = ?n" "i < ?n \<Longrightarrow> data m ! i = m ! i XOR ?s i" if "?n \<le> length m" for m i
    using that by (simp_all add: data_def)
  show ?thesis
  proof
    fix m out :: mem
    assume "?n \<le> length m" "?n \<le> length out"
    then show "\<exists>out'. nea2_crypt ctr sc m out = Some out' \<and> length out' = length out"
      by (simp add: crypt data)
  next
    fix m out out' :: mem and i
    assume "nea2_crypt ctr sc m out = Some out'" "i < unat (blength sc) div 8"
    then show "out' ! i = m ! i XOR ?s i"
      using n1 by (auto simp: crypt data nth_append unat_byte_length ceil_8 split: if_splits)
  next
    fix m out out' :: mem
    assume "nea2_crypt ctr sc m out = Some out'" "?z \<noteq> 0"
    then show "out' ! (unat (blength sc) div 8) = (m ! (unat (blength sc) div 8) XOR ?s (unat (blength sc) div 8)) AND bit_mask ?z"
      using n1 by (auto simp: crypt data nth_append split: if_splits)
  qed
qed

subsection \<open>Parameters that give the same key stream\<close>

lemma bearer_octet_inject:
  "(bearer_octet b d = bearer_octet b' d') = (b AND 0x1F = b' AND 0x1F \<and> d AND 1 = d' AND 1)"
proof
  have b: "drop_bit 3 (bearer_octet b d) = b AND 0x1F" and d: "drop_bit 2 (bearer_octet b d) AND 1 = d AND 1" for b d
    unfolding octet_masks bearer_octet_def by (rule bit_word_eqI; auto simp add: bit_simps simp del: push_bit_and drop_bit_and mask_Suc_0 One_nat_def)+
  assume "bearer_octet b d = bearer_octet b' d'"
  then show "b AND 0x1F = b' AND 0x1F \<and> d AND 1 = d' AND 1" by (metis b d)
qed (simp add: bearer_octet_def)

lemma nea1_iv2:
  "push_bit 24 (push_bit 3 (ucast b) OR push_bit 2 (ucast d AND 1)) = be32_of (bearer_octet b d) 0 0 0"
proof -
  have one: "(1 :: u32) = mask 1" by simp
  show ?thesis
    unfolding be32_of_def le32_def bearer_octet_def octet_masks one
    by (rule bit_word_eqI) (auto simp add: bit_simps simp del: push_bit_and drop_bit_and mask_Suc_0 One_nat_def dest: bit_imp_le_length)
qed

lemma nea1_iv_inject:
  "(nea1_iv sc = nea1_iv sc') = (count sc = count sc' \<and> bearer sc AND 0x1F = bearer sc' AND 0x1F \<and>
     direction sc AND 1 = direction sc' AND 1)"
  unfolding nea1_iv_def nea1_iv2 Let_def by (auto simp: bearer_octet_inject)

lemma counter_block_inject:
  "(counter_block sc = counter_block sc') = (count sc = count sc' \<and> bearer sc AND 0x1F = bearer sc' AND 0x1F \<and>
     direction sc AND 1 = direction sc' AND 1)"
  by (auto simp: counter_block_def hton_int32_htobe32 bearer_octet_inject)

lemma octets_below_words:
  assumes "1 \<le> n mod 32" "n mod 32 \<le> (24 :: nat)"
  shows "(n + 7) div 8 < (n + 31) div 32 * 4"
proof -
  obtain q r where n: "n = 32 * q + r" and m: "r = n mod 32" by (metis mult_div_mod_eq)
  have r: "1 \<le> r" "r \<le> 24" using assms unfolding m by simp_all
  then have "(n + 31) div 32 = q + 1" using n by (intro div_nat_eqI) simp_all
  then show ?thesis using n r by (simp add: div_less_iff_less_mult)
qed

section \<open>Properties\<close>

text \<open>C14: what NEA1 encrypts it decrypts. With a 16-octet key and blocks of whole 32-bit words that cover
  the message, encrypting a message and encrypting the result again with the same parameters returns 0
  both times and yields a block that agrees with the message in all its bits.\<close>

theorem nea1_roundtrip:
  assumes "key sc = Some k" "16 \<le> length k" "key_length sc = 16" "unat (blength sc) < 2 ^ 32 - 31"
    and "(unat (blength sc) + 31) div 32 * 4 \<le> length (message sc)"
    and "(unat (blength sc) + 31) div 32 * 4 \<le> length out" "(unat (blength sc) + 31) div 32 * 4 \<le> length out'"
  shows "\<exists>sc1 c sc2 p. nas_stream_encrypt_nea1 sc out = Return (0, sc1, c) \<and>
     nas_stream_encrypt_nea1 (sc\<lparr>message := c\<rparr>) out' = Return (0, sc2, p) \<and>
     first_bits (unat (blength sc)) p = first_bits (unat (blength sc)) (message sc)"
proof -
  obtain K where K: "key_words k = Some K" using assms(2) by (simp add: key_words_def)
  have "(unat (blength sc) + 7) div 8 \<le> unat (nea1_words sc) * 4"
    by (simp add: unat_words [OF assms(4)])
  from nea1.twice [OF this, of "message sc" out out' K] assms(5-7)
  obtain c p where "nea1_crypt K sc (message sc) out = Some c" "nea1_crypt K sc c out' = Some p"
      "first_bits (unat (blength sc)) p = first_bits (unat (blength sc)) (message sc)"
    by (auto simp: unat_words [OF assms(4)])
  with K assms(1-3) show ?thesis
    by (auto simp: nas_stream_encrypt_nea1_def nea1_crypt_def)
qed

definition nea1_example :: "nas_stream_cipher" where
  "nea1_example = \<lparr>key = Some (replicate 16 7), key_length = 16, count = 1, bearer = 2, direction = 1,
     message = [1, 2, 3, 4, 5, 6, 7, 8], blength = 60\<rparr>"

theorem nea1_roundtrip_witness:
  "\<exists>sc1 c sc2 p. nas_stream_encrypt_nea1 nea1_example (replicate 8 0) = Return (0, sc1, c) \<and>
     nas_stream_encrypt_nea1 (nea1_example\<lparr>message := c\<rparr>) (replicate 8 0) = Return (0, sc2, p) \<and>
     first_bits (unat (blength nea1_example)) p = first_bits (unat (blength nea1_example)) (message nea1_example)"
  by (rule nea1_roundtrip [where k = "replicate 16 7"]) (simp_all add: nea1_example_def)

text \<open>NEA1 works on whole 32-bit words. When the last word of the message has one to three octets and
  message or output end with the last octet of the message, the call leaves the block.\<close>

theorem nea1_overruns:
  assumes "key sc = Some k" "key_length sc = 16" "unat (blength sc) < 2 ^ 32 - 31"
    and "1 \<le> unat (blength sc) mod 32" "unat (blength sc) mod 32 \<le> 24"
    and "length (message sc) = (unat (blength sc) + 7) div 8 \<or> length out = (unat (blength sc) + 7) div 8"
  shows "nas_stream_encrypt_nea1 sc out = Undef"
proof -
  from octets_below_words [OF assms(4,5)] have "nea1_apply K sc out = None" for K
    using assms(6) by (auto simp: nea1_apply_def Let_def unat_words [OF assms(3)])
  with assms(1,2) show ?thesis by (simp add: nas_stream_encrypt_nea1_def split: option.splits)
qed

theorem nea1_overruns_witness:
  "nas_stream_encrypt_nea1 (nea1_example\<lparr>message := [1, 2, 3, 4, 5], blength := 40\<rparr>) (replicate 5 0) = Undef"
  by (rule nea1_overruns [where k = "replicate 16 7"]) (simp_all add: nea1_example_def)

text \<open>C15: NEA1 does not use a state of the generator twice. Two calls start the generator in the same state
  exactly when the first 16 octets of the key, the count, the low five bits of the bearer and the low bit of
  the direction are the same.\<close>

theorem nea1_stream_unique:
  assumes "key_words k = Some K" "key_words k' = Some K'"
  shows "(snow3g_initialize K (nea1_iv sc) zero_context = snow3g_initialize K' (nea1_iv sc') zero_context) =
     (take 16 k = take 16 k' \<and> count sc = count sc' \<and> bearer sc AND 0x1F = bearer sc' AND 0x1F \<and>
      direction sc AND 1 = direction sc' AND 1)"
  by (simp add: initialize_inject key_words_inject [OF assms] nea1_iv_inject)

theorem nea1_stream_unique_witness:
  "(snow3g_initialize (the (key_words (replicate 16 1))) (nea1_iv nea1_example) zero_context =
    snow3g_initialize (the (key_words (replicate 16 1))) (nea1_iv (nea1_example\<lparr>bearer := 34\<rparr>)) zero_context) =
     (take 16 (replicate 16 (1 :: u8)) = take 16 (replicate 16 1) \<and> count nea1_example = count (nea1_example\<lparr>bearer := 34\<rparr>) \<and>
      bearer nea1_example AND 0x1F = bearer (nea1_example\<lparr>bearer := 34\<rparr>) AND 0x1F \<and>
      direction nea1_example AND 1 = direction (nea1_example\<lparr>bearer := 34\<rparr>) AND 1)"
  by (rule nea1_stream_unique; simp add: key_words_def)

text \<open>C38: what NEA2 encrypts it decrypts, for blocks of exactly the octets of the message, if the counter
  mode of the library adds a key stream that depends on the key and the initial counter block only. The
  counter block is different for every count, bearer of five bits and direction.\<close>

theorem nea2_roundtrip:
  assumes "counter_mode ctr stream" and "key sc = Some k" "16 \<le> length k"
    and "(unat (blength sc) + 7) div 8 \<le> length (message sc)"
    and "(unat (blength sc) + 7) div 8 \<le> length out" "(unat (blength sc) + 7) div 8 \<le> length out'"
  shows "\<exists>c p. nas_stream_encrypt_nea2 ctr sc out = Return (0, c) \<and>
     nas_stream_encrypt_nea2 ctr (sc\<lparr>message := c\<rparr>) out' = Return (0, p) \<and>
     first_bits (unat (blength sc)) p = first_bits (unat (blength sc)) (message sc) \<and>
     (counter_block sc = counter_block sc') = (count sc = count sc' \<and> bearer sc AND 0x1F = bearer sc' AND 0x1F \<and>
       direction sc AND 1 = direction sc' AND 1)"
proof -
  have some: "\<exists>r c. nas_stream_encrypt_nea2 ctr (sc\<lparr>message := m\<rparr>) out = Return (0, c) \<and> c = d"
    if "nea2_crypt ctr sc m out = Some d" for m out d
    using that assms(2) by (auto simp: nea2_crypt_def nas_stream_encrypt_nea2_def Let_def split: if_splits)
  have "(unat (blength sc) + 7) div 8 \<le> unat (byte_length sc)" by (simp add: unat_byte_length)
  from keystream_cipher.twice [OF nea2_keystream [OF assms(1-3)] this, of "message sc" out out'] assms(4-6)
  obtain c p where "nea2_crypt ctr sc (message sc) out = Some c" "nea2_crypt ctr sc c out' = Some p"
      "first_bits (unat (blength sc)) p = first_bits (unat (blength sc)) (message sc)"
    by (auto simp: unat_byte_length)
  with some [of "message sc" out c] some [of c out' p] show ?thesis
    by (auto simp: counter_block_inject)
qed

definition example_ctr :: "mem \<Rightarrow> mem \<Rightarrow> mem \<Rightarrow> mem" where
  "example_ctr k m src = map2 (\<lambda>i b. b XOR (k ! (i mod 16) XOR m ! (i mod 16))) [0..<length src] src"

theorem nea2_roundtrip_witness:
  "\<exists>c p. nas_stream_encrypt_nea2 example_ctr nea1_example (replicate 8 0) = Return (0, c) \<and>
     nas_stream_encrypt_nea2 example_ctr (nea1_example\<lparr>message := c\<rparr>) (replicate 8 0) = Return (0, p) \<and>
     first_bits (unat (blength nea1_example)) p = first_bits (unat (blength nea1_example)) (message nea1_example) \<and>
     (counter_block nea1_example = counter_block nea1_example) =
       (count nea1_example = count nea1_example \<and> bearer nea1_example AND 0x1F = bearer nea1_example AND 0x1F \<and>
        direction nea1_example AND 1 = direction nea1_example AND 1)"
  by (rule nea2_roundtrip [where k = "replicate 16 7" and stream = "\<lambda>k m i. k ! (i mod 16) XOR m ! (i mod 16)"])
     (simp_all add: nea1_example_def counter_mode_def example_ctr_def)

end
