(* ===== verification/Sec_Nia.thy ===== *)
theory Sec_Nia
  imports Sec_Stream "HOL-Library.Monad_Syntax"
begin

text \<open>
  NAS integrity: \<open>nas_stream_encrypt_nia1\<close>, a polynomial over the field of 2 to the 64 elements evaluated at
  words of the SNOW 3G key stream, and \<open>nas_stream_encrypt_nia2\<close>. The arithmetic of the field is that of
  \<open>Sec_Gf2\<close>; the code is equal to the sum over the powers of \<open>P\<close>, for the bits of the message only.
\<close>

subsection \<open>Arithmetic\<close>

definition MUL64x :: "u64 \<Rightarrow> u64 \<Rightarrow> u64" where
  "MUL64x V c = (if V AND 0x8000000000000000 \<noteq> 0 then push_bit 1 V XOR c else push_bit 1 V)"

function MUL64xPOW :: "u64 \<Rightarrow> u32 \<Rightarrow> u64 \<Rightarrow> u64" where
  "MUL64xPOW V i c = (if i = 0 then V else MUL64x (MUL64xPOW V (i - 1) c) c)"
  by auto
termination by (relation "measure (\<lambda>(V, i, c). unat i)") (auto simp: unat_minus_one unat_gt_0)

declare MUL64xPOW.simps [simp del]

definition MUL64 :: "u64 \<Rightarrow> u64 \<Rightarrow> u64 \<Rightarrow> u64" where
  "MUL64 V P c = fold (\<lambda>i result. if drop_bit i P AND 1 \<noteq> 0 then result XOR MUL64xPOW V (of_nat i) c else result)
     [0..<64] 0"

text \<open>The callers pass a number from 0 to 31.\<close>

definition mask32bit :: "nat \<Rightarrow> u32" where
  "mask32bit n = (if n mod 32 = 0 then 0xffffffff else ((\<lambda>mask. drop_bit 1 mask XOR 0x80000000) ^^ n) 0)"

subsection \<open>NIA1\<close>

definition nia1_iv :: "nas_stream_cipher \<Rightarrow> words4" where
  "nia1_iv sc = (
     push_bit 27 (ucast (bearer sc) AND 0x1F) XOR push_bit 15 (ucast (direction sc AND 1)),
     count sc XOR push_bit 31 (ucast (direction sc)),
     push_bit 27 (ucast (bearer sc) AND 0x1F),
     count sc)"

text \<open>\<open>message[j]\<close> of the message taken as an array of 32-bit words.\<close>

definition message_word :: "mem \<Rightarrow> int \<Rightarrow> u32 option" where
  "message_word m j = (if 0 \<le> j \<and> 4 * nat j + 4 \<le> length m then Some (word_at m (4 * nat j)) else None)"

primrec nia1_loop :: "mem \<Rightarrow> u64 \<Rightarrow> nat \<Rightarrow> u64 option" where
  "nia1_loop m P 0 = Some 0"
| "nia1_loop m P (Suc i) = do {
     EVAL \<leftarrow> nia1_loop m P i;
     a \<leftarrow> message_word m (2 * int i);
     b \<leftarrow> message_word m (2 * int i + 1);
     Some (MUL64 (EVAL XOR (push_bit 32 (ucast (hton_int32 a)) OR ucast (hton_int32 b))) P 0x1b)
   }"

definition nia1_last :: "mem \<Rightarrow> int \<Rightarrow> nat \<Rightarrow> u64 option" where
  "nia1_last m D blen = (let
     rem_bits = (if blen mod 64 = 0 then 64 else blen mod 64);
     mask = mask32bit (rem_bits mod 32)
   in do {
     a \<leftarrow> message_word m (2 * (D - 2));
     if rem_bits > 32 then do {
       b \<leftarrow> message_word m (2 * (D - 2) + 1);
       Some (push_bit 32 (ucast (hton_int32 a)) OR ucast (hton_int32 b AND mask))
     } else Some (push_bit 32 (ucast (hton_int32 a) AND ucast mask))
   })"

definition nia1_mac :: "mem \<Rightarrow> nat \<Rightarrow> u32 list \<Rightarrow> u32 option" where
  "nia1_mac m blen z = (let
     P = push_bit 32 (ucast (z ! 0)) OR ucast (z ! 1) :: u64;
     Q = push_bit 32 (ucast (z ! 2)) OR ucast (z ! 3) :: u64;
     D = int ((blen + 63) div 64) + 1
   in do {
     EVAL \<leftarrow> nia1_loop m P (nat (D - 2));
     M_D_2 \<leftarrow> nia1_last m D blen;
     let EVAL = MUL64 (EVAL XOR M_D_2) P 0x1b;
     let EVAL = EVAL XOR of_nat blen;
     let EVAL = MUL64 EVAL Q 0x1b;
     Some (ucast (drop_bit 32 EVAL) XOR z ! 4)
   })"

text \<open>The context is not cleared before \<open>snow3g_initialize\<close>, which sets all of it.\<close>

definition nas_stream_encrypt_nia1 ::
    "snow_3g_context \<Rightarrow> nas_stream_cipher \<Rightarrow> mem \<Rightarrow> (int \<times> mem) run" where
  "nas_stream_encrypt_nia1 ctx sc out = (case Option.bind (key sc) key_words of
     None \<Rightarrow> Undef
   | Some K \<Rightarrow> (let z = fst (snow3g_generate_key_stream 5 (snow3g_initialize K (nia1_iv sc) ctx)) in
       case nia1_mac (message sc) (unat (blength sc)) z of
         None \<Rightarrow> Undef
       | Some MAC_I \<Rightarrow> if length out < 4 then Undef
           else Return (0, bytes32 (hton_int32 MAC_I) @ drop 4 out)))"

subsection \<open>NIA2\<close>

definition nas_stream_encrypt_nia2 :: "nas_stream_cipher \<Rightarrow> mem \<Rightarrow> (int \<times> mem) run" where
  "nas_stream_encrypt_nia2 sc out = Return (0, out)"

subsection \<open>The product is that of a ring\<close>

lemma MUL64x_shift_xor: "MUL64x V c = shift_xor c V"
proof -
  have "(V AND 0x8000000000000000 \<noteq> 0) = bit V 63" by (simp add: bit_iff_and_push_bit_not_eq_0)
  then show ?thesis by (simp add: MUL64x_def shift_xor_def)
qed

interpretation mul64: times_x "\<lambda>V. MUL64x V c" for c :: u64
  using times_x_shift_xor [of c] by (simp add: MUL64x_shift_xor [abs_def])

lemma MUL64xPOW_funpow: "MUL64xPOW V i c = ((\<lambda>V. MUL64x V c) ^^ unat i) V"
proof (induction V i c rule: MUL64xPOW.induct)
  case (1 V i c)
  show ?case
  proof (cases "i = 0")
    case False
    then have "unat i = Suc (unat (i - 1))" by (simp add: unat_minus_one unat_gt_0)
    with False 1 show ?thesis by (subst MUL64xPOW.simps) simp
  qed (simp add: MUL64xPOW.simps)
qed

lemma MUL64_times: "MUL64 V P c = times_by (\<lambda>V. MUL64x V c) V P"
proof -
  have bit: "(drop_bit i P AND 1 \<noteq> 0) = bit P i" for i
    by (simp add: and_one_eq bit_iff_odd_drop_bit odd_iff_mod_2_eq_one)
  have "MUL64 V P c = fold (\<lambda>i r. if bit P i then r XOR ((\<lambda>V. MUL64x V c) ^^ i) V else r) [0..<64] 0"
    unfolding MUL64_def bit by (rule fold_cong) (auto simp: MUL64xPOW_funpow unat_u32_of_nat fun_eq_iff)
  then show ?thesis by (simp add: fold_xor_upto times_by_def)
qed

subsection \<open>The words of a message of \<open>n\<close> bits\<close>

definition octet_or_0 :: "mem \<Rightarrow> nat \<Rightarrow> u8" where
  "octet_or_0 xs j = (if j < length xs then xs ! j else 0)"

definition bits_word :: "mem \<Rightarrow> nat \<Rightarrow> u32" where
  "bits_word xs j = be32_of (octet_or_0 xs (4 * j)) (octet_or_0 xs (4 * j + 1)) (octet_or_0 xs (4 * j + 2))
     (octet_or_0 xs (4 * j + 3))"

definition bits_block :: "mem \<Rightarrow> nat \<Rightarrow> u64" where
  "bits_block xs i = push_bit 32 (ucast (bits_word xs (2 * i))) OR ucast (bits_word xs (2 * i + 1))"

lemma octet_first_bits:
  assumes "(n + 7) div 8 \<le> length m"
  shows "octet_or_0 (first_bits n m) j =
    (if j < n div 8 then m ! j
     else if j = n div 8 \<and> n mod 8 \<noteq> 0 then m ! j AND bit_mask (n mod 8) else 0)"
  using assms by (auto simp: octet_or_0_def first_bits_def ceil_8 nth_append min_def split: if_splits)

text \<open>The octets of a mask of \<open>r\<close> bits.\<close>

definition mask_octet :: "nat \<Rightarrow> nat \<Rightarrow> u8" where
  "mask_octet r k = (if k < r div 8 then 0xFF else if k = r div 8 then bit_mask (r mod 8) else 0)"

lemma bit_mask_0: "bit_mask 0 = 0"
  by (simp add: bit_mask_def)

lemma mask32bit_octets: "r \<in> set [1..<32] \<Longrightarrow>
    mask32bit r = be32_of (mask_octet r 0) (mask_octet r 1) (mask_octet r 2) (mask_octet r 3)"
proof -
  have "list_all (\<lambda>r. mask32bit r = be32_of (mask_octet r 0) (mask_octet r 1) (mask_octet r 2) (mask_octet r 3)) [1..<32]"
    by code_simp
  then show "r \<in> set [1..<32] \<Longrightarrow> ?thesis" by (simp add: list_all_iff)
qed

lemma be32_and: "be32_of a b c d AND be32_of a' b' c' d' = be32_of (a AND a') (b AND b') (c AND c') (d AND d')"
proof -
  have "ucast (v AND w :: u32) = (ucast v AND ucast w :: u8)" for v w
    by (rule bit_word_eqI) (auto simp: bit_simps)
  then show ?thesis by (intro u32_eqI) (simp_all add: ucast_be32 drop_bit_and)
qed

lemma and_ff_u8 [simp]: "(v :: u8) AND 0xFF = v"
proof -
  have "v AND mask 8 = v" by (simp only: take_bit_eq_mask [symmetric]) (simp add: take_bit_word_eq_self)
  then show ?thesis by (simp add: mask_eq_exp_minus_1)
qed

lemma bits_word_full:
  assumes "32 * Suc j \<le> n" "(n + 7) div 8 \<le> length m"
  shows "bits_word (first_bits n m) j = hton_int32 (word_at m (4 * j))"
proof -
  have "4 * j + 4 \<le> n div 8" using assms(1) by (simp add: less_eq_div_iff_mult_less_eq)
  then show ?thesis by (simp add: bits_word_def octet_first_bits [OF assms(2)] hton_word_at)
qed

lemma bits_word_part:
  assumes n: "n = 32 * j + r" "0 < r" "r < 32" and len: "4 * j + 4 \<le> length m"
  shows "bits_word (first_bits n m) j = hton_int32 (word_at m (4 * j)) AND mask32bit r"
proof -
  have d: "n div 8 = 4 * j + r div 8" and z: "n mod 8 = r mod 8"
    using n(1) by (simp_all add: div_add1_eq mod_add_eq [symmetric])
  have "(n + 7) div 8 \<le> length m" using n len by simp
  then have "octet_or_0 (first_bits n m) (4 * j + k) = m ! (4 * j + k) AND mask_octet r k" for k
    by (auto simp: octet_first_bits d z mask_octet_def bit_mask_0)
  from this [of 0] this [of 1] this [of 2] this [of 3] show ?thesis
    using n by (simp add: bits_word_def hton_word_at mask32bit_octets be32_and)
qed

lemma bits_word_none:
  assumes "n \<le> 32 * j" "(n + 7) div 8 \<le> length m"
  shows "bits_word (first_bits n m) j = 0"
proof -
  have "n mod 8 = 0 \<and> n div 8 = 4 * j \<or> n div 8 < 4 * j"
    using assms(1) by (cases "n = 32 * j") (auto simp: div_less_iff_less_mult)
  then have "octet_or_0 (first_bits n m) (4 * j + k) = 0" for k
    unfolding octet_first_bits [OF assms(2)] by auto
  from this [of 0] this [of 1] this [of 2] this [of 3] show ?thesis
    by (simp add: bits_word_def be32_of_def le32_def)
qed

subsection \<open>The loop as a polynomial\<close>

primrec horner :: "u64 \<Rightarrow> (nat \<Rightarrow> u64) \<Rightarrow> nat \<Rightarrow> u64" where
  "horner P f 0 = 0"
| "horner P f (Suc i) = MUL64 (horner P f i XOR f i) P 0x1b"

definition polynomial :: "u64 \<Rightarrow> (nat \<Rightarrow> u64) \<Rightarrow> nat \<Rightarrow> u64" where
  "polynomial P f k = xor_upto (\<lambda>j. ((\<lambda>v. MUL64 v P 0x1b) ^^ (k - j)) (f j)) k"

lemma MUL64_linear: "xor_linear (\<lambda>v. MUL64 v P c)"
  unfolding MUL64_times by (rule mul64.times_linear)

lemma horner_polynomial: "horner P f k = polynomial P f k"
proof (induction k)
  case (Suc k)
  have "horner P f (Suc k) = MUL64 (polynomial P f k) P 0x1b XOR MUL64 (f k) P 0x1b"
    by (simp add: Suc xor_linear.lin [OF MUL64_linear])
  also have "MUL64 (polynomial P f k) P 0x1b = xor_upto (\<lambda>j. ((\<lambda>v. MUL64 v P 0x1b) ^^ (Suc k - j)) (f j)) k"
    unfolding polynomial_def xor_linear.upto [OF MUL64_linear]
    by (rule xor_upto_cong) (simp add: Suc_diff_le)
  finally show ?case by (simp add: polynomial_def)
qed (simp add: polynomial_def)

lemma message_word_nat: "message_word m (int j) = (if 4 * j + 4 \<le> length m then Some (word_at m (4 * j)) else None)"
  by (simp add: message_word_def)

lemma nia1_loop_horner:
  assumes "64 * i \<le> n" "(n + 7) div 8 \<le> length m"
  shows "nia1_loop m P i = Some (horner P (bits_block (first_bits n m)) i)"
  using assms(1)
proof (induction i)
  case (Suc i)
  have "8 * i + 8 \<le> n div 8" using Suc.prems by (simp add: less_eq_div_iff_mult_less_eq)
  then have "8 * i + 8 \<le> length m" using assms(2) by (simp add: ceil_8 split: if_splits)
  then have "message_word m (2 * int i) = Some (word_at m (8 * i))"
    "message_word m (2 * int i + 1) = Some (word_at m (4 + 8 * i))"
    using message_word_nat [of m "2 * i"] message_word_nat [of m "2 * i + 1"] by (simp_all add: add.commute)
  then show ?case
    using Suc bits_word_full [OF _ assms(2), of "2 * i"] bits_word_full [OF _ assms(2), of "2 * i + 1"]
    by (simp add: bits_block_def)
qed simp

text \<open>The number of blocks and of bits in the last one.\<close>

lemma last_block:
  assumes "0 < n"
  obtains q r where "n = 64 * q + r" "0 < r" "r \<le> 64" "(n + 63) div 64 = Suc q"
    "(if n mod 64 = 0 then 64 else n mod 64) = r" "(n + 31) div 32 = 2 * q + (if r \<le> 32 then 1 else 2)"
proof -
  obtain q r' where "n - 1 = 64 * q + r'" and m: "r' = (n - 1) mod 64" by (metis mult_div_mod_eq)
  then have n: "n = 64 * q + Suc r'" and r: "r' < 64" using assms by auto
  have "(n + 63) div 64 = Suc q" using n r by (intro div_nat_eqI) simp_all
  moreover have "(n + 31) div 32 = 2 * q + (if Suc r' \<le> 32 then 1 else 2)"
    using n r by (intro div_nat_eqI) (auto split: if_splits)
  moreover have "(if n mod 64 = 0 then 64 else n mod 64) = Suc r'"
    unfolding n using r by (cases "Suc r' = 64") auto
  ultimately show thesis using that [OF n] r by simp
qed

lemma nia1_last_block:
  assumes n: "n = 64 * q + r" "0 < r" "r \<le> 64" "(if n mod 64 = 0 then 64 else n mod 64) = r"
    and len: "(n + 7) div 8 \<le> length m"
  shows "nia1_last m (int q + 2) n = (if 4 * (2 * q + (if r \<le> 32 then 1 else 2)) \<le> length m
    then Some (bits_block (first_bits n m) q) else None)"
proof (cases "r \<le> 32")
  case True
  have a: "message_word m (2 * int q) = (if 8 * q + 4 \<le> length m then Some (word_at m (8 * q)) else None)"
    using message_word_nat [of m "2 * q"] by simp
  have b: "bits_word (first_bits n m) (2 * q + 1) = 0" using n True by (intro bits_word_none len) simp
  have "bits_word (first_bits n m) (2 * q) = hton_int32 (word_at m (8 * q)) AND mask32bit (r mod 32)"
    if "8 * q + 4 \<le> length m"
  proof (cases "r = 32")
    case True
    then show ?thesis using bits_word_full [OF _ len, of "2 * q"] n by (simp add: mask32bit_def and_fffffff)
  next
    case False
    then show ?thesis using bits_word_part [of n "2 * q" r m] n that \<open>r \<le> 32\<close> by simp
  qed
  with True b n(4) show ?thesis
    by (simp add: nia1_last_def Let_def a bits_block_def unsigned_and_eq)
next
  case False
  have "8 * q + 4 \<le> length m" using n False len by linarith
  then have a: "message_word m (2 * int q) = Some (word_at m (8 * q))"
    using message_word_nat [of m "2 * q"] by simp
  have b: "message_word m (2 * int q + 1) = (if 8 * q + 8 \<le> length m then Some (word_at m (4 + 8 * q)) else None)"
    using message_word_nat [of m "2 * q + 1"] by (simp add: add.commute)
  have a': "bits_word (first_bits n m) (2 * q) = hton_int32 (word_at m (8 * q))"
    using bits_word_full [OF _ len, of "2 * q"] n False by simp
  have "bits_word (first_bits n m) (2 * q + 1) = hton_int32 (word_at m (4 + 8 * q)) AND mask32bit (r mod 32)"
    if "8 * q + 8 \<le> length m"
  proof (cases "r = 64")
    case True
    then show ?thesis using bits_word_full [OF _ len, of "2 * q + 1"] n by (simp add: mask32bit_def and_fffffff)
  next
    case r: False
    have "r mod 32 = r - 32" using n(3) False r by (intro mod_nat_eqI) auto
    then show ?thesis using bits_word_part [of n "2 * q + 1" "r - 32" m] n that False r by simp
  qed
  with False a a' b n(4) show ?thesis
    by (simp add: nia1_last_def Let_def bits_block_def)
qed

definition nia1_reference :: "mem \<Rightarrow> nat \<Rightarrow> u32 list \<Rightarrow> u32" where
  "nia1_reference xs n z = (let
     P = push_bit 32 (ucast (z ! 0)) OR ucast (z ! 1);
     Q = push_bit 32 (ucast (z ! 2)) OR ucast (z ! 3)
   in ucast (drop_bit 32 (MUL64 (polynomial P (bits_block xs) ((n + 63) div 64) XOR of_nat n) Q 0x1b)) XOR z ! 4)"

lemma nia1_mac_value:
  assumes len: "(n + 7) div 8 \<le> length m"
  shows "nia1_mac m n z = (if 0 < n \<and> 4 * ((n + 31) div 32) \<le> length m
    then Some (nia1_reference (first_bits n m) n z) else None)"
proof (cases "n = 0")
  case True
  then show ?thesis by (simp add: nia1_mac_def nia1_last_def message_word_def Let_def)
next
  case False
  then have "0 < n" by simp
  then obtain q r where n: "n = 64 * q + r" "0 < r" "r \<le> 64" "(if n mod 64 = 0 then 64 else n mod 64) = r"
    and blocks: "(n + 63) div 64 = Suc q" and words: "(n + 31) div 32 = 2 * q + (if r \<le> 32 then 1 else 2)"
    by (rule last_block)
  have loop: "nia1_loop m P q = Some (horner P (bits_block (first_bits n m)) q)" for P
    using nia1_loop_horner [OF _ len, of q] n(1) by simp
  have D: "int ((n + 63) div 64) + 1 = int q + 2" "nat (int q + 2 - 2) = q" by (simp_all add: blocks)
  show ?thesis
    unfolding nia1_mac_def D Let_def loop nia1_last_block [OF n len] words
    using \<open>0 < n\<close> by (simp add: nia1_reference_def Let_def blocks horner_polynomial [symmetric])
qed

section \<open>Properties\<close>

text \<open>C16: \<open>MUL64\<close> is the product of a commutative ring, for every modulus: exclusive or is its sum, 1 is its
  unit and \<open>MUL64x\<close> is the product with the unknown.\<close>

theorem MUL64_ring:
  "MUL64 V P c = MUL64 P V c \<and> MUL64 (MUL64 V P c) Q c = MUL64 V (MUL64 P Q c) c \<and>
   MUL64 (V XOR P) Q c = MUL64 V Q c XOR MUL64 P Q c \<and> MUL64 1 V c = V \<and> MUL64 2 V c = MUL64x V c"
proof (intro conjI)
  show "MUL64 V P c = MUL64 P V c" unfolding MUL64_times by (rule mul64.times_commute)
  show "MUL64 (MUL64 V P c) Q c = MUL64 V (MUL64 P Q c) c" unfolding MUL64_times by (rule mul64.times_assoc)
  show "MUL64 (V XOR P) Q c = MUL64 V Q c XOR MUL64 P Q c" unfolding MUL64_times by (rule mul64.times_xor_left)
  show "MUL64 1 V c = V" unfolding MUL64_times by (rule mul64.times_one_left)
  show "MUL64 2 V c = MUL64x V c"
    using mul64.times_pow [of c 1 1 V] mul64.shift [of 0 c] unfolding MUL64_times by (simp add: mul64.times_one_left)
qed

text \<open>C13: NIA1 computes its specification. With a key, a message of at least one bit in a block of whole
  32-bit words and room for the code, the call returns 0 and writes the four octets of the code: the
  polynomial in \<open>P\<close> whose coefficients are the 64-bit blocks of the message, padded with zeros, plus the
  length, times \<open>Q\<close>, and the last word of the key stream. Octets and bits after the message have no
  influence.\<close>

theorem nia1_computes_reference:
  assumes "key sc = Some k" "key_words k = Some K" "0 < blength sc"
    and "4 * ((unat (blength sc) + 31) div 32) \<le> length (message sc)" "4 \<le> length out"
  shows "nas_stream_encrypt_nia1 ctx sc out = Return (0,
     bytes32 (hton_int32 (nia1_reference (first_bits (unat (blength sc)) (message sc)) (unat (blength sc))
       (fst (snow3g_generate_key_stream 5 (snow3g_initialize K (nia1_iv sc) ctx))))) @ drop 4 out)"
proof -
  have "(unat (blength sc) + 7) div 8 \<le> 4 * ((unat (blength sc) + 31) div 32)" by presburger
  with assms(4) have "(unat (blength sc) + 7) div 8 \<le> length (message sc)" by (rule order.trans [rotated])
  moreover have "0 < unat (blength sc)" using assms(3) by (simp add: unat_gt_0 word_gt_0)
  ultimately show ?thesis
    using assms by (simp add: nas_stream_encrypt_nia1_def nia1_mac_value Let_def)
qed

definition nia1_example :: "nas_stream_cipher" where
  "nia1_example = \<lparr>key = Some (replicate 16 7), key_length = 16, count = 1, bearer = 2, direction = 1,
     message = [1, 2, 3, 4, 5, 6, 7, 8, 9, 10, 11, 12], blength = 75\<rparr>"

theorem nia1_computes_reference_witness:
  "nas_stream_encrypt_nia1 zero_context nia1_example (replicate 4 0) = Return (0,
     bytes32 (hton_int32 (nia1_reference (first_bits (unat (blength nia1_example)) (message nia1_example))
       (unat (blength nia1_example))
       (fst (snow3g_generate_key_stream 5 (snow3g_initialize (the (key_words (replicate 16 7))) (nia1_iv nia1_example) zero_context)))))
       @ drop 4 (replicate 4 0))"
  by (rule nia1_computes_reference [where k = "replicate 16 7"]) (simp_all add: nia1_example_def key_words_def)

text \<open>C39: when NIA1 leaves its blocks. For a message in a block that holds all its octets the call is
  undefined exactly when the message is empty (it reads two words before the block), when the block does not
  hold the whole 32-bit word the message ends in, or when there is no room for the code.\<close>

theorem nia1_undefined_iff:
  assumes "key sc = Some k" "16 \<le> length k" "(unat (blength sc) + 7) div 8 \<le> length (message sc)"
  shows "(nas_stream_encrypt_nia1 ctx sc out = Undef) =
     (blength sc = 0 \<or> length (message sc) < 4 * ((unat (blength sc) + 31) div 32) \<or> length out < 4)"
proof -
  obtain K where "key_words k = Some K" using assms(2) by (simp add: key_words_def)
  moreover have "(0 < unat (blength sc)) = (blength sc \<noteq> 0)" by (simp add: unat_gt_0 word_gt_0)
  ultimately show ?thesis
    using assms by (auto simp: nas_stream_encrypt_nia1_def nia1_mac_value Let_def)
qed

theorem nia1_undefined_iff_witness:
  "(nas_stream_encrypt_nia1 zero_context (nia1_example\<lparr>message := [1, 2, 3, 4, 5, 6, 7, 8, 9, 10]\<rparr>) (replicate 4 0) = Undef) =
     (blength (nia1_example\<lparr>message := [1, 2, 3, 4, 5, 6, 7, 8, 9, 10]\<rparr>) = 0 \<or>
      length (message (nia1_example\<lparr>message := [1, 2, 3, 4, 5, 6, 7, 8, 9, 10]\<rparr>))
        < 4 * ((unat (blength (nia1_example\<lparr>message := [1, 2, 3, 4, 5, 6, 7, 8, 9, 10]\<rparr>)) + 31) div 32) \<or>
      length (replicate 4 (0 :: u8)) < 4)"
  by (rule nia1_undefined_iff [where k = "replicate 16 7"]) (simp_all add: nia1_example_def)

end
