(* ===== verification/Sec_Kdf.thy ===== *)
theory Sec_Kdf
  imports Sec_Nea Sec_Nia
begin

text \<open>
  Key derivation, \<open>kdf.c\<close> and \<open>key_nas_deriver.c\<close>. HMAC-SHA-256 of the nettle library is the parameter
  \<open>hmac\<close>, from a key and data to the digest of 32 octets; \<open>calloc\<close> succeeds. A call that leaves a block is
  \<open>None\<close>.
\<close>

definition kdf :: "(mem \<Rightarrow> mem \<Rightarrow> mem) \<Rightarrow> mem \<Rightarrow> nat \<Rightarrow> mem \<Rightarrow> nat \<Rightarrow> mem \<Rightarrow> nat \<Rightarrow> mem option" where
  "kdf hmac k key_len s s_len out out_len =
     (if length k < key_len \<or> length s < s_len \<or> length out < out_len then None
      else Some (take out_len (hmac (take key_len k) (take s_len s)) @ drop out_len out))"

definition FC_KENB :: u8 where "FC_KENB = 0x11"
definition FC_ALG_KEY_DER :: u8 where "FC_ALG_KEY_DER = 0x15"

definition keNB_input :: "u32 \<Rightarrow> mem" where
  "keNB_input nas_count = [FC_KENB,
     ucast (drop_bit 24 (nas_count AND 0xff000000)), ucast (drop_bit 16 (nas_count AND 0x00ff0000)),
     ucast (drop_bit 8 (nas_count AND 0x0000ff00)), ucast (nas_count AND 0x000000ff), 0x00, 0x04]"

definition derive_keNB :: "(mem \<Rightarrow> mem \<Rightarrow> mem) \<Rightarrow> mem \<Rightarrow> u32 \<Rightarrow> mem \<Rightarrow> (int \<times> mem) option" where
  "derive_keNB hmac kasme_32 nas_count keNB =
     map_option (\<lambda>out. (0, out)) (kdf hmac kasme_32 32 (keNB_input nas_count) 7 keNB 32)"

datatype algorithm_type_dist_t = NAS_ENC_ALG | NAS_INT_ALG | RRC_ENC_ALG | RRC_INT_ALG | UP_ENC_ALG | UP_INT_ALG

fun alg_type_value :: "algorithm_type_dist_t \<Rightarrow> u32" where
  "alg_type_value NAS_ENC_ALG = 1"
| "alg_type_value NAS_INT_ALG = 2"
| "alg_type_value RRC_ENC_ALG = 3"
| "alg_type_value RRC_INT_ALG = 4"
| "alg_type_value UP_ENC_ALG = 5"
| "alg_type_value UP_INT_ALG = 6"

definition key_nas_input :: "algorithm_type_dist_t \<Rightarrow> u8 \<Rightarrow> mem" where
  "key_nas_input nas_alg_type nas_enc_alg_id =
     [FC_ALG_KEY_DER, ucast (alg_type_value nas_alg_type AND 0xFF), 0x00, 0x01, nas_enc_alg_id, 0x00, 0x01]"

definition derive_key_nas ::
    "(mem \<Rightarrow> mem \<Rightarrow> mem) \<Rightarrow> algorithm_type_dist_t \<Rightarrow> u8 \<Rightarrow> mem \<Rightarrow> mem \<Rightarrow> (int \<times> mem) option" where
  "derive_key_nas hmac nas_alg_type nas_enc_alg_id kasme_32 knas =
     Option.bind (kdf hmac kasme_32 32 (key_nas_input nas_alg_type nas_enc_alg_id) 7 (replicate 32 0) 32)
       (\<lambda>out. if length knas < 16 then None else Some (0, take 16 (drop (31 - 16 + 1) out) @ drop 16 knas))"

definition derive_key_nas_enc :: "(mem \<Rightarrow> mem \<Rightarrow> mem) \<Rightarrow> u8 \<Rightarrow> mem \<Rightarrow> mem \<Rightarrow> (int \<times> mem) option" where
  "derive_key_nas_enc hmac = derive_key_nas hmac NAS_ENC_ALG"

definition derive_key_nas_int :: "(mem \<Rightarrow> mem \<Rightarrow> mem) \<Rightarrow> u8 \<Rightarrow> mem \<Rightarrow> mem \<Rightarrow> (int \<times> mem) option" where
  "derive_key_nas_int hmac = derive_key_nas hmac NAS_INT_ALG"

subsection \<open>Inputs of the derivation\<close>

lemma keNB_input_octets: "keNB_input n = FC_KENB # bytes32 (hton_int32 n) @ [0x00, 0x04]"
proof -
  have "ucast (drop_bit 24 (n AND 0xff000000)) = (ucast (drop_bit 24 n) :: u8)"
    "ucast (drop_bit 16 (n AND 0x00ff0000)) = (ucast (drop_bit 16 n) :: u8)"
    "ucast (drop_bit 8 (n AND 0x0000ff00)) = (ucast (drop_bit 8 n) :: u8)"
    unfolding byte_masks
    by (rule bit_word_eqI; auto simp add: bit_simps simp del: drop_bit_and dest: bit_imp_le_length)+
  then show ?thesis
    by (simp add: keNB_input_def hton_int32_htobe32 bytes32_htobe32)
qed

lemma alg_type_inject [simp]:
  "(ucast (alg_type_value a) = (ucast (alg_type_value b) :: u8)) = (a = b)"
  by (cases a; cases b) simp_all

lemma inputs_differ:
  "(key_nas_input a i = key_nas_input a' i') = (a = a' \<and> i = i')"
  "(keNB_input n = keNB_input n') = (n = n')" "key_nas_input a i \<noteq> keNB_input n"
  by (auto simp: key_nas_input_def keNB_input_octets hton_int32_htobe32 FC_KENB_def FC_ALG_KEY_DER_def)

lemma iv_eq: "(nea1_iv sc = nia1_iv sc) = (direction sc AND 1 = 0)"
proof
  assume "nea1_iv sc = nia1_iv sc"
  then have "push_bit 31 (ucast (direction sc)) = (0 :: u32)"
    by (simp add: nea1_iv_def nia1_iv_def Let_def)
  then have "bit (push_bit 31 (ucast (direction sc)) :: u32) 31 = False" by simp
  then have "\<not> bit (direction sc) 0" by (simp add: bit_simps)
  then show "direction sc AND 1 = 0" by (simp add: and_one_eq even_iff_mod_2_eq_zero bit_0)
next
  assume d: "direction sc AND 1 = 0"
  then have d0: "\<not> bit (direction sc) 0" by (simp add: and_one_eq bit_0 even_iff_mod_2_eq_zero)
  have "push_bit 31 (ucast (direction sc)) = (0 :: u32)"
    using d0 by (intro bit_word_eqI) (auto simp: bit_simps)
  moreover have "push_bit 24 (push_bit 3 (ucast (bearer sc)) OR push_bit 2 (ucast (direction sc) AND 1))
      = (push_bit 27 (ucast (bearer sc) AND 0x1F) :: u32)"
  proof -
    have "ucast (direction sc) AND mask 1 = (0 :: u32)"
      using d0 by (intro bit_word_eqI) (auto simp add: bit_simps less_one simp del: mask_Suc_0 One_nat_def intro!: gr0I)
    then have m: "(0x1F :: u32) = mask 5" "ucast (direction sc) AND 1 = (0 :: u32)"
      by (simp_all add: mask_eq_exp_minus_1)
    show ?thesis unfolding m
      by (rule bit_word_eqI) (auto simp add: bit_simps simp del: push_bit_and dest: bit_imp_le_length)
  qed
  ultimately show "nea1_iv sc = nia1_iv sc"
    unfolding nea1_iv_def nia1_iv_def Let_def using d by simp
qed

section \<open>Properties\<close>

text \<open>C40: derived keys. With a digest of 32 octets and blocks that are long enough, the NAS keys are the last
  16 octets of the digest of a string made of the kind and the number of the algorithm, the key of the base
  station is the digest of a string made of the count; the strings are different for different kinds,
  numbers and counts, so no two keys are derived from the same data.\<close>

theorem derived_keys_separate:
  assumes "\<And>k s. length (hmac k s) = 32" "32 \<le> length kasme" "16 \<le> length knas" "32 \<le> length keNB"
  shows "derive_key_nas hmac a i kasme knas
      = Some (0, drop 16 (hmac (take 32 kasme) (key_nas_input a i)) @ drop 16 knas) \<and>
    derive_keNB hmac kasme n keNB = Some (0, hmac (take 32 kasme) (keNB_input n) @ drop 32 keNB) \<and>
    (key_nas_input a i = key_nas_input a' i') = (a = a' \<and> i = i') \<and>
    (keNB_input n = keNB_input n') = (n = n') \<and> key_nas_input a i \<noteq> keNB_input n"
proof -
  have l: "length (key_nas_input a i) = 7" "length (keNB_input n) = 7"
    by (simp_all add: key_nas_input_def keNB_input_def)
  then show ?thesis
    using assms by (simp add: derive_key_nas_def derive_keNB_def kdf_def inputs_differ)
qed

definition example_hmac :: "mem \<Rightarrow> mem \<Rightarrow> mem" where
  "example_hmac k s = take 32 (s @ k @ replicate 32 0)"

theorem derived_keys_separate_witness:
  "derive_key_nas example_hmac NAS_INT_ALG 1 (replicate 32 9) (replicate 16 0)
      = Some (0, drop 16 (example_hmac (take 32 (replicate 32 9)) (key_nas_input NAS_INT_ALG 1)) @ drop 16 (replicate 16 0)) \<and>
    derive_keNB example_hmac (replicate 32 9) 5 (replicate 32 0)
      = Some (0, example_hmac (take 32 (replicate 32 9)) (keNB_input 5) @ drop 32 (replicate 32 0)) \<and>
    (key_nas_input NAS_INT_ALG 1 = key_nas_input NAS_ENC_ALG 1) = (NAS_INT_ALG = NAS_ENC_ALG \<and> (1 :: u8) = 1) \<and>
    (keNB_input 5 = keNB_input 6) = ((5 :: u32) = 6) \<and> key_nas_input NAS_INT_ALG 1 \<noteq> keNB_input 5"
  by (rule derived_keys_separate) (simp_all add: example_hmac_def)

text \<open>NEA1 and NIA1 under one key start the generator in the same state exactly when the direction is
  even, as it is uplink: the keys of the two must be different.\<close>

theorem nea1_nia1_same_state:
  "(snow3g_initialize K (nea1_iv sc) c = snow3g_initialize K (nia1_iv sc) c') = (direction sc AND 1 = 0)"
  by (simp add: initialize_inject iv_eq)

end
