(* ===== verification/Spec2Isabelle.thy ===== *)
theory Spec2Isabelle
  imports Nas_Mm SM_Termination Upf_Datapath Sec_Kdf
begin

text \<open>
  Verification of three C programs of this 5G core: the non-access stratum (NAS) codec of the session
  management function, \<open>src/component/oai-smf/src/nas\<close> with its TLV layer in \<open>common\<close>; the NAS security
  algorithms beside it, \<open>nas/security\<close>; and the datapath of the user plane function,
  \<open>src/component/oai-upf/src/upf_app/bpf\<close>, with the control side that installs it,
  \<open>SessionProgramManager.cpp\<close>.

  \<^bold>\<open>The codec.\<close> A layer 3 message (\<open>nas_message.c\<close>) is a plain session or mobility management message, or
  one under a security header. A session management message (\<open>sm/sm_msg.c\<close>) is four header octets and one of
  sixteen messages (\<open>sm/msg/*.c\<close>), each a sequence of mandatory information elements and a set of optional
  ones marked by presence bits. A mobility management message (\<open>mm/msg/mm_msg.c\<close>) is three header octets and one
  of fourteen messages of the same form (\<open>mm/msg/*.c\<close>). Each information element (\<open>ies/*.c\<close>) has an encoder, which writes it into a
  buffer, and a decoder, which fills a structure. All are written over the macros of \<open>common_defs.h\<close>,
  \<open>TLVEncoder.h\<close> and \<open>TLVDecoder.h\<close> and over \<open>encode_bstring\<close> and \<open>decode_bstring\<close>.

  \<^bold>\<open>The security algorithms.\<close> \<open>snow3g.c\<close> is a key stream generator: a shift register and a state machine
  that are loaded from a key and an initialization vector. \<open>nas_stream_nea1.c\<close> adds its stream to a message,
  \<open>nas_stream_nia1.c\<close> evaluates the message as a polynomial at words of it; \<open>nas_stream_nea2.c\<close> does the same
  as the former with AES in counter mode. \<open>kdf.c\<close> and \<open>key_nas_deriver.c\<close> derive their keys.

  \<^bold>\<open>The datapath.\<close> Three XDP programs process a frame. The session lookup
  (\<open>pfcp_session_lookup_ebpf_xdp_prgrm_kernel.c\<close>) takes the headers apart and calls the program of the session
  by a key of tunnel endpoint, direction and user address; the rule lookup
  (\<open>pfcp_session_pdr_lookup_ebpf_xdp_prgrm_kernel.c\<close>) finds a detection rule; the forwarding program
  (\<open>far_ebpf_xdp_prgrm_kernel.c\<close>) adds or removes the tunnel headers, with the checksums of \<open>csum.h\<close>, and
  redirects the frame. The control side fills the maps through which they find each other.

  \<^bold>\<open>How they are modelled.\<close> A pointer to octets is the list of octets from it to the end of its object, or
  \<open>NULL\<close>; a frame is the octets between \<open>data\<close> and \<open>data_end\<close>. An access outside is undefined behaviour:
  \<open>None\<close> (encoders, element decoders, datapath), \<open>Undefined\<close> (message decoders, where \<open>None\<close> means that the
  call does not return) or \<open>Undef\<close> (security algorithms). Machine integers are words of their width, so
  \<open>len - encoded\<close> wraps where it wraps in the code; the host is little-endian. Structures are records, octet
  strings lists, unions records of which only the selected member is accessed. An encoder is a list of
  commands run from the cursor \<open>encoded\<close>; a message decoder is a list of mandatory calls and the partial
  function \<open>ie_loop_until\<close> for \<open>while (len - decoded > 0)\<close>;
  \<open>ie_loop\<close> is the form that stops at an octet 0. BPF maps are partial functions and their
  updates succeed; the helpers of the kernel that the datapath calls are the parameter
  \<open>bpf_helpers\<close>; a tail call that succeeds is a result of its own (\<open>XTail\<close>).
  Counter mode and HMAC of the nettle library are the parameters \<open>ctr\<close> and
  \<open>hmac\<close>. Return codes are integers, negative for the errors of
  \<open>error_code_e\<close>.

  \<^bold>\<open>Theories.\<close>
  \<^item> \<open>Prelude\<close>, \<open>Byte_Order\<close>: words, their octets, masks, conversions.
  \<^item> \<open>Codec\<close>, \<open>Decoder\<close>: the TLV layer, both directions; what commands emit (\<open>emits\<close>, \<open>encodes\<close>), memory safety
    (\<open>safe\<close>, \<open>safe_encoder\<close>), what decoders read (\<open>decodes\<close>, \<open>reads\<close>), and when the loop does not end.
  \<^item> \<open>Ie_Interface\<close>: the contracts between elements and messages, as locales.
  \<^item> \<open>IE_Fixed\<close>, \<open>IE_Network\<close>, \<open>IE_Var\<close>, \<open>IE_Pco\<close>, \<open>IE_QosFlow\<close>, \<open>IE_QosRules\<close>: the elements; each is an
    interpretation of a contract, with its wire format, the values it is valid for and what is read back.
  \<^item> \<open>IE_Mm_Shape\<close>: the contract \<open>roomy_ie_codec\<close> of encoders that ask for more room than they use, and the shape
    of identifier, length, contents. \<open>IE_Mm_Octet\<close>, \<open>IE_Mm_Tlv\<close>, \<open>IE_Mm_Area\<close>, \<open>IE_Mm_Lists\<close>, \<open>IE_Mm_Var\<close>: the elements
    of mobility management; the loops over lists of areas are the locale \<open>area_loop\<close>.
  \<^item> \<open>SM_Common\<close>, \<open>SM_Establishment\<close>, \<open>SM_Modification\<close>, \<open>SM_Release\<close>, \<open>SM_Auth\<close>: the sixteen messages; for each,
    encoder, decoder, wire format (\<open>_wire\<close>), values it is valid for (\<open>_valid\<close>), what is read back (\<open>_seen\<close>).
  \<^item> \<open>MM_Common\<close>, \<open>MM_Authentication\<close>, \<open>MM_Registration\<close>, \<open>MM_Security\<close>, \<open>MM_Msg\<close>: the fourteen messages of mobility
    management, header and dispatch; \<open>mm_room\<close> is the length a message's encoder and decoder ask for. \<open>Nas_Mm\<close>:
    the layer 3 message over them.
  \<^item> \<open>SM_Msg\<close>: header and dispatch of session management. \<open>SM_Termination\<close>: when the decoders return. \<open>Nas_Message\<close>: the layer 3
    message, counts and authentication code.
  \<^item> \<open>Sec_Gf2\<close>: exclusive or as sum, multiplication by shift and add as the product of a ring (locales
    \<open>xor_linear\<close>, \<open>times_x\<close>). \<open>Sec_Snow3g_Box\<close>, \<open>Sec_Snow3g\<close>: the generator, the recurrence it implements,
    and that it loses no state. \<open>Sec_Stream\<close>: parameters and the contract of a stream cipher
    (\<open>keystream_cipher\<close>). \<open>Sec_Nea\<close>, \<open>Sec_Nia\<close>, \<open>Sec_Kdf\<close>: encryption, integrity, keys.
  \<^item> \<open>Upf_Memory\<close>, \<open>Upf_Csum\<close>, \<open>Upf_Stats\<close>: frames, checksums as arithmetic modulo 65535, action counters.
    \<open>Upf_Session_Lookup\<close>, \<open>Upf_Pdr_Lookup\<close>, \<open>Upf_Far\<close>: the three programs. \<open>Upf_Control\<close>: the control side, its
    reachable states and the contract \<open>pipeline_store\<close>. \<open>Upf_Datapath\<close>: lookup and forwarding composed.

  \<^bold>\<open>Abstract specifications.\<close> The wire format of an element or message is a function from the value to octets.
  An encoder refines it (\<open>encodes\<close>): in a large enough buffer it writes exactly these octets at the start and
  returns their number. A decoder refines it (\<open>decodes\<close>): it reads them back. Where the code does not meet
  this for all values, the condition or the difference is in the contract's \<open>valid\<close> and \<open>seen\<close>, and a
  property states it. The generator is specified by a linear recurrence (\<open>lfsr_seq\<close>, \<open>snow3g_word\<close>), the
  integrity code by a polynomial (\<open>nia1_reference\<close>), the datapath by the shape of the packet that leaves
  (\<open>encapsulated\<close>) for the packet that comes in (\<open>uplink_gpdu\<close>, \<open>ipv4_to\<close>).

  \<^bold>\<open>Bounds.\<close> Lengths below 256, 65536 or 2 to the 31 in hypotheses are those of the length field or of the signed
  result; lengths in bits below 2 to the 32 minus 31 are those for which \<open>blength + 31\<close> does not wrap. No fuel
  is used: counted loops recurse on their bound, and \<open>ie_loop\<close> is a partial function whose result is shown to
  exist exactly when no unknown element is reached.

  \<^bold>\<open>Not modelled.\<close> The success of \<open>calloc\<close> is an argument of the layer
  3 model, and so is the mobility management codec, which \<open>Nas_Mm\<close> supplies. The write-only
  globals \<open>errorCodeEncoder\<close> and \<open>errorCodeDecoder\<close>, logging and debug output,
  and the heap behind decoded structures (arrays and strings are values; \<open>free\<close> empties
  them) are left out, as are the threads of the control side and its filling of the FAR and ARP maps.
  Left out too is the \<open>memset\<close> of \<open>update_dst_mac_address\<close> through the address of a pointer, which writes twelve octets
  over the eight of the pointer on the stack; the updates of maps by \<open>createPipeline\<close> succeed, where the code throws
  when a map is full.
  Not modelled at all: the mobility management messages that \<open>mm_msg.c\<close> does not dispatch,
  which nothing calls; the NGAP codec, which is generated, the vendored string library, the drafts of a
  classifier that the build does not compile, and the other network functions.
\<close>

end
